(* ===== verification/JS_Prelude.thy ===== *)
theory JS_Prelude
  imports Complex_Main "HOL-Library.Sublist" "HOL-Library.Multiset"
begin

text \<open>
  What the web console's TypeScript uses of the language: strings, numbers, insertion-ordered
  sets and maps, nullish values, \<open>Array.prototype.sort\<close>, and results of calls that may throw.

  A JavaScript string is modelled by the bytes of its UTF-8 encoding, so that \<^typ>\<open>string\<close>
  stands for every well-formed string (one with no lone surrogate).  All slicing, splitting and
  prefix tests of the sources are at ASCII characters, which no multi-byte sequence contains.
  \<open>null\<close> and \<open>undefined\<close> are both \<^term>\<open>None\<close> wherever the sources do not tell them apart.
  A number that may be fractional, infinite or \<open>NaN\<close> is a \<open>jsnum\<close>, whose finite
  values are exact rationals (the rounding of binary floating point is not modelled); a number that
  the sources only use as a count or an identifier is an \<^typ>\<open>int\<close>.
\<close>

named_theorems js_eval "definitions that are unfolded to evaluate a closed term"

section \<open>Strings\<close>

definition js_ws1 :: "char \<Rightarrow> bool" where
  "js_ws1 a \<longleftrightarrow> a \<in> {CHR 0x09, CHR 0x0A, CHR 0x0B, CHR 0x0C, CHR 0x0D, CHR 0x20}"

definition js_ws2 :: "char \<Rightarrow> char \<Rightarrow> bool" where
  "js_ws2 a b \<longleftrightarrow> a = CHR 0xC2 \<and> b = CHR 0xA0"

definition js_ws3 :: "char \<Rightarrow> char \<Rightarrow> char \<Rightarrow> bool" where
  "js_ws3 a b c \<longleftrightarrow>
     (a = CHR 0xE1 \<and> b = CHR 0x9A \<and> c = CHR 0x80) \<or>
     (a = CHR 0xE2 \<and> b = CHR 0x80 \<and>
        c \<in> {CHR 0x80, CHR 0x81, CHR 0x82, CHR 0x83, CHR 0x84, CHR 0x85, CHR 0x86, CHR 0x87,
             CHR 0x88, CHR 0x89, CHR 0x8A, CHR 0xA8, CHR 0xA9, CHR 0xAF}) \<or>
     (a = CHR 0xE2 \<and> b = CHR 0x81 \<and> c = CHR 0x9F) \<or>
     (a = CHR 0xE3 \<and> b = CHR 0x80 \<and> c = CHR 0x80) \<or>
     (a = CHR 0xEF \<and> b = CHR 0xBB \<and> c = CHR 0xBF)"

lemmas js_ws_defs = js_ws1_def js_ws2_def js_ws3_def

declare js_ws_defs [js_eval]

text \<open>The characters \<open>trim\<close> removes and \<open>\s\<close> matches: \<open>js_ws_len s\<close> is the number of bytes of the
  white-space character at the head of \<open>s\<close>, 0 when there is none.\<close>

definition js_ws_len :: "string \<Rightarrow> nat" where
  "js_ws_len s = (case s of
     [] \<Rightarrow> 0
   | a # t \<Rightarrow> if js_ws1 a then 1 else (case t of
       [] \<Rightarrow> 0
     | b # u \<Rightarrow> if js_ws2 a b then 2 else (case u of
         [] \<Rightarrow> 0
       | c # _ \<Rightarrow> if js_ws3 a b c then 3 else 0)))"

lemma js_ws_len_le: "js_ws_len s \<le> length s"
  by (auto simp: js_ws_len_def split: list.split)

lemma js_ws_len_Nil [simp]: "js_ws_len [] = 0"
  by (simp add: js_ws_len_def)

function js_trim_start :: "string \<Rightarrow> string" where
  "js_trim_start s = (if js_ws_len s = 0 then s else js_trim_start (drop (js_ws_len s) s))"
  by pat_completeness auto
termination
proof (relation "measure length")
  fix s assume "js_ws_len s \<noteq> 0"
  then show "(drop (js_ws_len s) s, s) \<in> measure length"
    using js_ws_len_le [of s] by (cases s) auto
qed simp

declare js_trim_start.simps [simp del]

fun js_trim_end :: "string \<Rightarrow> string" where
  "js_trim_end [] = []"
| "js_trim_end (c # s) = (if js_trim_start (c # s) = [] then [] else c # js_trim_end s)"

definition js_trim :: "string \<Rightarrow> string" where
  "js_trim s = js_trim_end (js_trim_start s)"

subsection \<open>Trimming is idempotent\<close>

lemma js_trim_start_length: "length (js_trim_start t) \<le> length t"
proof (induction t rule: js_trim_start.induct)
  case (1 t)
  then show ?case by (cases "js_ws_len t = 0") (simp_all add: js_trim_start.simps [of t])
qed

lemma js_trim_length: "length (js_trim s) \<le> length s"
proof -
  have "length (js_trim_end t) \<le> length t" for t by (induction t) auto
  then show ?thesis using js_trim_start_length [of s] le_trans unfolding js_trim_def by blast
qed

lemma js_trim_start_id_iff: "js_trim_start s = s \<longleftrightarrow> js_ws_len s = 0"
proof
  show "js_ws_len s = 0" if id: "js_trim_start s = s"
  proof (rule ccontr)
    assume ne: "js_ws_len s \<noteq> 0"
    then have "length (js_trim_start s) \<le> length (drop (js_ws_len s) s)"
      by (subst js_trim_start.simps) (simp add: js_trim_start_length del: length_drop)
    with ne id js_ws_len_le [of s] show False by simp
  qed
qed (subst js_trim_start.simps, simp)

lemma js_ws_len_trim_start [simp]: "js_ws_len (js_trim_start s) = 0"
proof (induction s rule: js_trim_start.induct)
  case (1 s)
  then show ?case by (subst js_trim_start.simps) simp
qed

lemma js_ws_len_prefix: "js_ws_len (xs @ ys) = js_ws_len xs" if "js_ws_len xs \<noteq> 0"
  using that by (auto simp: js_ws_len_def split: list.splits if_splits)

lemma js_trim_start_append: "js_trim_start xs = [] \<Longrightarrow> js_trim_start (xs @ ys) = js_trim_start ys"
proof (induction xs rule: js_trim_start.induct)
  case (1 xs)
  show ?case
  proof (cases "js_ws_len xs = 0")
    case True
    with "1.prems" have "xs = []" by (simp add: js_trim_start.simps [of xs])
    then show ?thesis by simp
  next
    case False
    with "1.prems" have "js_trim_start (drop (js_ws_len xs) xs) = []"
      by (simp add: js_trim_start.simps [of xs])
    with False "1.IH" have "js_trim_start (drop (js_ws_len xs) xs @ ys) = js_trim_start ys" by simp
    with False show ?thesis
      by (simp add: js_trim_start.simps [of "xs @ ys"] js_ws_len_prefix js_ws_len_le)
  qed
qed

lemma js_trim_end_Nil_iff: "js_trim_end s = [] \<longleftrightarrow> js_trim_start s = []"
  by (cases s) (simp_all add: js_trim_start.simps [of "[]"])

lemma js_trim_end_suffix: "\<exists>w. s = js_trim_end s @ w \<and> js_trim_start w = []"
proof (induction s)
  case Nil
  then show ?case by (simp add: js_trim_start.simps [of "[]"])
next
  case (Cons c s)
  then obtain w where "s = js_trim_end s @ w" "js_trim_start w = []" by blast
  then show ?case by auto
qed

lemma js_trim_end_idem [simp]: "js_trim_end (js_trim_end s) = js_trim_end s"
proof (induction s)
  case (Cons c s)
  show ?case
  proof (cases "js_trim_start (c # s) = []")
    case False
    from js_trim_end_suffix obtain w where w: "s = js_trim_end s @ w" "js_trim_start w = []" by blast
    have "js_trim_start (c # js_trim_end s) \<noteq> []"
    proof
      assume "js_trim_start (c # js_trim_end s) = []"
      from js_trim_start_append [OF this, of w] w have "js_trim_start (c # s) = []" by simp
      with False show False by simp
    qed
    with False Cons show ?thesis by simp
  qed simp
qed simp

lemma js_ws_len_trim_end: "js_ws_len s = 0 \<Longrightarrow> js_ws_len (js_trim_end s) = 0"
  using js_trim_end_suffix [of s] js_ws_len_prefix by metis

lemma js_trim_idem [simp]: "js_trim (js_trim s) = js_trim s"
proof -
  have "js_ws_len (js_trim s) = 0"
    by (simp add: js_trim_def js_ws_len_trim_end)
  then have "js_trim_start (js_trim s) = js_trim s"
    by (simp add: js_trim_start_id_iff)
  then show ?thesis by (simp add: js_trim_def)
qed

lemma js_trim_Nil [simp]: "js_trim [] = []"
  by (simp add: js_trim_def js_trim_start.simps [of "[]"])

text \<open>A string with no white-space byte at either end is unchanged.\<close>

definition js_plain :: "char \<Rightarrow> bool" where
  "js_plain c \<longleftrightarrow> 0x20 < (of_char c :: nat) \<and> (of_char c :: nat) < 0x80"

declare js_plain_def [js_eval]

lemma js_plain_not_ws1: "js_plain c \<Longrightarrow> \<not> js_ws1 c"
  by (auto simp: js_plain_def js_ws1_def)

lemma js_plain_not_ws2: "js_plain c \<Longrightarrow> \<not> js_ws2 c b" "js_plain c \<Longrightarrow> \<not> js_ws2 a c"
  by (auto simp: js_plain_def js_ws2_def)

lemma js_plain_not_ws3: "js_plain c \<Longrightarrow> \<not> js_ws3 c b d" "js_plain c \<Longrightarrow> \<not> js_ws3 a b c"
  by (auto simp: js_plain_def js_ws3_def)

lemmas js_plain_not_ws = js_plain_not_ws1 js_plain_not_ws2 js_plain_not_ws3

lemma js_ws_len_plain: "js_plain c \<Longrightarrow> js_ws_len (c # s) = 0"
  by (simp add: js_ws_len_def js_plain_not_ws split: list.split)

lemma js_ws_len_plain_last: "js_plain c \<Longrightarrow> js_ws_len (t @ [c]) \<le> length t"
proof (cases t rule: remdups_adj.cases)
  case (3 a b u)
  assume "js_plain c"
  with 3 show ?thesis by (cases u) (auto simp: js_ws_len_def js_plain_not_ws)
qed (auto simp: js_ws_len_def js_plain_not_ws)

lemma js_trim_start_plain [simp]: "js_plain c \<Longrightarrow> js_trim_start (c # s) = c # s"
  by (simp add: js_trim_start_id_iff js_ws_len_plain)

lemma js_trim_start_plain_last: "js_plain c \<Longrightarrow> js_trim_start (t @ [c]) \<noteq> []"
proof (induction t rule: length_induct)
  case (1 t)
  let ?n = "js_ws_len (t @ [c])"
  show ?case
  proof (cases "?n = 0")
    case True
    then show ?thesis by (subst js_trim_start.simps) simp
  next
    case False
    have le: "?n \<le> length t" using "1.prems" by (rule js_ws_len_plain_last)
    with False have "length (drop ?n t) < length t" by simp
    with "1" have "js_trim_start (drop ?n t @ [c]) \<noteq> []" by blast
    with False le show ?thesis by (subst js_trim_start.simps) simp
  qed
qed

lemma js_trim_end_plain_last: "js_plain c \<Longrightarrow> js_trim_end (s @ [c]) = s @ [c]"
proof (induction s)
  case (Cons d s)
  with js_trim_start_plain_last [of c "d # s"] show ?case by simp
qed simp

lemma js_trim_plain_ends:
  assumes "s \<noteq> []" and "js_plain (hd s)" and "js_plain (last s)"
  shows "js_trim s = s"
proof -
  from assms have "js_trim_start s = s" by (cases s) auto
  moreover have "js_trim_end s = s"
    using assms js_trim_end_plain_last [of "last s" "butlast s"] by simp
  ultimately show ?thesis by (simp add: js_trim_def)
qed

lemma js_trim_all_plain: "(\<forall>c \<in> set s. js_plain c) \<Longrightarrow> js_trim s = s"
  by (cases "s = []") (simp_all add: js_trim_plain_ends)

section \<open>Text outside ASCII\<close>

text \<open>The UTF-8 bytes of a text given by its code points.\<close>

definition code_point :: "nat \<Rightarrow> string" where
  "code_point n = map char_of
     (if n < 0x80 then [n]
      else if n < 0x800 then [0xC0 + n div 0x40, 0x80 + n mod 0x40]
      else if n < 0x10000 then [0xE0 + n div 0x1000, 0x80 + n div 0x40 mod 0x40, 0x80 + n mod 0x40]
      else [0xF0 + n div 0x40000, 0x80 + n div 0x1000 mod 0x40, 0x80 + n div 0x40 mod 0x40, 0x80 + n mod 0x40])"

definition uni :: "nat list \<Rightarrow> string" where
  "uni ns = concat (map code_point ns)"

lemma code_point_nonempty [simp]: "code_point n \<noteq> []"
  by (simp add: code_point_def)

lemma uni_eq_Nil [simp]: "uni ns = [] \<longleftrightarrow> ns = []"
  by (cases ns) (simp_all add: uni_def)

section \<open>Splitting, joining, case\<close>

text \<open>\<open>s.split(c)\<close> for a one-character separator: never empty.\<close>

fun js_split_on :: "(char \<Rightarrow> bool) \<Rightarrow> string \<Rightarrow> string list" where
  "js_split_on p [] = [[]]"
| "js_split_on p (c # s) =
     (if p c then [] # js_split_on p s
      else (case js_split_on p s of [] \<Rightarrow> [[c]] | w # ws \<Rightarrow> (c # w) # ws))"

abbreviation js_split :: "char \<Rightarrow> string \<Rightarrow> string list" where
  "js_split c \<equiv> js_split_on (\<lambda>d. d = c)"

text \<open>\<open>xs.join(sep)\<close>.\<close>

fun js_join :: "string \<Rightarrow> string list \<Rightarrow> string" where
  "js_join sep [] = []"
| "js_join sep [x] = x"
| "js_join sep (x # y # xs) = x @ sep @ js_join sep (y # xs)"

text \<open>\<open>s.split(/\r?\n/)\<close>: a line feed ends a line, together with a carriage return right before it.\<close>

fun js_split_lines :: "string \<Rightarrow> string list" where
  "js_split_lines [] = [[]]"
| "js_split_lines [c] = (if c = CHR 0x0A then [[], []] else [[c]])"
| "js_split_lines (c # d # s) =
     (if c = CHR 0x0A then [] # js_split_lines (d # s)
      else if c = CHR 0x0D \<and> d = CHR 0x0A then [] # js_split_lines s
      else (case js_split_lines (d # s) of [] \<Rightarrow> [[c]] | w # ws \<Rightarrow> (c # w) # ws))"

text \<open>\<open>toLowerCase\<close>, exact on ASCII letters; other characters are left as they are.\<close>

definition ascii_lower :: "char \<Rightarrow> char" where
  "ascii_lower c = (if 65 \<le> (of_char c :: nat) \<and> (of_char c :: nat) \<le> 90
     then char_of (of_char c + 32 :: nat) else c)"

definition js_lower :: "string \<Rightarrow> string" where
  "js_lower s = map ascii_lower s"

declare ascii_lower_def [js_eval] js_lower_def [js_eval]

lemma js_split_on_nonempty [simp]: "js_split_on p s \<noteq> []"
  by (induction s) (auto split: list.split)

lemma js_split_on_none: "(\<forall>c \<in> set s. \<not> p c) \<Longrightarrow> js_split_on p s = [s]"
  by (induction s) auto

lemma js_split_on_append:
  "(\<forall>c \<in> set w. \<not> p c) \<Longrightarrow> p d \<Longrightarrow> js_split_on p (w @ d # s) = w # js_split_on p s"
  by (induction w) auto

lemma js_split_on_no_sep: "w \<in> set (js_split_on p s) \<Longrightarrow> c \<in> set w \<Longrightarrow> \<not> p c"
  by (induction s arbitrary: w) (fastforce split: if_splits list.splits)+

lemma js_split_join:
  assumes "xs \<noteq> []" and "\<And>x. x \<in> set xs \<Longrightarrow> c \<notin> set x"
  shows "js_split c (js_join [c] xs) = xs"
  using assms
proof (induction "[c]" xs rule: js_join.induct)
  case (2 x)
  then show ?case using js_split_on_none [of x "\<lambda>d. d = c"] by auto
next
  case (3 x y xs)
  then have "js_split c (js_join [c] (y # xs)) = y # xs" by auto
  moreover from 3 have "\<forall>d \<in> set x. d \<noteq> c" by auto
  ultimately show ?case by (simp add: js_split_on_append)
qed simp

lemma js_join_split: "js_join [c] (js_split c s) = s"
proof (induction s)
  case (Cons d s)
  obtain w ws where w: "js_split c s = w # ws" by (cases "js_split c s") auto
  with Cons show ?case by (cases ws) auto
qed simp

lemma ascii_lower_idem [simp]: "ascii_lower (ascii_lower c) = ascii_lower c"
proof (cases "65 \<le> (of_char c :: nat) \<and> (of_char c :: nat) \<le> 90")
  case True
  then have "of_char (ascii_lower c) = (of_char c + 32 :: nat)"
    by (simp add: ascii_lower_def)
  with True show ?thesis by (auto simp: ascii_lower_def)
qed (auto simp: ascii_lower_def)

lemma js_lower_idem [simp]: "js_lower (js_lower s) = js_lower s"
  by (simp add: js_lower_def)

text \<open>Lower-casing does not touch white space, so it commutes with trimming.\<close>

lemma ascii_lower_cases: "ascii_lower c = c \<or> (js_plain c \<and> js_plain (ascii_lower c))"
  by (auto simp: ascii_lower_def js_plain_def)

lemma js_ws1_lower: "js_ws1 (ascii_lower c) = js_ws1 c"
  using ascii_lower_cases [of c] js_plain_not_ws1 by metis

lemma js_ws2_lower: "js_ws2 (ascii_lower a) (ascii_lower b) = js_ws2 a b"
  using ascii_lower_cases [of a] ascii_lower_cases [of b] js_plain_not_ws2 by metis

lemma js_ws3_lower: "js_ws3 (ascii_lower a) (ascii_lower b) (ascii_lower c) = js_ws3 a b c"
proof (cases "js_plain b \<or> js_plain (ascii_lower b)")
  case True
  have "\<not> js_ws3 x y z" if "js_plain y" for x y z
    using that by (auto simp: js_plain_def js_ws3_def)
  moreover from True have "js_plain b" "js_plain (ascii_lower b)"
    using ascii_lower_cases [of b] by auto
  ultimately show ?thesis by blast
next
  case False
  then have "ascii_lower b = b" using ascii_lower_cases [of b] by auto
  then show ?thesis
    using ascii_lower_cases [of a] ascii_lower_cases [of c] js_plain_not_ws3 by metis
qed

lemma js_ws_len_lower: "js_ws_len (js_lower s) = js_ws_len s"
  by (simp add: js_ws_len_def js_lower_def js_ws1_lower js_ws2_lower js_ws3_lower split: list.split)

lemma js_lower_drop: "drop n (js_lower s) = js_lower (drop n s)"
  by (simp add: js_lower_def drop_map)

lemma js_trim_start_lower: "js_trim_start (js_lower s) = js_lower (js_trim_start s)"
proof (induction s rule: js_trim_start.induct)
  case (1 s)
  then show ?case
    by (cases "js_ws_len s = 0")
      (simp_all add: js_trim_start.simps [of s] js_trim_start.simps [of "js_lower s"] js_ws_len_lower
        js_lower_drop)
qed

lemma js_trim_end_lower: "js_trim_end (js_lower s) = js_lower (js_trim_end s)"
proof (induction s)
  case (Cons c s)
  have "js_trim_start (js_lower (c # s)) = [] \<longleftrightarrow> js_trim_start (c # s) = []"
    by (simp only: js_trim_start_lower) (simp add: js_lower_def)
  with Cons show ?case by (simp add: js_lower_def)
qed (simp add: js_lower_def)

lemma js_trim_lower: "js_trim (js_lower s) = js_lower (js_trim s)"
  by (simp add: js_trim_def js_trim_start_lower js_trim_end_lower)

section \<open>Decimal numerals\<close>

definition is_digit :: "char \<Rightarrow> bool" where
  "is_digit c \<longleftrightarrow> 48 \<le> (of_char c :: nat) \<and> (of_char c :: nat) \<le> 57"

definition digit_char :: "nat \<Rightarrow> char" where
  "digit_char d = char_of (48 + d)"

definition digit_val :: "char \<Rightarrow> nat" where
  "digit_val c = of_char c - 48"

declare is_digit_def [js_eval] digit_char_def [js_eval] digit_val_def [js_eval]

lemma is_digit_char [simp]: "d < 10 \<Longrightarrow> is_digit (digit_char d)"
  by (simp add: is_digit_def digit_char_def)

lemma digit_val_char [simp]: "d < 10 \<Longrightarrow> digit_val (digit_char d) = d"
  by (simp add: digit_val_def digit_char_def)

lemma is_digit_plain: "is_digit c \<Longrightarrow> js_plain c"
  by (simp add: is_digit_def js_plain_def)

fun nat_to_string :: "nat \<Rightarrow> string" where
  "nat_to_string n = (if n < 10 then [digit_char n]
     else nat_to_string (n div 10) @ [digit_char (n mod 10)])"

declare nat_to_string.simps [simp del]

text \<open>\<open>String(n)\<close> of an integer.\<close>

definition int_to_string :: "int \<Rightarrow> string" where
  "int_to_string i = (if i < 0 then CHR ''-'' # nat_to_string (nat (- i)) else nat_to_string (nat i))"

definition digits_val :: "string \<Rightarrow> nat" where
  "digits_val s = foldl (\<lambda>n c. 10 * n + digit_val c) 0 s"

lemma nat_to_string_nonempty [simp]: "nat_to_string n \<noteq> []"
  by (subst nat_to_string.simps) simp

lemma nat_to_string_digits: "c \<in> set (nat_to_string n) \<Longrightarrow> is_digit c"
proof (induction n rule: nat_to_string.induct)
  case (1 n)
  then show ?case by (cases "n < 10") (auto simp: nat_to_string.simps [of n])
qed

lemma digits_val_nat_to_string [simp]: "digits_val (nat_to_string n) = n"
proof (induction n rule: nat_to_string.induct)
  case (1 n)
  then show ?case
    by (cases "n < 10") (simp_all add: nat_to_string.simps [of n] digits_val_def)
qed

lemma nat_to_string_inject [simp]: "nat_to_string m = nat_to_string n \<longleftrightarrow> m = n"
  by (metis digits_val_nat_to_string)

lemma int_to_string_nonempty [simp]: "int_to_string i \<noteq> []"
  by (simp add: int_to_string_def)

text \<open>\<open>Number.parseInt(s, 10)\<close>: leading white space, a sign, then the longest run of digits; \<open>None\<close> is
  \<open>NaN\<close>.\<close>

definition js_parse_int :: "string \<Rightarrow> int option" where
  "js_parse_int s = (let t = js_trim_start s;
       neg = (prefix ''-'' t);
       u = (if neg \<or> prefix ''+'' t then drop 1 t else t);
       ds = takeWhile is_digit u
     in if ds = [] then None
        else Some (if neg then - int (digits_val ds) else int (digits_val ds)))"

lemma nat_to_string_hd: "is_digit (hd (nat_to_string n))" "is_digit (last (nat_to_string n))"
  by (auto intro: nat_to_string_digits [of _ n])

lemma takeWhile_nat_to_string: "takeWhile is_digit (nat_to_string n) = nat_to_string n"
  by (simp add: takeWhile_eq_all_conv nat_to_string_digits)

lemma js_trim_start_nat_to_string: "js_trim_start (nat_to_string n) = nat_to_string n"
  using nat_to_string_hd(1) [of n] by (cases "nat_to_string n") (auto dest: is_digit_plain)

lemma js_trim_nat_to_string [simp]: "js_trim (nat_to_string n) = nat_to_string n"
  by (intro js_trim_all_plain) (auto intro: is_digit_plain nat_to_string_digits)

lemma js_trim_int_to_string [simp]: "js_trim (int_to_string i) = int_to_string i"
proof (cases "i < 0")
  case True
  have "js_plain (CHR ''-'')" by (simp add: js_plain_def)
  then have "\<forall>c \<in> set (int_to_string i). js_plain c"
    using True by (auto simp: int_to_string_def intro: is_digit_plain nat_to_string_digits)
  then show ?thesis by (rule js_trim_all_plain)
qed (simp add: int_to_string_def)

lemma not_digit_prefix: "\<not> is_digit c \<Longrightarrow> \<not> prefix [c] (nat_to_string n)"
  using nat_to_string_hd(1) [of n] by (cases "nat_to_string n") auto

lemma js_parse_int_to_string [simp]: "js_parse_int (int_to_string i) = Some i"
proof (cases "i < 0")
  case True
  have "js_plain (CHR ''-'')" by (simp add: js_plain_def)
  with True show ?thesis
    by (simp add: js_parse_int_def int_to_string_def takeWhile_nat_to_string)
next
  case False
  have "\<not> is_digit (CHR ''-'')" "\<not> is_digit (CHR ''+'')" by (simp_all add: is_digit_def)
  then have "\<not> prefix ''-'' (nat_to_string (nat i))" "\<not> prefix ''+'' (nat_to_string (nat i))"
    by (simp_all add: not_digit_prefix)
  with False show ?thesis
    by (simp add: js_parse_int_def int_to_string_def takeWhile_nat_to_string
        js_trim_start_nat_to_string)
qed

section \<open>Nullish values\<close>

text \<open>\<open>x ?? d\<close>, and the truthiness of an optional string.\<close>

definition nullish :: "'a option \<Rightarrow> 'a \<Rightarrow> 'a" where
  "nullish x d = (case x of None \<Rightarrow> d | Some y \<Rightarrow> y)"

definition truthy_str :: "string option \<Rightarrow> bool" where
  "truthy_str x = (case x of None \<Rightarrow> False | Some s \<Rightarrow> s \<noteq> [])"

lemma nullish_simps [simp, js_eval]: "nullish None d = d" "nullish (Some y) d = y"
  by (simp_all add: nullish_def)

lemma truthy_str_simps [simp, js_eval]: "truthy_str None = False" "truthy_str (Some s) = (s \<noteq> [])"
  by (simp_all add: truthy_str_def)

end
