(* ===== verification/URI_Codec.thy ===== *)
theory URI_Codec
  imports JS_Prelude
begin

text \<open>
  The percent-encodings the console puts into URLs: \<open>encodeURIComponent\<close> and \<open>decodeURIComponent\<close> of
  ECMAScript, and the \<open>application/x-www-form-urlencoded\<close> serialiser and parser behind
  \<open>URLSearchParams\<close>.  Over the UTF-8 bytes of a string both encoders work byte by byte.
\<close>

section \<open>Hexadecimal octets\<close>

definition hex_char :: "nat \<Rightarrow> char" where
  "hex_char d = (if d < 10 then char_of (48 + d) else char_of (55 + d))"

definition hex_val :: "char \<Rightarrow> nat option" where
  "hex_val c = (let n = of_char c in
     if 48 \<le> n \<and> n \<le> 57 then Some (n - 48)
     else if 65 \<le> n \<and> n \<le> 70 then Some (n - 55)
     else if 97 \<le> n \<and> n \<le> 102 then Some (n - 87)
     else None)"

definition pct :: "char \<Rightarrow> string" where
  "pct c = [CHR ''%'', hex_char (of_char c div 16), hex_char (of_char c mod 16)]"

definition octet :: "char \<Rightarrow> char \<Rightarrow> char option" where
  "octet h l = (case (hex_val h, hex_val l) of
     (Some a, Some b) \<Rightarrow> Some (char_of (16 * a + b))
   | _ \<Rightarrow> None)"

declare hex_char_def [js_eval] hex_val_def [js_eval] pct_def [js_eval] octet_def [js_eval]

lemma of_char_lt_256: "(of_char c :: nat) < 256"
  by (metis mod_less_divisor of_char_mod_256 zero_less_numeral)

lemma hex_val_char: "d < 16 \<Longrightarrow> hex_val (hex_char d) = Some d"
  by (auto simp: hex_val_def hex_char_def)

lemma octet_pct: "octet (hex_char (of_char c div 16)) (hex_char (of_char c mod 16)) = Some c"
proof -
  have "(of_char c :: nat) < 256" by (rule of_char_lt_256)
  then have "(of_char c :: nat) div 16 < 16" by presburger
  then have "hex_val (hex_char (of_char c div 16)) = Some (of_char c div 16)"
    and "hex_val (hex_char (of_char c mod 16)) = Some (of_char c mod 16)"
    by (simp_all add: hex_val_char)
  then show ?thesis by (simp add: octet_def)
qed

lemma hex_char_range: "n < 16 \<Longrightarrow> hex_char n \<in> set ''%0123456789ABCDEF''"
proof -
  have "list_all (\<lambda>n. hex_char n \<in> set ''%0123456789ABCDEF'') [0..<16]" by code_simp
  then show "n < 16 \<Longrightarrow> hex_char n \<in> set ''%0123456789ABCDEF''" by (simp add: list_all_iff)
qed

lemma pct_no_special: "d \<in> set (pct c) \<Longrightarrow> d \<in> set ''%0123456789ABCDEF''"
proof -
  assume "d \<in> set (pct c)"
  then have "d = CHR ''%'' \<or> d = hex_char (of_char c div 16) \<or> d = hex_char (of_char c mod 16)"
    by (simp add: pct_def)
  moreover have "(of_char c :: nat) div 16 < 16" using of_char_lt_256 [of c] by presburger
  then have "hex_char (of_char c div 16) \<in> set ''%0123456789ABCDEF''" by (rule hex_char_range)
  moreover have "hex_char (of_char c mod 16) \<in> set ''%0123456789ABCDEF''" by (rule hex_char_range) simp
  moreover have "CHR ''%'' \<in> set ''%0123456789ABCDEF''" by simp
  ultimately show ?thesis by metis
qed

section \<open>UTF-8\<close>

definition utf8_len :: "char \<Rightarrow> nat" where
  "utf8_len c = (let b = of_char c :: nat in
     if b < 0x80 then 1
     else if 0xC2 \<le> b \<and> b \<le> 0xDF then 2
     else if 0xE0 \<le> b \<and> b \<le> 0xEF then 3
     else if 0xF0 \<le> b \<and> b \<le> 0xF4 then 4
     else 0)"

definition utf8_cont :: "char \<Rightarrow> bool" where
  "utf8_cont c \<longleftrightarrow> 0x80 \<le> (of_char c :: nat) \<and> (of_char c :: nat) < 0xC0"

text \<open>One well-formed sequence: its length, its continuation bytes, and no overlong form, surrogate or
  value above U+10FFFF (Table 3-7 of the Unicode standard).\<close>

definition utf8_char :: "string \<Rightarrow> bool" where
  "utf8_char s = (case s of
     [] \<Rightarrow> False
   | c # t \<Rightarrow> length s = utf8_len c \<and> (\<forall>d \<in> set t. utf8_cont d) \<and>
       (case t of [] \<Rightarrow> True | d # _ \<Rightarrow>
         (c = CHR 0xE0 \<longrightarrow> 0xA0 \<le> (of_char d :: nat)) \<and>
         (c = CHR 0xED \<longrightarrow> (of_char d :: nat) < 0xA0) \<and>
         (c = CHR 0xF0 \<longrightarrow> 0x90 \<le> (of_char d :: nat)) \<and>
         (c = CHR 0xF4 \<longrightarrow> (of_char d :: nat) < 0x90)))"

function valid_utf8 :: "string \<Rightarrow> bool" where
  "valid_utf8 s = (if s = [] then True
     else if utf8_char (take (utf8_len (hd s)) s) then valid_utf8 (drop (utf8_len (hd s)) s)
     else False)"
  by pat_completeness auto
termination
proof (relation "measure length")
  fix s :: string
  assume "s \<noteq> []" and "utf8_char (take (utf8_len (hd s)) s)"
  then show "(drop (utf8_len (hd s)) s, s) \<in> measure length"
    by (cases "utf8_len (hd s)") (auto simp: utf8_char_def)
qed simp

declare valid_utf8.simps [simp del]
declare utf8_len_def [js_eval] utf8_cont_def [js_eval] utf8_char_def [js_eval]

lemma valid_utf8_Nil [simp]: "valid_utf8 []"
  by (simp add: valid_utf8.simps)

lemma valid_utf8_ascii: "(\<forall>c \<in> set s. (of_char c :: nat) < 0x80) \<Longrightarrow> valid_utf8 s"
proof (induction s)
  case (Cons c s)
  then have "utf8_len c = 1" and "valid_utf8 s" by (simp_all add: utf8_len_def)
  then show ?case by (subst valid_utf8.simps) (simp add: utf8_char_def)
qed simp

section \<open>encodeURIComponent and decodeURIComponent\<close>

definition uri_unreserved :: "char \<Rightarrow> bool" where
  "uri_unreserved c \<longleftrightarrow> c \<in> set ''ABCDEFGHIJKLMNOPQRSTUVWXYZabcdefghijklmnopqrstuvwxyz0123456789-_.!~*()'' \<or> c = CHR 0x27"

definition enc_byte :: "char \<Rightarrow> string" where
  "enc_byte c = (if uri_unreserved c then [c] else pct c)"

definition encodeURIComponent :: "string \<Rightarrow> string" where
  "encodeURIComponent s = concat (map enc_byte s)"

fun take_octets :: "nat \<Rightarrow> string \<Rightarrow> (string \<times> string) option" where
  "take_octets 0 s = Some ([], s)"
| "take_octets (Suc n) (p # h # l # s) =
     (if p = CHR ''%'' then
        (case octet h l of
           None \<Rightarrow> None
         | Some c \<Rightarrow> (case take_octets n s of None \<Rightarrow> None | Some (cs, r) \<Rightarrow> Some (c # cs, r)))
      else None)"
| "take_octets (Suc n) s = None"

lemma take_octets_length: "take_octets n s = Some (cs, r) \<Longrightarrow> length s = 3 * n + length r"
  by (induction n s arbitrary: cs rule: take_octets.induct) (auto split: if_splits option.splits)

lemma length_take_octets: "take_octets n s = Some (cs, r) \<Longrightarrow> length cs = n"
  by (induction n s arbitrary: cs rule: take_octets.induct) (auto split: if_splits option.splits)

text \<open>\<open>None\<close> is the \<open>URIError\<close>.\<close>

function decodeURIComponent :: "string \<Rightarrow> string option" where
  "decodeURIComponent s = (case s of
     [] \<Rightarrow> Some []
   | c # t \<Rightarrow>
       if c \<noteq> CHR ''%'' then map_option ((#) c) (decodeURIComponent t)
       else (case take_octets 1 s of
          None \<Rightarrow> None
        | Some (b, _) \<Rightarrow>
            if utf8_len (hd b) = 0 then None
            else (case take_octets (utf8_len (hd b)) s of
               None \<Rightarrow> None
             | Some (cs, r) \<Rightarrow> if utf8_char cs then map_option ((@) cs) (decodeURIComponent r) else None)))"
  by pat_completeness auto
termination
  by (relation "measure length") (auto dest: take_octets_length)

declare decodeURIComponent.simps [simp del]
declare uri_unreserved_def [js_eval] enc_byte_def [js_eval] encodeURIComponent_def [js_eval]

lemma encodeURIComponent_simps [simp]:
  "encodeURIComponent [] = []"
  "encodeURIComponent (c # s) = enc_byte c @ encodeURIComponent s"
  "encodeURIComponent (s @ t) = encodeURIComponent s @ encodeURIComponent t"
  by (simp_all add: encodeURIComponent_def)

lemma uri_unreserved_lt: "uri_unreserved c \<Longrightarrow> (of_char c :: nat) < 0x80"
  by (auto simp: uri_unreserved_def)

lemma take_octets_pct: "take_octets (length cs) (concat (map pct cs) @ r) = Some (cs, r)"
  by (induction cs) (simp_all add: pct_def octet_pct)

lemma enc_byte_nonempty [simp]: "enc_byte c \<noteq> []"
  by (simp add: enc_byte_def pct_def)

lemma encodeURIComponent_eq_Nil [simp]: "encodeURIComponent s = [] \<longleftrightarrow> s = []"
  by (cases s) simp_all

lemma encodeURIComponent_chars:
  "c \<in> set (encodeURIComponent s) \<Longrightarrow> uri_unreserved c \<or> c = CHR ''%''"
proof (induction s)
  case (Cons d s)
  have "uri_unreserved c \<or> c = CHR ''%''" if "c \<in> set (enc_byte d)"
  proof (cases "uri_unreserved d")
    case False
    with that have "c \<in> set ''%0123456789ABCDEF''"
      using pct_no_special by (simp only: enc_byte_def if_False)
    then show ?thesis by (auto simp: uri_unreserved_def)
  qed (use that in \<open>simp add: enc_byte_def\<close>)
  with Cons show ?case by auto
qed simp

lemma decode_pct_char:
  assumes "utf8_char cs"
  shows "decodeURIComponent (concat (map pct cs) @ r) = map_option ((@) cs) (decodeURIComponent r)"
proof -
  from assms obtain c t where cs: "cs = c # t" and len: "length cs = utf8_len c"
    by (cases cs) (auto simp: utf8_char_def)
  let ?s = "concat (map pct cs) @ r"
  obtain u where s: "?s = CHR ''%'' # u" by (simp add: cs pct_def)
  have one: "take_octets 1 ?s = Some ([c], concat (map pct t) @ r)"
    by (simp add: cs pct_def octet_pct)
  have all: "take_octets (utf8_len c) ?s = Some (cs, r)"
    using take_octets_pct [of cs r] by (simp add: len)
  from len cs have "utf8_len c \<noteq> 0" by auto
  with one all assms show ?thesis
    by (subst decodeURIComponent.simps) (simp add: s del: take_octets.simps One_nat_def)
qed

lemma decode_encode_char:
  assumes "utf8_char cs"
  shows "decodeURIComponent (encodeURIComponent cs @ r) = map_option ((@) cs) (decodeURIComponent r)"
proof -
  obtain c t where cs: "cs = c # t" using assms by (cases cs) (auto simp: utf8_char_def)
  show ?thesis
  proof (cases "uri_unreserved c")
    case True
    then have "(of_char c :: nat) < 0x80" by (rule uri_unreserved_lt)
    with assms cs have "t = []" by (simp add: utf8_char_def utf8_len_def)
    moreover from True have "c \<noteq> CHR ''%''" by (auto simp: uri_unreserved_def)
    moreover have "(@) [c] = (#) c" by auto
    ultimately show ?thesis using True
      by (subst decodeURIComponent.simps) (simp add: cs enc_byte_def)
  next
    case False
    have "\<not> uri_unreserved d" if "d \<in> set t" for d
      using that assms uri_unreserved_lt [of d] by (auto simp: cs utf8_char_def utf8_cont_def)
    with False have "encodeURIComponent cs = concat (map pct cs)"
      by (simp add: cs encodeURIComponent_def enc_byte_def cong: map_cong)
    with decode_pct_char [OF assms] show ?thesis by simp
  qed
qed

lemma decode_encode: "valid_utf8 s \<Longrightarrow> decodeURIComponent (encodeURIComponent s) = Some s"
proof (induction s rule: valid_utf8.induct)
  case (1 s)
  show ?case
  proof (cases "s = []")
    case True
    then show ?thesis by (simp add: decodeURIComponent.simps)
  next
    case False
    let ?n = "utf8_len (hd s)"
    from False "1.prems" have v: "utf8_char (take ?n s)" "valid_utf8 (drop ?n s)"
      by (simp_all add: valid_utf8.simps [of s] split: if_splits)
    have "encodeURIComponent s = encodeURIComponent (take ?n s) @ encodeURIComponent (drop ?n s)"
      by (simp flip: encodeURIComponent_simps(3))
    with v False "1.IH" show ?thesis by (simp add: decode_encode_char)
  qed
qed

section \<open>The codec of a path segment\<close>

text \<open>What the route builders and parsers rely on: a decoded segment is the encoded value, and an encoded
  segment is empty only for the empty value and has none of the delimiters of a URL.\<close>

locale segment_codec =
  fixes enc :: "string \<Rightarrow> string"
    and dec :: "string \<Rightarrow> string option"
    and valid :: "string \<Rightarrow> bool"
  assumes dec_enc: "valid s \<Longrightarrow> dec (enc s) = Some s"
    and enc_Nil_iff: "enc s = [] \<longleftrightarrow> s = []"
    and enc_no_delim: "c \<in> set (enc s) \<Longrightarrow> c \<notin> set ''/?#''"
begin

lemma enc_no_slash: "CHR ''/'' \<notin> set (enc s)"
  using enc_no_delim [of "CHR ''/''" s] by auto

lemma enc_takeWhile: "takeWhile (\<lambda>c. c \<notin> set ''/?#'') (enc s) = enc s"
  by (simp only: takeWhile_eq_all_conv) (blast dest: enc_no_delim)

lemma enc_last: "s \<noteq> [] \<Longrightarrow> last (enc s) \<noteq> CHR ''/''"
  using enc_no_slash enc_Nil_iff by (metis last_in_set)

lemma enc_inject: "valid s \<Longrightarrow> valid t \<Longrightarrow> enc s = enc t \<Longrightarrow> s = t"
  by (metis dec_enc option.inject)

end

interpretation uri: segment_codec encodeURIComponent decodeURIComponent valid_utf8
proof
  fix s c
  show "c \<notin> set ''/?#''" if "c \<in> set (encodeURIComponent s)"
    using encodeURIComponent_chars [OF that] by (auto simp: uri_unreserved_def)
qed (simp_all add: decode_encode)

lemma encodeURIComponent_plain: "c \<in> set (encodeURIComponent s) \<Longrightarrow> js_plain c"
  using encodeURIComponent_chars [of c s] by (auto simp: uri_unreserved_def js_plain_def)

end
