(* ===== verification/JS_Collections.thy ===== *)
theory JS_Collections
  imports JS_Prelude
begin

text \<open>
  The containers and numbers of the language: a \<open>Set\<close> is a list of distinct values and a \<open>Map\<close> an
  association list of distinct keys, both in insertion order; \<open>Array.prototype.sort\<close> with a comparator;
  and \<open>number\<close> with its non-finite values.
\<close>

section \<open>Sets in insertion order\<close>

definition js_set_add :: "'a \<Rightarrow> 'a list \<Rightarrow> 'a list" where
  "js_set_add x xs = (if x \<in> set xs then xs else xs @ [x])"

definition js_set_of :: "'a list \<Rightarrow> 'a list" where
  "js_set_of xs = foldl (\<lambda>s x. js_set_add x s) [] xs"

lemma set_js_set_add [simp]: "set (js_set_add x xs) = insert x (set xs)"
  by (auto simp: js_set_add_def)

lemma distinct_js_set_add [simp]: "distinct (js_set_add x xs) = distinct xs"
  by (simp add: js_set_add_def)

lemma set_foldl_js_set_add: "set (foldl (\<lambda>s x. js_set_add x s) s xs) = set s \<union> set xs"
  by (induction xs arbitrary: s) auto

lemma distinct_foldl_js_set_add: "distinct (foldl (\<lambda>s x. js_set_add x s) s xs) = distinct s"
  by (induction xs arbitrary: s) auto

lemma set_js_set_of [simp]: "set (js_set_of xs) = set xs"
  by (simp add: js_set_of_def set_foldl_js_set_add)

lemma distinct_js_set_of [simp]: "distinct (js_set_of xs)"
  by (simp add: js_set_of_def distinct_foldl_js_set_add)

lemma foldl_js_set_add_distinct:
  "distinct (s @ xs) \<Longrightarrow> foldl (\<lambda>s x. js_set_add x s) s xs = s @ xs"
  by (induction xs arbitrary: s) (auto simp: js_set_add_def)

lemma js_set_of_distinct: "distinct xs \<Longrightarrow> js_set_of xs = xs"
  using foldl_js_set_add_distinct [of "[]" xs] by (simp add: js_set_of_def)

section \<open>Maps in insertion order\<close>

fun js_map_set :: "'k \<Rightarrow> 'v \<Rightarrow> ('k \<times> 'v) list \<Rightarrow> ('k \<times> 'v) list" where
  "js_map_set k v [] = [(k, v)]"
| "js_map_set k v ((k', v') # m) = (if k = k' then (k, v) # m else (k', v') # js_map_set k v m)"

definition js_map_of :: "('k \<times> 'v) list \<Rightarrow> ('k \<times> 'v) list" where
  "js_map_of kvs = foldl (\<lambda>m (k, v). js_map_set k v m) [] kvs"

definition js_map_delete :: "'k \<Rightarrow> ('k \<times> 'v) list \<Rightarrow> ('k \<times> 'v) list" where
  "js_map_delete k m = filter (\<lambda>(k', _). k' \<noteq> k) m"

definition js_map_has :: "'k \<Rightarrow> ('k \<times> 'v) list \<Rightarrow> bool" where
  "js_map_has k m \<longleftrightarrow> map_of m k \<noteq> None"

text \<open>The interface the clients of a \<open>Map\<close> use: what a lookup finds after a \<open>set\<close>, that keys stay
  distinct, and that a new key goes to the end.\<close>

locale ordered_map =
  fixes update :: "'k \<Rightarrow> 'v \<Rightarrow> 'm \<Rightarrow> 'm"
    and lookup :: "'m \<Rightarrow> 'k \<Rightarrow> 'v option"
    and keys :: "'m \<Rightarrow> 'k list"
  assumes lookup_update: "lookup (update k v m) = (lookup m)(k \<mapsto> v)"
    and keys_update: "keys (update k v m) = (if k \<in> set (keys m) then keys m else keys m @ [k])"
    and keys_dom: "set (keys m) = dom (lookup m)"
begin

definition update_all :: "('k \<times> 'v) list \<Rightarrow> 'm \<Rightarrow> 'm" where
  "update_all kvs m = foldl (\<lambda>m (k, v). update k v m) m kvs"

lemma distinct_keys_update: "distinct (keys m) \<Longrightarrow> distinct (keys (update k v m))"
  by (simp add: keys_update)

lemma distinct_keys_update_all: "distinct (keys m) \<Longrightarrow> distinct (keys (update_all kvs m))"
  by (induction kvs arbitrary: m) (auto simp: update_all_def distinct_keys_update)

lemma lookup_update_all: "lookup (update_all kvs m) = lookup m ++ map_of (rev kvs)"
proof (induction kvs arbitrary: m)
  case Nil
  then show ?case by (simp add: update_all_def)
next
  case (Cons kv kvs)
  obtain k v where kv: "kv = (k, v)" by (cases kv)
  have "update_all (kv # kvs) m = update_all kvs (update k v m)"
    by (simp add: update_all_def kv)
  with Cons [of "update k v m"] show ?case
    by (auto simp: kv lookup_update map_add_def fun_eq_iff split: option.split)
qed

lemma keys_update_all: "set (keys (update_all kvs m)) = set (keys m) \<union> fst ` set kvs"
  by (simp add: keys_dom lookup_update_all dom_map_of_conv_image_fst Un_commute)

end

lemma map_of_js_map_set [simp]: "map_of (js_map_set k v m) = (map_of m)(k \<mapsto> v)"
  by (induction k v m rule: js_map_set.induct) auto

lemma map_of_js_map_delete: "map_of (js_map_delete k m) k' = (if k' = k then None else map_of m k')"
  by (induction m) (auto simp: js_map_delete_def)

lemma keys_js_map_set:
  "map fst (js_map_set k v m) = (if k \<in> fst ` set m then map fst m else map fst m @ [k])"
  by (induction k v m rule: js_map_set.induct) auto

interpretation jm: ordered_map js_map_set map_of "map fst"
  by unfold_locales (simp_all add: keys_js_map_set dom_map_of_conv_image_fst)

lemma js_map_of_update_all: "js_map_of kvs = jm.update_all kvs []"
  by (simp add: js_map_of_def jm.update_all_def)

lemma js_map_set_values:
  "(k', v') \<in> set (js_map_set k v m) \<Longrightarrow> (k', v') = (k, v) \<or> (k', v') \<in> set m"
  by (induction k v m rule: js_map_set.induct) (auto split: if_splits)

section \<open>Sorting with a comparator\<close>

text \<open>\<open>Array.prototype.sort\<close> is stable, so for a consistent comparator its result is the one of insertion
  sort from the right, each element going before those it does not exceed.\<close>

fun js_insort :: "('a \<Rightarrow> 'a \<Rightarrow> int) \<Rightarrow> 'a \<Rightarrow> 'a list \<Rightarrow> 'a list" where
  "js_insort cmp x [] = [x]"
| "js_insort cmp x (y # ys) = (if cmp x y \<le> 0 then x # y # ys else y # js_insort cmp x ys)"

definition js_sort :: "('a \<Rightarrow> 'a \<Rightarrow> int) \<Rightarrow> 'a list \<Rightarrow> 'a list" where
  "js_sort cmp xs = foldr (js_insort cmp) xs []"

lemma mset_js_insort [simp]: "mset (js_insort cmp x xs) = add_mset x (mset xs)"
  by (induction cmp x xs rule: js_insort.induct) auto

lemma set_js_insort [simp]: "set (js_insort cmp x xs) = insert x (set xs)"
  by (induction cmp x xs rule: js_insort.induct) auto

lemma mset_js_sort [simp]: "mset (js_sort cmp xs) = mset xs"
  by (induction xs) (simp_all add: js_sort_def)

lemma set_js_sort [simp]: "set (js_sort cmp xs) = set xs"
  by (metis mset_js_sort set_mset_mset)

lemma length_js_sort [simp]: "length (js_sort cmp xs) = length xs"
  by (metis mset_js_sort size_mset)

lemma distinct_js_sort [simp]: "distinct (js_sort cmp xs) = distinct xs"
  by (metis mset_js_sort mset_eq_imp_distinct_iff)

text \<open>A consistent comparator, as ECMAScript calls it.\<close>

locale comparator =
  fixes cmp :: "'a \<Rightarrow> 'a \<Rightarrow> int"
  assumes cmp_opp: "sgn (cmp x y) = - sgn (cmp y x)"
    and cmp_trans: "cmp x y \<le> 0 \<Longrightarrow> cmp y z \<le> 0 \<Longrightarrow> cmp x z \<le> 0"
begin

lemma cmp_refl: "cmp x x = 0"
  using cmp_opp [of x x] by (simp add: sgn_if split: if_splits)

lemma cmp_total: "\<not> cmp x y \<le> 0 \<Longrightarrow> cmp y x \<le> 0"
  using cmp_opp [of x y] by (simp add: sgn_if split: if_splits)

lemma sorted_js_insort:
  "sorted_wrt (\<lambda>x y. cmp x y \<le> 0) ys \<Longrightarrow> sorted_wrt (\<lambda>x y. cmp x y \<le> 0) (js_insort cmp x ys)"
  by (induction ys) (auto dest: cmp_total intro: cmp_trans)

lemma sorted_js_sort: "sorted_wrt (\<lambda>x y. cmp x y \<le> 0) (js_sort cmp xs)"
  by (induction xs) (simp_all add: js_sort_def sorted_js_insort)

lemma filter_js_insort:
  "filter (\<lambda>y. cmp a y = 0) (js_insort cmp x ys) =
   (if cmp a x = 0 then x # filter (\<lambda>y. cmp a y = 0) ys else filter (\<lambda>y. cmp a y = 0) ys)"
proof (induction ys)
  case (Cons y ys)
  have "\<not> (cmp a x = 0 \<and> cmp a y = 0)" if "\<not> cmp x y \<le> 0"
  proof
    assume eq: "cmp a x = 0 \<and> cmp a y = 0"
    with cmp_opp [of a x] have "cmp x a = 0" by (simp add: sgn_if split: if_splits)
    with eq cmp_trans [of x a y] that show False by simp
  qed
  with Cons show ?case by auto
qed simp

lemma stable_js_sort: "filter (\<lambda>y. cmp a y = 0) (js_sort cmp xs) = filter (\<lambda>y. cmp a y = 0) xs"
  by (induction xs) (simp_all add: js_sort_def filter_js_insort)

end

text \<open>The comparator \<open>(left, right) => left - right\<close> on integers.\<close>

definition cmp_int :: "int \<Rightarrow> int \<Rightarrow> int" where
  "cmp_int x y = x - y"

interpretation int_order: comparator cmp_int
  by unfold_locales (auto simp: cmp_int_def sgn_if)

lemma sorted_js_sort_int: "sorted (js_sort cmp_int xs)"
  using int_order.sorted_js_sort [of xs] by (simp add: cmp_int_def)

text \<open>The lexicographic combination \<open>a || b\<close> of two comparators on keys of the elements.\<close>

definition cmp_lex :: "('b \<Rightarrow> 'b \<Rightarrow> int) \<Rightarrow> ('a \<Rightarrow> 'b) \<Rightarrow> ('a \<Rightarrow> 'b) \<Rightarrow> 'a \<Rightarrow> 'a \<Rightarrow> int" where
  "cmp_lex c f g x y = (if c (f x) (f y) \<noteq> 0 then c (f x) (f y) else c (g x) (g y))"

locale keyed_comparator = comparator cmp
  for cmp :: "'b \<Rightarrow> 'b \<Rightarrow> int" +
  fixes f g :: "'a \<Rightarrow> 'b"
begin

lemma cmp_eq_sym: "cmp a b = 0 \<longleftrightarrow> cmp b a = 0"
  using cmp_opp [of a b] by (simp add: sgn_if split: if_splits)

lemma cmp_between:
  assumes "cmp a b \<le> 0" and "cmp b c \<le> 0" and "cmp a c = 0"
  shows "cmp a b = 0 \<and> cmp b c = 0"
proof -
  from assms(3) have ca: "cmp c a \<le> 0" using cmp_eq_sym [of a c] by simp
  with assms have "cmp b a \<le> 0" "cmp c b \<le> 0" using cmp_trans by blast+
  with assms show ?thesis
    using cmp_opp [of a b] cmp_opp [of b c] by (auto simp: sgn_if split: if_splits)
qed

lemma cmp_lex_trans:
  assumes "cmp_lex cmp f g x y \<le> 0" and "cmp_lex cmp f g y z \<le> 0"
  shows "cmp_lex cmp f g x z \<le> 0"
proof -
  from assms have f: "cmp (f x) (f y) \<le> 0" "cmp (f y) (f z) \<le> 0"
    by (auto simp: cmp_lex_def split: if_splits)
  then have "cmp (f x) (f z) \<le> 0" by (rule cmp_trans)
  with assms cmp_between [OF f] cmp_trans [of "g x" "g y" "g z"] show ?thesis
    by (auto simp: cmp_lex_def split: if_splits)
qed

end

sublocale keyed_comparator \<subseteq> lex: comparator "cmp_lex cmp f g"
proof
  fix x y z
  show "sgn (cmp_lex cmp f g x y) = - sgn (cmp_lex cmp f g y x)"
    using cmp_opp [of "f x" "f y"] cmp_opp [of "g x" "g y"]
    by (auto simp: cmp_lex_def sgn_if split: if_splits)
  show "cmp_lex cmp f g x y \<le> 0 \<Longrightarrow> cmp_lex cmp f g y z \<le> 0 \<Longrightarrow> cmp_lex cmp f g x z \<le> 0"
    by (rule cmp_lex_trans)
qed

context keyed_comparator
begin

lemma sorted_lex_sort: "sorted_wrt (\<lambda>x y. cmp_lex cmp f g x y \<le> 0) (js_sort (cmp_lex cmp f g) xs)"
  by (rule lex.sorted_js_sort)

lemma stable_lex_sort:
  "filter (\<lambda>y. cmp_lex cmp f g a y = 0) (js_sort (cmp_lex cmp f g) xs) = filter (\<lambda>y. cmp_lex cmp f g a y = 0) xs"
  by (rule lex.stable_js_sort)

end

text \<open>Comparison of strings by their code points (for UTF-8, the same as by their bytes).\<close>

fun cmp_code_points :: "string \<Rightarrow> string \<Rightarrow> int" where
  "cmp_code_points [] [] = 0"
| "cmp_code_points [] (_ # _) = -1"
| "cmp_code_points (_ # _) [] = 1"
| "cmp_code_points (c # s) (d # t) =
     (if c = d then cmp_code_points s t
      else if (of_char c :: nat) < of_char d then -1 else 1)"

lemma cmp_code_points_trans:
  "cmp_code_points x y \<le> 0 \<Longrightarrow> cmp_code_points y z \<le> 0 \<Longrightarrow> cmp_code_points x z \<le> 0"
proof (induction x y arbitrary: z rule: cmp_code_points.induct)
  case (4 c s d t)
  then show ?case by (cases z) (auto split: if_splits)
next
  case 1
  then show ?case by (cases z) auto
next
  case (2 c s)
  then show ?case by (cases z) auto
qed simp

interpretation code_points: comparator cmp_code_points
proof
  fix x y
  show "sgn (cmp_code_points x y) = - sgn (cmp_code_points y x)"
    by (induction x y rule: cmp_code_points.induct) auto
qed (rule cmp_code_points_trans)

section \<open>Numbers\<close>

datatype jsnum = Fin rat | PosInf | NegInf | NaN

definition num_of_int :: "int \<Rightarrow> jsnum" where
  "num_of_int i = Fin (of_int i)"

definition is_finite :: "jsnum \<Rightarrow> bool" where
  "is_finite x = (case x of Fin _ \<Rightarrow> True | _ \<Rightarrow> False)"

text \<open>\<open>Math.trunc\<close> and \<open>Math.round\<close> of a finite number.\<close>

definition trunc :: "rat \<Rightarrow> int" where
  "trunc q = (if q < 0 then \<lceil>q\<rceil> else \<lfloor>q\<rfloor>)"

definition js_round :: "rat \<Rightarrow> int" where
  "js_round q = \<lfloor>q + 1 / 2\<rfloor>"

lemma is_finite_simps [simp]: "is_finite (Fin q)" "\<not> is_finite PosInf" "\<not> is_finite NegInf" "\<not> is_finite NaN"
  by (simp_all add: is_finite_def)

lemma trunc_of_int [simp]: "trunc (of_int i) = i"
  by (simp add: trunc_def)

lemma trunc_numeral [simp]: "trunc (numeral n) = numeral n" "trunc 0 = 0" "trunc 1 = 1"
  using trunc_of_int [of "numeral n"] trunc_of_int [of 0] trunc_of_int [of 1] by simp_all

end
