(* ===== verification/URL_Search_Params.thy ===== *)
theory URL_Search_Params
  imports URI_Codec JS_Collections
begin

text \<open>
  \<open>URLSearchParams\<close>: a list of name/value pairs with \<open>append\<close>, \<open>set\<close>, \<open>get\<close> and \<open>getAll\<close>, its
  serialiser \<open>toString\<close> and the parser its constructor runs on a query string.  The parser keeps the
  percent-decoded bytes; where they are not UTF-8 the platform puts replacement characters instead.
\<close>

type_synonym params = "(string \<times> string) list"

definition usp_append :: "string \<Rightarrow> string \<Rightarrow> params \<Rightarrow> params" where
  "usp_append k v ps = ps @ [(k, v)]"

fun usp_set :: "string \<Rightarrow> string \<Rightarrow> params \<Rightarrow> params" where
  "usp_set k v [] = [(k, v)]"
| "usp_set k v ((k', v') # ps) =
     (if k' = k then (k, v) # filter (\<lambda>(k'', _). k'' \<noteq> k) ps else (k', v') # usp_set k v ps)"

definition usp_get :: "params \<Rightarrow> string \<Rightarrow> string option" where
  "usp_get ps k = map_of ps k"

definition usp_get_all :: "params \<Rightarrow> string \<Rightarrow> string list" where
  "usp_get_all ps k = map snd (filter (\<lambda>(k', _). k' = k) ps)"

section \<open>Serialising\<close>

definition form_unreserved :: "char \<Rightarrow> bool" where
  "form_unreserved c \<longleftrightarrow> c \<in> set ''ABCDEFGHIJKLMNOPQRSTUVWXYZabcdefghijklmnopqrstuvwxyz0123456789*-._''"

definition form_byte :: "char \<Rightarrow> string" where
  "form_byte c = (if form_unreserved c then [c] else if c = CHR '' '' then ''+'' else pct c)"

definition form_encode :: "string \<Rightarrow> string" where
  "form_encode s = concat (map form_byte s)"

definition usp_pair :: "string \<times> string \<Rightarrow> string" where
  "usp_pair kv = form_encode (fst kv) @ ''='' @ form_encode (snd kv)"

definition usp_to_string :: "params \<Rightarrow> string" where
  "usp_to_string ps = js_join ''&'' (map usp_pair ps)"

section \<open>Parsing\<close>

fun form_decode :: "string \<Rightarrow> string" where
  "form_decode [] = []"
| "form_decode (c # s) =
     (if c = CHR ''+'' then CHR '' '' # form_decode s
      else (case s of
         h # l # t \<Rightarrow>
           (if c = CHR ''%'' then (case octet h l of Some d \<Rightarrow> d # form_decode t | None \<Rightarrow> c # form_decode s)
            else c # form_decode s)
       | _ \<Rightarrow> c # form_decode s))"

definition usp_parse_pair :: "string \<Rightarrow> string \<times> string" where
  "usp_parse_pair s = (form_decode (takeWhile (\<lambda>c. c \<noteq> CHR ''='') s),
     form_decode (drop 1 (dropWhile (\<lambda>c. c \<noteq> CHR ''='') s)))"

definition usp_parse :: "string \<Rightarrow> params" where
  "usp_parse s = map usp_parse_pair (filter (\<lambda>w. w \<noteq> [])
     (js_split CHR ''&'' (if prefix ''?'' s then drop 1 s else s)))"

declare usp_append_def [js_eval] usp_get_def [js_eval] usp_get_all_def [js_eval]
  form_unreserved_def [js_eval] form_byte_def [js_eval] form_encode_def [js_eval]
  usp_pair_def [js_eval] usp_to_string_def [js_eval] usp_parse_pair_def [js_eval] usp_parse_def [js_eval]

section \<open>Lookups\<close>

lemma usp_get_append [simp]:
  "usp_get (usp_append k v ps) k' = (case usp_get ps k' of None \<Rightarrow> if k = k' then Some v else None | Some x \<Rightarrow> Some x)"
  by (simp add: usp_get_def usp_append_def map_add_def split: option.split)

lemma map_of_usp_set: "map_of (usp_set k v ps) k' = (if k' = k then Some v else map_of ps k')"
proof (induction k v ps rule: usp_set.induct)
  case (2 k v k1 v1 ps)
  have "map_of (filter (\<lambda>(k'', _). k'' \<noteq> k) ps) k' = map_of ps k'" if "k' \<noteq> k"
    using that by (induction ps) auto
  with 2 show ?case by auto
qed simp

lemma usp_get_set [simp]: "usp_get (usp_set k v ps) k' = (if k' = k then Some v else usp_get ps k')"
  by (simp add: usp_get_def map_of_usp_set)

lemma usp_get_Nil [simp]: "usp_get [] k = None"
  by (simp add: usp_get_def)

lemma usp_set_new: "k \<notin> fst ` set ps \<Longrightarrow> usp_set k v ps = ps @ [(k, v)]"
  by (induction k v ps rule: usp_set.induct) auto

lemma usp_get_all_simps [simp]:
  "usp_get_all [] k = []"
  "usp_get_all (ps @ qs) k = usp_get_all ps k @ usp_get_all qs k"
  "usp_get_all ((k', v) # ps) k = (if k' = k then v # usp_get_all ps k else usp_get_all ps k)"
  by (simp_all add: usp_get_all_def)

section \<open>Round trip\<close>

lemma form_byte_chars: "d \<in> set (form_byte c) \<Longrightarrow> form_unreserved d \<or> d = CHR ''+'' \<or> d = CHR ''%''"
  using pct_no_special [of d c]
  by (auto simp: form_byte_def form_unreserved_def split: if_splits)

lemma form_encode_chars: "d \<in> set (form_encode s) \<Longrightarrow> d \<notin> set ''&=?#/''"
  by (auto simp: form_encode_def form_unreserved_def dest!: form_byte_chars)

lemma form_decode_byte: "form_decode (form_byte c @ s) = c # form_decode s"
proof -
  consider (u) "form_unreserved c" | (sp) "\<not> form_unreserved c" "c = CHR '' ''"
    | (p) "\<not> form_unreserved c" "c \<noteq> CHR '' ''" by blast
  then show ?thesis
  proof cases
    case u
    then have "c \<noteq> CHR ''+''" "c \<noteq> CHR ''%''" by (auto simp: form_unreserved_def)
    with u show ?thesis by (simp add: form_byte_def split: list.split)
  qed (simp_all add: form_byte_def pct_def octet_pct)
qed

lemma form_decode_encode: "form_decode (form_encode s) = s"
  by (induction s) (simp_all add: form_encode_def form_decode_byte)

lemma usp_parse_pair: "usp_parse_pair (usp_pair kv) = kv"
proof -
  let ?k = "form_encode (fst kv)" and ?v = "form_encode (snd kv)"
  have k: "\<forall>c \<in> set ?k. c \<noteq> CHR ''=''" using form_encode_chars by fastforce
  then have "takeWhile (\<lambda>c. c \<noteq> CHR ''='') (?k @ CHR ''='' # ?v) = ?k"
    and "dropWhile (\<lambda>c. c \<noteq> CHR ''='') (?k @ CHR ''='' # ?v) = CHR ''='' # ?v"
    by (simp_all add: takeWhile_append dropWhile_append)
  then show ?thesis
    by (simp add: usp_parse_pair_def usp_pair_def form_decode_encode del: takeWhile_append2)
qed

lemma usp_pair_chars: "c \<in> set (usp_pair kv) \<Longrightarrow> c \<notin> set ''&?#/''"
  using form_encode_chars [of c "fst kv"] form_encode_chars [of c "snd kv"]
  by (auto simp: usp_pair_def)

lemma js_join_chars: "c \<in> set (js_join sep xs) \<Longrightarrow> c \<in> set sep \<or> (\<exists>x \<in> set xs. c \<in> set x)"
  by (induction sep xs rule: js_join.induct) auto

lemma usp_to_string_chars: "c \<in> set (usp_to_string ps) \<Longrightarrow> c \<notin> set ''?#/''"
proof -
  assume "c \<in> set (usp_to_string ps)"
  then have "c = CHR ''&'' \<or> (\<exists>kv \<in> set ps. c \<in> set (usp_pair kv))"
    unfolding usp_to_string_def by (auto dest!: js_join_chars)
  then show ?thesis using usp_pair_chars [of c] by auto
qed

lemma usp_parse_to_string_aux:
  "map usp_parse_pair (filter (\<lambda>w. w \<noteq> []) (js_split CHR ''&'' (usp_to_string ps))) = ps"
proof (cases "ps = []")
  case False
  have "js_split CHR ''&'' (usp_to_string ps) = map usp_pair ps"
    unfolding usp_to_string_def using False usp_pair_chars
    by (intro js_split_join) fastforce+
  moreover have "filter (\<lambda>w. w \<noteq> []) (map usp_pair ps) = map usp_pair ps"
    by (simp add: filter_id_conv usp_pair_def)
  ultimately show ?thesis by (simp add: usp_parse_pair map_idI)
qed (simp add: usp_to_string_def)

lemma usp_parse_to_string: "usp_parse (usp_to_string ps) = ps"
  and usp_parse_query: "usp_parse (CHR ''?'' # usp_to_string ps) = ps"
proof -
  have "\<not> prefix ''?'' (usp_to_string ps)"
    using usp_to_string_chars [of "CHR ''?''" ps] by (cases "usp_to_string ps") auto
  then show "usp_parse (usp_to_string ps) = ps"
    by (simp add: usp_parse_def usp_parse_to_string_aux)
  show "usp_parse (CHR ''?'' # usp_to_string ps) = ps"
    by (simp add: usp_parse_def usp_parse_to_string_aux)
qed

lemma js_join_eq_Nil: "js_join sep xs = [] \<Longrightarrow> sep \<noteq> [] \<Longrightarrow> xs = [] \<or> xs = [[]]"
  by (induction sep xs rule: js_join.induct) auto

lemma usp_to_string_eq_Nil [simp]: "usp_to_string ps = [] \<longleftrightarrow> ps = []"
  using usp_parse_to_string [of ps] by (auto simp: usp_to_string_def usp_parse_def)

section \<open>Pathname and search part of a relative URL\<close>

text \<open>The URLs the console navigates to have a path, an optional query and no fragment.\<close>

definition url_pathname :: "string \<Rightarrow> string" where
  "url_pathname u = takeWhile (\<lambda>c. c \<noteq> CHR ''?'') u"

definition url_search :: "string \<Rightarrow> string" where
  "url_search u = (let q = dropWhile (\<lambda>c. c \<noteq> CHR ''?'') u in if q = ''?'' then [] else q)"

definition with_search :: "string \<Rightarrow> params \<Rightarrow> string" where
  "with_search path ps = (let search = usp_to_string ps
     in if search \<noteq> [] then path @ ''?'' @ search else path)"

declare url_pathname_def [js_eval] url_search_def [js_eval] with_search_def [js_eval]

lemma url_pathname_with_search: "CHR ''?'' \<notin> set path \<Longrightarrow> url_pathname (with_search path ps) = path"
proof -
  assume "CHR ''?'' \<notin> set path"
  then have "\<forall>c \<in> set path. c \<noteq> CHR ''?''" by auto
  then show ?thesis by (simp add: url_pathname_def with_search_def takeWhile_append)
qed

lemma usp_parse_search: "CHR ''?'' \<notin> set path \<Longrightarrow> usp_parse (url_search (with_search path ps)) = ps"
proof -
  assume "CHR ''?'' \<notin> set path"
  then have p: "\<forall>c \<in> set path. c \<noteq> CHR ''?''" by auto
  show ?thesis
  proof (cases "ps = []")
    case True
    from p have d: "dropWhile (\<lambda>c. c \<noteq> CHR ''?'') path = []" by (simp add: dropWhile_eq_Nil_conv)
    from True have "url_search (with_search path ps) = []"
      by (simp add: with_search_def url_search_def d)
    with True show ?thesis by (simp add: usp_parse_def)
  next
    case False
    with p have "dropWhile (\<lambda>c. c \<noteq> CHR ''?'') (with_search path ps) = CHR ''?'' # usp_to_string ps"
      by (simp add: with_search_def dropWhile_append)
    with False show ?thesis by (simp add: url_search_def usp_parse_query)
  qed
qed

lemma encode_no_query: "CHR ''?'' \<notin> set (encodeURIComponent i)"
  using uri.enc_no_delim [of "CHR ''?''" i] by auto

lemma usp_append_fold: "foldl (\<lambda>ps v. usp_append k v ps) ps vs = ps @ map (\<lambda>v. (k, v)) vs"
  by (induction vs arbitrary: ps) (simp_all add: usp_append_def)

lemma map_of_constant_keys: "k' \<noteq> k \<Longrightarrow> map_of (map (\<lambda>v. (k, v)) vs) k' = None"
  by (induction vs) simp_all

lemma usp_get_all_constant: "usp_get_all (map (\<lambda>v. (k, v)) vs) k' = (if k' = k then vs else [])"
  by (induction vs) auto

end
