(* ===== verification/Admin_Routes.thy ===== *)
theory Admin_Routes
  imports URL_Search_Params
begin

text \<open>
  The routes of the admin console (\<open>web/src/admin/routes.ts\<close>): the parser of the path, the builders of
  the path and of its query context, and the readers of that context in \<open>web/src/AdminDashboard.tsx\<close>,
  which take the search part of the location as an argument.  Shown: \<open>isSameAdminRoute\<close> is equality;
  every builder's path parses back to its route, but for the identifiers that collide with a reserved
  word of the path; every list context is read back as it was written.
\<close>

section \<open>Routes\<close>

datatype AdminModuleId = Dashboard | Tokens | Keys | Requests | Jobs | Users | Alerts | ProxySettings

fun module_str :: "AdminModuleId \<Rightarrow> string" where
  "module_str Dashboard = ''dashboard''"
| "module_str Tokens = ''tokens''"
| "module_str Keys = ''keys''"
| "module_str Requests = ''requests''"
| "module_str Jobs = ''jobs''"
| "module_str Users = ''users''"
| "module_str Alerts = ''alerts''"
| "module_str ProxySettings = ''proxy-settings''"

datatype AdminPathRoute =
    RModule AdminModuleId
  | RToken string
  | RUnboundTokenUsage
  | RUserUsage
  | RUser string
  | RUserTags
  | RUserTagCreate
  | RUserTagEdit string
  | RKey string

definition ADMIN_BASE :: string where
  "ADMIN_BASE = ''/admin''"

definition DEFAULT_KEYS_PER_PAGE :: int where
  "DEFAULT_KEYS_PER_PAGE = 20"

definition normalize :: "string \<Rightarrow> string" where
  "normalize pathname = (if pathname = [] then ADMIN_BASE
     else let trimmed = (if suffix ''/'' pathname \<and> pathname \<noteq> ''/'' then butlast pathname else pathname)
          in if trimmed \<noteq> [] then trimmed else ADMIN_BASE)"

definition decodeSegment :: "string \<Rightarrow> string option" where
  "decodeSegment raw = (if raw = [] \<or> CHR ''/'' \<in> set raw then None else decodeURIComponent raw)"

definition segment_or :: "(string \<Rightarrow> AdminPathRoute) \<Rightarrow> AdminPathRoute \<Rightarrow> string \<Rightarrow> AdminPathRoute" where
  "segment_or mk fallback raw =
     (case decodeSegment raw of Some i \<Rightarrow> if i \<noteq> [] then mk i else fallback | None \<Rightarrow> fallback)"

definition parseAdminPath :: "string \<Rightarrow> AdminPathRoute" where
  "parseAdminPath pathname = (let path = normalize pathname in
     if path = ADMIN_BASE \<or> path = ADMIN_BASE @ ''/dashboard'' then RModule Dashboard
     else if path = ADMIN_BASE @ ''/tokens'' then RModule Tokens
     else if path = ADMIN_BASE @ ''/tokens/leaderboard'' then RUnboundTokenUsage
     else if prefix (ADMIN_BASE @ ''/tokens/'') path
       then segment_or RToken (RModule Tokens) (drop (length (ADMIN_BASE @ ''/tokens/'')) path)
     else if path = ADMIN_BASE @ ''/keys'' then RModule Keys
     else if prefix (ADMIN_BASE @ ''/keys/'') path
       then segment_or RKey (RModule Keys) (drop (length (ADMIN_BASE @ ''/keys/'')) path)
     else if path = ADMIN_BASE @ ''/requests'' then RModule Requests
     else if path = ADMIN_BASE @ ''/jobs'' then RModule Jobs
     else if path = ADMIN_BASE @ ''/users'' then RModule Users
     else if path = ADMIN_BASE @ ''/users/usage'' then RUserUsage
     else if path = ADMIN_BASE @ ''/users/tags'' then RUserTags
     else if path = ADMIN_BASE @ ''/users/tags/new'' then RUserTagCreate
     else if prefix (ADMIN_BASE @ ''/users/tags/'') path
       then segment_or RUserTagEdit RUserTags (drop (length (ADMIN_BASE @ ''/users/tags/'')) path)
     else if prefix (ADMIN_BASE @ ''/users/'') path
       then segment_or RUser (RModule Users) (drop (length (ADMIN_BASE @ ''/users/'')) path)
     else if path = ADMIN_BASE @ ''/alerts'' then RModule Alerts
     else if path = ADMIN_BASE @ ''/proxy-settings'' then RModule ProxySettings
     else RModule Dashboard)"

definition isSameAdminRoute :: "AdminPathRoute \<Rightarrow> AdminPathRoute \<Rightarrow> bool" where
  "isSameAdminRoute left right = (case left of
     RModule m \<Rightarrow> (case right of RModule m' \<Rightarrow> m = m' | _ \<Rightarrow> False)
   | RToken i \<Rightarrow> (case right of RToken j \<Rightarrow> i = j | _ \<Rightarrow> False)
   | RUser i \<Rightarrow> (case right of RUser j \<Rightarrow> i = j | _ \<Rightarrow> False)
   | RUserTags \<Rightarrow> (case right of RUserTags \<Rightarrow> True | _ \<Rightarrow> False)
   | RUserTagCreate \<Rightarrow> (case right of RUserTagCreate \<Rightarrow> True | _ \<Rightarrow> False)
   | RUserTagEdit i \<Rightarrow> (case right of RUserTagEdit j \<Rightarrow> i = j | _ \<Rightarrow> False)
   | RKey i \<Rightarrow> (case right of RKey j \<Rightarrow> i = j | _ \<Rightarrow> False)
   | RUserUsage \<Rightarrow> (case right of RUserUsage \<Rightarrow> True | _ \<Rightarrow> False)
   | RUnboundTokenUsage \<Rightarrow> (case right of RUnboundTokenUsage \<Rightarrow> True | _ \<Rightarrow> False))"

definition modulePath :: "AdminModuleId \<Rightarrow> string" where
  "modulePath m = (if m = Dashboard then ADMIN_BASE @ ''/dashboard'' else ADMIN_BASE @ ''/'' @ module_str m)"

section \<open>Query contexts\<close>

datatype SortDirection = Asc | Desc

fun order_str :: "SortDirection \<Rightarrow> string" where
  "order_str Asc = ''asc''"
| "order_str Desc = ''desc''"

datatype AdminUsersSortField =
    U_hourlyAnyUsed | U_quotaHourlyUsed | U_quotaDailyUsed | U_quotaMonthlyUsed
  | U_dailySuccessRate | U_monthlySuccessRate | U_monthlyBrokenCount | U_lastActivity | U_lastLoginAt

fun users_sort_str :: "AdminUsersSortField \<Rightarrow> string" where
  "users_sort_str U_hourlyAnyUsed = ''hourlyAnyUsed''"
| "users_sort_str U_quotaHourlyUsed = ''quotaHourlyUsed''"
| "users_sort_str U_quotaDailyUsed = ''quotaDailyUsed''"
| "users_sort_str U_quotaMonthlyUsed = ''quotaMonthlyUsed''"
| "users_sort_str U_dailySuccessRate = ''dailySuccessRate''"
| "users_sort_str U_monthlySuccessRate = ''monthlySuccessRate''"
| "users_sort_str U_monthlyBrokenCount = ''monthlyBrokenCount''"
| "users_sort_str U_lastActivity = ''lastActivity''"
| "users_sort_str U_lastLoginAt = ''lastLoginAt''"

datatype AdminUnboundTokenUsageSortField =
    T_hourlyAnyUsed | T_quotaHourlyUsed | T_quotaDailyUsed | T_quotaMonthlyUsed
  | T_monthlyBrokenCount | T_dailySuccessRate | T_monthlySuccessRate | T_lastUsedAt

fun unbound_sort_str :: "AdminUnboundTokenUsageSortField \<Rightarrow> string" where
  "unbound_sort_str T_hourlyAnyUsed = ''hourlyAnyUsed''"
| "unbound_sort_str T_quotaHourlyUsed = ''quotaHourlyUsed''"
| "unbound_sort_str T_quotaDailyUsed = ''quotaDailyUsed''"
| "unbound_sort_str T_quotaMonthlyUsed = ''quotaMonthlyUsed''"
| "unbound_sort_str T_monthlyBrokenCount = ''monthlyBrokenCount''"
| "unbound_sort_str T_dailySuccessRate = ''dailySuccessRate''"
| "unbound_sort_str T_monthlySuccessRate = ''monthlySuccessRate''"
| "unbound_sort_str T_lastUsedAt = ''lastUsedAt''"

datatype AdminUsersCollectionView = V_users | V_usage

datatype AdminTokensCollectionView = V_tokens | V_unbound_usage

text \<open>\<open>Number.isFinite(page) ? Math.max(1, Math.trunc(page)) : d\<close>.\<close>

definition finite_at_least_1 :: "jsnum option \<Rightarrow> int \<Rightarrow> int" where
  "finite_at_least_1 page d = (case page of Some (Fin q) \<Rightarrow> max 1 (trunc q) | _ \<Rightarrow> d)"

definition set_if :: "bool \<Rightarrow> string \<Rightarrow> string \<Rightarrow> params \<Rightarrow> params" where
  "set_if b k v ps = (if b then usp_set k v ps else ps)"

definition set_sort :: "string option \<Rightarrow> SortDirection option \<Rightarrow> params \<Rightarrow> params" where
  "set_sort sortField order ps = (case sortField of None \<Rightarrow> ps
     | Some f \<Rightarrow> usp_set ''order'' (order_str (nullish order Desc)) (usp_set ''sort'' f ps))"

definition page_params :: "string option \<Rightarrow> jsnum option \<Rightarrow> params" where
  "page_params query page =
     (let normalizedQuery = map_option js_trim query; normalizedPage = finite_at_least_1 page 1 in
      set_if (normalizedPage > 1) ''page'' (int_to_string normalizedPage)
        (set_if (truthy_str normalizedQuery) ''q'' (nullish normalizedQuery []) []))"

definition appendTokensContext ::
  "string \<Rightarrow> string option \<Rightarrow> jsnum option \<Rightarrow> AdminUnboundTokenUsageSortField option \<Rightarrow>
   SortDirection option \<Rightarrow> AdminTokensCollectionView option \<Rightarrow> string" where
  "appendTokensContext path query page sortField order collection =
     with_search path
       (set_if (collection = Some V_unbound_usage) ''view'' ''unbound-usage''
         (set_sort (map_option unbound_sort_str sortField) order (page_params query page)))"

definition tokenDetailPath ::
  "string \<Rightarrow> string option \<Rightarrow> jsnum option \<Rightarrow> AdminUnboundTokenUsageSortField option \<Rightarrow>
   SortDirection option \<Rightarrow> AdminTokensCollectionView option \<Rightarrow> string" where
  "tokenDetailPath i query page sortField order collection =
     appendTokensContext (ADMIN_BASE @ ''/tokens/'' @ encodeURIComponent i) query page sortField order collection"

definition unboundTokenUsagePath ::
  "string option \<Rightarrow> jsnum option \<Rightarrow> AdminUnboundTokenUsageSortField option \<Rightarrow> SortDirection option \<Rightarrow> string" where
  "unboundTokenUsagePath query page sortField order =
     with_search (ADMIN_BASE @ ''/tokens/leaderboard'')
       (set_sort (map_option unbound_sort_str sortField) order (page_params query page))"

definition appendUsersContext ::
  "string \<Rightarrow> string option \<Rightarrow> string option \<Rightarrow> jsnum option \<Rightarrow> AdminUsersSortField option \<Rightarrow>
   SortDirection option \<Rightarrow> AdminUsersCollectionView option \<Rightarrow> string" where
  "appendUsersContext path query tagId page sortField order collection =
     (let normalizedQuery = map_option js_trim query;
          normalizedTagId = map_option js_trim tagId;
          normalizedPage = finite_at_least_1 page 1;
          p1 = set_if (truthy_str normalizedQuery) ''q'' (nullish normalizedQuery []) [];
          p2 = set_if (truthy_str normalizedTagId) ''tagId'' (nullish normalizedTagId []) p1;
          p3 = set_if (normalizedPage > 1) ''page'' (int_to_string normalizedPage) p2;
          p4 = set_sort (map_option users_sort_str sortField) order p3;
          p5 = set_if (collection = Some V_usage \<and> \<not> suffix ''/usage'' path) ''view'' ''usage'' p4
      in with_search path p5)"

definition buildAdminUsersPath ::
  "string option \<Rightarrow> string option \<Rightarrow> jsnum option \<Rightarrow> AdminUsersSortField option \<Rightarrow> SortDirection option \<Rightarrow> string" where
  "buildAdminUsersPath query tagId page sortField order =
     appendUsersContext (ADMIN_BASE @ ''/users'') query tagId page sortField order None"

definition userUsagePath ::
  "string option \<Rightarrow> string option \<Rightarrow> jsnum option \<Rightarrow> AdminUsersSortField option \<Rightarrow> SortDirection option \<Rightarrow> string" where
  "userUsagePath query tagId page sortField order =
     appendUsersContext (ADMIN_BASE @ ''/users/usage'') query tagId page sortField order None"

definition userDetailPath ::
  "string \<Rightarrow> string option \<Rightarrow> string option \<Rightarrow> jsnum option \<Rightarrow> AdminUsersSortField option \<Rightarrow>
   SortDirection option \<Rightarrow> AdminUsersCollectionView option \<Rightarrow> string" where
  "userDetailPath i = appendUsersContext (ADMIN_BASE @ ''/users/'' @ encodeURIComponent i)"

definition userTagsPath ::
  "string option \<Rightarrow> string option \<Rightarrow> jsnum option \<Rightarrow> AdminUsersSortField option \<Rightarrow>
   SortDirection option \<Rightarrow> AdminUsersCollectionView option \<Rightarrow> string" where
  "userTagsPath = appendUsersContext (ADMIN_BASE @ ''/users/tags'')"

definition userTagCreatePath ::
  "string option \<Rightarrow> string option \<Rightarrow> jsnum option \<Rightarrow> AdminUsersSortField option \<Rightarrow>
   SortDirection option \<Rightarrow> AdminUsersCollectionView option \<Rightarrow> string" where
  "userTagCreatePath = appendUsersContext (ADMIN_BASE @ ''/users/tags/new'')"

definition userTagEditPath ::
  "string \<Rightarrow> string option \<Rightarrow> string option \<Rightarrow> jsnum option \<Rightarrow> AdminUsersSortField option \<Rightarrow>
   SortDirection option \<Rightarrow> AdminUsersCollectionView option \<Rightarrow> string" where
  "userTagEditPath i = appendUsersContext (ADMIN_BASE @ ''/users/tags/'' @ encodeURIComponent i)"

record AdminKeyListContext =
  kc_page :: "jsnum option"
  kc_perPage :: "jsnum option"
  kc_groups :: "string list option"
  kc_statuses :: "string list option"
  kc_registrationIp :: "string option"
  kc_regions :: "string list option"

definition normalizeKeyContextValues :: "string list option \<Rightarrow> bool \<Rightarrow> bool \<Rightarrow> string list" where
  "normalizeKeyContextValues values preserveEmpty lower =
     foldl (\<lambda>normalized value. let trimmed = js_trim value in
        if trimmed = [] \<and> \<not> preserveEmpty then normalized
        else js_set_add (if lower then js_lower trimmed else trimmed) normalized)
       [] (nullish values [])"

definition appendKeysContext :: "string \<Rightarrow> AdminKeyListContext option \<Rightarrow> string" where
  "appendKeysContext path context =
     (let normalizedPage = finite_at_least_1 (Option.bind context kc_page) 1;
          normalizedPerPage = finite_at_least_1 (Option.bind context kc_perPage) DEFAULT_KEYS_PER_PAGE;
          p1 = set_if (normalizedPage > 1) ''page'' (int_to_string normalizedPage) [];
          p2 = set_if (normalizedPerPage \<noteq> DEFAULT_KEYS_PER_PAGE) ''perPage'' (int_to_string normalizedPerPage) p1;
          p3 = foldl (\<lambda>ps g. usp_append ''group'' g ps) p2
                 (normalizeKeyContextValues (Option.bind context kc_groups) True False);
          p4 = foldl (\<lambda>ps s. usp_append ''status'' s ps) p3
                 (normalizeKeyContextValues (Option.bind context kc_statuses) False True);
          ip = nullish (map_option js_trim (Option.bind context kc_registrationIp)) [];
          p5 = set_if (ip \<noteq> []) ''registrationIp'' ip p4;
          p6 = foldl (\<lambda>ps r. usp_append ''region'' r ps) p5
                 (normalizeKeyContextValues (Option.bind context kc_regions) False False)
      in with_search path p6)"

definition buildAdminKeysPath :: "AdminKeyListContext option \<Rightarrow> string" where
  "buildAdminKeysPath context = appendKeysContext (ADMIN_BASE @ ''/keys'') context"

definition keyDetailPath :: "string \<Rightarrow> AdminKeyListContext option \<Rightarrow> string" where
  "keyDetailPath i context = appendKeysContext (ADMIN_BASE @ ''/keys/'' @ encodeURIComponent i) context"

section \<open>Reading the context back from the location\<close>

definition ADMIN_USERS_SORT_FIELDS :: "AdminUsersSortField list" where
  "ADMIN_USERS_SORT_FIELDS =
     [U_hourlyAnyUsed, U_quotaHourlyUsed, U_quotaDailyUsed, U_quotaMonthlyUsed,
      U_dailySuccessRate, U_monthlySuccessRate, U_monthlyBrokenCount, U_lastActivity, U_lastLoginAt]"

definition ADMIN_USERS_OVERVIEW_SORT_FIELDS :: "AdminUsersSortField list" where
  "ADMIN_USERS_OVERVIEW_SORT_FIELDS = [U_quotaDailyUsed, U_quotaMonthlyUsed, U_lastActivity, U_lastLoginAt]"

definition ADMIN_UNBOUND_TOKEN_USAGE_SORT_FIELDS :: "AdminUnboundTokenUsageSortField list" where
  "ADMIN_UNBOUND_TOKEN_USAGE_SORT_FIELDS =
     [T_hourlyAnyUsed, T_quotaHourlyUsed, T_quotaDailyUsed, T_quotaMonthlyUsed,
      T_monthlyBrokenCount, T_dailySuccessRate, T_monthlySuccessRate, T_lastUsedAt]"

text \<open>The type guards \<open>isAdminUsersSortField\<close> and \<open>isAdminUnboundTokenUsageSortField\<close>, as the field they
  narrow the string to.\<close>

definition isAdminUsersSortField :: "string \<Rightarrow> AdminUsersSortField option" where
  "isAdminUsersSortField value = find (\<lambda>f. users_sort_str f = value) ADMIN_USERS_SORT_FIELDS"

definition isAdminUnboundTokenUsageSortField :: "string \<Rightarrow> AdminUnboundTokenUsageSortField option" where
  "isAdminUnboundTokenUsageSortField value =
     find (\<lambda>f. unbound_sort_str f = value) ADMIN_UNBOUND_TOKEN_USAGE_SORT_FIELDS"

definition get_trimmed :: "string \<Rightarrow> string \<Rightarrow> string" where
  "get_trimmed search k = nullish (map_option js_trim (usp_get (usp_parse search) k)) []"

definition page_from :: "string \<Rightarrow> int" where
  "page_from search = (case js_parse_int (get_trimmed search ''page'') of
     Some p \<Rightarrow> if p > 1 then p else 1 | None \<Rightarrow> 1)"

definition order_from :: "string \<Rightarrow> SortDirection" where
  "order_from search =
     (if map_option js_trim (usp_get (usp_parse search) ''order'') = Some ''asc'' then Asc else Desc)"

definition getAdminUsersQueryFromLocation :: "string \<Rightarrow> string" where
  "getAdminUsersQueryFromLocation search = get_trimmed search ''q''"

definition getAdminUsersTagFilterFromLocation :: "string \<Rightarrow> string option" where
  "getAdminUsersTagFilterFromLocation search =
     (let tagId = get_trimmed search ''tagId'' in if tagId \<noteq> [] then Some tagId else None)"

definition getAdminUsersPageFromLocation :: "string \<Rightarrow> int" where
  "getAdminUsersPageFromLocation search = page_from search"

definition getAdminUsersSortFromLocation :: "string \<Rightarrow> AdminUsersSortField option" where
  "getAdminUsersSortFromLocation search = isAdminUsersSortField (get_trimmed search ''sort'')"

definition getAdminUsersSortDirectionFromLocation :: "string \<Rightarrow> SortDirection option" where
  "getAdminUsersSortDirectionFromLocation search =
     (if getAdminUsersSortFromLocation search = None then None else Some (order_from search))"

definition getAdminUsersCollectionFromLocation :: "string \<Rightarrow> AdminUsersCollectionView" where
  "getAdminUsersCollectionFromLocation search =
     (if usp_get (usp_parse search) ''view'' = Some ''usage'' then V_usage else V_users)"

definition getAdminUnboundTokenUsageQueryFromLocation :: "string \<Rightarrow> string" where
  "getAdminUnboundTokenUsageQueryFromLocation search = get_trimmed search ''q''"

definition getAdminUnboundTokenUsagePageFromLocation :: "string \<Rightarrow> int" where
  "getAdminUnboundTokenUsagePageFromLocation search = page_from search"

definition getAdminUnboundTokenUsageSortFromLocation ::
  "string \<Rightarrow> AdminUnboundTokenUsageSortField option" where
  "getAdminUnboundTokenUsageSortFromLocation search =
     isAdminUnboundTokenUsageSortField (get_trimmed search ''sort'')"

definition getAdminUnboundTokenUsageSortDirectionFromLocation :: "string \<Rightarrow> SortDirection option" where
  "getAdminUnboundTokenUsageSortDirectionFromLocation search =
     (if getAdminUnboundTokenUsageSortFromLocation search = None then None else Some (order_from search))"

definition getAdminTokensCollectionFromLocation :: "string \<Rightarrow> AdminTokensCollectionView" where
  "getAdminTokensCollectionFromLocation search =
     (if usp_get (usp_parse search) ''view'' = Some ''unbound-usage'' then V_unbound_usage else V_tokens)"

definition isAdminUsersOverviewSortField :: "AdminUsersSortField option \<Rightarrow> bool" where
  "isAdminUsersOverviewSortField value =
     (case value of None \<Rightarrow> False | Some f \<Rightarrow> f \<in> set ADMIN_USERS_OVERVIEW_SORT_FIELDS)"

definition getAdminKeysPageFromLocation :: "string \<Rightarrow> int" where
  "getAdminKeysPageFromLocation search = page_from search"

definition getAdminKeysPerPageFromLocation :: "string \<Rightarrow> int" where
  "getAdminKeysPerPageFromLocation search = (case js_parse_int (get_trimmed search ''perPage'') of
     None \<Rightarrow> DEFAULT_KEYS_PER_PAGE | Some n \<Rightarrow> min 100 (max 1 n))"

definition getAdminKeysValuesFromLocation :: "string \<Rightarrow> string \<Rightarrow> string list" where
  "getAdminKeysValuesFromLocation name search =
     foldl (\<lambda>normalized value. let trimmed = js_trim value in
        if trimmed = [] \<and> name \<noteq> ''group'' then normalized
        else js_set_add (if name = ''status'' then js_lower trimmed else trimmed) normalized)
       [] (usp_get_all (usp_parse search) name)"

definition getAdminKeysRegistrationIpFromLocation :: "string \<Rightarrow> string" where
  "getAdminKeysRegistrationIpFromLocation search = get_trimmed search ''registrationIp''"

definition getAdminKeysRegionsFromLocation :: "string \<Rightarrow> string list" where
  "getAdminKeysRegionsFromLocation search =
     foldl (\<lambda>normalized value. let trimmed = js_trim value in
        if trimmed = [] then normalized else js_set_add trimmed normalized)
       [] (usp_get_all (usp_parse search) ''region'')"

section \<open>Lemmas\<close>

lemma isSameAdminRoute_eq: "isSameAdminRoute l r \<longleftrightarrow> l = r"
  by (cases l; cases r) (simp_all add: isSameAdminRoute_def)

text \<open>A path that ends in a segment which is not empty is its own normal form.\<close>

lemma normalize_id: "p \<noteq> [] \<Longrightarrow> last p \<noteq> CHR ''/'' \<Longrightarrow> normalize p = p"
  by (auto simp: normalize_def suffix_def)

lemma normalize_segment: "seg \<noteq> [] \<Longrightarrow> last seg \<noteq> CHR ''/'' \<Longrightarrow> normalize (p @ seg) = p @ seg"
  by (rule normalize_id) auto

lemma decodeSegment_encode: "valid_utf8 i \<Longrightarrow> i \<noteq> [] \<Longrightarrow> decodeSegment (encodeURIComponent i) = Some i"
  by (simp add: decodeSegment_def uri.enc_no_slash uri.dec_enc)

lemma segment_or_encode: "valid_utf8 i \<Longrightarrow> i \<noteq> [] \<Longrightarrow> segment_or mk d (encodeURIComponent i) = mk i"
  by (simp add: segment_or_def decodeSegment_encode)

lemma encode_eq_literal:
  assumes "valid_utf8 i" and "valid_utf8 w" and "encodeURIComponent w = w"
  shows "encodeURIComponent i = w \<longleftrightarrow> i = w"
  using assms uri.enc_inject [of i w] by auto

lemmas admin_path_defs = parseAdminPath_def ADMIN_BASE_def

lemma parse_tokens_segment:
  assumes "valid_utf8 i" and "i \<noteq> []"
  shows "parseAdminPath (''/admin/tokens/'' @ encodeURIComponent i) =
    (if i = ''leaderboard'' then RUnboundTokenUsage else RToken i)"
proof -
  have "encodeURIComponent i = ''leaderboard'' \<longleftrightarrow> i = ''leaderboard''"
    by (rule encode_eq_literal [OF assms(1)]) code_simp+
  moreover have "normalize (''/admin/tokens/'' @ encodeURIComponent i) = ''/admin/tokens/'' @ encodeURIComponent i"
    using assms uri.enc_last by (intro normalize_segment) auto
  ultimately show ?thesis
    using assms by (simp add: admin_path_defs segment_or_encode)
qed

lemma parse_keys_segment:
  assumes "valid_utf8 i" and "i \<noteq> []"
  shows "parseAdminPath (''/admin/keys/'' @ encodeURIComponent i) = RKey i"
proof -
  have "normalize (''/admin/keys/'' @ encodeURIComponent i) = ''/admin/keys/'' @ encodeURIComponent i"
    using assms uri.enc_last by (intro normalize_segment) auto
  then show ?thesis
    using assms by (simp add: admin_path_defs segment_or_encode)
qed

lemma parse_tags_segment:
  assumes "valid_utf8 i" and "i \<noteq> []"
  shows "parseAdminPath (''/admin/users/tags/'' @ encodeURIComponent i) =
    (if i = ''new'' then RUserTagCreate else RUserTagEdit i)"
proof -
  have "encodeURIComponent i = ''new'' \<longleftrightarrow> i = ''new''"
    by (rule encode_eq_literal [OF assms(1)]) code_simp+
  moreover have "normalize (''/admin/users/tags/'' @ encodeURIComponent i) = ''/admin/users/tags/'' @ encodeURIComponent i"
    using assms uri.enc_last by (intro normalize_segment) auto
  ultimately show ?thesis
    using assms by (simp add: admin_path_defs segment_or_encode)
qed

lemma parse_users_segment:
  assumes "valid_utf8 i" and "i \<noteq> []"
  shows "parseAdminPath (''/admin/users/'' @ encodeURIComponent i) =
    (if i = ''usage'' then RUserUsage else if i = ''tags'' then RUserTags else RUser i)"
proof -
  let ?e = "encodeURIComponent i"
  have usage: "?e = ''usage'' \<longleftrightarrow> i = ''usage''" and tags: "?e = ''tags'' \<longleftrightarrow> i = ''tags''"
    by (rule encode_eq_literal [OF assms(1)]; code_simp)+
  have norm: "normalize (''/admin/users/'' @ ?e) = ''/admin/users/'' @ ?e"
    using assms uri.enc_last by (intro normalize_segment) auto
  have "\<not> prefix ''tags/'' ?e" and "?e \<noteq> ''tags/new''"
    using uri.enc_no_slash [of i] by (auto simp: prefix_def)
  with usage tags norm assms show ?thesis
    by (simp add: admin_path_defs segment_or_encode)
qed

lemma parse_modulePath: "parseAdminPath (modulePath m) = RModule m"
  by (induction m) code_simp+

subsection \<open>Reading back a written context\<close>

lemma usp_get_set_if [simp]:
  "usp_get (set_if b k v ps) k' = (if b \<and> k' = k then Some v else usp_get ps k')"
  by (simp add: set_if_def)

lemma usp_get_set_sort [simp]:
  "usp_get (set_sort f order ps) k = (case f of None \<Rightarrow> usp_get ps k
     | Some x \<Rightarrow> if k = ''order'' then Some (order_str (nullish order Desc))
         else if k = ''sort'' then Some x else usp_get ps k)"
  by (simp add: set_sort_def split: option.split)

lemma users_sort_str_trim [simp]: "js_trim (users_sort_str f) = users_sort_str f"
  by (induction f) (simp_all, code_simp+)

lemma unbound_sort_str_trim [simp]: "js_trim (unbound_sort_str f) = unbound_sort_str f"
  by (induction f) (simp_all, code_simp+)

lemma order_str_trim [simp]: "js_trim (order_str d) = order_str d"
  by (induction d) (simp_all, code_simp+)

lemma isAdminUsersSortField_str [simp]: "isAdminUsersSortField (users_sort_str f) = Some f"
  by (induction f) code_simp+

lemma isAdminUsersSortField_Nil [simp]: "isAdminUsersSortField [] = None"
  by code_simp

lemma isAdminUnboundTokenUsageSortField_str [simp]:
  "isAdminUnboundTokenUsageSortField (unbound_sort_str f) = Some f"
  by (induction f) code_simp+

lemma isAdminUnboundTokenUsageSortField_Nil [simp]: "isAdminUnboundTokenUsageSortField [] = None"
  by code_simp

lemma order_str_eq [simp]: "order_str d = ''asc'' \<longleftrightarrow> d = Asc"
  by (cases d) simp_all

lemma finite_at_least_1_ge: "1 \<le> d \<Longrightarrow> 1 \<le> finite_at_least_1 page d"
  by (simp add: finite_at_least_1_def split: option.split jsnum.split)

lemma page_from_written:
  assumes "usp_get (usp_parse search) ''page'' =
    (if finite_at_least_1 page 1 > 1 then Some (int_to_string (finite_at_least_1 page 1)) else None)"
  shows "page_from search = finite_at_least_1 page 1"
proof (cases "finite_at_least_1 page 1 > 1")
  case True
  with assms show ?thesis by (simp add: page_from_def get_trimmed_def)
next
  case False
  have "js_parse_int [] = None" by code_simp
  with False assms finite_at_least_1_ge [of 1 page] show ?thesis
    by (simp add: page_from_def get_trimmed_def)
qed

lemma trimmed_written:
  assumes "usp_get (usp_parse search) k =
    (if truthy_str (map_option js_trim q) then Some (nullish (map_option js_trim q) []) else None)"
  shows "get_trimmed search k = nullish (map_option js_trim q) []"
  using assms by (cases q) (auto simp: get_trimmed_def)

lemmas get_users_defs =
  getAdminUsersQueryFromLocation_def getAdminUsersTagFilterFromLocation_def
  getAdminUsersPageFromLocation_def getAdminUsersSortFromLocation_def
  getAdminUsersSortDirectionFromLocation_def getAdminUsersCollectionFromLocation_def

definition users_params ::
  "string \<Rightarrow> string option \<Rightarrow> string option \<Rightarrow> jsnum option \<Rightarrow> AdminUsersSortField option \<Rightarrow>
   SortDirection option \<Rightarrow> AdminUsersCollectionView option \<Rightarrow> params" where
  "users_params path query tagId page sortField order collection =
     set_if (collection = Some V_usage \<and> \<not> suffix ''/usage'' path) ''view'' ''usage''
       (set_sort (map_option users_sort_str sortField) order
         (set_if (finite_at_least_1 page 1 > 1) ''page'' (int_to_string (finite_at_least_1 page 1))
           (set_if (truthy_str (map_option js_trim tagId)) ''tagId'' (nullish (map_option js_trim tagId) [])
             (set_if (truthy_str (map_option js_trim query)) ''q'' (nullish (map_option js_trim query) []) []))))"

lemma users_params_read:
  assumes "usp_parse search = users_params path query tagId page sortField order collection"
  shows "getAdminUsersQueryFromLocation search = nullish (map_option js_trim query) []"
    and "getAdminUsersTagFilterFromLocation search =
      (case tagId of None \<Rightarrow> None | Some t \<Rightarrow> if js_trim t = [] then None else Some (js_trim t))"
    and "getAdminUsersPageFromLocation search = finite_at_least_1 page 1"
    and "getAdminUsersSortFromLocation search = sortField"
    and "getAdminUsersSortDirectionFromLocation search = map_option (\<lambda>_. nullish order Desc) sortField"
    and "getAdminUsersCollectionFromLocation search =
      (if collection = Some V_usage \<and> \<not> suffix ''/usage'' path then V_usage else V_users)"
proof -
  note read = assms users_params_def
  have q: "get_trimmed search ''q'' = nullish (map_option js_trim query) []"
    by (rule trimmed_written) (simp add: read split: option.split)
  have t: "get_trimmed search ''tagId'' = nullish (map_option js_trim tagId) []"
    by (rule trimmed_written) (simp add: read split: option.split)
  have p: "page_from search = finite_at_least_1 page 1"
    by (rule page_from_written) (simp add: read split: option.split)
  have s: "isAdminUsersSortField (get_trimmed search ''sort'') = sortField"
    by (cases sortField) (simp_all add: get_trimmed_def read)
  have o: "order_from search = nullish order Desc" if "sortField = Some f" for f
    using that by (cases "nullish order Desc") (simp_all add: order_from_def read del: order_str.simps)
  show "getAdminUsersQueryFromLocation search = nullish (map_option js_trim query) []"
    by (simp add: getAdminUsersQueryFromLocation_def q)
  show "getAdminUsersTagFilterFromLocation search =
      (case tagId of None \<Rightarrow> None | Some t \<Rightarrow> if js_trim t = [] then None else Some (js_trim t))"
    by (simp add: getAdminUsersTagFilterFromLocation_def t split: option.split)
  show "getAdminUsersPageFromLocation search = finite_at_least_1 page 1"
    by (simp add: getAdminUsersPageFromLocation_def p)
  show sf: "getAdminUsersSortFromLocation search = sortField"
    by (simp add: getAdminUsersSortFromLocation_def s)
  show "getAdminUsersSortDirectionFromLocation search = map_option (\<lambda>_. nullish order Desc) sortField"
    by (cases sortField) (simp_all add: getAdminUsersSortDirectionFromLocation_def sf o)
  show "getAdminUsersCollectionFromLocation search =
      (if collection = Some V_usage \<and> \<not> suffix ''/usage'' path then V_usage else V_users)"
    by (cases sortField) (simp_all add: getAdminUsersCollectionFromLocation_def read)
qed

lemma appendUsersContext_eq:
  "appendUsersContext path query tagId page sortField order collection =
   with_search path (users_params path query tagId page sortField order collection)"
  by (simp add: appendUsersContext_def users_params_def Let_def)

definition tokens_params ::
  "string option \<Rightarrow> jsnum option \<Rightarrow> AdminUnboundTokenUsageSortField option \<Rightarrow> SortDirection option \<Rightarrow>
   AdminTokensCollectionView option \<Rightarrow> params" where
  "tokens_params query page sortField order collection =
     set_if (collection = Some V_unbound_usage) ''view'' ''unbound-usage''
       (set_sort (map_option unbound_sort_str sortField) order (page_params query page))"

lemma tokens_params_read:
  assumes "usp_parse search = tokens_params query page sortField order collection"
  shows "getAdminUnboundTokenUsageQueryFromLocation search = nullish (map_option js_trim query) []"
    and "getAdminUnboundTokenUsagePageFromLocation search = finite_at_least_1 page 1"
    and "getAdminUnboundTokenUsageSortFromLocation search = sortField"
    and "getAdminUnboundTokenUsageSortDirectionFromLocation search = map_option (\<lambda>_. nullish order Desc) sortField"
    and "getAdminTokensCollectionFromLocation search =
      (if collection = Some V_unbound_usage then V_unbound_usage else V_tokens)"
proof -
  note read = assms tokens_params_def page_params_def Let_def
  have q: "get_trimmed search ''q'' = nullish (map_option js_trim query) []"
    by (rule trimmed_written) (simp add: read split: option.split)
  have p: "page_from search = finite_at_least_1 page 1"
    by (rule page_from_written) (simp add: read split: option.split)
  have s: "isAdminUnboundTokenUsageSortField (get_trimmed search ''sort'') = sortField"
    by (cases sortField) (simp_all add: get_trimmed_def read)
  have o: "order_from search = nullish order Desc" if "sortField = Some f" for f
    using that by (cases "nullish order Desc") (simp_all add: order_from_def read del: order_str.simps)
  show "getAdminUnboundTokenUsageQueryFromLocation search = nullish (map_option js_trim query) []"
    by (simp add: getAdminUnboundTokenUsageQueryFromLocation_def q)
  show "getAdminUnboundTokenUsagePageFromLocation search = finite_at_least_1 page 1"
    by (simp add: getAdminUnboundTokenUsagePageFromLocation_def p)
  show sf: "getAdminUnboundTokenUsageSortFromLocation search = sortField"
    by (simp add: getAdminUnboundTokenUsageSortFromLocation_def s)
  show "getAdminUnboundTokenUsageSortDirectionFromLocation search = map_option (\<lambda>_. nullish order Desc) sortField"
    by (cases sortField) (simp_all add: getAdminUnboundTokenUsageSortDirectionFromLocation_def sf o)
  show "getAdminTokensCollectionFromLocation search =
      (if collection = Some V_unbound_usage then V_unbound_usage else V_tokens)"
    by (cases sortField) (simp_all add: getAdminTokensCollectionFromLocation_def read)
qed

lemma appendTokensContext_eq:
  "appendTokensContext path query page sortField order collection =
   with_search path (tokens_params query page sortField order collection)"
  by (simp add: appendTokensContext_def tokens_params_def)

subsection \<open>Normalised filter values\<close>

text \<open>The filters of the key list are written and read by the same normalisation, which is idempotent.\<close>

definition normal_values :: "(string \<Rightarrow> string) \<Rightarrow> bool \<Rightarrow> string list \<Rightarrow> string list" where
  "normal_values f keep xs = js_set_of (map (f \<circ> js_trim) (filter (\<lambda>v. js_trim v \<noteq> [] \<or> keep) xs))"

lemma normal_values_fold:
  "foldl (\<lambda>n v. if js_trim v = [] \<and> \<not> keep then n else js_set_add (f (js_trim v)) n) [] xs =
   normal_values f keep xs"
proof -
  have "foldl (\<lambda>n v. if js_trim v = [] \<and> \<not> keep then n else js_set_add (f (js_trim v)) n) acc xs =
    foldl (\<lambda>s x. js_set_add x s) acc (map (f \<circ> js_trim) (filter (\<lambda>v. js_trim v \<noteq> [] \<or> keep) xs))"
    for acc
    by (induction xs arbitrary: acc) auto
  then show ?thesis by (simp add: normal_values_def js_set_of_def)
qed

lemma normalizeKeyContextValues_eq:
  "normalizeKeyContextValues values keep lower =
   normal_values (if lower then js_lower else (\<lambda>x. x)) keep (nullish values [])"
proof -
  have "normalizeKeyContextValues values keep lower =
    normal_values (\<lambda>t. if lower then js_lower t else t) keep (nullish values [])"
    unfolding normalizeKeyContextValues_def Let_def by (rule normal_values_fold)
  then show ?thesis by (cases lower) simp_all
qed

lemma getAdminKeysValuesFromLocation_eq:
  "getAdminKeysValuesFromLocation name search =
     normal_values (if name = ''status'' then js_lower else (\<lambda>x. x)) (name = ''group'')
       (usp_get_all (usp_parse search) name)"
proof -
  have "getAdminKeysValuesFromLocation name search =
    normal_values (\<lambda>t. if name = ''status'' then js_lower t else t) (name = ''group'')
      (usp_get_all (usp_parse search) name)"
    unfolding getAdminKeysValuesFromLocation_def Let_def by (rule normal_values_fold)
  moreover have "(\<lambda>t. if b then js_lower t else t) = (if b then js_lower else (\<lambda>x. x))" for b
    by simp
  ultimately show ?thesis by simp
qed

lemma getAdminKeysRegionsFromLocation_eq:
  "getAdminKeysRegionsFromLocation search =
     normal_values (\<lambda>x. x) False (usp_get_all (usp_parse search) ''region'')"
  using normal_values_fold [of False "\<lambda>x. x"]
  by (simp add: getAdminKeysRegionsFromLocation_def Let_def)

lemma normal_values_idem:
  assumes f: "\<And>t. js_trim (f (js_trim t)) = f (js_trim t)" "\<And>t. f (f t) = f t" "\<And>t. f t = [] \<longleftrightarrow> t = []"
  shows "normal_values f keep (normal_values f keep xs) = normal_values f keep xs"
proof -
  let ?L = "normal_values f keep xs"
  have L: "f (js_trim w) = w \<and> (js_trim w \<noteq> [] \<or> keep)" if "w \<in> set ?L" for w
    using that f by (auto simp: normal_values_def)
  then have "filter (\<lambda>v. js_trim v \<noteq> [] \<or> keep) ?L = ?L" by (intro filter_True) blast
  moreover from L have "map (f \<circ> js_trim) ?L = ?L" by (simp add: map_idI)
  moreover have "distinct ?L" by (simp add: normal_values_def)
  ultimately show ?thesis
    using js_set_of_distinct [of ?L] by (subst normal_values_def) simp
qed

lemma normal_values_lower_idem:
  "normal_values js_lower keep (normal_values js_lower keep xs) = normal_values js_lower keep xs"
  by (rule normal_values_idem) (simp_all add: js_trim_lower, simp add: js_lower_def)

lemma normal_values_id_idem:
  "normal_values (\<lambda>x. x) keep (normal_values (\<lambda>x. x) keep xs) = normal_values (\<lambda>x. x) keep xs"
  by (rule normal_values_idem) simp_all

subsection \<open>The key list context\<close>

lemma foldl_usp_append: "foldl (\<lambda>ps g. usp_append k g ps) ps xs = ps @ map (Pair k) xs"
  by (induction xs arbitrary: ps) (simp_all add: usp_append_def)

lemma usp_get_all_map [simp]: "usp_get_all (map (Pair k) xs) k' = (if k = k' then xs else [])"
proof (cases "k = k'")
  case True
  then show ?thesis by (induction xs) simp_all
next
  case False
  then show ?thesis by (induction xs) simp_all
qed

lemma usp_get_map_other [simp]: "k \<noteq> k' \<Longrightarrow> usp_get (ps @ map (Pair k) xs) k' = usp_get ps k'"
proof -
  assume "k \<noteq> k'"
  then have "map_of (map (Pair k) xs) k' = None" by (induction xs) simp_all
  then show ?thesis by (simp add: usp_get_def map_add_def split: option.split)
qed

definition keys_params :: "AdminKeyListContext option \<Rightarrow> params" where
  "keys_params context =
     (let page = finite_at_least_1 (Option.bind context kc_page) 1;
          perPage = finite_at_least_1 (Option.bind context kc_perPage) DEFAULT_KEYS_PER_PAGE;
          ip = nullish (map_option js_trim (Option.bind context kc_registrationIp)) []
      in (if page > 1 then [(''page'', int_to_string page)] else []) @
         (if perPage \<noteq> DEFAULT_KEYS_PER_PAGE then [(''perPage'', int_to_string perPage)] else []) @
         map (Pair ''group'') (normalizeKeyContextValues (Option.bind context kc_groups) True False) @
         map (Pair ''status'') (normalizeKeyContextValues (Option.bind context kc_statuses) False True) @
         (if ip \<noteq> [] then [(''registrationIp'', ip)] else []) @
         map (Pair ''region'') (normalizeKeyContextValues (Option.bind context kc_regions) False False))"

lemma appendKeysContext_eq: "appendKeysContext path context = with_search path (keys_params context)"
proof -
  have new: "set_if b k v ps = ps @ (if b then [(k, v)] else [])" if "k \<notin> fst ` set ps" for b k v ps
    using that by (simp add: set_if_def usp_set_new)
  show ?thesis
    unfolding appendKeysContext_def keys_params_def Let_def foldl_usp_append
    by (subst new, force)+ (simp add: new)
qed

lemma usp_get_Cons [simp]: "usp_get ((k, v) # ps) k' = (if k = k' then Some v else usp_get ps k')"
  by (simp add: usp_get_def)

lemma usp_get_map_Pair [simp]:
  "k \<noteq> k' \<Longrightarrow> usp_get (map (Pair k) xs @ ps) k' = usp_get ps k'"
  by (induction xs) simp_all

lemma usp_get_map_Pair_last [simp]: "k \<noteq> k' \<Longrightarrow> usp_get (map (Pair k) xs) k' = None"
  using usp_get_map_Pair [of k k' xs "[]"] by simp

lemma keys_params_read:
  assumes "usp_parse search = keys_params context"
  shows "getAdminKeysPageFromLocation search = finite_at_least_1 (Option.bind context kc_page) 1"
    and "getAdminKeysPerPageFromLocation search =
      min 100 (finite_at_least_1 (Option.bind context kc_perPage) DEFAULT_KEYS_PER_PAGE)"
    and "getAdminKeysValuesFromLocation ''group'' search =
      normalizeKeyContextValues (Option.bind context kc_groups) True False"
    and "getAdminKeysValuesFromLocation ''status'' search =
      normalizeKeyContextValues (Option.bind context kc_statuses) False True"
    and "getAdminKeysRegistrationIpFromLocation search =
      nullish (map_option js_trim (Option.bind context kc_registrationIp)) []"
    and "getAdminKeysRegionsFromLocation search =
      normalizeKeyContextValues (Option.bind context kc_regions) False False"
proof -
  note read = assms keys_params_def Let_def
  have none: "js_parse_int [] = None" by code_simp
  let ?per = "finite_at_least_1 (Option.bind context kc_perPage) DEFAULT_KEYS_PER_PAGE"
  show "getAdminKeysPageFromLocation search = finite_at_least_1 (Option.bind context kc_page) 1"
    unfolding getAdminKeysPageFromLocation_def by (rule page_from_written) (simp add: read)
  have "1 \<le> ?per" by (rule finite_at_least_1_ge) (simp add: DEFAULT_KEYS_PER_PAGE_def)
  then show "getAdminKeysPerPageFromLocation search = min 100 ?per"
    by (cases "?per = DEFAULT_KEYS_PER_PAGE")
      (simp_all add: getAdminKeysPerPageFromLocation_def get_trimmed_def read none DEFAULT_KEYS_PER_PAGE_def)
  show "getAdminKeysValuesFromLocation ''group'' search =
      normalizeKeyContextValues (Option.bind context kc_groups) True False"
    by (simp add: getAdminKeysValuesFromLocation_eq normalizeKeyContextValues_eq read normal_values_id_idem)
  show "getAdminKeysValuesFromLocation ''status'' search =
      normalizeKeyContextValues (Option.bind context kc_statuses) False True"
    by (simp add: getAdminKeysValuesFromLocation_eq normalizeKeyContextValues_eq read normal_values_lower_idem)
  show "getAdminKeysRegistrationIpFromLocation search =
      nullish (map_option js_trim (Option.bind context kc_registrationIp)) []"
    by (cases "Option.bind context kc_registrationIp")
      (simp_all add: getAdminKeysRegistrationIpFromLocation_def get_trimmed_def read)
  show "getAdminKeysRegionsFromLocation search =
      normalizeKeyContextValues (Option.bind context kc_regions) False False"
    by (simp add: getAdminKeysRegionsFromLocation_eq normalizeKeyContextValues_eq read normal_values_id_idem)
qed

lemma detail_pathnames:
  "url_pathname (tokenDetailPath i q p ts d tc) = ''/admin/tokens/'' @ encodeURIComponent i"
  "url_pathname (keyDetailPath i kc) = ''/admin/keys/'' @ encodeURIComponent i"
  "url_pathname (userDetailPath i q t p us d uc) = ''/admin/users/'' @ encodeURIComponent i"
  "url_pathname (userTagEditPath i q t p us d uc) = ''/admin/users/tags/'' @ encodeURIComponent i"
  by (simp_all add: tokenDetailPath_def keyDetailPath_def userDetailPath_def userTagEditPath_def
      appendTokensContext_eq appendKeysContext_eq appendUsersContext_eq ADMIN_BASE_def
      url_pathname_with_search encode_no_query)

lemma collection_pathnames:
  "url_pathname (unboundTokenUsagePath q p ts d) = ''/admin/tokens/leaderboard''"
  "url_pathname (buildAdminUsersPath q t p us d) = ''/admin/users''"
  "url_pathname (userUsagePath q t p us d) = ''/admin/users/usage''"
  "url_pathname (userTagsPath q t p us d uc) = ''/admin/users/tags''"
  "url_pathname (userTagCreatePath q t p us d uc) = ''/admin/users/tags/new''"
  "url_pathname (buildAdminKeysPath kc) = ''/admin/keys''"
  by (simp_all add: unboundTokenUsagePath_def buildAdminUsersPath_def userUsagePath_def userTagsPath_def
      userTagCreatePath_def buildAdminKeysPath_def appendKeysContext_eq appendUsersContext_eq
      ADMIN_BASE_def url_pathname_with_search)

lemma parse_collections:
  "parseAdminPath ''/admin/tokens/leaderboard'' = RUnboundTokenUsage"
  "parseAdminPath ''/admin/users'' = RModule Users"
  "parseAdminPath ''/admin/users/usage'' = RUserUsage"
  "parseAdminPath ''/admin/users/tags'' = RUserTags"
  "parseAdminPath ''/admin/users/tags/new'' = RUserTagCreate"
  "parseAdminPath ''/admin/keys'' = RModule Keys"
  by code_simp+

section \<open>Properties\<close>

text \<open>C18: the detail pages of the admin console.  For every non-empty identifier the path of a builder parses
  back to the route of that identifier, except that the identifiers \<open>leaderboard\<close> (of a token), \<open>usage\<close> and
  \<open>tags\<close> (of a user) and \<open>new\<close> (of a tag) name another page.\<close>

theorem admin_detail_paths_roundtrip:
  assumes "valid_utf8 i" and "i \<noteq> []"
  shows "parseAdminPath (url_pathname (tokenDetailPath i q p ts d tc)) =
           (if i = ''leaderboard'' then RUnboundTokenUsage else RToken i) \<and>
         parseAdminPath (url_pathname (keyDetailPath i kc)) = RKey i \<and>
         parseAdminPath (url_pathname (userDetailPath i q t p us d uc)) =
           (if i = ''usage'' then RUserUsage else if i = ''tags'' then RUserTags else RUser i) \<and>
         parseAdminPath (url_pathname (userTagEditPath i q t p us d uc)) =
           (if i = ''new'' then RUserTagCreate else RUserTagEdit i)"
  unfolding detail_pathnames
  by (intro conjI parse_tokens_segment parse_keys_segment parse_users_segment parse_tags_segment assms)

theorem admin_detail_paths_roundtrip_witness:
  "parseAdminPath (url_pathname (tokenDetailPath ''a/b'' None None None None None)) = RToken ''a/b'' \<and>
   parseAdminPath (url_pathname (userTagEditPath ''new'' None None None None None None)) = RUserTagCreate"
proof -
  have v: "valid_utf8 ''a/b''" "valid_utf8 ''new''" by code_simp+
  show ?thesis
    using admin_detail_paths_roundtrip [OF v(1)] admin_detail_paths_roundtrip [OF v(2)] by simp
qed

text \<open>The collection pages.  Every other builder's path, with any context, parses back to the page it was
  built for, and so does the path of every module.\<close>

lemma admin_collection_paths_roundtrip:
  "parseAdminPath (url_pathname (unboundTokenUsagePath q p ts d)) = RUnboundTokenUsage \<and>
   parseAdminPath (url_pathname (buildAdminUsersPath q t p us d)) = RModule Users \<and>
   parseAdminPath (url_pathname (userUsagePath q t p us d)) = RUserUsage \<and>
   parseAdminPath (url_pathname (userTagsPath q t p us d uc)) = RUserTags \<and>
   parseAdminPath (url_pathname (userTagCreatePath q t p us d uc)) = RUserTagCreate \<and>
   parseAdminPath (url_pathname (buildAdminKeysPath kc)) = RModule Keys \<and>
   parseAdminPath (modulePath m) = RModule m"
  unfolding collection_pathnames parse_collections parse_modulePath by simp

text \<open>The context of the users pages.  What a builder writes into the query is what the readers of the
  location find: the trimmed query and tag, the page number truncated and at least 1, the sort field with
  its direction (descending unless given), and the collection.\<close>

lemma admin_users_context_roundtrip:
  fixes path query tagId page sortField order collection
  defines "search \<equiv> url_search (appendUsersContext path query tagId page sortField order collection)"
  assumes "CHR ''?'' \<notin> set path"
  shows "getAdminUsersQueryFromLocation search = nullish (map_option js_trim query) [] \<and>
    getAdminUsersTagFilterFromLocation search =
      (case tagId of None \<Rightarrow> None | Some t \<Rightarrow> if js_trim t = [] then None else Some (js_trim t)) \<and>
    getAdminUsersPageFromLocation search = finite_at_least_1 page 1 \<and>
    getAdminUsersSortFromLocation search = sortField \<and>
    getAdminUsersSortDirectionFromLocation search = map_option (\<lambda>_. nullish order Desc) sortField \<and>
    getAdminUsersCollectionFromLocation search =
      (if collection = Some V_usage \<and> \<not> suffix ''/usage'' path then V_usage else V_users)"
proof -
  have parse: "usp_parse search = users_params path query tagId page sortField order collection"
    unfolding search_def appendUsersContext_eq using assms(2) by (rule usp_parse_search)
  from users_params_read [OF parse] show ?thesis by (intro conjI)
qed



text \<open>Two routes are the same route exactly when they are equal.\<close>

lemma isSameAdminRoute_correct: "isSameAdminRoute l r \<longleftrightarrow> l = r"
  by (rule isSameAdminRoute_eq)

end
