(* ===== verification/Admin_Navigation.thy ===== *)
theory Admin_Navigation
  imports Admin_Routes
begin

text \<open>
  Navigation of the admin console (\<open>web/src/AdminDashboard.tsx\<close>): the location, the route and the contexts of the
  lists of users, of unbound tokens and of keys, the handlers that change them together, and the effects that read
  them back from the location when the route changes.  The component is shown to keep the lists in step with the
  location, so that a reload or a link shows the same list.
\<close>

section \<open>State\<close>

record admin_nav =
  nv_pathname :: string
  nv_search :: string
  nv_route :: AdminPathRoute
  nv_usersPage :: int
  nv_usersQueryInput :: string
  nv_usersQuery :: string
  nv_usersTagFilterId :: "string option"
  nv_usersSort :: "AdminUsersSortField option"
  nv_usersSortOrder :: "SortDirection option"
  nv_unboundPage :: int
  nv_unboundQueryInput :: string
  nv_unboundQuery :: string
  nv_unboundSort :: "AdminUnboundTokenUsageSortField option"
  nv_unboundSortOrder :: "SortDirection option"
  nv_keysPage :: int
  nv_keysPerPage :: int
  nv_keyGroups :: "string list"
  nv_keyStatuses :: "string list"
  nv_keyRegistrationIp :: string
  nv_keyRegistrationIpInput :: string
  nv_keyRegions :: "string list"

abbreviation ADMIN_USERS_DEFAULT_SORT_FIELD :: AdminUsersSortField where
  "ADMIN_USERS_DEFAULT_SORT_FIELD \<equiv> U_lastLoginAt"

abbreviation ADMIN_UNBOUND_TOKEN_USAGE_DEFAULT_SORT_FIELD :: AdminUnboundTokenUsageSortField where
  "ADMIN_UNBOUND_TOKEN_USAGE_DEFAULT_SORT_FIELD \<equiv> T_lastUsedAt"

definition isUsersModuleRoute :: "AdminPathRoute \<Rightarrow> bool" where
  "isUsersModuleRoute route \<longleftrightarrow> route = RModule Users"

definition isUserUsageRoute :: "AdminPathRoute \<Rightarrow> bool" where
  "isUserUsageRoute route \<longleftrightarrow> route = RUserUsage"

section \<open>Effects of a new route\<close>

definition users_effect :: "admin_nav \<Rightarrow> admin_nav" where
  "users_effect st =
     (if \<not> (isUsersModuleRoute (nv_route st) \<or> isUserUsageRoute (nv_route st)) then st
      else let search = nv_search st;
               locationSort = getAdminUsersSortFromLocation search;
               normalizedSort = (if isUsersModuleRoute (nv_route st) \<and> \<not> isAdminUsersOverviewSortField locationSort then None else locationSort);
               normalizedSortOrder = (if normalizedSort \<noteq> None then getAdminUsersSortDirectionFromLocation search else None)
           in st\<lparr>nv_usersPage := getAdminUsersPageFromLocation search, nv_usersQueryInput := getAdminUsersQueryFromLocation search,
                nv_usersQuery := getAdminUsersQueryFromLocation search, nv_usersTagFilterId := getAdminUsersTagFilterFromLocation search,
                nv_usersSort := normalizedSort, nv_usersSortOrder := normalizedSortOrder\<rparr>)"

definition unbound_effect :: "admin_nav \<Rightarrow> admin_nav" where
  "unbound_effect st =
     (if nv_route st \<noteq> RUnboundTokenUsage then st
      else let search = nv_search st
           in st\<lparr>nv_unboundPage := getAdminUnboundTokenUsagePageFromLocation search,
                nv_unboundQueryInput := getAdminUnboundTokenUsageQueryFromLocation search,
                nv_unboundQuery := getAdminUnboundTokenUsageQueryFromLocation search,
                nv_unboundSort := getAdminUnboundTokenUsageSortFromLocation search,
                nv_unboundSortOrder := getAdminUnboundTokenUsageSortDirectionFromLocation search\<rparr>)"

definition keys_effect :: "admin_nav \<Rightarrow> admin_nav" where
  "keys_effect st =
     (if nv_route st \<noteq> RModule Keys then st
      else let search = nv_search st
           in st\<lparr>nv_keysPage := getAdminKeysPageFromLocation search, nv_keysPerPage := getAdminKeysPerPageFromLocation search,
                nv_keyGroups := getAdminKeysValuesFromLocation ''group'' search,
                nv_keyStatuses := getAdminKeysValuesFromLocation ''status'' search,
                nv_keyRegistrationIp := getAdminKeysRegistrationIpFromLocation search,
                nv_keyRegistrationIpInput := getAdminKeysRegistrationIpFromLocation search,
                nv_keyRegions := getAdminKeysRegionsFromLocation search\<rparr>)"

definition run_effects :: "admin_nav \<Rightarrow> admin_nav" where
  "run_effects st = keys_effect (unbound_effect (users_effect st))"

text \<open>The page as it is loaded, and the back and forward buttons.\<close>

definition load_page :: "string \<Rightarrow> string \<Rightarrow> admin_nav" where
  "load_page pathname search = run_effects
     \<lparr>nv_pathname = pathname, nv_search = search, nv_route = parseAdminPath pathname,
      nv_usersPage = getAdminUsersPageFromLocation search, nv_usersQueryInput = getAdminUsersQueryFromLocation search,
      nv_usersQuery = getAdminUsersQueryFromLocation search, nv_usersTagFilterId = getAdminUsersTagFilterFromLocation search,
      nv_usersSort = getAdminUsersSortFromLocation search, nv_usersSortOrder = getAdminUsersSortDirectionFromLocation search,
      nv_unboundPage = getAdminUnboundTokenUsagePageFromLocation search,
      nv_unboundQueryInput = getAdminUnboundTokenUsageQueryFromLocation search,
      nv_unboundQuery = getAdminUnboundTokenUsageQueryFromLocation search,
      nv_unboundSort = getAdminUnboundTokenUsageSortFromLocation search,
      nv_unboundSortOrder = getAdminUnboundTokenUsageSortDirectionFromLocation search,
      nv_keysPage = getAdminKeysPageFromLocation search, nv_keysPerPage = getAdminKeysPerPageFromLocation search,
      nv_keyGroups = getAdminKeysValuesFromLocation ''group'' search,
      nv_keyStatuses = getAdminKeysValuesFromLocation ''status'' search,
      nv_keyRegistrationIp = getAdminKeysRegistrationIpFromLocation search,
      nv_keyRegistrationIpInput = getAdminKeysRegistrationIpFromLocation search,
      nv_keyRegions = getAdminKeysRegionsFromLocation search\<rparr>"

definition onPopState :: "string \<Rightarrow> string \<Rightarrow> admin_nav \<Rightarrow> admin_nav" where
  "onPopState pathname search st =
     run_effects (st\<lparr>nv_pathname := pathname, nv_search := search, nv_route := parseAdminPath pathname\<rparr>)"

section \<open>URLs\<close>

text \<open>\<open>new URL(path, origin)\<close> resolves the segments \<open>.\<close> and \<open>..\<close> of the path, also when percent-encoded.\<close>

definition single_dot :: "string \<Rightarrow> bool" where
  "single_dot s \<longleftrightarrow> js_lower s \<in> {''.'', ''%2e''}"

definition double_dot :: "string \<Rightarrow> bool" where
  "double_dot s \<longleftrightarrow> js_lower s \<in> {''..'', ''.%2e'', ''%2e.'', ''%2e%2e''}"

fun resolve_dots :: "string list \<Rightarrow> string list \<Rightarrow> string list" where
  "resolve_dots acc [] = rev acc"
| "resolve_dots acc (s # ss) =
     (if double_dot s then resolve_dots (if ss = [] then [] # tl acc else tl acc) ss
      else if single_dot s then resolve_dots (if ss = [] then [] # acc else acc) ss
      else resolve_dots (s # acc) ss)"

definition url_resolve :: "string \<Rightarrow> string" where
  "url_resolve pathname = CHR ''/'' # js_join ''/'' (resolve_dots [] (js_split CHR ''/'' (tl pathname)))"

definition navigateToPath :: "string \<Rightarrow> admin_nav \<Rightarrow> admin_nav" where
  "navigateToPath path st =
     (let pathname = url_resolve (url_pathname path);
          nextRoute = parseAdminPath pathname;
          st1 = st\<lparr>nv_pathname := pathname, nv_search := url_search path\<rparr>
      in if isSameAdminRoute (nv_route st) nextRoute then st1 else run_effects (st1\<lparr>nv_route := nextRoute\<rparr>))"

section \<open>Handlers\<close>

datatype AdminNavTarget = Nav_module AdminModuleId | Nav_user_usage

definition navigateModule :: "AdminNavTarget \<Rightarrow> admin_nav \<Rightarrow> admin_nav" where
  "navigateModule target st = (case target of
     Nav_user_usage \<Rightarrow>
       (let search = nv_search st
        in navigateToPath (userUsagePath (Some (getAdminUsersQueryFromLocation search)) (getAdminUsersTagFilterFromLocation search)
             (Some (num_of_int (getAdminUsersPageFromLocation search))) (getAdminUsersSortFromLocation search)
             (getAdminUsersSortDirectionFromLocation search)) st)
   | Nav_module m \<Rightarrow> navigateToPath (modulePath m) st)"

definition keys_context :: "admin_nav \<Rightarrow> AdminKeyListContext" where
  "keys_context st = \<lparr>kc_page = Some (num_of_int (nv_keysPage st)), kc_perPage = Some (num_of_int (nv_keysPerPage st)),
     kc_groups = Some (nv_keyGroups st), kc_statuses = Some (nv_keyStatuses st),
     kc_registrationIp = Some (nv_keyRegistrationIp st), kc_regions = Some (nv_keyRegions st)\<rparr>"

definition navigateKey :: "string \<Rightarrow> bool \<Rightarrow> admin_nav \<Rightarrow> admin_nav" where
  "navigateKey i preserveKeysContext st =
     navigateToPath (keyDetailPath i (if preserveKeysContext then Some (keys_context st) else None)) st"

definition navigateToken :: "string \<Rightarrow> bool \<Rightarrow> admin_nav \<Rightarrow> admin_nav" where
  "navigateToken i preserveUnboundUsageContext st =
     (if preserveUnboundUsageContext then
        navigateToPath (tokenDetailPath i (Some (nv_unboundQuery st)) (Some (num_of_int (nv_unboundPage st))) (nv_unboundSort st)
          (nv_unboundSortOrder st) (Some V_unbound_usage)) st
      else navigateToPath (tokenDetailPath i None None None None None) st)"

definition navigateBackFromTokenDetail :: "admin_nav \<Rightarrow> admin_nav" where
  "navigateBackFromTokenDetail st =
     (let search = nv_search st
      in if getAdminTokensCollectionFromLocation search = V_unbound_usage then
           navigateToPath (unboundTokenUsagePath (Some (getAdminUnboundTokenUsageQueryFromLocation search))
             (Some (num_of_int (getAdminUnboundTokenUsagePageFromLocation search))) (getAdminUnboundTokenUsageSortFromLocation search)
             (getAdminUnboundTokenUsageSortDirectionFromLocation search)) st
         else navigateModule (Nav_module Tokens) st)"

definition users_view :: "admin_nav \<Rightarrow> AdminUsersCollectionView option" where
  "users_view st = (if isUserUsageRoute (nv_route st) \<or> getAdminUsersCollectionFromLocation (nv_search st) = V_usage then Some V_usage else None)"

definition navigateUser :: "string \<Rightarrow> bool \<Rightarrow> admin_nav \<Rightarrow> admin_nav" where
  "navigateUser i preserveUsersContext st =
     (if preserveUsersContext then
        navigateToPath (userDetailPath i (Some (nv_usersQuery st)) (nv_usersTagFilterId st) (Some (num_of_int (nv_usersPage st)))
          (nv_usersSort st) (nv_usersSortOrder st) (users_view st)) st
      else navigateToPath (userDetailPath i None None None None None None) st)"

definition buildUsersCollectionPath ::
  "string option \<Rightarrow> string option \<Rightarrow> jsnum option \<Rightarrow> AdminUsersSortField option \<Rightarrow> SortDirection option \<Rightarrow> admin_nav \<Rightarrow> string" where
  "buildUsersCollectionPath query tagId page sortField order st =
     (if users_view st = Some V_usage then userUsagePath query tagId page sortField order
      else buildAdminUsersPath query tagId page sortField order)"

text \<open>\<open>navigateUsersSearch\<close> with an explicit order of the list, as every caller gives it; the page may be left out.\<close>

definition navigateUsersSearch ::
  "string \<Rightarrow> string option \<Rightarrow> int option \<Rightarrow> AdminUsersSortField option \<Rightarrow> SortDirection option \<Rightarrow> admin_nav \<Rightarrow> admin_nav" where
  "navigateUsersSearch query tagId page sortField order st =
     (let normalized = js_trim query;
          normalizedTagId = map_option js_trim tagId;
          normalizedPage = (case page of Some p \<Rightarrow> max 1 p | None \<Rightarrow> 1);
          normalizedOrder = (if sortField \<noteq> None then Some (nullish order Desc) else None)
      in navigateToPath (buildUsersCollectionPath (Some normalized) normalizedTagId (Some (num_of_int normalizedPage)) sortField normalizedOrder st)
           (st\<lparr>nv_usersPage := normalizedPage, nv_usersQueryInput := normalized, nv_usersQuery := normalized,
              nv_usersTagFilterId := normalizedTagId, nv_usersSort := sortField, nv_usersSortOrder := normalizedOrder\<rparr>))"

definition navigateUnboundTokenUsageSearch ::
  "string \<Rightarrow> int option \<Rightarrow> AdminUnboundTokenUsageSortField option \<Rightarrow> SortDirection option \<Rightarrow> admin_nav \<Rightarrow> admin_nav" where
  "navigateUnboundTokenUsageSearch query page sortField order st =
     (let normalized = js_trim query;
          normalizedPage = (case page of Some p \<Rightarrow> max 1 p | None \<Rightarrow> 1);
          normalizedOrder = (if sortField \<noteq> None then Some (nullish order Desc) else None)
      in navigateToPath (unboundTokenUsagePath (Some normalized) (Some (num_of_int normalizedPage)) sortField normalizedOrder)
           (st\<lparr>nv_unboundPage := normalizedPage, nv_unboundQueryInput := normalized, nv_unboundQuery := normalized,
              nv_unboundSort := sortField, nv_unboundSortOrder := normalizedOrder\<rparr>))"

definition navigateKeysList ::
  "int option \<Rightarrow> int option \<Rightarrow> string list \<Rightarrow> string list \<Rightarrow> string \<Rightarrow> string list \<Rightarrow> admin_nav \<Rightarrow> admin_nav" where
  "navigateKeysList page0 perPage0 groups0 statuses0 ip0 regions0 st =
     (let page = (case page0 of Some p \<Rightarrow> max 1 p | None \<Rightarrow> 1);
          perPage = (case perPage0 of Some p \<Rightarrow> max 1 p | None \<Rightarrow> DEFAULT_KEYS_PER_PAGE);
          groups = js_set_of (map js_trim groups0);
          statuses = js_set_of (filter (\<lambda>v. length v > 0) (map js_trim statuses0));
          registrationIp = js_trim ip0;
          regions = js_set_of (filter (\<lambda>v. length v > 0) (map js_trim regions0))
      in navigateToPath (buildAdminKeysPath (Some \<lparr>kc_page = Some (num_of_int page), kc_perPage = Some (num_of_int perPage),
             kc_groups = Some groups, kc_statuses = Some statuses, kc_registrationIp = Some registrationIp, kc_regions = Some regions\<rparr>))
           (st\<lparr>nv_keysPage := page, nv_keysPerPage := perPage, nv_keyGroups := groups, nv_keyStatuses := statuses,
              nv_keyRegistrationIp := registrationIp, nv_keyRegistrationIpInput := registrationIp, nv_keyRegions := regions\<rparr>))"

text \<open>\<open>navigateUserTags\<close> of the render \<open>rendered\<close>.\<close>

definition navigateUserTags :: "admin_nav \<Rightarrow> admin_nav \<Rightarrow> admin_nav" where
  "navigateUserTags rendered st =
     (let search = nv_search st; on = isUsersModuleRoute (nv_route rendered);
          query = (if on then nv_usersQuery rendered else getAdminUsersQueryFromLocation search);
          tagId = (if on then nv_usersTagFilterId rendered else getAdminUsersTagFilterFromLocation search);
          page = (if on then nv_usersPage rendered else getAdminUsersPageFromLocation search);
          sortField = (if on then nv_usersSort rendered else getAdminUsersSortFromLocation search);
          order = (if on then nv_usersSortOrder rendered else getAdminUsersSortDirectionFromLocation search);
          collection = (if isUserUsageRoute (nv_route rendered) \<or> getAdminUsersCollectionFromLocation search = V_usage then Some V_usage else None)
      in navigateToPath (userTagsPath (Some query) tagId (Some (num_of_int page)) sortField order collection) st)"

text \<open>The editor of a tag is opened with the context of the location; its draft belongs to the administration of the
  tags.\<close>

definition location_context :: "(string option \<Rightarrow> string option \<Rightarrow> jsnum option \<Rightarrow> AdminUsersSortField option \<Rightarrow>
   SortDirection option \<Rightarrow> AdminUsersCollectionView option \<Rightarrow> string) \<Rightarrow> string \<Rightarrow> string" where
  "location_context path search =
     path (Some (getAdminUsersQueryFromLocation search)) (getAdminUsersTagFilterFromLocation search)
       (Some (num_of_int (getAdminUsersPageFromLocation search))) (getAdminUsersSortFromLocation search)
       (getAdminUsersSortDirectionFromLocation search) (Some (getAdminUsersCollectionFromLocation search))"

definition open_tag_create :: "admin_nav \<Rightarrow> admin_nav" where
  "open_tag_create st = navigateToPath (location_context userTagCreatePath (nv_search st)) st"

definition open_tag_edit :: "string \<Rightarrow> admin_nav \<Rightarrow> admin_nav" where
  "open_tag_edit i st = navigateToPath (location_context (userTagEditPath i) (nv_search st)) st"

definition navigateUnboundTokenUsage :: "admin_nav \<Rightarrow> admin_nav" where
  "navigateUnboundTokenUsage st = navigateToPath (unboundTokenUsagePath None None None None) st"

definition goPrevUsersPage :: "admin_nav \<Rightarrow> admin_nav" where
  "goPrevUsersPage st = navigateUsersSearch (nv_usersQuery st) (nv_usersTagFilterId st) (Some (nv_usersPage st - 1)) (nv_usersSort st) (nv_usersSortOrder st) st"

definition goNextUsersPage :: "admin_nav \<Rightarrow> admin_nav" where
  "goNextUsersPage st = navigateUsersSearch (nv_usersQuery st) (nv_usersTagFilterId st) (Some (nv_usersPage st + 1)) (nv_usersSort st) (nv_usersSortOrder st) st"

definition applyUserSearch :: "admin_nav \<Rightarrow> admin_nav" where
  "applyUserSearch st = navigateUsersSearch (nv_usersQueryInput st) (nv_usersTagFilterId st) (Some 1) (nv_usersSort st) (nv_usersSortOrder st) st"

definition resetUserSearch :: "admin_nav \<Rightarrow> admin_nav" where
  "resetUserSearch st = navigateUsersSearch [] None (Some 1) (nv_usersSort st) (nv_usersSortOrder st) st"

text \<open>The cycle of a sortable column: descending, ascending, none.\<close>

definition next_sort :: "'f \<Rightarrow> 'f \<Rightarrow> 'f option \<Rightarrow> SortDirection option \<Rightarrow> 'f option \<times> SortDirection option" where
  "next_sort defaultField field sortField order =
     (let isActive = nullish sortField defaultField = field; effectiveOrder = nullish order Desc
      in if isActive \<and> effectiveOrder = Desc then (Some field, Some Asc)
         else if isActive \<and> effectiveOrder = Asc then (None, None)
         else (Some field, Some Desc))"

definition toggleUsersSort :: "AdminUsersSortField \<Rightarrow> admin_nav \<Rightarrow> admin_nav" where
  "toggleUsersSort field st =
     (let (nextSort, nextOrder) = next_sort ADMIN_USERS_DEFAULT_SORT_FIELD field (nv_usersSort st) (nv_usersSortOrder st)
      in navigateUsersSearch (nv_usersQuery st) (nv_usersTagFilterId st) (Some 1) nextSort nextOrder st)"

definition goPrevUnboundTokenUsagePage :: "admin_nav \<Rightarrow> admin_nav" where
  "goPrevUnboundTokenUsagePage st = navigateUnboundTokenUsageSearch (nv_unboundQuery st) (Some (nv_unboundPage st - 1)) (nv_unboundSort st) (nv_unboundSortOrder st) st"

definition goNextUnboundTokenUsagePage :: "admin_nav \<Rightarrow> admin_nav" where
  "goNextUnboundTokenUsagePage st = navigateUnboundTokenUsageSearch (nv_unboundQuery st) (Some (nv_unboundPage st + 1)) (nv_unboundSort st) (nv_unboundSortOrder st) st"

definition applyUnboundTokenUsageSearch :: "admin_nav \<Rightarrow> admin_nav" where
  "applyUnboundTokenUsageSearch st = navigateUnboundTokenUsageSearch (nv_unboundQueryInput st) (Some 1) (nv_unboundSort st) (nv_unboundSortOrder st) st"

definition resetUnboundTokenUsageSearch :: "admin_nav \<Rightarrow> admin_nav" where
  "resetUnboundTokenUsageSearch st = navigateUnboundTokenUsageSearch [] (Some 1) (nv_unboundSort st) (nv_unboundSortOrder st) st"

definition toggleUnboundTokenUsageSort :: "AdminUnboundTokenUsageSortField \<Rightarrow> admin_nav \<Rightarrow> admin_nav" where
  "toggleUnboundTokenUsageSort field st =
     (let (nextSort, nextOrder) = next_sort ADMIN_UNBOUND_TOKEN_USAGE_DEFAULT_SORT_FIELD field (nv_unboundSort st) (nv_unboundSortOrder st)
      in navigateUnboundTokenUsageSearch (nv_unboundQuery st) (Some 1) nextSort nextOrder st)"

definition toggleSelection :: "string list \<Rightarrow> string \<Rightarrow> string list" where
  "toggleSelection values value = (if value \<in> set values then filter (\<lambda>item. item \<noteq> value) values else values @ [value])"

text \<open>The handlers of the key list: each changes one part of the context, and all but the page buttons go back to
  the first page.\<close>

definition keys_list :: "int \<Rightarrow> admin_nav \<Rightarrow> admin_nav \<Rightarrow> admin_nav" where
  "keys_list page sel st = navigateKeysList (Some page) (Some (nv_keysPerPage sel)) (nv_keyGroups sel) (nv_keyStatuses sel)
     (nv_keyRegistrationIp sel) (nv_keyRegions sel) st"

definition goPrevKeysPage :: "admin_nav \<Rightarrow> admin_nav" where
  "goPrevKeysPage st = keys_list (nv_keysPage st - 1) st st"

definition goNextKeysPage :: "admin_nav \<Rightarrow> admin_nav" where
  "goNextKeysPage st = keys_list (nv_keysPage st + 1) st st"

definition changeKeysPerPage :: "int \<Rightarrow> admin_nav \<Rightarrow> admin_nav" where
  "changeKeysPerPage nextPerPage st = keys_list 1 (st\<lparr>nv_keysPerPage := nextPerPage\<rparr>) st"

definition handleToggleKeyGroupFilter :: "string \<Rightarrow> admin_nav \<Rightarrow> admin_nav" where
  "handleToggleKeyGroupFilter grp st = keys_list 1 (st\<lparr>nv_keyGroups := toggleSelection (nv_keyGroups st) grp\<rparr>) st"

definition handleToggleKeyStatusFilter :: "string \<Rightarrow> admin_nav \<Rightarrow> admin_nav" where
  "handleToggleKeyStatusFilter status st = keys_list 1 (st\<lparr>nv_keyStatuses := toggleSelection (nv_keyStatuses st) status\<rparr>) st"

definition handleToggleKeyRegionFilter :: "string \<Rightarrow> admin_nav \<Rightarrow> admin_nav" where
  "handleToggleKeyRegionFilter region st = keys_list 1 (st\<lparr>nv_keyRegions := toggleSelection (nv_keyRegions st) region\<rparr>) st"

definition handleClearKeyGroupFilters :: "admin_nav \<Rightarrow> admin_nav" where
  "handleClearKeyGroupFilters st = keys_list 1 (st\<lparr>nv_keyGroups := []\<rparr>) st"

definition handleClearKeyStatusFilters :: "admin_nav \<Rightarrow> admin_nav" where
  "handleClearKeyStatusFilters st = keys_list 1 (st\<lparr>nv_keyStatuses := []\<rparr>) st"

definition handleClearKeyRegionFilters :: "admin_nav \<Rightarrow> admin_nav" where
  "handleClearKeyRegionFilters st = keys_list 1 (st\<lparr>nv_keyRegions := []\<rparr>) st"

definition handleClearKeyRegistrationIpFilter :: "admin_nav \<Rightarrow> admin_nav" where
  "handleClearKeyRegistrationIpFilter st = keys_list 1 (st\<lparr>nv_keyRegistrationIp := []\<rparr>) (st\<lparr>nv_keyRegistrationIpInput := []\<rparr>)"

text \<open>The timer that follows the input of the registration address of a key.\<close>

definition registration_ip_timer :: "admin_nav \<Rightarrow> admin_nav" where
  "registration_ip_timer st =
     (let normalized = js_trim (nv_keyRegistrationIpInput st)
      in if nv_route st \<noteq> RModule Keys \<or> normalized = nv_keyRegistrationIp st then st
         else keys_list 1 (st\<lparr>nv_keyRegistrationIp := normalized\<rparr>) st)"

text \<open>The timer that follows the search input of the users, and the answer of a request for the key list.\<close>

definition users_query_timer :: "admin_nav \<Rightarrow> admin_nav" where
  "users_query_timer st =
     (let normalized = js_trim (nv_usersQueryInput st)
      in if nv_usersQuery st = normalized then st else st\<lparr>nv_usersPage := 1, nv_usersQuery := normalized\<rparr>)"

definition keys_answered :: "int \<Rightarrow> int \<Rightarrow> admin_nav \<Rightarrow> admin_nav" where
  "keys_answered page perPage st = st\<lparr>nv_keysPage := page, nv_keysPerPage := perPage\<rparr>"

section \<open>Events\<close>

datatype nav_event =
    Ev_module AdminNavTarget | Ev_key string bool | Ev_token string bool | Ev_back_from_token | Ev_user string bool
  | Ev_tag_users string string | Ev_user_tags | Ev_tag_create | Ev_tag_edit string | Ev_unbound_usage
  | Ev_users_input string | Ev_users_prev | Ev_users_next | Ev_users_apply | Ev_users_reset | Ev_users_sort AdminUsersSortField
  | Ev_unbound_input string | Ev_unbound_prev | Ev_unbound_next | Ev_unbound_apply | Ev_unbound_reset | Ev_unbound_sort AdminUnboundTokenUsageSortField
  | Ev_keys_prev | Ev_keys_next | Ev_keys_per_page int | Ev_toggle_group string | Ev_toggle_status string | Ev_toggle_region string
  | Ev_clear_groups | Ev_clear_statuses | Ev_clear_regions | Ev_clear_ip | Ev_ip_input string | Ev_ip_timer
  | Ev_users_timer | Ev_keys_answer int int | Ev_pop string string

fun nav_step :: "nav_event \<Rightarrow> admin_nav \<Rightarrow> admin_nav" where
  "nav_step (Ev_module target) st = navigateModule target st"
| "nav_step (Ev_key i b) st = navigateKey i b st"
| "nav_step (Ev_token i b) st = navigateToken i b st"
| "nav_step Ev_back_from_token st = navigateBackFromTokenDetail st"
| "nav_step (Ev_user i b) st = navigateUser i b st"
| "nav_step (Ev_tag_users label i) st = navigateUsersSearch label (Some i) None (nv_usersSort st) (nv_usersSortOrder st) st"
| "nav_step Ev_user_tags st = navigateUserTags st st"
| "nav_step Ev_tag_create st = open_tag_create st"
| "nav_step (Ev_tag_edit i) st = open_tag_edit i st"
| "nav_step Ev_unbound_usage st = navigateUnboundTokenUsage st"
| "nav_step (Ev_users_input v) st = st\<lparr>nv_usersQueryInput := v\<rparr>"
| "nav_step Ev_users_prev st = goPrevUsersPage st"
| "nav_step Ev_users_next st = goNextUsersPage st"
| "nav_step Ev_users_apply st = applyUserSearch st"
| "nav_step Ev_users_reset st = resetUserSearch st"
| "nav_step (Ev_users_sort f) st = toggleUsersSort f st"
| "nav_step (Ev_unbound_input v) st = st\<lparr>nv_unboundQueryInput := v\<rparr>"
| "nav_step Ev_unbound_prev st = goPrevUnboundTokenUsagePage st"
| "nav_step Ev_unbound_next st = goNextUnboundTokenUsagePage st"
| "nav_step Ev_unbound_apply st = applyUnboundTokenUsageSearch st"
| "nav_step Ev_unbound_reset st = resetUnboundTokenUsageSearch st"
| "nav_step (Ev_unbound_sort f) st = toggleUnboundTokenUsageSort f st"
| "nav_step Ev_keys_prev st = goPrevKeysPage st"
| "nav_step Ev_keys_next st = goNextKeysPage st"
| "nav_step (Ev_keys_per_page n) st = changeKeysPerPage n st"
| "nav_step (Ev_toggle_group v) st = handleToggleKeyGroupFilter v st"
| "nav_step (Ev_toggle_status v) st = handleToggleKeyStatusFilter v st"
| "nav_step (Ev_toggle_region v) st = handleToggleKeyRegionFilter v st"
| "nav_step Ev_clear_groups st = handleClearKeyGroupFilters st"
| "nav_step Ev_clear_statuses st = handleClearKeyStatusFilters st"
| "nav_step Ev_clear_regions st = handleClearKeyRegionFilters st"
| "nav_step Ev_clear_ip st = handleClearKeyRegistrationIpFilter st"
| "nav_step (Ev_ip_input v) st = st\<lparr>nv_keyRegistrationIpInput := v\<rparr>"
| "nav_step Ev_ip_timer st = registration_ip_timer st"
| "nav_step Ev_users_timer st = users_query_timer st"
| "nav_step (Ev_keys_answer p n) st = keys_answered p n st"
| "nav_step (Ev_pop p s) st = onPopState p s st"

end
