(* ===== verification/Event_System.thy ===== *)
theory Event_System
  imports Main
begin

text \<open>
  Runs of an event system: a step function on states, a predicate that says which events can happen, and the two
  contracts the pages are shown to keep: an invariant, and a log of requests that only grows by requests justified in
  the state they were sent from.
\<close>

fun enabled_run :: "('s \<Rightarrow> 'e \<Rightarrow> bool) \<Rightarrow> ('e \<Rightarrow> 's \<Rightarrow> 's) \<Rightarrow> 's \<Rightarrow> 'e list \<Rightarrow> bool" where
  "enabled_run enabled step st [] \<longleftrightarrow> True"
| "enabled_run enabled step st (ev # evs) \<longleftrightarrow> enabled st ev \<and> enabled_run enabled step (step ev st) evs"

lemma enabled_run_append:
  "enabled_run enabled step st (evs @ evs') \<longleftrightarrow> enabled_run enabled step st evs \<and> enabled_run enabled step (fold step evs st) evs'"
  by (induction evs arbitrary: st) simp_all

locale event_invariant =
  fixes enabled :: "'s \<Rightarrow> 'e \<Rightarrow> bool" and step :: "'e \<Rightarrow> 's \<Rightarrow> 's" and inv :: "'s \<Rightarrow> bool"
  assumes step_inv: "inv st \<Longrightarrow> enabled st ev \<Longrightarrow> inv (step ev st)"
begin

lemma run_inv: "inv st \<Longrightarrow> enabled_run enabled step st evs \<Longrightarrow> inv (fold step evs st)"
  by (induction evs arbitrary: st) (simp_all add: step_inv)

end

locale event_log =
  fixes step :: "'e \<Rightarrow> 's \<Rightarrow> 's" and sent :: "'s \<Rightarrow> 'r list" and justified :: "'e \<Rightarrow> 's \<Rightarrow> 'r \<Rightarrow> bool"
  assumes step_sent: "\<exists>rs. sent (step ev st) = sent st @ rs \<and> (\<forall>r \<in> set rs. justified ev st r)"
begin

lemma run_sent:
  "\<exists>rs. sent (fold step evs st) = sent st @ rs \<and> (\<forall>r \<in> set rs. \<exists>before ev after. evs = before @ ev # after \<and> justified ev (fold step before st) r)"
proof (induction evs rule: rev_induct)
  case Nil
  then show ?case by simp
next
  case (snoc ev evs)
  from snoc obtain rs where rs: "sent (fold step evs st) = sent st @ rs"
      "\<And>r. r \<in> set rs \<Longrightarrow> \<exists>before e after. evs = before @ e # after \<and> justified e (fold step before st) r" by blast
  obtain rs' where rs': "sent (step ev (fold step evs st)) = sent (fold step evs st) @ rs'" "\<forall>r \<in> set rs'. justified ev (fold step evs st) r"
    using step_sent by blast
  have "\<exists>before e after. evs @ [ev] = before @ e # after \<and> justified e (fold step before st) r" if "r \<in> set (rs @ rs')" for r
    using that rs(2) rs'(2) by (metis append.assoc append_Cons Un_iff set_append)
  then show ?case using rs(1) rs'(1) by (intro exI [of _ "rs @ rs'"]) simp
qed

lemma sent_justified:
  assumes "sent st = []" "r \<in> set (sent (fold step evs st))"
  shows "\<exists>before ev after. evs = before @ ev # after \<and> justified ev (fold step before st) r"
  using run_sent [of evs st] assms by force

end

end
