(* ===== verification/Admin_Navigation_Sync.thy ===== *)
theory Admin_Navigation_Sync
  imports Admin_Navigation Event_System
begin

text \<open>
  The lists of the admin console stay in step with the location: whatever the sequence of clicks, inputs, timers and
  back and forward buttons, a reload of the page shows the same page with the same list.  The two exceptions, the
  entry of the sidebar for the list that is already shown and a typed search of users, are stated as well.
\<close>

section \<open>What is shown\<close>

type_synonym users_list = "int \<times> string \<times> string option \<times> AdminUsersSortField option \<times> SortDirection option"
type_synonym unbound_list = "int \<times> string \<times> AdminUnboundTokenUsageSortField option \<times> SortDirection option"
type_synonym keys_list_view = "int \<times> int \<times> string list \<times> string list \<times> string \<times> string list"

definition users_route :: "AdminPathRoute \<Rightarrow> bool" where
  "users_route r \<longleftrightarrow> r = RModule Users \<or> r = RUserUsage"

definition shown :: "admin_nav \<Rightarrow> AdminPathRoute \<times> users_list option \<times> unbound_list option \<times> keys_list_view option" where
  "shown st = (nv_route st,
     if users_route (nv_route st) then Some (nv_usersPage st, nv_usersQuery st, nv_usersTagFilterId st, nv_usersSort st, nv_usersSortOrder st) else None,
     if nv_route st = RUnboundTokenUsage then Some (nv_unboundPage st, nv_unboundQuery st, nv_unboundSort st, nv_unboundSortOrder st) else None,
     if nv_route st = RModule Keys then Some (nv_keysPage st, nv_keysPerPage st, nv_keyGroups st, nv_keyStatuses st, nv_keyRegistrationIp st, nv_keyRegions st) else None)"

text \<open>What a route and a query string stand for.\<close>

definition located :: "AdminPathRoute \<Rightarrow> string \<Rightarrow> AdminPathRoute \<times> users_list option \<times> unbound_list option \<times> keys_list_view option" where
  "located r s =
     (let us = getAdminUsersSortFromLocation s;
          ns = (if r = RModule Users \<and> \<not> isAdminUsersOverviewSortField us then None else us)
      in (r,
          if users_route r then Some (getAdminUsersPageFromLocation s, getAdminUsersQueryFromLocation s, getAdminUsersTagFilterFromLocation s,
            ns, if ns \<noteq> None then getAdminUsersSortDirectionFromLocation s else None) else None,
          if r = RUnboundTokenUsage then Some (getAdminUnboundTokenUsagePageFromLocation s, getAdminUnboundTokenUsageQueryFromLocation s,
            getAdminUnboundTokenUsageSortFromLocation s, getAdminUnboundTokenUsageSortDirectionFromLocation s) else None,
          if r = RModule Keys then Some (getAdminKeysPageFromLocation s, getAdminKeysPerPageFromLocation s, getAdminKeysValuesFromLocation ''group'' s,
            getAdminKeysValuesFromLocation ''status'' s, getAdminKeysRegistrationIpFromLocation s, getAdminKeysRegionsFromLocation s) else None))"

definition in_step :: "admin_nav \<Rightarrow> bool" where
  "in_step st \<longleftrightarrow> shown st = located (parseAdminPath (nv_pathname st)) (nv_search st)"

lemma run_effects_shown: "shown (run_effects st) = located (nv_route st) (nv_search st)"
  by (auto simp: run_effects_def keys_effect_def unbound_effect_def users_effect_def shown_def located_def Let_def
      isUsersModuleRoute_def isUserUsageRoute_def users_route_def)

lemma run_effects_frame [simp]: "nv_pathname (run_effects st) = nv_pathname st" "nv_search (run_effects st) = nv_search st"
  by (simp_all add: run_effects_def keys_effect_def unbound_effect_def users_effect_def Let_def)

lemma load_page_in_step: "in_step (load_page p s)"
  by (simp add: in_step_def load_page_def run_effects_shown)

lemma load_page_shown: "shown (load_page p s) = located (parseAdminPath p) s"
  by (simp add: load_page_def run_effects_shown)

lemma popState_in_step: "in_step (onPopState p s st)"
  by (simp add: in_step_def onPopState_def run_effects_shown)

text \<open>A navigation is in step when it changes the route, or when the state it found is that of the new location.\<close>

lemma navigate_in_step:
  assumes "nv_route st = parseAdminPath (url_resolve (url_pathname path)) \<Longrightarrow> shown st = located (nv_route st) (url_search path)"
  shows "in_step (navigateToPath path st)"
proof (cases "nv_route st = parseAdminPath (url_resolve (url_pathname path))")
  case True
  then have "navigateToPath path st = st\<lparr>nv_pathname := url_resolve (url_pathname path), nv_search := url_search path\<rparr>"
    by (simp add: navigateToPath_def Let_def isSameAdminRoute_eq)
  moreover have "shown (st\<lparr>nv_pathname := p, nv_search := s\<rparr>) = shown st" for p s by (simp add: shown_def)
  ultimately show ?thesis using assms [OF True] True by (simp add: in_step_def)
next
  case False
  then show ?thesis by (simp add: navigateToPath_def Let_def isSameAdminRoute_eq in_step_def run_effects_shown)
qed

lemma in_step_leaves: "nv_route st \<noteq> parseAdminPath (url_resolve (url_pathname path)) \<Longrightarrow> in_step (navigateToPath path st)"
  by (rule navigate_in_step) simp

definition list_route :: "AdminPathRoute \<Rightarrow> bool" where
  "list_route r \<longleftrightarrow> users_route r \<or> r = RUnboundTokenUsage \<or> r = RModule Keys"

lemma in_step_detail: "\<not> list_route (parseAdminPath (url_resolve (url_pathname path))) \<Longrightarrow> in_step (navigateToPath path st)"
  by (rule navigate_in_step) (auto simp: shown_def located_def list_route_def Let_def)

lemma resolve_lists:
  "url_resolve ''/admin/users'' = ''/admin/users''" "url_resolve ''/admin/users/usage'' = ''/admin/users/usage''"
  "url_resolve ''/admin/tokens/leaderboard'' = ''/admin/tokens/leaderboard''" "url_resolve ''/admin/keys'' = ''/admin/keys''"
  "url_resolve ''/admin/users/tags'' = ''/admin/users/tags''" "url_resolve ''/admin/users/tags/new'' = ''/admin/users/tags/new''"
  by code_simp+

lemma list_routes:
  "parseAdminPath (url_resolve (url_pathname (buildAdminUsersPath q t p us d))) = RModule Users"
  "parseAdminPath (url_resolve (url_pathname (userUsagePath q t p us d))) = RUserUsage"
  "parseAdminPath (url_resolve (url_pathname (unboundTokenUsagePath q p ts d))) = RUnboundTokenUsage"
  "parseAdminPath (url_resolve (url_pathname (buildAdminKeysPath kc))) = RModule Keys"
  "parseAdminPath (url_resolve (url_pathname (userTagsPath q t p us d uc))) = RUserTags"
  "parseAdminPath (url_resolve (url_pathname (userTagCreatePath q t p us d uc))) = RUserTagCreate"
  by (simp_all add: collection_pathnames resolve_lists parse_collections)

lemma module_paths:
  "url_resolve (url_pathname (modulePath Dashboard)) = modulePath Dashboard"
  "url_resolve (url_pathname (modulePath Tokens)) = modulePath Tokens"
  "url_resolve (url_pathname (modulePath Keys)) = modulePath Keys"
  "url_resolve (url_pathname (modulePath Requests)) = modulePath Requests"
  "url_resolve (url_pathname (modulePath Jobs)) = modulePath Jobs"
  "url_resolve (url_pathname (modulePath Users)) = modulePath Users"
  "url_resolve (url_pathname (modulePath Alerts)) = modulePath Alerts"
  "url_resolve (url_pathname (modulePath ProxySettings)) = modulePath ProxySettings"
  by code_simp+

lemma module_route: "parseAdminPath (url_resolve (url_pathname (modulePath m))) = RModule m"
  by (cases m) (simp_all only: module_paths parse_modulePath)

lemma list_queries:
  "usp_parse (url_search (buildAdminUsersPath q t p us d)) = users_params ''/admin/users'' q t p us d None"
  "usp_parse (url_search (userUsagePath q t p us d)) = users_params ''/admin/users/usage'' q t p us d None"
  "usp_parse (url_search (unboundTokenUsagePath q p ts d)) = tokens_params q p ts d None"
  "usp_parse (url_search (buildAdminKeysPath kc)) = keys_params kc"
  by (simp_all add: buildAdminUsersPath_def userUsagePath_def unboundTokenUsagePath_def buildAdminKeysPath_def appendUsersContext_eq
      appendKeysContext_eq ADMIN_BASE_def usp_parse_search tokens_params_def set_if_def)

lemma finite_int: "finite_at_least_1 (Some (num_of_int p)) d = max 1 p"
  by (simp add: finite_at_least_1_def num_of_int_def)

section \<open>The list of users\<close>

definition tag_ok :: "string option \<Rightarrow> bool" where
  "tag_ok t \<longleftrightarrow> (case t of None \<Rightarrow> True | Some s \<Rightarrow> js_trim s \<noteq> [])"

lemma users_shown:
  assumes "users_route (nv_route st)" "getAdminUsersPageFromLocation s = nv_usersPage st" "getAdminUsersQueryFromLocation s = nv_usersQuery st"
    "getAdminUsersTagFilterFromLocation s = nv_usersTagFilterId st" "getAdminUsersSortFromLocation s = nv_usersSort st"
    "getAdminUsersSortDirectionFromLocation s = nv_usersSortOrder st"
    "nv_route st = RModule Users \<Longrightarrow> nv_usersSort st = None \<or> isAdminUsersOverviewSortField (nv_usersSort st)"
    "nv_usersSort st = None \<Longrightarrow> nv_usersSortOrder st = None"
  shows "shown st = located (nv_route st) s"
proof -
  have "nv_route st \<noteq> RUnboundTokenUsage" "nv_route st \<noteq> RModule Keys" using assms(1) by (auto simp: users_route_def)
  moreover have "(if nv_route st = RModule Users \<and> \<not> isAdminUsersOverviewSortField (nv_usersSort st) then None else nv_usersSort st) = nv_usersSort st"
    using assms(7) by auto
  ultimately show ?thesis using assms(1,8) unfolding shown_def located_def Let_def assms(2-6) by simp
qed

lemma users_search_in_step:
  assumes route: "users_route (nv_route st)" and tag: "tag_ok tagId"
    and sort: "nv_route st = RModule Users \<Longrightarrow> sortField = None \<or> isAdminUsersOverviewSortField sortField"
  shows "in_step (navigateUsersSearch query tagId page sortField order st)"
proof -
  define q t p where "q = js_trim query" and "t = map_option js_trim tagId" and "p = (case page of Some p \<Rightarrow> max 1 p | None \<Rightarrow> (1 :: int))"
  define d where "d = (if sortField \<noteq> None then Some (nullish order Desc) else None)"
  define path where "path = buildUsersCollectionPath (Some q) t (Some (num_of_int p)) sortField d st"
  obtain base where search: "usp_parse (url_search path) = users_params base (Some q) t (Some (num_of_int p)) sortField d None"
    by (cases "users_view st = Some V_usage") (auto simp: path_def buildUsersCollectionPath_def list_queries)
  have norm: "js_trim q = q" "max 1 p = p" "(case t of None \<Rightarrow> None | Some s \<Rightarrow> if js_trim s = [] then None else Some (js_trim s)) = t"
      "map_option (\<lambda>_. nullish d Desc) sortField = d"
    using tag by (auto simp: q_def p_def t_def d_def tag_ok_def split: option.splits)
  note read = users_params_read [OF search, unfolded finite_int norm]
  have "in_step (navigateToPath path (st\<lparr>nv_usersPage := p, nv_usersQueryInput := q, nv_usersQuery := q, nv_usersTagFilterId := t,
      nv_usersSort := sortField, nv_usersSortOrder := d\<rparr>))"
    by (rule navigate_in_step, rule users_shown) (use route sort read norm in \<open>simp_all add: d_def\<close>)
  then show ?thesis by (simp add: navigateUsersSearch_def Let_def path_def q_def t_def p_def d_def)
qed

section \<open>The list of unbound tokens\<close>

lemma unbound_shown:
  assumes "nv_route st = RUnboundTokenUsage" "getAdminUnboundTokenUsagePageFromLocation s = nv_unboundPage st"
    "getAdminUnboundTokenUsageQueryFromLocation s = nv_unboundQuery st" "getAdminUnboundTokenUsageSortFromLocation s = nv_unboundSort st"
    "getAdminUnboundTokenUsageSortDirectionFromLocation s = nv_unboundSortOrder st"
  shows "shown st = located (nv_route st) s"
  unfolding shown_def located_def Let_def assms by (simp add: users_route_def)

lemma unbound_search_in_step:
  assumes "nv_route st = RUnboundTokenUsage"
  shows "in_step (navigateUnboundTokenUsageSearch query page sortField order st)"
proof -
  define q p where "q = js_trim query" and "p = (case page of Some p \<Rightarrow> max 1 p | None \<Rightarrow> (1 :: int))"
  define d where "d = (if sortField \<noteq> None then Some (nullish order Desc) else None)"
  define path where "path = unboundTokenUsagePath (Some q) (Some (num_of_int p)) sortField d"
  have search: "usp_parse (url_search path) = tokens_params (Some q) (Some (num_of_int p)) sortField d None"
    by (simp add: path_def list_queries)
  have norm: "js_trim q = q" "max 1 p = p" "map_option (\<lambda>_. nullish d Desc) sortField = d"
    by (auto simp: q_def p_def d_def split: option.splits)
  note read = tokens_params_read [OF search, unfolded finite_int norm]
  have "in_step (navigateToPath path (st\<lparr>nv_unboundPage := p, nv_unboundQueryInput := q, nv_unboundQuery := q, nv_unboundSort := sortField, nv_unboundSortOrder := d\<rparr>))"
    by (rule navigate_in_step, rule unbound_shown) (use assms read norm in simp_all)
  then show ?thesis by (simp add: navigateUnboundTokenUsageSearch_def Let_def path_def q_def p_def d_def)
qed

section \<open>The list of keys\<close>

lemma keys_shown:
  assumes "nv_route st = RModule Keys" "getAdminKeysPageFromLocation s = nv_keysPage st" "getAdminKeysPerPageFromLocation s = nv_keysPerPage st"
    "getAdminKeysValuesFromLocation ''group'' s = nv_keyGroups st" "getAdminKeysValuesFromLocation ''status'' s = nv_keyStatuses st"
    "getAdminKeysRegistrationIpFromLocation s = nv_keyRegistrationIp st" "getAdminKeysRegionsFromLocation s = nv_keyRegions st"
  shows "shown st = located (nv_route st) s"
  unfolding shown_def located_def Let_def assms by (simp add: users_route_def)

lemma normal_values_fixed:
  assumes "distinct xs" "\<And>x. x \<in> set xs \<Longrightarrow> f (js_trim x) = x \<and> (js_trim x \<noteq> [] \<or> keep)"
  shows "normal_values f keep xs = xs"
proof -
  have "filter (\<lambda>v. js_trim v \<noteq> [] \<or> keep) xs = xs" using assms(2) by (intro filter_True) blast
  moreover have "map (f \<circ> js_trim) xs = xs" using assms(2) by (simp add: map_idI)
  ultimately show ?thesis using js_set_of_distinct [OF assms(1)] by (simp add: normal_values_def)
qed

lemma keys_list_in_step:
  assumes route: "nv_route st = RModule Keys" and per: "\<And>n. perPage = Some n \<Longrightarrow> n \<le> 100"
    and lower: "\<And>v. v \<in> set statuses0 \<Longrightarrow> js_lower (js_trim v) = js_trim v"
  shows "in_step (navigateKeysList page perPage groups0 statuses0 ip0 regions0 st)"
proof -
  define p n where "p = (case page of Some p \<Rightarrow> max 1 p | None \<Rightarrow> (1 :: int))" and "n = (case perPage of Some p \<Rightarrow> max 1 p | None \<Rightarrow> DEFAULT_KEYS_PER_PAGE)"
  define gs ss ip rs where "gs = js_set_of (map js_trim groups0)" and "ss = js_set_of (filter (\<lambda>v. length v > 0) (map js_trim statuses0))"
    and "ip = js_trim ip0" and "rs = js_set_of (filter (\<lambda>v. length v > 0) (map js_trim regions0))"
  define ctx where "ctx = \<lparr>kc_page = Some (num_of_int p), kc_perPage = Some (num_of_int n), kc_groups = Some gs, kc_statuses = Some ss,
      kc_registrationIp = Some ip, kc_regions = Some rs\<rparr>"
  have vals: "normal_values (\<lambda>x. x) True gs = gs" "normal_values js_lower False ss = ss" "normal_values (\<lambda>x. x) False rs = rs"
    using lower by (auto intro!: normal_values_fixed simp: gs_def ss_def rs_def)
  have norm: "max 1 p = p" "max 1 n = n" "min 100 n = n" "js_trim ip = ip"
    using per by (auto simp: p_def n_def ip_def DEFAULT_KEYS_PER_PAGE_def split: option.splits)
  note read = keys_params_read [OF list_queries(4), of "Some ctx", unfolded ctx_def bind.bind_lunit AdminKeyListContext.select_convs finite_int norm
      normalizeKeyContextValues_eq nullish_simps option.map if_True if_False vals]
  have "in_step (navigateToPath (buildAdminKeysPath (Some ctx)) (st\<lparr>nv_keysPage := p, nv_keysPerPage := n, nv_keyGroups := gs, nv_keyStatuses := ss,
      nv_keyRegistrationIp := ip, nv_keyRegistrationIpInput := ip, nv_keyRegions := rs\<rparr>))"
    by (rule navigate_in_step, rule keys_shown) (use route read norm in \<open>simp_all add: ctx_def\<close>)
  then show ?thesis by (simp add: navigateKeysList_def Let_def ctx_def p_def n_def gs_def ss_def ip_def rs_def)
qed

section \<open>Every event\<close>

text \<open>The events that can happen on a page: the controls of a list are on its page and offer its own columns, the
  page sizes up to 100 and the statuses in lower case; an identifier names a detail page; the server answers with
  the page it was asked for; the sidebar and the link to the unbound tokens leave the list they name; and a search
  typed on the list of users is submitted before its timer ends.\<close>

fun allowed :: "admin_nav \<Rightarrow> nav_event \<Rightarrow> bool" where
  "allowed st (Ev_module target) \<longleftrightarrow> (case target of Nav_module m \<Rightarrow> nv_route st \<noteq> RModule m \<or> \<not> list_route (RModule m) | Nav_user_usage \<Rightarrow> True)"
| "allowed st (Ev_key i b) \<longleftrightarrow> \<not> list_route (parseAdminPath (url_resolve (''/admin/keys/'' @ encodeURIComponent i)))"
| "allowed st (Ev_token i b) \<longleftrightarrow> \<not> list_route (parseAdminPath (url_resolve (''/admin/tokens/'' @ encodeURIComponent i)))"
| "allowed st Ev_back_from_token \<longleftrightarrow> (case nv_route st of RToken i \<Rightarrow> True | _ \<Rightarrow> False)"
| "allowed st (Ev_user i b) \<longleftrightarrow> \<not> list_route (parseAdminPath (url_resolve (''/admin/users/'' @ encodeURIComponent i)))"
| "allowed st (Ev_tag_users label i) \<longleftrightarrow> \<not> list_route (nv_route st)"
| "allowed st (Ev_tag_edit i) \<longleftrightarrow> \<not> list_route (parseAdminPath (url_resolve (''/admin/users/tags/'' @ encodeURIComponent i)))"
| "allowed st Ev_unbound_usage \<longleftrightarrow> nv_route st \<noteq> RUnboundTokenUsage"
| "allowed st (Ev_users_sort f) \<longleftrightarrow> nv_route st = RUserUsage \<or> nv_route st = RModule Users \<and> isAdminUsersOverviewSortField (Some f)"
| "allowed st (Ev_keys_per_page n) \<longleftrightarrow> nv_route st = RModule Keys \<and> n \<le> 100"
| "allowed st (Ev_toggle_status v) \<longleftrightarrow> nv_route st = RModule Keys \<and> js_lower v = v"
| "allowed st (Ev_unbound_sort f) \<longleftrightarrow> nv_route st = RUnboundTokenUsage"
| "allowed st (Ev_toggle_group v) \<longleftrightarrow> nv_route st = RModule Keys"
| "allowed st (Ev_toggle_region v) \<longleftrightarrow> nv_route st = RModule Keys"
| "allowed st Ev_users_timer \<longleftrightarrow> users_route (nv_route st) \<longrightarrow> js_trim (nv_usersQueryInput st) = nv_usersQuery st"
| "allowed st (Ev_keys_answer p n) \<longleftrightarrow> nv_route st = RModule Keys \<longrightarrow> p = nv_keysPage st \<and> n = nv_keysPerPage st"
| "allowed st ev \<longleftrightarrow>
     (if ev \<in> {Ev_users_prev, Ev_users_next, Ev_users_apply, Ev_users_reset} then users_route (nv_route st)
      else if ev \<in> {Ev_unbound_prev, Ev_unbound_next, Ev_unbound_apply, Ev_unbound_reset} then nv_route st = RUnboundTokenUsage
      else if ev \<in> {Ev_keys_prev, Ev_keys_next, Ev_clear_groups, Ev_clear_statuses, Ev_clear_regions, Ev_clear_ip} then nv_route st = RModule Keys
      else True)"

text \<open>What being in step says of the parts of a list.\<close>

lemma in_step_users_list:
  assumes "in_step st" "users_route (nv_route st)"
  shows "nv_usersTagFilterId st = getAdminUsersTagFilterFromLocation (nv_search st)"
    "nv_usersSort st = (let us = getAdminUsersSortFromLocation (nv_search st)
       in if nv_route st = RModule Users \<and> \<not> isAdminUsersOverviewSortField us then None else us)"
proof -
  have r: "parseAdminPath (nv_pathname st) = nv_route st" using assms(1) by (simp add: in_step_def shown_def located_def Let_def)
  show "nv_usersTagFilterId st = getAdminUsersTagFilterFromLocation (nv_search st)"
    "nv_usersSort st = (let us = getAdminUsersSortFromLocation (nv_search st)
       in if nv_route st = RModule Users \<and> \<not> isAdminUsersOverviewSortField us then None else us)"
    using assms(1) unfolding in_step_def r shown_def located_def Let_def prod.inject if_P [OF assms(2)] option.inject by blast+
qed

lemma location_tag_ok: "tag_ok (getAdminUsersTagFilterFromLocation s)"
  by (cases "usp_get (usp_parse s) ''tagId''") (simp_all add: tag_ok_def getAdminUsersTagFilterFromLocation_def get_trimmed_def Let_def split: option.split)

lemma in_step_users:
  assumes "in_step st" "users_route (nv_route st)"
  shows "tag_ok (nv_usersTagFilterId st)" "nv_route st = RModule Users \<Longrightarrow> nv_usersSort st = None \<or> isAdminUsersOverviewSortField (nv_usersSort st)"
  unfolding in_step_users_list [OF assms] by (simp_all add: location_tag_ok Let_def)

lemma in_step_keys:
  assumes "in_step st" "nv_route st = RModule Keys"
  shows "nv_keysPerPage st \<le> 100" "v \<in> set (nv_keyStatuses st) \<Longrightarrow> js_lower (js_trim v) = js_trim v"
proof -
  have r: "parseAdminPath (nv_pathname st) = nv_route st" using assms(1) by (simp add: in_step_def shown_def located_def Let_def)
  have keys: "nv_keysPerPage st = getAdminKeysPerPageFromLocation (nv_search st)"
      "nv_keyStatuses st = normal_values js_lower False (usp_get_all (usp_parse (nv_search st)) ''status'')"
    using assms(1) unfolding in_step_def r shown_def located_def Let_def prod.inject if_P [OF assms(2)] option.inject
    by (simp_all add: getAdminKeysValuesFromLocation_eq)
  then show "nv_keysPerPage st \<le> 100"
    by (auto simp: getAdminKeysPerPageFromLocation_def DEFAULT_KEYS_PER_PAGE_def split: option.split)
  show "v \<in> set (nv_keyStatuses st) \<Longrightarrow> js_lower (js_trim v) = js_trim v"
    unfolding keys(2) by (auto simp: normal_values_def js_trim_lower)
qed

lemma next_sort_cases: "next_sort d f s ord = (Some f, Some Asc) \<or> next_sort d f s ord = (None, None) \<or> next_sort d f s ord = (Some f, Some Desc)"
  by (auto simp: next_sort_def Let_def)

lemmas users_handler_defs = goPrevUsersPage_def goNextUsersPage_def applyUserSearch_def resetUserSearch_def
lemmas unbound_handler_defs = goPrevUnboundTokenUsagePage_def goNextUnboundTokenUsagePage_def applyUnboundTokenUsageSearch_def
  resetUnboundTokenUsageSearch_def toggleUnboundTokenUsageSort_def
lemmas keys_handler_defs = goPrevKeysPage_def goNextKeysPage_def changeKeysPerPage_def handleToggleKeyGroupFilter_def
  handleToggleKeyStatusFilter_def handleToggleKeyRegionFilter_def handleClearKeyGroupFilters_def handleClearKeyStatusFilters_def
  handleClearKeyRegionFilters_def handleClearKeyRegistrationIpFilter_def

lemma users_handlers_in_step:
  assumes "in_step st" "users_route (nv_route st)"
  shows "in_step (goPrevUsersPage st)" "in_step (goNextUsersPage st)" "in_step (applyUserSearch st)" "in_step (resetUserSearch st)"
  unfolding users_handler_defs
  by (rule users_search_in_step [OF assms(2)]; use in_step_users [OF assms] in \<open>simp add: tag_ok_def\<close>)+

lemma users_sort_in_step:
  assumes "in_step st" "nv_route st = RUserUsage \<or> nv_route st = RModule Users \<and> isAdminUsersOverviewSortField (Some f)"
  shows "in_step (toggleUsersSort f st)"
proof -
  have route: "users_route (nv_route st)" using assms(2) by (auto simp: users_route_def)
  obtain s d where nxt: "next_sort ADMIN_USERS_DEFAULT_SORT_FIELD f (nv_usersSort st) (nv_usersSortOrder st) = (s, d)" by (metis surj_pair)
  then have "s = None \<or> s = Some f" using next_sort_cases [of ADMIN_USERS_DEFAULT_SORT_FIELD f "nv_usersSort st" "nv_usersSortOrder st"] by auto
  then have "nv_route st = RModule Users \<Longrightarrow> s = None \<or> isAdminUsersOverviewSortField s" using assms(2) by auto
  from users_search_in_step [OF route in_step_users(1) [OF assms(1) route] this] show ?thesis
    by (simp add: toggleUsersSort_def nxt)
qed

lemma unbound_handlers_in_step:
  assumes "nv_route st = RUnboundTokenUsage"
  shows "in_step (goPrevUnboundTokenUsagePage st)" "in_step (goNextUnboundTokenUsagePage st)" "in_step (applyUnboundTokenUsageSearch st)"
    "in_step (resetUnboundTokenUsageSearch st)" "in_step (toggleUnboundTokenUsageSort f st)"
  unfolding unbound_handler_defs Let_def by (simp_all add: unbound_search_in_step [OF assms] split: prod.split)

lemma keys_list_selection_in_step:
  assumes "nv_route st = RModule Keys" "nv_keysPerPage sel \<le> 100" "\<And>v. v \<in> set (nv_keyStatuses sel) \<Longrightarrow> js_lower (js_trim v) = js_trim v"
  shows "in_step (keys_list page sel st)"
  unfolding keys_list_def by (rule keys_list_in_step) (use assms in auto)

lemma keys_handlers_in_step:
  assumes "in_step st" "nv_route st = RModule Keys"
  shows "in_step (goPrevKeysPage st)" "in_step (goNextKeysPage st)" "n \<le> 100 \<Longrightarrow> in_step (changeKeysPerPage n st)"
    "in_step (handleToggleKeyGroupFilter v st)" "in_step (handleToggleKeyRegionFilter v st)" "js_lower v = v \<Longrightarrow> in_step (handleToggleKeyStatusFilter v st)"
    "in_step (handleClearKeyGroupFilters st)" "in_step (handleClearKeyStatusFilters st)" "in_step (handleClearKeyRegionFilters st)"
    "in_step (handleClearKeyRegistrationIpFilter st)" "in_step (registration_ip_timer st)"
  using assms in_step_keys [OF assms]
  by (auto simp: keys_handler_defs registration_ip_timer_def Let_def toggleSelection_def js_trim_lower [symmetric] intro!: keys_list_selection_in_step split: if_splits)

lemma in_step_inputs [simp]: "in_step (st\<lparr>nv_usersQueryInput := v\<rparr>) = in_step st" "in_step (st\<lparr>nv_unboundQueryInput := v\<rparr>) = in_step st"
    "in_step (st\<lparr>nv_keyRegistrationIpInput := v\<rparr>) = in_step st"
  by (simp_all add: in_step_def shown_def)

lemma location_normal:
  "js_trim (getAdminUsersQueryFromLocation s) = getAdminUsersQueryFromLocation s"
  "max 1 (getAdminUsersPageFromLocation s) = getAdminUsersPageFromLocation s"
  "(case getAdminUsersTagFilterFromLocation s of None \<Rightarrow> None | Some t \<Rightarrow> if js_trim t = [] then None else Some (js_trim t)) = getAdminUsersTagFilterFromLocation s"
  "map_option (\<lambda>_. nullish (getAdminUsersSortDirectionFromLocation s) Desc) (getAdminUsersSortFromLocation s) = getAdminUsersSortDirectionFromLocation s"
proof -
  have trim: "js_trim (get_trimmed s k) = get_trimmed s k" for k
    by (cases "usp_get (usp_parse s) k") (simp_all add: get_trimmed_def)
  then show "js_trim (getAdminUsersQueryFromLocation s) = getAdminUsersQueryFromLocation s" by (simp add: getAdminUsersQueryFromLocation_def)
  show "max 1 (getAdminUsersPageFromLocation s) = getAdminUsersPageFromLocation s"
    by (simp add: getAdminUsersPageFromLocation_def page_from_def split: option.split)
  show "(case getAdminUsersTagFilterFromLocation s of None \<Rightarrow> None | Some t \<Rightarrow> if js_trim t = [] then None else Some (js_trim t)) = getAdminUsersTagFilterFromLocation s"
    by (simp add: getAdminUsersTagFilterFromLocation_def Let_def trim)
  show "map_option (\<lambda>_. nullish (getAdminUsersSortDirectionFromLocation s) Desc) (getAdminUsersSortFromLocation s) = getAdminUsersSortDirectionFromLocation s"
    by (cases "getAdminUsersSortFromLocation s") (simp_all add: getAdminUsersSortDirectionFromLocation_def)
qed

lemma user_usage_in_step:
  assumes "in_step st"
  shows "in_step (navigateModule Nav_user_usage st)"
proof (cases "nv_route st = RUserUsage")
  case True
  let ?path = "userUsagePath (Some (getAdminUsersQueryFromLocation (nv_search st))) (getAdminUsersTagFilterFromLocation (nv_search st))
      (Some (num_of_int (getAdminUsersPageFromLocation (nv_search st)))) (getAdminUsersSortFromLocation (nv_search st))
      (getAdminUsersSortDirectionFromLocation (nv_search st))"
  note read = users_params_read [OF list_queries(2), unfolded finite_int option.map nullish_simps location_normal]
  have "located RUserUsage (url_search ?path) = located RUserUsage (nv_search st)"
    unfolding located_def Let_def by (simp add: read location_normal finite_int)
  then have "shown st = located (nv_route st) (url_search ?path)"
    using assms True by (simp add: in_step_def shown_def located_def Let_def)
  then show ?thesis unfolding navigateModule_def Let_def by (simp add: navigate_in_step)
next
  case False
  then show ?thesis by (simp add: navigateModule_def Let_def in_step_leaves list_routes)
qed

lemma details_in_step:
  "allowed st (Ev_key i b) \<Longrightarrow> in_step (navigateKey i b st)" "allowed st (Ev_token i b) \<Longrightarrow> in_step (navigateToken i b st)"
  "allowed st (Ev_user i b) \<Longrightarrow> in_step (navigateUser i b st)" "allowed st (Ev_tag_edit i) \<Longrightarrow> in_step (open_tag_edit i st)"
  "in_step (navigateUserTags rendered st)" "in_step (open_tag_create st)"
  by (auto simp: navigateKey_def navigateToken_def navigateUser_def open_tag_edit_def navigateUserTags_def open_tag_create_def
      location_context_def Let_def detail_pathnames list_routes list_route_def users_route_def intro!: in_step_detail)

lemma back_in_step: "nv_route st = RToken i \<Longrightarrow> in_step (navigateBackFromTokenDetail st)"
  by (simp add: navigateBackFromTokenDetail_def navigateModule_def Let_def in_step_leaves list_routes module_route)

lemma tag_users_in_step: "\<not> list_route (nv_route st) \<Longrightarrow> in_step (navigateUsersSearch label (Some i) None s d st)"
  by (auto simp: navigateUsersSearch_def buildUsersCollectionPath_def Let_def list_route_def users_route_def list_routes intro!: in_step_leaves)

lemma module_in_step: "nv_route st \<noteq> RModule m \<or> \<not> list_route (RModule m) \<Longrightarrow> in_step (navigateModule (Nav_module m) st)"
  by (auto simp: navigateModule_def module_route intro: in_step_leaves in_step_detail)

lemma timer_in_step:
  assumes "in_step st" "users_route (nv_route st) \<Longrightarrow> js_trim (nv_usersQueryInput st) = nv_usersQuery st"
  shows "in_step (users_query_timer st)"
proof (cases "users_route (nv_route st)")
  case True
  then show ?thesis using assms by (simp add: users_query_timer_def Let_def)
next
  case False
  then have "shown (st\<lparr>nv_usersPage := p, nv_usersQuery := q\<rparr>) = shown st" for p q by (simp add: shown_def)
  then show ?thesis using assms(1) by (simp add: users_query_timer_def Let_def in_step_def)
qed

lemma answer_in_step:
  assumes "in_step st" "nv_route st = RModule Keys \<Longrightarrow> p = nv_keysPage st \<and> n = nv_keysPerPage st"
  shows "in_step (keys_answered p n st)"
proof -
  have "shown (keys_answered p n st) = shown st" using assms(2) by (auto simp: shown_def keys_answered_def)
  then show ?thesis using assms(1) by (simp add: in_step_def keys_answered_def)
qed

lemma nav_step_in_step:
  assumes "in_step st" "allowed st ev"
  shows "in_step (nav_step ev st)"
  using assms
proof (cases ev)
  case (Ev_module target)
  with assms show ?thesis by (cases target) (simp_all add: user_usage_in_step module_in_step)
next
  case (Ev_ip_timer)
  with assms show ?thesis by (cases "nv_route st = RModule Keys") (simp_all add: keys_handlers_in_step, simp add: registration_ip_timer_def Let_def)
qed (auto simp: details_in_step back_in_step tag_users_in_step users_handlers_in_step users_sort_in_step unbound_handlers_in_step
      keys_handlers_in_step popState_in_step timer_in_step answer_in_step navigateUnboundTokenUsage_def list_routes in_step_leaves simp del: allowed.simps(2,3,5,7) split: AdminPathRoute.splits)

section \<open>Runs\<close>

interpretation nav: event_invariant allowed nav_step in_step
  by unfold_locales (rule nav_step_in_step)

definition reload :: "admin_nav \<Rightarrow> admin_nav" where
  "reload st = load_page (nv_pathname st) (nv_search st)"

lemma reload_shown: "shown (reload st) = located (parseAdminPath (nv_pathname st)) (nv_search st)"
  by (simp add: reload_def load_page_shown)



lemma module_search: "url_search (modulePath m) = []"
  by (cases m) (simp_all add: url_search_def modulePath_def ADMIN_BASE_def)

text \<open>C38: the entry of the sidebar for the page that is already open writes its bare address over the location but
  leaves the list as it was; from then on a reload keeps the list only when it was the default one.\<close>

theorem sidebar_entry_leaves_list:
  assumes "nv_route st = RModule m"
  shows "shown (navigateModule (Nav_module m) st) = shown st \<and>
    (shown (reload (navigateModule (Nav_module m) st)) = shown (navigateModule (Nav_module m) st) \<longleftrightarrow> shown st = located (RModule m) [])"
proof -
  have "navigateModule (Nav_module m) st = st\<lparr>nv_pathname := url_resolve (url_pathname (modulePath m)), nv_search := []\<rparr>"
    using assms by (simp add: navigateModule_def navigateToPath_def Let_def isSameAdminRoute_eq module_route module_search)
  moreover have "shown (st\<lparr>nv_pathname := p, nv_search := s\<rparr>) = shown st" for p s by (simp add: shown_def)
  ultimately show ?thesis by (auto simp: reload_shown module_route)
qed

theorem sidebar_entry_leaves_list_witness:
  "let st = load_page ''/admin/users'' ''?q=alice&page=3''; st' = navigateModule (Nav_module Users) st
   in shown st' = (RModule Users, Some (3, ''alice'', None, None, None), None, None) \<and> nv_search st' = [] \<and> shown (reload st') \<noteq> shown st'"
proof -
  let ?st = "load_page ''/admin/users'' ''?q=alice&page=3''"
  have "nv_route ?st = RModule Users" by code_simp
  note rule = sidebar_entry_leaves_list [OF this]
  have "shown ?st = (RModule Users, Some (3, ''alice'', None, None, None), None, None)" by code_simp
  moreover have "shown ?st \<noteq> located (RModule Users) []" by code_simp
  moreover have "nv_search (navigateModule (Nav_module Users) ?st) = []" by code_simp
  ultimately show ?thesis unfolding Let_def using rule by metis
qed

text \<open>C39: a search typed on a list of users that is in step is applied by its timer from the first page on, but the
  location keeps the old search: a reload shows the list as it was before.\<close>

theorem typed_search_not_located:
  assumes "in_step st" "users_route (nv_route st)" "js_trim (nv_usersQueryInput st) \<noteq> nv_usersQuery st"
  shows "let st' = users_query_timer st
    in nv_usersQuery st' = js_trim (nv_usersQueryInput st) \<and> nv_usersPage st' = 1 \<and> shown (reload st') = shown st \<and> shown st' \<noteq> shown st"
proof -
  let ?st' = "users_query_timer st"
  have timer: "?st' = st\<lparr>nv_usersPage := 1, nv_usersQuery := js_trim (nv_usersQueryInput st)\<rparr>"
    using assms(3) by (auto simp: users_query_timer_def Let_def)
  have "shown (reload ?st') = shown st" using assms(1) by (simp add: timer reload_shown in_step_def)
  moreover have "shown ?st' \<noteq> shown st" using assms(2,3) by (simp add: timer shown_def)
  ultimately show ?thesis by (simp add: Let_def timer)
qed

theorem typed_search_not_located_witness:
  "let st = nav_step (Ev_users_input ''bob'') (load_page ''/admin/users'' ''?q=alice&page=3''); st' = users_query_timer st
   in nv_usersQuery st' = ''bob'' \<and> nv_usersPage st' = 1 \<and> shown (reload st') = (RModule Users, Some (3, ''alice'', None, None, None), None, None)"
proof -
  let ?st = "nav_step (Ev_users_input ''bob'') (load_page ''/admin/users'' ''?q=alice&page=3'')"
  have "in_step ?st" "users_route (nv_route ?st)" "js_trim (nv_usersQueryInput ?st) \<noteq> nv_usersQuery ?st" by code_simp+
  note rule = typed_search_not_located [OF this]
  moreover have "shown ?st = (RModule Users, Some (3, ''alice'', None, None, None), None, None)" "js_trim (nv_usersQueryInput ?st) = ''bob''" by code_simp+
  ultimately show ?thesis unfolding Let_def by metis
qed

end
