(* ===== verification/Log_Operational_Class.thy ===== *)
theory Log_Operational_Class
  imports JS_Prelude
begin

text \<open>
  The operational class of a log entry (\<open>web/src/lib/logOperationalClass.ts\<close>): its normalisation from
  the wire, the tone of its badge, its label in both languages and the guidance shown with a failure.
  The Chinese texts are written by their code points.
\<close>

datatype LogOperationalClass =
    LC_success | LC_neutral | LC_client_error | LC_upstream_error | LC_system_error | LC_quota_exhausted

datatype StatusTone = ST_success | ST_warning | ST_error | ST_info | ST_neutral

datatype SupportedLanguage = En | Zh

fun class_str :: "LogOperationalClass \<Rightarrow> string" where
  "class_str LC_success = ''success''"
| "class_str LC_neutral = ''neutral''"
| "class_str LC_client_error = ''client_error''"
| "class_str LC_upstream_error = ''upstream_error''"
| "class_str LC_system_error = ''system_error''"
| "class_str LC_quota_exhausted = ''quota_exhausted''"

text \<open>\<open>language === 'zh' ? zh : en\<close>.\<close>

definition pick :: "SupportedLanguage \<Rightarrow> string \<Rightarrow> string \<Rightarrow> string" where
  "pick language zh en = (if language = Zh then zh else en)"

definition normalizeOperationalClass :: "string option \<Rightarrow> LogOperationalClass option" where
  "normalizeOperationalClass value = (let v = js_lower (js_trim (nullish value [])) in
     if v = ''success'' then Some LC_success
     else if v = ''neutral'' then Some LC_neutral
     else if v = ''client_error'' then Some LC_client_error
     else if v = ''upstream_error'' then Some LC_upstream_error
     else if v = ''system_error'' then Some LC_system_error
     else if v = ''quota_exhausted'' then Some LC_quota_exhausted
     else None)"

definition operationalClassTone :: "string option \<Rightarrow> StatusTone" where
  "operationalClassTone value = (case normalizeOperationalClass value of
     Some LC_success \<Rightarrow> ST_success
   | Some LC_neutral \<Rightarrow> ST_neutral
   | Some LC_client_error \<Rightarrow> ST_warning
   | Some LC_upstream_error \<Rightarrow> ST_error
   | Some LC_system_error \<Rightarrow> ST_error
   | Some LC_quota_exhausted \<Rightarrow> ST_warning
   | None \<Rightarrow> ST_neutral)"

definition operationalClassLabel :: "string option \<Rightarrow> SupportedLanguage \<Rightarrow> string" where
  "operationalClassLabel value language = (case normalizeOperationalClass value of
     Some LC_success \<Rightarrow> pick language (uni [25104, 21151]) ''Success''
   | Some LC_neutral \<Rightarrow> pick language (uni [20013, 24615]) ''Neutral''
   | Some LC_client_error \<Rightarrow> pick language (uni [23458, 25143, 31471, 38169, 35823]) ''Client Error''
   | Some LC_upstream_error \<Rightarrow> pick language (uni [19978, 28216, 38169, 35823]) ''Upstream Error''
   | Some LC_system_error \<Rightarrow> pick language (uni [31995, 32479, 38169, 35823]) ''System Error''
   | Some LC_quota_exhausted \<Rightarrow> pick language (uni [39069, 24230, 32791, 23613]) ''Quota Exhausted''
   | None \<Rightarrow> if truthy_str (map_option js_trim value) then nullish (map_option js_trim value) []
       else pick language (uni [26410, 30693]) ''Unknown'')"

text \<open>The guidance of a failure kind, as the pair of its Chinese and English text.\<close>

definition failure_guidance_texts :: "(string \<times> string \<times> string) list" where
  "failure_guidance_texts = [
     (''upstream_gateway_5xx'', uni [36825, 26159, 19978, 28216, 32593, 20851, 20020, 26102, 25925, 38556, 65292, 24314, 35758,
       31245, 21518, 37325, 35797, 65292, 24182, 26816, 26597, 19978, 28216, 36830, 36890, 24615, 25110,
       20195, 29702, 33410, 28857, 20581, 24247, 12290],
      ''This is a temporary upstream gateway failure. Retry later and inspect upstream connectivity or proxy health.''),
     (''upstream_rate_limited_429'', uni [36825, 26159, 32, 84, 97, 118, 105, 108, 121, 32, 38480, 27969, 65292, 24314, 35758, 38477,
       20302, 39057, 29575, 12289, 20999, 25442, 20854, 20182, 32, 75, 101, 121, 65292, 25110, 31561,
       24453, 38480, 27969, 31383, 21475, 24674, 22797, 12290],
      ''Tavily is rate limiting this traffic. Reduce request rate, switch keys, or wait for the limit window to reset.''),
     (''upstream_account_deactivated_401'', uni [35813, 32, 75, 101, 121, 32, 21487, 33021, 24050, 22833, 25928, 12289, 34987, 25764, 38144,
       25110, 36134, 25143, 20572, 29992, 65292, 24314, 35758, 26356, 25442, 21487, 29992, 32, 75, 101,
       121, 32, 24182, 26816, 26597, 32, 84, 97, 118, 105, 108, 121, 32, 21518, 21488, 29366, 24577, 12290],
      ''The key may be invalid, revoked, or tied to a deactivated account. Replace it and check the Tavily account state.''),
     (''transport_send_error'', uni [36825, 26159, 38142, 36335, 21457, 36865, 22833, 36133, 65292, 24314, 35758, 26816, 26597, 32,
       68, 78, 83, 12289, 84, 76, 83, 12289, 20195, 29702, 38142, 36335, 21644, 19978, 28216, 21487, 36798,
       24615, 12290],
      ''This request failed before getting an upstream response. Check DNS, TLS, proxy routing, and upstream reachability.''),
     (''mcp_accept_406'', uni [23458, 25143, 31471, 38656, 35201, 21516, 26102, 25509, 21463, 32, 97, 112, 112, 108, 105, 99,
       97, 116, 105, 111, 110, 47, 106, 115, 111, 110, 32, 19982, 32, 116, 101, 120, 116, 47, 101, 118,
       101, 110, 116, 45, 115, 116, 114, 101, 97, 109, 65292, 35831, 20462, 27491, 32, 65, 99, 99, 101,
       112, 116, 32, 35831, 27714, 22836, 12290],
      ''The client must accept both application/json and text/event-stream. Fix the Accept header negotiation.''),
     (''tool_argument_validation'', uni [36825, 26159, 23458, 25143, 31471, 21442, 25968, 25110, 32, 115, 99, 104, 101, 109, 97, 32,
       19981, 21305, 37197, 65292, 35831, 26816, 26597, 24037, 20855, 21442, 25968, 21517, 12289, 24517,
       22635, 23383, 27573, 21644, 36755, 20837, 31867, 22411, 12290],
      ''The request payload does not match the current tool schema. Check argument names, required fields, and input types.''),
     (''unknown_tool_name'', uni [23458, 25143, 31471, 35843, 29992, 20102, 19981, 23384, 22312, 30340, 24037, 20855, 21517,
       65292, 35831, 20808, 37325, 26032, 33719, 21462, 32, 116, 111, 111, 108, 115, 47, 108, 105, 115,
       116, 32, 20877, 37325, 35797, 12290],
      ''The client called a tool name that is not advertised. Refresh tools/list before retrying.''),
     (''invalid_search_depth'', uni [115, 101, 97, 114, 99, 104, 95, 100, 101, 112, 116, 104, 32, 21442, 25968, 19981, 21512, 27861,
       65292, 35831, 25913, 29992, 24403, 21069, 25903, 25345, 30340, 26522, 20030, 20540, 12290],
      ''The search_depth value is invalid. Use one of the currently supported enum values.''),
     (''invalid_country_search_depth_combo'', uni [99, 111, 117, 110, 116, 114, 121, 32, 19982, 24403, 21069, 32, 115, 101, 97, 114, 99, 104, 95,
       100, 101, 112, 116, 104, 32, 32452, 21512, 19981, 21463, 25903, 25345, 65292, 35831, 35843, 25972,
       21442, 25968, 25645, 37197, 12290],
      ''The selected country/search_depth combination is not supported. Adjust the parameter pair.''),
     (''research_payload_422'', uni [114, 101, 115, 101, 97, 114, 99, 104, 32, 35831, 27714, 20307, 19981, 31526, 21512, 19978,
       28216, 35201, 27714, 65292, 35831, 26816, 26597, 23383, 27573, 32467, 26500, 19982, 24517, 22635,
       39033, 12290],
      ''The research payload does not match the upstream contract. Validate the body structure and required fields.''),
     (''query_too_long'', uni [113, 117, 101, 114, 121, 32, 36229, 20986, 19978, 28216, 38271, 24230, 38480, 21046, 65292,
       35831, 32553, 30701, 36755, 20837, 21518, 37325, 35797, 12290],
      ''The query exceeds the upstream length limit. Shorten the input before retrying.''),
     (''mcp_method_405'', uni [23458, 25143, 31471, 20351, 29992, 20102, 38169, 35823, 30340, 32, 72, 84, 84, 80, 32, 109,
       101, 116, 104, 111, 100, 65292, 35831, 25353, 32, 77, 67, 80, 32, 31471, 28857, 35201, 27714, 25913,
       27491, 35831, 27714, 26041, 27861, 12290],
      ''The client used the wrong HTTP method for this MCP endpoint. Fix the request method.''),
     (''mcp_path_404'', uni [23458, 25143, 31471, 35775, 38382, 20102, 19981, 23384, 22312, 30340, 32, 77, 67, 80, 32,
       36335, 24452, 65292, 35831, 26816, 26597, 32, 101, 110, 100, 112, 111, 105, 110, 116, 32, 37197,
       32622, 12290],
      ''The client hit a non-existent MCP path. Check the configured endpoint path.'')]"

definition failureKindGuidance :: "string option \<Rightarrow> SupportedLanguage \<Rightarrow> string option" where
  "failureKindGuidance kind language =
     map_option (\<lambda>(zh, en). pick language zh en)
       (map_of failure_guidance_texts (js_trim (nullish kind [])))"

definition operationalClassGuidance ::
  "string option \<Rightarrow> string option \<Rightarrow> SupportedLanguage \<Rightarrow> string option" where
  "operationalClassGuidance operationalClass failureKind language =
     (let failureGuidance = failureKindGuidance failureKind language in
      if truthy_str failureGuidance then failureGuidance
      else case normalizeOperationalClass operationalClass of
        Some LC_neutral \<Rightarrow> Some (pick language (uni [36825, 26159, 32, 77, 67, 80, 32, 25511, 21046, 38754, 25110, 38750, 35745, 36153, 35831,
          27714, 65292, 40664, 35748, 20445, 30041, 23457, 35745, 21487, 35265, 24615, 65292, 20294, 19981,
          20195, 34920, 32447, 19978, 20107, 25925, 12290])
          ''This is MCP control-plane or other non-billable traffic. It remains visible for auditability, but it is not an incident by itself.'')
      | Some LC_client_error \<Rightarrow> Some (pick language (uni [36825, 26159, 23458, 25143, 31471, 36755, 20837, 12289, 21327, 35758, 25110, 24037, 20855,
          21442, 25968, 38382, 39064, 65292, 24314, 35758, 20808, 26816, 26597, 35843, 29992, 26041, 35831,
          27714, 12290])
          ''This is a client-side request, protocol, or tool-argument issue. Inspect the caller payload first.'')
      | Some LC_upstream_error \<Rightarrow> Some (pick language (uni [36825, 26159, 19978, 28216, 36820, 22238, 30340, 22806, 37096, 38169, 35823, 65292, 24314,
          35758, 32467, 21512, 32, 84, 97, 118, 105, 108, 121, 32, 29366, 24577, 12289, 38480, 27969, 19982,
          36830, 36890, 24615, 32487, 32493, 25490, 26597, 12290])
          ''This is an upstream-originated failure. Check Tavily status, rate limits, and upstream connectivity.'')
      | Some LC_system_error \<Rightarrow> Some (pick language (uni [36825, 26159, 20195, 29702, 38142, 36335, 25110, 31995, 32479, 20391, 24322, 24120, 65292,
          24314, 35758, 26597, 30475, 26381, 21153, 26085, 24535, 12289, 32593, 32476, 38142, 36335, 19982,
          20869, 37096, 25253, 38169, 12290])
          ''This is a proxy or system-side failure. Inspect service logs, network connectivity, and internal errors.'')
      | Some LC_quota_exhausted \<Rightarrow> Some (pick language (uni [36825, 26159, 39069, 24230, 32791, 23613, 65292, 19981, 23646, 20110, 31995, 32479, 25925,
          38556, 12290, 35831, 26816, 26597, 24403, 21069, 31383, 21475, 30340, 19994, 21153, 39069, 24230,
          37197, 32622, 12290])
          ''This is quota exhaustion rather than a system failure. Check the configured business quota window.'')
      | _ \<Rightarrow> None)"

section \<open>Lemmas\<close>

lemma normalize_class_str [simp]: "normalizeOperationalClass (Some (class_str c)) = Some c"
  by (induction c) code_simp+

lemma normalize_None [simp]: "normalizeOperationalClass None = None"
  by code_simp

lemma normalizeOperationalClass_iff:
  "normalizeOperationalClass value = Some c \<longleftrightarrow> js_lower (js_trim (nullish value [])) = class_str c"
  by (cases c) (auto simp: normalizeOperationalClass_def Let_def)

lemma failure_guidance_nonempty: "map_of failure_guidance_texts k = Some (zh, en) \<Longrightarrow> zh \<noteq> [] \<and> en \<noteq> []"
proof -
  have all: "list_all (\<lambda>(k, zh, en). zh \<noteq> [] \<and> en \<noteq> []) failure_guidance_texts"
    by (simp add: failure_guidance_texts_def)
  assume "map_of failure_guidance_texts k = Some (zh, en)"
  then have "(k, zh, en) \<in> set failure_guidance_texts" by (rule map_of_SomeD)
  with all show ?thesis by (auto simp: list_all_iff)
qed

section \<open>Properties\<close>

text \<open>Guidance.  A known failure kind always decides the text shown; otherwise a text is shown exactly for
  the classes other than success, and none for an unknown class.\<close>

lemma operationalClassGuidance_precedence:
  "operationalClassGuidance cls kind language =
     (case failureKindGuidance kind language of
        Some g \<Rightarrow> Some g
      | None \<Rightarrow> operationalClassGuidance cls None language) \<and>
   (operationalClassGuidance cls None language = None \<longleftrightarrow>
      normalizeOperationalClass cls \<in> {None, Some LC_success})"
proof
  have none: "failureKindGuidance None language = None"
    by (simp add: failureKindGuidance_def failure_guidance_texts_def)
  have ne: "truthy_str (failureKindGuidance kind language)" if "failureKindGuidance kind language \<noteq> None"
    using that failure_guidance_nonempty by (auto simp: failureKindGuidance_def pick_def)
  show "operationalClassGuidance cls kind language =
     (case failureKindGuidance kind language of
        Some g \<Rightarrow> Some g
      | None \<Rightarrow> operationalClassGuidance cls None language)"
  proof (cases "failureKindGuidance kind language")
    case None
    then show ?thesis by (simp add: operationalClassGuidance_def none)
  next
    case (Some g)
    with ne show ?thesis by (simp add: operationalClassGuidance_def)
  qed
  show "operationalClassGuidance cls None language = None \<longleftrightarrow>
      normalizeOperationalClass cls \<in> {None, Some LC_success}"
    by (simp add: operationalClassGuidance_def none split: option.split LogOperationalClass.split)
qed

end
