(* ===== verification/Request_Kinds.thy ===== *)
theory Request_Kinds
  imports URL_Search_Params Log_Operational_Class
begin

text \<open>
  The request kinds of the log views (\<open>web/src/tokenLogRequestKinds.ts\<close>): the canonical catalogue, the
  normalisation of selected keys, the quick filters derived from and expanded to selections, and the URL
  of a log page.  \<open>localeCompare\<close> depends on the locale of the browser and is the parameter
  \<open>lc\<close>; what the sorting relies on is that it is a consistent comparator.
\<close>

datatype ProtocolGroup = PG_api | PG_mcp | PG_none

datatype BillingGroup = BG_billable | BG_non_billable | BG_none

record TokenLogRequestKindOption =
  opt_key :: string
  opt_label :: string
  protocol_group :: ProtocolGroup
  billing_group :: BillingGroup
  opt_count :: "int option"

datatype QuickBilling = QB_all | QB_billable | QB_non_billable

datatype QuickProtocol = QP_all | QP_api | QP_mcp

record TokenLogRequestKindQuickFilters =
  billing :: QuickBilling
  protocol :: QuickProtocol

record TokenLogRequestKindOptionsRefreshResolution =
  quickSelection :: "string list"
  effectiveSelection :: "string list"
  hasEmptyMatch :: bool
  selectionChanged :: bool

definition defaultTokenLogRequestKindQuickFilters :: TokenLogRequestKindQuickFilters where
  "defaultTokenLogRequestKindQuickFilters = \<lparr>billing = QB_all, protocol = QP_all\<rparr>"

definition tokenLogRequestKindEmptySelectionKey :: string where
  "tokenLogRequestKindEmptySelectionKey = ''__token_request_kind_empty_selection__''"

definition kind_option :: "string \<Rightarrow> string \<Rightarrow> ProtocolGroup \<Rightarrow> BillingGroup \<Rightarrow> TokenLogRequestKindOption" where
  "kind_option k l p b = \<lparr>opt_key = k, opt_label = l, protocol_group = p, billing_group = b, opt_count = None\<rparr>"

definition canonicalTokenLogRequestKindOptions :: "TokenLogRequestKindOption list" where
  "canonicalTokenLogRequestKindOptions = [
      kind_option ''api:crawl'' ''API | crawl'' PG_api BG_billable,
      kind_option ''api:extract'' ''API | extract'' PG_api BG_billable,
      kind_option ''api:map'' ''API | map'' PG_api BG_billable,
      kind_option ''api:research'' ''API | research'' PG_api BG_billable,
      kind_option ''api:research-result'' ''API | research result'' PG_api BG_non_billable,
      kind_option ''api:search'' ''API | search'' PG_api BG_billable,
      kind_option ''api:unknown-path'' ''API | unknown path'' PG_api BG_non_billable,
      kind_option ''api:usage'' ''API | usage'' PG_api BG_non_billable,
      kind_option ''mcp:batch'' ''MCP | batch'' PG_mcp BG_billable,
      kind_option ''mcp:crawl'' ''MCP | crawl'' PG_mcp BG_billable,
      kind_option ''mcp:extract'' ''MCP | extract'' PG_mcp BG_billable,
      kind_option ''mcp:initialize'' ''MCP | initialize'' PG_mcp BG_non_billable,
      kind_option ''mcp:map'' ''MCP | map'' PG_mcp BG_billable,
      kind_option ''mcp:notifications/initialized'' ''MCP | notifications/initialized'' PG_mcp BG_non_billable,
      kind_option ''mcp:ping'' ''MCP | ping'' PG_mcp BG_non_billable,
      kind_option ''mcp:prompts/list'' ''MCP | prompts/list'' PG_mcp BG_non_billable,
      kind_option ''mcp:research'' ''MCP | research'' PG_mcp BG_billable,
      kind_option ''mcp:resources/list'' ''MCP | resources/list'' PG_mcp BG_non_billable,
      kind_option ''mcp:resources/templates/list'' ''MCP | resources/templates/list'' PG_mcp BG_non_billable,
      kind_option ''mcp:search'' ''MCP | search'' PG_mcp BG_billable,
      kind_option ''mcp:third-party-tool'' ''MCP | third-party tool'' PG_mcp BG_non_billable,
      kind_option ''mcp:tools/list'' ''MCP | tools/list'' PG_mcp BG_non_billable,
      kind_option ''mcp:unknown-method'' ''MCP | unknown method'' PG_mcp BG_non_billable,
      kind_option ''mcp:unknown-payload'' ''MCP | unknown payload'' PG_mcp BG_non_billable,
      kind_option ''mcp:unsupported-path'' ''MCP | unsupported path'' PG_mcp BG_non_billable]"

definition canonicalTokenLogRequestKindOptionsByKey :: "(string \<times> TokenLogRequestKindOption) list" where
  "canonicalTokenLogRequestKindOptionsByKey =
     js_map_of (map (\<lambda>option. (opt_key option, option)) canonicalTokenLogRequestKindOptions)"

definition sortRequestKindOptions ::
  "(string \<Rightarrow> string \<Rightarrow> int) \<Rightarrow> TokenLogRequestKindOption \<Rightarrow> TokenLogRequestKindOption \<Rightarrow> int" where
  "sortRequestKindOptions lc left right =
     (if lc (opt_label left) (opt_label right) \<noteq> 0 then lc (opt_label left) (opt_label right)
      else lc (opt_key left) (opt_key right))"

definition is_canonical_key :: "string \<Rightarrow> bool" where
  "is_canonical_key value = (map_of canonicalTokenLogRequestKindOptionsByKey value \<noteq> None)"

definition normalizeRequestKindSelectionKey :: "string \<Rightarrow> string" where
  "normalizeRequestKindSelectionKey raw = (let value = js_trim raw in
     if value = [] then []
     else if is_canonical_key value then value
     else if prefix ''api:raw:'' value \<or> prefix ''api:'' value then ''api:unknown-path''
     else if prefix ''mcp:tool:'' value then ''mcp:third-party-tool''
     else if value = ''mcp:tools/call'' then ''mcp:unknown-payload''
     else if prefix ''mcp:raw:'' value \<and> drop (length ''mcp:raw:'') value = ''/mcp'' then ''mcp:unknown-payload''
     else if prefix ''mcp:raw:'' value \<and> prefix ''/mcp/'' (drop (length ''mcp:raw:'') value)
       then ''mcp:unsupported-path''
     else if prefix ''mcp:'' value then ''mcp:unknown-method''
     else value)"

definition mergeRequestKindCatalog ::
  "(string \<Rightarrow> string \<Rightarrow> int) \<Rightarrow> TokenLogRequestKindOption list \<Rightarrow> TokenLogRequestKindOption list" where
  "mergeRequestKindCatalog lc options =
     js_sort (sortRequestKindOptions lc) (map snd
       (foldl (\<lambda>byKey option. let key = js_trim (opt_key option) in
           if key = [] then byKey else js_map_set key option byKey)
         canonicalTokenLogRequestKindOptionsByKey options))"

definition uniqueSelectedRequestKinds :: "string list \<Rightarrow> string list" where
  "uniqueSelectedRequestKinds requestKinds =
     fst (foldl (\<lambda>(normalized, seen) raw. let value = normalizeRequestKindSelectionKey raw in
         if value = [] \<or> value \<in> set seen then (normalized, seen)
         else (normalized @ [value], js_set_add value seen))
       ([], []) requestKinds)"

definition mergeRequestKindOptionsByKey ::
  "(string \<rightharpoonup> TokenLogRequestKindOption) \<Rightarrow> TokenLogRequestKindOption list \<Rightarrow>
   (string \<rightharpoonup> TokenLogRequestKindOption)" where
  "mergeRequestKindOptionsByKey current options =
     foldl (\<lambda>nxt option. let key = js_trim (opt_key option) in
         if key \<noteq> [] then nxt(key \<mapsto> option) else nxt)
       current options"

definition buildVisibleRequestKindOptions ::
  "(string \<Rightarrow> string \<Rightarrow> int) \<Rightarrow> string list \<Rightarrow> TokenLogRequestKindOption list \<Rightarrow>
   (string \<rightharpoonup> TokenLogRequestKindOption) \<Rightarrow> TokenLogRequestKindOption list" where
  "buildVisibleRequestKindOptions lc selected options optionsByKey =
     js_sort (sortRequestKindOptions lc) (map snd
       (foldl (\<lambda>byKey key.
           if map_of byKey key \<noteq> None then byKey
           else js_map_set key (nullish (optionsByKey key) (kind_option key key PG_none BG_none)) byKey)
         (js_map_of (map (\<lambda>option. (opt_key option, option)) options))
         (uniqueSelectedRequestKinds selected)))"

definition toggleRequestKindSelection :: "string list \<Rightarrow> string \<Rightarrow> string list" where
  "toggleRequestKindSelection selected nextKey =
     (let key = normalizeRequestKindSelectionKey nextKey;
          normalized = uniqueSelectedRequestKinds selected
      in if key = [] then normalized
         else if key \<in> set normalized then filter (\<lambda>value. value \<noteq> key) normalized
         else normalized @ [key])"

definition summarizeSelectedRequestKinds ::
  "string list \<Rightarrow> TokenLogRequestKindOption list \<Rightarrow> string \<Rightarrow> string" where
  "summarizeSelectedRequestKinds selected options emptyLabel =
     (let normalized = uniqueSelectedRequestKinds selected in
      if length normalized = 0 then emptyLabel
      else let labelsByKey = js_map_of (map (\<lambda>option. (opt_key option, opt_label option)) options);
               labels = map (\<lambda>key. nullish (map_of labelsByKey key) key) normalized
           in if length labels \<le> 2 then js_join '' + '' labels
              else nat_to_string (length labels) @ '' selected'')"

definition hasActiveRequestKindQuickFilters :: "TokenLogRequestKindQuickFilters \<Rightarrow> bool" where
  "hasActiveRequestKindQuickFilters filters \<longleftrightarrow> billing filters \<noteq> QB_all \<or> protocol filters \<noteq> QP_all"

definition billing_matches :: "QuickBilling \<Rightarrow> BillingGroup \<Rightarrow> bool" where
  "billing_matches q g = (case q of QB_all \<Rightarrow> True | QB_billable \<Rightarrow> g = BG_billable | QB_non_billable \<Rightarrow> g = BG_non_billable)"

definition protocol_matches :: "QuickProtocol \<Rightarrow> ProtocolGroup \<Rightarrow> bool" where
  "protocol_matches q g = (case q of QP_all \<Rightarrow> True | QP_api \<Rightarrow> g = PG_api | QP_mcp \<Rightarrow> g = PG_mcp)"

definition buildRequestKindQuickFilterSelection ::
  "TokenLogRequestKindOption list \<Rightarrow> TokenLogRequestKindQuickFilters \<Rightarrow> string list" where
  "buildRequestKindQuickFilterSelection options filters =
     (if \<not> hasActiveRequestKindQuickFilters filters then []
      else uniqueSelectedRequestKinds (map opt_key
        (filter (\<lambda>option. billing_matches (billing filters) (billing_group option) \<and>
            protocol_matches (protocol filters) (protocol_group option)) options)))"

definition requestKindSelectionsMatch :: "string list \<Rightarrow> string list \<Rightarrow> bool" where
  "requestKindSelectionsMatch left right =
     (let normalizedLeft = uniqueSelectedRequestKinds left;
          normalizedRight = uniqueSelectedRequestKinds right
      in length normalizedLeft = length normalizedRight \<and>
         list_all (\<lambda>key. key \<in> set (js_set_of normalizedRight)) normalizedLeft)"

definition quick_filter_candidates :: "TokenLogRequestKindQuickFilters list" where
  "quick_filter_candidates = [
     \<lparr>billing = QB_billable, protocol = QP_api\<rparr>,
     \<lparr>billing = QB_billable, protocol = QP_mcp\<rparr>,
     \<lparr>billing = QB_non_billable, protocol = QP_api\<rparr>,
     \<lparr>billing = QB_non_billable, protocol = QP_mcp\<rparr>,
     \<lparr>billing = QB_billable, protocol = QP_all\<rparr>,
     \<lparr>billing = QB_non_billable, protocol = QP_all\<rparr>,
     \<lparr>billing = QB_all, protocol = QP_api\<rparr>,
     \<lparr>billing = QB_all, protocol = QP_mcp\<rparr>]"

definition deriveRequestKindQuickFilters ::
  "string list \<Rightarrow> TokenLogRequestKindOption list \<Rightarrow> TokenLogRequestKindQuickFilters" where
  "deriveRequestKindQuickFilters selected options =
     (let normalized = uniqueSelectedRequestKinds selected in
      if length normalized = 0 then defaultTokenLogRequestKindQuickFilters
      else
        let matches = filter (\<lambda>candidate. requestKindSelectionsMatch normalized
              (buildRequestKindQuickFilterSelection options candidate)) quick_filter_candidates
        in case matches of [m] \<Rightarrow> m | _ \<Rightarrow> defaultTokenLogRequestKindQuickFilters)"

definition resolveManualRequestKindQuickFilters ::
  "string list \<Rightarrow> TokenLogRequestKindQuickFilters \<Rightarrow> string list \<Rightarrow> TokenLogRequestKindOption list \<Rightarrow>
   TokenLogRequestKindQuickFilters" where
  "resolveManualRequestKindQuickFilters nextSelected activeFilters activeQuickSelection options =
     (if requestKindSelectionsMatch nextSelected activeQuickSelection then activeFilters
      else deriveRequestKindQuickFilters nextSelected options)"

definition resolveEffectiveRequestKindSelection ::
  "string list \<Rightarrow> TokenLogRequestKindQuickFilters \<Rightarrow> string list \<Rightarrow> string list" where
  "resolveEffectiveRequestKindSelection selected activeFilters quick =
     (if hasActiveRequestKindQuickFilters activeFilters then uniqueSelectedRequestKinds quick
      else uniqueSelectedRequestKinds selected)"

definition resolveRequestKindOptionsRefresh ::
  "TokenLogRequestKindOption list \<Rightarrow> string list \<Rightarrow> TokenLogRequestKindQuickFilters \<Rightarrow> string list \<Rightarrow> bool \<Rightarrow>
   TokenLogRequestKindOptionsRefreshResolution" where
  "resolveRequestKindOptionsRefresh options selected activeFilters currentEffective currentEmpty =
     (let quick = buildRequestKindQuickFilterSelection options activeFilters;
          emptyMatch = (hasActiveRequestKindQuickFilters activeFilters \<and> length quick = 0);
          effective = resolveEffectiveRequestKindSelection selected activeFilters quick
      in \<lparr>quickSelection = quick, effectiveSelection = effective, hasEmptyMatch = emptyMatch,
          selectionChanged = (\<not> requestKindSelectionsMatch effective currentEffective \<or>
            emptyMatch \<noteq> currentEmpty)\<rparr>)"

definition summarizeRequestKindQuickFilters :: "TokenLogRequestKindQuickFilters \<Rightarrow> string" where
  "summarizeRequestKindQuickFilters filters =
     (if \<not> hasActiveRequestKindQuickFilters filters then ''All request types''
      else
        let billingLabel = (case billing filters of QB_all \<Rightarrow> ''All'' | QB_billable \<Rightarrow> ''Paid'' | QB_non_billable \<Rightarrow> ''Free'');
            protocolLabel = (case protocol filters of QP_all \<Rightarrow> ''Request types'' | QP_api \<Rightarrow> ''API'' | QP_mcp \<Rightarrow> ''MCP'')
        in if billing filters = QB_all then protocolLabel @ '' request types''
           else if protocol filters = QP_all then billingLabel @ '' request types''
           else billingLabel @ '' + '' @ protocolLabel)"

record TokenLogsPagePathInput =
  lp_tokenId :: string
  lp_page :: int
  lp_perPage :: int
  lp_sinceIso :: string
  lp_untilIso :: string
  lp_forceEmptyMatch :: bool
  lp_requestKinds :: "string list"
  lp_operationalClass :: "LogOperationalClass option"

text \<open>\<open>lp_operationalClass\<close> is \<^term>\<open>None\<close> for the filter \<open>all\<close>, which is also its default.\<close>

definition token_logs_params :: "TokenLogsPagePathInput \<Rightarrow> params" where
  "token_logs_params i =
     (let base = [(''page'', int_to_string (lp_page i)), (''per_page'', int_to_string (lp_perPage i)),
                  (''since'', lp_sinceIso i), (''until'', lp_untilIso i)];
          s1 = (case lp_operationalClass i of None \<Rightarrow> base | Some c \<Rightarrow> usp_set ''operational_class'' (class_str c) base);
          normalized = uniqueSelectedRequestKinds (lp_requestKinds i);
          queryRequestKinds = (if length normalized = 0 \<and> lp_forceEmptyMatch i
            then [tokenLogRequestKindEmptySelectionKey] else normalized)
      in foldl (\<lambda>search key. usp_append ''request_kind'' key search) s1 queryRequestKinds)"

definition buildTokenLogsPagePath :: "TokenLogsPagePathInput \<Rightarrow> string" where
  "buildTokenLogsPagePath i =
     ''/api/tokens/'' @ encodeURIComponent (lp_tokenId i) @ ''/logs/page?'' @ usp_to_string (token_logs_params i)"

section \<open>Normalised keys\<close>

lemma is_canonical_key_iff:
  "is_canonical_key v \<longleftrightarrow> v \<in> opt_key ` set canonicalTokenLogRequestKindOptions"
proof -
  have "dom (map_of canonicalTokenLogRequestKindOptionsByKey) =
      opt_key ` set canonicalTokenLogRequestKindOptions"
    unfolding canonicalTokenLogRequestKindOptionsByKey_def js_map_of_update_all
    using jm.keys_update_all [of "map (\<lambda>option. (opt_key option, option)) canonicalTokenLogRequestKindOptions" "[]"]
    by (simp add: dom_map_of_conv_image_fst image_image)
  then show ?thesis by (auto simp: is_canonical_key_def)
qed

text \<open>The keys the normalisation falls back to are themselves canonical.\<close>

definition fallback_keys :: "string list" where
  "fallback_keys = [''api:unknown-path'', ''mcp:third-party-tool'', ''mcp:unknown-payload'',
     ''mcp:unsupported-path'', ''mcp:unknown-method'']"

lemma fallback_canonical: "w \<in> set fallback_keys \<Longrightarrow> is_canonical_key w"
  by (auto simp: fallback_keys_def is_canonical_key_iff canonicalTokenLogRequestKindOptions_def
      kind_option_def)

lemma fallback_trim: "w \<in> set fallback_keys \<Longrightarrow> js_trim w = w"
proof -
  have "list_all (\<lambda>w. js_trim w = w) fallback_keys" by code_simp
  then show "w \<in> set fallback_keys \<Longrightarrow> js_trim w = w" by (simp add: list_all_iff)
qed

lemma normalize_key_cases [case_names empty canonical fallback other]:
  assumes "js_trim raw = [] \<Longrightarrow> normalizeRequestKindSelectionKey raw = [] \<Longrightarrow> P"
    and "is_canonical_key (js_trim raw) \<Longrightarrow> normalizeRequestKindSelectionKey raw = js_trim raw \<Longrightarrow> P"
    and "normalizeRequestKindSelectionKey raw \<in> set fallback_keys \<Longrightarrow> P"
    and "normalizeRequestKindSelectionKey raw = js_trim raw \<Longrightarrow> \<not> prefix ''api:'' (js_trim raw) \<Longrightarrow>
      \<not> prefix ''mcp:'' (js_trim raw) \<Longrightarrow> P"
  shows P
proof -
  have "normalizeRequestKindSelectionKey raw = [] \<and> js_trim raw = [] \<or>
    normalizeRequestKindSelectionKey raw = js_trim raw \<and> is_canonical_key (js_trim raw) \<or>
    normalizeRequestKindSelectionKey raw \<in> set fallback_keys \<or>
    normalizeRequestKindSelectionKey raw = js_trim raw \<and> \<not> prefix ''api:'' (js_trim raw) \<and>
      \<not> prefix ''mcp:'' (js_trim raw)"
    by (simp add: normalizeRequestKindSelectionKey_def Let_def fallback_keys_def)
  with assms show P by blast
qed

lemma normalize_canonical: "is_canonical_key v \<Longrightarrow> js_trim v = v \<Longrightarrow> normalizeRequestKindSelectionKey v = v"
  by (simp add: normalizeRequestKindSelectionKey_def Let_def)

lemma prefix_mcp_tool: "prefix ''mcp:tool:'' v \<Longrightarrow> prefix ''mcp:'' v" "prefix ''mcp:raw:'' v \<Longrightarrow> prefix ''mcp:'' v"
  "prefix ''api:raw:'' v \<Longrightarrow> prefix ''api:'' v"
  by (auto simp: prefix_def)

lemma normalize_other:
  "js_trim v = v \<Longrightarrow> \<not> prefix ''api:'' v \<Longrightarrow> \<not> prefix ''mcp:'' v \<Longrightarrow> normalizeRequestKindSelectionKey v = v"
  using prefix_mcp_tool [of v] by (auto simp: normalizeRequestKindSelectionKey_def Let_def)

lemma normalize_key_idem [simp]:
  "normalizeRequestKindSelectionKey (normalizeRequestKindSelectionKey raw) = normalizeRequestKindSelectionKey raw"
proof (cases raw rule: normalize_key_cases)
  case empty
  then show ?thesis by (simp add: normalizeRequestKindSelectionKey_def)
next
  case canonical
  then show ?thesis by (simp add: normalize_canonical)
next
  case fallback
  then show ?thesis by (simp add: normalize_canonical fallback_canonical fallback_trim)
next
  case other
  then show ?thesis by (simp add: normalize_other)
qed

section \<open>Selections\<close>

lemma uniqueSelectedRequestKinds_eq:
  "uniqueSelectedRequestKinds xs =
   js_set_of (filter (\<lambda>v. v \<noteq> []) (map normalizeRequestKindSelectionKey xs))"
proof -
  let ?step = "\<lambda>(normalized, seen) raw. let value = normalizeRequestKindSelectionKey raw in
         if value = [] \<or> value \<in> set seen then (normalized, seen)
         else (normalized @ [value], js_set_add value seen)"
  have "foldl ?step (s, s) xs =
    (let r = foldl (\<lambda>s x. js_set_add x s) s
       (filter (\<lambda>v. v \<noteq> []) (map normalizeRequestKindSelectionKey xs)) in (r, r))" for s
    by (induction xs arbitrary: s) (auto simp: Let_def js_set_add_def)
  from this [of "[]"] show ?thesis
    by (simp add: uniqueSelectedRequestKinds_def js_set_of_def Let_def)
qed

lemma set_uniqueSelected [simp]:
  "set (uniqueSelectedRequestKinds xs) = normalizeRequestKindSelectionKey ` set xs - {[]}"
  by (auto simp: uniqueSelectedRequestKinds_eq)

lemma distinct_uniqueSelected [simp]: "distinct (uniqueSelectedRequestKinds xs)"
  by (simp add: uniqueSelectedRequestKinds_eq)

lemma uniqueSelected_normal:
  assumes "distinct xs" and "\<And>x. x \<in> set xs \<Longrightarrow> x \<noteq> [] \<and> normalizeRequestKindSelectionKey x = x"
  shows "uniqueSelectedRequestKinds xs = xs"
proof -
  from assms(2) have "map normalizeRequestKindSelectionKey xs = xs" by (simp add: map_idI)
  moreover from assms(2) have "filter (\<lambda>v. v \<noteq> []) xs = xs" by (intro filter_True) auto
  ultimately show ?thesis using assms(1) by (simp add: uniqueSelectedRequestKinds_eq js_set_of_distinct)
qed

lemma uniqueSelected_idem [simp]:
  "uniqueSelectedRequestKinds (uniqueSelectedRequestKinds xs) = uniqueSelectedRequestKinds xs"
  by (rule uniqueSelected_normal) auto

lemma requestKindSelectionsMatch_iff:
  "requestKindSelectionsMatch l r \<longleftrightarrow> set (uniqueSelectedRequestKinds l) = set (uniqueSelectedRequestKinds r)"
proof -
  let ?l = "uniqueSelectedRequestKinds l" and ?r = "uniqueSelectedRequestKinds r"
  have "length ?l = length ?r \<and> set ?l \<subseteq> set ?r \<longleftrightarrow> set ?l = set ?r"
    using card_subset_eq [of "set ?r" "set ?l"] distinct_card [of ?l] distinct_card [of ?r]
    by (metis List.finite_set distinct_uniqueSelected order_refl)
  then show ?thesis
    by (auto simp: requestKindSelectionsMatch_def Let_def list_all_iff simp del: set_uniqueSelected)
qed

lemma toggle_unique: "uniqueSelectedRequestKinds (toggleRequestKindSelection sel k) = toggleRequestKindSelection sel k"
  by (rule uniqueSelected_normal) (auto simp: toggleRequestKindSelection_def Let_def split: if_splits)

lemma set_toggle:
  "set (toggleRequestKindSelection sel k) =
   (let key = normalizeRequestKindSelectionKey k; S = set (uniqueSelectedRequestKinds sel) in
    if key = [] then S else if key \<in> S then S - {key} else insert key S)"
  by (auto simp: toggleRequestKindSelection_def Let_def simp del: set_uniqueSelected)

section \<open>Sorting and catalogues\<close>

lemma sortRequestKindOptions_lex: "sortRequestKindOptions lc = cmp_lex lc opt_label opt_key"
  by (simp add: sortRequestKindOptions_def cmp_lex_def fun_eq_iff)

interpretation kinds_by_code_point: keyed_comparator cmp_code_points opt_label opt_key
  by unfold_locales

lemma sorted_request_kinds:
  assumes "comparator lc"
  shows "sorted_wrt (\<lambda>x y. sortRequestKindOptions lc x y \<le> 0) (js_sort (sortRequestKindOptions lc) xs)"
proof -
  from assms have "keyed_comparator lc" by (simp add: keyed_comparator_def)
  then show ?thesis unfolding sortRequestKindOptions_lex by (rule keyed_comparator.sorted_lex_sort)
qed

definition catalog_entries :: "TokenLogRequestKindOption list \<Rightarrow> (string \<times> TokenLogRequestKindOption) list" where
  "catalog_entries options =
     map (\<lambda>option. (js_trim (opt_key option), option)) (filter (\<lambda>option. js_trim (opt_key option) \<noteq> []) options)"

lemma catalog_fold:
  "foldl (\<lambda>byKey option. let key = js_trim (opt_key option) in
      if key = [] then byKey else js_map_set key option byKey) m options = jm.update_all (catalog_entries options) m"
  by (induction options arbitrary: m) (auto simp: catalog_entries_def jm.update_all_def Let_def)

lemma distinct_canonical_keys: "distinct (map fst canonicalTokenLogRequestKindOptionsByKey)"
  unfolding canonicalTokenLogRequestKindOptionsByKey_def js_map_of_update_all
  by (rule jm.distinct_keys_update_all) simp

lemma set_mergeRequestKindCatalog:
  "set (mergeRequestKindCatalog lc options) =
   ran (map_of canonicalTokenLogRequestKindOptionsByKey ++ map_of (rev (catalog_entries options)))"
proof -
  let ?m = "jm.update_all (catalog_entries options) canonicalTokenLogRequestKindOptionsByKey"
  have "distinct (map fst ?m)" by (rule jm.distinct_keys_update_all) (rule distinct_canonical_keys)
  then have "set (map snd ?m) = ran (map_of ?m)" by (simp add: ran_distinct)
  then show ?thesis by (simp add: mergeRequestKindCatalog_def catalog_fold jm.lookup_update_all)
qed

section \<open>Quick filters\<close>

lemma filter_singleton_iff:
  "distinct xs \<Longrightarrow> filter P xs = [m] \<longleftrightarrow> m \<in> set xs \<and> P m \<and> (\<forall>x \<in> set xs. P x \<longrightarrow> x = m)"
  by (induction xs) (auto simp: filter_empty_conv)

lemma distinct_candidates: "distinct quick_filter_candidates"
  by (simp add: quick_filter_candidates_def)

lemma candidates_iff: "f \<in> set quick_filter_candidates \<longleftrightarrow> hasActiveRequestKindQuickFilters f"
  by (cases f; rename_tac b p; case_tac b; case_tac p)
    (simp_all add: quick_filter_candidates_def hasActiveRequestKindQuickFilters_def)

lemma match_unique_left [simp]:
  "requestKindSelectionsMatch (uniqueSelectedRequestKinds l) r = requestKindSelectionsMatch l r"
  by (simp add: requestKindSelectionsMatch_iff del: set_uniqueSelected)

lemma derive_iff:
  assumes "hasActiveRequestKindQuickFilters f"
  shows "deriveRequestKindQuickFilters selected options = f \<longleftrightarrow>
    uniqueSelectedRequestKinds selected \<noteq> [] \<and>
    requestKindSelectionsMatch selected (buildRequestKindQuickFilterSelection options f) \<and>
    (\<forall>g. hasActiveRequestKindQuickFilters g \<longrightarrow>
       requestKindSelectionsMatch selected (buildRequestKindQuickFilterSelection options g) \<longrightarrow> g = f)"
proof -
  let ?P = "\<lambda>c. requestKindSelectionsMatch selected (buildRequestKindQuickFilterSelection options c)"
  from assms have ne: "f \<noteq> defaultTokenLogRequestKindQuickFilters"
    by (auto simp: hasActiveRequestKindQuickFilters_def defaultTokenLogRequestKindQuickFilters_def)
  have "(case filter ?P quick_filter_candidates of [m] \<Rightarrow> m | _ \<Rightarrow> defaultTokenLogRequestKindQuickFilters) = f \<longleftrightarrow>
      filter ?P quick_filter_candidates = [f]"
    using ne by (auto split: list.split)
  also have "\<dots> \<longleftrightarrow> ?P f \<and> (\<forall>g. hasActiveRequestKindQuickFilters g \<longrightarrow> ?P g \<longrightarrow> g = f)"
    using assms by (auto simp: filter_singleton_iff distinct_candidates candidates_iff)
  finally have main: "(case filter ?P quick_filter_candidates of [m] \<Rightarrow> m
      | _ \<Rightarrow> defaultTokenLogRequestKindQuickFilters) = f \<longleftrightarrow>
    ?P f \<and> (\<forall>g. hasActiveRequestKindQuickFilters g \<longrightarrow> ?P g \<longrightarrow> g = f)" .
  show ?thesis
  proof (cases "uniqueSelectedRequestKinds selected = []")
    case True
    with ne show ?thesis by (simp add: deriveRequestKindQuickFilters_def)
  next
    case False
    then have "deriveRequestKindQuickFilters selected options =
      (case filter ?P quick_filter_candidates of [m] \<Rightarrow> m | _ \<Rightarrow> defaultTokenLogRequestKindQuickFilters)"
      by (simp add: deriveRequestKindQuickFilters_def Let_def)
    with main False show ?thesis by (simp only: simp_thms)
  qed
qed

lemma canonical_keys_normal:
  assumes "k \<in> opt_key ` set canonicalTokenLogRequestKindOptions"
  shows "k \<noteq> [] \<and> normalizeRequestKindSelectionKey k = k"
proof -
  have "list_all (\<lambda>k. k \<noteq> [] \<and> js_trim k = k) (map opt_key canonicalTokenLogRequestKindOptions)" by code_simp
  with assms have "k \<noteq> []" "js_trim k = k" by (auto simp: list_all_iff)
  with assms show ?thesis by (simp add: normalize_canonical is_canonical_key_iff)
qed

lemma distinct_canonical: "distinct (map opt_key canonicalTokenLogRequestKindOptions)"
  by (simp add: canonicalTokenLogRequestKindOptions_def kind_option_def)

definition canonical_selection :: "TokenLogRequestKindQuickFilters \<Rightarrow> string list" where
  "canonical_selection f = map opt_key
     (filter (\<lambda>option. billing_matches (billing f) (billing_group option) \<and>
        protocol_matches (protocol f) (protocol_group option)) canonicalTokenLogRequestKindOptions)"

lemma build_canonical:
  assumes "hasActiveRequestKindQuickFilters f"
  shows "buildRequestKindQuickFilterSelection canonicalTokenLogRequestKindOptions f = canonical_selection f"
    and "uniqueSelectedRequestKinds (canonical_selection f) = canonical_selection f"
proof -
  have "distinct (canonical_selection f)"
    unfolding canonical_selection_def using distinct_canonical by (rule distinct_map_filter)
  moreover have "x \<noteq> [] \<and> normalizeRequestKindSelectionKey x = x" if "x \<in> set (canonical_selection f)" for x
    using that by (intro canonical_keys_normal) (auto simp: canonical_selection_def)
  ultimately show u: "uniqueSelectedRequestKinds (canonical_selection f) = canonical_selection f"
    by (rule uniqueSelected_normal)
  show "buildRequestKindQuickFilterSelection canonicalTokenLogRequestKindOptions f = canonical_selection f"
    using assms u by (simp add: buildRequestKindQuickFilterSelection_def canonical_selection_def)
qed

lemma filtered_key_mem:
  assumes "distinct (map key xs)" "a \<in> set xs"
  shows "key a \<in> set (map key (filter P xs)) \<longleftrightarrow> P a"
  using assms by (auto simp: distinct_map inj_on_def)

lemma canonical_selection_mem:
  assumes "o1 \<in> set canonicalTokenLogRequestKindOptions"
  shows "opt_key o1 \<in> set (canonical_selection f) \<longleftrightarrow>
    billing_matches (billing f) (billing_group o1) \<and> protocol_matches (protocol f) (protocol_group o1)"
  unfolding canonical_selection_def by (rule filtered_key_mem [OF distinct_canonical assms])

text \<open>Four keys, one of each billing and protocol group, tell the active filters apart.\<close>

lemma canonical_probes:
  "''api:search'' \<in> set (canonical_selection f) \<longleftrightarrow> billing_matches (billing f) BG_billable \<and> protocol_matches (protocol f) PG_api"
  "''api:usage'' \<in> set (canonical_selection f) \<longleftrightarrow> billing_matches (billing f) BG_non_billable \<and> protocol_matches (protocol f) PG_api"
  "''mcp:search'' \<in> set (canonical_selection f) \<longleftrightarrow> billing_matches (billing f) BG_billable \<and> protocol_matches (protocol f) PG_mcp"
  "''mcp:ping'' \<in> set (canonical_selection f) \<longleftrightarrow> billing_matches (billing f) BG_non_billable \<and> protocol_matches (protocol f) PG_mcp"
proof -
  let ?c = canonicalTokenLogRequestKindOptions
  have len: "length ?c = 25" by (simp add: canonicalTokenLogRequestKindOptions_def)
  have nth: "?c ! 5 = kind_option ''api:search'' ''API | search'' PG_api BG_billable"
    "?c ! 7 = kind_option ''api:usage'' ''API | usage'' PG_api BG_non_billable"
    "?c ! 19 = kind_option ''mcp:search'' ''MCP | search'' PG_mcp BG_billable"
    "?c ! 14 = kind_option ''mcp:ping'' ''MCP | ping'' PG_mcp BG_non_billable"
    by (simp_all add: canonicalTokenLogRequestKindOptions_def)
  have "?c ! 5 \<in> set ?c" "?c ! 7 \<in> set ?c" "?c ! 19 \<in> set ?c" "?c ! 14 \<in> set ?c"
    by (simp_all add: len)
  note mem = this [THEN canonical_selection_mem, of f, unfolded nth]
  show "''api:search'' \<in> set (canonical_selection f) \<longleftrightarrow> billing_matches (billing f) BG_billable \<and> protocol_matches (protocol f) PG_api"
    "''api:usage'' \<in> set (canonical_selection f) \<longleftrightarrow> billing_matches (billing f) BG_non_billable \<and> protocol_matches (protocol f) PG_api"
    "''mcp:search'' \<in> set (canonical_selection f) \<longleftrightarrow> billing_matches (billing f) BG_billable \<and> protocol_matches (protocol f) PG_mcp"
    "''mcp:ping'' \<in> set (canonical_selection f) \<longleftrightarrow> billing_matches (billing f) BG_non_billable \<and> protocol_matches (protocol f) PG_mcp"
    using mem by (simp_all add: kind_option_def)
qed

lemma canonical_selection_nonempty: "canonical_selection f \<noteq> []"
proof -
  have "\<exists>k. k \<in> set (canonical_selection f)"
    by (cases "billing f"; cases "protocol f") (use canonical_probes [of f] in \<open>auto simp: billing_matches_def protocol_matches_def\<close>)
  then show ?thesis by auto
qed

lemma canonical_selection_eqD:
  assumes "set (canonical_selection f) = set (canonical_selection g)"
  shows "f = g"
proof -
  note probes = canonical_probes [of f, unfolded assms canonical_probes]
  then have "billing f = billing g \<and> protocol f = protocol g"
    by (cases "billing f"; cases "billing g"; cases "protocol f"; cases "protocol g";
        simp add: billing_matches_def protocol_matches_def)
  then show ?thesis by simp
qed

section \<open>The URL of a log page\<close>

lemma token_logs_url:
  "url_pathname (buildTokenLogsPagePath i) = ''/api/tokens/'' @ encodeURIComponent (lp_tokenId i) @ ''/logs/page''"
  "usp_parse (url_search (buildTokenLogsPagePath i)) = token_logs_params i"
proof -
  let ?path = "''/api/tokens/'' @ encodeURIComponent (lp_tokenId i) @ ''/logs/page''"
  have "token_logs_params i \<noteq> []"
    by (auto simp: token_logs_params_def Let_def usp_append_fold split: option.split)
  then have url: "buildTokenLogsPagePath i = with_search ?path (token_logs_params i)"
    by (simp add: buildTokenLogsPagePath_def with_search_def)
  have q: "CHR ''?'' \<notin> set ?path" using encode_no_query by simp
  show "url_pathname (buildTokenLogsPagePath i) = ?path" "usp_parse (url_search (buildTokenLogsPagePath i)) = token_logs_params i"
    unfolding url using q by (rule url_pathname_with_search, rule usp_parse_search)
qed

lemma token_logs_params_get:
  "usp_get (token_logs_params i) ''page'' = Some (int_to_string (lp_page i))"
  "usp_get (token_logs_params i) ''per_page'' = Some (int_to_string (lp_perPage i))"
  "usp_get (token_logs_params i) ''since'' = Some (lp_sinceIso i)"
  "usp_get (token_logs_params i) ''until'' = Some (lp_untilIso i)"
  "usp_get (token_logs_params i) ''operational_class'' = map_option class_str (lp_operationalClass i)"
  by (simp_all add: token_logs_params_def Let_def usp_append_fold usp_get_def map_of_usp_set map_add_def
      map_of_constant_keys split: option.split)

lemma token_logs_params_kinds:
  "usp_get_all (token_logs_params i) ''request_kind'' =
     (if uniqueSelectedRequestKinds (lp_requestKinds i) = [] \<and> lp_forceEmptyMatch i
      then [tokenLogRequestKindEmptySelectionKey] else uniqueSelectedRequestKinds (lp_requestKinds i))"
  by (simp add: token_logs_params_def Let_def usp_append_fold usp_get_all_constant usp_set_new
      split: option.split)

section \<open>Properties\<close>

text \<open>A normalised selection.  It has no duplicates, holds exactly the normal forms of the given keys other
  than the empty one, and normalising again changes nothing.\<close>

lemma uniqueSelectedRequestKinds_correct:
  "distinct (uniqueSelectedRequestKinds xs) \<and>
   set (uniqueSelectedRequestKinds xs) = normalizeRequestKindSelectionKey ` set xs - {[]} \<and>
   uniqueSelectedRequestKinds (uniqueSelectedRequestKinds xs) = uniqueSelectedRequestKinds xs"
  by simp

text \<open>Two selections match exactly when their normal forms are the same set.\<close>

lemma requestKindSelectionsMatch_correct:
  "requestKindSelectionsMatch l r \<longleftrightarrow>
   normalizeRequestKindSelectionKey ` set l - {[]} = normalizeRequestKindSelectionKey ` set r - {[]}"
  by (simp add: requestKindSelectionsMatch_iff)

text \<open>Toggling a key twice gives back a matching selection, and toggling once changes the membership of
  exactly that key.\<close>

lemma toggleRequestKindSelection_involution:
  "requestKindSelectionsMatch (toggleRequestKindSelection (toggleRequestKindSelection sel k) k) sel \<and>
   (normalizeRequestKindSelectionKey k \<noteq> [] \<longrightarrow>
      (x \<in> set (toggleRequestKindSelection sel k) \<longleftrightarrow>
        (x \<in> set (uniqueSelectedRequestKinds sel)) \<noteq> (x = normalizeRequestKindSelectionKey k)))"
proof
  let ?t = "toggleRequestKindSelection sel k"
  have "set (toggleRequestKindSelection ?t k) = set (uniqueSelectedRequestKinds sel)"
    unfolding set_toggle [of ?t] toggle_unique set_toggle [of sel] by (auto simp: Let_def)
  then show "requestKindSelectionsMatch (toggleRequestKindSelection ?t k) sel"
    by (simp add: requestKindSelectionsMatch_iff toggle_unique del: set_uniqueSelected)
  show "normalizeRequestKindSelectionKey k \<noteq> [] \<longrightarrow>
      (x \<in> set ?t \<longleftrightarrow> (x \<in> set (uniqueSelectedRequestKinds sel)) \<noteq> (x = normalizeRequestKindSelectionKey k))"
    unfolding set_toggle by (auto simp: Let_def simp del: set_uniqueSelected)
qed

text \<open>Deriving quick filters.  An active pair of filters is derived from a selection exactly when the
  selection is not empty, matches what the filters select, and matches no other active pair.\<close>

lemma deriveRequestKindQuickFilters_iff:
  assumes "hasActiveRequestKindQuickFilters f"
  shows "deriveRequestKindQuickFilters selected options = f \<longleftrightarrow>
    uniqueSelectedRequestKinds selected \<noteq> [] \<and>
    requestKindSelectionsMatch selected (buildRequestKindQuickFilterSelection options f) \<and>
    (\<forall>g. hasActiveRequestKindQuickFilters g \<longrightarrow>
       requestKindSelectionsMatch selected (buildRequestKindQuickFilterSelection options g) \<longrightarrow> g = f)"
  using assms by (rule derive_iff)

text \<open>On the canonical catalogue, deriving is the inverse of expanding: for every pair of quick filters,
  the filters derived from its selection are the pair itself.\<close>

lemma quick_filters_roundtrip_canonical:
  "deriveRequestKindQuickFilters
     (buildRequestKindQuickFilterSelection canonicalTokenLogRequestKindOptions f)
     canonicalTokenLogRequestKindOptions = f"
proof (cases "hasActiveRequestKindQuickFilters f")
  case True
  note ne = canonical_selection_nonempty [of f]
  have "g = f" if "hasActiveRequestKindQuickFilters g" "requestKindSelectionsMatch (canonical_selection f)
      (buildRequestKindQuickFilterSelection canonicalTokenLogRequestKindOptions g)" for g
    using that True canonical_selection_eqD [of f g]
    by (simp add: requestKindSelectionsMatch_iff build_canonical del: set_uniqueSelected)
  with True ne show ?thesis
    by (subst derive_iff) (simp_all add: build_canonical requestKindSelectionsMatch_iff del: set_uniqueSelected)
next
  case False
  then have "f = defaultTokenLogRequestKindQuickFilters"
    by (simp add: hasActiveRequestKindQuickFilters_def defaultTokenLogRequestKindQuickFilters_def)
  moreover have "uniqueSelectedRequestKinds [] = []" by code_simp
  ultimately show ?thesis
    using False by (simp add: buildRequestKindQuickFilterSelection_def deriveRequestKindQuickFilters_def)
qed

text \<open>A refresh of the options settles at once: resolving again with the effective selection and empty-match
  flag it returned reports no change, and an empty match has an empty effective selection.\<close>

lemma resolveRequestKindOptionsRefresh_settles:
  fixes options selected filters current currentEmpty
  defines "r \<equiv> resolveRequestKindOptionsRefresh options selected filters current currentEmpty"
  shows "\<not> selectionChanged (resolveRequestKindOptionsRefresh options selected filters
      (effectiveSelection r) (hasEmptyMatch r)) \<and>
    (hasEmptyMatch r \<longrightarrow> effectiveSelection r = [])"
proof -
  have "uniqueSelectedRequestKinds [] = []" by code_simp
  then show ?thesis
    by (simp add: r_def resolveRequestKindOptionsRefresh_def resolveEffectiveRequestKindSelection_def Let_def
        requestKindSelectionsMatch_iff)
qed

theorem resolveRequestKindOptionsRefresh_settles_witness:
  "effectiveSelection (resolveRequestKindOptionsRefresh [] [''api:search'']
     \<lparr>billing = QB_billable, protocol = QP_all\<rparr> [] False) = []"
proof -
  let ?r = "resolveRequestKindOptionsRefresh [] [''api:search''] \<lparr>billing = QB_billable, protocol = QP_all\<rparr> [] False"
  have "hasEmptyMatch ?r" by code_simp
  then show ?thesis using resolveRequestKindOptionsRefresh_settles by blast
qed

text \<open>The merged catalogue is sorted by label and then key, and holds exactly the entries of the canonical
  catalogue with those of the options put over them by trimmed key, a later option winning.\<close>

lemma mergeRequestKindCatalog_correct:
  assumes "comparator lc"
  shows "sorted_wrt (\<lambda>x y. sortRequestKindOptions lc x y \<le> 0) (mergeRequestKindCatalog lc options) \<and>
    set (mergeRequestKindCatalog lc options) =
      ran (map_of canonicalTokenLogRequestKindOptionsByKey ++ map_of (rev (catalog_entries options)))"
  using sorted_request_kinds [OF assms] set_mergeRequestKindCatalog
  by (simp add: mergeRequestKindCatalog_def)

text \<open>The URL of a log page.  Its path names the token, and the query read back holds the page, the page
  size, the period, the operational class when one is chosen, and the normalised request kinds; when a quick filter
  matches no kind, the sentinel key is sent instead of an empty list, which would mean no filter.\<close>

lemma buildTokenLogsPagePath_correct:
  fixes i :: TokenLogsPagePathInput
  defines "url \<equiv> buildTokenLogsPagePath i" and "kinds \<equiv> uniqueSelectedRequestKinds (lp_requestKinds i)"
  shows "url_pathname url = ''/api/tokens/'' @ encodeURIComponent (lp_tokenId i) @ ''/logs/page'' \<and>
    usp_get (usp_parse (url_search url)) ''page'' = Some (int_to_string (lp_page i)) \<and>
    usp_get (usp_parse (url_search url)) ''per_page'' = Some (int_to_string (lp_perPage i)) \<and>
    usp_get (usp_parse (url_search url)) ''since'' = Some (lp_sinceIso i) \<and>
    usp_get (usp_parse (url_search url)) ''until'' = Some (lp_untilIso i) \<and>
    usp_get (usp_parse (url_search url)) ''operational_class'' = map_option class_str (lp_operationalClass i) \<and>
    usp_get_all (usp_parse (url_search url)) ''request_kind'' =
      (if kinds = [] \<and> lp_forceEmptyMatch i then [tokenLogRequestKindEmptySelectionKey] else kinds)"
  unfolding url_def kinds_def by (simp add: token_logs_url token_logs_params_get token_logs_params_kinds)

end
