(* ===== verification/JS_Number.thy ===== *)
theory JS_Number
  imports JS_Collections
begin

text \<open>
  Numbers as texts: the rounding of an exact value to the nearest double, \<open>String(x)\<close> and
  \<open>Number(s)\<close>.  A finite number is its exact rational value; negative zero is identified with zero, which
  none of the modelled operations tells apart.
\<close>

section \<open>Rounding to a double\<close>

function num_digits :: "int \<Rightarrow> int \<Rightarrow> int" where
  "num_digits base n = (if base < 2 \<or> n \<le> 0 then 0 else 1 + num_digits base (n div base))"
  by pat_completeness auto
termination
proof (relation "measure (\<lambda>(base, n). nat n)", goal_cases)
  case (2 base n)
  then show ?case by (simp add: int_div_less_self)
qed simp

declare num_digits.simps [simp del]

definition pow_int :: "nat \<Rightarrow> int \<Rightarrow> rat" where
  "pow_int b e = (if 0 \<le> e then of_nat b ^ nat e else 1 / of_nat b ^ nat (- e))"

text \<open>The integer part of the logarithm of a positive number.\<close>

definition ilog :: "nat \<Rightarrow> rat \<Rightarrow> int" where
  "ilog b r = (case quotient_of r of (p, q) \<Rightarrow>
     let e = num_digits (int b) p - num_digits (int b) q
     in if pow_int b e \<le> r then e else e - 1)"

definition round_even :: "rat \<Rightarrow> int" where
  "round_even r = (let f = \<lfloor>r\<rfloor>; d = r - of_int f in
     if d < 1 / 2 then f else if 1 / 2 < d then f + 1 else if even f then f else f + 1)"

definition round_double :: "rat \<Rightarrow> jsnum" where
  "round_double r = (if r = 0 then Fin 0 else
     let e = max (ilog 2 \<bar>r\<bar>) (- 1022);
         ulp = pow_int 2 (e - 52);
         v = of_int (round_even (\<bar>r\<bar> / ulp)) * ulp
     in if 2 ^ 1024 \<le> v then (if r < 0 then NegInf else PosInf)
        else Fin (if r < 0 then - v else v))"

section \<open>Number to string\<close>

text \<open>The shortest decimal that rounds to \<open>v\<close>: its digits and the position of the point.\<close>

definition shortest_digits :: "rat \<Rightarrow> string \<times> int" where
  "shortest_digits v =
     (let n = ilog 10 v + 1;
          cand = (\<lambda>k :: nat. round_even (v / pow_int 10 (n - int k)));
          k = nullish (find (\<lambda>k. round_double (of_int (cand k) * pow_int 10 (n - int k)) = Fin v) [1..<18]) 17
      in if cand k = 10 ^ k then (''1'', n + 1) else (nat_to_string (nat (cand k)), n))"

definition decimal_layout :: "string \<Rightarrow> int \<Rightarrow> string" where
  "decimal_layout ds n = (let k = int (length ds) in
     if k \<le> n \<and> n \<le> 21 then ds @ replicate (nat (n - k)) CHR ''0''
     else if 0 < n \<and> n \<le> 21 then take (nat n) ds @ ''.'' @ drop (nat n) ds
     else if - 6 < n \<and> n \<le> 0 then ''0.'' @ replicate (nat (- n)) CHR ''0'' @ ds
     else take 1 ds @ (if k = 1 then [] else ''.'' @ drop 1 ds) @ ''e'' @
       (if n - 1 < 0 then ''-'' else ''+'') @ nat_to_string (nat \<bar>n - 1\<bar>))"

definition rat_to_string :: "rat \<Rightarrow> string" where
  "rat_to_string q =
     (if q = of_int \<lfloor>q\<rfloor> \<and> \<bar>q\<bar> \<le> 2 ^ 53 then int_to_string \<lfloor>q\<rfloor>
      else (if q < 0 then ''-'' else []) @ (case shortest_digits \<bar>q\<bar> of (ds, n) \<Rightarrow> decimal_layout ds n))"

definition num_to_string :: "jsnum \<Rightarrow> string" where
  "num_to_string x = (case x of Fin q \<Rightarrow> rat_to_string q | PosInf \<Rightarrow> ''Infinity''
     | NegInf \<Rightarrow> ''-Infinity'' | NaN \<Rightarrow> ''NaN'')"

section \<open>String to number\<close>

text \<open>The unsigned decimal literal at the start of a text, its exact value and the rest; the flag asks for the
  integer part that JSON requires (digits, without a superfluous leading zero).\<close>

definition scan_exponent :: "string \<Rightarrow> int \<times> string" where
  "scan_exponent s = (case s of [] \<Rightarrow> (0, s) | c # u \<Rightarrow>
     if c \<noteq> CHR ''e'' \<and> c \<noteq> CHR ''E'' then (0, s)
     else let neg = prefix ''-'' u;
              w = (if neg \<or> prefix ''+'' u then drop 1 u else u);
              ds = takeWhile is_digit w
          in if ds = [] then (0, s)
             else (if neg then - int (digits_val ds) else int (digits_val ds), dropWhile is_digit w))"

definition scan_decimal :: "bool \<Rightarrow> string \<Rightarrow> (rat \<times> string) option" where
  "scan_decimal json s =
     (let ip = takeWhile is_digit s; r1 = dropWhile is_digit s;
          fp = (if prefix ''.'' r1 then takeWhile is_digit (drop 1 r1) else []);
          r2 = (if prefix ''.'' r1 \<and> (fp \<noteq> [] \<or> \<not> json) then dropWhile is_digit (drop 1 r1) else r1);
          (ex, r3) = scan_exponent r2
      in if ip = [] \<and> (json \<or> fp = []) \<or> json \<and> 1 < length ip \<and> hd ip = CHR ''0'' then None
         else Some ((of_nat (digits_val ip) + of_nat (digits_val fp) / 10 ^ length fp) * pow_int 10 ex, r3))"

definition radix_digit :: "nat \<Rightarrow> char \<Rightarrow> nat option" where
  "radix_digit b c = (let n = (of_char c :: nat);
       v = (if is_digit c then digit_val c
            else if 65 \<le> n \<and> n \<le> 90 then n - 55 else if 97 \<le> n \<and> n \<le> 122 then n - 87 else b)
     in if v < b then Some v else None)"

definition radix_val :: "nat \<Rightarrow> string \<Rightarrow> nat option" where
  "radix_val b s = (if s = [] \<or> list_ex (\<lambda>c. radix_digit b c = None) s then None
     else Some (foldl (\<lambda>n c. b * n + the (radix_digit b c)) 0 s))"

definition js_number :: "string \<Rightarrow> jsnum" where
  "js_number s = (let t = js_trim s;
       radix = (\<lambda>b. case radix_val b (drop 2 t) of None \<Rightarrow> NaN | Some n \<Rightarrow> round_double (of_nat n));
       neg = prefix ''-'' t;
       u = (if neg \<or> prefix ''+'' t then drop 1 t else t)
     in if t = [] then Fin 0
        else if prefix ''0x'' t \<or> prefix ''0X'' t then radix 16
        else if prefix ''0o'' t \<or> prefix ''0O'' t then radix 8
        else if prefix ''0b'' t \<or> prefix ''0B'' t then radix 2
        else if u = ''Infinity'' then (if neg then NegInf else PosInf)
        else case scan_decimal False u of
            Some (q, []) \<Rightarrow> round_double (if neg then - q else q)
          | _ \<Rightarrow> NaN)"

section \<open>Safe integers\<close>

text \<open>The integers below \<open>2^53\<close>, which a double holds exactly, are printed and read without loss.\<close>

definition safe_int :: "int \<Rightarrow> bool" where
  "safe_int i \<longleftrightarrow> \<bar>i\<bar> < 2 ^ 53"

lemma num_digits_bounds:
  assumes "0 < n"
  shows "0 < num_digits 2 n \<and> 2 ^ nat (num_digits 2 n - 1) \<le> n"
  using assms
proof (induction "2 :: int" n rule: num_digits.induct)
  case (1 n)
  show ?case
  proof (cases "n = 1")
    case True
    then show ?thesis by (simp add: num_digits.simps)
  next
    case False
    with 1 have ih: "0 < num_digits 2 (n div 2)" "2 ^ nat (num_digits 2 (n div 2) - 1) \<le> n div 2" by auto
    have eq: "num_digits 2 n = 1 + num_digits 2 (n div 2)" using 1(2) by (simp add: num_digits.simps [of 2 n])
    have "nat (num_digits 2 n - 1) = Suc (nat (num_digits 2 (n div 2) - 1))" using ih(1) eq by simp
    moreover have "2 * 2 ^ nat (num_digits 2 (n div 2) - 1) \<le> n" using ih(2) by linarith
    ultimately show ?thesis using ih(1) eq by simp
  qed
qed

lemma ilog_of_int:
  assumes "0 < i"
  shows "0 \<le> ilog 2 (of_int i)" and "2 ^ nat (ilog 2 (of_int i)) \<le> i"
proof -
  note b = num_digits_bounds [OF assms]
  have d1: "num_digits 2 1 = 1" by (simp add: num_digits.simps)
  have "(of_int (2 ^ nat (num_digits 2 i - 1)) :: rat) \<le> of_int i" using b of_int_le_iff by blast
  then have "ilog 2 (of_int i) = num_digits 2 i - 1"
    using b by (simp add: ilog_def quotient_of_int pow_int_def d1 Let_def)
  with b show "0 \<le> ilog 2 (of_int i)" "2 ^ nat (ilog 2 (of_int i)) \<le> i" by simp_all
qed

lemma round_even_of_int [simp]: "round_even (of_int i) = i"
  by (simp add: round_even_def)

lemma round_double_safe_pos:
  assumes "0 < i" and "i < 2 ^ 53"
  shows "round_double (of_int i) = Fin (of_int i)" "round_double (- of_int i) = Fin (- of_int i)"
proof -
  let ?e = "ilog 2 (of_int i)"
  have "(2 :: int) ^ nat ?e < 2 ^ 53" using ilog_of_int(2) [OF assms(1)] assms(2) by linarith
  then have "nat ?e < 53" using power_strict_increasing_iff [of "2 :: int" "nat ?e" 53] by simp
  then have e: "?e \<le> 52" by simp
  then have ulp: "pow_int 2 (?e - 52) = 1 / 2 ^ nat (52 - ?e)"
    by (cases "?e = 52") (simp_all add: pow_int_def)
  have "(of_int i :: rat) / pow_int 2 (?e - 52) = of_int (i * 2 ^ nat (52 - ?e))" by (simp add: ulp)
  then have r: "of_int (round_even (of_int i / pow_int 2 (?e - 52))) * pow_int 2 (?e - 52) = (of_int i :: rat)"
    by (simp only: round_even_of_int) (simp add: ulp)
  have "(of_int i :: rat) < of_int (2 ^ 53)" using assms(2) of_int_less_iff by blast
  also have "\<dots> \<le> 2 ^ 1024" by simp
  finally have lt: "\<not> 2 ^ 1024 \<le> (of_int i :: rat)" by simp
  have m: "max ?e (- 1022) = ?e" using ilog_of_int(1) [OF assms(1)] by simp
  have i: "(of_int i :: rat) \<noteq> 0" "\<not> (of_int i :: rat) < 0" "(- of_int i :: rat) < 0" "\<bar>of_int i :: rat\<bar> = of_int i"
    using assms(1) by simp_all
  show "round_double (of_int i) = Fin (of_int i)" "round_double (- of_int i) = Fin (- of_int i)"
    using i lt r by (simp_all only: round_double_def Let_def abs_minus m if_False neg_equal_0_iff_equal abs_minus_cancel if_True)
qed

lemma round_double_safe: "safe_int i \<Longrightarrow> round_double (of_int i) = Fin (of_int i)"
  using round_double_safe_pos [of i] round_double_safe_pos [of "- i"]
  by (cases i "0 :: int" rule: linorder_cases) (auto simp: safe_int_def round_double_def)

lemma num_to_string_safe: "safe_int i \<Longrightarrow> num_to_string (Fin (of_int i)) = int_to_string i"
proof -
  assume "safe_int i"
  then have "(of_int \<bar>i\<bar> :: rat) \<le> of_int (2 ^ 53)" unfolding safe_int_def using of_int_le_iff by (metis less_le)
  then show ?thesis by (simp add: num_to_string_def rat_to_string_def)
qed

end
