(* ===== verification/Json.thy ===== *)
theory Json
  imports JS_Number URI_Codec
begin

text \<open>
  JSON as \<open>JSON.parse\<close> and \<open>JSON.stringify\<close> treat it: values, the parser (a recursive descent with
  fuel), the printer, and the property access the sources apply to parsed values.  The members of an object keep
  the order in which they were written, and a repeated name keeps its last value.  A lone surrogate written
  as an escape becomes the three bytes its number would have.
\<close>

datatype json = JNull | JBool bool | JNum jsnum | JStr string | JArr "json list" | JObj "(string \<times> json) list"

section \<open>Strings\<close>

definition quote_char :: char where
  "quote_char = CHR 0x22"

definition backslash :: char where
  "backslash = CHR 0x5C"

definition json_ws :: "char \<Rightarrow> bool" where
  "json_ws c \<longleftrightarrow> c = CHR 0x20 \<or> c = CHR 0x09 \<or> c = CHR 0x0A \<or> c = CHR 0x0D"

definition skip_ws :: "string \<Rightarrow> string" where
  "skip_ws s = dropWhile json_ws s"

text \<open>The escapes of one letter, as pairs of the letter and the character it stands for.\<close>

definition simple_escapes :: "(char \<times> char) list" where
  "simple_escapes = [(quote_char, quote_char), (backslash, backslash), (CHR ''/'', CHR ''/''),
     (CHR ''b'', CHR 0x08), (CHR ''f'', CHR 0x0C), (CHR ''n'', CHR 0x0A), (CHR ''r'', CHR 0x0D),
     (CHR ''t'', CHR 0x09)]"

definition hex4 :: "string \<Rightarrow> (nat \<times> string) option" where
  "hex4 s = (case map hex_val (take 4 s) of
     [Some a, Some b, Some c, Some d] \<Rightarrow> Some (((a * 16 + b) * 16 + c) * 16 + d, drop 4 s)
   | _ \<Rightarrow> None)"

definition unescape_unicode :: "string \<Rightarrow> (string \<times> string) option" where
  "unescape_unicode s = (case hex4 s of
     None \<Rightarrow> None
   | Some (h, r) \<Rightarrow>
       (case (if 0xD800 \<le> h \<and> h < 0xDC00 \<and> prefix [backslash, CHR ''u''] r then hex4 (drop 2 r) else None) of
          Some (l, r') \<Rightarrow> if 0xDC00 \<le> l \<and> l < 0xE000
            then Some (code_point (0x10000 + (h - 0xD800) * 0x400 + (l - 0xDC00)), r')
            else Some (code_point h, r)
        | None \<Rightarrow> Some (code_point h, r)))"

definition unescape :: "string \<Rightarrow> (string \<times> string) option" where
  "unescape s = (case s of
     [] \<Rightarrow> None
   | e # r \<Rightarrow> if e = CHR ''u'' then unescape_unicode r
       else map_option (\<lambda>c. ([c], r)) (map_of simple_escapes e))"

lemma hex4_length: "hex4 s = Some (n, r) \<Longrightarrow> length r < length s"
  by (cases s) (auto simp: hex4_def split: list.splits option.splits)

lemma unescape_length: "unescape s = Some (t, r) \<Longrightarrow> length r < length s"
  by (auto simp: unescape_def unescape_unicode_def dest!: hex4_length split: list.splits option.splits if_splits)

text \<open>The characters of a string literal after its opening quote, and what follows its closing one.\<close>

function scan_string :: "string \<Rightarrow> (string \<times> string) option" where
  "scan_string s = (case s of
     [] \<Rightarrow> None
   | c # r \<Rightarrow>
       if c = quote_char then Some ([], r)
       else if (of_char c :: nat) < 32 then None
       else if c \<noteq> backslash then map_option (\<lambda>(t, r'). (c # t, r')) (scan_string r)
       else case unescape r of
           None \<Rightarrow> None
         | Some (e, r') \<Rightarrow> map_option (\<lambda>(t, r''). (e @ t, r'')) (scan_string r'))"
  by pat_completeness auto
termination by (relation "measure length") (auto dest: unescape_length)

declare scan_string.simps [simp del]

section \<open>The parser\<close>

definition json_object :: "(string \<times> json) list \<Rightarrow> json" where
  "json_object members = JObj (js_map_of members)"

definition scan_number :: "string \<Rightarrow> (json \<times> string) option" where
  "scan_number s = (let neg = prefix ''-'' s; u = (if neg then drop 1 s else s) in
     case scan_decimal True u of
       None \<Rightarrow> None
     | Some (q, r) \<Rightarrow> Some (JNum (round_double (if neg then - q else q)), r))"

definition scan_literal :: "string \<Rightarrow> (json \<times> string) option" where
  "scan_literal s =
     (if prefix ''null'' s then Some (JNull, drop 4 s)
      else if prefix ''true'' s then Some (JBool True, drop 4 s)
      else if prefix ''false'' s then Some (JBool False, drop 5 s)
      else scan_number s)"

fun parse_value :: "nat \<Rightarrow> string \<Rightarrow> (json \<times> string) option"
and parse_elements :: "nat \<Rightarrow> string \<Rightarrow> (json list \<times> string) option"
and parse_members :: "nat \<Rightarrow> string \<Rightarrow> ((string \<times> json) list \<times> string) option" where
  "parse_value 0 s = None"
| "parse_value (Suc n) s = (case skip_ws s of
     [] \<Rightarrow> None
   | c # r \<Rightarrow>
       if c = quote_char then map_option (\<lambda>(t, r'). (JStr t, r')) (scan_string r)
       else if c = CHR ''['' then
         (if prefix '']'' (skip_ws r) then Some (JArr [], drop 1 (skip_ws r))
          else map_option (\<lambda>(vs, r'). (JArr vs, r')) (parse_elements n r))
       else if c = CHR ''{'' then
         (if prefix ''}'' (skip_ws r) then Some (JObj [], drop 1 (skip_ws r))
          else map_option (\<lambda>(ms, r'). (json_object ms, r')) (parse_members n r))
       else scan_literal (c # r))"
| "parse_elements 0 s = None"
| "parse_elements (Suc n) s = (case parse_value n s of
     None \<Rightarrow> None
   | Some (v, r) \<Rightarrow> (case skip_ws r of
       [] \<Rightarrow> None
     | c # r' \<Rightarrow>
         if c = CHR '']'' then Some ([v], r')
         else if c = CHR '','' then map_option (\<lambda>(vs, r''). (v # vs, r'')) (parse_elements n r')
         else None))"
| "parse_members 0 s = None"
| "parse_members (Suc n) s = (case skip_ws s of
     [] \<Rightarrow> None
   | c # r \<Rightarrow>
       if c \<noteq> quote_char then None
       else (case scan_string r of
           None \<Rightarrow> None
         | Some (k, r1) \<Rightarrow> (case skip_ws r1 of
             [] \<Rightarrow> None
           | d # r2 \<Rightarrow>
               if d \<noteq> CHR '':'' then None
               else (case parse_value n r2 of
                   None \<Rightarrow> None
                 | Some (v, r3) \<Rightarrow> (case skip_ws r3 of
                     [] \<Rightarrow> None
                   | e # r4 \<Rightarrow>
                       if e = CHR ''}'' then Some ([(k, v)], r4)
                       else if e = CHR '','' then map_option (\<lambda>(ms, r5). ((k, v) # ms, r5)) (parse_members n r4)
                       else None)))))"

text \<open>Every two calls consume a character, so twice the length is fuel enough (\<open>parse_value_fuel\<close>
  below).  \<^term>\<open>None\<close> is the \<open>SyntaxError\<close>.\<close>

definition json_parse :: "string \<Rightarrow> json option" where
  "json_parse s = (case parse_value (2 * length s + 1) s of
     Some (v, r) \<Rightarrow> if skip_ws r = [] then Some v else None
   | None \<Rightarrow> None)"

section \<open>The printer\<close>

definition hex_lower :: "nat \<Rightarrow> char" where
  "hex_lower d = (if d < 10 then char_of (48 + d) else char_of (87 + d))"

definition escape_char :: "char \<Rightarrow> string" where
  "escape_char c =
     (if c = quote_char then [backslash, quote_char]
      else if c = backslash then [backslash, backslash]
      else if c = CHR 0x08 then [backslash, CHR ''b'']
      else if c = CHR 0x0C then [backslash, CHR ''f'']
      else if c = CHR 0x0A then [backslash, CHR ''n'']
      else if c = CHR 0x0D then [backslash, CHR ''r'']
      else if c = CHR 0x09 then [backslash, CHR ''t'']
      else if (of_char c :: nat) < 32
        then [backslash, CHR ''u'', CHR ''0'', CHR ''0'', hex_lower (of_char c div 16), hex_lower (of_char c mod 16)]
      else [c])"

definition json_string :: "string \<Rightarrow> string" where
  "json_string s = quote_char # concat (map escape_char s) @ [quote_char]"

definition json_number :: "jsnum \<Rightarrow> string" where
  "json_number x = (if is_finite x then num_to_string x else ''null'')"

fun json_stringify :: "json \<Rightarrow> string" where
  "json_stringify JNull = ''null''"
| "json_stringify (JBool b) = (if b then ''true'' else ''false'')"
| "json_stringify (JNum x) = json_number x"
| "json_stringify (JStr s) = json_string s"
| "json_stringify (JArr vs) = ''['' @ js_join '','' (map json_stringify vs) @ '']''"
| "json_stringify (JObj ms) = ''{'' @ js_join '','' (map (\<lambda>(k, v). json_string k @ '':'' @ json_stringify v) ms) @ ''}''"

section \<open>Property access\<close>

text \<open>\<open>asRecord\<close>, which the sources apply before reading a property: objects and arrays pass.  \<open>jprop\<close> is the
  read itself on what passed: a member of an object, an element or the length of an array; \<^term>\<open>None\<close> is
  \<open>undefined\<close>.\<close>

definition js_index :: "string \<Rightarrow> nat option" where
  "js_index k = (if k \<noteq> [] \<and> list_all is_digit k \<and> nat_to_string (digits_val k) = k then Some (digits_val k) else None)"

definition jprop :: "json \<Rightarrow> string \<Rightarrow> json option" where
  "jprop j k = (case j of
     JObj ms \<Rightarrow> map_of ms k
   | JArr vs \<Rightarrow> if k = ''length'' then Some (JNum (num_of_int (int (length vs))))
       else (case js_index k of Some i \<Rightarrow> if i < length vs then Some (vs ! i) else None | None \<Rightarrow> None)
   | _ \<Rightarrow> None)"

definition is_record :: "json \<Rightarrow> bool" where
  "is_record j = (case j of JObj _ \<Rightarrow> True | JArr _ \<Rightarrow> True | _ \<Rightarrow> False)"

definition as_string :: "json option \<Rightarrow> string option" where
  "as_string j = (case j of Some (JStr s) \<Rightarrow> Some s | _ \<Rightarrow> None)"

definition as_array :: "json option \<Rightarrow> json list" where
  "as_array j = (case j of Some (JArr vs) \<Rightarrow> vs | _ \<Rightarrow> [])"

text \<open>Truthiness of a value that may be \<open>undefined\<close>.\<close>

definition truthy :: "json option \<Rightarrow> bool" where
  "truthy j = (case j of
     None \<Rightarrow> False
   | Some JNull \<Rightarrow> False
   | Some (JBool b) \<Rightarrow> b
   | Some (JNum x) \<Rightarrow> x \<noteq> Fin 0 \<and> x \<noteq> NaN
   | Some (JStr s) \<Rightarrow> s \<noteq> []
   | Some (JArr _) \<Rightarrow> True
   | Some (JObj _) \<Rightarrow> True)"

section \<open>Fuel\<close>

lemma skip_ws_length: "length (skip_ws s) \<le> length s"
  by (simp add: skip_ws_def length_dropWhile_le)

lemma skip_ws_Cons_length: "skip_ws s = c # r \<Longrightarrow> length r < length s"
  using skip_ws_length [of s] by simp

lemma skip_ws_drop_length: "skip_ws r = c # u \<Longrightarrow> length (drop 1 (skip_ws r)) < length r"
  using skip_ws_Cons_length by simp

lemma scan_string_length: "scan_string s = Some (t, r) \<Longrightarrow> length r < length s"
proof (induction s arbitrary: t r rule: scan_string.induct)
  case (1 s)
  show ?case
  proof (cases s)
    case Nil
    with "1.prems" show ?thesis by (simp add: scan_string.simps)
  next
    case (Cons c u)
    show ?thesis
    proof (cases "c = backslash \<and> c \<noteq> quote_char \<and> \<not> (of_char c :: nat) < 32")
      case True
      with Cons "1.prems" obtain e r' t' where u: "unescape u = Some (e, r')" and r: "scan_string r' = Some (t', r)"
        by (auto simp: scan_string.simps [of "_ # _"] split: option.splits)
      from "1.IH"(2) [OF Cons] True u r have "length r < length r'" by auto
      with unescape_length [OF u] Cons show ?thesis by simp
    next
      case False
      with Cons "1.prems" "1.IH"(1) [OF Cons] show ?thesis
        by (auto simp: scan_string.simps [of "_ # _"] less_SucI split: if_splits)
    qed
  qed
qed

lemma dropWhile_drop_length: "length (dropWhile P (drop n s)) \<le> length s"
  using length_dropWhile_le [of P "drop n s"] by simp

lemma scan_exponent_length: "scan_exponent s = (e, r) \<Longrightarrow> length r \<le> length s"
  using dropWhile_drop_length [of is_digit 1] length_dropWhile_le [of is_digit]
  by (auto simp: scan_exponent_def Let_def le_SucI split: list.splits if_splits)

lemma scan_decimal_length:
  assumes "scan_decimal True s = Some (q, r)"
  shows "length r < length s"
proof -
  let ?r1 = "dropWhile is_digit s"
  define r2 where "r2 = (if prefix ''.'' ?r1 \<and> takeWhile is_digit (drop 1 ?r1) \<noteq> [] then dropWhile is_digit (drop 1 ?r1) else ?r1)"
  have len: "length r2 \<le> length ?r1"
    using dropWhile_drop_length [of is_digit 1 ?r1] by (auto simp: r2_def)
  obtain ex r3 where sc: "scan_exponent r2 = (ex, r3)" by fastforce
  with assms have ip: "takeWhile is_digit s \<noteq> []" and r: "r = r3"
    by (auto simp: scan_decimal_def Let_def r2_def split: if_splits prod.splits)
  from ip have "length ?r1 < length s"
    using takeWhile_dropWhile_id [of is_digit s] by (metis length_append less_add_same_cancel2 length_greater_0_conv)
  with len scan_exponent_length [OF sc] show ?thesis unfolding r by linarith
qed

lemma scan_literal_length: "scan_literal s = Some (v, r) \<Longrightarrow> length r < length s"
  using scan_decimal_length [of s _ r] scan_decimal_length [of "drop 1 s" _ r]
  by (auto simp: scan_literal_def scan_number_def Let_def prefix_def split: if_splits option.splits)

lemma parse_length:
  "parse_value n s = Some (v, r) \<Longrightarrow> length r < length s"
  "parse_elements n s = Some (vs, r) \<Longrightarrow> length r < length s"
  "parse_members n s = Some (ms, r) \<Longrightarrow> length r < length s"
proof (induction n arbitrary: s v r vs ms)
  case 0
  { case 1 then show ?case by simp }
  { case 2 then show ?case by simp }
  { case 3 then show ?case by simp }
next
  case (Suc n)
  {
    case 1
    then obtain c u where u: "skip_ws s = c # u" by (auto split: list.splits)
    have "length r < length (c # u)"
      using 1 u skip_ws_length [of u] scan_string_length [of u _ r] scan_literal_length [of "c # u" v r]
        Suc.IH(2) [of u _ r] Suc.IH(3) [of u _ r]
      by (auto split: if_splits simp: less_SucI le_imp_less_Suc)
    then show ?case using u skip_ws_length [of s] by simp
  next
    case 2
    then obtain v' u c w where v: "parse_value n s = Some (v', u)" and w: "skip_ws u = c # w"
      by (auto split: option.splits list.splits)
    have "length r \<le> length w" using 2 v w Suc.IH(2) [of w _ r] by (auto split: if_splits)
    then show ?case using Suc.IH(1) [OF v] skip_ws_Cons_length [OF w] by simp
  next
    case 3
    then obtain c u k r1 d r2 v' r3 e r4 where st: "skip_ws s = c # u" "scan_string u = Some (k, r1)"
        "skip_ws r1 = d # r2" "parse_value n r2 = Some (v', r3)" "skip_ws r3 = e # r4"
      by (auto split: option.splits list.splits if_splits)
    have "length r \<le> length r4" using 3 st Suc.IH(3) [of r4 _ r] by (auto split: if_splits)
    then show ?case
      using skip_ws_Cons_length [OF st(1)] scan_string_length [OF st(2)] skip_ws_Cons_length [OF st(3)]
        Suc.IH(1) [OF st(4)] skip_ws_Cons_length [OF st(5)] by simp
  }
qed

text \<open>Enough fuel never changes the result.\<close>

lemma parse_fuel:
  "2 * length s + 1 \<le> n \<Longrightarrow> n \<le> m \<Longrightarrow> parse_value m s = parse_value n s"
  "2 * length s + 2 \<le> n \<Longrightarrow> n \<le> m \<Longrightarrow> parse_elements m s = parse_elements n s"
  "2 * length s + 2 \<le> n \<Longrightarrow> n \<le> m \<Longrightarrow> parse_members m s = parse_members n s"
proof (induction n arbitrary: s m)
  case 0
  { case 1 then show ?case by simp }
  { case 2 then show ?case by simp }
  { case 3 then show ?case by simp }
next
  case (Suc n)
  {
    case 1
    then obtain m' where m: "m = Suc m'" "n \<le> m'" by (cases m) auto
    have "parse_elements m' u = parse_elements n u \<and> parse_members m' u = parse_members n u"
      if "skip_ws s = c # u" for c u
      using Suc.IH(2) [of u m'] Suc.IH(3) [of u m'] skip_ws_Cons_length [OF that] m 1 by simp
    then show ?case unfolding m(1) by (auto split: list.split)
  next
    case 2
    then obtain m' where m: "m = Suc m'" "n \<le> m'" by (cases m) auto
    from 2 m have v: "parse_value m' s = parse_value n s" by (intro Suc.IH(1)) auto
    have "parse_elements m' w = parse_elements n w"
      if "parse_value n s = Some (x, u)" "skip_ws u = c # w" for x u c w
      using Suc.IH(2) [of w m'] parse_length(1) [OF that(1)] skip_ws_Cons_length [OF that(2)] m 2 by simp
    then show ?case unfolding m(1) by (auto simp: v split: option.split list.split)
  next
    case 3
    then obtain m' where m: "m = Suc m'" "n \<le> m'" by (cases m) auto
    have v: "parse_value m' r2 = parse_value n r2"
      if "skip_ws s = c # u" "scan_string u = Some (k, r1)" "skip_ws r1 = d # r2" for c u k r1 d r2
      using Suc.IH(1) [of r2 m'] skip_ws_Cons_length [OF that(1)] scan_string_length [OF that(2)]
        skip_ws_Cons_length [OF that(3)] m 3 by simp
    moreover have "parse_members m' r4 = parse_members n r4"
      if "skip_ws s = c # u" "scan_string u = Some (k, r1)" "skip_ws r1 = d # r2" "parse_value n r2 = Some (x, r3)"
        "skip_ws r3 = e # r4" for c u k r1 d r2 x r3 e r4
      using Suc.IH(3) [of r4 m'] skip_ws_Cons_length [OF that(1)] scan_string_length [OF that(2)]
        skip_ws_Cons_length [OF that(3)] parse_length(1) [OF that(4)] skip_ws_Cons_length [OF that(5)] m 3 by simp
    ultimately show ?case unfolding m(1) by (auto split: option.split list.split)
  }
qed

lemma parse_value_fuel: "2 * length s + 1 \<le> n \<Longrightarrow> parse_value n s = parse_value (2 * length s + 1) s"
  by (rule parse_fuel(1)) simp_all

section \<open>Round trip\<close>

text \<open>What the round trip holds for: integers a double holds exactly, and objects with distinct names.\<close>

fun json_plain :: "json \<Rightarrow> bool" where
  "json_plain (JNum x) = (case x of Fin q \<Rightarrow> q = of_int \<lfloor>q\<rfloor> \<and> safe_int \<lfloor>q\<rfloor> | _ \<Rightarrow> False)"
| "json_plain (JArr vs) = list_all json_plain vs"
| "json_plain (JObj ms) = (distinct (map fst ms) \<and> list_all (\<lambda>(k, v). json_plain v) ms)"
| "json_plain _ = True"

lemma hex_val_lower: "d < 16 \<Longrightarrow> hex_val (hex_lower d) = Some d"
  by (auto simp: hex_val_def hex_lower_def)

lemma unescape_control:
  assumes "(of_char c :: nat) < 32"
  shows "unescape ([CHR ''u'', CHR ''0'', CHR ''0'', hex_lower (of_char c div 16), hex_lower (of_char c mod 16)] @ s) = Some ([c], s)"
proof -
  let ?n = "of_char c :: nat"
  have h: "hex_val (hex_lower (?n div 16)) = Some (?n div 16)" "hex_val (hex_lower (?n mod 16)) = Some (?n mod 16)"
    using assms by (simp_all add: hex_val_lower)
  have "hex4 ([CHR ''0'', CHR ''0'', hex_lower (?n div 16), hex_lower (?n mod 16)] @ s) = Some (?n, s)"
    by (simp add: hex4_def h) (simp add: hex_val_def)
  with assms show ?thesis
    by (simp add: unescape_def unescape_unicode_def code_point_def)
qed

lemma escape_char_cases:
  "escape_char c = [c] \<and> c \<noteq> quote_char \<and> \<not> (of_char c :: nat) < 32 \<and> c \<noteq> backslash \<or>
   (\<exists>e. escape_char c = [backslash, e] \<and> e \<noteq> CHR ''u'' \<and> map_of simple_escapes e = Some c) \<or>
   escape_char c = backslash # [CHR ''u'', CHR ''0'', CHR ''0'', hex_lower (of_char c div 16), hex_lower (of_char c mod 16)] \<and>
     (of_char c :: nat) < 32"
proof (cases "c \<in> set (map snd simple_escapes) \<and> c \<noteq> CHR ''/''")
  case True
  then have "\<exists>e. escape_char c = [backslash, e] \<and> e \<noteq> CHR ''u'' \<and> map_of simple_escapes e = Some c"
    by (auto simp: simple_escapes_def escape_char_def quote_char_def backslash_def)
  then show ?thesis by blast
next
  case False
  then have ne: "c \<noteq> quote_char" "c \<noteq> backslash" "c \<noteq> CHR 0x08" "c \<noteq> CHR 0x0C" "c \<noteq> CHR 0x0A" "c \<noteq> CHR 0x0D" "c \<noteq> CHR 0x09"
    by (auto simp: simple_escapes_def quote_char_def backslash_def)
  show ?thesis
  proof (cases "(of_char c :: nat) < 32")
    case True
    with ne show ?thesis by (simp add: escape_char_def)
  next
    case False
    with ne show ?thesis by (simp add: escape_char_def)
  qed
qed

lemma scan_string_escape:
  "scan_string (escape_char c @ s) = map_option (\<lambda>(t, r). (c # t, r)) (scan_string s)"
proof -
  have b: "backslash \<noteq> quote_char" "\<not> (of_char backslash :: nat) < 32" by (simp_all add: backslash_def quote_char_def)
  have esc: "scan_string (backslash # u) = map_option (\<lambda>(t, r). (c # t, r)) (scan_string s)"
    if "unescape u = Some ([c], s)" for u
    using b that by (simp add: scan_string.simps [of "_ # _"])
  consider (plain) "escape_char c = [c]" "c \<noteq> quote_char" "\<not> (of_char c :: nat) < 32" "c \<noteq> backslash"
    | (simple) e where "escape_char c = [backslash, e]" "e \<noteq> CHR ''u''" "map_of simple_escapes e = Some c"
    | (control) "escape_char c = backslash # [CHR ''u'', CHR ''0'', CHR ''0'', hex_lower (of_char c div 16), hex_lower (of_char c mod 16)]"
        "(of_char c :: nat) < 32"
    using escape_char_cases by metis
  then show ?thesis
  proof cases
    case plain
    then show ?thesis by (simp add: scan_string.simps [of "_ # _"])
  next
    case simple
    then show ?thesis by (simp add: esc unescape_def)
  next
    case control
    then show ?thesis using esc [OF unescape_control [OF control(2), of s]] by simp
  qed
qed

lemma scan_json_string: "scan_string (concat (map escape_char s) @ quote_char # r) = Some (s, r)"
  by (induction s) (simp_all add: scan_string_escape, simp add: scan_string.simps)

text \<open>What may follow a value in a printed text: the end, a comma or a closing bracket.\<close>

definition ends_value :: "string \<Rightarrow> bool" where
  "ends_value r \<longleftrightarrow> (case r of [] \<Rightarrow> True | c # _ \<Rightarrow> c = CHR '','' \<or> c = CHR '']'' \<or> c = CHR ''}'')"

lemma ends_value_simps [simp]: "ends_value []" "ends_value (CHR '','' # r)" "ends_value (CHR '']'' # r)"
  "ends_value (CHR ''}'' # r)"
  by (simp_all add: ends_value_def)

lemma dropWhile_all_append: "\<forall>x \<in> set xs. P x \<Longrightarrow> dropWhile P (xs @ ys) = dropWhile P ys"
  "\<forall>x \<in> set xs. P x \<Longrightarrow> takeWhile P (xs @ ys) = xs @ takeWhile P ys"
  by (induction xs) simp_all

lemma nat_to_string_leading_zero: "1 < length (nat_to_string n) \<Longrightarrow> hd (nat_to_string n) \<noteq> CHR ''0''"
proof (induction n rule: nat_to_string.induct)
  case (1 n)
  have z: "digit_char d = CHR ''0'' \<Longrightarrow> d < 10 \<Longrightarrow> d = 0" for d
    using digit_val_char [of d] by (simp add: digit_val_def)
  show ?case
  proof (cases "n div 10 < 10")
    case True
    with 1(2) have "n div 10 \<noteq> 0" by (auto simp: nat_to_string.simps [of n] split: if_splits)
    with 1(2) True z [of "n div 10"] show ?thesis
      by (auto simp: nat_to_string.simps [of n] nat_to_string.simps [of "n div 10"] split: if_splits)
  next
    case False
    then have "1 < length (nat_to_string (n div 10))"
      by (simp add: nat_to_string.simps [of "n div 10"])
    moreover from False have "\<not> n < 10" by auto
    ultimately show ?thesis using 1 by (simp add: nat_to_string.simps [of n] hd_append)
  qed
qed

lemma scan_decimal_nat:
  assumes "ends_value r"
  shows "scan_decimal True (nat_to_string n @ r) = Some (of_nat n, r)"
proof -
  have d: "\<forall>c \<in> set (nat_to_string n). is_digit c" by (simp add: nat_to_string_digits)
  from assms have r: "takeWhile is_digit r = []" "dropWhile is_digit r = r" "\<not> prefix ''.'' r" "scan_exponent r = (0, r)"
    by (auto simp: ends_value_def is_digit_def scan_exponent_def split: list.splits)
  from d r nat_to_string_leading_zero [of n] show ?thesis
    by (auto simp: scan_decimal_def Let_def dropWhile_all_append digits_val_def [of "[]"] pow_int_def)
qed

lemma nat_to_string_no_prefix: "\<not> is_digit c \<Longrightarrow> \<not> prefix (c # x) (nat_to_string n @ r)"
  using nat_to_string_hd(1) [of n] by (cases "nat_to_string n") auto

lemma scan_literal_int:
  assumes "safe_int i" and "ends_value r"
  shows "scan_literal (int_to_string i @ r) = Some (JNum (Fin (of_int i)), r)"
proof -
  have nd: "\<not> is_digit CHR ''-''" "\<not> is_digit CHR ''n''" "\<not> is_digit CHR ''t''" "\<not> is_digit CHR ''f''"
    by (simp_all add: is_digit_def)
  show ?thesis
  proof (cases "i < 0")
    case True
    have "round_double (- of_nat (nat (- i))) = Fin (of_int i)"
      using True round_double_safe [OF assms(1)] by (simp add: of_nat_nat)
    with True assms(2) show ?thesis
      by (simp add: int_to_string_def scan_literal_def scan_number_def scan_decimal_nat)
  next
    case False
    have "round_double (of_nat (nat i)) = Fin (of_int i)"
      using False round_double_safe [OF assms(1)] by (simp add: of_nat_nat)
    with False assms(2) nd show ?thesis
      by (simp add: int_to_string_def scan_literal_def scan_number_def scan_decimal_nat nat_to_string_no_prefix)
  qed
qed

lemma skip_ws_id: "s \<noteq> [] \<Longrightarrow> \<not> json_ws (hd s) \<Longrightarrow> skip_ws s = s"
  by (cases s) (simp_all add: skip_ws_def)

lemma skip_ws_simps [simp]: "skip_ws (quote_char # s) = quote_char # s" "skip_ws (CHR '']'' # s) = CHR '']'' # s"
  "skip_ws (CHR ''}'' # s) = CHR ''}'' # s" "skip_ws (CHR '','' # s) = CHR '','' # s"
  "skip_ws (CHR '':'' # s) = CHR '':'' # s" "skip_ws (CHR ''['' # s) = CHR ''['' # s"
  "skip_ws (CHR ''{'' # s) = CHR ''{'' # s" "skip_ws [] = []"
  by (simp_all add: skip_ws_def json_ws_def quote_char_def)

text \<open>The characters a printed value starts with.\<close>

lemma stringify_hd:
  assumes "json_plain v"
  shows "json_stringify v \<noteq> [] \<and> \<not> json_ws (hd (json_stringify v)) \<and> hd (json_stringify v) \<noteq> CHR '']''"
proof (cases v)
  case (JNum x)
  with assms obtain i where x: "x = Fin (of_int i)" "safe_int i" by (auto split: jsnum.splits)
  have d: "\<not> json_ws c \<and> c \<noteq> CHR '']''" if "is_digit c" for c
    using that by (auto simp: json_ws_def is_digit_def)
  have "\<not> json_ws CHR ''-''" by (simp add: json_ws_def)
  with d nat_to_string_hd(1) show ?thesis
    by (simp add: JNum x json_number_def num_to_string_safe int_to_string_def)
qed (simp_all add: json_ws_def json_string_def quote_char_def)

lemma js_join_hd: "xs \<noteq> [] \<Longrightarrow> hd xs \<noteq> [] \<Longrightarrow> js_join sep xs \<noteq> [] \<and> hd (js_join sep xs) = hd (hd xs)"
  by (induction sep xs rule: js_join.induct) simp_all

lemma brace_not_quote [simp]: "CHR ''}'' \<noteq> quote_char" "CHR ''{'' \<noteq> quote_char"
  by (simp_all add: quote_char_def)

lemma parse_elements_json:
  assumes "vs \<noteq> []"
    and "\<And>v n r. v \<in> set vs \<Longrightarrow> ends_value r \<Longrightarrow> 2 * length (json_stringify v @ r) + 1 \<le> n \<Longrightarrow>
        parse_value n (json_stringify v @ r) = Some (v, r)"
    and "\<And>v. v \<in> set vs \<Longrightarrow> json_stringify v \<noteq> []"
    and "2 * length (js_join '','' (map json_stringify vs) @ CHR '']'' # r) + 2 \<le> n"
  shows "parse_elements n (js_join '','' (map json_stringify vs) @ CHR '']'' # r) = Some (vs, r)"
  using assms
proof (induction vs arbitrary: n rule: list_nonempty_induct)
  case (single v)
  then obtain n' where n: "n = Suc n'" by (cases n) auto
  with single.prems(1) [of v "CHR '']'' # r" n'] single.prems(3) show ?case by simp
next
  case (cons v vs)
  then obtain n' where n: "n = Suc n'" by (cases n) auto
  let ?rest = "js_join '','' (map json_stringify vs) @ CHR '']'' # r"
  have eq: "js_join '','' (map json_stringify (v # vs)) @ CHR '']'' # r = json_stringify v @ CHR '','' # ?rest"
    using cons.hyps by (cases vs) simp_all
  have "parse_value n' (json_stringify v @ CHR '','' # ?rest) = Some (v, CHR '','' # ?rest)"
    using cons.prems(3) n unfolding eq by (intro cons.prems(1)) simp_all
  moreover have "parse_elements n' ?rest = Some (vs, r)"
    using cons.prems n unfolding eq by (intro cons.IH) auto
  ultimately show ?case unfolding eq n by simp
qed

lemma parse_members_json:
  assumes "ms \<noteq> []"
    and "\<And>k v n r. (k, v) \<in> set ms \<Longrightarrow> ends_value r \<Longrightarrow> 2 * length (json_stringify v @ r) + 1 \<le> n \<Longrightarrow>
        parse_value n (json_stringify v @ r) = Some (v, r)"
    and "2 * length (js_join '','' (map (\<lambda>(k, v). json_string k @ '':'' @ json_stringify v) ms) @ CHR ''}'' # r) + 2 \<le> n"
  shows "parse_members n (js_join '','' (map (\<lambda>(k, v). json_string k @ '':'' @ json_stringify v) ms) @ CHR ''}'' # r) = Some (ms, r)"
  using assms
proof (induction ms arbitrary: n rule: list_nonempty_induct)
  case (single m)
  then obtain k v n' where n: "n = Suc n'" "m = (k, v)" by (cases n; cases m) auto
  with single.prems(1) [of k v "CHR ''}'' # r" n'] single.prems(2) show ?case
    by (simp add: json_string_def scan_json_string)
next
  case (cons m ms)
  then obtain k v n' where n: "n = Suc n'" "m = (k, v)" by (cases n; cases m) auto
  let ?f = "\<lambda>(k, v). json_string k @ '':'' @ json_stringify v"
  let ?rest = "js_join '','' (map ?f ms) @ CHR ''}'' # r"
  have eq: "js_join '','' (map ?f (m # ms)) @ CHR ''}'' # r = json_string k @ CHR '':'' # json_stringify v @ CHR '','' # ?rest"
    using cons.hyps n by (cases ms) simp_all
  have "parse_value n' (json_stringify v @ CHR '','' # ?rest) = Some (v, CHR '','' # ?rest)"
    using cons.prems(2) n unfolding eq by (intro cons.prems(1) [of k]) simp_all
  moreover have "parse_members n' ?rest = Some (ms, r)"
    using cons.prems n unfolding eq by (intro cons.IH) (auto simp: json_string_def)
  ultimately show ?case unfolding eq unfolding n by (simp add: json_string_def scan_json_string)
qed

lemma js_map_of_distinct:
  assumes "distinct (map fst kvs)"
  shows "js_map_of kvs = kvs"
proof -
  have new: "k \<notin> fst ` set m \<Longrightarrow> js_map_set k v m = m @ [(k, v)]" for k v and m :: "('a \<times> 'b) list"
    by (induction k v m rule: js_map_set.induct) auto
  have "distinct (map fst (m @ kvs)) \<Longrightarrow> foldl (\<lambda>m (k, v). js_map_set k v m) m kvs = m @ kvs" for m
    by (induction kvs arbitrary: m) (auto simp: new)
  from this [of "[]"] assms show ?thesis by (simp add: js_map_of_def)
qed

lemma parse_stringify:
  assumes "json_plain v" and "ends_value r" and "2 * length (json_stringify v @ r) + 1 \<le> n"
  shows "parse_value n (json_stringify v @ r) = Some (v, r)"
  using assms
proof (induction v arbitrary: n r)
  case (JNum x)
  then obtain i where x: "x = Fin (of_int i)" "safe_int i" by (auto split: jsnum.splits)
  obtain n' where n: "n = Suc n'" using JNum.prems(3) by (cases n) auto
  let ?s = "int_to_string i @ r"
  have eq: "json_stringify (JNum x) @ r = ?s" using x by (simp add: json_number_def num_to_string_safe)
  have nd: "\<not> is_digit quote_char" "\<not> is_digit CHR ''[''" "\<not> is_digit CHR ''{''" by (simp_all add: is_digit_def quote_char_def)
  have h: "hd ?s = CHR ''-'' \<or> is_digit (hd ?s)" "?s \<noteq> []"
    using nat_to_string_hd(1) by (auto simp: int_to_string_def)
  then have "skip_ws ?s = ?s" by (intro skip_ws_id) (auto simp: json_ws_def is_digit_def)
  moreover obtain c u where cu: "?s = c # u" "c \<noteq> quote_char" "c \<noteq> CHR ''[''" "c \<noteq> CHR ''{''"
  proof -
    obtain c u where "?s = c # u" using h(2) by (cases ?s) auto
    with h(1) nd that [of c u] show thesis by (auto simp: quote_char_def)
  qed
  ultimately show ?case
    using scan_literal_int [OF x(2) JNum.prems(2)] unfolding eq n(1) by (simp add: cu x)
next
  case (JStr s)
  then obtain n' where n: "n = Suc n'" by (cases n) auto
  show ?case unfolding n by (simp add: json_string_def scan_json_string)
next
  case (JArr vs)
  then obtain n' where n: "n = Suc n'" by (cases n) auto
  show ?case
  proof (cases "vs = []")
    case True
    then show ?thesis by (simp add: n quote_char_def)
  next
    case False
    let ?txt = "js_join '','' (map json_stringify vs) @ CHR '']'' # r"
    have hd: "json_stringify v \<noteq> [] \<and> \<not> json_ws (hd (json_stringify v)) \<and> hd (json_stringify v) \<noteq> CHR '']''" if "v \<in> set vs" for v
      using JArr.prems(1) that by (intro stringify_hd) (simp add: list_all_iff)
    have "parse_elements n' ?txt = Some (vs, r)"
      using False JArr hd n by (intro parse_elements_json) (auto simp: list_all_iff)
    moreover have "?txt \<noteq> [] \<and> \<not> json_ws (hd ?txt) \<and> hd ?txt \<noteq> CHR '']''"
      using False hd js_join_hd [of "map json_stringify vs" "'',''"] by (cases vs) auto
    ultimately show ?thesis by (cases ?txt) (auto simp: n skip_ws_id quote_char_def)
  qed
next
  case (JObj ms)
  then obtain n' where n: "n = Suc n'" by (cases n) auto
  show ?case
  proof (cases "ms = []")
    case True
    then show ?thesis by (simp add: n quote_char_def)
  next
    case False
    let ?txt = "js_join '','' (map (\<lambda>(k, v). json_string k @ '':'' @ json_stringify v) ms) @ CHR ''}'' # r"
    have "parse_members n' ?txt = Some (ms, r)"
      using False JObj n by (intro parse_members_json) (auto simp: list_all_iff)
    moreover have "?txt \<noteq> [] \<and> hd ?txt = quote_char"
      using False js_join_hd [of "map (\<lambda>(k, v). json_string k @ '':'' @ json_stringify v) ms" "'',''"]
      by (cases ms) (auto simp: json_string_def hd_append split: prod.splits)
    then obtain u where "?txt = quote_char # u" by (metis list.collapse)
    ultimately show ?thesis using JObj.prems(1)
      by (simp add: n json_object_def js_map_of_distinct)
  qed
next
  case JNull
  then obtain n' where n: "n = Suc n'" by (cases n) auto
  show ?case by (simp add: n scan_literal_def skip_ws_def json_ws_def quote_char_def)
next
  case (JBool b)
  then obtain n' where n: "n = Suc n'" by (cases n) auto
  show ?case by (cases b) (simp_all add: n scan_literal_def skip_ws_def json_ws_def quote_char_def)
qed

lemma json_parse_stringify: "json_plain v \<Longrightarrow> json_parse (json_stringify v) = Some v"
  using parse_stringify [of v "[]" "2 * length (json_stringify v) + 1"]
  by (simp add: json_parse_def del: parse_value.simps)

end
