(* ===== verification/Api_Types.thy ===== *)
theory Api_Types
  imports Request_Kinds Json
begin

text \<open>
  The interfaces of \<open>web/src/api.ts\<close>, in dependency order.  A field that may be \<open>null\<close> or missing is
  an \<open>option\<close>; counts, identifiers and time stamps are integers, and the weights, rates and latencies of
  the forward proxy are rationals.  The fields carry a prefix of their interface.  In the two payloads where the
  code sends \<open>null\<close> and a missing member apart, the field is an option of an option.  \<open>unknown\<close> and the
  interfaces that only name members of an open record (\<open>ProbeMcpResponse\<close>, the Tavily research responses) are
  JSON values.
\<close>

section \<open>Literal unions\<close>

datatype QuotaState = QS_normal | QS_hour | QS_day | QS_month

datatype StickyRole = SR_primary | SR_secondary

datatype UserProvider = UP_linuxdo

datatype LogResultFilter = LR_success | LR_error | LR_quota_exhausted

datatype JobGroup = JG_all | JG_quota | JG_usage | JG_logs | JG_geo

datatype KeyAdminStatus = KS_active | KS_disabled

datatype ValidateAssignedProxyMatchKind = MK_registration_ip | MK_same_region | MK_other

datatype ForwardProxyValidationKind = VK_proxyUrl | VK_subscriptionUrl

datatype ForwardProxyProgressOperation = FO_save | FO_validate | FO_revalidate

datatype ForwardProxyProgressPhaseKey =
    PK_save_settings | PK_validate_egress_socks5 | PK_apply_egress_socks5 | PK_refresh_subscription
  | PK_bootstrap_probe | PK_normalize_input | PK_parse_input | PK_fetch_subscription | PK_probe_nodes
  | PK_generate_result | PK_refresh_ui

datatype ForwardProxyProgressNodeStatus = NS_pending | NS_probing | NS_ok | NS_failed

section \<open>Records\<close>

record Summary =
  sum_total_requests :: int
  sum_success_count :: int
  sum_error_count :: int
  sum_quota_exhausted_count :: int
  sum_active_keys :: int
  sum_exhausted_keys :: int
  sum_quarantined_keys :: int
  sum_last_activity :: "int option"
  sum_total_quota_limit :: int
  sum_total_quota_remaining :: int

record SummaryWindowMetrics =
  swm_total_requests :: int
  swm_success_count :: int
  swm_error_count :: int
  swm_quota_exhausted_count :: int
  swm_upstream_exhausted_key_count :: int
  swm_new_keys :: int
  swm_new_quarantines :: int

record SummaryWindowsResponse =
  swr_today :: SummaryWindowMetrics
  swr_yesterday :: SummaryWindowMetrics
  swr_month :: SummaryWindowMetrics

record DashboardSiteStatusSnapshot =
  dsss_remainingQuota :: int
  dsss_totalQuotaLimit :: int
  dsss_activeKeys :: int
  dsss_quarantinedKeys :: int
  dsss_exhaustedKeys :: int
  dsss_availableProxyNodes :: "int option"
  dsss_totalProxyNodes :: "int option"

record DashboardForwardProxySnapshot =
  dfps_availableNodes :: "int option"
  dfps_totalNodes :: "int option"

record ForwardProxyDashboardSummaryResponse =
  fpdsr_availableNodes :: int
  fpdsr_totalNodes :: int

record ApiKeyQuarantine =
  akq_source :: string
  akq_reasonCode :: string
  akq_reasonSummary :: string
  akq_reasonDetail :: "string option"
  akq_createdAt :: int

record ApiKeyStats =
  aks_id :: string
  aks_status :: string
  aks_group :: "string option"
  aks_registration_ip :: "string option"
  aks_registration_region :: "string option"
  aks_status_changed_at :: "int option"
  aks_last_used_at :: "int option"
  aks_deleted_at :: "int option"
  aks_quota_limit :: "int option"
  aks_quota_remaining :: "int option"
  aks_quota_synced_at :: "int option"
  aks_total_requests :: int
  aks_success_count :: int
  aks_error_count :: int
  aks_quota_exhausted_count :: int
  aks_quarantine :: "ApiKeyQuarantine option"

record RequestLog =
  rl_id :: int
  rl_key_id :: "string option"
  rl_auth_token_id :: "string option"
  rl_method :: string
  rl_path :: string
  rl_query :: "string option"
  rl_http_status :: "int option"
  rl_mcp_status :: "int option"
  rl_business_credits :: "int option"
  rl_request_kind_key :: "string option"
  rl_request_kind_label :: "string option"
  rl_request_kind_detail :: "string option"
  rl_result_status :: string
  rl_created_at :: int
  rl_error_message :: "string option"
  rl_failure_kind :: "string option"
  rl_key_effect_code :: "string option"
  rl_key_effect_summary :: "string option"
  rl_request_body :: "string option"
  rl_response_body :: "string option"
  rl_forwarded_headers :: "string list"
  rl_dropped_headers :: "string list"
  rl_operationalClass :: LogOperationalClass
  rl_requestKindProtocolGroup :: ProtocolGroup
  rl_requestKindBillingGroup :: BillingGroup

record DashboardSnapshotEvent =
  dse_summary :: Summary
  dse_summaryWindows :: SummaryWindowsResponse
  dse_siteStatus :: DashboardSiteStatusSnapshot
  dse_forwardProxy :: DashboardForwardProxySnapshot
  dse_keys :: "ApiKeyStats list"
  dse_logs :: "RequestLog list"

record PublicMetrics =
  pm_monthlySuccess :: int
  pm_dailySuccess :: int

record TokenMetrics =
  tm_monthlySuccess :: int
  tm_dailySuccess :: int
  tm_dailyFailure :: int
  tm_quotaHourlyUsed :: int
  tm_quotaHourlyLimit :: int
  tm_quotaDailyUsed :: int
  tm_quotaDailyLimit :: int
  tm_quotaMonthlyUsed :: int
  tm_quotaMonthlyLimit :: int

record TokenHourlyBucket =
  thb_bucket_start :: int
  thb_success_count :: int
  thb_system_failure_count :: int
  thb_external_failure_count :: int

record TokenUsageBucket =
  tub_bucket_start :: int
  tub_success_count :: int
  tub_system_failure_count :: int
  tub_external_failure_count :: int

record PublicTokenLog =
  ptl_id :: int
  ptl_method :: string
  ptl_path :: string
  ptl_query :: "string option"
  ptl_http_status :: "int option"
  ptl_mcp_status :: "int option"
  ptl_result_status :: string
  ptl_error_message :: "string option"
  ptl_created_at :: int

record ServerPublicTokenLog =
  sptl_id :: int
  sptl_method :: string
  sptl_path :: string
  sptl_query :: "string option"
  sptl_httpStatus :: "int option"
  sptl_mcpStatus :: "int option"
  sptl_resultStatus :: string
  sptl_errorMessage :: "string option"
  sptl_createdAt :: int

record RequestLogBodies =
  rlb_request_body :: "string option"
  rlb_response_body :: "string option"

record LogFacetOption =
  lfo_value :: string
  lfo_count :: int

record RequestLogFacets =
  rlf_results :: "LogFacetOption list"
  rlf_keyEffects :: "LogFacetOption list"
  rlf_tokens :: "LogFacetOption list"
  rlf_keys :: "LogFacetOption list"

record RequestLogsPage =
  rlp_items :: "RequestLog list"
  rlp_total :: int
  rlp_page :: int
  rlp_perPage :: int
  rlp_requestKindOptions :: "TokenLogRequestKindOption list"
  rlp_facets :: RequestLogFacets

record ServerLogFacetOption =
  slfo_value :: string
  slfo_count :: int

record ServerRequestLogFacets =
  srlf_results :: "ServerLogFacetOption list option"
  srlf_keyEffects :: "ServerLogFacetOption list option"
  srlf_key_effects :: "ServerLogFacetOption list option"
  srlf_tokens :: "ServerLogFacetOption list option"
  srlf_keys :: "ServerLogFacetOption list option"

record ServerRequestLogsPage =
  srlp_items :: "RequestLog list option"
  srlp_total :: "int option"
  srlp_page :: "int option"
  srlp_perPage :: "int option"
  srlp_per_page :: "int option"
  srlp_requestKindOptions :: "TokenLogRequestKindOption list option"
  srlp_request_kind_options :: "TokenLogRequestKindOption list option"
  srlp_facets :: "ServerRequestLogFacets option"

record RequestLogsPageQuery =
  rlpq_page :: "int option"
  rlpq_perPage :: "int option"
  rlpq_requestKinds :: "string list option"
  rlpq_result :: "LogResultFilter option"
  rlpq_keyEffect :: "string option"
  rlpq_operationalClass :: "LogOperationalClass option"
  rlpq_includeBodies :: "bool option"
  rlpq_tokenId :: "string option"
  rlpq_keyId :: "string option"
  rlpq_since :: "int option"
  rlpq_sinceIso :: "string option"
  rlpq_untilIso :: "string option"

record ApiKeySecret =
  aks2_api_key :: string

record ApiKeyFacetOption =
  akfo_value :: string
  akfo_count :: int

record ApiKeyListFacets =
  aklf_groups :: "ApiKeyFacetOption list"
  aklf_statuses :: "ApiKeyFacetOption list"
  aklf_regions :: "ApiKeyFacetOption list"

record TokenOwnerSummary =
  tos_userId :: string
  tos_displayName :: "string option"
  tos_username :: "string option"

record AuthToken =
  at_id :: string
  at_enabled :: bool
  at_note :: "string option"
  at_group :: "string option"
  at_owner :: "TokenOwnerSummary option"
  at_total_requests :: int
  at_created_at :: int
  at_last_used_at :: "int option"
  at_quota_state :: QuotaState
  at_quota_hourly_used :: int
  at_quota_hourly_limit :: int
  at_quota_daily_used :: int
  at_quota_daily_limit :: int
  at_quota_monthly_used :: int
  at_quota_monthly_limit :: int
  at_quota_hourly_reset_at :: "int option"
  at_quota_daily_reset_at :: "int option"
  at_quota_monthly_reset_at :: "int option"

record AuthTokenSecret =
  ats_token :: string

record ForwardProxyProgressNodeState =
  fppns_nodeKey :: string
  fppns_displayName :: string
  fppns_protocol :: string
  fppns_status :: ForwardProxyProgressNodeStatus
  fppns_ok :: "bool option"
  fppns_latencyMs :: "rat option"
  fppns_ip :: "string option"
  fppns_location :: "string option"
  fppns_message :: "string option"

record VersionInfo =
  vi_backend :: string
  vi_frontend :: string

record 'a Paginated =
  pg_items :: "'a list"
  pg_total :: int
  pg_page :: int
  pg_perPage :: int

record PaginatedApiKeys = "ApiKeyStats Paginated" +
  pak_facets :: ApiKeyListFacets

record JobLogView =
  jlv_id :: int
  jlv_job_type :: string
  jlv_key_id :: "string option"
  jlv_key_group :: "string option"
  jlv_status :: string
  jlv_attempt :: int
  jlv_message :: "string option"
  jlv_started_at :: int
  jlv_finished_at :: "int option"

record ServerJobLogView =
  sjlv_id :: int
  sjlv_jobType :: string
  sjlv_keyId :: "string option"
  sjlv_keyGroup :: "string option"
  sjlv_status :: string
  sjlv_attempt :: int
  sjlv_message :: "string option"
  sjlv_startedAt :: int
  sjlv_finishedAt :: "int option"

record Profile =
  pro_displayName :: "string option"
  pro_isAdmin :: bool
  pro_forwardAuthEnabled :: bool
  pro_builtinAuthEnabled :: bool
  pro_allowRegistration :: bool
  pro_userLoggedIn :: "bool option"
  pro_userProvider :: "UserProvider option"
  pro_userDisplayName :: "string option"

record AdminRegistrationSettings =
  ars_allowRegistration :: bool

record AdminQuotaLimitSet =
  aqls_hourlyAnyLimit :: int
  aqls_hourlyLimit :: int
  aqls_dailyLimit :: int
  aqls_monthlyLimit :: int
  aqls_inheritsDefaults :: bool

record AdminUserTag =
  aut_id :: string
  aut_name :: string
  aut_displayName :: string
  aut_icon :: "string option"
  aut_systemKey :: "string option"
  aut_effectKind :: string
  aut_hourlyAnyDelta :: int
  aut_hourlyDelta :: int
  aut_dailyDelta :: int
  aut_monthlyDelta :: int
  aut_userCount :: int

record AdminUserTagBinding =
  autb_tagId :: string
  autb_name :: string
  autb_displayName :: string
  autb_icon :: "string option"
  autb_systemKey :: "string option"
  autb_effectKind :: string
  autb_hourlyAnyDelta :: int
  autb_hourlyDelta :: int
  autb_dailyDelta :: int
  autb_monthlyDelta :: int
  autb_source :: string

record AdminUserQuotaBreakdownEntry =
  auqbe_kind :: string
  auqbe_label :: string
  auqbe_tagId :: "string option"
  auqbe_tagName :: "string option"
  auqbe_source :: "string option"
  auqbe_effectKind :: string
  auqbe_hourlyAnyDelta :: int
  auqbe_hourlyDelta :: int
  auqbe_dailyDelta :: int
  auqbe_monthlyDelta :: int

record AdminUserSummary =
  aus_userId :: string
  aus_displayName :: "string option"
  aus_username :: "string option"
  aus_active :: bool
  aus_lastLoginAt :: "int option"
  aus_tokenCount :: int
  aus_apiKeyCount :: int
  aus_tags :: "AdminUserTagBinding list"
  aus_hourlyAnyUsed :: int
  aus_hourlyAnyLimit :: int
  aus_quotaHourlyUsed :: int
  aus_quotaHourlyLimit :: int
  aus_quotaDailyUsed :: int
  aus_quotaDailyLimit :: int
  aus_quotaMonthlyUsed :: int
  aus_quotaMonthlyLimit :: int
  aus_dailySuccess :: int
  aus_dailyFailure :: int
  aus_monthlySuccess :: int
  aus_monthlyFailure :: int
  aus_monthlyBrokenCount :: int
  aus_monthlyBrokenLimit :: int
  aus_lastActivity :: "int option"

record AdminUserTokenSummary =
  auts_tokenId :: string
  auts_enabled :: bool
  auts_note :: "string option"
  auts_lastUsedAt :: "int option"
  auts_hourlyAnyUsed :: int
  auts_hourlyAnyLimit :: int
  auts_quotaHourlyUsed :: int
  auts_quotaHourlyLimit :: int
  auts_quotaDailyUsed :: int
  auts_quotaDailyLimit :: int
  auts_quotaMonthlyUsed :: int
  auts_quotaMonthlyLimit :: int
  auts_dailySuccess :: int
  auts_dailyFailure :: int
  auts_monthlySuccess :: int

record AdminUnboundTokenUsageSummary =
  autus_tokenId :: string
  autus_enabled :: bool
  autus_note :: "string option"
  autus_group :: "string option"
  autus_hourlyAnyUsed :: int
  autus_hourlyAnyLimit :: int
  autus_quotaHourlyUsed :: int
  autus_quotaHourlyLimit :: int
  autus_quotaDailyUsed :: int
  autus_quotaDailyLimit :: int
  autus_quotaMonthlyUsed :: int
  autus_quotaMonthlyLimit :: int
  autus_dailySuccess :: int
  autus_dailyFailure :: int
  autus_monthlySuccess :: int
  autus_monthlyFailure :: int
  autus_monthlyBrokenCount :: "int option"
  autus_monthlyBrokenLimit :: "int option"
  autus_lastUsedAt :: "int option"

record AdminUserDetail = AdminUserSummary +
  aud_tokens :: "AdminUserTokenSummary list"
  aud_quotaBase :: AdminQuotaLimitSet
  aud_effectiveQuota :: AdminQuotaLimitSet
  aud_quotaBreakdown :: "AdminUserQuotaBreakdownEntry list"

record UpdateUserQuotaPayload =
  uuqp_hourlyAnyLimit :: int
  uuqp_hourlyLimit :: int
  uuqp_dailyLimit :: int
  uuqp_monthlyLimit :: int

record UpdateUserBrokenKeyLimitPayload =
  uubklp_monthlyBrokenLimit :: int

record MonthlyBrokenKeyRelatedUser =
  mbkru_userId :: string
  mbkru_displayName :: "string option"
  mbkru_username :: "string option"

record MonthlyBrokenKeyDetail =
  mbkd_keyId :: string
  mbkd_currentStatus :: string
  mbkd_reasonCode :: "string option"
  mbkd_reasonSummary :: "string option"
  mbkd_latestBreakAt :: int
  mbkd_source :: string
  mbkd_breakerTokenId :: "string option"
  mbkd_breakerUserId :: "string option"
  mbkd_breakerUserDisplayName :: "string option"
  mbkd_manualActorDisplayName :: "string option"
  mbkd_relatedUsers :: "MonthlyBrokenKeyRelatedUser list"

record UpsertAdminUserTagPayload =
  uautp_name :: string
  uautp_displayName :: string
  uautp_icon :: "string option"
  uautp_effectKind :: string
  uautp_hourlyAnyDelta :: int
  uautp_hourlyDelta :: int
  uautp_dailyDelta :: int
  uautp_monthlyDelta :: int

record UserTokenResponse =
  utr_token :: string

record UserDashboard =
  ud_hourlyAnyUsed :: int
  ud_hourlyAnyLimit :: int
  ud_quotaHourlyUsed :: int
  ud_quotaHourlyLimit :: int
  ud_quotaDailyUsed :: int
  ud_quotaDailyLimit :: int
  ud_quotaMonthlyUsed :: int
  ud_quotaMonthlyLimit :: int
  ud_dailySuccess :: int
  ud_dailyFailure :: int
  ud_monthlySuccess :: int
  ud_lastActivity :: "int option"

record UserTokenSummary =
  uts_tokenId :: string
  uts_enabled :: bool
  uts_note :: "string option"
  uts_lastUsedAt :: "int option"
  uts_hourlyAnyUsed :: int
  uts_hourlyAnyLimit :: int
  uts_quotaHourlyUsed :: int
  uts_quotaHourlyLimit :: int
  uts_quotaDailyUsed :: int
  uts_quotaDailyLimit :: int
  uts_quotaMonthlyUsed :: int
  uts_quotaMonthlyLimit :: int
  uts_dailySuccess :: int
  uts_dailyFailure :: int
  uts_monthlySuccess :: int

record ProbeMcpRequestContext =
  pmrc_protocolVersion :: "string option"
  pmrc_sessionId :: "string option"
  pmrc_requestId :: "string option"

record ProbeMcpInitializeContext = ProbeMcpRequestContext +
  pmic_clientVersion :: "string option"

record ProbeMcpEnvelopeResult =
  pmer_payload :: json
  pmer_negotiatedProtocolVersion :: "string option"
  pmer_sessionId :: "string option"
  pmer_status :: int

record ProbeMcpNotificationResult =
  pmnr_sessionId :: "string option"
  pmnr_status :: int

record CreateKeyResponse =
  ckr_id :: string

record AddApiKeysBatchSummary =
  aakbs_input_lines :: int
  aakbs_valid_lines :: int
  aakbs_unique_in_input :: int
  aakbs_created :: int
  aakbs_undeleted :: int
  aakbs_existed :: int
  aakbs_duplicate_in_input :: int
  aakbs_failed :: int

record AddApiKeysBatchResult =
  aakbr_api_key :: string
  aakbr_status :: string
  aakbr_id :: "string option"
  aakbr_error :: "string option"
  aakbr_marked_exhausted :: "bool option"

record AddApiKeysBatchResponse =
  aakbr2_summary :: AddApiKeysBatchSummary
  aakbr2_results :: "AddApiKeysBatchResult list"

record AddApiKeysBatchItem =
  aakbi_api_key :: string
  aakbi_registration_ip :: "string option option"
  aakbi_assigned_proxy_key :: "string option option"

record KeySummary =
  ks_total_requests :: int
  ks_success_count :: int
  ks_error_count :: int
  ks_quota_exhausted_count :: int
  ks_active_keys :: int
  ks_exhausted_keys :: int
  ks_last_activity :: "int option"

record StickyUserIdentity =
  sui_userId :: string
  sui_displayName :: "string option"
  sui_username :: "string option"
  sui_active :: bool
  sui_lastLoginAt :: "int option"
  sui_tokenCount :: int

record StickyCreditsWindow =
  scw_successCredits :: int
  scw_failureCredits :: int

record StickyUserDailyBucket =
  sudb_bucketStart :: int
  sudb_bucketEnd :: int
  sudb_successCredits :: int
  sudb_failureCredits :: int

record StickyUserWindows =
  suw_yesterday :: StickyCreditsWindow
  suw_today :: StickyCreditsWindow
  suw_month :: StickyCreditsWindow

record StickyUserRow =
  sur_user :: StickyUserIdentity
  sur_lastSuccessAt :: int
  sur_windows :: StickyUserWindows
  sur_dailyBuckets :: "StickyUserDailyBucket list"

type_synonym StickyUsersResponse = "StickyUserRow Paginated"

record ForwardProxyWindowStats =
  fpws_attempts :: int
  fpws_successCount :: "int option"
  fpws_failureCount :: "int option"
  fpws_successRate :: "rat option"
  fpws_avgLatencyMs :: "rat option"

record ForwardProxyNodeStats =
  fpns_oneMinute :: ForwardProxyWindowStats
  fpns_fifteenMinutes :: ForwardProxyWindowStats
  fpns_oneHour :: ForwardProxyWindowStats
  fpns_oneDay :: ForwardProxyWindowStats
  fpns_sevenDays :: ForwardProxyWindowStats

record ForwardProxyNode =
  fpn_key :: string
  fpn_source :: string
  fpn_displayName :: string
  fpn_endpointUrl :: "string option"
  fpn_resolvedIps :: "string list"
  fpn_resolvedRegions :: "string list"
  fpn_weight :: rat
  fpn_available :: bool
  fpn_lastError :: "string option"
  fpn_penalized :: bool
  fpn_primaryAssignmentCount :: int
  fpn_secondaryAssignmentCount :: int
  fpn_stats :: ForwardProxyNodeStats

record ForwardProxyActivityBucket =
  fpab_bucketStart :: string
  fpab_bucketEnd :: string
  fpab_successCount :: int
  fpab_failureCount :: int

record ForwardProxyWeightBucket =
  fpwb_bucketStart :: string
  fpwb_bucketEnd :: string
  fpwb_sampleCount :: int
  fpwb_minWeight :: rat
  fpwb_maxWeight :: rat
  fpwb_avgWeight :: rat
  fpwb_lastWeight :: rat

record ForwardProxyStatsNode = ForwardProxyNode +
  fpsn_last24h :: "ForwardProxyActivityBucket list"
  fpsn_weight24h :: "ForwardProxyWeightBucket list"

record StickyNode = ForwardProxyStatsNode +
  sn_role :: StickyRole

record StickyNodesResponse =
  snr_rangeStart :: string
  snr_rangeEnd :: string
  snr_bucketSeconds :: int
  snr_nodes :: "StickyNode list"

record ValidateKeysSummary =
  vks_input_lines :: int
  vks_valid_lines :: int
  vks_unique_in_input :: int
  vks_duplicate_in_input :: int
  vks_ok :: int
  vks_exhausted :: int
  vks_invalid :: int
  vks_error :: int

record ValidateKeyResult =
  vkr_api_key :: string
  vkr_status :: string
  vkr_registration_ip :: "string option"
  vkr_registration_region :: "string option"
  vkr_assigned_proxy_key :: "string option"
  vkr_assigned_proxy_label :: "string option"
  vkr_assigned_proxy_match_kind :: "ValidateAssignedProxyMatchKind option"
  vkr_quota_limit :: "int option"
  vkr_quota_remaining :: "int option"
  vkr_detail :: "string option"

record ValidateKeyInput =
  vki_api_key :: string
  vki_registration_ip :: "string option option"

record ValidateKeysResponse =
  vkr2_summary :: ValidateKeysSummary
  vkr2_results :: "ValidateKeyResult list"

record TokenGroup =
  tg_name :: string
  tg_tokenCount :: int
  tg_latestCreatedAt :: int

record BatchCreateTokensResponse =
  bctr_tokens :: "string list"

record ForwardProxySettings =
  fps_proxyUrls :: "string list"
  fps_subscriptionUrls :: "string list"
  fps_subscriptionUpdateIntervalSecs :: int
  fps_insertDirect :: bool
  fps_egressSocks5Enabled :: bool
  fps_egressSocks5Url :: string
  fps_nodes :: "ForwardProxyNode list"

record ForwardProxySettingsEnvelope =
  fpse_forwardProxy :: "ForwardProxySettings option"

record UpdateForwardProxySettingsPayload =
  ufpsp_proxyUrls :: "string list"
  ufpsp_subscriptionUrls :: "string list"
  ufpsp_subscriptionUpdateIntervalSecs :: int
  ufpsp_insertDirect :: bool
  ufpsp_egressSocks5Enabled :: "bool option"
  ufpsp_egressSocks5Url :: "string option"
  ufpsp_skipBootstrapProbe :: "bool option"

record ForwardProxyValidationRequest =
  fpvr_kind :: ForwardProxyValidationKind
  fpvr_value :: string

record ForwardProxyValidationNode =
  fpvn_displayName :: string
  fpvn_protocol :: string
  fpvn_ok :: bool
  fpvn_latencyMs :: "rat option"
  fpvn_ip :: "string option"
  fpvn_location :: "string option"
  fpvn_message :: "string option"

record ForwardProxyValidationResponse =
  fpvr2_ok :: bool
  fpvr2_message :: string
  fpvr2_normalizedValue :: "string option"
  fpvr2_discoveredNodes :: "int option"
  fpvr2_latencyMs :: "rat option"
  fpvr2_errorCode :: "string option"
  fpvr2_nodes :: "ForwardProxyValidationNode list option"

record ForwardProxyStatsResponse =
  fpsr_rangeStart :: string
  fpsr_rangeEnd :: string
  fpsr_bucketSeconds :: int
  fpsr_nodes :: "ForwardProxyStatsNode list"

section \<open>Progress events\<close>

datatype ForwardProxyProgressEvent =
    EvPhase (ev_operation: ForwardProxyProgressOperation) (ev_phaseKey: ForwardProxyProgressPhaseKey) (ev_label: string)
      (ev_current: "int option") (ev_total: "int option") (ev_detail: "string option")
  | EvComplete (ev_operation: ForwardProxyProgressOperation) (ev_payload: json)
  | EvNodes (ev_operation: ForwardProxyProgressOperation) (ev_nodes: "ForwardProxyProgressNodeState list")
  | EvNode (ev_operation: ForwardProxyProgressOperation) (ev_node: ForwardProxyProgressNodeState)
  | EvError (ev_operation: ForwardProxyProgressOperation) (ev_message: string)
      (ev_errorPhaseKey: "ForwardProxyProgressPhaseKey option") (ev_errorLabel: "string option")
      (ev_errorCurrent: "int option") (ev_errorTotal: "int option") (ev_errorDetail: "string option")

end
