(* ===== verification/Http.thy ===== *)
theory Http
  imports Json
begin

text \<open>
  Requests, responses and errors as the client modules of \<open>web/src\<close> see them.  The browser's \<open>fetch\<close> and the
  error that \<open>JSON.parse\<close> throws are fields of an environment; \<open>fetch\<close> acts on a state \<open>'w\<close> that
  stands for the world outside the page, so that a sequence of requests is threaded through it.  An asynchronous
  function is a function from that state to its outcome, an error or a value, and the next state.
\<close>

section \<open>Errors\<close>

text \<open>An \<open>Error\<close>: its name and message, and the properties the clients attach to it.\<close>

record js_error =
  er_name :: string
  er_message :: string
  er_status :: "int option"
  er_payload :: "json option"
  er_rawBody :: "string option"

definition new_error :: "string \<Rightarrow> js_error" where
  "new_error message = \<lparr>er_name = ''Error'', er_message = message, er_status = None, er_payload = None, er_rawBody = None\<rparr>"

section \<open>Headers\<close>

text \<open>Header names are compared without regard to case, and values lose surrounding white space.\<close>

type_synonym headers = "(string \<times> string) list"

definition http_ws :: "char \<Rightarrow> bool" where
  "http_ws c \<longleftrightarrow> c = CHR 0x20 \<or> c = CHR 0x09 \<or> c = CHR 0x0A \<or> c = CHR 0x0D"

definition header_value :: "string \<Rightarrow> string" where
  "header_value v = rev (dropWhile http_ws (rev (dropWhile http_ws v)))"

definition headers_set :: "string \<Rightarrow> string \<Rightarrow> headers \<Rightarrow> headers" where
  "headers_set name value hs = js_map_set (js_lower name) (header_value value) hs"

definition headers_get :: "string \<Rightarrow> headers \<Rightarrow> string option" where
  "headers_get name hs = map_of hs (js_lower name)"

definition headers_has :: "string \<Rightarrow> headers \<Rightarrow> bool" where
  "headers_has name hs \<longleftrightarrow> headers_get name hs \<noteq> None"

lemma headers_get_set [simp]:
  "headers_get n (headers_set m v hs) = (if js_lower n = js_lower m then Some (header_value v) else headers_get n hs)"
  by (simp add: headers_get_def headers_set_def jm.lookup_update)

section \<open>Requests and responses\<close>

record Request =
  rq_input :: string
  rq_method :: "string option"
  rq_headers :: headers
  rq_body :: "string option"

text \<open>A response: the body arrives as a list of decoded pieces, and reading it may fail after the last of them.\<close>

record Response =
  rs_status :: int
  rs_statusText :: string
  rs_headers :: headers
  rs_hasBody :: bool
  rs_chunks :: "string list"
  rs_failure :: "js_error option"

record 'w Env =
  env_fetch :: "Request \<Rightarrow> 'w \<Rightarrow> (js_error + Response) \<times> 'w"
  env_parse_error :: "string \<Rightarrow> js_error"

type_synonym ('w, 'a) async = "'w \<Rightarrow> (js_error + 'a) \<times> 'w"

definition rs_ok :: "Response \<Rightarrow> bool" where
  "rs_ok r \<longleftrightarrow> 200 \<le> rs_status r \<and> rs_status r \<le> 299"

definition rs_text :: "Response \<Rightarrow> js_error + string" where
  "rs_text r = (case rs_failure r of None \<Rightarrow> Inr (concat (rs_chunks r)) | Some e \<Rightarrow> Inl e)"

definition js_json_parse :: "(string \<Rightarrow> js_error) \<Rightarrow> string \<Rightarrow> js_error + json" where
  "js_json_parse pe s = (case json_parse s of None \<Rightarrow> Inl (pe s) | Some v \<Rightarrow> Inr v)"

definition rs_json :: "(string \<Rightarrow> js_error) \<Rightarrow> Response \<Rightarrow> js_error + json" where
  "rs_json pe r = (case rs_text r of Inl e \<Rightarrow> Inl e | Inr s \<Rightarrow> js_json_parse pe s)"

text \<open>\<open>promise.catch(() => d)\<close> and \<open>s || d\<close>.\<close>

definition catch :: "js_error + 'a \<Rightarrow> 'a \<Rightarrow> 'a" where
  "catch x d = (case x of Inl _ \<Rightarrow> d | Inr v \<Rightarrow> v)"

definition or_str :: "string \<Rightarrow> string \<Rightarrow> string" where
  "or_str s d = (if s = [] then d else s)"

text \<open>\<open>await\<close>: the rest of a function runs on the value, or its error leaves the function.\<close>

definition await :: "('w, 'a) async \<Rightarrow> ('a \<Rightarrow> ('w, 'b) async) \<Rightarrow> ('w, 'b) async" where
  "await m f w = (case m w of (Inl e, w') \<Rightarrow> (Inl e, w') | (Inr x, w') \<Rightarrow> f x w')"

definition async_return :: "'a \<Rightarrow> ('w, 'a) async" where
  "async_return x w = (Inr x, w)"

definition async_throw :: "js_error \<Rightarrow> ('w, 'a) async" where
  "async_throw e w = (Inl e, w)"

definition async_lift :: "js_error + 'a \<Rightarrow> ('w, 'a) async" where
  "async_lift r w = (r, w)"

definition async_then :: "('w, 'a) async \<Rightarrow> ('a \<Rightarrow> 'b) \<Rightarrow> ('w, 'b) async" where
  "async_then m f = await m (\<lambda>x. async_return (f x))"

lemmas async_defs = await_def async_return_def async_throw_def async_lift_def async_then_def

lemma await_return [simp]: "await (async_return x) f = f x" "await m async_return = m"
  by (simp_all add: async_defs fun_eq_iff split: prod.split sum.split)

lemma await_assoc: "await (await m f) g = await m (\<lambda>x. await (f x) g)"
  by (simp add: async_defs fun_eq_iff split: prod.split sum.split)

lemma await_throw [simp]: "await (async_throw e) f = async_throw e"
  by (simp add: async_defs fun_eq_iff)

section \<open>A fixed server\<close>

text \<open>An environment in which every request gets the same response, for the concrete instances of the properties.\<close>

definition text_response :: "int \<Rightarrow> string \<Rightarrow> Response" where
  "text_response status body = \<lparr>rs_status = status, rs_statusText = ''status'', rs_headers = [], rs_hasBody = True,
     rs_chunks = [body], rs_failure = None\<rparr>"

definition fixed_env :: "Response \<Rightarrow> unit Env" where
  "fixed_env response = \<lparr>env_fetch = (\<lambda>rq w. (Inr response, w)), env_parse_error = new_error\<rparr>"

lemma fixed_env_fetch [simp]: "env_fetch (fixed_env response) rq w = (Inr response, w)"
  by (simp add: fixed_env_def)

lemma text_response_simps [simp]: "rs_text (text_response n s) = Inr s" "rs_status (text_response n s) = n"
  "rs_headers (text_response n s) = []" "rs_ok (text_response n s) \<longleftrightarrow> 200 \<le> n \<and> n \<le> 299"
  by (simp_all add: text_response_def rs_text_def rs_ok_def)

end
