(* ===== verification/Sse_Text.thy ===== *)
theory Sse_Text
  imports JS_Prelude
begin

text \<open>
  Texts of server-sent events, as \<open>web/src/lib/mcpProbe.ts\<close> and \<open>web/src/api.ts\<close> take them apart: the
  regular expression \<open>\r?\n\r?\n\<close> for the blank line between events, and the data lines of one event.
\<close>

definition cr :: char where
  "cr = CHR 0x0D"

definition lf :: char where
  "lf = CHR 0x0A"

text \<open>The length of the match of \<open>\r?\n\r?\n\<close> at the start of a text, zero when there is none.\<close>

definition blank_len :: "string \<Rightarrow> nat" where
  "blank_len s =
     (if prefix [cr, lf, cr, lf] s then 4
      else if prefix [cr, lf, lf] s \<or> prefix [lf, cr, lf] s then 3
      else if prefix [lf, lf] s then 2
      else 0)"

text \<open>\<open>s.search(/\r?\n\r?\n/)\<close>.\<close>

fun search_blank :: "string \<Rightarrow> nat option" where
  "search_blank [] = None"
| "search_blank (c # s) = (if blank_len (c # s) > 0 then Some 0 else map_option Suc (search_blank s))"

text \<open>\<open>s.split(/\r?\n\r?\n/)\<close>.\<close>

function split_blank :: "string \<Rightarrow> string list" where
  "split_blank s = (case search_blank s of
     None \<Rightarrow> [s]
   | Some i \<Rightarrow> take i s # split_blank (drop (i + blank_len (drop i s)) s))"
  by pat_completeness auto

lemma search_blank_Some:
  "search_blank s = Some i \<Longrightarrow> i < length s \<and> 0 < blank_len (drop i s)"
  by (induction s arbitrary: i) (auto split: if_splits)

lemma blank_len_le: "blank_len s \<le> length s"
  by (auto simp: blank_len_def dest: prefix_length_le)

termination split_blank
  by (relation "measure length") (auto dest!: search_blank_Some)

declare split_blank.simps [simp del]

text \<open>The data lines of an event, without their field name.\<close>

definition data_lines :: "string \<Rightarrow> string list" where
  "data_lines chunk = map (\<lambda>line. js_trim (drop (length ''data:'') line)) (filter (prefix ''data:'') (js_split_lines chunk))"

section \<open>Lengths\<close>

lemma split_blank_length: "chunk \<in> set (split_blank s) \<Longrightarrow> length chunk \<le> length s"
proof (induction s rule: split_blank.induct)
  case (1 s)
  show ?case
  proof (cases "search_blank s")
    case None
    with "1.prems" show ?thesis by (simp add: split_blank.simps [of s])
  next
    case (Some i)
    with "1.prems" "1.IH" [OF Some] show ?thesis by (auto simp: split_blank.simps [of s])
  qed
qed

definition lines_size :: "string list \<Rightarrow> nat" where
  "lines_size xs = sum_list (map (\<lambda>x. length x + 1) xs)"

lemma js_join_size: "length (js_join [c] xs) \<le> lines_size xs"
  by (induction "[c]" xs rule: js_join.induct) (auto simp: lines_size_def)

lemma js_join_size_less: "xs \<noteq> [] \<Longrightarrow> length (js_join [c] xs) < lines_size xs"
  by (induction "[c]" xs rule: js_join.induct) (auto simp: lines_size_def)

lemma split_lines_size: "lines_size (js_split_lines s) \<le> length s + 1"
proof (induction s rule: js_split_lines.induct)
  case (3 c d s)
  then show ?case by (auto simp: lines_size_def split: if_splits list.splits)
qed (auto simp: lines_size_def)

text \<open>Taking the data lines out of a text leaves a shorter one.\<close>

lemma data_lines_size:
  "lines_size (data_lines chunk) + 5 * length (data_lines chunk) \<le> lines_size (js_split_lines chunk)"
proof -
  have "lines_size (map (\<lambda>line. js_trim (drop (length ''data:'') line)) (filter (prefix ''data:'') xs)) +
      5 * length (filter (prefix ''data:'') xs) \<le> lines_size xs" for xs
  proof (induction xs)
    case (Cons x xs)
    have "length (js_trim (drop (length ''data:'') x)) + 5 \<le> length x" if "prefix ''data:'' x"
      using js_trim_length [of "drop (length ''data:'') x"] prefix_length_le [OF that] by simp
    with Cons show ?case by (auto simp: lines_size_def)
  qed (simp add: lines_size_def)
  then show ?thesis by (simp add: data_lines_def)
qed

lemma lines_size_filter: "lines_size (filter P xs) \<le> lines_size xs"
  by (induction xs) (auto simp: lines_size_def)

lemma data_payload_shorter:
  assumes "filter P (data_lines chunk) \<noteq> []"
  shows "length (js_join [c] (filter P (data_lines chunk))) < length chunk"
proof -
  have "data_lines chunk \<noteq> []" using assms by auto
  then have "5 \<le> 5 * length (data_lines chunk)" by (cases "data_lines chunk") auto
  then show ?thesis
    using js_join_size_less [OF assms, of c] lines_size_filter [of P "data_lines chunk"] data_lines_size [of chunk]
      split_lines_size [of chunk] by linarith
qed

section \<open>Boundaries in a growing text\<close>

text \<open>A blank line found in a text is the one found in every longer text.\<close>

lemma blank_len_append: "0 < blank_len s \<Longrightarrow> blank_len (s @ t) = blank_len s"
  by (auto simp: blank_len_def prefix_def cr_def lf_def split: if_splits)

lemma blank_len_crossing:
  assumes "blank_len (c # s) = 0" and "search_blank s \<noteq> None"
  shows "blank_len (c # s @ t) = 0"
proof (rule ccontr)
  assume "blank_len (c # s @ t) \<noteq> 0"
  with assms(1) have "c # s \<in> {[cr], [cr, lf], [cr, lf, cr], [lf], [lf, cr]}"
    by (cases s; cases "tl s"; cases "tl (tl s)"; cases "tl (tl (tl s))")
      (auto simp: blank_len_def cr_def lf_def split: if_splits)
  with assms(2) show False by (auto simp: blank_len_def cr_def lf_def)
qed

lemma search_blank_append: "search_blank s = Some i \<Longrightarrow> search_blank (s @ t) = Some i"
proof (induction s arbitrary: i)
  case (Cons c s)
  show ?case
  proof (cases "blank_len (c # s) = 0")
    case True
    with Cons.prems obtain j where j: "search_blank s = Some j" "i = Suc j" by auto
    with True blank_len_crossing [of c s t] Cons.IH [of j] show ?thesis by simp
  next
    case False
    with Cons.prems blank_len_append [of "c # s" t] show ?thesis by simp
  qed
qed simp

end
