(* ===== verification/Mcp_Probe.thy ===== *)
theory Mcp_Probe
  imports Http Sse_Text
begin

text \<open>
  The MCP probe client (\<open>web/src/lib/mcpProbe.ts\<close>): reading a probe payload that is JSON or server-sent
  events, the error texts of envelopes and tool results, the quota windows, and the probe request itself.
\<close>

datatype ProbeQuotaWindow = W_hour | W_day | W_month

datatype McpProbeStepState = Step_success | Step_failed | Step_blocked | Step_skipped

datatype McpProbeButtonState = Button_success | Button_partial | Button_failed

definition MCP_PROBE_ACCEPT_HEADER :: string where
  "MCP_PROBE_ACCEPT_HEADER = ''application/json, text/event-stream''"

record QuotaSnapshotLike =
  qs_quotaHourlyUsed :: int
  qs_quotaHourlyLimit :: int
  qs_quotaDailyUsed :: int
  qs_quotaDailyLimit :: int
  qs_quotaMonthlyUsed :: int
  qs_quotaMonthlyLimit :: int

definition McpProbeRequestError :: "string \<Rightarrow> int \<Rightarrow> json \<Rightarrow> string \<Rightarrow> js_error" where
  "McpProbeRequestError message status payload rawBody =
     \<lparr>er_name = ''McpProbeRequestError'', er_message = message, er_status = Some status,
      er_payload = Some payload, er_rawBody = Some rawBody\<rparr>"

record McpProbeResponseMetadata =
  md_status :: int
  md_headers :: headers
  md_sessionId :: "string option"

section \<open>Payloads\<close>

text \<open>Objects and arrays pass \<open>asRecord\<close>; \<^term>\<open>None\<close> is its \<open>null\<close>.\<close>

definition asRecord :: "json option \<Rightarrow> json option" where
  "asRecord value = (case value of Some j \<Rightarrow> if is_record j then Some j else None | None \<Rightarrow> None)"

definition opt_prop :: "json option \<Rightarrow> string \<Rightarrow> json option" where
  "opt_prop j k = (case j of Some m \<Rightarrow> jprop m k | None \<Rightarrow> None)"

definition extractSseDataPayloads :: "string \<Rightarrow> string list" where
  "extractSseDataPayloads raw =
     concat (map (\<lambda>part. let chunk = js_trim part in
       if chunk = [] then []
       else let dataLines = filter (\<lambda>line. length line > 0) (data_lines chunk)
            in if length dataLines > 0 then [js_join [lf] dataLines] else [])
     (split_blank raw))"

definition isMcpProbeEnvelope :: "json \<Rightarrow> bool" where
  "isMcpProbeEnvelope value \<longleftrightarrow> is_record value \<and> (jprop value ''result'' \<noteq> None \<or> jprop value ''error'' \<noteq> None)"

lemma extractSse_shorter: "payload \<in> set (extractSseDataPayloads raw) \<Longrightarrow> length payload < length raw"
  by (auto simp: extractSseDataPayloads_def Let_def split: if_splits
      dest!: split_blank_length intro: less_le_trans [OF data_payload_shorter] le_trans [OF js_trim_length])

text \<open>The loop over the payloads of a stream: the first envelope is the answer, otherwise the last payload that
  could be read.\<close>

fun pick_payload :: "(js_error + json) list \<Rightarrow> json option \<Rightarrow> json option" where
  "pick_payload [] lastPayload = lastPayload"
| "pick_payload (r # rs) lastPayload = (case r of
     Inl _ \<Rightarrow> pick_payload rs lastPayload
   | Inr parsedPayload \<Rightarrow>
       if isMcpProbeEnvelope parsedPayload then Some parsedPayload else pick_payload rs (Some parsedPayload))"

function parseMcpProbePayload :: "string \<Rightarrow> js_error + json" where
  "parseMcpProbePayload raw = (let trimmed = js_trim raw in
     if length trimmed = 0 then Inl (new_error ''Empty MCP probe payload'')
     else case json_parse trimmed of
         Some v \<Rightarrow> Inr v
       | None \<Rightarrow>
           let ssePayloads = extractSseDataPayloads trimmed in
           if length ssePayloads = 0 then Inl (new_error ''Invalid MCP probe payload'')
           else case pick_payload (map parseMcpProbePayload ssePayloads) None of
               None \<Rightarrow> Inl (new_error ''Invalid MCP probe payload'')
             | Some v \<Rightarrow> Inr v)"
  by pat_completeness auto
termination
  by (relation "measure length") (auto dest!: extractSse_shorter intro: less_le_trans [OF _ js_trim_length])

declare parseMcpProbePayload.simps [simp del]

section \<open>Error texts\<close>

text \<open>A string that is not blank.\<close>

definition text_of :: "json option \<Rightarrow> string option" where
  "text_of j = (case as_string j of Some s \<Rightarrow> if length (js_trim s) > 0 then Some s else None | None \<Rightarrow> None)"

text \<open>\<open>j != null\<close>.\<close>

definition present :: "json option \<Rightarrow> bool" where
  "present j \<longleftrightarrow> j \<noteq> None \<and> j \<noteq> Some JNull"

definition error_member :: "json option \<Rightarrow> string option" where
  "error_member e = (case text_of e of
     Some s \<Rightarrow> Some s
   | None \<Rightarrow>
       if present e then
         (case text_of (opt_prop (asRecord e) ''message'') of Some m \<Rightarrow> Some m | None \<Rightarrow> Some ''Request failed'')
       else None)"

definition getProbeEnvelopeError :: "json option \<Rightarrow> string option" where
  "getProbeEnvelopeError payload = (case asRecord payload of
     None \<Rightarrow> None
   | Some m \<Rightarrow> (case error_member (jprop m ''error'') of
       Some e \<Rightarrow> Some e
     | None \<Rightarrow> error_member (opt_prop (asRecord (jprop m ''detail'')) ''error'')))"

definition numericStatus :: "json option \<Rightarrow> rat option" where
  "numericStatus value = (case value of
     Some (JNum (Fin q)) \<Rightarrow> Some q
   | Some (JStr s) \<Rightarrow> (case js_number s of Fin q \<Rightarrow> Some q | _ \<Rightarrow> None)
   | _ \<Rightarrow> None)"

text \<open>The first error item of a tool result's content.\<close>

fun content_error :: "json list \<Rightarrow> string option" where
  "content_error [] = None"
| "content_error (item # items) =
     (if is_record item \<and> jprop item ''type'' = Some (JStr ''error'')
      then (case text_of (jprop item ''text'') of Some t \<Rightarrow> Some t | None \<Rightarrow> Some ''Request failed'')
      else content_error items)"

definition own_error_text :: "json \<Rightarrow> string option" where
  "own_error_text payload = (case text_of (jprop payload ''error'') of
     Some e \<Rightarrow> Some e
   | None \<Rightarrow> (case text_of (opt_prop (asRecord (jprop payload ''error'')) ''message'') of
       Some m \<Rightarrow> Some m
     | None \<Rightarrow> (case text_of (jprop payload ''message'') of
         Some m \<Rightarrow> Some m
       | None \<Rightarrow> content_error (as_array (jprop payload ''content'')))))"

lemma jprop_size: "jprop j k = Some v \<Longrightarrow> is_record v \<Longrightarrow> size v < size j"
proof (cases j)
  case (JObj ms)
  assume "jprop j k = Some v"
  with JObj have "(k, v) \<in> set ms" by (simp add: jprop_def map_of_SomeD)
  then have "size v \<le> size_list (size_prod (\<lambda>x. 0) size) ms" by (induction ms) auto
  with JObj show ?thesis by simp
next
  case (JArr vs)
  assume "jprop j k = Some v" "is_record v"
  with JArr have "v \<in> set vs" by (auto simp: jprop_def is_record_def split: if_splits option.splits)
  then have "size v \<le> size_list size vs" by (induction vs) auto
  with JArr show ?thesis by simp
qed (simp_all add: jprop_def)

lemma asRecord_size: "asRecord (jprop j k) = Some v \<Longrightarrow> size v < size j"
  by (auto simp: asRecord_def jprop_size split: option.splits if_splits)

function extractProbeErrorText :: "json \<Rightarrow> string option" where
  "extractProbeErrorText payload = (case own_error_text payload of
     Some t \<Rightarrow> Some t
   | None \<Rightarrow> (case asRecord (jprop payload ''detail'') of
       Some detail \<Rightarrow> extractProbeErrorText detail
     | None \<Rightarrow> None))"
  by pat_completeness auto
termination by (relation "measure size") (auto dest: asRecord_size)

function extractProbeStatusCode :: "json \<Rightarrow> rat option" where
  "extractProbeStatusCode payload = (case numericStatus (jprop payload ''status'') of
     Some n \<Rightarrow> Some n
   | None \<Rightarrow> (case asRecord (jprop payload ''detail'') of
       Some detail \<Rightarrow> extractProbeStatusCode detail
     | None \<Rightarrow> None))"
  by pat_completeness auto
termination by (relation "measure size") (auto dest: asRecord_size)

declare extractProbeErrorText.simps [simp del] extractProbeStatusCode.simps [simp del]

definition bad_status :: "rat option \<Rightarrow> bool" where
  "bad_status s = (case s of Some n \<Rightarrow> n < 200 \<or> 300 \<le> n | None \<Rightarrow> False)"

definition structured_error :: "json \<Rightarrow> string option" where
  "structured_error structuredContent =
     (let structuredStatus = extractProbeStatusCode structuredContent;
          specificError = (if bad_status structuredStatus
            then (case asRecord (jprop structuredContent ''detail'') of
                Some d \<Rightarrow> extractProbeErrorText d | None \<Rightarrow> None)
            else None)
      in case specificError of
          Some e \<Rightarrow> Some e
        | None \<Rightarrow> (case extractProbeErrorText structuredContent of
            Some e \<Rightarrow> Some e
          | None \<Rightarrow> if bad_status structuredStatus
              then Some (''Request failed with status '' @ rat_to_string (the structuredStatus)) else None))"

definition getMcpProbeResultError :: "json option \<Rightarrow> string option" where
  "getMcpProbeResultError payload = (case asRecord (opt_prop (asRecord payload) ''result'') of
     None \<Rightarrow> None
   | Some result \<Rightarrow> (case extractProbeErrorText result of
       Some e \<Rightarrow> Some e
     | None \<Rightarrow> (case Option.bind (asRecord (jprop result ''structuredContent'')) structured_error of
         Some e \<Rightarrow> Some e
       | None \<Rightarrow> if jprop result ''isError'' = Some (JBool True) then Some ''Request failed'' else None)))"

section \<open>Quota windows\<close>

definition getQuotaExceededWindow :: "json option \<Rightarrow> ProbeQuotaWindow option" where
  "getQuotaExceededWindow payload = (case asRecord payload of
     None \<Rightarrow> None
   | Some m \<Rightarrow>
       if jprop m ''error'' \<noteq> Some (JStr ''quota_exceeded'') then None
       else (let window = jprop m ''window'' in
         if window = Some (JStr ''hour'') then Some W_hour
         else if window = Some (JStr ''day'') then Some W_day
         else if window = Some (JStr ''month'') then Some W_month
         else None))"

definition getTokenBusinessQuotaWindow :: "QuotaSnapshotLike option \<Rightarrow> ProbeQuotaWindow option" where
  "getTokenBusinessQuotaWindow token = (case token of
     None \<Rightarrow> None
   | Some t \<Rightarrow>
       if qs_quotaHourlyLimit t > 0 \<and> qs_quotaHourlyUsed t \<ge> qs_quotaHourlyLimit t then Some W_hour
       else if qs_quotaDailyLimit t > 0 \<and> qs_quotaDailyUsed t \<ge> qs_quotaDailyLimit t then Some W_day
       else if qs_quotaMonthlyLimit t > 0 \<and> qs_quotaMonthlyUsed t \<ge> qs_quotaMonthlyLimit t then Some W_month
       else None)"

text \<open>Generic in the type of the token, which has a quota snapshot.\<close>

definition revalidateBlockedQuotaWindow ::
  "('t \<Rightarrow> QuotaSnapshotLike) \<Rightarrow> 't option \<Rightarrow> ('w, 't option) async \<Rightarrow> ('w, 't option \<times> ProbeQuotaWindow option) async" where
  "revalidateBlockedQuotaWindow snapshot token loadLatest =
     (if getTokenBusinessQuotaWindow (map_option snapshot token) = None then async_return (token, None)
      else await loadLatest (\<lambda>refreshedToken.
        let nextToken = (case refreshedToken of Some t \<Rightarrow> Some t | None \<Rightarrow> token)
        in async_return (nextToken, getTokenBusinessQuotaWindow (map_option snapshot nextToken))))"

definition resolveMcpProbeButtonState :: "McpProbeStepState list \<Rightarrow> McpProbeButtonState" where
  "resolveMcpProbeButtonState stepStates =
     (let failing = length (filter (\<lambda>s. s = Step_failed \<or> s = Step_blocked) stepStates);
          skipped = length (filter (\<lambda>s. s = Step_skipped) stepStates);
          passed = length (filter (\<lambda>s. s = Step_success) stepStates)
      in if failing = 0 \<and> skipped = 0 then Button_success
         else if passed = 0 then Button_failed
         else Button_partial)"

section \<open>The probe request\<close>

definition with_probe_headers :: "string \<Rightarrow> Request \<Rightarrow> Request" where
  "with_probe_headers token rq =
     (let h1 = headers_set ''Authorization'' (''Bearer '' @ token) (rq_headers rq);
          h2 = headers_set ''Accept'' MCP_PROBE_ACCEPT_HEADER h1;
          h3 = (if rq_body rq \<noteq> None \<and> \<not> headers_has ''Content-Type'' h2
                then headers_set ''Content-Type'' ''application/json'' h2 else h2)
      in rq\<lparr>rq_headers := h3\<rparr>)"

text \<open>What the body of a response gives: the payload and the error of reading it.\<close>

definition probe_payload :: "bool \<Rightarrow> bool \<Rightarrow> string \<Rightarrow> json \<times> string option" where
  "probe_payload ok allowEmptySuccess rawBody =
     (if length (js_trim rawBody) > 0 then
        (case parseMcpProbePayload rawBody of
           Inr v \<Rightarrow> (v, None)
         | Inl e \<Rightarrow> (JStr rawBody, Some (er_message e)))
      else if ok \<and> \<not> allowEmptySuccess then (JNull, Some ''Empty MCP probe payload'')
      else (JNull, None))"

definition failed_message :: "json \<Rightarrow> int \<Rightarrow> string" where
  "failed_message payload status = (case getProbeEnvelopeError (Some payload) of
     Some e \<Rightarrow> e
   | None \<Rightarrow> (case text_of (Some payload) of
       Some t \<Rightarrow> t
     | None \<Rightarrow> ''Request failed with status '' @ int_to_string status))"

definition requestMcpProbeWithTokenInternal ::
  "'w Env \<Rightarrow> string \<Rightarrow> Request \<Rightarrow> bool \<Rightarrow> bool \<Rightarrow> ('w, json \<times> McpProbeResponseMetadata) async" where
  "requestMcpProbeWithTokenInternal env token rq allowEmptySuccess requireEnvelope =
     await (env_fetch env (with_probe_headers token rq)) (\<lambda>response.
       let rawBody = catch (rs_text response) [];
           metadata = \<lparr>md_status = rs_status response, md_headers = rs_headers response,
             md_sessionId = headers_get ''mcp-session-id'' (rs_headers response)\<rparr>;
           (payload, parseError) = probe_payload (rs_ok response) allowEmptySuccess rawBody
       in if \<not> rs_ok response then
            async_throw (McpProbeRequestError (failed_message payload (rs_status response)) (rs_status response) payload rawBody)
          else case parseError of
              Some m \<Rightarrow> async_throw (McpProbeRequestError m (rs_status response) payload rawBody)
            | None \<Rightarrow>
                if requireEnvelope \<and> \<not> isMcpProbeEnvelope payload then
                  async_throw (McpProbeRequestError ''Invalid MCP probe payload'' (rs_status response) payload rawBody)
                else async_return (payload, metadata))"

definition requestMcpProbeEnvelopeWithToken ::
  "'w Env \<Rightarrow> string \<Rightarrow> Request \<Rightarrow> ('w, json \<times> McpProbeResponseMetadata) async" where
  "requestMcpProbeEnvelopeWithToken env token rq =
     await (requestMcpProbeWithTokenInternal env token rq False True) (\<lambda>(payload, metadata).
       if payload = JNull then
         async_throw (McpProbeRequestError ''Empty MCP probe payload'' (md_status metadata) JNull [])
       else async_return (payload, metadata))"

definition requestMcpProbeNotificationWithToken ::
  "'w Env \<Rightarrow> string \<Rightarrow> Request \<Rightarrow> ('w, json \<times> McpProbeResponseMetadata) async" where
  "requestMcpProbeNotificationWithToken env token rq = requestMcpProbeWithTokenInternal env token rq True False"

definition requestMcpProbeWithToken :: "'w Env \<Rightarrow> string \<Rightarrow> Request \<Rightarrow> ('w, json) async" where
  "requestMcpProbeWithToken env token rq = async_then (requestMcpProbeEnvelopeWithToken env token rq) fst"

section \<open>Error texts are never blank\<close>

definition blank :: "string \<Rightarrow> bool" where
  "blank s \<longleftrightarrow> js_trim s = []"

lemma blank_request_failed: "\<not> blank ''Request failed''" "\<not> blank (''Request failed with status '' @ s)"
proof -
  show "\<not> blank ''Request failed''" unfolding blank_def by code_simp
  have "js_plain (CHR ''R'')" by (simp add: js_plain_def)
  then show "\<not> blank (''Request failed with status '' @ s)" by (simp add: blank_def js_trim_def)
qed

lemma text_of_not_blank: "text_of j = Some t \<Longrightarrow> \<not> blank t"
  by (auto simp: text_of_def blank_def split: option.splits if_splits)

lemma error_member_not_blank: "error_member e = Some t \<Longrightarrow> \<not> blank t"
  using blank_request_failed by (auto simp: error_member_def dest: text_of_not_blank split: option.splits if_splits)

lemma content_error_not_blank: "content_error items = Some t \<Longrightarrow> \<not> blank t"
  using blank_request_failed by (induction items) (auto dest: text_of_not_blank split: option.splits if_splits)

lemma own_error_text_not_blank: "own_error_text j = Some t \<Longrightarrow> \<not> blank t"
  by (auto simp: own_error_text_def dest: text_of_not_blank content_error_not_blank split: option.splits)

lemma extractProbeErrorText_not_blank: "extractProbeErrorText j = Some t \<Longrightarrow> \<not> blank t"
proof (induction j rule: extractProbeErrorText.induct)
  case (1 j)
  then show ?case
    by (auto simp: extractProbeErrorText.simps [of j] dest: own_error_text_not_blank split: option.splits)
qed

lemma structured_error_not_blank: "structured_error j = Some t \<Longrightarrow> \<not> blank t"
  using blank_request_failed
  by (auto simp: structured_error_def Let_def dest: extractProbeErrorText_not_blank split: option.splits if_splits)

lemma getProbeEnvelopeError_not_blank: "getProbeEnvelopeError p = Some t \<Longrightarrow> \<not> blank t"
  by (auto simp: getProbeEnvelopeError_def dest: error_member_not_blank split: option.splits)

lemma getMcpProbeResultError_not_blank: "getMcpProbeResultError p = Some t \<Longrightarrow> \<not> blank t"
  using blank_request_failed
  by (auto simp: getMcpProbeResultError_def dest: extractProbeErrorText_not_blank structured_error_not_blank
      split: option.splits if_splits bind_splits)

lemma failed_message_not_blank: "\<not> blank (failed_message payload status)"
  using blank_request_failed
  by (auto simp: failed_message_def dest: getProbeEnvelopeError_not_blank text_of_not_blank split: option.split)

lemma text_of_JNull [simp]: "text_of None = None" "text_of (Some JNull) = None"
  by (simp_all add: text_of_def as_string_def)

lemma error_member_None_iff: "error_member e = None \<longleftrightarrow> \<not> present e"
  by (auto simp: error_member_def present_def split: option.split)

lemma present_iff: "present e \<longleftrightarrow> error_member e \<noteq> None"
  by (simp add: error_member_None_iff)

lemma error_member_None: "error_member None = None"
  by (simp add: error_member_None_iff present_def)

lemma structured_error_bad_status: "bad_status (extractProbeStatusCode c) \<Longrightarrow> structured_error c \<noteq> None"
  by (simp add: structured_error_def Let_def split: option.split)

lemma parse_error_not_blank: "parseMcpProbePayload raw = Inl e \<Longrightarrow> \<not> blank (er_message e)"
proof -
  have b: "\<not> blank ''Empty MCP probe payload''" "\<not> blank ''Invalid MCP probe payload''" unfolding blank_def by code_simp+
  show "parseMcpProbePayload raw = Inl e \<Longrightarrow> \<not> blank (er_message e)"
    using b by (subst (asm) parseMcpProbePayload.simps) (auto simp: Let_def new_error_def split: if_splits option.splits)
qed

section \<open>Reading a stream of events\<close>

text \<open>One event as the servers of the protocol send it: its name, and a JSON value on one data line.\<close>

definition sse_event :: "string \<times> json \<Rightarrow> string" where
  "sse_event ev = ''event: '' @ fst ev @ [lf] @ ''data: '' @ json_stringify (snd ev)"

definition sse_stream :: "(string \<times> json) list \<Rightarrow> string" where
  "sse_stream evs = concat (map (\<lambda>ev. sse_event ev @ [lf, lf]) evs)"

definition one_line :: "string \<Rightarrow> bool" where
  "one_line s \<longleftrightarrow> list_all (\<lambda>c. c \<noteq> cr \<and> c \<noteq> lf) s"

lemma escape_char_one_line: "one_line (escape_char c)"
  using escape_char_cases [of c]
proof (elim disjE exE conjE)
  show ?thesis if "escape_char c = [c]" "\<not> (of_char c :: nat) < 32"
    using that by (auto simp: one_line_def cr_def lf_def)
  show ?thesis if "escape_char c = [backslash, e]" "map_of simple_escapes e = Some c" for e
    using that by (auto simp: one_line_def cr_def lf_def backslash_def simple_escapes_def quote_char_def split: if_splits)
  show ?thesis if "escape_char c = backslash # [CHR ''u'', CHR ''0'', CHR ''0'', hex_lower (of_char c div 16), hex_lower (of_char c mod 16)]"
    "(of_char c :: nat) < 32"
  proof -
    have "hex_lower d \<noteq> cr \<and> hex_lower d \<noteq> lf" if "d < 16" for d
      using hex_val_lower [OF that] by (auto simp: hex_val_def cr_def lf_def)
    then show ?thesis using that by (simp add: one_line_def cr_def lf_def backslash_def)
  qed
qed

lemma one_line_append [simp]: "one_line (s @ t) \<longleftrightarrow> one_line s \<and> one_line t"
  "one_line (c # t) \<longleftrightarrow> c \<noteq> cr \<and> c \<noteq> lf \<and> one_line t" "one_line []"
  by (auto simp: one_line_def)

lemma one_line_concat: "one_line (concat xs) \<longleftrightarrow> list_all one_line xs"
  by (induction xs) simp_all

lemma one_line_join: "one_line sep \<Longrightarrow> list_all one_line xs \<Longrightarrow> one_line (js_join sep xs)"
  by (induction sep xs rule: js_join.induct) simp_all

lemma json_string_one_line: "one_line (json_string s)"
  by (simp add: json_string_def one_line_concat list_all_iff escape_char_one_line quote_char_def cr_def lf_def)

lemma int_to_string_plain: "c \<in> set (int_to_string i) \<Longrightarrow> js_plain c"
proof -
  have "js_plain (CHR ''-'')" by (simp add: js_plain_def)
  then show "c \<in> set (int_to_string i) \<Longrightarrow> js_plain c"
    by (auto simp: int_to_string_def dest: nat_to_string_digits is_digit_plain split: if_splits)
qed

lemma plain_not_nl: "js_plain c \<Longrightarrow> c \<noteq> cr \<and> c \<noteq> lf"
  by (auto simp: js_plain_def cr_def lf_def)

lemma json_number_text: "json_plain (JNum x) \<Longrightarrow> \<exists>i. json_number x = int_to_string i"
  by (auto simp: json_number_def num_to_string_safe split: jsnum.splits)
    (metis num_to_string_safe)

lemma json_stringify_one_line: "json_plain v \<Longrightarrow> one_line (json_stringify v)"
proof (induction v)
  case (JNum x)
  then obtain i where "json_number x = int_to_string i" using json_number_text by blast
  then show ?case by (auto simp: one_line_def list_all_iff dest: int_to_string_plain plain_not_nl)
next
  case (JArr vs)
  then show ?case by (auto simp: cr_def lf_def list_all_iff intro!: one_line_join)
next
  case (JObj ms)
  then show ?case
    by (fastforce simp: cr_def lf_def list_all_iff json_string_one_line [unfolded cr_def lf_def] intro!: one_line_join)
qed (simp_all add: cr_def lf_def json_string_one_line)

lemma json_stringify_last: "json_plain v \<Longrightarrow> json_stringify v \<noteq> [] \<and> js_plain (last (json_stringify v))"
proof (cases v)
  case (JNum x)
  assume "json_plain v"
  with JNum obtain i where "json_number x = int_to_string i" using json_number_text by blast
  with JNum show ?thesis using int_to_string_plain [OF last_in_set, of i] by simp
qed (simp_all add: js_plain_def json_string_def quote_char_def)

lemma json_stringify_hd: "json_plain v \<Longrightarrow> js_plain (hd (json_stringify v))"
proof (cases v)
  case (JNum x)
  assume "json_plain v"
  with JNum obtain i where "json_number x = int_to_string i" using json_number_text by blast
  with JNum show ?thesis using int_to_string_plain [OF hd_in_set, of i] by simp
qed (simp_all add: js_plain_def json_string_def quote_char_def)

lemma js_trim_stringify: "json_plain v \<Longrightarrow> js_trim (json_stringify v) = json_stringify v"
  using json_stringify_hd [of v] json_stringify_last [of v] by (intro js_trim_plain_ends) auto

lemma split_lines_one_line: "one_line s \<Longrightarrow> js_split_lines s = [s]"
  by (induction s rule: js_split_lines.induct) (auto simp: lf_def cr_def)

lemma split_lines_lf: "one_line s \<Longrightarrow> js_split_lines (s @ lf # t) = s # js_split_lines t"
proof (induction s)
  case Nil
  then show ?case by (cases t) (simp_all add: lf_def)
next
  case (Cons c s)
  then show ?case by (cases s) (auto simp: lf_def cr_def)
qed

lemma search_blank_one_line: "one_line s \<Longrightarrow> search_blank (s @ t) = map_option (\<lambda>i. length s + i) (search_blank t)"
proof (induction s)
  case (Cons c s)
  then have "blank_len (c # s @ t) = 0" by (auto simp: blank_len_def)
  with Cons show ?case by (simp add: option.map_comp o_def)
next
  case Nil
  then show ?case by (cases "search_blank t") simp_all
qed

lemma sse_event_plain:
  assumes "json_plain v" and "one_line n"
  shows "one_line (''event: '' @ n)" "one_line (''data: '' @ json_stringify v)" "js_trim (sse_event (n, v)) = sse_event (n, v)"
    "sse_event (n, v) \<noteq> []"
proof -
  show "one_line (''event: '' @ n)" "one_line (''data: '' @ json_stringify v)"
    using assms by (simp_all add: json_stringify_one_line cr_def lf_def)
  have e: "js_plain CHR ''e''" by (simp add: js_plain_def)
  show "js_trim (sse_event (n, v)) = sse_event (n, v)"
    using json_stringify_last [OF assms(1)] e by (intro js_trim_plain_ends) (auto simp: sse_event_def)
  show "sse_event (n, v) \<noteq> []" by (simp add: sse_event_def)
qed

lemma data_lines_event:
  assumes "json_plain v" and "one_line n"
  shows "data_lines (sse_event (n, v)) = [json_stringify v]"
proof -
  have "sse_event (n, v) = (''event: '' @ n) @ lf # (''data: '' @ json_stringify v)" by (simp add: sse_event_def)
  then have "js_split_lines (sse_event (n, v)) = [''event: '' @ n, ''data: '' @ json_stringify v]"
    using sse_event_plain [OF assms] by (simp only: split_lines_lf split_lines_one_line)
  moreover have "js_trim (CHR '' '' # s) = js_trim s" for s
    by (simp add: js_trim_def js_trim_start.simps [of "_ # _"] js_ws_len_def js_ws1_def)
  ultimately show ?thesis using assms by (simp add: data_lines_def js_trim_stringify)
qed

lemma search_blank_event:
  assumes "json_plain v" and "one_line n"
  shows "search_blank (sse_event (n, v) @ t) = map_option (\<lambda>i. length (sse_event (n, v)) + i) (search_blank t)"
proof -
  let ?a = "''event: '' @ n" and ?b = "''data: '' @ json_stringify v"
  have eq: "sse_event (n, v) @ t = ?a @ lf # (?b @ t)" by (simp add: sse_event_def)
  have "blank_len (lf # ?b @ t) = 0" by (simp add: blank_len_def cr_def lf_def)
  then have "search_blank (lf # ?b @ t) = map_option (\<lambda>i. Suc (length ?b) + i) (search_blank t)"
    using search_blank_one_line [OF sse_event_plain(2) [OF assms], of t] by (simp add: option.map_comp o_def)
  then show ?thesis unfolding eq search_blank_one_line [OF sse_event_plain(1) [OF assms], of "lf # ?b @ t"]
    by (simp add: option.map_comp o_def sse_event_def add.assoc)
qed

definition valid_events :: "(string \<times> json) list \<Rightarrow> bool" where
  "valid_events evs \<longleftrightarrow> evs \<noteq> [] \<and> list_all (\<lambda>(n, v). one_line n \<and> json_plain v) evs"

lemma split_blank_events:
  assumes "valid_events evs"
  shows "split_blank (js_join [lf, lf] (map sse_event evs)) = map sse_event evs"
  using assms
proof (induction evs)
  case (Cons ev evs)
  obtain n v where ev: "ev = (n, v)" "json_plain v" "one_line n" using Cons.prems by (cases ev) (auto simp: valid_events_def)
  note s = search_blank_event [OF ev(2,3)]
  show ?case
  proof (cases "evs = []")
    case True
    then show ?thesis using s [of "[]"] by (simp add: ev split_blank.simps)
  next
    case False
    let ?rest = "js_join [lf, lf] (map sse_event evs)"
    have eq: "js_join [lf, lf] (map sse_event (ev # evs)) = sse_event ev @ [lf, lf] @ ?rest"
      using False by (cases evs) simp_all
    have "blank_len ([lf, lf] @ ?rest) = 2" by (simp add: blank_len_def cr_def lf_def)
    moreover from this have "search_blank (sse_event ev @ [lf, lf] @ ?rest) = Some (length (sse_event ev))"
      using s [of "[lf, lf] @ ?rest"] by (simp add: ev)
    ultimately have "split_blank (sse_event ev @ [lf, lf] @ ?rest) = sse_event ev # split_blank ?rest"
      by (subst split_blank.simps) simp
    moreover have "valid_events evs" using Cons.prems False by (simp add: valid_events_def)
    ultimately show ?thesis unfolding eq using Cons.IH by simp
  qed
qed (simp add: valid_events_def)

lemma extractSse_events:
  assumes "valid_events evs"
  shows "extractSseDataPayloads (js_join [lf, lf] (map sse_event evs)) = map (json_stringify \<circ> snd) evs"
proof -
  have "(let chunk = js_trim (sse_event ev) in if chunk = [] then []
      else let dataLines = filter (\<lambda>line. length line > 0) (data_lines chunk)
           in if length dataLines > 0 then [js_join [lf] dataLines] else []) = [json_stringify (snd ev)]"
    if "ev \<in> set evs" for ev
  proof -
    from that assms obtain n v where ev: "ev = (n, v)" "json_plain v" "one_line n"
      by (cases ev) (auto simp: valid_events_def list_all_iff)
    then show ?thesis using json_stringify_last [OF ev(2)]
      by (simp add: sse_event_plain data_lines_event Let_def)
  qed
  then have "concat (map (\<lambda>part. let chunk = js_trim part in if chunk = [] then []
      else let dataLines = filter (\<lambda>line. length line > 0) (data_lines chunk)
           in if length dataLines > 0 then [js_join [lf] dataLines] else []) (map sse_event evs)) =
      concat (map (\<lambda>ev. [json_stringify (snd ev)]) evs)"
    by (induction evs) auto
  then show ?thesis
    unfolding extractSseDataPayloads_def split_blank_events [OF assms] by (simp add: concat_map_singleton o_def)
qed

text \<open>Line feeds after the last visible character are trimmed.\<close>

lemma js_ws_len_lf: "t \<noteq> [] \<Longrightarrow> js_ws_len (t @ [lf, lf]) = js_ws_len t"
  by (auto simp: js_ws_len_def js_ws_defs lf_def split: list.split)

lemma js_trim_start_lf: "js_trim_start (t @ [lf, lf]) = [] \<longleftrightarrow> js_trim_start t = []"
proof (induction t rule: js_trim_start.induct)
  case (1 t)
  show ?case
  proof (cases "t = []")
    case True
    have "js_trim_start [lf, lf] = []" unfolding lf_def by code_simp
    with True show ?thesis by (simp add: js_trim_start.simps [of "[]"])
  next
    case False
    with js_ws_len_lf [OF False] 1 show ?thesis
      by (cases "js_ws_len t = 0")
        (simp_all add: js_trim_start.simps [of t] js_trim_start.simps [of "t @ [lf, lf]"] js_ws_len_le)
  qed
qed

lemma js_trim_end_lf: "js_trim_end (s @ [lf, lf]) = js_trim_end s"
proof (induction s)
  case Nil
  have "js_trim_end [lf, lf] = []" unfolding lf_def by code_simp
  then show ?case by simp
next
  case (Cons c s)
  with js_trim_start_lf [of "c # s"] show ?case by simp
qed

lemma js_join_snoc: "xs \<noteq> [] \<Longrightarrow> concat (map (\<lambda>x. x @ sep) xs) = js_join sep xs @ sep"
  by (induction sep xs rule: js_join.induct) simp_all

lemma js_join_last: "xs \<noteq> [] \<Longrightarrow> last xs \<noteq> [] \<Longrightarrow> js_join sep xs \<noteq> [] \<and> last (js_join sep xs) = last (last xs)"
  by (induction sep xs rule: js_join.induct) auto

lemma trim_sse_stream:
  assumes "valid_events evs"
  shows "js_trim (sse_stream evs) = js_join [lf, lf] (map sse_event evs)"
    and "js_trim (js_join [lf, lf] (map sse_event evs)) = js_join [lf, lf] (map sse_event evs)"
    and "hd (js_join [lf, lf] (map sse_event evs)) = CHR ''e''" "js_join [lf, lf] (map sse_event evs) \<noteq> []"
proof -
  let ?j = "js_join [lf, lf] (map sse_event evs)"
  have ne: "evs \<noteq> []" using assms by (simp add: valid_events_def)
  have hd: "?j \<noteq> []" "hd ?j = CHR ''e''"
    using js_join_hd [of "map sse_event evs" "[lf, lf]"] ne by (auto simp: hd_map sse_event_def)
  obtain n v where l: "last evs = (n, v)" "json_plain v" "one_line n"
    using assms last_in_set [OF ne] by (cases "last evs") (auto simp: valid_events_def list_all_iff)
  have "js_plain (last ?j)"
    using js_join_last [of "map sse_event evs" "[lf, lf]"] ne l json_stringify_last [OF l(2)]
    by (simp add: last_map sse_event_def)
  moreover have e: "js_plain (hd ?j)" unfolding hd by (simp add: js_plain_def)
  ultimately show j: "js_trim ?j = ?j" using hd by (intro js_trim_plain_ends)
  have "sse_stream evs = ?j @ [lf, lf]"
    using js_join_snoc [of "map sse_event evs" "[lf, lf]"] ne by (simp add: sse_stream_def o_def)
  moreover from hd e have "js_trim_start (?j @ [lf, lf]) = ?j @ [lf, lf]" "js_trim_start ?j = ?j" by (cases ?j; simp)+
  ultimately show "js_trim (sse_stream evs) = ?j" using j by (simp add: js_trim_def js_trim_end_lf)
  show "hd ?j = CHR ''e''" "?j \<noteq> []" by (fact hd)+
qed

lemma json_parse_event_text: "s \<noteq> [] \<Longrightarrow> hd s = CHR ''e'' \<Longrightarrow> json_parse s = None"
proof -
  assume "s \<noteq> []" "hd s = CHR ''e''"
  then obtain u where s: "s = CHR ''e'' # u" by (cases s) auto
  have "parse_value (Suc n) s = None" for n
    by (simp add: s skip_ws_def json_ws_def quote_char_def scan_literal_def scan_number_def scan_decimal_def
        is_digit_def Let_def split: prod.split)
  from this [of "2 * length s"] show ?thesis by (simp add: json_parse_def del: parse_value.simps)
qed

lemma parse_stringified: "json_plain v \<Longrightarrow> parseMcpProbePayload (json_stringify v) = Inr v"
  using json_stringify_last [of v]
  by (subst parseMcpProbePayload.simps) (simp add: js_trim_stringify json_parse_stringify)

definition first_envelope :: "json list \<Rightarrow> json" where
  "first_envelope vs = (case find isMcpProbeEnvelope vs of Some v \<Rightarrow> v | None \<Rightarrow> last vs)"

lemma pick_payload_read:
  "pick_payload (map Inr vs) l = (case find isMcpProbeEnvelope vs of
     Some v \<Rightarrow> Some v | None \<Rightarrow> if vs = [] then l else Some (last vs))"
  by (induction vs arbitrary: l) (auto split: option.split)

section \<open>The outcome of a probe\<close>

lemma envelope_not_null: "\<not> isMcpProbeEnvelope JNull"
  by (simp add: isMcpProbeEnvelope_def is_record_def)

lemma blank_invalid: "\<not> blank ''Invalid MCP probe payload''"
  unfolding blank_def by code_simp

lemma header_names:
  "js_lower ''Authorization'' = ''authorization''" "js_lower ''authorization'' = ''authorization''"
  "js_lower ''Accept'' = ''accept''" "js_lower ''accept'' = ''accept''" "js_lower ''Content-Type'' = ''content-type''"
  by code_simp+

lemma header_value_accept: "header_value MCP_PROBE_ACCEPT_HEADER = MCP_PROBE_ACCEPT_HEADER"
  by code_simp

lemma probe_payload_ok:
  "probe_payload True False raw = (case parseMcpProbePayload raw of
     Inr v \<Rightarrow> (v, None) | Inl e \<Rightarrow> (if js_trim raw = [] then JNull else JStr raw, Some (er_message e)))"
proof (cases "js_trim raw = []")
  case True
  then show ?thesis by (simp add: probe_payload_def parseMcpProbePayload.simps [of raw] new_error_def)
qed (simp add: probe_payload_def)

section \<open>Properties\<close>

text \<open>C16: reading a probe payload.  A text that is JSON is read as its value; a stream of events, each with a
  name and one line of JSON data, is read as the first response envelope among the values, or as the last value when
  there is none.\<close>

theorem parseMcpProbePayload_roundtrip:
  "(json_plain v \<longrightarrow> parseMcpProbePayload (json_stringify v) = Inr v) \<and>
   (valid_events evs \<longrightarrow> parseMcpProbePayload (sse_stream evs) = Inr (first_envelope (map snd evs)))"
proof (intro conjI impI)
  show "json_plain v \<Longrightarrow> parseMcpProbePayload (json_stringify v) = Inr v" by (rule parse_stringified)
  assume evs: "valid_events evs"
  let ?j = "js_join [lf, lf] (map sse_event evs)"
  note j = trim_sse_stream [OF evs]
  have "map parseMcpProbePayload (map (json_stringify \<circ> snd) evs) = map Inr (map snd evs)"
    using evs by (auto simp: valid_events_def list_all_iff parse_stringified)
  then have "pick_payload (map parseMcpProbePayload (extractSseDataPayloads ?j)) None = Some (first_envelope (map snd evs))"
    using evs unfolding extractSse_events [OF evs]
    by (auto simp only: pick_payload_read first_envelope_def valid_events_def split: option.split) simp_all
  moreover have "extractSseDataPayloads ?j \<noteq> []" using evs by (simp add: extractSse_events valid_events_def)
  ultimately show "parseMcpProbePayload (sse_stream evs) = Inr (first_envelope (map snd evs))"
    using j json_parse_event_text [of ?j] by (subst parseMcpProbePayload.simps) (simp add: Let_def)
qed

theorem parseMcpProbePayload_roundtrip_witness:
  "parseMcpProbePayload (sse_stream [(''message'', JObj [(''progress'', JNum (Fin 1))]), (''message'', JObj [(''result'', JNull)])])
     = Inr (JObj [(''result'', JNull)])"
proof -
  let ?evs = "[(''message'', JObj [(''progress'', JNum (Fin 1))]), (''message'', JObj [(''result'', JNull)])]"
  have "valid_events ?evs"
    by (simp add: valid_events_def one_line_def cr_def lf_def safe_int_def)
  then have "parseMcpProbePayload (sse_stream ?evs) = Inr (first_envelope (map snd ?evs))"
    using parseMcpProbePayload_roundtrip by blast
  also have "first_envelope (map snd ?evs) = JObj [(''result'', JNull)]" by code_simp
  finally show ?thesis .
qed

text \<open>Errors of an envelope.  A text is reported exactly when the payload or its detail record has an error
  member that is neither missing nor null, and it is never blank.\<close>

lemma getProbeEnvelopeError_complete:
  "(getProbeEnvelopeError p \<noteq> None \<longleftrightarrow>
     present (opt_prop (asRecord p) ''error'') \<or>
     present (opt_prop (asRecord (opt_prop (asRecord p) ''detail'')) ''error'')) \<and>
   getProbeEnvelopeError p \<notin> Some ` {t. blank t}"
proof
  show "getProbeEnvelopeError p \<noteq> None \<longleftrightarrow>
     present (opt_prop (asRecord p) ''error'') \<or>
     present (opt_prop (asRecord (opt_prop (asRecord p) ''detail'')) ''error'')"
    unfolding present_iff
    by (auto simp: getProbeEnvelopeError_def opt_prop_def asRecord_def [of None] error_member_None split: option.split)
  show "getProbeEnvelopeError p \<notin> Some ` {t. blank t}" using getProbeEnvelopeError_not_blank by force
qed

text \<open>A failed tool call never passes for a success.  When the result of a payload says \<open>isError\<close>, or its
  structured content has a status outside 200 to 299, an error text is reported, and it is not blank.\<close>

lemma getMcpProbeResultError_detects:
  assumes "asRecord (opt_prop (asRecord p) ''result'') = Some result"
    and "jprop result ''isError'' = Some (JBool True) \<or>
      (\<exists>c. asRecord (jprop result ''structuredContent'') = Some c \<and> bad_status (extractProbeStatusCode c))"
  shows "\<exists>t. getMcpProbeResultError p = Some t \<and> \<not> blank t"
proof -
  have "getMcpProbeResultError p \<noteq> None"
    using assms by (auto simp: getMcpProbeResultError_def dest!: structured_error_bad_status split: option.split bind_split)
  then show ?thesis using getMcpProbeResultError_not_blank by auto
qed

text \<open>The state of the probe button.  It is a success exactly when every step succeeded, a failure exactly
  when there are steps and none succeeded, and partial in between.\<close>

lemma resolveMcpProbeButtonState_correct:
  "(resolveMcpProbeButtonState steps = Button_success \<longleftrightarrow> set steps \<subseteq> {Step_success}) \<and>
   (resolveMcpProbeButtonState steps = Button_failed \<longleftrightarrow> steps \<noteq> [] \<and> Step_success \<notin> set steps) \<and>
   (resolveMcpProbeButtonState steps = Button_partial \<longleftrightarrow> Step_success \<in> set steps \<and> \<not> set steps \<subseteq> {Step_success})"
proof -
  let ?n = "\<lambda>P. length (filter P steps)"
  have ok: "?n (\<lambda>s. s = Step_failed \<or> s = Step_blocked) = 0 \<and> ?n (\<lambda>s. s = Step_skipped) = 0 \<longleftrightarrow> set steps \<subseteq> {Step_success}"
  proof -
    have "s = Step_success \<longleftrightarrow> s \<noteq> Step_failed \<and> s \<noteq> Step_blocked \<and> s \<noteq> Step_skipped" for s by (cases s) simp_all
    then show ?thesis by (simp add: filter_empty_conv subset_eq) blast
  qed
  have passed: "?n (\<lambda>s. s = Step_success) = 0 \<longleftrightarrow> Step_success \<notin> set steps"
    unfolding length_0_conv filter_empty_conv by blast
  have "resolveMcpProbeButtonState steps =
     (if set steps \<subseteq> {Step_success} then Button_success else if Step_success \<notin> set steps then Button_failed else Button_partial)"
    by (simp only: resolveMcpProbeButtonState_def Let_def ok passed)
  then show ?thesis by (cases steps) auto
qed

text \<open>The outcome of a probe request for an envelope.  A value is returned exactly when the response is a
  success whose body reads as an envelope; any other response is reported as an error that carries its status and
  body and a message that is not blank; and the request sent carries the bearer token and the accepted types.\<close>

lemma requestMcpProbeEnvelope_outcome:
  assumes "env_fetch env (with_probe_headers token rq) w = (Inr response, w')"
  shows "(\<forall>payload md. requestMcpProbeEnvelopeWithToken env token rq w = (Inr (payload, md), w') \<longleftrightarrow>
      rs_ok response \<and> isMcpProbeEnvelope payload \<and>
      parseMcpProbePayload (catch (rs_text response) []) = Inr payload \<and>
      md = \<lparr>md_status = rs_status response, md_headers = rs_headers response,
        md_sessionId = headers_get ''mcp-session-id'' (rs_headers response)\<rparr>) \<and>
    (\<forall>e. fst (requestMcpProbeEnvelopeWithToken env token rq w) = Inl e \<longrightarrow>
      er_status e = Some (rs_status response) \<and> er_rawBody e = Some (catch (rs_text response) []) \<and> \<not> blank (er_message e)) \<and>
    headers_get ''authorization'' (rq_headers (with_probe_headers token rq)) = Some (header_value (''Bearer '' @ token)) \<and>
    headers_get ''accept'' (rq_headers (with_probe_headers token rq)) = Some MCP_PROBE_ACCEPT_HEADER"
proof (intro conjI)
  let ?raw = "catch (rs_text response) []"
  let ?res = "requestMcpProbeEnvelopeWithToken env token rq w"
  define md0 where "md0 = \<lparr>md_status = rs_status response, md_headers = rs_headers response,
        md_sessionId = headers_get ''mcp-session-id'' (rs_headers response)\<rparr>"
  have res: "?res = (case probe_payload (rs_ok response) False ?raw of (payload, parseError) \<Rightarrow>
      if \<not> rs_ok response then (Inl (McpProbeRequestError (failed_message payload (rs_status response)) (rs_status response) payload ?raw), w')
      else case parseError of
          Some m \<Rightarrow> (Inl (McpProbeRequestError m (rs_status response) payload ?raw), w')
        | None \<Rightarrow> if isMcpProbeEnvelope payload then (Inr (payload, md0), w')
            else (Inl (McpProbeRequestError ''Invalid MCP probe payload'' (rs_status response) payload ?raw), w'))"
    using assms envelope_not_null
    by (auto simp: requestMcpProbeEnvelopeWithToken_def requestMcpProbeWithTokenInternal_def async_defs md0_def Let_def
        split: prod.split option.split)
  show "\<forall>payload md. ?res = (Inr (payload, md), w') \<longleftrightarrow> rs_ok response \<and> isMcpProbeEnvelope payload \<and>
      parseMcpProbePayload ?raw = Inr payload \<and> md = \<lparr>md_status = rs_status response, md_headers = rs_headers response,
        md_sessionId = headers_get ''mcp-session-id'' (rs_headers response)\<rparr>"
    unfolding res md0_def [symmetric]
    by (cases "rs_ok response") (auto simp: probe_payload_ok split: prod.split sum.split option.split)
  show "\<forall>e. fst ?res = Inl e \<longrightarrow> er_status e = Some (rs_status response) \<and> er_rawBody e = Some ?raw \<and> \<not> blank (er_message e)"
    unfolding res using failed_message_not_blank parse_error_not_blank blank_invalid
    by (cases "rs_ok response") (auto simp: probe_payload_ok McpProbeRequestError_def split: prod.split sum.split option.split)
qed (simp_all add: with_probe_headers_def Let_def header_value_accept header_names)

end
