(* ===== verification/Progress_Stream.thy ===== *)
theory Progress_Stream
  imports Mcp_Probe
begin

text \<open>
  The request layer of \<open>web/src/api.ts\<close> and the progress stream of the forward proxy: a response that is
  read piece by piece, cut at blank lines into events, each handed to a callback; the payload of the last
  \<open>complete\<close> event is the result and an \<open>error\<close> event ends the request.
\<close>

section \<open>JSON requests\<close>

text \<open>The error of a response that is not a success: its body, or a text with the status when that is empty.\<close>

definition http_error :: "Response \<Rightarrow> js_error" where
  "http_error response = (new_error (or_str (catch (rs_text response) (rs_statusText response))
       (''Request failed with status '' @ int_to_string (rs_status response))))\<lparr>er_status := Some (rs_status response)\<rparr>"

text \<open>\<open>as_T\<close> is the cast of the answer to the type the caller asks for.\<close>

definition requestJson :: "'w Env \<Rightarrow> (json \<Rightarrow> 'a) \<Rightarrow> Request \<Rightarrow> ('w, 'a) async" where
  "requestJson env as_T rq = await (env_fetch env rq) (\<lambda>response.
     if \<not> rs_ok response then async_throw (http_error response)
     else async_then (async_lift (rs_json (env_parse_error env) response)) as_T)"

definition requestNoContent :: "'w Env \<Rightarrow> Request \<Rightarrow> ('w, unit) async" where
  "requestNoContent env rq = await (env_fetch env rq) (\<lambda>response.
     if \<not> rs_ok response then async_throw (http_error response) else async_return ())"

definition requestJsonWithToken :: "'w Env \<Rightarrow> (json \<Rightarrow> 'a) \<Rightarrow> string \<Rightarrow> Request \<Rightarrow> ('w, 'a) async" where
  "requestJsonWithToken env as_T token rq =
     (let h1 = headers_set ''Authorization'' (''Bearer '' @ token) (rq_headers rq);
          h2 = (if rq_body rq \<noteq> None \<and> \<not> headers_has ''Content-Type'' h1
                then headers_set ''Content-Type'' ''application/json'' h1 else h1)
      in requestJson env as_T (rq\<lparr>rq_headers := h2\<rparr>))"

section \<open>Events\<close>

text \<open>\<open>String(v)\<close> of a JSON value.\<close>

fun json_to_string :: "json \<Rightarrow> string" where
  "json_to_string JNull = ''null''"
| "json_to_string (JBool b) = (if b then ''true'' else ''false'')"
| "json_to_string (JNum x) = num_to_string x"
| "json_to_string (JStr s) = s"
| "json_to_string (JArr vs) = js_join '','' (map (\<lambda>v. if v = JNull then [] else json_to_string v) vs)"
| "json_to_string (JObj ms) = ''[object Object]''"

definition js_includes :: "string \<Rightarrow> string \<Rightarrow> bool" where
  "js_includes needle s = list_ex (prefix needle) (suffixes s)"

definition extractErrorMessage :: "Response \<Rightarrow> string option \<Rightarrow> js_error" where
  "extractErrorMessage response fallbackBody =
     (new_error (or_str
        (case fallbackBody of
           Some b \<Rightarrow> if length (js_trim b) > 0 then b else rs_statusText response
         | None \<Rightarrow> rs_statusText response)
        (''Request failed with status '' @ int_to_string (rs_status response))))\<lparr>er_status := Some (rs_status response)\<rparr>"

definition parseForwardProxySseChunk :: "(string \<Rightarrow> js_error) \<Rightarrow> string \<Rightarrow> js_error + json option" where
  "parseForwardProxySseChunk pe chunk = (let trimmed = js_trim chunk in
     if trimmed = [] then Inr None
     else let data = js_join [lf] (data_lines trimmed) in
       if data = [] then Inr None
       else case js_json_parse pe data of Inl e \<Rightarrow> Inl e | Inr v \<Rightarrow> Inr (Some v))"

definition has_type :: "string \<Rightarrow> json \<Rightarrow> bool" where
  "has_type t ev \<longleftrightarrow> jprop ev ''type'' = Some (JStr t)"

definition progress_error :: "json \<Rightarrow> js_error" where
  "progress_error ev = new_error
     (if truthy (jprop ev ''message'') then json_to_string (the (jprop ev ''message''))
      else if truthy (jprop ev ''detail'') then json_to_string (the (jprop ev ''detail''))
      else ''Forward proxy progress stream failed'')"

text \<open>The state of the loop: the buffer, the payload of the last \<open>complete\<close> event, and the events handed to the
  callback so far.\<close>

record progress_state =
  ps_buffer :: string
  ps_complete :: "json option"
  ps_events :: "json list"

text \<open>The treatment of one parsed chunk; an error leaves the function with the events delivered before it.\<close>

definition handle_event :: "json option \<Rightarrow> progress_state \<Rightarrow> (js_error \<times> json list) + progress_state" where
  "handle_event event st = (case event of
     None \<Rightarrow> Inr st
   | Some ev \<Rightarrow>
       if \<not> truthy (Some ev) then Inr st
       else let events = ps_events st @ [ev];
                complete = (if has_type ''complete'' ev then jprop ev ''payload'' else ps_complete st)
            in if has_type ''error'' ev then Inl (progress_error ev, events)
               else Inr (st\<lparr>ps_complete := complete, ps_events := events\<rparr>))"

definition handle_chunk :: "(string \<Rightarrow> js_error) \<Rightarrow> string \<Rightarrow> progress_state \<Rightarrow> (js_error \<times> json list) + progress_state" where
  "handle_chunk pe chunk st = (case parseForwardProxySseChunk pe chunk of
     Inl e \<Rightarrow> Inl (e, ps_events st)
   | Inr event \<Rightarrow> handle_event event st)"

text \<open>\<open>buffer[boundaryIndex] === '\r' ? 4 : 2\<close>.\<close>

definition boundary_skip :: "string \<Rightarrow> nat" where
  "boundary_skip s = (if prefix [cr] s then 4 else 2)"

lemma handle_chunk_buffer: "handle_chunk pe chunk st = Inr st' \<Longrightarrow> ps_buffer st' = ps_buffer st"
  by (auto simp: handle_chunk_def handle_event_def Let_def split: sum.splits option.splits if_splits)

function drain :: "(string \<Rightarrow> js_error) \<Rightarrow> progress_state \<Rightarrow> (js_error \<times> json list) + progress_state" where
  "drain pe st = (case search_blank (ps_buffer st) of
     None \<Rightarrow> Inr st
   | Some boundaryIndex \<Rightarrow>
       let chunk = take boundaryIndex (ps_buffer st);
           rest = drop (boundaryIndex + boundary_skip (drop boundaryIndex (ps_buffer st))) (ps_buffer st)
       in case handle_chunk pe chunk (st\<lparr>ps_buffer := rest\<rparr>) of
            Inl e \<Rightarrow> Inl e
          | Inr st' \<Rightarrow> drain pe st')"
  by pat_completeness auto
termination
  by (relation "measure (\<lambda>(pe, st). length (ps_buffer st))")
    (auto dest!: handle_chunk_buffer search_blank_Some simp: boundary_skip_def)

declare drain.simps [simp del]

definition feed :: "(string \<Rightarrow> js_error) \<Rightarrow> string \<Rightarrow> progress_state \<Rightarrow> (js_error \<times> json list) + progress_state" where
  "feed pe text st = drain pe (st\<lparr>ps_buffer := ps_buffer st @ text\<rparr>)"

fun feed_all :: "(string \<Rightarrow> js_error) \<Rightarrow> string list \<Rightarrow> progress_state \<Rightarrow> (js_error \<times> json list) + progress_state" where
  "feed_all pe [] st = Inr st"
| "feed_all pe (c # cs) st = (case feed pe c st of Inl e \<Rightarrow> Inl e | Inr st' \<Rightarrow> feed_all pe cs st')"

text \<open>The loop over the reader: every piece is fed, the last read (\<open>done\<close>) flushes the decoder, and what is
  left in the buffer is a trailing event.  The result is the error or the payload, with the events delivered.\<close>

definition finish_stream :: "(string \<Rightarrow> js_error) \<Rightarrow> progress_state \<Rightarrow> (js_error + json) \<times> json list" where
  "finish_stream pe st = (case feed pe [] st of
     Inl (e, events) \<Rightarrow> (Inl e, events)
   | Inr st1 \<Rightarrow> (case handle_chunk pe (ps_buffer st1) st1 of
       Inl (e, events) \<Rightarrow> (Inl e, events)
     | Inr st2 \<Rightarrow>
         (if present (ps_complete st2) then Inr (the (ps_complete st2))
          else Inl (new_error ''Forward proxy progress stream ended before completion''), ps_events st2)))"

definition initial_progress :: progress_state where
  "initial_progress = \<lparr>ps_buffer = [], ps_complete = None, ps_events = []\<rparr>"

definition read_progress :: "(string \<Rightarrow> js_error) \<Rightarrow> string list \<Rightarrow> js_error option \<Rightarrow> (js_error + json) \<times> json list" where
  "read_progress pe chunks failure = (case feed_all pe chunks initial_progress of
     Inl (e, events) \<Rightarrow> (Inl e, events)
   | Inr st \<Rightarrow> (case failure of Some e \<Rightarrow> (Inl e, ps_events st) | None \<Rightarrow> finish_stream pe st))"

definition complete_event :: "string \<Rightarrow> json \<Rightarrow> json" where
  "complete_event operation payload =
     JObj [(''type'', JStr ''complete''), (''operation'', JStr operation), (''payload'', payload)]"

text \<open>The request: its outcome with the events the callback has seen.\<close>

definition requestForwardProxyProgress ::
  "'w Env \<Rightarrow> Request \<Rightarrow> string \<Rightarrow> 'w \<Rightarrow> ((js_error + json) \<times> json list) \<times> 'w" where
  "requestForwardProxyProgress env rq fallbackOperation w =
     (let h1 = headers_set ''Accept'' ''text/event-stream, application/json'' (rq_headers rq);
          h2 = (if rq_body rq \<noteq> None \<and> \<not> headers_has ''Content-Type'' h1
                then headers_set ''Content-Type'' ''application/json'' h1 else h1)
      in case env_fetch env (rq\<lparr>rq_headers := h2\<rparr>) w of
          (Inl e, w') \<Rightarrow> ((Inl e, []), w')
        | (Inr response, w') \<Rightarrow>
            let contentType = nullish (headers_get ''Content-Type'' (rs_headers response)) [];
                isStream = js_includes ''text/event-stream'' contentType
            in (if \<not> rs_ok response then
                  (Inl (extractErrorMessage response (Some (catch (rs_text response) (rs_statusText response)))), [])
                else if \<not> isStream then
                  (case rs_json (env_parse_error env) response of
                     Inl e \<Rightarrow> (Inl e, [])
                   | Inr payload \<Rightarrow> (Inr payload, [complete_event fallbackOperation payload]))
                else if \<not> rs_hasBody response then (Inl (new_error ''Progress stream body is unavailable''), [])
                else read_progress (env_parse_error env) (rs_chunks response) (rs_failure response), w'))"

section \<open>The stream does not depend on how it is cut into pieces\<close>

text \<open>A stream in which no blank line mixes the two line ends.\<close>

definition no_mixed :: "string \<Rightarrow> bool" where
  "no_mixed s \<longleftrightarrow> \<not> js_includes [cr, lf, lf] s"

lemma js_includes_iff: "js_includes p s \<longleftrightarrow> (\<exists>t. suffix t s \<and> prefix p t)"
  by (auto simp: js_includes_def list_ex_iff)

lemma no_mixed_suffix: "no_mixed s \<Longrightarrow> suffix t s \<Longrightarrow> no_mixed t"
  unfolding no_mixed_def js_includes_iff by (blast intro: suffix_order.trans)

lemma no_mixed_prefix: "no_mixed (s @ t) \<Longrightarrow> no_mixed s"
proof -
  have "suffix (u @ t) (s @ t) \<and> prefix [cr, lf, lf] (u @ t)" if "suffix u s" "prefix [cr, lf, lf] u" for u
    using that by (auto simp: suffix_def intro: prefix_order.trans)
  then show "no_mixed (s @ t) \<Longrightarrow> no_mixed s" unfolding no_mixed_def js_includes_iff by blast
qed

lemma boundary_skip_le:
  assumes "no_mixed b" and "search_blank b = Some i"
  shows "i + boundary_skip (drop i b) \<le> length b"
proof -
  from search_blank_Some [OF assms(2)] have i: "i < length b" "0 < blank_len (drop i b)" by auto
  have "boundary_skip (drop i b) \<le> blank_len (drop i b)"
  proof (cases "prefix [cr] (drop i b)")
    case True
    have "suffix (drop i b) b" by (rule suffix_drop)
    with assms(1) have "\<not> prefix [cr, lf, lf] (drop i b)" unfolding no_mixed_def js_includes_iff by blast
    with True i(2) show ?thesis
      by (auto simp: boundary_skip_def blank_len_def cr_def lf_def prefix_def split: if_splits)
  next
    case False
    with i(2) show ?thesis by (auto simp: boundary_skip_def blank_len_def split: if_splits)
  qed
  with blank_len_le [of "drop i b"] i(1) show ?thesis by simp
qed

lemma boundary_skip_append: "b \<noteq> [] \<Longrightarrow> boundary_skip (b @ t) = boundary_skip b"
  by (cases b) (simp_all add: boundary_skip_def)

lemma handle_chunk_set_buffer:
  "handle_chunk pe c (st\<lparr>ps_buffer := x\<rparr>) = map_sum (\<lambda>e. e) (\<lambda>st'. st'\<lparr>ps_buffer := x\<rparr>) (handle_chunk pe c st)"
  by (simp add: handle_chunk_def handle_event_def Let_def split: sum.split option.split)

lemma drain_suffix: "drain pe st = Inr st' \<Longrightarrow> suffix (ps_buffer st') (ps_buffer st)"
proof (induction pe st rule: drain.induct)
  case (1 pe st)
  show ?case
  proof (cases "search_blank (ps_buffer st)")
    case None
    with "1.prems" show ?thesis by (simp add: drain.simps [of pe st])
  next
    case (Some i)
    let ?rest = "drop (i + boundary_skip (drop i (ps_buffer st))) (ps_buffer st)"
    from "1.prems" Some obtain st1 where h: "handle_chunk pe (take i (ps_buffer st)) (st\<lparr>ps_buffer := ?rest\<rparr>) = Inr st1"
      and d: "drain pe st1 = Inr st'"
      by (auto simp: drain.simps [of pe st] Let_def split: sum.splits)
    have "suffix (ps_buffer st') (ps_buffer st1)" using "1.IH" [OF Some refl refl h d] .
    moreover have "ps_buffer st1 = ?rest" using handle_chunk_buffer [OF h] by simp
    ultimately show ?thesis using suffix_drop suffix_order.trans by metis
  qed
qed

lemma drain_append:
  "no_mixed (ps_buffer st @ t) \<Longrightarrow>
   drain pe (st\<lparr>ps_buffer := ps_buffer st @ t\<rparr>) =
     (case drain pe st of Inl e \<Rightarrow> Inl e | Inr st' \<Rightarrow> drain pe (st'\<lparr>ps_buffer := ps_buffer st' @ t\<rparr>))"
proof (induction pe st rule: drain.induct)
  case (1 pe st)
  let ?b = "ps_buffer st"
  show ?case
  proof (cases "search_blank ?b")
    case None
    then show ?thesis by (simp add: drain.simps [of pe st])
  next
    case (Some i)
    let ?k = "i + boundary_skip (drop i ?b)"
    have i: "i < length ?b" using search_blank_Some [OF Some] by simp
    have le: "?k \<le> length ?b" using boundary_skip_le [OF no_mixed_prefix [OF "1.prems"] Some] .
    have skip: "boundary_skip (drop i ?b @ t) = boundary_skip (drop i ?b)" using i by (simp add: boundary_skip_append)
    let ?st1 = "st\<lparr>ps_buffer := drop ?k ?b\<rparr>"
    have whole: "drain pe (st\<lparr>ps_buffer := ?b @ t\<rparr>) = (case handle_chunk pe (take i ?b) (?st1\<lparr>ps_buffer := drop ?k ?b @ t\<rparr>) of
        Inl e \<Rightarrow> Inl e | Inr st' \<Rightarrow> drain pe st')"
      using i le by (subst drain.simps) (simp add: search_blank_append [OF Some] skip Let_def)
    have part: "drain pe st = (case handle_chunk pe (take i ?b) ?st1 of Inl e \<Rightarrow> Inl e | Inr st' \<Rightarrow> drain pe st')"
      using Some by (subst drain.simps) (simp add: Let_def)
    show ?thesis
    proof (cases "handle_chunk pe (take i ?b) ?st1")
      case (Inl e)
      then show ?thesis unfolding whole part handle_chunk_set_buffer [where st = ?st1] by simp
    next
      case (Inr st')
      have buf: "ps_buffer st' = drop ?k ?b" using handle_chunk_buffer [OF Inr] by simp
      have "suffix (ps_buffer st' @ t) (?b @ t)" unfolding buf using suffix_drop by (auto simp: suffix_def)
      with "1.prems" have "no_mixed (ps_buffer st' @ t)" by (rule no_mixed_suffix)
      with "1.IH" [OF Some refl refl Inr] show ?thesis
        unfolding whole part handle_chunk_set_buffer [where st = ?st1] by (simp add: Inr buf)
    qed
  qed
qed

lemma feed_all_drain:
  "no_mixed (ps_buffer st @ concat cs) \<Longrightarrow>
   (case feed_all pe cs st of Inl e \<Rightarrow> Inl e | Inr st' \<Rightarrow> drain pe st') = drain pe (st\<lparr>ps_buffer := ps_buffer st @ concat cs\<rparr>)"
proof (induction cs arbitrary: st)
  case (Cons c cs)
  let ?st = "st\<lparr>ps_buffer := ps_buffer st @ c\<rparr>"
  have nm: "no_mixed (ps_buffer ?st @ concat cs)" using Cons.prems by simp
  have "no_mixed (ps_buffer st' @ concat cs)" if "drain pe ?st = Inr st'" for st'
    using drain_suffix [OF that] nm by (auto simp: suffix_def intro!: no_mixed_suffix [OF nm])
  with Cons.IH drain_append [OF nm, of pe] show ?case
    by (auto simp: feed_def split: sum.split)
qed simp

text \<open>What remains to do once the whole text is in the buffer.\<close>

definition conclude :: "(string \<Rightarrow> js_error) \<Rightarrow> (js_error \<times> json list) + progress_state \<Rightarrow> (js_error + json) \<times> json list" where
  "conclude pe r = (case r of
     Inl (e, events) \<Rightarrow> (Inl e, events)
   | Inr st1 \<Rightarrow> (case handle_chunk pe (ps_buffer st1) st1 of
       Inl (e, events) \<Rightarrow> (Inl e, events)
     | Inr st2 \<Rightarrow>
         (if present (ps_complete st2) then Inr (the (ps_complete st2))
          else Inl (new_error ''Forward proxy progress stream ended before completion''), ps_events st2)))"

lemma read_progress_whole:
  assumes "no_mixed (concat cs)"
  shows "read_progress pe cs None = conclude pe (drain pe (initial_progress\<lparr>ps_buffer := concat cs\<rparr>))"
proof -
  have f: "finish_stream pe st = conclude pe (drain pe st)" for st
    by (simp add: finish_stream_def conclude_def feed_def)
  have "(case feed_all pe cs initial_progress of Inl e \<Rightarrow> Inl e | Inr st' \<Rightarrow> drain pe st') =
      drain pe (initial_progress\<lparr>ps_buffer := concat cs\<rparr>)"
    using feed_all_drain [of initial_progress cs pe] assms by (simp add: initial_progress_def)
  then show ?thesis
    by (auto simp: read_progress_def f conclude_def split: sum.splits)
qed

section \<open>Delivery\<close>

text \<open>What the caller is to see of a list of events: each of them in order, up to and including the first error,
  and the payload of the last completion.\<close>

fun deliver :: "json list \<Rightarrow> json option \<Rightarrow> json list \<times> (js_error + json option)" where
  "deliver [] cp = ([], Inr cp)"
| "deliver (ev # evs) cp =
     (if \<not> truthy (Some ev) then deliver evs cp
      else if has_type ''error'' ev then ([ev], Inl (progress_error ev))
      else (case deliver evs (if has_type ''complete'' ev then jprop ev ''payload'' else cp) of
          (es, r) \<Rightarrow> (ev # es, r)))"

definition delivered :: "json list \<Rightarrow> (js_error + json) \<times> json list" where
  "delivered evs = (case deliver evs None of
     (es, Inl e) \<Rightarrow> (Inl e, es)
   | (es, Inr cp) \<Rightarrow>
       (if present cp then Inr (the cp)
        else Inl (new_error ''Forward proxy progress stream ended before completion''), es))"

definition events_ok :: "(string \<times> json) list \<Rightarrow> bool" where
  "events_ok evs \<longleftrightarrow> list_all (\<lambda>(n, v). one_line n \<and> json_plain v) evs"

lemma parse_chunk_event:
  assumes "json_plain v" and "one_line n"
  shows "parseForwardProxySseChunk pe (sse_event (n, v)) = Inr (Some v)"
  using assms json_stringify_last [OF assms(1)]
  by (simp add: parseForwardProxySseChunk_def sse_event_plain data_lines_event js_json_parse_def json_parse_stringify Let_def)

lemma drain_events:
  "events_ok evs \<Longrightarrow> drain pe \<lparr>ps_buffer = sse_stream evs, ps_complete = c0, ps_events = es0\<rparr> =
     (case deliver (map snd evs) c0 of
        (es, Inl e) \<Rightarrow> Inl (e, es0 @ es)
      | (es, Inr c) \<Rightarrow> Inr \<lparr>ps_buffer = [], ps_complete = c, ps_events = es0 @ es\<rparr>)"
proof (induction evs arbitrary: c0 es0)
  case Nil
  then show ?case by (simp add: sse_stream_def drain.simps)
next
  case (Cons ev evs)
  obtain n v where ev: "ev = (n, v)" "json_plain v" "one_line n" using Cons.prems by (cases ev) (auto simp: events_ok_def)
  let ?rest = "sse_stream evs"
  have eq: "sse_stream (ev # evs) = sse_event ev @ lf # lf # ?rest" by (simp add: sse_stream_def)
  have "search_blank (lf # lf # ?rest) = Some 0" by (simp add: blank_len_def cr_def lf_def)
  then have "search_blank (sse_stream (ev # evs)) = Some (length (sse_event ev))"
    unfolding eq using search_blank_event [OF ev(2,3), of "lf # lf # ?rest"] by (simp add: ev)
  moreover have "boundary_skip (lf # lf # ?rest) = 2" by (simp add: boundary_skip_def cr_def lf_def)
  ultimately have "drain pe \<lparr>ps_buffer = sse_stream (ev # evs), ps_complete = c0, ps_events = es0\<rparr> =
      (case handle_event (Some v) \<lparr>ps_buffer = ?rest, ps_complete = c0, ps_events = es0\<rparr> of Inl e \<Rightarrow> Inl e | Inr st' \<Rightarrow> drain pe st')"
    by (subst drain.simps) (simp add: eq [unfolded ev(1)] Let_def handle_chunk_def parse_chunk_event ev)
  also have "\<dots> = (case deliver (map snd (ev # evs)) c0 of
        (es, Inl e) \<Rightarrow> Inl (e, es0 @ es)
      | (es, Inr c) \<Rightarrow> Inr \<lparr>ps_buffer = [], ps_complete = c, ps_events = es0 @ es\<rparr>)"
    using Cons.IH Cons.prems by (auto simp: handle_event_def Let_def ev events_ok_def split: prod.split sum.split)
  finally show ?case .
qed

lemma sse_stream_no_mixed:
  assumes "events_ok evs"
  shows "no_mixed (sse_stream evs)"
proof -
  have "cr \<notin> set (sse_event (n, v))" if "one_line n" "json_plain v" for n v
    using that json_stringify_one_line [of v]
    by (auto simp: sse_event_def one_line_def list_all_iff lf_def cr_def)
  with assms have "cr \<notin> set (sse_stream evs)"
    by (induction evs) (auto simp: sse_stream_def events_ok_def cr_def lf_def)
  then show ?thesis unfolding no_mixed_def js_includes_iff by (auto simp: suffix_def prefix_def)
qed

section \<open>Properties\<close>

text \<open>C23: a progress stream is read the same however the network cuts it into pieces, as long as no blank line in
  it mixes the two line ends.\<close>

theorem read_progress_chunking:
  assumes "no_mixed (concat cs)" and "concat cs = concat cs'"
  shows "read_progress pe cs None = read_progress pe cs' None"
  using assms read_progress_whole [of cs pe] read_progress_whole [of cs' pe] by simp

theorem read_progress_chunking_witness:
  "read_progress new_error [''da'', ''ta: 1'' @ [lf], [lf]] None = read_progress new_error [''data: 1'' @ [lf, lf]] None"
proof (rule read_progress_chunking)
  show "no_mixed (concat [''da'', ''ta: 1'' @ [lf], [lf]])" by code_simp
qed simp

text \<open>C15: delivery.  Whatever pieces the stream of a list of events arrives in, the callback sees the events in
  order, up to and including the first error event; the request fails with the text of that error, or returns the
  payload of the last completion, or fails because there was none.\<close>

theorem read_progress_delivers:
  assumes "events_ok evs" and "concat cs = sse_stream evs"
  shows "read_progress pe cs None = delivered (map snd evs)"
proof -
  have "no_mixed (concat cs)" using assms sse_stream_no_mixed by simp
  then have "read_progress pe cs None = conclude pe (drain pe \<lparr>ps_buffer = sse_stream evs, ps_complete = None, ps_events = []\<rparr>)"
    by (simp add: read_progress_whole assms(2) initial_progress_def)
  also have "\<dots> = delivered (map snd evs)"
    using drain_events [OF assms(1), of pe None "[]"]
    by (auto simp: conclude_def delivered_def handle_chunk_def parseForwardProxySseChunk_def handle_event_def
        split: prod.split sum.split)
  finally show ?thesis .
qed

theorem read_progress_delivers_witness:
  "read_progress new_error [''event: progress'' @ [lf], ''data: '' @ json_stringify (complete_event ''save'' (JBool True)) @ [lf, lf]] None =
     (Inr (JBool True), [complete_event ''save'' (JBool True)])"
proof -
  let ?v = "complete_event ''save'' (JBool True)"
  have "read_progress new_error [''event: progress'' @ [lf], ''data: '' @ json_stringify ?v @ [lf, lf]] None = delivered (map snd [(''progress'', ?v)])"
  proof (rule read_progress_delivers)
    show "events_ok [(''progress'', ?v)]"
      by (simp add: events_ok_def complete_event_def one_line_def cr_def lf_def)
  qed (simp add: sse_stream_def sse_event_def)
  also have "delivered (map snd [(''progress'', ?v)]) = (Inr (JBool True), [?v])" by code_simp
  finally show ?thesis .
qed


end
