(* ===== verification/Api_Client.thy ===== *)
theory Api_Client
  imports Api_Types Admin_Routes Progress_Stream
begin

text \<open>
  The endpoints of \<open>web/src/api.ts\<close>: for each function the request it sends and what it makes of the answer.
  \<open>as_T\<close> is the cast of the JSON answer to the interface the function declares.  The \<open>AbortSignal\<close> is part
  of \<open>fetch\<close>, which may reject any request, and default arguments are written at the calls.
\<close>

section \<open>Requests\<close>

definition get_request :: "string \<Rightarrow> Request" where
  "get_request url = \<lparr>rq_input = url, rq_method = None, rq_headers = [], rq_body = None\<rparr>"

definition call :: "string \<Rightarrow> string \<Rightarrow> Request" where
  "call meth url = \<lparr>rq_input = url, rq_method = Some meth, rq_headers = [], rq_body = None\<rparr>"

definition send_json :: "string \<Rightarrow> string \<Rightarrow> json \<Rightarrow> Request" where
  "send_json meth url body = \<lparr>rq_input = url, rq_method = Some meth,
     rq_headers = headers_set ''Content-Type'' ''application/json'' [], rq_body = Some (json_stringify body)\<rparr>"

definition post_body :: "string \<Rightarrow> json \<Rightarrow> Request" where
  "post_body url body = \<lparr>rq_input = url, rq_method = Some ''POST'', rq_headers = [], rq_body = Some (json_stringify body)\<rparr>"

text \<open>\<open>`${path}?${params.toString()}`\<close>, and the parameters every page asks for.\<close>

definition url_with :: "string \<Rightarrow> params \<Rightarrow> string" where
  "url_with path ps = path @ ''?'' @ usp_to_string ps"

definition page_query :: "int \<Rightarrow> int \<Rightarrow> params" where
  "page_query page perPage = [(''page'', int_to_string page), (''per_page'', int_to_string perPage)]"

definition append_all :: "string \<Rightarrow> string list \<Rightarrow> params \<Rightarrow> params" where
  "append_all k vs ps = foldl (\<lambda>ps v. usp_append k v ps) ps vs"

definition set_opt :: "string \<Rightarrow> string option \<Rightarrow> params \<Rightarrow> params" where
  "set_opt k v ps = (case v of None \<Rightarrow> ps | Some s \<Rightarrow> usp_set k s ps)"

text \<open>\<open>if (v?.trim()) params.set(k, v.trim())\<close>.\<close>

definition set_trimmed :: "string \<Rightarrow> string option \<Rightarrow> params \<Rightarrow> params" where
  "set_trimmed k v ps = (case map_option js_trim v of Some t \<Rightarrow> if t \<noteq> [] then usp_set k t ps else ps | None \<Rightarrow> ps)"

definition str_member :: "string \<Rightarrow> string option \<Rightarrow> (string \<times> json) list" where
  "str_member k v = (case v of None \<Rightarrow> [] | Some s \<Rightarrow> [(k, JStr s)])"

definition bool_member :: "string \<Rightarrow> bool option \<Rightarrow> (string \<times> json) list" where
  "bool_member k v = (case v of None \<Rightarrow> [] | Some b \<Rightarrow> [(k, JBool b)])"

definition json_int :: "int \<Rightarrow> json" where
  "json_int i = JNum (num_of_int i)"

definition request_checked :: "'w Env \<Rightarrow> string \<Rightarrow> Request \<Rightarrow> ('w, unit) async" where
  "request_checked env message rq = await (env_fetch env rq) (\<lambda>res.
     if \<not> rs_ok res then async_throw (new_error (message @ int_to_string (rs_status res))) else async_return ())"

section \<open>Pages of request logs\<close>

definition normalizeRequestLogFacets :: "ServerRequestLogFacets option \<Rightarrow> RequestLogFacets" where
  "normalizeRequestLogFacets value =
     (let opts = (\<lambda>f. map (\<lambda>o1. \<lparr>lfo_value = slfo_value o1, lfo_count = slfo_count o1\<rparr>) (nullish f [])) in
      \<lparr>rlf_results = opts (Option.bind value srlf_results),
       rlf_keyEffects = opts (case Option.bind value srlf_keyEffects of Some x \<Rightarrow> Some x | None \<Rightarrow> Option.bind value srlf_key_effects),
       rlf_tokens = opts (Option.bind value srlf_tokens),
       rlf_keys = opts (Option.bind value srlf_keys)\<rparr>)"

definition normalizeRequestLogsPage :: "ServerRequestLogsPage \<Rightarrow> RequestLogsPage" where
  "normalizeRequestLogsPage value = \<lparr>rlp_items = nullish (srlp_items value) [], rlp_total = nullish (srlp_total value) 0,
     rlp_page = nullish (srlp_page value) 1,
     rlp_perPage = nullish (srlp_perPage value) (nullish (srlp_per_page value) 20),
     rlp_requestKindOptions = nullish (srlp_requestKindOptions value) (nullish (srlp_request_kind_options value) []),
     rlp_facets = normalizeRequestLogFacets (srlp_facets value)\<rparr>"

fun result_filter_str :: "LogResultFilter \<Rightarrow> string" where
  "result_filter_str LR_success = ''success''"
| "result_filter_str LR_error = ''error''"
| "result_filter_str LR_quota_exhausted = ''quota_exhausted''"

definition appendRequestLogsPageFilters :: "params \<Rightarrow> RequestLogsPageQuery \<Rightarrow> params" where
  "appendRequestLogsPageFilters params query =
     (let p1 = append_all ''request_kind'' (filter (\<lambda>k. k \<noteq> []) (map js_trim (nullish (rlpq_requestKinds query) []))) params;
          p2 = set_opt ''result'' (map_option result_filter_str (rlpq_result query)) p1;
          p3 = set_trimmed ''key_effect'' (rlpq_keyEffect query) p2;
          p4 = set_opt ''operational_class'' (map_option class_str (rlpq_operationalClass query)) p3;
          p5 = (if nullish (rlpq_includeBodies query) False then usp_set ''include_bodies'' ''true'' p4 else p4);
          p6 = set_trimmed ''auth_token_id'' (rlpq_tokenId query) p5;
          p7 = set_trimmed ''key_id'' (rlpq_keyId query) p6;
          p8 = set_opt ''since'' (map_option int_to_string (rlpq_since query)) p7;
          p9 = set_trimmed ''since'' (rlpq_sinceIso query) p8
      in set_trimmed ''until'' (rlpq_untilIso query) p9)"

definition logs_page_params :: "RequestLogsPageQuery \<Rightarrow> params" where
  "logs_page_params query =
     appendRequestLogsPageFilters (page_query (nullish (rlpq_page query) 1) (nullish (rlpq_perPage query) 20)) query"

section \<open>Endpoints\<close>

definition fetchVersion ::
  "'w Env \<Rightarrow> (json \<Rightarrow> VersionInfo) \<Rightarrow> ('w, VersionInfo) async" where
  "fetchVersion env as_T = requestJson env as_T (get_request ''/api/version'')"

definition fetchSummary ::
  "'w Env \<Rightarrow> (json \<Rightarrow> Summary) \<Rightarrow> ('w, Summary) async" where
  "fetchSummary env as_T = requestJson env as_T (get_request ''/api/summary'')"

definition fetchSummaryWindows ::
  "'w Env \<Rightarrow> (json \<Rightarrow> SummaryWindowsResponse) \<Rightarrow> ('w, SummaryWindowsResponse) async" where
  "fetchSummaryWindows env as_T = requestJson env as_T (get_request ''/api/summary/windows'')"

definition fetchPublicMetrics ::
  "'w Env \<Rightarrow> (json \<Rightarrow> PublicMetrics) \<Rightarrow> ('w, PublicMetrics) async" where
  "fetchPublicMetrics env as_T = requestJson env as_T (get_request ''/api/public/metrics'')"

definition fetchTokenMetrics ::
  "'w Env \<Rightarrow> (json \<Rightarrow> TokenMetrics) \<Rightarrow> string \<Rightarrow> ('w, TokenMetrics) async" where
  "fetchTokenMetrics env as_T token = requestJson env as_T (get_request (url_with ''/api/token/metrics'' [(''token'', token)]))"

definition public_token_log :: "ServerPublicTokenLog \<Rightarrow> PublicTokenLog" where
  "public_token_log it = \<lparr>ptl_id = sptl_id it, ptl_method = sptl_method it, ptl_path = sptl_path it, ptl_query = sptl_query it,
     ptl_http_status = sptl_httpStatus it, ptl_mcp_status = sptl_mcpStatus it, ptl_result_status = sptl_resultStatus it,
     ptl_error_message = sptl_errorMessage it, ptl_created_at = sptl_createdAt it\<rparr>"

definition fetchPublicLogs ::
  "'w Env \<Rightarrow> (json \<Rightarrow> ServerPublicTokenLog list) \<Rightarrow> string \<Rightarrow> int \<Rightarrow> ('w, PublicTokenLog list) async" where
  "fetchPublicLogs env as_T token limit =
     async_then (requestJson env as_T (get_request (url_with ''/api/public/logs'' [(''token'', token), (''limit'', int_to_string limit)])))
       (map public_token_log)"

record ApiKeysOptions =
  ako_groups :: "string list option"
  ako_statuses :: "string list option"
  ako_registrationIp :: "string option"
  ako_regions :: "string list option"

definition api_keys_params ::
  "int \<Rightarrow> int \<Rightarrow> ApiKeysOptions option \<Rightarrow> params" where
  "api_keys_params page perPage options =
     (let p0 = page_query page perPage;
          p1 = append_all ''group'' (map js_trim (nullish (Option.bind options ako_groups) [])) p0;
          p2 = append_all ''status'' (filter (\<lambda>s. s \<noteq> []) (map (\<lambda>s. js_lower (js_trim s)) (nullish (Option.bind options ako_statuses) []))) p1;
          p3 = set_trimmed ''registration_ip'' (Option.bind options ako_registrationIp) p2
      in append_all ''region'' (filter (\<lambda>s. s \<noteq> []) (map js_trim (nullish (Option.bind options ako_regions) []))) p3)"

definition fetchApiKeys ::
  "'w Env \<Rightarrow> (json \<Rightarrow> PaginatedApiKeys) \<Rightarrow> int \<Rightarrow> int \<Rightarrow> ApiKeysOptions option \<Rightarrow> ('w, PaginatedApiKeys) async" where
  "fetchApiKeys env as_T page perPage options = requestJson env as_T (get_request (url_with ''/api/keys'' (api_keys_params page perPage options)))"

definition fetchApiKeyDetail ::
  "'w Env \<Rightarrow> (json \<Rightarrow> ApiKeyStats) \<Rightarrow> string \<Rightarrow> ('w, ApiKeyStats) async" where
  "fetchApiKeyDetail env as_T id0 = requestJson env as_T (get_request (''/api/keys/'' @ encodeURIComponent id0))"

definition fetchApiKeySecret ::
  "'w Env \<Rightarrow> (json \<Rightarrow> ApiKeySecret) \<Rightarrow> string \<Rightarrow> ('w, ApiKeySecret) async" where
  "fetchApiKeySecret env as_T id0 = requestJson env as_T (get_request (''/api/keys/'' @ encodeURIComponent id0 @ ''/secret''))"

text \<open>\<open>syncApiKeyUsage\<close> reads the body of a failed response as JSON and, when that fails, as text; but a body can be
  read only once, so the second read fails and leaves the empty text.\<close>

definition sync_failure_message ::
  "(string \<Rightarrow> js_error) \<Rightarrow> Response \<Rightarrow> string" where
  "sync_failure_message pe res = (case rs_json pe res of
     Inr data \<Rightarrow>
       (let detail = (if is_record data then jprop data ''detail'' else None);
            err = (if is_record data then jprop data ''error'' else None);
            message = (if present detail then detail else if present err then err else Some (JStr []))
        in if truthy message then json_to_string (the message) else [])
   | Inl _ \<Rightarrow> catch (Inl (new_error ''body used already'')) [])"

definition syncApiKeyUsage ::
  "'w Env \<Rightarrow> string \<Rightarrow> ('w, unit) async" where
  "syncApiKeyUsage env id0 =
     await (env_fetch env (call ''POST'' (''/api/keys/'' @ encodeURIComponent id0 @ ''/sync-usage''))) (\<lambda>res.
       if rs_ok res then async_return ()
       else async_throw (new_error (or_str (sync_failure_message (env_parse_error env) res) ''Failed to sync key usage'' @
         '' (HTTP '' @ int_to_string (rs_status res) @ '')'')))"

definition fetchProfile ::
  "'w Env \<Rightarrow> (json \<Rightarrow> Profile) \<Rightarrow> ('w, Profile) async" where
  "fetchProfile env as_T = requestJson env as_T (get_request ''/api/profile'')"

definition fetchAdminRegistrationSettings ::
  "'w Env \<Rightarrow> (json \<Rightarrow> AdminRegistrationSettings) \<Rightarrow> ('w, AdminRegistrationSettings) async" where
  "fetchAdminRegistrationSettings env as_T = requestJson env as_T (get_request ''/api/admin/registration'')"

definition updateAdminRegistrationSettings ::
  "'w Env \<Rightarrow> (json \<Rightarrow> AdminRegistrationSettings) \<Rightarrow> bool \<Rightarrow> ('w, AdminRegistrationSettings) async" where
  "updateAdminRegistrationSettings env as_T allowRegistration =
     requestJson env as_T (send_json ''PATCH'' ''/api/admin/registration'' (JObj [(''allowRegistration'', JBool allowRegistration)]))"

definition fetchUserToken ::
  "'w Env \<Rightarrow> (json \<Rightarrow> UserTokenResponse) \<Rightarrow> ('w, UserTokenResponse) async" where
  "fetchUserToken env as_T = requestJson env as_T (get_request ''/api/user/token'')"

definition fetchUserDashboard ::
  "'w Env \<Rightarrow> (json \<Rightarrow> UserDashboard) \<Rightarrow> ('w, UserDashboard) async" where
  "fetchUserDashboard env as_T = requestJson env as_T (get_request ''/api/user/dashboard'')"

definition fetchUserTokens ::
  "'w Env \<Rightarrow> (json \<Rightarrow> UserTokenSummary list) \<Rightarrow> ('w, UserTokenSummary list) async" where
  "fetchUserTokens env as_T = requestJson env as_T (get_request ''/api/user/tokens'')"

definition fetchUserTokenDetail ::
  "'w Env \<Rightarrow> (json \<Rightarrow> UserTokenSummary) \<Rightarrow> string \<Rightarrow> ('w, UserTokenSummary) async" where
  "fetchUserTokenDetail env as_T id0 = requestJson env as_T (get_request (''/api/user/tokens/'' @ encodeURIComponent id0))"

definition fetchUserTokenSecret ::
  "'w Env \<Rightarrow> (json \<Rightarrow> UserTokenResponse) \<Rightarrow> string \<Rightarrow> ('w, UserTokenResponse) async" where
  "fetchUserTokenSecret env as_T id0 = requestJson env as_T (get_request (''/api/user/tokens/'' @ encodeURIComponent id0 @ ''/secret''))"

definition fetchUserTokenLogs ::
  "'w Env \<Rightarrow> (json \<Rightarrow> ServerPublicTokenLog list) \<Rightarrow> string \<Rightarrow> int \<Rightarrow> ('w, PublicTokenLog list) async" where
  "fetchUserTokenLogs env as_T id0 limit =
     async_then (requestJson env as_T (get_request (url_with (''/api/user/tokens/'' @ encodeURIComponent id0 @ ''/logs'')
       [(''limit'', int_to_string limit)]))) (map public_token_log)"

section \<open>MCP probes\<close>

definition buildMcpProbeHeaders :: "('a ProbeMcpRequestContext_scheme) \<Rightarrow> headers" where
  "buildMcpProbeHeaders context0 =
     (let h1 = (if truthy_str (pmrc_protocolVersion context0)
                then headers_set ''Mcp-Protocol-Version'' (the (pmrc_protocolVersion context0)) [] else [])
      in if truthy_str (pmrc_sessionId context0) then headers_set ''Mcp-Session-Id'' (the (pmrc_sessionId context0)) h1 else h1)"

definition resolveNegotiatedProtocolVersion :: "json \<Rightarrow> string option \<Rightarrow> string option" where
  "resolveNegotiatedProtocolVersion payload fallback =
     (case text_of (opt_prop (asRecord (jprop payload ''result'')) ''protocolVersion'') of
        Some v \<Rightarrow> Some v
      | None \<Rightarrow> fallback)"

definition toProbeMcpEnvelopeResult :: "json \<Rightarrow> int \<Rightarrow> string option \<Rightarrow> string option \<Rightarrow> ProbeMcpEnvelopeResult" where
  "toProbeMcpEnvelopeResult payload status sessionId fallbackProtocolVersion =
     \<lparr>pmer_payload = payload,
      pmer_negotiatedProtocolVersion = resolveNegotiatedProtocolVersion payload fallbackProtocolVersion,
      pmer_sessionId = sessionId, pmer_status = status\<rparr>"

text \<open>The request of a probe: a JSON-RPC call; \<open>id\<close> is left out when the context has none.\<close>

definition mcp_request :: "('a ProbeMcpRequestContext_scheme) \<Rightarrow> (string \<times> json) list \<Rightarrow> Request" where
  "mcp_request context0 members = \<lparr>rq_input = ''/mcp'', rq_method = Some ''POST'', rq_headers = buildMcpProbeHeaders context0,
     rq_body = Some (json_stringify (JObj members))\<rparr>"

definition jsonrpc_call :: "('a ProbeMcpRequestContext_scheme) \<Rightarrow> string \<Rightarrow> (string \<times> json) list \<Rightarrow> (string \<times> json) list" where
  "jsonrpc_call context0 meth params = [(''jsonrpc'', JStr ''2.0'')] @ str_member ''id'' (pmrc_requestId context0) @ [(''method'', JStr meth)] @ params"

definition envelope_result :: "string option \<Rightarrow> json \<times> McpProbeResponseMetadata \<Rightarrow> ProbeMcpEnvelopeResult" where
  "envelope_result fallback = (\<lambda>(payload, md). toProbeMcpEnvelopeResult payload (md_status md) (md_sessionId md) fallback)"

definition probeMcpInitialize :: "'w Env \<Rightarrow> string \<Rightarrow> ProbeMcpInitializeContext \<Rightarrow> ('w, ProbeMcpEnvelopeResult) async" where
  "probeMcpInitialize env token context0 =
     (let version = nullish (pmrc_protocolVersion context0) ''2025-03-26'';
          client = nullish (map_option js_trim (pmic_clientVersion context0)) []
      in async_then (requestMcpProbeEnvelopeWithToken env token (mcp_request context0 (jsonrpc_call context0 ''initialize''
           [(''params'', JObj [(''protocolVersion'', JStr version), (''capabilities'', JObj []),
              (''clientInfo'', JObj [(''name'', JStr ''Tavily Hikari UserConsole Probe''), (''version'', JStr (or_str client ''dev''))])])])))
         (envelope_result (Some version)))"

definition probeMcpInitialized :: "'w Env \<Rightarrow> string \<Rightarrow> ProbeMcpRequestContext \<Rightarrow> ('w, ProbeMcpNotificationResult) async" where
  "probeMcpInitialized env token context0 =
     await (requestMcpProbeNotificationWithToken env token (mcp_request context0
         [(''jsonrpc'', JStr ''2.0''), (''method'', JStr ''notifications/initialized'')])) (\<lambda>(payload, md).
       case getProbeEnvelopeError (Some payload) of
         Some err \<Rightarrow> async_throw (new_error err)
       | None \<Rightarrow> async_return \<lparr>pmnr_sessionId = md_sessionId md, pmnr_status = md_status md\<rparr>)"

definition probeMcpPing :: "'w Env \<Rightarrow> string \<Rightarrow> ProbeMcpRequestContext \<Rightarrow> ('w, ProbeMcpEnvelopeResult) async" where
  "probeMcpPing env token context0 =
     async_then (requestMcpProbeEnvelopeWithToken env token (mcp_request context0 (jsonrpc_call context0 ''ping'' [])))
       (envelope_result (pmrc_protocolVersion context0))"

definition probeMcpToolsList :: "'w Env \<Rightarrow> string \<Rightarrow> ProbeMcpRequestContext \<Rightarrow> ('w, ProbeMcpEnvelopeResult) async" where
  "probeMcpToolsList env token context0 =
     async_then (requestMcpProbeEnvelopeWithToken env token (mcp_request context0 (jsonrpc_call context0 ''tools/list'' [])))
       (envelope_result (pmrc_protocolVersion context0))"

definition probeMcpToolsCall :: "'w Env \<Rightarrow> string \<Rightarrow> string \<Rightarrow> json \<Rightarrow> ProbeMcpRequestContext \<Rightarrow> ('w, ProbeMcpEnvelopeResult) async" where
  "probeMcpToolsCall env token toolName argumentsPayload context0 =
     async_then (requestMcpProbeEnvelopeWithToken env token (mcp_request context0 (jsonrpc_call context0 ''tools/call''
         [(''params'', JObj [(''name'', JStr toolName), (''arguments'', argumentsPayload)])])))
       (envelope_result (pmrc_protocolVersion context0))"

section \<open>Endpoints of the Tavily API, of keys and of users\<close>

definition probeApiTavilySearch ::
  "'w Env \<Rightarrow> string \<Rightarrow> json \<Rightarrow> ('w, json) async" where
  "probeApiTavilySearch env token payload = requestJsonWithToken env (\<lambda>j. j) token (post_body ''/api/tavily/search'' payload)"

definition probeApiTavilyExtract ::
  "'w Env \<Rightarrow> string \<Rightarrow> json \<Rightarrow> ('w, json) async" where
  "probeApiTavilyExtract env token payload = requestJsonWithToken env (\<lambda>j. j) token (post_body ''/api/tavily/extract'' payload)"

definition probeApiTavilyCrawl ::
  "'w Env \<Rightarrow> string \<Rightarrow> json \<Rightarrow> ('w, json) async" where
  "probeApiTavilyCrawl env token payload = requestJsonWithToken env (\<lambda>j. j) token (post_body ''/api/tavily/crawl'' payload)"

definition probeApiTavilyMap ::
  "'w Env \<Rightarrow> string \<Rightarrow> json \<Rightarrow> ('w, json) async" where
  "probeApiTavilyMap env token payload = requestJsonWithToken env (\<lambda>j. j) token (post_body ''/api/tavily/map'' payload)"

definition probeApiTavilyResearch ::
  "'w Env \<Rightarrow> string \<Rightarrow> json \<Rightarrow> ('w, json) async" where
  "probeApiTavilyResearch env token payload = requestJsonWithToken env (\<lambda>j. j) token (post_body ''/api/tavily/research'' payload)"

definition probeApiTavilyResearchResult ::
  "'w Env \<Rightarrow> string \<Rightarrow> string \<Rightarrow> ('w, json) async" where
  "probeApiTavilyResearchResult env token requestId =
     requestJsonWithToken env (\<lambda>j. j) token (call ''GET'' (''/api/tavily/research/'' @ encodeURIComponent requestId))"

definition group_member ::
  "string option \<Rightarrow> (string \<times> json) list" where
  "group_member grp = (case map_option js_trim grp of Some g \<Rightarrow> if length g > 0 then [(''group'', JStr g)] else [] | None \<Rightarrow> [])"

definition addApiKey ::
  "'w Env \<Rightarrow> (json \<Rightarrow> CreateKeyResponse) \<Rightarrow> string \<Rightarrow> string option \<Rightarrow> ('w, CreateKeyResponse) async" where
  "addApiKey env as_T apiKey grp =
     requestJson env as_T (send_json ''POST'' ''/api/keys'' (JObj ((''api_key'', JStr apiKey) # group_member grp)))"

definition nullable_member :: "string \<Rightarrow> string option option \<Rightarrow> (string \<times> json) list" where
  "nullable_member k v = (case v of None \<Rightarrow> [] | Some None \<Rightarrow> [(k, JNull)] | Some (Some s) \<Rightarrow> [(k, JStr s)])"

definition batch_item_json :: "AddApiKeysBatchItem \<Rightarrow> json" where
  "batch_item_json i = JObj ((''api_key'', JStr (aakbi_api_key i)) # nullable_member ''registration_ip'' (aakbi_registration_ip i) @
     nullable_member ''assigned_proxy_key'' (aakbi_assigned_proxy_key i))"

definition addApiKeysBatch ::
  "'w Env \<Rightarrow> (json \<Rightarrow> AddApiKeysBatchResponse) \<Rightarrow> AddApiKeysBatchItem list \<Rightarrow> string option \<Rightarrow> string list option \<Rightarrow> ('w, AddApiKeysBatchResponse) async" where
  "addApiKeysBatch env as_T items grp exhaustedApiKeys =
     requestJson env as_T (send_json ''POST'' ''/api/keys/batch'' (JObj ([(''items'', JArr (map batch_item_json items))] @ group_member grp @
       (case exhaustedApiKeys of Some ks \<Rightarrow> if length ks > 0 then [(''exhausted_api_keys'', JArr (map JStr ks))] else [] | None \<Rightarrow> []))))"

definition deleteApiKey ::
  "'w Env \<Rightarrow> string \<Rightarrow> ('w, unit) async" where
  "deleteApiKey env id0 =
     request_checked env ''Failed to delete key: '' (call ''DELETE'' (''/api/keys/'' @ encodeURIComponent id0))"

fun key_status_str :: "KeyAdminStatus \<Rightarrow> string" where
  "key_status_str KS_active = ''active''"
| "key_status_str KS_disabled = ''disabled''"

definition setKeyStatus ::
  "'w Env \<Rightarrow> string \<Rightarrow> KeyAdminStatus \<Rightarrow> ('w, unit) async" where
  "setKeyStatus env id0 status =
     request_checked env ''Failed to update key status: '' (send_json ''PATCH'' (''/api/keys/'' @ encodeURIComponent id0 @ ''/status'') (JObj [(''status'', JStr (key_status_str status))]))"

definition clearApiKeyQuarantine ::
  "'w Env \<Rightarrow> string \<Rightarrow> ('w, unit) async" where
  "clearApiKeyQuarantine env id0 =
     request_checked env ''Failed to clear key quarantine: '' (call ''DELETE'' (''/api/keys/'' @ encodeURIComponent id0 @ ''/quarantine''))"

definition fetchKeyMetrics ::
  "'w Env \<Rightarrow> (json \<Rightarrow> KeySummary) \<Rightarrow> string \<Rightarrow> string option \<Rightarrow> int option \<Rightarrow> ('w, KeySummary) async" where
  "fetchKeyMetrics env as_T id0 period since = requestJson env as_T (get_request (url_with (''/api/keys/'' @ encodeURIComponent id0 @ ''/metrics'') (set_opt ''since'' (map_option int_to_string since) (if truthy_str period then [(''period'', the period)] else []))))"

definition validate_item_json :: "ValidateKeyInput \<Rightarrow> json" where
  "validate_item_json i = JObj ((''api_key'', JStr (vki_api_key i)) # nullable_member ''registration_ip'' (vki_registration_ip i))"

definition validateApiKeys ::
  "'w Env \<Rightarrow> (json \<Rightarrow> ValidateKeysResponse) \<Rightarrow> ValidateKeyInput list \<Rightarrow> ('w, ValidateKeysResponse) async" where
  "validateApiKeys env as_T items =
     requestJson env as_T (send_json ''POST'' ''/api/keys/validate'' (JObj [(''items'', JArr (map validate_item_json items))]))"

definition fetchKeyLogs ::
  "'w Env \<Rightarrow> (json \<Rightarrow> RequestLog list) \<Rightarrow> string \<Rightarrow> int \<Rightarrow> int option \<Rightarrow> ('w, RequestLog list) async" where
  "fetchKeyLogs env as_T id0 limit since = requestJson env as_T (get_request (url_with (''/api/keys/'' @ encodeURIComponent id0 @ ''/logs'') (set_opt ''since'' (map_option int_to_string since) [(''limit'', int_to_string limit)])))"

definition fetchKeyLogsPage ::
  "'w Env \<Rightarrow> (json \<Rightarrow> ServerRequestLogsPage) \<Rightarrow> string \<Rightarrow> RequestLogsPageQuery \<Rightarrow> ('w, RequestLogsPage) async" where
  "fetchKeyLogsPage env as_T id0 query =
     async_then (requestJson env as_T (get_request (url_with (''/api/keys/'' @ encodeURIComponent id0 @ ''/logs/page'') (logs_page_params query)))) normalizeRequestLogsPage"

definition fetchKeyLogDetails ::
  "'w Env \<Rightarrow> (json \<Rightarrow> RequestLogBodies) \<Rightarrow> string \<Rightarrow> int \<Rightarrow> ('w, RequestLogBodies) async" where
  "fetchKeyLogDetails env as_T id0 logId = requestJson env as_T (get_request (''/api/keys/'' @ encodeURIComponent id0 @ ''/logs/'' @ encodeURIComponent (int_to_string logId) @ ''/details''))"

definition fetchKeyStickyUsers ::
  "'w Env \<Rightarrow> (json \<Rightarrow> StickyUsersResponse) \<Rightarrow> string \<Rightarrow> int \<Rightarrow> int \<Rightarrow> ('w, StickyUsersResponse) async" where
  "fetchKeyStickyUsers env as_T id0 page perPage = requestJson env as_T (get_request (url_with (''/api/keys/'' @ encodeURIComponent id0 @ ''/sticky-users'') (page_query page perPage)))"

definition fetchKeyStickyNodes ::
  "'w Env \<Rightarrow> (json \<Rightarrow> StickyNodesResponse) \<Rightarrow> string \<Rightarrow> ('w, StickyNodesResponse) async" where
  "fetchKeyStickyNodes env as_T id0 = requestJson env as_T (get_request (''/api/keys/'' @ encodeURIComponent id0 @ ''/sticky-nodes''))"

definition fetchRequestLogsPage ::
  "'w Env \<Rightarrow> (json \<Rightarrow> ServerRequestLogsPage) \<Rightarrow> RequestLogsPageQuery \<Rightarrow> ('w, RequestLogsPage) async" where
  "fetchRequestLogsPage env as_T query =
     async_then (requestJson env as_T (get_request (url_with ''/api/logs'' (logs_page_params query)))) normalizeRequestLogsPage"

definition fetchRequestLogs ::
  "'w Env \<Rightarrow> (json \<Rightarrow> ServerRequestLogsPage) \<Rightarrow> int \<Rightarrow> int \<Rightarrow> LogResultFilter option \<Rightarrow> LogOperationalClass option \<Rightarrow> ('w, RequestLogsPage) async" where
  "fetchRequestLogs env as_T page perPage result operationalClass =
     fetchRequestLogsPage env as_T \<lparr>rlpq_page = Some page, rlpq_perPage = Some perPage, rlpq_requestKinds = None, rlpq_result = result,
       rlpq_keyEffect = None, rlpq_operationalClass = operationalClass, rlpq_includeBodies = Some True, rlpq_tokenId = None,
       rlpq_keyId = None, rlpq_since = None, rlpq_sinceIso = None, rlpq_untilIso = None\<rparr>"

definition fetchRequestLogDetails ::
  "'w Env \<Rightarrow> (json \<Rightarrow> RequestLogBodies) \<Rightarrow> int \<Rightarrow> ('w, RequestLogBodies) async" where
  "fetchRequestLogDetails env as_T logId = requestJson env as_T (get_request (''/api/logs/'' @ encodeURIComponent (int_to_string logId) @ ''/details''))"

fun job_group_str :: "JobGroup \<Rightarrow> string" where
  "job_group_str JG_all = ''all''"
| "job_group_str JG_quota = ''quota''"
| "job_group_str JG_usage = ''usage''"
| "job_group_str JG_logs = ''logs''"
| "job_group_str JG_geo = ''geo''"

definition job_log_view :: "ServerJobLogView \<Rightarrow> JobLogView" where
  "job_log_view item = \<lparr>jlv_id = sjlv_id item, jlv_job_type = sjlv_jobType item, jlv_key_id = sjlv_keyId item,
     jlv_key_group = sjlv_keyGroup item, jlv_status = sjlv_status item, jlv_attempt = sjlv_attempt item,
     jlv_message = sjlv_message item, jlv_started_at = sjlv_startedAt item, jlv_finished_at = sjlv_finishedAt item\<rparr>"

definition fetchJobs ::
  "'w Env \<Rightarrow> (json \<Rightarrow> ServerJobLogView Paginated) \<Rightarrow> int \<Rightarrow> int \<Rightarrow> JobGroup \<Rightarrow> ('w, JobLogView Paginated) async" where
  "fetchJobs env as_T page perPage grp =
     async_then (requestJson env as_T (get_request (url_with ''/api/jobs''
         (if grp \<noteq> JG_all then usp_set ''group'' (job_group_str grp) (page_query page perPage) else page_query page perPage))))
       (\<lambda>data. \<lparr>pg_items = map job_log_view (pg_items data), pg_total = pg_total data, pg_page = pg_page data, pg_perPage = pg_perPage data\<rparr>)"

definition admin_users_params :: "int \<Rightarrow> int \<Rightarrow> string option \<Rightarrow> string option \<Rightarrow> AdminUsersSortField option \<Rightarrow> SortDirection option \<Rightarrow> params" where
  "admin_users_params page perPage query tagId sort_by order =
     set_sort (map_option users_sort_str sort_by) order (set_trimmed ''tagId'' tagId (set_trimmed ''q'' query (page_query page perPage)))"

definition unbound_usage_params :: "int \<Rightarrow> int \<Rightarrow> string option \<Rightarrow> AdminUnboundTokenUsageSortField option \<Rightarrow> SortDirection option \<Rightarrow> params" where
  "unbound_usage_params page perPage query sort_by order =
     set_sort (map_option unbound_sort_str sort_by) order (set_trimmed ''q'' query (page_query page perPage))"

definition fetchAdminUsers ::
  "'w Env \<Rightarrow> (json \<Rightarrow> AdminUserSummary Paginated) \<Rightarrow> int \<Rightarrow> int \<Rightarrow> string option \<Rightarrow> string option \<Rightarrow> AdminUsersSortField option \<Rightarrow> SortDirection option \<Rightarrow> ('w, AdminUserSummary Paginated) async" where
  "fetchAdminUsers env as_T page perPage query tagId sort_by order = requestJson env as_T (get_request (url_with ''/api/users'' (admin_users_params page perPage query tagId sort_by order)))"

definition fetchAdminUnboundTokenUsage ::
  "'w Env \<Rightarrow> (json \<Rightarrow> AdminUnboundTokenUsageSummary Paginated) \<Rightarrow> int \<Rightarrow> int \<Rightarrow> string option \<Rightarrow> AdminUnboundTokenUsageSortField option \<Rightarrow> SortDirection option \<Rightarrow> ('w, AdminUnboundTokenUsageSummary Paginated) async" where
  "fetchAdminUnboundTokenUsage env as_T page perPage query sort_by order = requestJson env as_T (get_request (url_with ''/api/tokens/unbound-usage'' (unbound_usage_params page perPage query sort_by order)))"

definition fetchAdminUserBrokenKeys ::
  "'w Env \<Rightarrow> (json \<Rightarrow> MonthlyBrokenKeyDetail Paginated) \<Rightarrow> string \<Rightarrow> int \<Rightarrow> int \<Rightarrow> ('w, MonthlyBrokenKeyDetail Paginated) async" where
  "fetchAdminUserBrokenKeys env as_T id0 page perPage = requestJson env as_T (get_request (url_with (''/api/users/'' @ encodeURIComponent id0 @ ''/broken-keys'') (page_query page perPage)))"

definition fetchTokenBrokenKeys ::
  "'w Env \<Rightarrow> (json \<Rightarrow> MonthlyBrokenKeyDetail Paginated) \<Rightarrow> string \<Rightarrow> int \<Rightarrow> int \<Rightarrow> ('w, MonthlyBrokenKeyDetail Paginated) async" where
  "fetchTokenBrokenKeys env as_T id0 page perPage = requestJson env as_T (get_request (url_with (''/api/tokens/'' @ encodeURIComponent id0 @ ''/broken-keys'') (page_query page perPage)))"

definition fetchAdminUserDetail ::
  "'w Env \<Rightarrow> (json \<Rightarrow> AdminUserDetail) \<Rightarrow> string \<Rightarrow> ('w, AdminUserDetail) async" where
  "fetchAdminUserDetail env as_T id0 = requestJson env as_T (get_request (''/api/users/'' @ encodeURIComponent id0))"

definition quota_payload_json :: "UpdateUserQuotaPayload \<Rightarrow> json" where
  "quota_payload_json p = JObj [(''hourlyAnyLimit'', json_int (uuqp_hourlyAnyLimit p)), (''hourlyLimit'', json_int (uuqp_hourlyLimit p)),
     (''dailyLimit'', json_int (uuqp_dailyLimit p)), (''monthlyLimit'', json_int (uuqp_monthlyLimit p))]"

definition tag_payload_json :: "UpsertAdminUserTagPayload \<Rightarrow> json" where
  "tag_payload_json p = JObj [(''name'', JStr (uautp_name p)), (''displayName'', JStr (uautp_displayName p)),
     (''icon'', case uautp_icon p of None \<Rightarrow> JNull | Some s \<Rightarrow> JStr s), (''effectKind'', JStr (uautp_effectKind p)),
     (''hourlyAnyDelta'', json_int (uautp_hourlyAnyDelta p)), (''hourlyDelta'', json_int (uautp_hourlyDelta p)),
     (''dailyDelta'', json_int (uautp_dailyDelta p)), (''monthlyDelta'', json_int (uautp_monthlyDelta p))]"

definition updateAdminUserQuota ::
  "'w Env \<Rightarrow> string \<Rightarrow> UpdateUserQuotaPayload \<Rightarrow> ('w, unit) async" where
  "updateAdminUserQuota env id0 payload =
     requestNoContent env (send_json ''PATCH'' (''/api/users/'' @ encodeURIComponent id0 @ ''/quota'') (quota_payload_json payload))"

definition updateAdminUserBrokenKeyLimit ::
  "'w Env \<Rightarrow> string \<Rightarrow> UpdateUserBrokenKeyLimitPayload \<Rightarrow> ('w, unit) async" where
  "updateAdminUserBrokenKeyLimit env id0 payload =
     requestNoContent env (send_json ''PATCH'' (''/api/users/'' @ encodeURIComponent id0 @ ''/broken-key-limit'') (JObj [(''monthlyBrokenLimit'', json_int (uubklp_monthlyBrokenLimit payload))]))"

definition fetchAdminUserTags ::
  "'w Env \<Rightarrow> (json \<Rightarrow> AdminUserTag) \<Rightarrow> ('w, AdminUserTag list) async" where
  "fetchAdminUserTags env as_T =
     requestJson env (\<lambda>response. map as_T (as_array (jprop response ''items''))) (get_request ''/api/user-tags'')"

definition createAdminUserTag ::
  "'w Env \<Rightarrow> (json \<Rightarrow> AdminUserTag) \<Rightarrow> UpsertAdminUserTagPayload \<Rightarrow> ('w, AdminUserTag) async" where
  "createAdminUserTag env as_T payload =
     requestJson env as_T (send_json ''POST'' ''/api/user-tags'' (tag_payload_json payload))"

definition updateAdminUserTag ::
  "'w Env \<Rightarrow> (json \<Rightarrow> AdminUserTag) \<Rightarrow> string \<Rightarrow> UpsertAdminUserTagPayload \<Rightarrow> ('w, AdminUserTag) async" where
  "updateAdminUserTag env as_T id0 payload =
     requestJson env as_T (send_json ''PATCH'' (''/api/user-tags/'' @ encodeURIComponent id0) (tag_payload_json payload))"

definition deleteAdminUserTag ::
  "'w Env \<Rightarrow> string \<Rightarrow> ('w, unit) async" where
  "deleteAdminUserTag env id0 =
     requestNoContent env (call ''DELETE'' (''/api/user-tags/'' @ encodeURIComponent id0))"

definition bindAdminUserTag ::
  "'w Env \<Rightarrow> string \<Rightarrow> string \<Rightarrow> ('w, unit) async" where
  "bindAdminUserTag env userId tagId =
     requestNoContent env (send_json ''POST'' (''/api/users/'' @ encodeURIComponent userId @ ''/tags'') (JObj [(''tagId'', JStr tagId)]))"

definition unbindAdminUserTag ::
  "'w Env \<Rightarrow> string \<Rightarrow> string \<Rightarrow> ('w, unit) async" where
  "unbindAdminUserTag env userId tagId =
     requestNoContent env (call ''DELETE'' (''/api/users/'' @ encodeURIComponent userId @ ''/tags/'' @ encodeURIComponent tagId))"

definition fetchTokens ::
  "'w Env \<Rightarrow> (json \<Rightarrow> AuthToken Paginated) \<Rightarrow> int \<Rightarrow> int \<Rightarrow> string option \<Rightarrow> bool \<Rightarrow> ('w, AuthToken Paginated) async" where
  "fetchTokens env as_T page perPage grp ungrouped = requestJson env as_T (get_request (url_with ''/api/tokens'' (if ungrouped then usp_set ''no_group'' ''true'' (page_query page perPage) else set_trimmed ''group'' grp (page_query page perPage))))"

definition createToken ::
  "'w Env \<Rightarrow> (json \<Rightarrow> AuthTokenSecret) \<Rightarrow> string option \<Rightarrow> ('w, AuthTokenSecret) async" where
  "createToken env as_T note =
     requestJson env as_T (send_json ''POST'' ''/api/tokens'' (JObj (str_member ''note'' note)))"

definition deleteToken ::
  "'w Env \<Rightarrow> string \<Rightarrow> ('w, unit) async" where
  "deleteToken env id0 =
     request_checked env ''Failed to delete token: '' (call ''DELETE'' (''/api/tokens/'' @ encodeURIComponent id0))"

definition setTokenEnabled ::
  "'w Env \<Rightarrow> string \<Rightarrow> bool \<Rightarrow> ('w, unit) async" where
  "setTokenEnabled env id0 enabled =
     request_checked env ''Failed to update token status: '' (send_json ''PATCH'' (''/api/tokens/'' @ encodeURIComponent id0 @ ''/status'') (JObj [(''enabled'', JBool enabled)]))"

definition updateTokenNote ::
  "'w Env \<Rightarrow> string \<Rightarrow> string \<Rightarrow> ('w, unit) async" where
  "updateTokenNote env id0 note =
     request_checked env ''Failed to update token note: '' (send_json ''PATCH'' (''/api/tokens/'' @ encodeURIComponent id0 @ ''/note'') (JObj [(''note'', JStr note)]))"

definition fetchTokenSecret ::
  "'w Env \<Rightarrow> (json \<Rightarrow> AuthTokenSecret) \<Rightarrow> string \<Rightarrow> ('w, AuthTokenSecret) async" where
  "fetchTokenSecret env as_T id0 = requestJson env as_T (get_request (''/api/tokens/'' @ encodeURIComponent id0 @ ''/secret''))"

definition rotateTokenSecret ::
  "'w Env \<Rightarrow> (json \<Rightarrow> AuthTokenSecret) \<Rightarrow> string \<Rightarrow> ('w, AuthTokenSecret) async" where
  "rotateTokenSecret env as_T id0 =
     requestJson env as_T (call ''POST'' (''/api/tokens/'' @ encodeURIComponent id0 @ ''/secret/rotate''))"

definition createTokensBatch ::
  "'w Env \<Rightarrow> (json \<Rightarrow> BatchCreateTokensResponse) \<Rightarrow> string \<Rightarrow> int \<Rightarrow> string option \<Rightarrow> ('w, BatchCreateTokensResponse) async" where
  "createTokensBatch env as_T grp cnt note =
     requestJson env as_T (send_json ''POST'' ''/api/tokens/batch'' (JObj ([(''group'', JStr grp), (''count'', json_int cnt)] @ str_member ''note'' note)))"

definition fetchTokenGroups ::
  "'w Env \<Rightarrow> (json \<Rightarrow> TokenGroup list) \<Rightarrow> ('w, TokenGroup list) async" where
  "fetchTokenGroups env as_T = requestJson env as_T (get_request ''/api/tokens/groups'')"

definition fetchTokenHourlyBuckets ::
  "'w Env \<Rightarrow> (json \<Rightarrow> TokenHourlyBucket list) \<Rightarrow> string \<Rightarrow> int \<Rightarrow> ('w, TokenHourlyBucket list) async" where
  "fetchTokenHourlyBuckets env as_T id0 hours = requestJson env as_T (get_request (url_with (''/api/tokens/'' @ encodeURIComponent id0 @ ''/metrics/hourly'') [(''hours'', int_to_string hours)]))"

definition fetchTokenUsageSeries ::
  "'w Env \<Rightarrow> (json \<Rightarrow> TokenUsageBucket list) \<Rightarrow> string \<Rightarrow> string \<Rightarrow> string \<Rightarrow> int option \<Rightarrow> ('w, TokenUsageBucket list) async" where
  "fetchTokenUsageSeries env as_T id0 since until bucketSecs = requestJson env as_T (get_request (url_with (''/api/tokens/'' @ encodeURIComponent id0 @ ''/metrics/usage-series'') (set_opt ''bucket_secs'' (map_option int_to_string bucketSecs) [(''since'', since), (''until'', until)])))"

definition fetchTokenLogsPage ::
  "'w Env \<Rightarrow> (json \<Rightarrow> ServerRequestLogsPage) \<Rightarrow> string \<Rightarrow> RequestLogsPageQuery \<Rightarrow> ('w, RequestLogsPage) async" where
  "fetchTokenLogsPage env as_T id0 query =
     async_then (requestJson env as_T (get_request (url_with (''/api/tokens/'' @ encodeURIComponent id0 @ ''/logs/page'') (logs_page_params query)))) normalizeRequestLogsPage"

definition fetchTokenLogDetails ::
  "'w Env \<Rightarrow> (json \<Rightarrow> RequestLogBodies) \<Rightarrow> string \<Rightarrow> int \<Rightarrow> ('w, RequestLogBodies) async" where
  "fetchTokenLogDetails env as_T id0 logId = requestJson env as_T (get_request (''/api/tokens/'' @ encodeURIComponent id0 @ ''/logs/'' @ encodeURIComponent (int_to_string logId) @ ''/details''))"

definition createEmptyForwardProxySettings :: ForwardProxySettings where
  "createEmptyForwardProxySettings = \<lparr>fps_proxyUrls = [], fps_subscriptionUrls = [], fps_subscriptionUpdateIntervalSecs = 3600,
     fps_insertDirect = True, fps_egressSocks5Enabled = False, fps_egressSocks5Url = [], fps_nodes = []\<rparr>"

definition fetchForwardProxySettings ::
  "'w Env \<Rightarrow> (json \<Rightarrow> ForwardProxySettingsEnvelope) \<Rightarrow> ('w, ForwardProxySettings) async" where
  "fetchForwardProxySettings env as_T = async_then (requestJson env as_T (get_request ''/api/settings''))
     (\<lambda>response. nullish (fpse_forwardProxy response) createEmptyForwardProxySettings)"

definition settings_payload_json :: "UpdateForwardProxySettingsPayload \<Rightarrow> json" where
  "settings_payload_json p = JObj ([(''proxyUrls'', JArr (map JStr (ufpsp_proxyUrls p))),
     (''subscriptionUrls'', JArr (map JStr (ufpsp_subscriptionUrls p))),
     (''subscriptionUpdateIntervalSecs'', json_int (ufpsp_subscriptionUpdateIntervalSecs p)),
     (''insertDirect'', JBool (ufpsp_insertDirect p))] @ bool_member ''egressSocks5Enabled'' (ufpsp_egressSocks5Enabled p) @
     str_member ''egressSocks5Url'' (ufpsp_egressSocks5Url p) @ bool_member ''skipBootstrapProbe'' (ufpsp_skipBootstrapProbe p))"

fun validation_kind_str :: "ForwardProxyValidationKind \<Rightarrow> string" where
  "validation_kind_str VK_proxyUrl = ''proxyUrl''"
| "validation_kind_str VK_subscriptionUrl = ''subscriptionUrl''"

definition validation_request_json :: "ForwardProxyValidationRequest \<Rightarrow> json" where
  "validation_request_json p = JObj [(''kind'', JStr (validation_kind_str (fpvr_kind p))), (''value'', JStr (fpvr_value p))]"

definition updateForwardProxySettings ::
  "'w Env \<Rightarrow> (json \<Rightarrow> ForwardProxySettings) \<Rightarrow> UpdateForwardProxySettingsPayload \<Rightarrow> ('w, ForwardProxySettings) async" where
  "updateForwardProxySettings env as_T payload =
     requestJson env as_T (send_json ''PUT'' ''/api/settings/forward-proxy'' (settings_payload_json payload))"

definition updateForwardProxySettingsWithProgress ::
  "'w Env \<Rightarrow> UpdateForwardProxySettingsPayload \<Rightarrow> 'w \<Rightarrow> ((js_error + json) \<times> json list) \<times> 'w" where
  "updateForwardProxySettingsWithProgress env payload =
     requestForwardProxyProgress env (send_json ''PUT'' ''/api/settings/forward-proxy'' (settings_payload_json payload)) ''save''"

definition validateForwardProxyCandidate ::
  "'w Env \<Rightarrow> (json \<Rightarrow> ForwardProxyValidationResponse) \<Rightarrow> ForwardProxyValidationRequest \<Rightarrow> ('w, ForwardProxyValidationResponse) async" where
  "validateForwardProxyCandidate env as_T payload =
     requestJson env as_T (send_json ''POST'' ''/api/settings/forward-proxy/validate'' (validation_request_json payload))"

definition validateForwardProxyCandidateWithProgress ::
  "'w Env \<Rightarrow> ForwardProxyValidationRequest \<Rightarrow> 'w \<Rightarrow> ((js_error + json) \<times> json list) \<times> 'w" where
  "validateForwardProxyCandidateWithProgress env payload =
     requestForwardProxyProgress env (send_json ''POST'' ''/api/settings/forward-proxy/validate'' (validation_request_json payload)) ''validate''"

definition revalidateForwardProxyWithProgress ::
  "'w Env \<Rightarrow> 'w \<Rightarrow> ((js_error + json) \<times> json list) \<times> 'w" where
  "revalidateForwardProxyWithProgress env =
     requestForwardProxyProgress env (send_json ''POST'' ''/api/settings/forward-proxy/revalidate'' (JObj [])) ''revalidate''"

definition fetchForwardProxyStats ::
  "'w Env \<Rightarrow> (json \<Rightarrow> ForwardProxyStatsResponse) \<Rightarrow> ('w, ForwardProxyStatsResponse) async" where
  "fetchForwardProxyStats env as_T = requestJson env as_T (get_request ''/api/stats/forward-proxy'')"

definition fetchForwardProxyDashboardSummary ::
  "'w Env \<Rightarrow> (json \<Rightarrow> ForwardProxyDashboardSummaryResponse) \<Rightarrow> ('w, ForwardProxyDashboardSummaryResponse) async" where
  "fetchForwardProxyDashboardSummary env as_T = requestJson env as_T (get_request ''/api/stats/forward-proxy/summary'')"

section \<open>What is sent\<close>

text \<open>An environment that records the requests and answers each with an empty success.\<close>

definition recorder :: "Request list Env" where
  "recorder = \<lparr>env_fetch = (\<lambda>rq sent. (Inr (text_response 200 []), sent @ [rq])), env_parse_error = new_error\<rparr>"

lemma recorder_fetch [simp]: "env_fetch recorder rq sent = (Inr (text_response 200 []), sent @ [rq])"
  by (simp add: recorder_def)

text \<open>The method of a request and the decoded segments of its path.\<close>

definition decoded_target :: "Request \<Rightarrow> string option \<times> string option list" where
  "decoded_target rq = (rq_method rq, map decodeURIComponent (js_split CHR ''/'' (url_pathname (rq_input rq))))"

lemma sent_simps [simp]:
  "snd (requestNoContent recorder rq sent) = sent @ [rq]"
  "snd (requestJson recorder as_T rq sent) = sent @ [rq]"
  "snd (request_checked recorder message rq sent) = sent @ [rq]"
  by (simp_all add: requestNoContent_def requestJson_def request_checked_def async_defs split: sum.split)

lemma request_fields [simp]:
  "rq_input (get_request url) = url" "rq_method (get_request url) = None"
  "rq_input (call m url) = url" "rq_method (call m url) = Some m"
  "rq_input (send_json m url body) = url" "rq_method (send_json m url body) = Some m"
  by (simp_all add: get_request_def call_def send_json_def)

lemma decode_plain: "list_all uri_unreserved s \<Longrightarrow> decodeURIComponent s = Some s"
proof -
  assume u: "list_all uri_unreserved s"
  then have "encodeURIComponent s = s"
    by (induction s) (simp_all add: encodeURIComponent_def enc_byte_def)
  moreover have "valid_utf8 s" using u by (intro valid_utf8_ascii) (auto simp: list_all_iff uri_unreserved_lt)
  ultimately show ?thesis using decode_encode [of s] by simp
qed

lemma js_join_no_char: "c \<notin> set sep \<Longrightarrow> list_all (\<lambda>s. c \<notin> set s) xs \<Longrightarrow> c \<notin> set (js_join sep xs)"
  by (induction sep xs rule: js_join.induct) simp_all

lemma url_pathname_plain: "CHR ''?'' \<notin> set path \<Longrightarrow> url_pathname path = path"
  by (auto simp: url_pathname_def takeWhile_eq_all_conv)

lemma decoded_segments:
  assumes "segs \<noteq> []" and "list_all (\<lambda>s. CHR ''/'' \<notin> set s \<and> CHR ''?'' \<notin> set s) segs"
  shows "map decodeURIComponent (js_split CHR ''/'' (url_pathname (js_join ''/'' segs))) = map decodeURIComponent segs"
proof -
  have "CHR ''?'' \<notin> set (js_join ''/'' segs)" using assms(2) by (intro js_join_no_char) (auto simp: list_all_iff)
  moreover have "js_split CHR ''/'' (js_join ''/'' segs) = segs"
    using assms by (intro js_split_join) (auto simp: list_all_iff)
  ultimately show ?thesis by (simp add: url_pathname_plain)
qed

text \<open>A request whose path is joined from encoded identifiers and plain words goes to those identifiers.\<close>

lemma decoded_target_join:
  assumes "rq_input rq = js_join ''/'' (map (\<lambda>(raw, s). if raw then s else encodeURIComponent s) segs)" "segs \<noteq> []"
    and "list_all (\<lambda>(raw, s). if raw then list_all uri_unreserved s else valid_utf8 s) segs"
  shows "decoded_target rq = (rq_method rq, map (Some \<circ> snd) segs)"
proof -
  let ?f = "\<lambda>(raw, s). if raw then s else encodeURIComponent s"
  have seg: "CHR ''/'' \<notin> set (?f x) \<and> CHR ''?'' \<notin> set (?f x) \<and> decodeURIComponent (?f x) = Some (snd x)"
    if "x \<in> set segs" for x
  proof (cases x)
    case (Pair raw s)
    with assms(3) that have ok: "if raw then list_all uri_unreserved s else valid_utf8 s" by (auto simp: list_all_iff)
    show ?thesis
    proof (cases raw)
      case True
      have "\<not> uri_unreserved CHR ''/''" "\<not> uri_unreserved CHR ''?''" by code_simp+
      with True ok have "CHR ''/'' \<notin> set s" "CHR ''?'' \<notin> set s" by (auto simp: list_all_iff)
      moreover have "decodeURIComponent s = Some s" using True ok by (simp add: decode_plain)
      ultimately show ?thesis using True Pair by simp
    next
      case False
      with ok Pair show ?thesis using uri.enc_no_slash [of s] encode_no_query [of s] by (simp add: decode_encode)
    qed
  qed
  have "list_all (\<lambda>s. CHR ''/'' \<notin> set s \<and> CHR ''?'' \<notin> set s) (map ?f segs)"
    unfolding list_all_iff using seg by auto
  moreover have "map decodeURIComponent (map ?f segs) = map (Some \<circ> snd) segs"
    using seg by simp
  ultimately show ?thesis
    using decoded_segments [of "map (\<lambda>(raw, s). if raw then s else encodeURIComponent s) segs"] assms(1,2)
    by (simp add: decoded_target_def)
qed

lemma target_entity:
  assumes "valid_utf8 i" and "list_all uri_unreserved w"
  shows "rq_input rq = ''/api/'' @ w @ ''/'' @ encodeURIComponent i \<Longrightarrow>
      decoded_target rq = (rq_method rq, [Some [], Some ''api'', Some w, Some i])"
    and "list_all uri_unreserved v \<Longrightarrow> rq_input rq = ''/api/'' @ w @ ''/'' @ encodeURIComponent i @ ''/'' @ v \<Longrightarrow>
      decoded_target rq = (rq_method rq, [Some [], Some ''api'', Some w, Some i, Some v])"
    and "list_all uri_unreserved v \<Longrightarrow> valid_utf8 j \<Longrightarrow>
      rq_input rq = ''/api/'' @ w @ ''/'' @ encodeURIComponent i @ ''/'' @ v @ ''/'' @ encodeURIComponent j \<Longrightarrow>
      decoded_target rq = (rq_method rq, [Some [], Some ''api'', Some w, Some i, Some v, Some j])"
proof -
  have api: "list_all uri_unreserved ''api''" by code_simp
  show "rq_input rq = ''/api/'' @ w @ ''/'' @ encodeURIComponent i \<Longrightarrow>
      decoded_target rq = (rq_method rq, [Some [], Some ''api'', Some w, Some i])"
    using assms api decoded_target_join [of rq "[(True, []), (True, ''api''), (True, w), (False, i)]"] by simp
  show "list_all uri_unreserved v \<Longrightarrow> rq_input rq = ''/api/'' @ w @ ''/'' @ encodeURIComponent i @ ''/'' @ v \<Longrightarrow>
      decoded_target rq = (rq_method rq, [Some [], Some ''api'', Some w, Some i, Some v])"
    using assms api decoded_target_join [of rq "[(True, []), (True, ''api''), (True, w), (False, i), (True, v)]"] by simp
  show "list_all uri_unreserved v \<Longrightarrow> valid_utf8 j \<Longrightarrow>
      rq_input rq = ''/api/'' @ w @ ''/'' @ encodeURIComponent i @ ''/'' @ v @ ''/'' @ encodeURIComponent j \<Longrightarrow>
      decoded_target rq = (rq_method rq, [Some [], Some ''api'', Some w, Some i, Some v, Some j])"
    using assms api decoded_target_join [of rq "[(True, []), (True, ''api''), (True, w), (False, i), (True, v), (False, j)]"] by simp
qed

lemma plain_words:
  "list_all uri_unreserved ''keys''" "list_all uri_unreserved ''users''" "list_all uri_unreserved ''tokens''"
  "list_all uri_unreserved ''user-tags''" "list_all uri_unreserved ''status''" "list_all uri_unreserved ''quarantine''"
  "list_all uri_unreserved ''quota''" "list_all uri_unreserved ''broken-key-limit''" "list_all uri_unreserved ''tags''"
  "list_all uri_unreserved ''note''"
  by code_simp+

section \<open>Reading the query back\<close>

lemma usp_get_append_all: "usp_get (append_all k vs ps) k' =
    (case usp_get ps k' of Some v \<Rightarrow> Some v | None \<Rightarrow> if k' = k then (case vs of [] \<Rightarrow> None | v # _ \<Rightarrow> Some v) else None)"
  unfolding append_all_def usp_append_fold
  by (cases vs) (simp_all add: usp_get_def map_add_def map_of_constant_keys split: option.split)

lemma usp_get_set_opt [simp]: "usp_get (set_opt k v ps) k' = (if k' = k \<and> v \<noteq> None then v else usp_get ps k')"
  by (simp add: set_opt_def split: option.split)

definition trimmed :: "string option \<Rightarrow> string option" where
  "trimmed v = (case map_option js_trim v of Some t \<Rightarrow> if t \<noteq> [] then Some t else None | None \<Rightarrow> None)"

lemma set_trimmed_opt: "set_trimmed k v ps = set_opt k (trimmed v) ps"
  by (simp add: set_trimmed_def set_opt_def trimmed_def split: option.split)

lemma usp_get_all_set: "k' \<noteq> k \<Longrightarrow> usp_get_all (usp_set k v ps) k' = usp_get_all ps k'"
proof (induction k v ps rule: usp_set.induct)
  case (2 k v k1 v1 ps)
  have "usp_get_all (filter (\<lambda>(k'', _). k'' \<noteq> k) ps) k' = usp_get_all ps k'" using 2(2) by (induction ps) auto
  with 2 show ?case by auto
qed simp

lemma usp_get_all_set_opt: "k' \<noteq> k \<Longrightarrow> usp_get_all (set_opt k v ps) k' = usp_get_all ps k'"
  by (simp add: set_opt_def usp_get_all_set split: option.split)

lemma url_with_read:
  assumes "CHR ''?'' \<notin> set path" and "ps \<noteq> []"
  shows "usp_parse (url_search (url_with path ps)) = ps"
proof -
  have "url_with path ps = with_search path ps" using assms(2) by (simp add: url_with_def with_search_def)
  then show ?thesis using usp_parse_search [OF assms(1)] by simp
qed

text \<open>The filters of a log page as optional parameters over the page and the kinds.\<close>

lemma logs_page_params_eq:
  "logs_page_params q =
     set_opt ''until'' (trimmed (rlpq_untilIso q)) (set_opt ''since'' (trimmed (rlpq_sinceIso q))
       (set_opt ''since'' (map_option int_to_string (rlpq_since q)) (set_opt ''key_id'' (trimmed (rlpq_keyId q))
       (set_opt ''auth_token_id'' (trimmed (rlpq_tokenId q))
       (set_opt ''include_bodies'' (if rlpq_includeBodies q = Some True then Some ''true'' else None)
       (set_opt ''operational_class'' (map_option class_str (rlpq_operationalClass q))
       (set_opt ''key_effect'' (trimmed (rlpq_keyEffect q)) (set_opt ''result'' (map_option result_filter_str (rlpq_result q))
       (append_all ''request_kind'' (filter (\<lambda>k. k \<noteq> []) (map js_trim (nullish (rlpq_requestKinds q) [])))
         (page_query (nullish (rlpq_page q) 1) (nullish (rlpq_perPage q) 20)))))))))))"
proof -
  have "(if nullish b False then usp_set ''include_bodies'' ''true'' ps else ps) =
      set_opt ''include_bodies'' (if b = Some True then Some ''true'' else None) ps" for b ps
    by (cases b) (simp_all add: set_opt_def)
  then show ?thesis by (simp add: logs_page_params_def appendRequestLogsPageFilters_def Let_def set_trimmed_opt)
qed

lemma logs_page_params_read:
  assumes "CHR ''?'' \<notin> set path"
  shows "usp_parse (url_search (url_with path (logs_page_params q))) = logs_page_params q"
proof -
  have "usp_get (logs_page_params q) ''page'' \<noteq> None" by (simp add: logs_page_params_eq usp_get_append_all page_query_def)
  then have "logs_page_params q \<noteq> []" by auto
  then show ?thesis by (rule url_with_read [OF assms])
qed

section \<open>Properties\<close>

text \<open>C32: the outcome of a JSON request.  The value of the body is returned exactly for a success whose body is
  JSON; any other response is an error, and the error of a failed status carries the status and a message that is
  not empty.\<close>

theorem requestJson_outcome:
  assumes "env_fetch env rq w = (Inr response, w')"
  shows "(\<forall>x. requestJson env as_T rq w = (Inr x, w') \<longleftrightarrow>
      rs_ok response \<and> (\<exists>s j. rs_text response = Inr s \<and> json_parse s = Some j \<and> x = as_T j)) \<and>
    (\<not> rs_ok response \<longrightarrow> (\<exists>e. requestJson env as_T rq w = (Inl e, w') \<and>
      er_status e = Some (rs_status response) \<and> er_message e \<noteq> []))"
  using assms
  by (auto simp: requestJson_def async_defs rs_json_def js_json_parse_def http_error_def new_error_def or_str_def
      split: sum.split option.split)

theorem requestJson_outcome_witness:
  "requestJson (fixed_env (text_response 200 ''true'')) (\<lambda>j. j) (get_request ''/api/version'') () = (Inr (JBool True), ())"
proof -
  have "env_fetch (fixed_env (text_response 200 ''true'')) (get_request ''/api/version'') () = (Inr (text_response 200 ''true''), ())"
    by simp
  note outcome = requestJson_outcome [OF this, of "\<lambda>j. j"]
  have "json_parse ''true'' = Some (JBool True)" by code_simp
  with outcome show ?thesis by simp
qed



text \<open>The query of a log page, read back from the URL: the page and its size with their defaults, the trimmed
  kinds that are not blank in their order, the filters, and the start of the period, for which an ISO text that is
  not blank wins over a number.\<close>

lemma logs_page_query_roundtrip:
  assumes "CHR ''?'' \<notin> set path"
  shows "let ps = usp_parse (url_search (url_with path (logs_page_params q))) in
    usp_get ps ''page'' = Some (int_to_string (nullish (rlpq_page q) 1)) \<and>
    usp_get ps ''per_page'' = Some (int_to_string (nullish (rlpq_perPage q) 20)) \<and>
    usp_get_all ps ''request_kind'' = filter (\<lambda>k. k \<noteq> []) (map js_trim (nullish (rlpq_requestKinds q) [])) \<and>
    usp_get ps ''result'' = map_option result_filter_str (rlpq_result q) \<and>
    usp_get ps ''key_effect'' = trimmed (rlpq_keyEffect q) \<and>
    usp_get ps ''operational_class'' = map_option class_str (rlpq_operationalClass q) \<and>
    usp_get ps ''include_bodies'' = (if rlpq_includeBodies q = Some True then Some ''true'' else None) \<and>
    usp_get ps ''auth_token_id'' = trimmed (rlpq_tokenId q) \<and>
    usp_get ps ''key_id'' = trimmed (rlpq_keyId q) \<and>
    usp_get ps ''since'' = (case trimmed (rlpq_sinceIso q) of Some t \<Rightarrow> Some t | None \<Rightarrow> map_option int_to_string (rlpq_since q)) \<and>
    usp_get ps ''until'' = trimmed (rlpq_untilIso q)"
proof -
  have kinds: "usp_get_all (logs_page_params q) ''request_kind'' = filter (\<lambda>k. k \<noteq> []) (map js_trim (nullish (rlpq_requestKinds q) []))"
    by (simp add: logs_page_params_eq usp_get_all_set_opt append_all_def usp_append_fold usp_get_all_constant page_query_def)
  have since: "usp_get (logs_page_params q) ''since'' =
      (case trimmed (rlpq_sinceIso q) of Some t \<Rightarrow> Some t | None \<Rightarrow> map_option int_to_string (rlpq_since q))"
    by (cases "trimmed (rlpq_sinceIso q)") (simp_all add: logs_page_params_eq usp_get_append_all page_query_def)
  show ?thesis unfolding Let_def logs_page_params_read [OF assms] kinds since
    by (intro conjI) (simp_all add: logs_page_params_eq usp_get_append_all page_query_def)
qed



end
