(* ===== verification/User_Console_Routes.thy ===== *)
theory User_Console_Routes
  imports Admin_Routes Api_Types
begin

text \<open>
  Routes of the user console in the hash of the page (\<open>web/src/lib/userConsoleRoutes.ts\<close>), whether the console
  is available to a profile (\<open>lib/userConsoleAvailability.ts\<close>, \<open>lib/userConsoleAdminEntry.ts\<close>), and what the
  setup guide shows for a route (\<open>web/src/UserConsole.tsx\<close>).
\<close>

section \<open>The hash\<close>

datatype UserConsoleLandingSection = Section_dashboard | Section_tokens

datatype UserConsoleRoute = Landing "UserConsoleLandingSection option" | Token string

text \<open>The pattern \<open>(?:$|[/?].*)\<close> after a prefix.\<close>

definition hash_rest :: "string \<Rightarrow> bool" where
  "hash_rest r \<longleftrightarrow> r = [] \<or> hd r = CHR ''/'' \<or> hd r = CHR ''?''"

definition under_hash :: "string \<Rightarrow> string \<Rightarrow> bool" where
  "under_hash p h \<longleftrightarrow> prefix p h \<and> hash_rest (drop (length p) h)"

definition token_segment :: "string \<Rightarrow> string" where
  "token_segment h = (if prefix ''#/tokens/'' h then takeWhile (\<lambda>c. c \<notin> set ''/?#'') (drop 9 h) else [])"

definition parseUserConsoleHash :: "string \<Rightarrow> UserConsoleRoute" where
  "parseUserConsoleHash hash =
     (let normalizedHash = js_trim hash; segment = token_segment normalizedHash in
      if segment \<noteq> [] then
        (case decodeURIComponent segment of Some i \<Rightarrow> Token i | None \<Rightarrow> Landing (Some Section_tokens))
      else if under_hash ''#/tokens'' normalizedHash then Landing (Some Section_tokens)
      else if under_hash ''#/dashboard'' normalizedHash then Landing (Some Section_dashboard)
      else Landing None)"

fun userConsoleRouteToHash :: "UserConsoleRoute \<Rightarrow> string" where
  "userConsoleRouteToHash (Token i) = ''#/tokens/'' @ encodeURIComponent i"
| "userConsoleRouteToHash (Landing (Some Section_tokens)) = ''#/tokens''"
| "userConsoleRouteToHash (Landing (Some Section_dashboard)) = ''#/dashboard''"
| "userConsoleRouteToHash (Landing None) = []"

section \<open>Availability\<close>

datatype UserConsoleAvailability = Availability_unknown | Availability_enabled | Availability_disabled | Availability_logged_out

definition resolveUserConsoleAvailability :: "Profile option \<Rightarrow> UserConsoleAvailability" where
  "resolveUserConsoleAvailability profile = (case profile of
     None \<Rightarrow> Availability_unknown
   | Some p \<Rightarrow>
       if pro_userLoggedIn p = Some False then Availability_logged_out
       else if pro_userLoggedIn p = Some True then Availability_enabled
       else Availability_disabled)"

definition USER_CONSOLE_ADMIN_HREF :: string where
  "USER_CONSOLE_ADMIN_HREF = ''/admin''"

definition ADMIN_USER_CONSOLE_HREF :: string where
  "ADMIN_USER_CONSOLE_HREF = ''/console''"

definition getUserConsoleAdminHref :: "Profile option \<Rightarrow> string option" where
  "getUserConsoleAdminHref profile = (case profile of
     Some p \<Rightarrow> if pro_isAdmin p then Some USER_CONSOLE_ADMIN_HREF else None
   | None \<Rightarrow> None)"

section \<open>The guide\<close>

definition tokenLabel :: "string \<Rightarrow> string" where
  "tokenLabel tokenId = ''th-'' @ tokenId @ ''-************************''"

definition shouldRenderLandingGuide :: "UserConsoleRoute \<Rightarrow> nat \<Rightarrow> bool" where
  "shouldRenderLandingGuide route tokenCount = (case route of Landing _ \<Rightarrow> tokenCount = 1 | Token _ \<Rightarrow> False)"

definition resolveGuideTokenId :: "UserConsoleRoute \<Rightarrow> UserTokenSummary list \<Rightarrow> string option" where
  "resolveGuideTokenId route tokens = (case route of
     Token i \<Rightarrow> Some i
   | Landing _ \<Rightarrow> (case tokens of [t] \<Rightarrow> Some (uts_tokenId t) | _ \<Rightarrow> None))"

definition resolveGuideToken :: "UserConsoleRoute \<Rightarrow> UserTokenSummary list \<Rightarrow> string" where
  "resolveGuideToken route tokens =
     (let guideTokenId = resolveGuideTokenId route tokens
      in if truthy_str guideTokenId then tokenLabel (the guideTokenId) else ''th-xxxx-xxxxxxxxxxxx'')"

fun section_name :: "UserConsoleLandingSection option \<Rightarrow> string" where
  "section_name (Some Section_dashboard) = ''dashboard''"
| "section_name (Some Section_tokens) = ''tokens''"
| "section_name None = ''landing''"

definition resolveGuideRevealContextKey :: "UserConsoleRoute \<Rightarrow> UserTokenSummary list \<Rightarrow> string option" where
  "resolveGuideRevealContextKey route tokens =
     (if \<not> truthy_str (resolveGuideTokenId route tokens) then None
      else case route of
          Token i \<Rightarrow> Some (''token:'' @ i)
        | Landing s \<Rightarrow> Some (''landing:'' @ section_name s @ '':'' @ js_join '','' (map uts_tokenId tokens)))"

definition isActiveGuideRevealContext :: "string option \<Rightarrow> string option \<Rightarrow> bool" where
  "isActiveGuideRevealContext revealedContextKey currentContextKey \<longleftrightarrow>
     revealedContextKey \<noteq> None \<and> currentContextKey \<noteq> None \<and> revealedContextKey = currentContextKey"

section \<open>Properties\<close>

lemma js_trim_token_hash: "js_trim (''#/tokens/'' @ encodeURIComponent i) = ''#/tokens/'' @ encodeURIComponent i"
proof (rule js_trim_plain_ends)
  have "\<forall>c \<in> set (''#/tokens/'' @ encodeURIComponent i). js_plain c"
    using encodeURIComponent_plain by (auto simp: js_plain_def)
  then show "js_plain (hd (''#/tokens/'' @ encodeURIComponent i))" "js_plain (last (''#/tokens/'' @ encodeURIComponent i))"
    by (metis append_is_Nil_conv hd_in_set last_in_set list.discI)+
qed simp

lemma token_segment_encode: "token_segment (''#/tokens/'' @ encodeURIComponent i) = encodeURIComponent i"
proof -
  have "drop 9 (''#/tokens/'' @ encodeURIComponent i) = encodeURIComponent i" by simp
  then show ?thesis unfolding token_segment_def by (simp only: uri.enc_takeWhile prefixI if_True)
qed

lemma parse_token_hash: "valid_utf8 i \<Longrightarrow> i \<noteq> [] \<Longrightarrow> parseUserConsoleHash (''#/tokens/'' @ encodeURIComponent i) = Token i"
  by (simp only: parseUserConsoleHash_def js_trim_token_hash token_segment_encode Let_def uri.dec_enc uri.enc_Nil_iff
      if_True not_False_eq_True option.case)

text \<open>Every route of the user console survives the trip through the hash: the route parsed from the hash
  of a route is that route, for every section and every token id that is well-formed text, whatever characters it
  has, except the empty id, whose hash is the one of the token list.\<close>

lemma userConsoleRoute_roundtrip:
  assumes "\<And>i. route = Token i \<Longrightarrow> valid_utf8 i"
  shows "parseUserConsoleHash (userConsoleRouteToHash route) = (if route = Token [] then Landing (Some Section_tokens) else route)"
proof (cases route)
  case (Token i)
  show ?thesis
  proof (cases "i = []")
    case True
    have "parseUserConsoleHash ''#/tokens/'' = Landing (Some Section_tokens)" by code_simp
    with Token True show ?thesis by simp
  next
    case False
    with Token assms show ?thesis by (simp add: parse_token_hash del: append_Cons append_Nil)
  qed
next
  case (Landing s)
  have "parseUserConsoleHash ''#/tokens'' = Landing (Some Section_tokens)" "parseUserConsoleHash [] = Landing None"
    "parseUserConsoleHash ''#/dashboard'' = Landing (Some Section_dashboard)" by code_simp+
  with Landing show ?thesis by (cases s rule: section_name.cases) simp_all
qed

text \<open>The context under which the guide reveals a token names the token: when the revealed context is the current
  one, the guide of both is that of the same token id, also when the route, the section or the list of tokens has
  changed in between.\<close>

lemma reveal_key_token:
  assumes "isActiveGuideRevealContext (resolveGuideRevealContextKey route tokens) (resolveGuideRevealContextKey route' tokens')"
  shows "resolveGuideTokenId route tokens = resolveGuideTokenId route' tokens' \<and> resolveGuideTokenId route tokens \<noteq> None"
proof -
  have named: "section_name a @ CHR '':'' # s = section_name b @ CHR '':'' # t \<Longrightarrow> s = t" for a b s t
    by (cases a rule: section_name.cases; cases b rule: section_name.cases) simp_all
  from assms show ?thesis
    by (auto simp: isActiveGuideRevealContext_def resolveGuideRevealContextKey_def resolveGuideTokenId_def
        split: UserConsoleRoute.splits list.splits if_splits dest!: named)
qed

end
