(* ===== verification/Probe_Identity.thy ===== *)
theory Probe_Identity
  imports Progress_Stream "HOL-Library.Word"
begin

text \<open>
  The identities of a probe run (\<open>web/src/UserConsole.tsx\<close>): the run signature from the clock and a random
  source, the request ids and identifiers counted within the run, slugs, words of a property name, and the
  FNV-1a hash behind the generated UUIDs.
\<close>

unbundle bit_operations_syntax

section \<open>Numerals in a base up to 36\<close>

definition radix_char :: "nat \<Rightarrow> char" where
  "radix_char d = (if d < 10 then char_of (48 + d) else char_of (87 + d))"

function radix_string :: "nat \<Rightarrow> nat \<Rightarrow> string" where
  "radix_string b n = (if b < 2 \<or> n < b then [radix_char n] else radix_string b (n div b) @ [radix_char (n mod b)])"
  by pat_completeness auto
termination by (relation "measure snd") auto

declare radix_string.simps [simp del]

text \<open>\<open>s.padStart(n, '0')\<close>.\<close>

definition pad_start0 :: "nat \<Rightarrow> string \<Rightarrow> string" where
  "pad_start0 n s = replicate (n - length s) CHR ''0'' @ s"

section \<open>The run signature\<close>

text \<open>The civil date of a day counted from 1970-01-01, and \<open>toISOString\<close> cut down as
  \<open>compactUtcTimestamp\<close> does; years of four digits.\<close>

definition civil_from_days :: "int \<Rightarrow> int \<times> int \<times> int" where
  "civil_from_days days =
     (let z = days + 719468;
          era = z div 146097;
          doe = z - era * 146097;
          yoe = (doe - doe div 1460 + doe div 36524 - doe div 146096) div 365;
          doy = doe - (365 * yoe + yoe div 4 - yoe div 100);
          mp = (5 * doy + 2) div 153;
          d = doy - (153 * mp + 2) div 5 + 1;
          m = (if mp < 10 then mp + 3 else mp - 9);
          y = yoe + era * 400
      in (if m \<le> 2 then y + 1 else y, m, d))"

definition pad2 :: "int \<Rightarrow> string" where
  "pad2 n = pad_start0 2 (int_to_string n)"

definition compactUtcTimestamp :: "int \<Rightarrow> string" where
  "compactUtcTimestamp timestamp =
     (let secs = timestamp div 1000; (y, m, d) = civil_from_days (secs div 86400); t = secs mod 86400
      in pad_start0 4 (int_to_string y) @ pad2 m @ pad2 d @ ''t'' @ pad2 (t div 3600) @ pad2 (t div 60 mod 60) @
         pad2 (t mod 60) @ ''z'')"

text \<open>The random source is a function on a state; \<open>Math.floor(random() * 36).toString(36)\<close> is one digit for a
  number in \<open>[0, 1)\<close>.\<close>

function randomBase36Fragment :: "('r \<Rightarrow> rat \<times> 'r) \<Rightarrow> nat \<Rightarrow> string \<Rightarrow> 'r \<Rightarrow> string \<times> 'r" where
  "randomBase36Fragment random len fragment r =
     (if length fragment < len then
        (case random r of (x, r') \<Rightarrow> randomBase36Fragment random len (fragment @ radix_string 36 (nat \<lfloor>x * 36\<rfloor>)) r')
      else (take len fragment, r))"
  by pat_completeness auto
termination
proof (relation "measure (\<lambda>(random, len, fragment, r). len - length fragment)")
  fix random :: "'r \<Rightarrow> rat \<times> 'r" and len :: nat and fragment :: string and r r' :: 'r and p and x :: rat
  assume "length fragment < len"
  moreover have "0 < length (radix_string 36 (nat \<lfloor>x * 36\<rfloor>))" by (subst radix_string.simps) simp
  ultimately have "len - (length fragment + length (radix_string 36 (nat \<lfloor>x * 36\<rfloor>))) < len - length fragment"
    by arith
  then show "((random, len, fragment @ radix_string 36 (nat \<lfloor>x * 36\<rfloor>), r'), random, len, fragment, r)
      \<in> measure (\<lambda>(random, len, fragment, r). len - length fragment)" by simp
qed simp

declare randomBase36Fragment.simps [simp del]

section \<open>Words and slugs\<close>

definition is_lower :: "char \<Rightarrow> bool" where
  "is_lower c \<longleftrightarrow> 97 \<le> (of_char c :: nat) \<and> (of_char c :: nat) \<le> 122"

definition is_upper :: "char \<Rightarrow> bool" where
  "is_upper c \<longleftrightarrow> 65 \<le> (of_char c :: nat) \<and> (of_char c :: nat) \<le> 90"

definition is_slug_char :: "char \<Rightarrow> bool" where
  "is_slug_char c \<longleftrightarrow> is_lower c \<or> is_digit c"

text \<open>\<open>replace(/([a-z0-9])([A-Z])/g, '$1 $2')\<close>.\<close>

fun split_camel :: "string \<Rightarrow> string" where
  "split_camel (c # d # s) = (if is_slug_char c \<and> is_upper d then c # CHR '' '' # split_camel (d # s) else c # split_camel (d # s))"
| "split_camel s = s"

definition splitProbeIdentityWords :: "string \<Rightarrow> string list" where
  "splitProbeIdentityWords value =
     map js_lower (filter (\<lambda>w. w \<noteq> []) (js_split_on (\<lambda>c. \<not> (is_slug_char c \<or> is_upper c)) (split_camel (js_trim value))))"

text \<open>Runs of other characters become one dash; dashes at the ends are dropped.\<close>

definition slugifyProbeIdentityPart :: "string \<Rightarrow> string" where
  "slugifyProbeIdentityPart value =
     js_join ''-'' (filter (\<lambda>w. w \<noteq> []) (js_split_on (\<lambda>c. \<not> is_slug_char c) (js_lower (js_trim value))))"

section \<open>The hash\<close>

text \<open>The code points of a text, and the first UTF-16 unit of one.\<close>

fun text_code_points :: "string \<Rightarrow> nat list" where
  "text_code_points [] = []"
| "text_code_points (c # s) = (let n = (of_char c :: nat); low = (\<lambda>k. of_char (s ! k) mod 0x40 :: nat) in
     if n < 0x80 \<or> length s < 1 then n # text_code_points s
     else if n < 0xE0 then ((n mod 0x20) * 0x40 + low 0) # text_code_points (drop 1 s)
     else if n < 0xF0 \<and> 2 \<le> length s then (((n mod 0x10) * 0x40 + low 0) * 0x40 + low 1) # text_code_points (drop 2 s)
     else if 3 \<le> length s then ((((n mod 8) * 0x40 + low 0) * 0x40 + low 1) * 0x40 + low 2) # text_code_points (drop 3 s)
     else n # text_code_points s)"

definition first_unit :: "nat \<Rightarrow> nat" where
  "first_unit cp = (if cp < 0x10000 then cp else 0xD800 + (cp - 0x10000) div 0x400)"

definition fnv_step :: "32 word \<Rightarrow> nat \<Rightarrow> 32 word" where
  "fnv_step h cp = (h XOR of_nat (first_unit cp)) * 0x01000193"

definition hashProbeIdentityHex :: "string \<Rightarrow> string" where
  "hashProbeIdentityHex value =
     pad_start0 8 (radix_string 16 (unat (foldl fnv_step 0x811c9dc5 (text_code_points value))))"

definition js_slice :: "nat \<Rightarrow> nat \<Rightarrow> string \<Rightarrow> string" where
  "js_slice a b s = take (b - a) (drop a s)"

definition buildPseudoUuid :: "string \<Rightarrow> string \<Rightarrow> nat \<Rightarrow> string" where
  "buildPseudoUuid runSignature fieldName counter =
     (let part = (\<lambda>k. hashProbeIdentityHex (runSignature @ '':'' @ fieldName @ '':'' @ k @ '':'' @ nat_to_string counter));
          hex = part ''a'' @ part ''b'' @ part ''c'' @ part ''d''
      in js_join ''-'' [js_slice 0 8 hex, js_slice 8 12 hex, ''4'' @ js_slice 13 16 hex, ''a'' @ js_slice 17 20 hex, js_slice 20 32 hex])"

section \<open>The generator\<close>

record McpProbeIdentityGenerator =
  ig_runSignature :: string
  ig_requestCounter :: nat
  ig_identifierCounter :: nat

definition createMcpProbeIdentityGenerator :: "int \<Rightarrow> ('r \<Rightarrow> rat \<times> 'r) \<Rightarrow> 'r \<Rightarrow> McpProbeIdentityGenerator \<times> 'r" where
  "createMcpProbeIdentityGenerator now random r =
     (case randomBase36Fragment random 6 [] r of (fragment, r') \<Rightarrow>
        (\<lparr>ig_runSignature = ''ucp-'' @ compactUtcTimestamp now @ ''-'' @ fragment, ig_requestCounter = 0, ig_identifierCounter = 0\<rparr>, r'))"

definition serial36 :: "nat \<Rightarrow> string" where
  "serial36 n = pad_start0 2 (radix_string 36 n)"

definition nextRequestId :: "string \<Rightarrow> string option \<Rightarrow> McpProbeIdentityGenerator \<Rightarrow> string \<times> McpProbeIdentityGenerator" where
  "nextRequestId kind toolName g =
     (let counter = ig_requestCounter g + 1;
          requestParts = filter (\<lambda>p. p \<noteq> [])
            [''req'', or_str (slugifyProbeIdentityPart kind) ''step'',
             (if truthy_str toolName then slugifyProbeIdentityPart (the toolName) else []),
             ig_runSignature g, serial36 counter]
      in (js_join ''-'' requestParts, g\<lparr>ig_requestCounter := counter\<rparr>))"

definition nextIdentifier :: "string \<Rightarrow> McpProbeIdentityGenerator \<Rightarrow> string \<times> McpProbeIdentityGenerator" where
  "nextIdentifier fieldName g =
     (let counter = ig_identifierCounter g + 1;
          normalized = js_trim fieldName;
          slug = or_str (slugifyProbeIdentityPart normalized) ''id'';
          serial = serial36 counter;
          has = (\<lambda>w. js_includes w (js_lower normalized));
          tail = ''_'' @ ig_runSignature g @ ''_'' @ serial
      in (if has ''uuid'' then buildPseudoUuid (ig_runSignature g) normalized counter
          else if has ''session'' then ''sess'' @ tail
          else if has ''request'' then ''req'' @ tail
          else if has ''trace'' then ''trace'' @ tail
          else if has ''cursor'' then ''cursor'' @ tail
          else slug @ tail, g\<lparr>ig_identifierCounter := counter\<rparr>))"

definition isIdentifierLikePropertyName :: "string \<Rightarrow> bool" where
  "isIdentifierLikePropertyName propertyName =
     (let words = splitProbeIdentityWords propertyName in
      if length words = 0 then False
      else if ''uuid'' \<in> set words then True
      else last words \<in> {''id'', ''request'', ''session'', ''trace'', ''cursor''})"


section \<open>Numerals read back\<close>

definition radix_digit :: "char \<Rightarrow> nat" where
  "radix_digit c = (if is_digit c then of_char c - 48 else of_char c - 87)"

definition radix_value :: "nat \<Rightarrow> string \<Rightarrow> nat" where
  "radix_value b s = foldl (\<lambda>a c. a * b + radix_digit c) 0 s"

lemma radix_digit_char: "d < 36 \<Longrightarrow> radix_digit (radix_char d) = d"
  by (auto simp: radix_digit_def radix_char_def is_digit_def)

lemma radix_char_slug: "d < 36 \<Longrightarrow> is_slug_char (radix_char d)"
  by (auto simp: radix_char_def is_slug_char_def is_lower_def is_digit_def)

lemma radix_value_string: "2 \<le> b \<Longrightarrow> b \<le> 36 \<Longrightarrow> radix_value b (radix_string b n) = n"
proof (induction n rule: less_induct)
  case (less n)
  show ?case
  proof (cases "n < b")
    case True
    with less.prems show ?thesis by (simp add: radix_string.simps [of b n] radix_value_def radix_digit_char)
  next
    case False
    have "n mod b < 36" using less.prems mod_less_divisor [of b n] by linarith
    moreover have "radix_value b (radix_string b (n div b)) = n div b"
      using less.prems False by (intro less.IH) auto
    ultimately show ?thesis using less.prems False
      by (simp add: radix_string.simps [of b n] radix_value_def radix_digit_char)
  qed
qed

lemma radix_string_slug: "2 \<le> b \<Longrightarrow> b \<le> 36 \<Longrightarrow> list_all is_slug_char (radix_string b n)"
proof (induction n rule: less_induct)
  case (less n)
  have "n mod b < 36" using less.prems mod_less_divisor [of b n] by linarith
  with less show ?case by (subst radix_string.simps) (auto simp: radix_char_slug)
qed

lemma radix_value_pad: "radix_value b (pad_start0 k s) = radix_value b s"
proof -
  have "foldl (\<lambda>a c. a * b + radix_digit c) 0 (replicate n CHR ''0'') = 0" for n
    by (induction n) (simp_all add: radix_digit_def is_digit_def)
  then show ?thesis by (simp add: radix_value_def pad_start0_def)
qed

lemma radix_string_not_Nil: "radix_string b n \<noteq> []"
  by (subst radix_string.simps) simp

lemma radix_string_length: "2 \<le> b \<Longrightarrow> n < b ^ Suc k \<Longrightarrow> length (radix_string b n) \<le> Suc k"
proof (induction k arbitrary: n)
  case 0
  then show ?case by (simp add: radix_string.simps [of b n])
next
  case (Suc k)
  have "n div b < b ^ Suc k" using Suc.prems by (simp add: less_mult_imp_div_less mult.commute)
  with Suc show ?case by (subst radix_string.simps) auto
qed

lemma serial36_value: "radix_value 36 (serial36 n) = n"
  unfolding serial36_def radix_value_pad by (rule radix_value_string) simp_all

lemma serial36_inj: "serial36 m = serial36 n \<Longrightarrow> m = n"
  using serial36_value by metis

lemma pad_start0_all: "P CHR ''0'' \<Longrightarrow> list_all P (pad_start0 k s) \<longleftrightarrow> list_all P s"
  by (auto simp: pad_start0_def list_all_iff)

lemma serial36_slug: "list_all is_slug_char (serial36 n)"
  unfolding serial36_def by (subst pad_start0_all) (simp_all add: radix_string_slug is_slug_char_def is_digit_def)

lemma serial36_not_Nil: "serial36 n \<noteq> []"
  by (simp add: serial36_def pad_start0_def radix_string_not_Nil)

section \<open>Ids of one run\<close>

text \<open>Equal texts whose last part has no dash have the same last part.\<close>

lemma last_part_eq:
  assumes "u @ x # s = v @ x # t" "x \<notin> set s" "x \<notin> set t"
  shows "s = t"
proof -
  have "takeWhile (\<lambda>c. c \<noteq> x) (rev (u @ x # s)) = rev s" "takeWhile (\<lambda>c. c \<noteq> x) (rev (v @ x # t)) = rev t"
    using assms(2,3) by (simp_all add: takeWhile_append takeWhile_eq_all_conv)
  with assms(1) show ?thesis by simp
qed

lemma js_join_append: "xs \<noteq> [] \<Longrightarrow> js_join sep (xs @ [y]) = js_join sep xs @ sep @ y"
  by (induction sep xs rule: js_join.induct) simp_all

lemma nextRequestId_last:
  "\<exists>u. fst (nextRequestId kind toolName g) = u @ ''-'' @ serial36 (ig_requestCounter g + 1)"
  using js_join_append [of "filter (\<lambda>p. p \<noteq> []) [''req'', or_str (slugifyProbeIdentityPart kind) ''step'',
      (if truthy_str toolName then slugifyProbeIdentityPart (the toolName) else []), ig_runSignature g]" "''-''"
      "serial36 (ig_requestCounter g + 1)"] serial36_not_Nil
  by (simp add: nextRequestId_def Let_def)


lemma serial36_no_dash: "CHR ''-'' \<notin> set (serial36 n)"
  using serial36_slug [of n] by (auto simp: list_all_iff is_slug_char_def is_lower_def is_digit_def)

text \<open>The operations of the generator a run may call, in any order; what they return is tagged by the operation.\<close>

datatype identity_call = Request_call string "string option" | Identifier_call string

fun identity_step :: "identity_call \<Rightarrow> McpProbeIdentityGenerator \<Rightarrow> string \<times> McpProbeIdentityGenerator" where
  "identity_step (Request_call kind toolName) g = nextRequestId kind toolName g"
| "identity_step (Identifier_call fieldName) g = nextIdentifier fieldName g"

fun run_identity :: "identity_call list \<Rightarrow> McpProbeIdentityGenerator \<Rightarrow> (identity_call \<times> string) list" where
  "run_identity [] g = []"
| "run_identity (c # cs) g = (case identity_step c g of (text, g') \<Rightarrow> (c, text) # run_identity cs g')"

fun is_request :: "identity_call \<Rightarrow> bool" where
  "is_request (Request_call _ _) = True"
| "is_request (Identifier_call _) = False"

definition request_ids :: "identity_call list \<Rightarrow> McpProbeIdentityGenerator \<Rightarrow> string list" where
  "request_ids cs g = map snd (filter (\<lambda>(c, _). is_request c) (run_identity cs g))"

lemma nextRequestId_counter: "ig_requestCounter (snd (nextRequestId kind toolName g)) = ig_requestCounter g + 1"
  by (simp add: nextRequestId_def Let_def)

lemma nextIdentifier_counter: "ig_requestCounter (snd (nextIdentifier fieldName g)) = ig_requestCounter g"
  by (simp add: nextIdentifier_def Let_def)

lemma request_ids_Cons:
  "request_ids (c # cs) g =
     (if is_request c then [fst (identity_step c g)] else []) @ request_ids cs (snd (identity_step c g))"
  by (simp add: request_ids_def split_beta)

lemma request_ids_serial:
  "t \<in> set (request_ids cs g) \<Longrightarrow> \<exists>u n. t = u @ ''-'' @ serial36 n \<and> ig_requestCounter g < n"
proof (induction cs arbitrary: g)
  case Nil
  then show ?case by (simp add: request_ids_def)
next
  case (Cons c cs)
  show ?case
  proof (cases c)
    case (Request_call kind toolName)
    with Cons.prems consider "t = fst (nextRequestId kind toolName g)"
      | "t \<in> set (request_ids cs (snd (nextRequestId kind toolName g)))" by (auto simp: request_ids_Cons)
    then show ?thesis
      using nextRequestId_last [of kind toolName g] Cons.IH [of "snd (nextRequestId kind toolName g)"]
      by cases (metis less_add_one, metis Suc_eq_plus1 Suc_lessD nextRequestId_counter)
  next
    case (Identifier_call fieldName)
    with Cons.prems Cons.IH [of "snd (nextIdentifier fieldName g)"] show ?thesis
      by (simp add: request_ids_Cons nextIdentifier_counter)
  qed
qed

lemma request_id_fresh: "fst (nextRequestId kind toolName g) \<notin> set (request_ids cs (snd (nextRequestId kind toolName g)))"
proof
  assume "fst (nextRequestId kind toolName g) \<in> set (request_ids cs (snd (nextRequestId kind toolName g)))"
  then obtain u n where later: "fst (nextRequestId kind toolName g) = u @ ''-'' @ serial36 n" "ig_requestCounter g + 1 < n"
    using request_ids_serial nextRequestId_counter by metis
  moreover obtain v where "fst (nextRequestId kind toolName g) = v @ ''-'' @ serial36 (ig_requestCounter g + 1)"
    using nextRequestId_last by metis
  ultimately have "u @ CHR ''-'' # serial36 n = v @ CHR ''-'' # serial36 (ig_requestCounter g + 1)" by simp
  then have "serial36 n = serial36 (ig_requestCounter g + 1)"
    by (rule last_part_eq) (simp_all add: serial36_no_dash)
  with later(2) show False using serial36_inj by blast
qed

section \<open>The generated UUIDs\<close>

definition hex_text :: "string \<Rightarrow> bool" where
  "hex_text s \<longleftrightarrow> list_all (\<lambda>c. is_digit c \<or> 97 \<le> (of_char c :: nat) \<and> (of_char c :: nat) \<le> 102) s"

definition is_uuid_v4 :: "string \<Rightarrow> bool" where
  "is_uuid_v4 s \<longleftrightarrow> (\<exists>a b c d e v. s = a @ ''-'' @ b @ ''-4'' @ c @ ''-'' @ v # d @ ''-'' @ e \<and> v \<in> set ''89ab'' \<and>
     map length [a, b, c, d, e] = [8, 4, 3, 3, 12] \<and> list_all hex_text [a, b, c, d, e])"

lemma hex_text_append [simp]: "hex_text (s @ t) \<longleftrightarrow> hex_text s \<and> hex_text t"
  by (simp add: hex_text_def)

lemma hex_text_slice: "hex_text s \<Longrightarrow> hex_text (js_slice a b s)"
  using set_take_subset set_drop_subset unfolding js_slice_def hex_text_def list_all_iff by fastforce

lemma length_slice: "b \<le> length s \<Longrightarrow> length (js_slice a b s) = b - a"
  by (simp add: js_slice_def)

lemma radix_string_hex: "hex_text (radix_string 16 n)"
proof (induction n rule: less_induct)
  case (less n)
  have "n mod 16 < 16" by simp
  with less show ?case
    by (subst radix_string.simps) (auto simp: hex_text_def radix_char_def is_digit_def)
qed

lemma hashProbeIdentityHex_shape: "length (hashProbeIdentityHex v) = 8 \<and> hex_text (hashProbeIdentityHex v)"
proof -
  define h where "h = foldl fnv_step 0x811c9dc5 (text_code_points v)"
  have "unat h < 2 ^ LENGTH(32)" by (rule unsigned_less)
  then have "unat h < 16 ^ Suc 7" by simp
  then have "length (radix_string 16 (unat h)) \<le> 8" using radix_string_length [of 16 "unat h" 7] by simp
  moreover have "hex_text (hashProbeIdentityHex v)"
    unfolding hashProbeIdentityHex_def hex_text_def by (subst pad_start0_all) (use radix_string_hex in \<open>simp_all add: hex_text_def is_digit_def\<close>)
  ultimately show ?thesis unfolding hashProbeIdentityHex_def h_def [symmetric] by (simp add: pad_start0_def)
qed

text \<open>C19: within one probe run every request id is new: whatever requests and identifiers the steps of the run
  ask for, in whatever order and with whatever kinds and tool names (also kinds and names without a usable
  character, or that repeat), no two request ids are equal.\<close>

theorem request_ids_distinct: "distinct (request_ids calls generator)"
proof (induction calls arbitrary: generator)
  case Nil
  show ?case by (simp add: request_ids_def)
next
  case (Cons c cs)
  then show ?case by (cases c) (simp_all add: request_ids_Cons request_id_fresh)
qed

text \<open>The identifier made for a property whose name contains the word uuid has the shape of a version 4 UUID
  of the RFC variant (8-4-4-4-12 lower-case hexadecimal digits, the version digit 4, the variant digit one of 8,
  9, a, b), for every run signature, property name and counter: the four 32-bit FNV-1a hashes always fill eight
  digits each.\<close>

lemma buildPseudoUuid_v4: "is_uuid_v4 (buildPseudoUuid runSignature fieldName counter)"
proof -
  define part where "part k = hashProbeIdentityHex (runSignature @ '':'' @ fieldName @ '':'' @ k @ '':'' @ nat_to_string counter)" for k
  define hex where "hex = part ''a'' @ part ''b'' @ part ''c'' @ part ''d''"
  have shape: "length hex = 32" "hex_text hex" unfolding hex_def part_def by (simp_all add: hashProbeIdentityHex_shape)
  have "buildPseudoUuid runSignature fieldName counter = js_slice 0 8 hex @ ''-'' @ js_slice 8 12 hex @ ''-4'' @
      js_slice 13 16 hex @ ''-'' @ CHR ''a'' # js_slice 17 20 hex @ ''-'' @ js_slice 20 32 hex"
    unfolding buildPseudoUuid_def Let_def hex_def part_def by simp
  then show ?thesis unfolding is_uuid_v4_def
    by (intro exI conjI) (assumption, simp_all add: shape hex_text_slice length_slice)
qed

end
