(* ===== verification/Probe_Steps.thy ===== *)
theory Probe_Steps
  imports Probe_Identity Api_Client
begin

text \<open>
  The steps of the connectivity probes of the user console (\<open>web/src/UserConsole.tsx\<close>): the tools a server
  advertises, the arguments made up for them from their JSON schemas, and what each step of the MCP and of the
  API probe requests and decides. A step's \<open>run\<close> closure is a constructor of a datatype and \<open>run_mcp_step\<close>,
  \<open>run_api_step\<close> are the bodies; the context a closure mutates is part of the state it is run on.
\<close>

section \<open>Templates\<close>

text \<open>The replacement text of \<open>String.prototype.replace\<close>: \<open>$$\<close>, \<open>$&\<close>, \<open>$`\<close> and \<open>$'\<close> are expanded (the
  pattern has no groups, so \<open>$1\<close> is not).\<close>

fun expand_dollar :: "string \<Rightarrow> string \<Rightarrow> string \<Rightarrow> string \<Rightarrow> string" where
  "expand_dollar before matched after (c # d # r) =
     (if c = CHR ''$'' \<and> d = CHR ''$'' then CHR ''$'' # expand_dollar before matched after r
      else if c = CHR ''$'' \<and> d = CHR ''&'' then matched @ expand_dollar before matched after r
      else if c = CHR ''$'' \<and> d = CHR 0x60 then before @ expand_dollar before matched after r
      else if c = CHR ''$'' \<and> d = CHR 0x27 then after @ expand_dollar before matched after r
      else c # expand_dollar before matched after (d # r))"
| "expand_dollar before matched after r = r"

function replace_from :: "string \<Rightarrow> string \<Rightarrow> string \<Rightarrow> string \<Rightarrow> string" where
  "replace_from pat repl before s =
     (if s = [] then []
      else if pat \<noteq> [] \<and> prefix pat s then
        expand_dollar before pat (drop (length pat) s) repl @ replace_from pat repl (before @ pat) (drop (length pat) s)
      else hd s # replace_from pat repl (before @ [hd s]) (tl s))"
  by pat_completeness auto
termination by (relation "measure (\<lambda>(pat, repl, before, s). length s)") (auto simp: prefix_def)

declare replace_from.simps [simp del]

definition formatTemplate :: "string \<Rightarrow> (string \<times> string) list \<Rightarrow> string" where
  "formatTemplate template values = foldl (\<lambda>current (key, value). replace_from (''{'' @ key @ ''}'') value [] current) template values"

section \<open>Tools\<close>

definition canonicalMcpProbeToolName :: "string \<Rightarrow> string" where
  "canonicalMcpProbeToolName toolName =
     (let trimmed = js_trim toolName;
          normalized = map (\<lambda>c. if c = CHR ''_'' then CHR ''-'' else c) (js_lower trimmed)
      in if prefix ''tavily-'' normalized then normalized else trimmed)"

definition isBillableMcpProbeTool :: "string \<Rightarrow> bool" where
  "isBillableMcpProbeTool toolName \<longleftrightarrow> prefix ''tavily-'' (canonicalMcpProbeToolName toolName)"

definition firstSchemaRecord :: "json option \<Rightarrow> json option" where
  "firstSchemaRecord value = (case value of
     Some (JArr items) \<Rightarrow> find is_record items
   | _ \<Rightarrow> asRecord value)"

definition extractAdvertisedMcpToolSchema :: "json \<Rightarrow> json option" where
  "extractAdvertisedMcpToolSchema tool =
     (case firstSchemaRecord (jprop tool ''inputSchema'') of Some s \<Rightarrow> Some s | None \<Rightarrow>
     (case firstSchemaRecord (jprop tool ''input_schema'') of Some s \<Rightarrow> Some s | None \<Rightarrow>
     (case firstSchemaRecord (jprop tool ''parameters'') of Some s \<Rightarrow> Some s | None \<Rightarrow>
       firstSchemaRecord (jprop tool ''schema''))))"

definition mcpToolProbeArguments :: "string \<Rightarrow> json option" where
  "mcpToolProbeArguments toolName =
     (let name = canonicalMcpProbeToolName toolName;
          shallow = JObj [(''url'', JStr ''https://example.com''), (''max_depth'', JNum (Fin 1)), (''limit'', JNum (Fin 1))]
      in if name = ''tavily-search'' then Some (JObj [(''query'', JStr ''health check''), (''search_depth'', JStr ''basic'')])
         else if name = ''tavily-extract'' then Some (JObj [(''urls'', JArr [JStr ''https://example.com''])])
         else if name = ''tavily-crawl'' \<or> name = ''tavily-map'' then Some shallow
         else if name = ''tavily-research'' then Some (JObj [(''input'', JStr ''health check''), (''model'', JStr ''mini'')])
         else None)"

section \<open>Example values of a schema\<close>

definition type_name :: "json \<Rightarrow> string option" where
  "type_name item = (case item of JStr s \<Rightarrow> if s \<noteq> ''null'' \<and> s \<noteq> [] then Some s else None | _ \<Rightarrow> None)"

definition schemaType :: "json \<Rightarrow> string option" where
  "schemaType schema =
     (let direct = (case jprop schema ''type'' of
            Some (JStr s) \<Rightarrow> if s \<noteq> [] then Some s else None
          | Some (JArr items) \<Rightarrow> (case List.map_filter type_name items of s # _ \<Rightarrow> Some s | [] \<Rightarrow> None)
          | _ \<Rightarrow> None)
      in if direct \<noteq> None then direct
         else if truthy (jprop schema ''properties'') \<or> truthy (jprop schema ''required'') then Some ''object''
         else if truthy (jprop schema ''items'') then Some ''array''
         else None)"

text \<open>The values made up while going down a schema; the generator is threaded through, since asking it for an
  identifier advances it. \<open>None\<close> is \<open>undefined\<close>.\<close>

type_synonym identity = "McpProbeIdentityGenerator option"

type_synonym example = "json option \<times> identity"

fun first_variant :: "(json \<Rightarrow> string \<Rightarrow> identity \<Rightarrow> example) \<Rightarrow> string \<Rightarrow> json list \<Rightarrow> identity \<Rightarrow> example" where
  "first_variant f propertyName [] g = (None, g)"
| "first_variant f propertyName (variant # variants) g =
     (if \<not> is_record variant then first_variant f propertyName variants g
      else case f variant propertyName g of
          (Some v, g') \<Rightarrow> (Some v, g')
        | (None, g') \<Rightarrow> first_variant f propertyName variants g')"

fun required_members ::
  "(json \<Rightarrow> string \<Rightarrow> identity \<Rightarrow> example) \<Rightarrow> json option \<Rightarrow> string list \<Rightarrow> (string \<times> json) list \<Rightarrow> identity \<Rightarrow> example" where
  "required_members f properties [] value g = (Some (JObj value), g)"
| "required_members f properties (key # keys) value g =
     (case asRecord (opt_prop properties key) of
        None \<Rightarrow> (None, g)
      | Some childSchema \<Rightarrow> (case f childSchema key g of
            (None, g') \<Rightarrow> (None, g')
          | (Some childValue, g') \<Rightarrow> required_members f properties keys (js_map_set key childValue value) g'))"

definition required_keys :: "json \<Rightarrow> string list" where
  "required_keys schema = List.map_filter (\<lambda>v. case v of JStr s \<Rightarrow> if s \<noteq> [] then Some s else None | _ \<Rightarrow> None)
     (as_array (jprop schema ''required''))"

definition example_number :: "json \<Rightarrow> string \<Rightarrow> json" where
  "example_number schema lowerName =
     (if \<exists>w \<in> set [''limit'', ''depth'', ''breadth'', ''count'', ''page'', ''max'']. js_includes w lowerName then JNum (Fin 1)
      else case jprop schema ''minimum'' of Some (JNum x) \<Rightarrow> JNum x | _ \<Rightarrow> JNum (Fin 0))"

definition example_text :: "json \<Rightarrow> string \<Rightarrow> identity \<Rightarrow> example" where
  "example_text schema propertyName g =
     (let lowerName = js_lower propertyName; format = as_string (jprop schema ''format'') in
      if (format = Some ''uuid'' \<or> isIdentifierLikePropertyName propertyName) \<and> g \<noteq> None then
        (case nextIdentifier propertyName (the g) of (identifier, g') \<Rightarrow> (Some (JStr identifier), Some g'))
      else if format = Some ''uri'' \<or> format = Some ''url'' \<or> js_includes ''url'' lowerName \<or> js_includes ''uri'' lowerName then
        (Some (JStr ''https://example.com''), g)
      else if js_includes ''country'' lowerName then (Some (JStr ''United States''), g)
      else if js_includes ''id'' lowerName then (Some (JStr ''probe-id''), g)
      else (Some (JStr ''health check''), g))"

text \<open>\<open>schemaExampleValue\<close> by the depth that is left: \<open>depth > 4\<close> is 0, the call at depth 0 has 5.\<close>

primrec schemaExampleValue :: "nat \<Rightarrow> json \<Rightarrow> string \<Rightarrow> identity \<Rightarrow> example" where
  "schemaExampleValue 0 schema propertyName g = (None, g)"
| "schemaExampleValue (Suc n) schema propertyName g =
     (case jprop schema ''const'' of Some v \<Rightarrow> (Some v, g) | None \<Rightarrow>
     (case jprop schema ''default'' of Some v \<Rightarrow> (Some v, g) | None \<Rightarrow>
     (case as_array (jprop schema ''examples'') @ as_array (jprop schema ''enum'') of v # _ \<Rightarrow> (Some v, g) | [] \<Rightarrow>
     (case first_variant (schemaExampleValue n) propertyName
         (concat (map (\<lambda>key. as_array (jprop schema key)) [''oneOf'', ''anyOf'', ''allOf''])) g of
        (Some v, g') \<Rightarrow> (Some v, g')
      | (None, g') \<Rightarrow>
          (let t = schemaType schema in
           if t = Some ''boolean'' then (Some (JBool False), g')
           else if t = Some ''integer'' \<or> t = Some ''number'' then (Some (example_number schema (js_lower propertyName)), g')
           else if t = Some ''string'' then example_text schema propertyName g'
           else if t = Some ''array'' then
             (case asRecord (jprop schema ''items'') of
                None \<Rightarrow> (Some (JArr []), g')
              | Some itemSchema \<Rightarrow> (case schemaExampleValue n itemSchema propertyName g' of
                    (None, g'') \<Rightarrow> (Some (JArr []), g'')
                  | (Some v, g'') \<Rightarrow> (Some (JArr [v]), g'')))
           else if t = Some ''object'' then
             required_members (schemaExampleValue n) (asRecord (jprop schema ''properties'')) (required_keys schema) [] g'
           else (None, g'))))))"

text \<open>\<^term>\<open>None\<close> is \<open>null\<close>, and the JSON value \<open>null\<close> is returned as such.\<close>

definition synthesizeMcpToolProbeArguments :: "json option \<Rightarrow> McpProbeIdentityGenerator \<Rightarrow> json option \<times> McpProbeIdentityGenerator" where
  "synthesizeMcpToolProbeArguments inputSchema g = (case inputSchema of
     None \<Rightarrow> (None, g)
   | Some schema \<Rightarrow> (case schemaExampleValue 5 schema ''arguments'' (Some g) of (v, g') \<Rightarrow> (v, the g')))"

section \<open>Advertised tools\<close>

record AdvertisedMcpTool =
  at_requestName :: string
  at_displayName :: string
  at_inputSchema :: "json option"

text \<open>The loop over the advertised tools; \<open>seen\<close> is the set of request names.\<close>

fun advertised_tools :: "json list \<Rightarrow> string list \<Rightarrow> AdvertisedMcpTool list" where
  "advertised_tools [] seen = []"
| "advertised_tools (tool # tools) seen =
     (case as_string (opt_prop (asRecord (Some tool)) ''name'') of
        None \<Rightarrow> advertised_tools tools seen
      | Some rawName \<Rightarrow>
          (let trimmedName = js_trim rawName; canonicalName = canonicalMcpProbeToolName trimmedName in
           if length trimmedName = 0 \<or> length canonicalName = 0 \<or> trimmedName \<in> set seen then advertised_tools tools seen
           else \<lparr>at_requestName = trimmedName, at_displayName = canonicalName, at_inputSchema = extractAdvertisedMcpToolSchema tool\<rparr>
                # advertised_tools tools (seen @ [trimmedName])))"

definition extractAdvertisedMcpTools :: "json \<Rightarrow> AdvertisedMcpTool list" where
  "extractAdvertisedMcpTools payload =
     advertised_tools (as_array (opt_prop (asRecord (opt_prop (asRecord (Some payload)) ''result'')) ''tools'')) []"

section \<open>The MCP steps\<close>

record McpProbeText =
  pt_mcpInitialize :: string
  pt_mcpInitialized :: string
  pt_mcpPing :: string
  pt_mcpToolsList :: string
  pt_mcpToolCall :: string
  pt_skippedProbeFixture :: string
  pt_missingAdvertisedTools :: string

record McpProbeRunContext =
  rc_protocolVersion :: string
  rc_sessionId :: "string option"
  rc_clientVersion :: string
  rc_identity :: McpProbeIdentityGenerator

record McpProbeStepResult =
  sr_detail :: "string option"
  sr_discoveredTools :: "AdvertisedMcpTool list"
  sr_stepState :: "McpProbeStepState option"

text \<open>The closures \<open>run\<close> of the step definitions.\<close>

datatype mcp_run = Run_initialize | Run_initialized | Run_ping | Run_tools_list | Run_tool_call string string "json option"

record McpProbeStepDefinition =
  sd_id :: string
  sd_label :: string
  sd_billable :: bool
  sd_run :: mcp_run

definition buildMcpProbeStepDefinitions :: "McpProbeText \<Rightarrow> McpProbeStepDefinition list" where
  "buildMcpProbeStepDefinitions probeText =
     [\<lparr>sd_id = ''mcp-initialize'', sd_label = pt_mcpInitialize probeText, sd_billable = False, sd_run = Run_initialize\<rparr>,
      \<lparr>sd_id = ''mcp-initialized'', sd_label = pt_mcpInitialized probeText, sd_billable = False, sd_run = Run_initialized\<rparr>,
      \<lparr>sd_id = ''mcp-ping'', sd_label = pt_mcpPing probeText, sd_billable = False, sd_run = Run_ping\<rparr>,
      \<lparr>sd_id = ''mcp-tools-list'', sd_label = pt_mcpToolsList probeText, sd_billable = False, sd_run = Run_tools_list\<rparr>]"

text \<open>The tools of \<open>buildMcpToolCallProbeStepDefinitions\<close> are names or advertised tools.\<close>

fun tool_entry :: "string + AdvertisedMcpTool \<Rightarrow> AdvertisedMcpTool" where
  "tool_entry (Inl name) =
     \<lparr>at_requestName = js_trim name, at_displayName = canonicalMcpProbeToolName (js_trim name), at_inputSchema = None\<rparr>"
| "tool_entry (Inr tool) =
     \<lparr>at_requestName = js_trim (at_requestName tool), at_displayName = canonicalMcpProbeToolName (at_displayName tool),
      at_inputSchema = at_inputSchema tool\<rparr>"

fun tool_entries :: "(string + AdvertisedMcpTool) list \<Rightarrow> string list \<Rightarrow> AdvertisedMcpTool list" where
  "tool_entries [] seen = []"
| "tool_entries (tool # tools) seen =
     (let entry = tool_entry tool in
      if length (at_displayName entry) = 0 \<or> at_requestName entry \<in> set seen then tool_entries tools seen
      else entry # tool_entries tools (seen @ [at_requestName entry]))"

definition tool_call_step :: "McpProbeText \<Rightarrow> AdvertisedMcpTool \<Rightarrow> McpProbeStepDefinition" where
  "tool_call_step probeText tool =
     \<lparr>sd_id = ''mcp-tool-call:'' @ at_requestName tool,
      sd_label = formatTemplate (pt_mcpToolCall probeText) [(''tool'', at_requestName tool)],
      sd_billable = isBillableMcpProbeTool (at_displayName tool),
      sd_run = Run_tool_call (at_requestName tool) (at_displayName tool) (at_inputSchema tool)\<rparr>"

definition buildMcpToolCallProbeStepDefinitions ::
  "McpProbeText \<Rightarrow> (string + AdvertisedMcpTool) list \<Rightarrow> McpProbeStepDefinition list" where
  "buildMcpToolCallProbeStepDefinitions probeText tools = map (tool_call_step probeText) (tool_entries tools [])"

text \<open>A step runs on the context and the rest of the world.\<close>

type_synonym ('w, 'a) step = "(McpProbeRunContext \<times> 'w, 'a) async"

definition on_world :: "('w, 'a) async \<Rightarrow> ('w, 'a) step" where
  "on_world m = (\<lambda>(c, w). case m w of (r, w') \<Rightarrow> (r, (c, w')))"

definition on_context :: "(McpProbeRunContext \<Rightarrow> 'a \<times> McpProbeRunContext) \<Rightarrow> ('w, 'a) step" where
  "on_context f = (\<lambda>(c, w). case f c of (x, c') \<Rightarrow> (Inr x, (c', w)))"

definition request_id :: "string \<Rightarrow> string option \<Rightarrow> ('w, string) step" where
  "request_id kind toolName = on_context (\<lambda>c.
     case nextRequestId kind toolName (rc_identity c) of (requestId, g) \<Rightarrow> (requestId, c\<lparr>rc_identity := g\<rparr>))"

definition request_context :: "string option \<Rightarrow> McpProbeRunContext \<Rightarrow> ProbeMcpRequestContext" where
  "request_context requestId c =
     \<lparr>pmrc_protocolVersion = Some (rc_protocolVersion c), pmrc_sessionId = rc_sessionId c, pmrc_requestId = requestId\<rparr>"

definition current_context :: "('w, McpProbeRunContext) step" where
  "current_context = on_context (\<lambda>c. (c, c))"

definition keep_session :: "string option \<Rightarrow> ('w, unit) step" where
  "keep_session sessionId = on_context (\<lambda>c. ((), case sessionId of Some s \<Rightarrow> c\<lparr>rc_sessionId := Some s\<rparr> | None \<Rightarrow> c))"

definition keep_protocol :: "string option \<Rightarrow> ('w, unit) step" where
  "keep_protocol version = on_context (\<lambda>c. ((), case version of Some v \<Rightarrow> c\<lparr>rc_protocolVersion := v\<rparr> | None \<Rightarrow> c))"

definition throw_if :: "string option \<Rightarrow> ('w, unit) step" where
  "throw_if e = (if truthy_str e then async_throw (new_error (the e)) else async_return ())"

text \<open>A JSON-RPC step: the request id is drawn first, then the request is sent in the context; the error of the
  response is thrown before the context is updated.\<close>

definition rpc_step ::
  "string \<Rightarrow> string option \<Rightarrow> (ProbeMcpRequestContext \<Rightarrow> ('w, ProbeMcpEnvelopeResult) async) \<Rightarrow> (json \<Rightarrow> string option) \<Rightarrow>
   ('w, ProbeMcpEnvelopeResult) step" where
  "rpc_step kind toolName probe err =
     await (request_id kind toolName) (\<lambda>requestId.
     await current_context (\<lambda>c.
     await (on_world (probe (request_context (Some requestId) c))) (\<lambda>response.
     await (throw_if (err (pmer_payload response))) (\<lambda>_.
     await (keep_session (pmer_sessionId response)) (\<lambda>_.
     await (keep_protocol (pmer_negotiatedProtocolVersion response)) (\<lambda>_.
     async_return response))))))"

definition envelopeError :: "json \<Rightarrow> string option" where
  "envelopeError payload = getProbeEnvelopeError (Some payload)"

definition call_error :: "json \<Rightarrow> string option" where
  "call_error payload = (case envelopeError payload of Some e \<Rightarrow> Some e | None \<Rightarrow> getMcpProbeResultError (Some payload))"

definition run_initialize :: "'w Env \<Rightarrow> string \<Rightarrow> ('w, McpProbeStepResult option) step" where
  "run_initialize env token =
     await current_context (\<lambda>c0.
     await (rpc_step ''initialize'' None (\<lambda>rc. probeMcpInitialize env token
         \<lparr>pmrc_protocolVersion = pmrc_protocolVersion rc, pmrc_sessionId = None, pmrc_requestId = pmrc_requestId rc,
          pmic_clientVersion = Some (rc_clientVersion c0)\<rparr>) envelopeError) (\<lambda>_.
     async_return None))"

definition run_initialized :: "'w Env \<Rightarrow> string \<Rightarrow> ('w, McpProbeStepResult option) step" where
  "run_initialized env token =
     await current_context (\<lambda>c.
     await (on_world (probeMcpInitialized env token (request_context None c))) (\<lambda>response.
     await (keep_session (pmnr_sessionId response)) (\<lambda>_.
     async_return None)))"

definition run_ping :: "'w Env \<Rightarrow> string \<Rightarrow> ('w, McpProbeStepResult option) step" where
  "run_ping env token = await (rpc_step ''ping'' None (probeMcpPing env token) envelopeError) (\<lambda>_. async_return None)"

definition run_tools_list :: "'w Env \<Rightarrow> McpProbeText \<Rightarrow> string \<Rightarrow> ('w, McpProbeStepResult option) step" where
  "run_tools_list env probeText token =
     await (rpc_step ''tools-list'' None (probeMcpToolsList env token) envelopeError) (\<lambda>response.
       let discoveredTools = extractAdvertisedMcpTools (pmer_payload response) in
       if length discoveredTools = 0 then async_throw (new_error (pt_missingAdvertisedTools probeText))
       else async_return (Some \<lparr>sr_detail = None, sr_discoveredTools = discoveredTools, sr_stepState = None\<rparr>))"

text \<open>The arguments of a call: the fixture of a known tool, else made up for the tools the probe may call.\<close>

definition call_arguments :: "string \<Rightarrow> json option \<Rightarrow> ('w, json option) step" where
  "call_arguments displayName inputSchema =
     (case mcpToolProbeArguments displayName of
        Some args \<Rightarrow> async_return (Some args)
      | None \<Rightarrow>
          if isBillableMcpProbeTool displayName then
            on_context (\<lambda>c. case synthesizeMcpToolProbeArguments inputSchema (rc_identity c) of (v, g) \<Rightarrow> (v, c\<lparr>rc_identity := g\<rparr>))
          else async_return None)"

definition run_tool_call :: "'w Env \<Rightarrow> McpProbeText \<Rightarrow> string \<Rightarrow> string \<Rightarrow> json option \<Rightarrow> string \<Rightarrow> ('w, McpProbeStepResult option) step" where
  "run_tool_call env probeText requestName displayName inputSchema token =
     await (call_arguments displayName inputSchema) (\<lambda>probeArguments.
       if probeArguments = None \<or> probeArguments = Some JNull then
         async_return (Some \<lparr>sr_detail = Some (formatTemplate (pt_skippedProbeFixture probeText) [(''tool'', requestName)]),
           sr_discoveredTools = [], sr_stepState = Some Step_skipped\<rparr>)
       else
         await (rpc_step ''tools-call'' (Some requestName) (probeMcpToolsCall env token requestName (the probeArguments)) call_error)
           (\<lambda>_. async_return None))"

fun run_mcp_step :: "'w Env \<Rightarrow> McpProbeText \<Rightarrow> mcp_run \<Rightarrow> string \<Rightarrow> ('w, McpProbeStepResult option) step" where
  "run_mcp_step env probeText Run_initialize token = run_initialize env token"
| "run_mcp_step env probeText Run_initialized token = run_initialized env token"
| "run_mcp_step env probeText Run_ping token = run_ping env token"
| "run_mcp_step env probeText Run_tools_list token = run_tools_list env probeText token"
| "run_mcp_step env probeText (Run_tool_call requestName displayName inputSchema) token =
     run_tool_call env probeText requestName displayName inputSchema token"

section \<open>The API steps\<close>

record ApiProbeText =
  pt_apiSearch :: string
  pt_apiExtract :: string
  pt_apiCrawl :: string
  pt_apiMap :: string
  pt_apiResearch :: string
  pt_apiResearchResult :: string
  pt_missingRequestId :: string
  pt_researchFailed :: string
  pt_researchUnexpectedStatus :: string
  pt_researchPendingAccepted :: string
  pt_researchStatus :: string

datatype api_run = Run_search | Run_extract | Run_crawl | Run_map | Run_research | Run_research_result

record ApiProbeStepDefinition =
  ad_id :: string
  ad_label :: string
  ad_run :: api_run

definition buildApiProbeStepDefinitions :: "ApiProbeText \<Rightarrow> ApiProbeStepDefinition list" where
  "buildApiProbeStepDefinitions probeText =
     [\<lparr>ad_id = ''api-search'', ad_label = pt_apiSearch probeText, ad_run = Run_search\<rparr>,
      \<lparr>ad_id = ''api-extract'', ad_label = pt_apiExtract probeText, ad_run = Run_extract\<rparr>,
      \<lparr>ad_id = ''api-crawl'', ad_label = pt_apiCrawl probeText, ad_run = Run_crawl\<rparr>,
      \<lparr>ad_id = ''api-map'', ad_label = pt_apiMap probeText, ad_run = Run_map\<rparr>,
      \<lparr>ad_id = ''api-research'', ad_label = pt_apiResearch probeText, ad_run = Run_research\<rparr>,
      \<lparr>ad_id = ''api-research-result'', ad_label = pt_apiResearchResult probeText, ad_run = Run_research_result\<rparr>]"

definition getResearchRequestId :: "json \<Rightarrow> string option" where
  "getResearchRequestId payload = (case asRecord (Some payload) of
     None \<Rightarrow> None
   | Some m \<Rightarrow> (case text_of (jprop m ''request_id'') of Some s \<Rightarrow> Some s | None \<Rightarrow> text_of (jprop m ''requestId'')))"

definition fail_if :: "string option \<Rightarrow> ('w, unit) async" where
  "fail_if e = (if truthy_str e then async_throw (new_error (the e)) else async_return ())"

definition api_call :: "('w, json) async \<Rightarrow> ('w, json) async" where
  "api_call m = await m (\<lambda>payload. await (fail_if (envelopeError payload)) (\<lambda>_. async_return payload))"

definition crawl_payload :: json where
  "crawl_payload = JObj [(''url'', JStr ''https://example.com''), (''max_depth'', JNum (Fin 1)), (''limit'', JNum (Fin 1))]"

text \<open>\<open>payload.status\<close> throws when the payload is \<open>null\<close>.\<close>

definition null_property_error :: "string \<Rightarrow> js_error" where
  "null_property_error key = (new_error (''Cannot read properties of null (reading '' @ [CHR 0x27] @ key @ [CHR 0x27] @ '')''))\<lparr>er_name := ''TypeError''\<rparr>"

definition research_outcome :: "ApiProbeText \<Rightarrow> json \<Rightarrow> js_error + string option" where
  "research_outcome probeText payload = (if payload = JNull then Inl (null_property_error ''status'') else
   case text_of (jprop payload ''status'') of
     None \<Rightarrow> Inr None
   | Some status \<Rightarrow>
       (let normalized = js_lower (js_trim status) in
        if normalized \<in> {''failed'', ''failure'', ''error'', ''errored'', ''cancelled'', ''canceled''} then
          Inl (new_error (pt_researchFailed probeText))
        else if normalized \<in> {''pending'', ''processing'', ''running'', ''in_progress'', ''queued''} then
          Inr (Some (pt_researchPendingAccepted probeText))
        else if normalized \<in> {''completed'', ''success'', ''succeeded'', ''done''} then
          Inr (Some (formatTemplate (pt_researchStatus probeText) [(''status'', normalized)]))
        else Inl (new_error (formatTemplate (pt_researchUnexpectedStatus probeText) [(''status'', normalized)]))))"

fun run_api_step :: "'w Env \<Rightarrow> ApiProbeText \<Rightarrow> api_run \<Rightarrow> string \<Rightarrow> string option \<Rightarrow> ('w, string option) async" where
  "run_api_step env probeText Run_search token requestId =
     async_then (api_call (probeApiTavilySearch env token
       (JObj [(''query'', JStr ''health check''), (''max_results'', JNum (Fin 1)), (''search_depth'', JStr ''basic''),
         (''include_answer'', JBool False), (''include_raw_content'', JBool False), (''include_images'', JBool False)])))
       (\<lambda>_. None)"
| "run_api_step env probeText Run_extract token requestId =
     async_then (api_call (probeApiTavilyExtract env token
       (JObj [(''urls'', JArr [JStr ''https://example.com'']), (''include_images'', JBool False)]))) (\<lambda>_. None)"
| "run_api_step env probeText Run_crawl token requestId =
     async_then (api_call (probeApiTavilyCrawl env token crawl_payload)) (\<lambda>_. None)"
| "run_api_step env probeText Run_map token requestId =
     async_then (api_call (probeApiTavilyMap env token crawl_payload)) (\<lambda>_. None)"
| "run_api_step env probeText Run_research token requestId =
     await (api_call (probeApiTavilyResearch env token
       (JObj [(''input'', JStr ''health check''), (''model'', JStr ''mini''), (''citation_format'', JStr ''numbered'')])))
       (\<lambda>payload. let rid = getResearchRequestId payload in
         if \<not> truthy_str rid then async_throw (new_error (pt_missingRequestId probeText)) else async_return rid)"
| "run_api_step env probeText Run_research_result token requestId =
     (if \<not> truthy_str requestId then async_throw (new_error (pt_missingRequestId probeText))
      else await (api_call (probeApiTavilyResearchResult env token (the requestId)))
        (\<lambda>payload. async_lift (research_outcome probeText payload)))"

section \<open>Example values fit their schema\<close>

text \<open>What a value must satisfy to fit a schema, to a depth: a constant or a default is the value, examples and
  enumerations are the values there are, a variant may be satisfied instead, an object has the required members and
  no other, each fitting its schema.\<close>

definition fits_type :: "(json \<Rightarrow> json \<Rightarrow> bool) \<Rightarrow> json \<Rightarrow> json \<Rightarrow> bool" where
  "fits_type fits schema v =
     (let t = schemaType schema in
      if t = Some ''boolean'' then (case v of JBool _ \<Rightarrow> True | _ \<Rightarrow> False)
      else if t = Some ''integer'' \<or> t = Some ''number'' then (case v of JNum _ \<Rightarrow> True | _ \<Rightarrow> False)
      else if t = Some ''string'' then (case v of JStr _ \<Rightarrow> True | _ \<Rightarrow> False)
      else if t = Some ''array'' then
        (case v of
           JArr vs \<Rightarrow> list_all (\<lambda>x. case asRecord (jprop schema ''items'') of Some items \<Rightarrow> fits items x | None \<Rightarrow> False) vs
         | _ \<Rightarrow> False)
      else if t = Some ''object'' then
        (case v of
           JObj ms \<Rightarrow> distinct (map fst ms) \<and> set (map fst ms) = set (required_keys schema) \<and>
             list_all (\<lambda>(k, x). case asRecord (opt_prop (asRecord (jprop schema ''properties'')) k) of
               Some child \<Rightarrow> fits child x | None \<Rightarrow> False) ms
         | _ \<Rightarrow> False)
      else False)"

primrec fits_schema :: "nat \<Rightarrow> json \<Rightarrow> json \<Rightarrow> bool" where
  "fits_schema 0 schema v = False"
| "fits_schema (Suc n) schema v =
     (case jprop schema ''const'' of Some c \<Rightarrow> v = c | None \<Rightarrow>
     (case jprop schema ''default'' of Some d \<Rightarrow> v = d | None \<Rightarrow>
       (let choices = as_array (jprop schema ''examples'') @ as_array (jprop schema ''enum'');
            variants = concat (map (\<lambda>key. as_array (jprop schema key)) [''oneOf'', ''anyOf'', ''allOf''])
        in if choices \<noteq> [] then v \<in> set choices
           else list_ex (\<lambda>variant. is_record variant \<and> fits_schema n variant v) variants \<or> fits_type (fits_schema n) schema v)))"

lemma first_variant_fits:
  assumes "first_variant f p variants g = (Some v, g')" "\<And>schema p g v g'. f schema p g = (Some v, g') \<Longrightarrow> F schema v"
  shows "list_ex (\<lambda>variant. is_record variant \<and> F variant v) variants"
  using assms(1) by (induction variants arbitrary: g) (auto split: if_splits prod.splits option.splits dest: assms(2))

lemma required_members_fit:
  assumes "required_members f properties keys acc g = (Some v, g')" "distinct (map fst acc)" "\<And>schema p g v g'. f schema p g = (Some v, g') \<Longrightarrow> F schema v"
    and "list_all (\<lambda>(k, x). case asRecord (opt_prop properties k) of Some child \<Rightarrow> F child x | None \<Rightarrow> False) acc"
  shows "\<exists>ms. v = JObj ms \<and> distinct (map fst ms) \<and> set (map fst ms) = set (map fst acc) \<union> set keys \<and>
    list_all (\<lambda>(k, x). case asRecord (opt_prop properties k) of Some child \<Rightarrow> F child x | None \<Rightarrow> False) ms"
  using assms(1,2,4)
proof (induction keys arbitrary: acc g)
  case (Cons key keys)
  then obtain child x g1 where child: "asRecord (opt_prop properties key) = Some child" "f child key g = (Some x, g1)"
    and rest: "required_members f properties keys (js_map_set key x acc) g1 = (Some v, g')"
    by (auto split: option.splits prod.splits)
  have "set (js_map_set key x acc) \<subseteq> insert (key, x) (set acc)"
    by (induction key x acc rule: js_map_set.induct) auto
  moreover have "F child x" using child(2) assms(3) by blast
  ultimately have "list_all (\<lambda>(k, x). case asRecord (opt_prop properties k) of Some child \<Rightarrow> F child x | None \<Rightarrow> False) (js_map_set key x acc)"
    using Cons.prems(3) child(1) by (fastforce simp: list_all_iff)
  with Cons.IH [OF rest] have "distinct (map fst (js_map_set key x acc)) \<Longrightarrow> ?case"
    unfolding keys_js_map_set by (elim meta_impE) (auto simp: insert_absorb)
  with Cons.prems(2) show ?case by (simp add: jm.distinct_keys_update)
qed auto

lemma example_text_string: "example_text schema p g = (Some v, g') \<Longrightarrow> \<exists>s. v = JStr s"
  by (auto simp: example_text_def Let_def split: if_splits prod.splits)

lemma example_number_number: "case example_number schema p of JNum _ \<Rightarrow> True | _ \<Rightarrow> False"
  by (auto simp: example_number_def split: option.split json.split)

text \<open>C22: the arguments the probe makes up for a tool fit the tool's schema.  Whenever a value is synthesised,
  to whatever depth, it is the constant or default of the schema, or one of its examples or enumerated values, or
  fits one of its variants, or has the type of the schema; an object has exactly the required members, each
  with a value that fits its own schema, also when the list of required names repeats one.\<close>

theorem schemaExampleValue_fits:
  assumes "schemaExampleValue n schema propertyName g = (Some v, g')"
  shows "fits_schema n schema v"
  using assms
proof (induction n arbitrary: schema propertyName g v g')
  case (Suc n)
  let ?variants = "concat (map (\<lambda>key. as_array (jprop schema key)) [''oneOf'', ''anyOf'', ''allOf''])"
  define choices where "choices = as_array (jprop schema ''examples'') @ as_array (jprop schema ''enum'')"
  obtain first g1 where first: "first_variant (schemaExampleValue n) propertyName ?variants g = (first, g1)" by (metis prod.exhaust)
  show ?case
  proof (cases "jprop schema ''const'' = None \<and> jprop schema ''default'' = None \<and>
      choices = [] \<and> first = None")
    case False
    with Suc.prems first show ?thesis
      using first_variant_fits [of "schemaExampleValue n" propertyName ?variants g v g' "fits_schema n"] Suc.IH
      by (auto simp: Let_def choices_def [symmetric] split: option.splits list.splits)
  next
    case True
    have members: "fits_type (fits_schema n) schema v"
      if "schemaType schema = Some ''object''"
        "required_members (schemaExampleValue n) (asRecord (jprop schema ''properties'')) (required_keys schema) [] g1 = (Some v, g')"
      using required_members_fit [OF that(2), of "fits_schema n"] Suc.IH that(1) by (auto simp: fits_type_def)
    from True Suc.prems first have "fits_type (fits_schema n) schema v"
      using members example_text_string [of schema propertyName g1 v g'] Suc.IH
      by (auto simp: Let_def fits_type_def choices_def [symmetric] example_number_number split: if_splits option.splits prod.splits)
    with True show ?thesis by (simp add: choices_def)
  qed
qed simp

theorem schemaExampleValue_fits_witness:
  "fits_schema 5 (JObj [(''required'', JArr [JStr ''query'', JStr ''query'']), (''properties'', JObj [(''query'', JObj [(''type'', JStr ''string'')])])])
     (JObj [(''query'', JStr ''health check'')])"
proof (rule schemaExampleValue_fits)
  show "schemaExampleValue 5 (JObj [(''required'', JArr [JStr ''query'', JStr ''query'']), (''properties'', JObj [(''query'', JObj [(''type'', JStr ''string'')])])])
     ''arguments'' None = (Some (JObj [(''query'', JStr ''health check'')]), None)" by code_simp
qed

end
