(* ===== verification/Probe_Run.thy ===== *)
theory Probe_Run
  imports Probe_Steps User_Console_Routes
begin

text \<open>
  The probe runs of the user console (\<open>runMcpProbe\<close>, \<open>runApiProbe\<close> of \<open>web/src/UserConsole.tsx\<close>).  A run is
  a function on the world: the server, the clock and the random source, and the reference that holds the number
  of the current run, which any handler that runs during an \<open>await\<close> may change.  What a run tells the view is
  its trace: every state update with the world in which it was made.
\<close>

section \<open>The view\<close>

datatype ProbeButtonState = Probe_idle | Probe_running | Probe_success | Probe_partial | Probe_failed

datatype ProbeStepStatus = Status_running | Status_success | Status_failed | Status_blocked | Status_skipped

datatype ProbeBubbleAnchor = Anchor_mcp | Anchor_api

record ProbeButtonModel =
  bm_state :: ProbeButtonState
  bm_completed :: nat
  bm_total :: nat

record ProbeBubbleItem =
  bi_id :: string
  bi_label :: string
  bi_status :: ProbeStepStatus
  bi_detail :: "string option"

record ProbeBubbleModel =
  bb_visible :: bool
  bb_anchor :: ProbeBubbleAnchor
  bb_items :: "ProbeBubbleItem list"

record probe_view =
  pv_mcpProbe :: ProbeButtonModel
  pv_apiProbe :: ProbeButtonModel
  pv_probeBubble :: "ProbeBubbleModel option"
  pv_detail :: "UserTokenSummary option"

definition BASE_MCP_PROBE_STEP_COUNT :: nat where
  "BASE_MCP_PROBE_STEP_COUNT = 4"

definition createProbeButtonModel :: "nat \<Rightarrow> ProbeButtonModel" where
  "createProbeButtonModel steps = \<lparr>bm_state = Probe_idle, bm_completed = 0, bm_total = steps\<rparr>"

definition nextRunningMcpProbeModel :: "ProbeButtonModel \<Rightarrow> nat \<Rightarrow> nat \<Rightarrow> ProbeButtonModel" where
  "nextRunningMcpProbeModel previous steps completed =
     previous\<lparr>bm_state := Probe_running, bm_completed := completed, bm_total := steps\<rparr>"

text \<open>The updates of the view: \<open>setMcpProbe\<close> and \<open>setApiProbe\<close> with a model or with a function of the
  previous one, \<open>setProbeBubble\<close>, \<open>setDetail\<close>.\<close>

datatype view_update =
    Set_mcpProbe ProbeButtonModel
  | Next_mcpProbe nat nat
  | Set_apiProbe ProbeButtonModel
  | Next_apiProbe nat
  | Set_probeBubble ProbeBubbleAnchor "ProbeBubbleItem list"
  | Set_detail UserTokenSummary

fun apply_update :: "view_update \<Rightarrow> probe_view \<Rightarrow> probe_view" where
  "apply_update (Set_mcpProbe m) v = v\<lparr>pv_mcpProbe := m\<rparr>"
| "apply_update (Next_mcpProbe steps completed) v = v\<lparr>pv_mcpProbe := nextRunningMcpProbeModel (pv_mcpProbe v) steps completed\<rparr>"
| "apply_update (Set_apiProbe m) v = v\<lparr>pv_apiProbe := m\<rparr>"
| "apply_update (Next_apiProbe completed) v =
     v\<lparr>pv_apiProbe := (pv_apiProbe v)\<lparr>bm_state := Probe_running, bm_completed := completed\<rparr>\<rparr>"
| "apply_update (Set_probeBubble anchor items) v =
     v\<lparr>pv_probeBubble := Some \<lparr>bb_visible = True, bb_anchor = anchor, bb_items = items\<rparr>\<rparr>"
| "apply_update (Set_detail t) v = v\<lparr>pv_detail := Some t\<rparr>"

definition anyProbeRunning :: "probe_view \<Rightarrow> bool" where
  "anyProbeRunning v \<longleftrightarrow> bm_state (pv_mcpProbe v) = Probe_running \<or> bm_state (pv_apiProbe v) = Probe_running"

section \<open>The host of a run\<close>

text \<open>The effect that resets the probes when the route changes (and when the component goes away) writes the run
  reference too: it is part of the world.\<close>

record 'w ProbeHost =
  ph_env :: "'w Env"
  ph_now :: "'w \<Rightarrow> int"
  ph_random :: "'w \<Rightarrow> rat \<times> 'w"
  ph_runId :: "'w \<Rightarrow> int"
  ph_setRunId :: "int \<Rightarrow> 'w \<Rightarrow> 'w"
  ph_as_secret :: "json \<Rightarrow> UserTokenResponse"
  ph_as_detail :: "json \<Rightarrow> UserTokenSummary"

type_synonym 'w trace = "(view_update \<times> 'w) list"

record ProbeText =
  tx_mcp :: McpProbeText
  tx_api :: ApiProbeText
  tx_preflightFailed :: string
  tx_quotaBlocked :: string
  tx_quotaWindows :: "ProbeQuotaWindow \<Rightarrow> string"

definition quotaWindowLabel :: "ProbeText \<Rightarrow> ProbeQuotaWindow \<Rightarrow> string" where
  "quotaWindowLabel probeText window = tx_quotaWindows probeText window"

definition quotaBlockedDetail :: "ProbeText \<Rightarrow> ProbeQuotaWindow \<Rightarrow> string" where
  "quotaBlockedDetail probeText window = formatTemplate (tx_quotaBlocked probeText) [(''window'', quotaWindowLabel probeText window)]"

definition getProbeErrorMessage :: "js_error \<Rightarrow> string" where
  "getProbeErrorMessage err = (if length (js_trim (er_message err)) > 0 then er_message err else ''Request failed'')"

definition quota_snapshot :: "UserTokenSummary \<Rightarrow> QuotaSnapshotLike" where
  "quota_snapshot t = \<lparr>qs_quotaHourlyUsed = uts_quotaHourlyUsed t, qs_quotaHourlyLimit = uts_quotaHourlyLimit t,
     qs_quotaDailyUsed = uts_quotaDailyUsed t, qs_quotaDailyLimit = uts_quotaDailyLimit t,
     qs_quotaMonthlyUsed = uts_quotaMonthlyUsed t, qs_quotaMonthlyLimit = uts_quotaMonthlyLimit t\<rparr>"

section \<open>The loop of the MCP probe\<close>

text \<open>The variables of the loop; the step definitions from the current one on, and the index of the current one.\<close>

record mcp_loop =
  ml_remaining :: "McpProbeStepDefinition list"
  ml_index :: nat
  ml_quotaBlockedWindow :: "ProbeQuotaWindow option"
  ml_context :: McpProbeRunContext
  ml_completedItems :: "ProbeBubbleItem list"
  ml_stepStates :: "McpProbeStepState list"

fun step_status :: "McpProbeStepState \<Rightarrow> ProbeStepStatus" where
  "step_status Step_success = Status_success"
| "step_status Step_failed = Status_failed"
| "step_status Step_blocked = Status_blocked"
| "step_status Step_skipped = Status_skipped"

definition running_item :: "McpProbeStepDefinition \<Rightarrow> ProbeBubbleItem" where
  "running_item current = \<lparr>bi_id = sd_id current, bi_label = sd_label current, bi_status = Status_running, bi_detail = None\<rparr>"

text \<open>The end of an iteration: the item and the state of the step are pushed, the view is told.\<close>

definition settle ::
  "McpProbeStepDefinition \<Rightarrow> McpProbeStepState \<Rightarrow> string option \<Rightarrow> McpProbeStepDefinition list \<Rightarrow> ProbeQuotaWindow option \<Rightarrow>
   McpProbeRunContext \<Rightarrow> mcp_loop \<Rightarrow> mcp_loop" where
  "settle current state detail remaining blocked ctx l =
     \<lparr>ml_remaining = remaining, ml_index = ml_index l + 1, ml_quotaBlockedWindow = blocked, ml_context = ctx,
      ml_completedItems = ml_completedItems l @ [(running_item current)\<lparr>bi_status := step_status state, bi_detail := detail\<rparr>],
      ml_stepStates = ml_stepStates l @ [state]\<rparr>"

definition steps_length :: "mcp_loop \<Rightarrow> nat" where
  "steps_length l = ml_index l + length (ml_remaining l)"

definition settled :: "mcp_loop \<Rightarrow> 'w \<Rightarrow> 'w trace" where
  "settled l w = [(Next_mcpProbe (steps_length l) (ml_index l), w), (Set_probeBubble Anchor_mcp (ml_completedItems l), w)]"

text \<open>One iteration; \<open>None\<close> is the early return of a run that is no longer current.\<close>

definition mcp_iteration ::
  "'w ProbeHost \<Rightarrow> ProbeText \<Rightarrow> int \<Rightarrow> string \<Rightarrow> string \<Rightarrow> McpProbeStepDefinition \<Rightarrow> McpProbeStepDefinition list \<Rightarrow> mcp_loop \<Rightarrow> 'w \<Rightarrow>
   mcp_loop option \<times> 'w \<times> 'w trace" where
  "mcp_iteration host probeText runId tokenId token current rest l w =
     (let isActiveRun = (\<lambda>w. ph_runId host w = runId);
          started = [(Set_probeBubble Anchor_mcp (ml_completedItems l @ [running_item current]), w)];
          next = (\<lambda>tr l' w'. (Some l', w', tr @ settled l' w'))
      in if \<not> isActiveRun w then (None, w, [])
         else case (if sd_billable current then ml_quotaBlockedWindow l else None) of
           Some window \<Rightarrow>
             next started (settle current Step_blocked (Some (quotaBlockedDetail probeText window)) rest (ml_quotaBlockedWindow l) (ml_context l) l) w
         | None \<Rightarrow>
             (case run_mcp_step (ph_env host) (tx_mcp probeText) (sd_run current) token (ml_context l, w) of
                (Inr result, (ctx, w')) \<Rightarrow>
                  if \<not> isActiveRun w' then (None, w', started)
                  else
                    (let tools = (case result of Some r \<Rightarrow> sr_discoveredTools r | None \<Rightarrow> []);
                         remaining = rest @ (if length tools > 0
                           then buildMcpToolCallProbeStepDefinitions (tx_mcp probeText) (map Inr tools) else []);
                         stepState = nullish (Option.bind result sr_stepState) Step_success
                     in next started (settle current stepState (Option.bind result sr_detail) remaining (ml_quotaBlockedWindow l) ctx l) w')
              | (Inl err, (ctx, w')) \<Rightarrow>
                  if \<not> isActiveRun w' then (None, w', started)
                  else
                    (case (if sd_billable current \<and> er_name err = ''McpProbeRequestError'' then getQuotaExceededWindow (er_payload err) else None) of
                       Some window \<Rightarrow>
                         (case fetchUserTokenDetail (ph_env host) (ph_as_detail host) tokenId w' of
                            (refreshed, w'') \<Rightarrow>
                              if \<not> isActiveRun w'' then (None, w'', started)
                              else next (started @ (case refreshed of Inr t \<Rightarrow> [(Set_detail t, w'')] | Inl _ \<Rightarrow> []))
                                (settle current Step_blocked (Some (quotaBlockedDetail probeText window)) rest (Some window) ctx l) w'')
                     | None \<Rightarrow> next started (settle current Step_failed (Some (getProbeErrorMessage err)) rest (ml_quotaBlockedWindow l) ctx l) w')))"

text \<open>Only the listing of the tools adds steps, and the steps it adds list no tools: the number of listings that
  are left and the number of steps that are left decrease lexicographically.\<close>

definition listings :: "McpProbeStepDefinition list \<Rightarrow> nat" where
  "listings steps = length (filter (\<lambda>s. sd_run s = Run_tools_list) steps)"

lemma tool_call_not_listing: "listings (buildMcpToolCallProbeStepDefinitions t tools) = 0"
  by (simp add: listings_def buildMcpToolCallProbeStepDefinitions_def filter_map o_def tool_call_step_def)

lemma listings_append [simp]: "listings (xs @ ys) = listings xs + listings ys"
  by (simp add: listings_def)

lemma await_Inr: "await m f w = (Inr y, w'') \<Longrightarrow> \<exists>x w'. m w = (Inr x, w') \<and> f x w' = (Inr y, w'')"
  by (auto simp: await_def split: prod.splits sum.splits)

lemma step_discovers:
  assumes "run_mcp_step env t run token cw = (Inr (Some r), cw')" "sr_discoveredTools r \<noteq> []"
  shows "run = Run_tools_list"
proof (cases run)
  case (Run_tool_call requestName displayName inputSchema)
  with assms show ?thesis
    by (auto simp: run_tool_call_def async_return_def dest!: await_Inr split: if_splits)
next
  case Run_initialize
  with assms show ?thesis by (auto simp: run_initialize_def async_return_def dest!: await_Inr)
next
  case Run_initialized
  with assms show ?thesis by (auto simp: run_initialized_def async_return_def dest!: await_Inr)
next
  case Run_ping
  with assms show ?thesis by (auto simp: run_ping_def async_return_def dest!: await_Inr)
qed

lemma iteration_remaining:
  assumes "mcp_iteration host t runId tid token current rest l w = (Some l', w', tr)"
  shows "\<exists>new. ml_remaining l' = rest @ new \<and> listings new = 0 \<and> (sd_run current \<noteq> Run_tools_list \<longrightarrow> new = [])"
proof -
  { fix r cw' assume "run_mcp_step (ph_env host) (tx_mcp t) (sd_run current) token (ml_context l, w) = (Inr (Some r), cw')"
    then have "sd_run current \<noteq> Run_tools_list \<longrightarrow> sr_discoveredTools r = []" using step_discovers by blast }
  then show ?thesis using assms
    by (auto simp: mcp_iteration_def settle_def Let_def tool_call_not_listing listings_def [of "[]"]
        split: if_splits option.splits prod.splits sum.splits)
qed

lemma iteration_decreases:
  assumes "ml_remaining l = current # rest" "mcp_iteration host t runId tid token current rest l w = (Some l', w', tr)"
  shows "listings (ml_remaining l') < listings (ml_remaining l) \<or>
    listings (ml_remaining l') = listings (ml_remaining l) \<and> length (ml_remaining l') < length (ml_remaining l)"
proof -
  obtain new where "ml_remaining l' = rest @ new" "listings new = 0" "sd_run current \<noteq> Run_tools_list \<longrightarrow> new = []"
    using iteration_remaining [OF assms(2)] by blast
  moreover have "listings (ml_remaining l) = listings rest + (if sd_run current = Run_tools_list then 1 else 0)"
    using assms(1) by (simp add: listings_def)
  ultimately show ?thesis using assms(1) by (auto split: if_splits)
qed

function mcp_steps ::
  "'w ProbeHost \<Rightarrow> ProbeText \<Rightarrow> int \<Rightarrow> string \<Rightarrow> string \<Rightarrow> mcp_loop \<Rightarrow> 'w \<Rightarrow> mcp_loop option \<times> 'w \<times> 'w trace" where
  "mcp_steps host probeText runId tokenId token l w =
     (case ml_remaining l of
        [] \<Rightarrow> (Some l, w, [])
      | current # rest \<Rightarrow>
          (case mcp_iteration host probeText runId tokenId token current rest l w of
             (None, w', tr) \<Rightarrow> (None, w', tr)
           | (Some l', w', tr) \<Rightarrow>
               (case mcp_steps host probeText runId tokenId token l' w' of (r, w'', tr') \<Rightarrow> (r, w'', tr @ tr'))))"
  by pat_completeness auto
termination
  by (relation "measures [\<lambda>(host, t, runId, tid, token, l, w). listings (ml_remaining l),
      \<lambda>(host, t, runId, tid, token, l, w). length (ml_remaining l)]")
    (simp, metis (no_types, lifting) iteration_decreases case_prod_conv in_measures(2))

declare mcp_steps.simps [simp del]

section \<open>The runs\<close>

fun button_state :: "McpProbeButtonState \<Rightarrow> ProbeButtonState" where
  "button_state Button_success = Probe_success"
| "button_state Button_partial = Probe_partial"
| "button_state Button_failed = Probe_failed"

text \<open>The state of the version request: \<open>None\<close> unless it is ready.\<close>

definition client_version :: "VersionInfo option \<Rightarrow> string" where
  "client_version version = (case version of Some v \<Rightarrow> vi_frontend v | None \<Rightarrow> ''dev'')"

definition MCP_PROBE_PROTOCOL_VERSION :: string where
  "MCP_PROBE_PROTOCOL_VERSION = ''2025-03-26''"

definition probe_context :: "'w ProbeHost \<Rightarrow> VersionInfo option \<Rightarrow> 'w \<Rightarrow> McpProbeRunContext \<times> 'w" where
  "probe_context host version w =
     (case createMcpProbeIdentityGenerator (ph_now host w) (ph_random host) w of (g, w') \<Rightarrow>
        (\<lparr>rc_protocolVersion = MCP_PROBE_PROTOCOL_VERSION, rc_sessionId = None, rc_clientVersion = client_version version, rc_identity = g\<rparr>, w'))"

text \<open>The check of the quota before the steps: a blocked window is looked up again; \<open>Inl\<close> is the early return.\<close>

definition check_quota ::
  "'w ProbeHost \<Rightarrow> int \<Rightarrow> string \<Rightarrow> UserTokenSummary option \<Rightarrow> 'w \<Rightarrow> (unit + ProbeQuotaWindow option) \<times> 'w \<times> 'w trace" where
  "check_quota host runId tokenId detail w =
     (let blocked = getTokenBusinessQuotaWindow (map_option quota_snapshot detail) in
      if blocked = None then (Inr None, w, [])
      else case revalidateBlockedQuotaWindow quota_snapshot detail
          (async_then (fetchUserTokenDetail (ph_env host) (ph_as_detail host) tokenId) Some) w of
        (r, w') \<Rightarrow>
          if ph_runId host w' \<noteq> runId then (Inl (), w', [])
          else (case r of
              Inl _ \<Rightarrow> (Inr blocked, w', [])
            | Inr (token, window) \<Rightarrow> (Inr window, w', (case token of Some t \<Rightarrow> [(Set_detail t, w')] | None \<Rightarrow> []))))"

definition mcp_final :: "mcp_loop \<Rightarrow> 'w \<Rightarrow> 'w trace" where
  "mcp_final l w =
     [(Set_mcpProbe \<lparr>bm_state = button_state (resolveMcpProbeButtonState (ml_stepStates l)),
         bm_completed = steps_length l, bm_total = steps_length l\<rparr>, w),
      (Set_probeBubble Anchor_mcp (ml_completedItems l), w)]"

text \<open>The steps from the quota check on.\<close>

definition mcp_checked ::
  "'w ProbeHost \<Rightarrow> ProbeText \<Rightarrow> int \<Rightarrow> string \<Rightarrow> UserTokenSummary option \<Rightarrow> McpProbeRunContext \<Rightarrow> string \<Rightarrow> 'w \<Rightarrow>
   mcp_loop option \<times> 'w \<times> 'w trace" where
  "mcp_checked host probeText runId tokenId detail ctx token w =
     (case check_quota host runId tokenId detail w of
        (Inl _, w', tr) \<Rightarrow> (None, w', tr)
      | (Inr blocked, w', tr) \<Rightarrow>
          (case mcp_steps host probeText runId tokenId token
              \<lparr>ml_remaining = buildMcpProbeStepDefinitions (tx_mcp probeText), ml_index = 0, ml_quotaBlockedWindow = blocked,
               ml_context = ctx, ml_completedItems = [], ml_stepStates = []\<rparr> w' of
             (None, w'', tr') \<Rightarrow> (None, w'', tr @ tr')
           | (Some l, w'', tr') \<Rightarrow>
               if ph_runId host w'' \<noteq> runId then (None, w'', tr @ tr')
               else (Some l, w'', tr @ tr' @ mcp_final l w'')))"

definition runMcpProbe ::
  "'w ProbeHost \<Rightarrow> ProbeText \<Rightarrow> UserConsoleRoute \<Rightarrow> probe_view \<Rightarrow> VersionInfo option \<Rightarrow> 'w \<Rightarrow> mcp_loop option \<times> 'w \<times> 'w trace" where
  "runMcpProbe host probeText route view version w = (case route of
     Landing _ \<Rightarrow> (None, w, [])
   | Token tokenId \<Rightarrow>
       if anyProbeRunning view then (None, w, [])
       else
         (let runId = ph_runId host w + 1; w1 = ph_setRunId host runId w;
              (ctx, w2) = probe_context host version w1;
              stepDefinitions = buildMcpProbeStepDefinitions (tx_mcp probeText);
              model = (\<lambda>state. \<lparr>bm_state = state, bm_completed = 0, bm_total = length stepDefinitions\<rparr>);
              started = [(Set_mcpProbe (model Probe_running), w2), (Set_probeBubble Anchor_mcp [], w2)]
          in case fetchUserTokenSecret (ph_env host) (ph_as_secret host) tokenId w2 of
              (r, w3) \<Rightarrow>
                if ph_runId host w3 \<noteq> runId then (None, w3, started)
                else (case r of
                    Inl err \<Rightarrow>
                      (None, w3, started @
                        [(Set_mcpProbe (model Probe_failed), w3),
                         (Set_probeBubble Anchor_mcp
                           [(running_item (hd stepDefinitions))\<lparr>bi_status := Status_failed,
                              bi_detail := Some (formatTemplate (tx_preflightFailed probeText) [(''message'', getProbeErrorMessage err)])\<rparr>], w3)])
                  | Inr secret \<Rightarrow>
                      (case mcp_checked host probeText runId tokenId (pv_detail view) ctx (utr_token secret) w3 of
                         (res, w4, tr) \<Rightarrow> (res, w4, started @ tr)))))"

section \<open>The API probe\<close>

definition api_item :: "ApiProbeStepDefinition \<Rightarrow> ProbeStepStatus \<Rightarrow> ProbeBubbleItem" where
  "api_item current status = \<lparr>bi_id = ad_id current, bi_label = ad_label current, bi_status = status, bi_detail = None\<rparr>"

text \<open>The loop over the steps: the items that are done, the number of steps that passed, and the id of the
  research request once the research step returned it.\<close>

fun api_steps ::
  "'w ProbeHost \<Rightarrow> ProbeText \<Rightarrow> int \<Rightarrow> string \<Rightarrow> ApiProbeStepDefinition list \<Rightarrow> ProbeBubbleItem list \<Rightarrow> nat \<Rightarrow> string option \<Rightarrow> 'w \<Rightarrow>
   (ProbeBubbleItem list \<times> nat) option \<times> 'w \<times> 'w trace" where
  "api_steps host probeText runId token [] items passed researchRequestId w =
     (if ph_runId host w \<noteq> runId then (None, w, []) else (Some (items, passed), w, []))"
| "api_steps host probeText runId token (current # rest) items passed researchRequestId w =
     (if ph_runId host w \<noteq> runId then (None, w, [])
      else
        (let started = [(Set_probeBubble Anchor_api (items @ [api_item current Status_running]), w)] in
         case run_api_step (ph_env host) (tx_api probeText) (ad_run current) token researchRequestId w of
           (r, w') \<Rightarrow>
             if ph_runId host w' \<noteq> runId then (None, w', started)
             else
               (let (status, passed', rid') = (case r of
                      Inr detail \<Rightarrow> (Status_success, passed + 1, if ad_id current = ''api-research'' \<and> truthy_str detail then detail else researchRequestId)
                    | Inl _ \<Rightarrow> (Status_failed, passed, researchRequestId));
                    items' = items @ [api_item current status];
                    updates = started @ [(Next_apiProbe (length items'), w'), (Set_probeBubble Anchor_api items', w')]
                in case api_steps host probeText runId token rest items' passed' rid' w' of
                     (res, w'', tr) \<Rightarrow> (res, w'', updates @ tr))))"

definition api_final :: "nat \<Rightarrow> nat \<Rightarrow> ProbeButtonModel" where
  "api_final steps passed =
     \<lparr>bm_state = (if steps - passed = 0 then Probe_success else if passed = 0 then Probe_failed else Probe_partial),
      bm_completed = steps, bm_total = steps\<rparr>"

definition runApiProbe ::
  "'w ProbeHost \<Rightarrow> ProbeText \<Rightarrow> UserConsoleRoute \<Rightarrow> probe_view \<Rightarrow> 'w \<Rightarrow> (ProbeBubbleItem list \<times> nat) option \<times> 'w \<times> 'w trace" where
  "runApiProbe host probeText route view w = (case route of
     Landing _ \<Rightarrow> (None, w, [])
   | Token tokenId \<Rightarrow>
       if anyProbeRunning view then (None, w, [])
       else
         (let runId = ph_runId host w + 1; w1 = ph_setRunId host runId w;
              stepDefinitions = buildApiProbeStepDefinitions (tx_api probeText);
              model = (\<lambda>state. \<lparr>bm_state = state, bm_completed = 0, bm_total = length stepDefinitions\<rparr>);
              started = [(Set_apiProbe (model Probe_running), w1), (Set_probeBubble Anchor_api [], w1)]
          in case fetchUserTokenSecret (ph_env host) (ph_as_secret host) tokenId w1 of
              (r, w2) \<Rightarrow>
                if ph_runId host w2 \<noteq> runId then (None, w2, started)
                else (case r of
                    Inl err \<Rightarrow>
                      (None, w2, started @
                        [(Set_apiProbe (model Probe_failed), w2),
                         (Set_probeBubble Anchor_api [api_item (hd stepDefinitions) Status_failed], w2)])
                  | Inr secret \<Rightarrow>
                      (case api_steps host probeText runId (utr_token secret) stepDefinitions [] 0 None w2 of
                         (None, w3, tr) \<Rightarrow> (None, w3, started @ tr)
                       | (Some (items, passed), w3, tr) \<Rightarrow>
                           (Some (items, passed), w3, started @ tr @
                             [(Set_apiProbe (api_final (length stepDefinitions) passed), w3), (Set_probeBubble Anchor_api items, w3)])))))"

section \<open>Views of the probe\<close>

record probe_titles =
  ti_idle :: string
  ti_success :: string
  ti_partial :: string
  ti_failed :: string

definition probeButtonLabel :: "probe_titles \<Rightarrow> string \<Rightarrow> ProbeButtonModel \<Rightarrow> string" where
  "probeButtonLabel titles runningButton model = (case bm_state model of
     Probe_running \<Rightarrow> formatTemplate runningButton
       [(''label'', ti_idle titles), (''done'', nat_to_string (bm_completed model)), (''total'', nat_to_string (bm_total model))]
   | Probe_success \<Rightarrow> ti_success titles
   | Probe_partial \<Rightarrow> ti_partial titles
   | Probe_failed \<Rightarrow> ti_failed titles
   | Probe_idle \<Rightarrow> ti_idle titles)"

definition probeButtonTone :: "ProbeButtonState \<Rightarrow> string" where
  "probeButtonTone state = (case state of
     Probe_success \<Rightarrow> ''user-console-probe-btn-success''
   | Probe_partial \<Rightarrow> ''user-console-probe-btn-partial''
   | Probe_failed \<Rightarrow> ''user-console-probe-btn-failed''
   | Probe_running \<Rightarrow> ''user-console-probe-btn-running''
   | Probe_idle \<Rightarrow> ''user-console-probe-btn-idle'')"

definition probeButtonIcon :: "ProbeButtonState \<Rightarrow> string" where
  "probeButtonIcon state = (case state of
     Probe_success \<Rightarrow> ''mdi:check-circle-outline''
   | Probe_partial \<Rightarrow> ''mdi:alert-circle-outline''
   | Probe_failed \<Rightarrow> ''mdi:close-circle-outline''
   | Probe_running \<Rightarrow> ''mdi:loading''
   | Probe_idle \<Rightarrow> ''mdi:play-circle-outline'')"

definition probeBubbleItemIcon :: "ProbeStepStatus \<Rightarrow> string" where
  "probeBubbleItemIcon status = (case status of
     Status_success \<Rightarrow> ''mdi:check-circle-outline''
   | Status_failed \<Rightarrow> ''mdi:close-circle-outline''
   | Status_blocked \<Rightarrow> ''mdi:alert-circle-outline''
   | Status_skipped \<Rightarrow> ''mdi:minus-circle-outline''
   | Status_running \<Rightarrow> ''mdi:loading'')"

text \<open>The first place of a text in another (\<open>indexOf\<close>), and the label split around the tool name.\<close>

fun index_of :: "string \<Rightarrow> string \<Rightarrow> nat option" where
  "index_of pat [] = (if pat = [] then Some 0 else None)"
| "index_of pat (c # s) = (if prefix pat (c # s) then Some 0 else map_option Suc (index_of pat s))"

definition resolveStructuredMcpToolCallLabel :: "ProbeBubbleItem \<Rightarrow> (string \<times> string \<times> string) option" where
  "resolveStructuredMcpToolCallLabel item =
     (if \<not> prefix ''mcp-tool-call:'' (bi_id item) then None
      else let toolName = js_trim (drop (length ''mcp-tool-call:'') (bi_id item)) in
        if length toolName = 0 then None
        else case index_of toolName (bi_label item) of
            None \<Rightarrow> None
          | Some toolIndex \<Rightarrow> Some (js_trim_end (take toolIndex (bi_label item)), toolName,
              js_trim_start (drop (toolIndex + length toolName) (bi_label item))))"

end
