(* ===== verification/Probe_Frame.thy ===== *)
theory Probe_Frame
  imports Probe_Run
begin

text \<open>
  What the requests of a probe can change: a property of the world that the requests of some kind keep is kept by
  every step, every iteration and every run that sends requests of that kind only.
\<close>

section \<open>Functions that keep a property of the world\<close>

named_theorems keeps_intros "what keeps a property of the world"

definition keeps :: "('w \<Rightarrow> bool) \<Rightarrow> ('w, 'a) async \<Rightarrow> bool" where
  "keeps P m \<longleftrightarrow> (\<forall>w. P w \<longrightarrow> P (snd (m w)))"

definition env_keeps :: "(Request \<Rightarrow> bool) \<Rightarrow> ('w \<Rightarrow> bool) \<Rightarrow> 'w Env \<Rightarrow> bool" where
  "env_keeps R P env \<longleftrightarrow> (\<forall>rq. R rq \<longrightarrow> keeps P (env_fetch env rq))"

lemma keepsD: "keeps P m \<Longrightarrow> P w \<Longrightarrow> m w = (r, w') \<Longrightarrow> P w'"
  by (metis keeps_def snd_conv)

lemma keeps_await [keeps_intros]: "keeps P m \<Longrightarrow> (\<And>x. keeps P (f x)) \<Longrightarrow> keeps P (await m f)"
  by (auto simp: keeps_def await_def split: prod.split sum.split)

lemma keeps_pure [keeps_intros]: "keeps P (async_return x)" "keeps P (async_throw e)" "keeps P (async_lift r)"
  by (simp_all add: keeps_def async_defs)

lemma keeps_then [keeps_intros]: "keeps P m \<Longrightarrow> keeps P (async_then m f)"
  unfolding async_then_def by (intro keeps_intros)

lemma keeps_fetch: "env_keeps R P env \<Longrightarrow> R rq \<Longrightarrow> keeps P (env_fetch env rq)"
  by (simp add: env_keeps_def)

lemma keeps_if [keeps_intros]: "(b \<Longrightarrow> keeps P m) \<Longrightarrow> (\<not> b \<Longrightarrow> keeps P n) \<Longrightarrow> keeps P (if b then m else n)"
  by simp

lemma keeps_requestJson: "env_keeps R P env \<Longrightarrow> R rq \<Longrightarrow> keeps P (requestJson env as_T rq)"
  unfolding requestJson_def by (intro keeps_intros keeps_fetch)

lemma keeps_probe_request:
  "env_keeps R P env \<Longrightarrow> R (with_probe_headers token rq) \<Longrightarrow> keeps P (requestMcpProbeWithTokenInternal env token rq a b)"
  unfolding requestMcpProbeWithTokenInternal_def Let_def split_beta
  by (intro keeps_intros) (auto split: option.split intro: keeps_intros keeps_fetch)

lemma keeps_probe_envelope:
  "env_keeps R P env \<Longrightarrow> R (with_probe_headers token rq) \<Longrightarrow> keeps P (requestMcpProbeEnvelopeWithToken env token rq)"
  unfolding requestMcpProbeEnvelopeWithToken_def split_beta by (intro keeps_intros keeps_probe_request)

lemmas keeps_requests = keeps_fetch keeps_requestJson keeps_probe_request keeps_probe_envelope

section \<open>The steps\<close>

definition on_snd :: "('w \<Rightarrow> bool) \<Rightarrow> 'c \<times> 'w \<Rightarrow> bool" where
  "on_snd P = (\<lambda>(c, w). P w)"

lemma keeps_on_world [keeps_intros]: "keeps P m \<Longrightarrow> keeps (on_snd P) (on_world m)"
  by (auto simp: keeps_def on_world_def on_snd_def split: prod.split)

lemma keeps_on_context [keeps_intros]: "keeps (on_snd P) (on_context f)"
  by (auto simp: keeps_def on_context_def on_snd_def split: prod.split)

lemma keeps_context_ops [keeps_intros]: "keeps (on_snd P) (request_id kind tool)" "keeps (on_snd P) current_context"
  "keeps (on_snd P) (keep_session s)" "keeps (on_snd P) (keep_protocol v)" "keeps (on_snd P) (throw_if e)"
  "keeps (on_snd P) (call_arguments name schema)"
  by (auto simp: request_id_def current_context_def keep_session_def keep_protocol_def throw_if_def call_arguments_def
      intro!: keeps_intros split: option.split)

lemma keeps_rpc_step [keeps_intros]: "(\<And>rc. keeps P (probe rc)) \<Longrightarrow> keeps (on_snd P) (rpc_step kind tool probe err)"
  unfolding rpc_step_def by (intro keeps_intros)

text \<open>The calls of tools among the requests: those whose body is a JSON-RPC message with the method \<open>tools/call\<close>.\<close>

definition is_tools_call :: "Request \<Rightarrow> bool" where
  "is_tools_call rq = (case rq_body rq of
     None \<Rightarrow> False
   | Some body \<Rightarrow> (case json_parse body of Some j \<Rightarrow> jprop j ''method'' = Some (JStr ''tools/call'') | None \<Rightarrow> False))"

lemma get_not_tools_call: "\<not> is_tools_call (get_request url)"
  by (simp add: is_tools_call_def get_request_def)

lemma jsonrpc_tools_call:
  "json_plain (JObj members) \<Longrightarrow>
   is_tools_call (with_probe_headers token (mcp_request c members)) \<longleftrightarrow> map_of members ''method'' = Some (JStr ''tools/call'')"
  by (simp add: is_tools_call_def with_probe_headers_def mcp_request_def Let_def json_parse_stringify jprop_def
      del: json_plain.simps json_stringify.simps map_of_eq_Some_iff)

lemma keeps_other_steps:
  assumes env: "env_keeps (\<lambda>rq. \<not> is_tools_call rq) P env" and run: "run \<in> {Run_initialize, Run_initialized, Run_ping, Run_tools_list}"
  shows "keeps (on_snd P) (run_mcp_step env t run token)"
proof -
  have "keeps P (probeMcpInitialize env token c)" for c
    unfolding probeMcpInitialize_def Let_def
    by (intro keeps_intros keeps_requests [OF env]) (simp add: jsonrpc_tools_call jsonrpc_call_def str_member_def split: option.split)
  moreover have "keeps P (probeMcpInitialized env token c)" for c
    unfolding probeMcpInitialized_def requestMcpProbeNotificationWithToken_def split_beta
    by (intro keeps_intros keeps_requests [OF env]) (auto simp: jsonrpc_tools_call split: option.split intro: keeps_intros)
  moreover have "keeps P (probeMcpPing env token c)" "keeps P (probeMcpToolsList env token c)" for c
    unfolding probeMcpPing_def probeMcpToolsList_def
    by (intro keeps_intros keeps_requests [OF env]; simp add: jsonrpc_tools_call jsonrpc_call_def str_member_def split: option.split)+
  ultimately show ?thesis using run
    by (auto simp: run_initialize_def run_initialized_def run_ping_def run_tools_list_def Let_def intro!: keeps_intros)
qed

lemma keeps_step:
  assumes env: "env_keeps (\<lambda>_. True) P env"
  shows "keeps (on_snd P) (run_mcp_step env t run token)"
proof (cases run)
  case (Run_tool_call requestName displayName inputSchema)
  have "keeps P (probeMcpToolsCall env token requestName args c)" for args c
    unfolding probeMcpToolsCall_def by (intro keeps_intros keeps_requests [OF env] TrueI)
  with Run_tool_call show ?thesis by (auto simp: run_tool_call_def intro!: keeps_intros)
qed (use env in \<open>auto intro!: keeps_other_steps simp: env_keeps_def simp del: run_mcp_step.simps\<close>)

lemma keeps_token_requests:
  assumes "env_keeps R P env" "\<And>url. R (get_request url)"
  shows "keeps P (fetchUserTokenDetail env as_D i)" "keeps P (fetchUserTokenSecret env as_S i)"
  using assms by (auto simp: fetchUserTokenDetail_def fetchUserTokenSecret_def intro!: keeps_requests [OF assms(1)])

section \<open>One iteration\<close>

lemmas iteration_splits = if_splits option.splits prod.splits sum.splits

lemma iteration_active:
  "mcp_iteration host t runId tid token current rest l w = (res, w', tr) \<Longrightarrow> (u, v) \<in> set tr \<Longrightarrow> ph_runId host v = runId"
  by (auto simp: mcp_iteration_def settled_def Let_def split: iteration_splits)

lemma step_result_state:
  "run_mcp_step env t run token cw = (Inr (Some r), cw') \<Longrightarrow> sr_stepState r = None \<or> sr_stepState r = Some Step_skipped"
  by (cases run) (auto simp: run_tool_call_def run_initialize_def run_initialized_def run_ping_def run_tools_list_def
      async_return_def async_throw_def Let_def dest!: await_Inr split: if_splits)

text \<open>The states a step can end in, and what it leaves of the quota window.\<close>

lemma iteration_settles:
  assumes "mcp_iteration host t runId tid token current rest l w = (Some l', w', tr)"
  shows "\<exists>state detail remaining blocked ctx. l' = settle current state detail remaining blocked ctx l \<and>
    (blocked = None \<longrightarrow> state \<noteq> Step_blocked \<and> ml_quotaBlockedWindow l = None)"
proof -
  { fix r cw'
    assume "run_mcp_step (ph_env host) (tx_mcp t) (sd_run current) token (ml_context l, w) = (Inr r, cw')"
    then have "nullish (Option.bind r sr_stepState) Step_success \<noteq> Step_blocked"
      using step_result_state [of "ph_env host" "tx_mcp t" "sd_run current" token "(ml_context l, w)"]
      by (cases r) (fastforce simp: nullish_def)+ }
  then show ?thesis using assms
    by (auto simp: mcp_iteration_def Let_def split: iteration_splits) blast+
qed

lemma iteration_keeps:
  assumes "mcp_iteration host t runId tid token current rest l w = (res, w', tr)" "P w"
    and "keeps (on_snd P) (run_mcp_step (ph_env host) (tx_mcp t) (sd_run current) token)"
    and "keeps P (fetchUserTokenDetail (ph_env host) (ph_as_detail host) tid)"
  shows "P w'"
proof -
  have run: "P w1" if "run_mcp_step (ph_env host) (tx_mcp t) (sd_run current) token (ml_context l, w) = (r, (c, w1))" for r c w1
    using keepsD [OF assms(3) _ that] assms(2) by (simp add: on_snd_def)
  have detail: "P w2" if "P w1" "fetchUserTokenDetail (ph_env host) (ph_as_detail host) tid w1 = (r, w2)" for r w1 w2
    using keepsD [OF assms(4) that] .
  show ?thesis using assms(1,2)
    by (auto simp: mcp_iteration_def Let_def split: iteration_splits dest!: run dest: detail)
qed

text \<open>A run that nobody disturbs is not left early.\<close>

definition undisturbed :: "'w ProbeHost \<Rightarrow> bool" where
  "undisturbed host \<longleftrightarrow> (\<forall>rq w. ph_runId host (snd (env_fetch (ph_env host) rq w)) = ph_runId host w)"

lemma undisturbed_keeps: "undisturbed host \<Longrightarrow> env_keeps (\<lambda>_. True) (\<lambda>w. ph_runId host w = n) (ph_env host)"
  by (simp add: undisturbed_def env_keeps_def keeps_def)

lemma undisturbed_run:
  "undisturbed host \<Longrightarrow> run_mcp_step (ph_env host) t run token (c, w) = (r, (c', w')) \<Longrightarrow> ph_runId host w' = ph_runId host w"
  using keepsD [OF keeps_step [OF undisturbed_keeps [of host "ph_runId host w"]], of "(c, w)" t run token r "(c', w')"]
  by (simp add: on_snd_def)

lemma undisturbed_requests:
  assumes "undisturbed host"
  shows "fetchUserTokenDetail (ph_env host) as_D tid w = (r, w') \<Longrightarrow> ph_runId host w' = ph_runId host w"
    and "fetchUserTokenSecret (ph_env host) as_S tid w = (q, w') \<Longrightarrow> ph_runId host w' = ph_runId host w"
  by (rule keepsD [OF keeps_token_requests(1) [OF undisturbed_keeps [OF assms]]];
      auto) (rule keepsD [OF keeps_token_requests(2) [OF undisturbed_keeps [OF assms]]]; auto)

lemma iteration_continues:
  assumes "ph_runId host w = runId" "undisturbed host"
  shows "\<exists>l' w' tr. mcp_iteration host t runId tid token current rest l w = (Some l', w', tr) \<and> ph_runId host w' = runId"
  using assms(1)
  by (auto simp: mcp_iteration_def Let_def split: iteration_splits
      dest!: undisturbed_run [OF assms(2)] undisturbed_requests [OF assms(2)])

section \<open>All iterations\<close>

text \<open>The rule of the loop: \<open>I\<close> holds before every iteration and at the end, \<open>J\<close> of the world where the run is
  left early, and \<open>Q\<close> of every update.\<close>

lemma mcp_steps_rule:
  assumes "mcp_steps host t runId tid token l w = (res, w', tr)" "I l w"
    and "\<And>l w current rest res w' tr. I l w \<Longrightarrow> ml_remaining l = current # rest \<Longrightarrow>
      mcp_iteration host t runId tid token current rest l w = (res, w', tr) \<Longrightarrow>
      (\<forall>x \<in> set tr. Q x) \<and> (case res of Some l' \<Rightarrow> I l' w' | None \<Rightarrow> J w')"
  shows "(\<forall>x \<in> set tr. Q x) \<and> (case res of Some l' \<Rightarrow> I l' w' \<and> ml_remaining l' = [] | None \<Rightarrow> J w')"
  using assms
proof (induction host t runId tid token l w arbitrary: tr rule: mcp_steps.induct)
  case (1 host t runId tid token l w)
  show ?case
  proof (cases "ml_remaining l")
    case Nil
    with 1 show ?thesis by (auto simp: mcp_steps.simps [of host t runId tid token l w])
  next
    case (Cons current rest)
    obtain res1 w1 tr1 where step: "mcp_iteration host t runId tid token current rest l w = (res1, w1, tr1)"
      by (metis prod.exhaust)
    note first = "1.prems"(3) [OF "1.prems"(2) Cons step]
    show ?thesis
    proof (cases res1)
      case None
      with first step Cons "1.prems"(1) show ?thesis by (auto simp: mcp_steps.simps [of host t runId tid token l w])
    next
      case (Some l1)
      obtain tr2 where steps: "mcp_steps host t runId tid token l1 w1 = (res, w', tr2)" and tr: "tr = tr1 @ tr2"
        using step Some Cons "1.prems"(1)
        by (auto simp: mcp_steps.simps [of host t runId tid token l w] split: prod.splits)
      have "I l1 w1" using first Some by simp
      from "1.IH" [OF Cons step [symmetric] Some refl steps this "1.prems"(3)] first tr show ?thesis by auto
    qed
  qed
qed

section \<open>The state of the loop\<close>

text \<open>One item and one state for every step that is done, none of them still running.\<close>

definition loop_ok :: "mcp_loop \<Rightarrow> bool" where
  "loop_ok l \<longleftrightarrow> map bi_status (ml_completedItems l) = map step_status (ml_stepStates l) \<and> length (ml_stepStates l) = ml_index l \<and>
     (Step_blocked \<in> set (ml_stepStates l) \<longrightarrow> ml_quotaBlockedWindow l \<noteq> None)"

lemma loop_ok_length: "loop_ok l \<Longrightarrow> length (ml_completedItems l) = ml_index l"
  unfolding loop_ok_def by (metis length_map)

lemma settle_ok:
  "loop_ok l \<Longrightarrow> blocked = None \<longrightarrow> state \<noteq> Step_blocked \<and> ml_quotaBlockedWindow l = None \<Longrightarrow>
   loop_ok (settle current state detail remaining blocked ctx l)"
  by (auto simp: loop_ok_def settle_def)

lemma iteration_ok: "loop_ok l \<Longrightarrow> mcp_iteration host t runId tid token current rest l w = (Some l', w', tr) \<Longrightarrow> loop_ok l'"
  using iteration_settles settle_ok by metis

text \<open>Progress never exceeds the number of steps.\<close>

fun progress_ok :: "view_update \<Rightarrow> bool" where
  "progress_ok (Set_mcpProbe m) \<longleftrightarrow> bm_completed m \<le> bm_total m"
| "progress_ok (Next_mcpProbe steps completed) \<longleftrightarrow> completed \<le> steps"
| "progress_ok _ \<longleftrightarrow> True"

lemma iteration_progress:
  "mcp_iteration host t runId tid token current rest l w = (res, w', tr) \<Longrightarrow> (u, v) \<in> set tr \<Longrightarrow> progress_ok u"
  by (auto simp: mcp_iteration_def settled_def steps_length_def Let_def split: iteration_splits)

section \<open>The ids of the steps\<close>

definition base_ids :: "string list" where
  "base_ids = [''mcp-initialize'', ''mcp-initialized'', ''mcp-ping'', ''mcp-tools-list'']"

definition loop_ids :: "mcp_loop \<Rightarrow> string list" where
  "loop_ids l = map bi_id (ml_completedItems l) @ map sd_id (ml_remaining l)"

definition ids_ok :: "mcp_loop \<Rightarrow> bool" where
  "ids_ok l \<longleftrightarrow> distinct (loop_ids l) \<and> listings (ml_remaining l) \<le> 1 \<and>
     (listings (ml_remaining l) = 1 \<longrightarrow> set (loop_ids l) \<subseteq> set base_ids)"

lemma tool_entries_fresh:
  "distinct (map at_requestName (tool_entries tools seen)) \<and> set (map at_requestName (tool_entries tools seen)) \<inter> set seen = {}"
  by (induction tools seen rule: tool_entries.induct) (auto simp: Let_def)

lemma tool_call_ids:
  "distinct (map sd_id (buildMcpToolCallProbeStepDefinitions t tools)) \<and>
   set (map sd_id (buildMcpToolCallProbeStepDefinitions t tools)) \<inter> set base_ids = {}"
proof -
  have "map sd_id (buildMcpToolCallProbeStepDefinitions t tools) =
      map (\<lambda>n. ''mcp-tool-call:'' @ n) (map at_requestName (tool_entries tools []))"
    by (simp add: buildMcpToolCallProbeStepDefinitions_def tool_call_step_def)
  moreover have "distinct (map (\<lambda>n. ''mcp-tool-call:'' @ n) (map at_requestName (tool_entries tools [])))"
    using tool_entries_fresh [of tools "[]"] by (subst distinct_map) (simp add: inj_on_def)
  ultimately show ?thesis by (auto simp: base_ids_def)
qed

lemma iteration_new_steps:
  assumes "mcp_iteration host t runId tid token current rest l w = (Some l', w', tr)"
  shows "\<exists>tools. ml_remaining l' = rest @ buildMcpToolCallProbeStepDefinitions (tx_mcp t) tools \<and>
    (sd_run current \<noteq> Run_tools_list \<longrightarrow> tools = [])"
proof -
  have none: "buildMcpToolCallProbeStepDefinitions (tx_mcp t) [] = []" by (simp add: buildMcpToolCallProbeStepDefinitions_def)
  { fix r cw' assume "run_mcp_step (ph_env host) (tx_mcp t) (sd_run current) token (ml_context l, w) = (Inr (Some r), cw')"
    then have "sd_run current \<noteq> Run_tools_list \<longrightarrow> sr_discoveredTools r = []" using step_discovers by blast }
  with none show ?thesis using assms
    by (auto simp: mcp_iteration_def settle_def Let_def split: iteration_splits)
qed

lemma iteration_ids:
  assumes ok: "ids_ok l" "ml_remaining l = current # rest"
    and step: "mcp_iteration host t runId tid token current rest l w = (Some l', w', tr)"
  shows "ids_ok l'"
proof -
  obtain tools where new: "ml_remaining l' = rest @ buildMcpToolCallProbeStepDefinitions (tx_mcp t) tools"
    "sd_run current \<noteq> Run_tools_list \<longrightarrow> tools = []" using iteration_new_steps [OF step] by blast
  have "map bi_id (ml_completedItems l') = map bi_id (ml_completedItems l) @ [sd_id current]"
    using iteration_settles [OF step] by (auto simp: settle_def running_item_def)
  then have ids: "loop_ids l' = loop_ids l @ map sd_id (buildMcpToolCallProbeStepDefinitions (tx_mcp t) tools)"
    by (simp add: loop_ids_def new(1) ok(2))
  have left: "listings (ml_remaining l) = listings (ml_remaining l') + (if sd_run current = Run_tools_list then 1 else 0)"
    by (simp add: new(1) ok(2) tool_call_not_listing) (simp add: listings_def)
  show ?thesis
  proof (cases "sd_run current = Run_tools_list")
    case True
    with ok left have "listings (ml_remaining l') = 0" "set (loop_ids l) \<subseteq> set base_ids" by (auto simp: ids_ok_def)
    with ok(1) ids tool_call_ids [of "tx_mcp t" tools] show ?thesis by (auto simp: ids_ok_def)
  next
    case False
    with new(2) have "loop_ids l' = loop_ids l" by (simp add: ids buildMcpToolCallProbeStepDefinitions_def)
    with False left ok(1) show ?thesis by (simp add: ids_ok_def)
  qed
qed

section \<open>Steps without requests\<close>

text \<open>A step of a tool call as the listing of the tools adds it.\<close>

definition tool_step :: "McpProbeStepDefinition \<Rightarrow> bool" where
  "tool_step s \<longleftrightarrow> (case sd_run s of Run_tool_call r d i \<Rightarrow> sd_billable s = isBillableMcpProbeTool d | _ \<Rightarrow> \<not> sd_billable s)"

lemma tool_steps:
  "list_all tool_step (buildMcpToolCallProbeStepDefinitions t tools)" "list_all tool_step (buildMcpProbeStepDefinitions t)"
  by (auto simp: list_all_iff tool_step_def buildMcpToolCallProbeStepDefinitions_def tool_call_step_def buildMcpProbeStepDefinitions_def)

text \<open>The fixtures of the probe are for billable tools only, so a tool that is not billable is never called.\<close>

lemma fixture_billable: "mcpToolProbeArguments name \<noteq> None \<Longrightarrow> isBillableMcpProbeTool name"
  by (auto simp: mcpToolProbeArguments_def isBillableMcpProbeTool_def Let_def split: if_splits)

lemma unbillable_not_called:
  assumes "\<not> isBillableMcpProbeTool displayName"
  shows "run_tool_call env t requestName displayName schema token (c, w) =
    (Inr (Some \<lparr>sr_detail = Some (formatTemplate (pt_skippedProbeFixture t) [(''tool'', requestName)]),
       sr_discoveredTools = [], sr_stepState = Some Step_skipped\<rparr>), (c, w))"
proof -
  have "mcpToolProbeArguments displayName = None" using assms fixture_billable by blast
  with assms show ?thesis by (simp add: run_tool_call_def call_arguments_def) (simp add: async_return_def)
qed

lemma unbillable_keeps:
  assumes "env_keeps (\<lambda>rq. \<not> is_tools_call rq) P env" "tool_step s" "\<not> sd_billable s"
  shows "keeps (on_snd P) (run_mcp_step env t (sd_run s) token)"
proof (cases "sd_run s")
  case (Run_tool_call r d i)
  with assms(2,3) have "\<not> isBillableMcpProbeTool d" by (simp add: tool_step_def)
  with Run_tool_call show ?thesis by (auto simp: keeps_def on_snd_def unbillable_not_called)
qed (use assms(1) in \<open>auto intro!: keeps_other_steps simp del: run_mcp_step.simps\<close>)

text \<open>A loop that is blocked: no iteration calls a tool, and the loop stays blocked.\<close>

definition blocked_loop :: "mcp_loop \<Rightarrow> bool" where
  "blocked_loop l \<longleftrightarrow> ml_quotaBlockedWindow l \<noteq> None \<and> list_all tool_step (ml_remaining l)"

lemma blocked_iteration:
  assumes env: "env_keeps (\<lambda>rq. \<not> is_tools_call rq) P (ph_env host)"
    and l: "blocked_loop l" "P w" "ml_remaining l = current # rest"
    and step: "mcp_iteration host t runId tid token current rest l w = (res, w', tr)"
  shows "P w' \<and> (\<forall>l'. res = Some l' \<longrightarrow> blocked_loop l')"
proof
  show "P w'"
  proof (cases "sd_billable current")
    case True
    with l(1,2) step show ?thesis by (auto simp: mcp_iteration_def blocked_loop_def Let_def split: if_splits)
  next
    case False
    with l have "keeps (on_snd P) (run_mcp_step (ph_env host) (tx_mcp t) (sd_run current) token)"
      by (intro unbillable_keeps env) (simp_all add: blocked_loop_def)
    with step l(2) show ?thesis
      by (rule iteration_keeps) (auto intro!: keeps_token_requests [OF env] simp: get_not_tools_call)
  qed
  show "\<forall>l'. res = Some l' \<longrightarrow> blocked_loop l'"
  proof (intro allI impI)
    fix l' assume "res = Some l'"
    with step have step': "mcp_iteration host t runId tid token current rest l w = (Some l', w', tr)" by simp
    obtain tools where "ml_remaining l' = rest @ buildMcpToolCallProbeStepDefinitions (tx_mcp t) tools"
      using iteration_new_steps [OF step'] by blast
    moreover have "ml_quotaBlockedWindow l' \<noteq> None"
      using iteration_settles [OF step'] l(1) by (auto simp: settle_def blocked_loop_def)
    ultimately show "blocked_loop l'" using l by (simp add: blocked_loop_def tool_steps)
  qed
qed

section \<open>The context of a run\<close>

text \<open>The run reference holds what was written, and drawing a random number leaves it alone.\<close>

definition run_ref_ok :: "'w ProbeHost \<Rightarrow> bool" where
  "run_ref_ok host \<longleftrightarrow> (\<forall>n w. ph_runId host (ph_setRunId host n w) = n) \<and> (\<forall>w. ph_runId host (snd (ph_random host w)) = ph_runId host w)"

lemma randomBase36Fragment_keeps:
  "(\<And>r. P r \<Longrightarrow> P (snd (random r))) \<Longrightarrow> P r \<Longrightarrow> randomBase36Fragment random n fragment r = (s, r') \<Longrightarrow> P r'"
proof (induction random n fragment r rule: randomBase36Fragment.induct)
  case (1 random n fragment r)
  obtain x r1 where draw: "random r = (x, r1)" by (metis prod.exhaust)
  then have "P r1" using "1.prems"(1) [OF "1.prems"(2)] by simp
  then show ?case using "1.prems" "1.IH" [OF _ draw [symmetric]] draw
    by (auto simp: randomBase36Fragment.simps [of random n fragment r] split: if_splits)
qed

lemma probe_context_keeps:
  "(\<And>w. P w \<Longrightarrow> P (snd (ph_random host w))) \<Longrightarrow> P w \<Longrightarrow> probe_context host version w = (c, w') \<Longrightarrow> P w'"
  by (auto simp: probe_context_def createMcpProbeIdentityGenerator_def split: prod.splits elim: randomBase36Fragment_keeps)

lemma probe_context_runId:
  "run_ref_ok host \<Longrightarrow> probe_context host version (ph_setRunId host n w) = (c, w') \<Longrightarrow> ph_runId host w' = n"
  by (rule probe_context_keeps [where P = "\<lambda>w. ph_runId host w = n"]) (simp_all add: run_ref_ok_def)

section \<open>The quota check\<close>

lemma check_quota_active:
  "check_quota host runId tid detail w = (r, w', tr) \<Longrightarrow> (u, v) \<in> set tr \<Longrightarrow> ph_runId host v = runId \<and> progress_ok u"
  by (auto simp: check_quota_def Let_def split: iteration_splits)

lemma check_quota_keeps:
  assumes "keeps P (fetchUserTokenDetail (ph_env host) (ph_as_detail host) tid)" "P w"
    and "check_quota host runId tid detail w = (r, w', tr)"
  shows "P w'"
proof -
  have "keeps P (revalidateBlockedQuotaWindow quota_snapshot detail
      (async_then (fetchUserTokenDetail (ph_env host) (ph_as_detail host) tid) Some))"
    unfolding revalidateBlockedQuotaWindow_def Let_def using assms(1) by (intro keeps_intros)
  from keepsD [OF this assms(2)] assms show ?thesis by (auto simp: check_quota_def Let_def split: iteration_splits)
qed

end
