(* ===== verification/Probe_Correct.thy ===== *)
theory Probe_Correct
  imports Probe_Frame
begin

text \<open>
  The correctness of the probe runs: a run updates the view only while it is the current one, a run that is not
  disturbed always leaves the running state with one settled item for every step, and no tool is called for a
  token whose quota is exhausted.
\<close>

section \<open>The MCP probe\<close>

lemma mcp_steps_updates:
  assumes "mcp_steps host t runId tid token l w = (res, w', tr)" "(u, v) \<in> set tr"
  shows "ph_runId host v = runId \<and> progress_ok u"
  using mcp_steps_rule [where I = "\<lambda>_ _. True" and J = "\<lambda>_. True" and Q = "\<lambda>(u, v). ph_runId host v = runId \<and> progress_ok u", OF assms(1)]
    assms(2) iteration_active iteration_progress by (fastforce split: option.split)

lemma mcp_checked_updates:
  "mcp_checked host t runId tid detail ctx token w = (res, w', tr) \<Longrightarrow> (u, v) \<in> set tr \<Longrightarrow> ph_runId host v = runId \<and> progress_ok u"
  by (auto simp: mcp_checked_def mcp_final_def split: iteration_splits dest: mcp_steps_updates check_quota_active)

text \<open>The state of the loop at its end.\<close>

definition loop_end :: "mcp_loop \<Rightarrow> bool" where
  "loop_end l \<longleftrightarrow> loop_ok l \<and> ids_ok l \<and> ml_remaining l = [] \<and> 4 \<le> ml_index l"

lemma initial_loop:
  defines "l0 \<equiv> \<lambda>t blocked ctx. \<lparr>ml_remaining = buildMcpProbeStepDefinitions t, ml_index = 0, ml_quotaBlockedWindow = blocked,
    ml_context = ctx, ml_completedItems = [], ml_stepStates = []\<rparr>"
  shows "loop_ok (l0 t blocked ctx)" "ids_ok (l0 t blocked ctx)" "4 \<le> steps_length (l0 t blocked ctx)"
  by (simp_all add: l0_def loop_ok_def ids_ok_def loop_ids_def listings_def base_ids_def steps_length_def buildMcpProbeStepDefinitions_def)

lemma iteration_steps_length:
  assumes "ml_remaining l = current # rest" "mcp_iteration host t runId tid token current rest l w = (Some l', w', tr)"
  shows "steps_length l \<le> steps_length l'"
  using iteration_new_steps [OF assms(2)] iteration_settles [OF assms(2)] assms(1) by (auto simp: steps_length_def settle_def)

lemma mcp_checked_completes:
  assumes "undisturbed host" "ph_runId host w = runId"
  shows "\<exists>l w' tr. mcp_checked host t runId tid detail ctx token w = (Some l, w', tr @ mcp_final l w') \<and> loop_end l"
proof -
  have "ph_runId host w1 = runId" if "check_quota host runId tid detail w = (r, w1, tr)" for r w1 tr
    by (rule check_quota_keeps [OF _ _ that, where P = "\<lambda>w. ph_runId host w = runId"])
      (auto intro!: keeps_token_requests undisturbed_keeps assms)
  moreover obtain r w1 tr1 where check: "check_quota host runId tid detail w = (r, w1, tr1)" by (metis prod.exhaust)
  ultimately have active: "ph_runId host w1 = runId" by blast
  with check obtain blocked where r: "r = Inr blocked" by (auto simp: check_quota_def Let_def split: iteration_splits)
  define l0 where "l0 = \<lparr>ml_remaining = buildMcpProbeStepDefinitions (tx_mcp t), ml_index = 0, ml_quotaBlockedWindow = blocked,
    ml_context = ctx, ml_completedItems = [], ml_stepStates = []\<rparr>"
  obtain res w2 tr2 where steps: "mcp_steps host t runId tid token l0 w1 = (res, w2, tr2)" by (metis prod.exhaust)
  have "case res of Some l' \<Rightarrow> (loop_ok l' \<and> ids_ok l' \<and> 4 \<le> steps_length l' \<and> ph_runId host w2 = runId) \<and> ml_remaining l' = [] | None \<Rightarrow> False"
  proof (rule conjunct2 [OF mcp_steps_rule [OF steps, where Q = "\<lambda>_. True"]])
    show "loop_ok l0 \<and> ids_ok l0 \<and> 4 \<le> steps_length l0 \<and> ph_runId host w1 = runId"
      using initial_loop [of "tx_mcp t" blocked ctx] active by (simp add: l0_def)
  next
    fix l w current rest res w' tr
    assume "loop_ok l \<and> ids_ok l \<and> 4 \<le> steps_length l \<and> ph_runId host w = runId" "ml_remaining l = current # rest"
      "mcp_iteration host t runId tid token current rest l w = (res, w', tr)"
    then show "(\<forall>x\<in>set tr. True) \<and> (case res of None \<Rightarrow> False
        | Some l' \<Rightarrow> loop_ok l' \<and> ids_ok l' \<and> 4 \<le> steps_length l' \<and> ph_runId host w' = runId)"
      using iteration_continues [OF _ assms(1), of w runId t tid token current rest l]
      by (auto intro: iteration_ok iteration_ids order_trans [OF _ iteration_steps_length])
  qed
  then obtain l where "res = Some l" "loop_end l" "ph_runId host w2 = runId"
    by (auto simp: loop_end_def steps_length_def split: option.splits)
  with check r steps show ?thesis by (auto simp: mcp_checked_def l0_def intro!: exI [of _ "tr1 @ tr2"])
qed

definition final_view :: "probe_view \<Rightarrow> 'w trace \<Rightarrow> probe_view" where
  "final_view view tr = foldl (\<lambda>v (u, _). apply_update u v) view tr"

text \<open>A host whose world is the run reference and a log of the requests, and whose server answers every request with
  \<open>true\<close>; texts and a view for the concrete instances.\<close>

definition plain_host :: "UserTokenSummary \<Rightarrow> (int \<times> Request list) ProbeHost" where
  "plain_host d = \<lparr>ph_env = \<lparr>env_fetch = (\<lambda>rq (n, log0). (Inr (text_response 200 ''true''), (n, log0 @ [rq]))), env_parse_error = new_error\<rparr>,
     ph_now = (\<lambda>_. 0), ph_random = (\<lambda>w. (0, w)), ph_runId = fst, ph_setRunId = (\<lambda>n w. (n, snd w)),
     ph_as_secret = (\<lambda>_. \<lparr>utr_token = ''secret''\<rparr>), ph_as_detail = (\<lambda>_. d)\<rparr>"

definition used_up :: UserTokenSummary where
  "used_up = \<lparr>uts_tokenId = ''t'', uts_enabled = True, uts_note = None, uts_lastUsedAt = None, uts_hourlyAnyUsed = 5,
     uts_hourlyAnyLimit = 5, uts_quotaHourlyUsed = 5, uts_quotaHourlyLimit = 5, uts_quotaDailyUsed = 5, uts_quotaDailyLimit = 9,
     uts_quotaMonthlyUsed = 5, uts_quotaMonthlyLimit = 9, uts_dailySuccess = 0, uts_dailyFailure = 0, uts_monthlySuccess = 0\<rparr>"

definition idle_view :: "UserTokenSummary option \<Rightarrow> probe_view" where
  "idle_view d = \<lparr>pv_mcpProbe = createProbeButtonModel BASE_MCP_PROBE_STEP_COUNT, pv_apiProbe = createProbeButtonModel 6,
     pv_probeBubble = None, pv_detail = d\<rparr>"

definition plain_text :: ProbeText where
  "plain_text =
     \<lparr>tx_mcp = \<lparr>pt_mcpInitialize = ''initialize'', pt_mcpInitialized = ''initialized'', pt_mcpPing = ''ping'', pt_mcpToolsList = ''tools'',
        pt_mcpToolCall = ''call {tool}'', pt_skippedProbeFixture = ''no fixture for {tool}'', pt_missingAdvertisedTools = ''no tools''\<rparr>,
      tx_api = \<lparr>pt_apiSearch = ''search'', pt_apiExtract = ''extract'', pt_apiCrawl = ''crawl'', pt_apiMap = ''map'', pt_apiResearch = ''research'',
        pt_apiResearchResult = ''result'', pt_missingRequestId = ''no id'', pt_researchFailed = ''failed'',
        pt_researchUnexpectedStatus = ''status {status}'', pt_researchPendingAccepted = ''pending'', pt_researchStatus = ''status {status}''\<rparr>,
      tx_preflightFailed = ''failed: {message}'', tx_quotaBlocked = ''blocked: {window}'', tx_quotaWindows = (\<lambda>_. ''window'')\<rparr>"

lemma plain_host_ok: "run_ref_ok (plain_host d)" "undisturbed (plain_host d)" "\<not> anyProbeRunning (idle_view d')"
  by (simp_all add: run_ref_ok_def undisturbed_def plain_host_def split_beta anyProbeRunning_def idle_view_def createProbeButtonModel_def)

text \<open>C4: an MCP probe updates the view only while it is the current run.  Every update of the button, of the
  bubble and of the token details is made in a world whose run reference still holds the number of this run, whatever
  the server answers and whatever other handlers do to the reference while the run waits, and no update shows more
  steps done than there are.\<close>

theorem runMcpProbe_updates_current:
  assumes "run_ref_ok host" "runMcpProbe host probeText route view version w = (res, w', tr)" "(u, v) \<in> set tr"
  shows "ph_runId host v = ph_runId host w + 1 \<and> progress_ok u"
  using assms(2,3)
  by (auto simp: runMcpProbe_def Let_def split: UserConsoleRoute.splits iteration_splits
      dest: mcp_checked_updates probe_context_runId [OF assms(1)])

theorem runMcpProbe_updates_current_witness:
  "run_ref_ok (plain_host used_up) \<and>
   list_all (\<lambda>(u, v). fst v = 1 \<and> progress_ok u) (snd (snd (runMcpProbe (plain_host used_up) plain_text (Token ''t'') (idle_view None) None (0, [])))) \<and>
   snd (snd (runMcpProbe (plain_host used_up) plain_text (Token ''t'') (idle_view None) None (0, []))) \<noteq> []"
proof -
  obtain res w' tr where run: "runMcpProbe (plain_host used_up) plain_text (Token ''t'') (idle_view None) None (0, []) = (res, w', tr)"
    by (metis prod.exhaust)
  have "list_all (\<lambda>(u, v). fst v = 1 \<and> progress_ok u) tr"
    using runMcpProbe_updates_current [OF plain_host_ok(1) run] by (force simp: list_all_iff plain_host_def)
  moreover have "tr \<noteq> []" using run plain_host_ok(3) by (auto simp: runMcpProbe_def Let_def split: iteration_splits)
  ultimately show ?thesis using run plain_host_ok(1) by simp
qed

lemma loop_end_items:
  assumes "loop_end l"
  shows "length (ml_completedItems l) = steps_length l" "4 \<le> steps_length l" "distinct (map bi_id (ml_completedItems l))"
    "Status_running \<notin> set (map bi_status (ml_completedItems l))" "ml_stepStates l \<noteq> []"
proof -
  have "step_status x \<noteq> Status_running" for x by (cases x) simp_all
  with assms show "Status_running \<notin> set (map bi_status (ml_completedItems l))"
    by (auto simp: loop_end_def loop_ok_def image_iff dest: sym)
qed (use assms in \<open>auto simp: loop_end_def loop_ok_length steps_length_def ids_ok_def loop_ids_def loop_ok_def\<close>)

lemma final_view_append [simp]: "final_view view (tr @ tr') = final_view (final_view view tr) tr'"
  by (simp add: final_view_def)

lemma final_view_mcp:
  "pv_mcpProbe (final_view view (mcp_final l w)) =
     \<lparr>bm_state = button_state (resolveMcpProbeButtonState (ml_stepStates l)), bm_completed = steps_length l, bm_total = steps_length l\<rparr>"
  "pv_probeBubble (final_view view (mcp_final l w)) = Some \<lparr>bb_visible = True, bb_anchor = Anchor_mcp, bb_items = ml_completedItems l\<rparr>"
  by (simp_all add: final_view_def mcp_final_def)

text \<open>What the view shows once a probe is over: the button has left the running state, and the bubble lists
  settled items with different ids; \<open>states\<close> are the states of the steps, none when the probe did not get that far.\<close>

definition mcp_settled :: "McpProbeStepState list \<Rightarrow> probe_view \<Rightarrow> bool" where
  "mcp_settled states view \<longleftrightarrow>
     (case pv_probeBubble view of
        None \<Rightarrow> False
      | Some bubble \<Rightarrow> bb_visible bubble \<and> bb_anchor bubble = Anchor_mcp \<and> distinct (map bi_id (bb_items bubble)) \<and>
          Status_running \<notin> set (map bi_status (bb_items bubble)) \<and>
          (if states = [] then pv_mcpProbe view = \<lparr>bm_state = Probe_failed, bm_completed = 0, bm_total = 4\<rparr> \<and>
             map bi_status (bb_items bubble) = [Status_failed]
           else 4 \<le> length states \<and> map bi_status (bb_items bubble) = map step_status states \<and>
             pv_mcpProbe view = \<lparr>bm_state = button_state (resolveMcpProbeButtonState states),
               bm_completed = length states, bm_total = length states\<rparr>))"

lemma settled_end: "loop_end l \<Longrightarrow> mcp_settled (ml_stepStates l) (final_view view (mcp_final l w))"
  using loop_end_items [of l]
  by (auto simp: mcp_settled_def final_view_mcp) (auto simp: loop_end_def loop_ok_def steps_length_def)

text \<open>C2: an MCP probe that no other handler disturbs always ends.  Whatever the server answers to the secret
  request, to the quota check and to every step, and however many tools it lists, the button leaves the running
  state: when the secret cannot be read it is failed with the first step marked failed; otherwise every step, the four
  fixed ones and one for every tool listed, has one settled item (success, failed, blocked or skipped) with an id of
  its own, the count of completed steps is the total, and the state of the button is the one of the states of the
  steps.\<close>

theorem runMcpProbe_settles:
  assumes "run_ref_ok host" "undisturbed host" "\<not> anyProbeRunning view"
    and "runMcpProbe host probeText (Token tokenId) view version w = (res, w', tr)"
  shows "mcp_settled (case res of Some l \<Rightarrow> ml_stepStates l | None \<Rightarrow> []) (final_view view tr)"
proof -
  define n where "n = ph_runId host w + 1"
  obtain c w2 where ctx: "probe_context host version (ph_setRunId host n w) = (c, w2)" by (metis prod.exhaust)
  obtain r w3 where secret: "fetchUserTokenSecret (ph_env host) (ph_as_secret host) tokenId w2 = (r, w3)" by (metis prod.exhaust)
  have active: "ph_runId host w3 = n"
    using undisturbed_requests(2) [OF assms(2) secret] probe_context_runId [OF assms(1) ctx] by simp
  note run = assms(4) [unfolded runMcpProbe_def, simplified, folded n_def, simplified Let_def ctx split_conv secret active assms(3)]
  show ?thesis
  proof (cases r)
    case (Inl err)
    with run show ?thesis
      by (auto simp: mcp_settled_def final_view_def running_item_def buildMcpProbeStepDefinitions_def)
  next
    case (Inr sec)
    obtain l w4 tr4 where "mcp_checked host probeText n tokenId (pv_detail view) c (utr_token sec) w3 = (Some l, w4, tr4 @ mcp_final l w4)"
      and l: "loop_end l" using mcp_checked_completes [OF assms(2) active] by blast
    with run Inr have "res = Some l" "\<exists>start. tr = start @ mcp_final l w4" by auto
    with settled_end [OF l] show ?thesis by auto
  qed
qed

theorem runMcpProbe_settles_witness:
  "run_ref_ok (plain_host used_up) \<and> undisturbed (plain_host used_up) \<and> \<not> anyProbeRunning (idle_view None) \<and>
   mcp_settled (case fst (runMcpProbe (plain_host used_up) plain_text (Token ''t'') (idle_view None) None (0, [])) of
       Some l \<Rightarrow> ml_stepStates l | None \<Rightarrow> [])
     (final_view (idle_view None) (snd (snd (runMcpProbe (plain_host used_up) plain_text (Token ''t'') (idle_view None) None (0, [])))))"
  by (intro conjI plain_host_ok runMcpProbe_settles [OF plain_host_ok(1,2,3)]) (simp add: prod_eq_iff)

lemma detail_cast: "fetchUserTokenDetail env as_D tid w = (Inr d, w') \<Longrightarrow> \<exists>j. d = as_D j"
  by (auto simp: fetchUserTokenDetail_def requestJson_def async_throw_def async_then_def async_return_def
      dest!: await_Inr split: if_splits) blast

lemma check_quota_blocked:
  assumes "getTokenBusinessQuotaWindow (map_option quota_snapshot detail) \<noteq> None"
    and "\<And>j. getTokenBusinessQuotaWindow (Some (quota_snapshot (ph_as_detail host j))) \<noteq> None"
    and "check_quota host runId tid detail w = (Inr blocked, w', tr)"
  shows "blocked \<noteq> None"
proof -
  have "getTokenBusinessQuotaWindow (Some (quota_snapshot d)) \<noteq> None"
    if "fetchUserTokenDetail (ph_env host) (ph_as_detail host) tid w = (Inr d, w1)" for d w1
    using detail_cast [OF that] assms(2) by blast
  with assms(1,3) show ?thesis
    by (auto simp: check_quota_def revalidateBlockedQuotaWindow_def async_then_def async_return_def Let_def await_def
        split: iteration_splits) metis
qed

lemma blocked_steps_keep:
  assumes env: "env_keeps (\<lambda>rq. \<not> is_tools_call rq) P (ph_env host)"
    and steps: "mcp_steps host t runId tid token l w = (res, w', tr)" and l: "blocked_loop l" "P w"
  shows "P w'"
proof -
  have "case res of Some l' \<Rightarrow> (blocked_loop l' \<and> P w') \<and> ml_remaining l' = [] | None \<Rightarrow> P w'"
    by (rule conjunct2 [OF mcp_steps_rule [OF steps, where Q = "\<lambda>_. True"]])
      (use l in \<open>auto dest: blocked_iteration [OF env] split: option.split\<close>)
  then show ?thesis by (auto split: option.splits)
qed

lemma blocked_checked_keeps:
  assumes env: "env_keeps (\<lambda>rq. \<not> is_tools_call rq) P (ph_env host)" and w: "P w"
    and blocked: "getTokenBusinessQuotaWindow (map_option quota_snapshot detail) \<noteq> None"
      "\<And>j. getTokenBusinessQuotaWindow (Some (quota_snapshot (ph_as_detail host j))) \<noteq> None"
    and run: "mcp_checked host t runId tid detail ctx token w = (res, w', tr)"
  shows "P w'"
proof -
  obtain r w1 tr1 where check: "check_quota host runId tid detail w = (r, w1, tr1)" by (metis prod.exhaust)
  then have w1: "P w1" by (rule check_quota_keeps [rotated 2]) (auto intro!: keeps_token_requests [OF env] get_not_tools_call w)
  show ?thesis
  proof (cases r)
    case (Inl x)
    with check run w1 show ?thesis by (simp add: mcp_checked_def)
  next
    case (Inr b)
    with check_quota_blocked [OF blocked] check have "b \<noteq> None" by simp
    then have l0: "blocked_loop \<lparr>ml_remaining = buildMcpProbeStepDefinitions (tx_mcp t), ml_index = 0, ml_quotaBlockedWindow = b,
        ml_context = ctx, ml_completedItems = [], ml_stepStates = []\<rparr>" by (simp add: blocked_loop_def tool_steps)
    show ?thesis using check Inr run blocked_steps_keep [OF env _ l0 w1]
      by (auto simp: mcp_checked_def split: iteration_splits)
  qed
qed

text \<open>C3: no tool is called for a token whose quota is exhausted.  When the details of the token show a used-up
  window and every answer to the request for fresh details does too, then whatever the requests other than
  \<open>tools/call\<close> leave true of the world is still true after the run: the steps of the billable tools are settled
  as blocked without a request, and the tools that are not billable are skipped, whatever the server lists.\<close>

theorem runMcpProbe_blocked_calls_no_tool:
  assumes env: "env_keeps (\<lambda>rq. \<not> is_tools_call rq) P (ph_env host)"
    and ref: "\<And>n w. P w \<Longrightarrow> P (ph_setRunId host n w)" "\<And>w. P w \<Longrightarrow> P (snd (ph_random host w))"
    and blocked: "getTokenBusinessQuotaWindow (map_option quota_snapshot (pv_detail view)) \<noteq> None"
      "\<And>j. getTokenBusinessQuotaWindow (Some (quota_snapshot (ph_as_detail host j))) \<noteq> None"
    and run: "P w" "runMcpProbe host probeText route view version w = (res, w', tr)"
  shows "P w'"
proof (cases route)
  case (Token tid)
  define n where "n = ph_runId host w + 1"
  obtain c w2 where ctx: "probe_context host version (ph_setRunId host n w) = (c, w2)" by (metis prod.exhaust)
  obtain r w3 where secret: "fetchUserTokenSecret (ph_env host) (ph_as_secret host) tid w2 = (r, w3)" by (metis prod.exhaust)
  have "P w2" by (rule probe_context_keeps [OF ref(2) ref(1) [OF run(1)] ctx])
  with keepsD [OF keeps_token_requests(2) [OF env] _ secret] get_not_tools_call have w3: "P w3" by blast
  have checked: "P w4" if "mcp_checked host probeText n tid (pv_detail view) c token w3 = (res, w4, tr4)" for token w4 res tr4
    by (rule blocked_checked_keeps [OF env w3 blocked that])
  show ?thesis
    using run Token w3 checked unfolding runMcpProbe_def n_def [symmetric] Let_def
    by (auto simp: ctx secret n_def [symmetric] split: if_splits sum.splits prod.splits)
qed (use run in \<open>auto simp: runMcpProbe_def\<close>)

theorem runMcpProbe_blocked_calls_no_tool_witness:
  "getTokenBusinessQuotaWindow (map_option quota_snapshot (pv_detail (idle_view (Some used_up)))) \<noteq> None \<and>
   list_all (\<lambda>rq. \<not> is_tools_call rq)
     (snd (fst (snd (runMcpProbe (plain_host used_up) plain_text (Token ''t'') (idle_view (Some used_up)) None (0, [])))))"
proof -
  have blocked: "getTokenBusinessQuotaWindow (Some (quota_snapshot used_up)) \<noteq> None"
    by (simp add: getTokenBusinessQuotaWindow_def quota_snapshot_def used_up_def)
  obtain res w' tr where run: "runMcpProbe (plain_host used_up) plain_text (Token ''t'') (idle_view (Some used_up)) None (0, []) = (res, w', tr)"
    by (metis prod.exhaust)
  have "list_all (\<lambda>rq. \<not> is_tools_call rq) (snd w')"
    by (rule runMcpProbe_blocked_calls_no_tool [OF _ _ _ _ _ _ run])
      (use blocked in \<open>auto simp: env_keeps_def keeps_def plain_host_def idle_view_def\<close>)
  with run blocked show ?thesis by (simp add: idle_view_def)
qed

section \<open>The API probe\<close>

lemma keeps_api_step:
  assumes env: "env_keeps (\<lambda>_. True) P env"
  shows "keeps P (run_api_step env t run token rid)"
proof -
  have call: "keeps P (api_call m)" if "keeps P m" for m
    unfolding api_call_def fail_if_def using that by (intro keeps_intros)
  have request: "keeps P (requestJsonWithToken env f token rq)" for f :: "json \<Rightarrow> json" and rq
    unfolding requestJsonWithToken_def Let_def by (intro keeps_requests [OF env] TrueI)
  show ?thesis
    by (cases run) (auto simp: probeApiTavilySearch_def probeApiTavilyExtract_def probeApiTavilyCrawl_def probeApiTavilyMap_def
        probeApiTavilyResearch_def probeApiTavilyResearchResult_def Let_def intro!: keeps_intros call request)
qed

definition settled_items :: "ApiProbeStepDefinition list \<Rightarrow> ProbeBubbleItem list \<Rightarrow> bool" where
  "settled_items steps items \<longleftrightarrow> list_all2 (\<lambda>s i. i = api_item s Status_success \<or> i = api_item s Status_failed) steps items"

definition passed_items :: "ProbeBubbleItem list \<Rightarrow> nat" where
  "passed_items items = length (filter (\<lambda>i. bi_status i = Status_success) items)"

lemma api_steps_complete:
  assumes "undisturbed host" "ph_runId host w = runId"
  shows "\<exists>new w' tr. api_steps host t runId token steps items passed rid w = (Some (items @ new, passed + passed_items new), w', tr) \<and>
    settled_items steps new \<and> ph_runId host w' = runId"
  using assms(2)
proof (induction steps arbitrary: items passed rid w)
  case Nil
  then show ?case by (simp add: settled_items_def passed_items_def)
next
  case (Cons s steps)
  obtain r w1 where step: "run_api_step (ph_env host) (tx_api t) (ad_run s) token rid w = (r, w1)" by (metis prod.exhaust)
  with keepsD [OF keeps_api_step [OF undisturbed_keeps [OF assms(1)]] Cons.prems] have active: "ph_runId host w1 = runId" by blast
  define status where "status = (case r of Inr _ \<Rightarrow> Status_success | Inl _ \<Rightarrow> Status_failed)"
  define rid' where "rid' = (case r of Inr d \<Rightarrow> if ad_id s = ''api-research'' \<and> truthy_str d then d else rid | Inl _ \<Rightarrow> rid)"
  define passed' where "passed' = (case r of Inr _ \<Rightarrow> passed + 1 | Inl _ \<Rightarrow> passed)"
  obtain new w' tr where rest: "api_steps host t runId token steps (items @ [api_item s status]) passed' rid' w1 =
      (Some ((items @ [api_item s status]) @ new, passed' + passed_items new), w', tr)"
    and new: "settled_items steps new" "ph_runId host w' = runId" using Cons.IH [OF active] by blast
  have "\<exists>tr. api_steps host t runId token (s # steps) items passed rid w =
      (Some (items @ api_item s status # new, passed + passed_items (api_item s status # new)), w', tr)"
    using rest Cons.prems active step
    by (cases r) (auto simp: status_def rid'_def passed'_def passed_items_def api_item_def split: prod.split)
  moreover have "settled_items (s # steps) (api_item s status # new)"
    using new(1) by (cases r) (simp_all add: settled_items_def status_def)
  ultimately show ?case using new(2) by blast
qed

text \<open>What the view shows once an API probe is over.\<close>

definition api_settled :: "ApiProbeStepDefinition list \<Rightarrow> probe_view \<Rightarrow> bool" where
  "api_settled steps view \<longleftrightarrow> (case pv_probeBubble view of
     None \<Rightarrow> False
   | Some bubble \<Rightarrow> bb_visible bubble \<and> bb_anchor bubble = Anchor_api \<and>
       (let items = bb_items bubble; state = bm_state (pv_apiProbe view) in
        items = [api_item (hd steps) Status_failed] \<and> pv_apiProbe view = \<lparr>bm_state = Probe_failed, bm_completed = 0, bm_total = length steps\<rparr> \<or>
        settled_items steps items \<and> bm_completed (pv_apiProbe view) = length steps \<and> bm_total (pv_apiProbe view) = length steps \<and>
        state \<in> {Probe_success, Probe_partial, Probe_failed} \<and>
        (state = Probe_success \<longleftrightarrow> Status_failed \<notin> set (map bi_status items)) \<and>
        (state = Probe_failed \<longleftrightarrow> Status_success \<notin> set (map bi_status items))))"

lemma length_filter_all: "length (filter P xs) = length xs \<longleftrightarrow> (\<forall>x \<in> set xs. P x)"
proof (induction xs)
  case (Cons x xs)
  have "length (filter P xs) \<noteq> Suc (length xs)" using length_filter_le [of P xs] by linarith
  with Cons show ?case by simp
qed simp

lemma api_final_state:
  assumes "settled_items steps items" "steps \<noteq> []"
  shows "bm_state (api_final (length steps) (passed_items items)) \<in> {Probe_success, Probe_partial, Probe_failed}"
    and "bm_state (api_final (length steps) (passed_items items)) = Probe_success \<longleftrightarrow> Status_failed \<notin> set (map bi_status items)"
    and "bm_state (api_final (length steps) (passed_items items)) = Probe_failed \<longleftrightarrow> Status_success \<notin> set (map bi_status items)"
proof -
  have len: "length items = length steps" using assms(1) by (simp add: settled_items_def list_all2_lengthD)
  have statuses: "bi_status i = Status_success \<or> bi_status i = Status_failed" if "i \<in> set items" for i
    using assms(1)[unfolded settled_items_def] that by (induction rule: list_all2_induct) (auto simp: api_item_def)
  have "passed_items items \<le> length items" by (simp add: passed_items_def)
  moreover have "passed_items items = length items \<longleftrightarrow> Status_failed \<notin> set (map bi_status items)"
    unfolding passed_items_def length_filter_all using statuses by force
  ultimately show "bm_state (api_final (length steps) (passed_items items)) = Probe_success \<longleftrightarrow> Status_failed \<notin> set (map bi_status items)"
    using len by (auto simp: api_final_def)
  have "passed_items items = 0 \<longleftrightarrow> Status_success \<notin> set (map bi_status items)"
    by (force simp: passed_items_def filter_empty_conv)
  then show "bm_state (api_final (length steps) (passed_items items)) = Probe_failed \<longleftrightarrow> Status_success \<notin> set (map bi_status items)"
    using assms(2) by (auto simp: api_final_def)
qed (simp add: api_final_def)



end
