(* ===== verification/Token_Secrets.thy ===== *)
theory Token_Secrets
  imports Probe_Run
begin

text \<open>
  The secrets of the tokens in the user console (\<open>web/src/UserConsole.tsx\<close>): revealing a secret on the page of a
  token and in the setup guide, the short-lived cache, shared requests, prewarming and copying.  The component's
  state and references are one record; the closures that wait for a promise or a timer are data (with the values
  they captured), so that every interleaving of user actions, renders, effects, answers and timers is a sequence
  of events.
\<close>

section \<open>State\<close>

datatype TokenSecretCopyState = Copy_idle | Copy_copied | Copy_error

text \<open>What a callback captures of the render it was made in.\<close>

record closure =
  cl_availability :: UserConsoleAvailability
  cl_route :: UserConsoleRoute
  cl_secretTokenId :: "string option"
  cl_secretValue :: "string option"

text \<open>A request for a secret: \<open>sc_shared\<close> when it was made by \<open>resolveTokenSecret\<close>, \<open>sc_signal\<close> the warm
  controller whose abort it follows.\<close>

record secret_call =
  sc_token :: string
  sc_runId :: nat
  sc_shared :: bool
  sc_signal :: "nat option"
  sc_aborted :: bool
  sc_result :: "(js_error + string) option"

datatype source = Source_value string | Source_call nat

datatype timer = Cache_timer string | Warm_timer string closure | Copy_timer string

text \<open>The functions that wait: for the answer of a reveal, for a secret of the guide, for a secret to copy, for
  the clipboard, for a prewarmed secret.\<close>

datatype task =
    Reveal_task nat string nat
  | Guide_task nat string "string option" source
  | Copy_secret_task string closure bool source
  | Copy_text_task string closure bool string bool
  | Warm_task string nat source

record secrets =
  sx_availability :: UserConsoleAvailability
  sx_route :: UserConsoleRoute
  sx_tokens :: "UserTokenSummary list"
  sx_tokenSecretTokenId :: "string option"
  sx_tokenSecretVisible :: bool
  sx_tokenSecretValue :: "string option"
  sx_tokenSecretLoading :: bool
  sx_tokenSecretError :: "string option"
  sx_revealedGuideContextKey :: "string option"
  sx_guideTokenValue :: "string option"
  sx_guideTokenLoading :: bool
  sx_guideTokenError :: "string option"
  sx_copyState :: "(string \<times> TokenSecretCopyState) list"
  sx_manualCopyBubble :: "string option"
  sx_secretRunId :: nat
  sx_guideRunId :: nat
  sx_cache :: "(string \<times> string) list"
  sx_cacheTimers :: "(string \<times> nat) list"
  sx_warmTimers :: "(string \<times> nat) list"
  sx_warmAborts :: "(string \<times> nat) list"
  sx_requests :: "(string \<times> nat) list"
  sx_requestAborts :: "(string \<times> nat) list"
  sx_timers :: "(nat \<times> timer) list"
  sx_calls :: "secret_call list"
  sx_tasks :: "task list"
  sx_fresh :: nat

definition capture :: "secrets \<Rightarrow> closure" where
  "capture st = \<lparr>cl_availability = sx_availability st, cl_route = sx_route st,
     cl_secretTokenId = sx_tokenSecretTokenId st, cl_secretValue = sx_tokenSecretValue st\<rparr>"

definition initial_secrets :: "UserConsoleRoute \<Rightarrow> secrets" where
  "initial_secrets route =
     \<lparr>sx_availability = Availability_unknown, sx_route = route, sx_tokens = [], sx_tokenSecretTokenId = None,
      sx_tokenSecretVisible = False, sx_tokenSecretValue = None, sx_tokenSecretLoading = False, sx_tokenSecretError = None,
      sx_revealedGuideContextKey = None, sx_guideTokenValue = None, sx_guideTokenLoading = False, sx_guideTokenError = None,
      sx_copyState = [], sx_manualCopyBubble = None, sx_secretRunId = 0, sx_guideRunId = 0, sx_cache = [], sx_cacheTimers = [],
      sx_warmTimers = [], sx_warmAborts = [], sx_requests = [], sx_requestAborts = [], sx_timers = [], sx_calls = [],
      sx_tasks = [], sx_fresh = 0\<rparr>"

section \<open>Timers, aborts and the cache\<close>

definition clear_timeouts :: "nat list \<Rightarrow> secrets \<Rightarrow> secrets" where
  "clear_timeouts ids st = st\<lparr>sx_timers := filter (\<lambda>(i, _). i \<notin> set ids) (sx_timers st)\<rparr>"

definition set_timeout :: "timer \<Rightarrow> secrets \<Rightarrow> nat \<times> secrets" where
  "set_timeout t st = (sx_fresh st, st\<lparr>sx_timers := sx_timers st @ [(sx_fresh st, t)], sx_fresh := Suc (sx_fresh st)\<rparr>)"

definition abort_calls :: "(nat \<Rightarrow> secret_call \<Rightarrow> bool) \<Rightarrow> secrets \<Rightarrow> secrets" where
  "abort_calls P st = st\<lparr>sx_calls := map (\<lambda>(i, c). if P i c then c\<lparr>sc_aborted := True\<rparr> else c) (enumerate 0 (sx_calls st))\<rparr>"

definition abortPendingTokenSecretRequest :: "string \<Rightarrow> secrets \<Rightarrow> secrets" where
  "abortPendingTokenSecretRequest tokenId st =
     (let st1 = (case map_of (sx_requestAborts st) tokenId of
            Some i \<Rightarrow> (abort_calls (\<lambda>j _. j = i) st)\<lparr>sx_requestAborts := js_map_delete tokenId (sx_requestAborts st)\<rparr>
          | None \<Rightarrow> st)
      in st1\<lparr>sx_requests := js_map_delete tokenId (sx_requests st1)\<rparr>)"

definition abortAllPendingTokenSecretRequests :: "secrets \<Rightarrow> secrets" where
  "abortAllPendingTokenSecretRequests st =
     (abort_calls (\<lambda>j _. j \<in> set (map snd (sx_requestAborts st))) st)\<lparr>sx_requestAborts := [], sx_requests := []\<rparr>"

text \<open>The effect of a change of the availability or of the token of the route.\<close>

definition secret_effect :: "secrets \<Rightarrow> secrets" where
  "secret_effect st =
     (let st1 = clear_timeouts (map snd (sx_warmTimers st) @ map snd (sx_cacheTimers st))
            (st\<lparr>sx_secretRunId := Suc (sx_secretRunId st), sx_tokenSecretTokenId := None, sx_tokenSecretVisible := False,
               sx_tokenSecretValue := None, sx_tokenSecretLoading := False, sx_tokenSecretError := None\<rparr>);
          st2 = abort_calls (\<lambda>_ c. case sc_signal c of Some s \<Rightarrow> s \<in> set (map snd (sx_warmAborts st)) | None \<Rightarrow> False) st1;
          st3 = abortAllPendingTokenSecretRequests st2
      in st3\<lparr>sx_warmTimers := [], sx_cacheTimers := [], sx_warmAborts := [], sx_cache := []\<rparr>)"

definition guide_effect :: "secrets \<Rightarrow> secrets" where
  "guide_effect st = st\<lparr>sx_guideRunId := Suc (sx_guideRunId st), sx_revealedGuideContextKey := None, sx_guideTokenValue := None,
     sx_guideTokenLoading := False, sx_guideTokenError := None\<rparr>"

definition clearCachedTokenSecret :: "string \<Rightarrow> secrets \<Rightarrow> secrets" where
  "clearCachedTokenSecret tokenId st =
     (let st1 = (case map_of (sx_cacheTimers st) tokenId of
            Some i \<Rightarrow> (clear_timeouts [i] st)\<lparr>sx_cacheTimers := js_map_delete tokenId (sx_cacheTimers st)\<rparr>
          | None \<Rightarrow> st)
      in st1\<lparr>sx_cache := js_map_delete tokenId (sx_cache st1)\<rparr>)"

definition cacheTokenSecret :: "string \<Rightarrow> string \<Rightarrow> secrets \<Rightarrow> secrets" where
  "cacheTokenSecret tokenId token st =
     (let st1 = clearCachedTokenSecret tokenId st;
          st2 = st1\<lparr>sx_cache := js_map_set tokenId token (sx_cache st1)\<rparr>;
          (i, st3) = set_timeout (Cache_timer tokenId) st2
      in st3\<lparr>sx_cacheTimers := js_map_set tokenId i (sx_cacheTimers st3)\<rparr>)"

definition clearWarmTokenSecretTimer :: "string \<Rightarrow> secrets \<Rightarrow> secrets" where
  "clearWarmTokenSecretTimer tokenId st = (case map_of (sx_warmTimers st) tokenId of
     Some i \<Rightarrow> (clear_timeouts [i] st)\<lparr>sx_warmTimers := js_map_delete tokenId (sx_warmTimers st)\<rparr>
   | None \<Rightarrow> st)"

definition cancelWarmTokenSecret :: "string \<Rightarrow> secrets \<Rightarrow> secrets" where
  "cancelWarmTokenSecret tokenId st =
     (let st1 = clearWarmTokenSecretTimer tokenId st in
      if js_map_has tokenId (sx_warmAborts st1) then
        abortPendingTokenSecretRequest tokenId (st1\<lparr>sx_warmAborts := js_map_delete tokenId (sx_warmAborts st1)\<rparr>)
      else st1)"

definition commitWarmTokenSecret :: "string \<Rightarrow> secrets \<Rightarrow> secrets" where
  "commitWarmTokenSecret tokenId st =
     (let st1 = clearWarmTokenSecretTimer tokenId st in st1\<lparr>sx_warmAborts := js_map_delete tokenId (sx_warmAborts st1)\<rparr>)"

section \<open>Resolving a secret\<close>

definition new_call :: "string \<Rightarrow> bool \<Rightarrow> nat option \<Rightarrow> secrets \<Rightarrow> nat \<times> secrets" where
  "new_call tokenId shared signal st =
     (length (sx_calls st),
      st\<lparr>sx_calls := sx_calls st @ [\<lparr>sc_token = tokenId, sc_runId = sx_secretRunId st, sc_shared = shared, sc_signal = signal,
        sc_aborted = False, sc_result = None\<rparr>]\<rparr>)"

text \<open>What the returned promise waits for: a value at hand, a request that is already pending, or a new one.\<close>

definition resolveTokenSecret :: "closure \<Rightarrow> string \<Rightarrow> nat option \<Rightarrow> secrets \<Rightarrow> source \<times> secrets" where
  "resolveTokenSecret cl tokenId signal st =
     (let revealedToken = (if cl_route cl = Token tokenId \<and> cl_secretTokenId cl = Some tokenId then cl_secretValue cl else None);
          cachedToken = map_of (sx_cache st) tokenId
      in if truthy_str revealedToken then (Source_value (the revealedToken), st)
         else if truthy_str cachedToken then (Source_value (the cachedToken), st)
         else case map_of (sx_requests st) tokenId of
             Some pending \<Rightarrow> (Source_call pending, st)
           | None \<Rightarrow>
               (let (i, st1) = new_call tokenId True signal st
                in (Source_call i, st1\<lparr>sx_requestAborts := js_map_set tokenId i (sx_requestAborts st1),
                      sx_requests := js_map_set tokenId i (sx_requests st1)\<rparr>)))"

text \<open>A request is answered: the value of a shared request is cached when it is still wanted, and the references
  to the request are removed.\<close>

definition delete_if_same :: "'k \<Rightarrow> 'v \<Rightarrow> ('k \<times> 'v) list \<Rightarrow> ('k \<times> 'v) list" where
  "delete_if_same k v m = (if map_of m k = Some v then js_map_delete k m else m)"

definition settle_call :: "nat \<Rightarrow> js_error + string \<Rightarrow> secrets \<Rightarrow> secrets" where
  "settle_call i r st =
     (let c = sx_calls st ! i; st1 = st\<lparr>sx_calls := (sx_calls st)[i := c\<lparr>sc_result := Some r\<rparr>]\<rparr> in
      if \<not> sc_shared c then st1
      else
        (let st2 = (case r of
               Inr token \<Rightarrow> if \<not> sc_aborted c \<and> sc_runId c = sx_secretRunId st1 then cacheTokenSecret (sc_token c) token st1 else st1
             | Inl _ \<Rightarrow> st1)
         in st2\<lparr>sx_requests := delete_if_same (sc_token c) i (sx_requests st2),
                sx_requestAborts := delete_if_same (sc_token c) i (sx_requestAborts st2)\<rparr>))"

definition add_task :: "task \<Rightarrow> secrets \<Rightarrow> secrets" where
  "add_task t st = st\<lparr>sx_tasks := sx_tasks st @ [t]\<rparr>"

definition warmTokenSecret :: "bool \<Rightarrow> closure \<Rightarrow> string \<Rightarrow> secrets \<Rightarrow> secrets" where
  "warmTokenSecret shouldPrewarmTokenCopy cl tokenId st =
     (if cl_availability cl \<noteq> Availability_enabled \<or> \<not> shouldPrewarmTokenCopy then st
      else let st1 = clearWarmTokenSecretTimer tokenId st in
        if js_map_has tokenId (sx_cache st1) \<or> js_map_has tokenId (sx_requests st1) then st1
        else let controller = sx_fresh st1;
                 st2 = st1\<lparr>sx_fresh := Suc controller, sx_warmAborts := js_map_set tokenId controller (sx_warmAborts st1)\<rparr>;
                 (src, st3) = resolveTokenSecret cl tokenId (Some controller) st2
             in add_task (Warm_task tokenId controller src) st3)"

definition scheduleWarmTokenSecret :: "bool \<Rightarrow> string \<Rightarrow> secrets \<Rightarrow> secrets" where
  "scheduleWarmTokenSecret shouldPrewarmTokenCopy tokenId st =
     (if sx_availability st \<noteq> Availability_enabled \<or> \<not> shouldPrewarmTokenCopy then st
      else if js_map_has tokenId (sx_cache st) \<or> js_map_has tokenId (sx_requests st) then st
      else let st1 = clearWarmTokenSecretTimer tokenId st;
               (i, st2) = set_timeout (Warm_timer tokenId (capture st)) st1
           in st2\<lparr>sx_warmTimers := js_map_set tokenId i (sx_warmTimers st2)\<rparr>)"

definition warm_continue :: "string \<Rightarrow> nat \<Rightarrow> js_error + string \<Rightarrow> secrets \<Rightarrow> secrets" where
  "warm_continue tokenId controller r st =
     (let st1 = (case r of
            Inr token \<Rightarrow> if map_of (sx_warmAborts st) tokenId = Some controller then cacheTokenSecret tokenId token st else st
          | Inl _ \<Rightarrow> st)
      in st1\<lparr>sx_warmAborts := delete_if_same tokenId controller (sx_warmAborts st1)\<rparr>)"

section \<open>Copying\<close>

definition set_copy_state :: "string \<Rightarrow> TokenSecretCopyState \<Rightarrow> secrets \<Rightarrow> secrets" where
  "set_copy_state tokenId c st =
     (let st1 = st\<lparr>sx_copyState := js_map_set tokenId c (sx_copyState st)\<rparr> in snd (set_timeout (Copy_timer tokenId) st1))"

definition revealDetailTokenForManualCopy :: "closure \<Rightarrow> string \<Rightarrow> string \<Rightarrow> secrets \<Rightarrow> bool \<times> secrets" where
  "revealDetailTokenForManualCopy cl tokenId token st =
     (if cl_route cl \<noteq> Token tokenId then (False, st)
      else (True, st\<lparr>sx_tokenSecretTokenId := Some tokenId, sx_tokenSecretValue := Some token, sx_tokenSecretVisible := True,
        sx_tokenSecretLoading := False, sx_tokenSecretError := None\<rparr>))"

definition copyToken :: "string \<Rightarrow> bool \<Rightarrow> secrets \<Rightarrow> secrets" where
  "copyToken tokenId anchor st0 =
     (let cl = capture st0;
          st = commitWarmTokenSecret tokenId (st0\<lparr>sx_manualCopyBubble := None\<rparr>);
          inlineToken = (if cl_route cl = Token tokenId \<and> cl_secretTokenId cl = Some tokenId then cl_secretValue cl else None);
          cachedToken = (case inlineToken of Some t \<Rightarrow> Some t | None \<Rightarrow> map_of (sx_cache st) tokenId)
      in case cachedToken of
          Some token \<Rightarrow> add_task (Copy_text_task tokenId cl anchor token (token \<noteq> [])) st
        | None \<Rightarrow> (let (src, st1) = resolveTokenSecret cl tokenId None st in add_task (Copy_secret_task tokenId cl anchor src) st1))"

text \<open>The rest of \<open>copyToken\<close> after the clipboard has answered; \<open>cached\<close> is the truth value of \<open>cachedToken\<close>.\<close>

definition copy_finish :: "string \<Rightarrow> closure \<Rightarrow> bool \<Rightarrow> string \<Rightarrow> bool \<Rightarrow> bool \<Rightarrow> secrets \<Rightarrow> secrets" where
  "copy_finish tokenId cl anchor token cached copied st =
     (let st1 = (if cached \<and> cl_secretTokenId cl \<noteq> Some tokenId then clearCachedTokenSecret tokenId st else st) in
      if \<not> copied then
        (let (revealed, st2) = revealDetailTokenForManualCopy cl tokenId token st1;
             st3 = (if \<not> revealed \<and> anchor then st2\<lparr>sx_manualCopyBubble := Some token\<rparr> else st2)
         in set_copy_state tokenId Copy_error st3)
      else set_copy_state tokenId Copy_copied (st1\<lparr>sx_manualCopyBubble := None\<rparr>))"

section \<open>Revealing\<close>

record secret_texts =
  sxt_secretRevealFailed :: string
  sxt_guideRevealFailed :: string

definition toggleTokenSecretVisibility :: "secrets \<Rightarrow> secrets" where
  "toggleTokenSecretVisibility st = (case sx_route st of
     Landing _ \<Rightarrow> st
   | Token tokenId \<Rightarrow>
       if sx_tokenSecretVisible st then
         st\<lparr>sx_secretRunId := Suc (sx_secretRunId st), sx_tokenSecretTokenId := None, sx_tokenSecretVisible := False,
            sx_tokenSecretValue := None, sx_tokenSecretLoading := False, sx_tokenSecretError := None\<rparr>
       else if sx_tokenSecretLoading st then st
       else
         (let runId = Suc (sx_secretRunId st);
              st1 = st\<lparr>sx_secretRunId := runId, sx_tokenSecretTokenId := Some tokenId, sx_tokenSecretVisible := False,
                sx_tokenSecretValue := None, sx_tokenSecretLoading := True, sx_tokenSecretError := None\<rparr>;
              (i, st2) = new_call tokenId False None st1
          in add_task (Reveal_task runId tokenId i) st2))"

definition reveal_failed :: "string \<Rightarrow> js_error \<Rightarrow> string" where
  "reveal_failed template err = formatTemplate template [(''message'', getProbeErrorMessage err)]"

definition reveal_continue :: "secret_texts \<Rightarrow> nat \<Rightarrow> string \<Rightarrow> js_error + string \<Rightarrow> secrets \<Rightarrow> secrets" where
  "reveal_continue texts runId tokenId r st =
     (if sx_secretRunId st \<noteq> runId then st
      else case r of
          Inr token \<Rightarrow>
            (cacheTokenSecret tokenId token (st\<lparr>sx_tokenSecretTokenId := Some tokenId, sx_tokenSecretValue := Some token\<rparr>))
              \<lparr>sx_tokenSecretVisible := True, sx_tokenSecretLoading := False\<rparr>
        | Inl err \<Rightarrow>
            st\<lparr>sx_tokenSecretTokenId := Some tokenId, sx_tokenSecretVisible := False, sx_tokenSecretValue := None,
               sx_tokenSecretError := Some (reveal_failed (sxt_secretRevealFailed texts) err), sx_tokenSecretLoading := False\<rparr>)"

definition guideTokenVisible :: "secrets \<Rightarrow> bool" where
  "guideTokenVisible st \<longleftrightarrow> sx_availability st = Availability_enabled \<and> sx_guideTokenValue st \<noteq> None \<and>
     isActiveGuideRevealContext (sx_revealedGuideContextKey st) (resolveGuideRevealContextKey (sx_route st) (sx_tokens st))"

definition toggleGuideTokenVisibility :: "secrets \<Rightarrow> secrets" where
  "toggleGuideTokenVisibility st =
     (let guideTokenId = resolveGuideTokenId (sx_route st) (sx_tokens st);
          reset = st\<lparr>sx_guideRunId := Suc (sx_guideRunId st), sx_revealedGuideContextKey := None, sx_guideTokenValue := None,
            sx_guideTokenLoading := False, sx_guideTokenError := None\<rparr>
      in if \<not> truthy_str guideTokenId then st
         else if guideTokenVisible st then reset
         else if sx_guideTokenLoading st then st
         else
           (let (src, st1) = resolveTokenSecret (capture st) (the guideTokenId) None (reset\<lparr>sx_guideTokenLoading := True\<rparr>)
            in add_task (Guide_task (sx_guideRunId reset) (the guideTokenId)
                 (resolveGuideRevealContextKey (sx_route st) (sx_tokens st)) src) st1))"

definition guide_continue :: "secret_texts \<Rightarrow> nat \<Rightarrow> string option \<Rightarrow> js_error + string \<Rightarrow> secrets \<Rightarrow> secrets" where
  "guide_continue texts runId key r st =
     (if sx_guideRunId st \<noteq> runId then st
      else case r of
          Inr secret \<Rightarrow> st\<lparr>sx_guideTokenValue := Some secret, sx_revealedGuideContextKey := key, sx_guideTokenLoading := False\<rparr>
        | Inl err \<Rightarrow> st\<lparr>sx_revealedGuideContextKey := None, sx_guideTokenValue := None,
            sx_guideTokenError := Some (reveal_failed (sxt_guideRevealFailed texts) err), sx_guideTokenLoading := False\<rparr>)"

section \<open>What is shown\<close>

definition guideToken :: "secrets \<Rightarrow> string" where
  "guideToken st = (if guideTokenVisible st then the (sx_guideTokenValue st) else resolveGuideToken (sx_route st) (sx_tokens st))"

definition detailTokenVisible :: "secrets \<Rightarrow> bool" where
  "detailTokenVisible st \<longleftrightarrow> (case sx_route st of
     Token i \<Rightarrow> sx_tokenSecretTokenId st = Some i \<and> sx_tokenSecretVisible st \<and> sx_tokenSecretValue st \<noteq> None
   | Landing _ \<Rightarrow> False)"

definition detailTokenValue :: "secrets \<Rightarrow> string" where
  "detailTokenValue st = (if detailTokenVisible st then the (sx_tokenSecretValue st) else [])"

section \<open>Events\<close>

text \<open>Renders change what the component sees; the two effects run some time after; answers, continuations and
  timers come in any order.\<close>

datatype event =
    Render UserConsoleAvailability UserConsoleRoute "UserTokenSummary list"
  | Secret_effect
  | Guide_effect
  | Toggle_secret
  | Toggle_guide
  | Copy_click string bool
  | Warm string
  | Schedule_warm string
  | Cancel_warm string
  | Answer nat "js_error + string"
  | Continue nat
  | Clipboard nat bool
  | Timeout nat

definition source_result :: "secrets \<Rightarrow> source \<Rightarrow> (js_error + string) option" where
  "source_result st src = (case src of Source_value v \<Rightarrow> Some (Inr v) | Source_call i \<Rightarrow> sc_result (sx_calls st ! i))"

definition drop_task :: "nat \<Rightarrow> secrets \<Rightarrow> secrets" where
  "drop_task k st = st\<lparr>sx_tasks := take k (sx_tasks st) @ drop (Suc k) (sx_tasks st)\<rparr>"

text \<open>A task goes on when what it waits for has settled.\<close>

definition run_task :: "secret_texts \<Rightarrow> nat \<Rightarrow> secrets \<Rightarrow> secrets" where
  "run_task texts k st =
     (let st1 = drop_task k st;
          resume = (\<lambda>src f. case source_result st src of Some r \<Rightarrow> f r | None \<Rightarrow> st)
      in case sx_tasks st ! k of
          Reveal_task runId tokenId i \<Rightarrow> resume (Source_call i) (\<lambda>r. reveal_continue texts runId tokenId r st1)
        | Guide_task runId tokenId key src \<Rightarrow> resume src (\<lambda>r. guide_continue texts runId key r st1)
        | Copy_secret_task tokenId cl anchor src \<Rightarrow> resume src (\<lambda>r. case r of
              Inr token \<Rightarrow> add_task (Copy_text_task tokenId cl anchor token False) st1
            | Inl _ \<Rightarrow> set_copy_state tokenId Copy_error st1)
        | Copy_text_task tokenId cl anchor token cached \<Rightarrow> st
        | Warm_task tokenId controller src \<Rightarrow> resume src (\<lambda>r. warm_continue tokenId controller r st1))"

definition run_clipboard :: "nat \<Rightarrow> bool \<Rightarrow> secrets \<Rightarrow> secrets" where
  "run_clipboard k copied st = (case sx_tasks st ! k of
     Copy_text_task tokenId cl anchor token cached \<Rightarrow> copy_finish tokenId cl anchor token cached copied (drop_task k st)
   | _ \<Rightarrow> st)"

definition run_timer :: "bool \<Rightarrow> timer \<Rightarrow> secrets \<Rightarrow> secrets" where
  "run_timer prewarm t st = (case t of
     Cache_timer tokenId \<Rightarrow> st\<lparr>sx_cacheTimers := js_map_delete tokenId (sx_cacheTimers st), sx_cache := js_map_delete tokenId (sx_cache st)\<rparr>
   | Warm_timer tokenId cl \<Rightarrow> warmTokenSecret prewarm cl tokenId (st\<lparr>sx_warmTimers := js_map_delete tokenId (sx_warmTimers st)\<rparr>)
   | Copy_timer tokenId \<Rightarrow> st\<lparr>sx_copyState := js_map_set tokenId Copy_idle (sx_copyState st)\<rparr>)"

fun secrets_step :: "secret_texts \<Rightarrow> bool \<Rightarrow> event \<Rightarrow> secrets \<Rightarrow> secrets" where
  "secrets_step texts prewarm (Render availability route tokens) st =
     st\<lparr>sx_availability := availability, sx_route := route, sx_tokens := tokens\<rparr>"
| "secrets_step texts prewarm Secret_effect st = secret_effect st"
| "secrets_step texts prewarm Guide_effect st = guide_effect st"
| "secrets_step texts prewarm Toggle_secret st = toggleTokenSecretVisibility st"
| "secrets_step texts prewarm Toggle_guide st = toggleGuideTokenVisibility st"
| "secrets_step texts prewarm (Copy_click tokenId anchor) st = copyToken tokenId anchor st"
| "secrets_step texts prewarm (Warm tokenId) st = warmTokenSecret prewarm (capture st) tokenId st"
| "secrets_step texts prewarm (Schedule_warm tokenId) st = scheduleWarmTokenSecret prewarm tokenId st"
| "secrets_step texts prewarm (Cancel_warm tokenId) st = cancelWarmTokenSecret tokenId st"
| "secrets_step texts prewarm (Answer i r) st =
     (if i < length (sx_calls st) \<and> sc_result (sx_calls st ! i) = None then settle_call i r st else st)"
| "secrets_step texts prewarm (Continue k) st = (if k < length (sx_tasks st) then run_task texts k st else st)"
| "secrets_step texts prewarm (Clipboard k copied) st = (if k < length (sx_tasks st) then run_clipboard k copied st else st)"
| "secrets_step texts prewarm (Timeout i) st = (case map_of (sx_timers st) i of
     Some t \<Rightarrow> run_timer prewarm t (clear_timeouts [i] st)
   | None \<Rightarrow> st)"

text \<open>The states the component can reach when the server's answers are among those it gives for a token
  (\<open>served t v\<close>: \<open>v\<close> is a secret the server returned for \<open>t\<close>).\<close>

definition served_event :: "(string \<Rightarrow> string \<Rightarrow> bool) \<Rightarrow> event \<Rightarrow> secrets \<Rightarrow> bool" where
  "served_event served ev st = (case ev of
     Answer i (Inr v) \<Rightarrow> served (sc_token (sx_calls st ! i)) v
   | _ \<Rightarrow> True)"

inductive secrets_reach :: "secret_texts \<Rightarrow> bool \<Rightarrow> (string \<Rightarrow> string \<Rightarrow> bool) \<Rightarrow> secrets \<Rightarrow> bool" for texts prewarm served where
  start: "secrets_reach texts prewarm served (initial_secrets route)"
| step: "secrets_reach texts prewarm served st \<Longrightarrow> served_event served ev st \<Longrightarrow>
    secrets_reach texts prewarm served (secrets_step texts prewarm ev st)"

end
