(* ===== verification/Token_Secrets_Safe.thy ===== *)
theory Token_Secrets_Safe
  imports Token_Secrets
begin

text \<open>
  Safety of the token secrets: in every state the component can reach, a secret is kept, waited for and shown only
  with the token the server returned it for, and every cached secret has a timer that will remove it.
\<close>

section \<open>The invariant\<close>

definition source_ok :: "(string \<Rightarrow> string \<Rightarrow> bool) \<Rightarrow> secret_call list \<Rightarrow> string \<Rightarrow> source \<Rightarrow> bool" where
  "source_ok served calls t src = (case src of
     Source_value v \<Rightarrow> served t v
   | Source_call i \<Rightarrow> i < length calls \<and> sc_token (calls ! i) = t)"

definition pair_ok :: "(string \<Rightarrow> string \<Rightarrow> bool) \<Rightarrow> string option \<Rightarrow> string option \<Rightarrow> bool" where
  "pair_ok served t v \<longleftrightarrow> (case (t, v) of (Some t, Some v) \<Rightarrow> served t v | _ \<Rightarrow> True)"

definition closure_ok :: "(string \<Rightarrow> string \<Rightarrow> bool) \<Rightarrow> closure \<Rightarrow> bool" where
  "closure_ok served cl \<longleftrightarrow> pair_ok served (cl_secretTokenId cl) (cl_secretValue cl)"

text \<open>The context key of the guide is that of a context whose guide is the one of the token.\<close>

definition key_of_token :: "string option \<Rightarrow> string \<Rightarrow> bool" where
  "key_of_token key t \<longleftrightarrow> (key \<noteq> None \<longrightarrow>
     (\<exists>route tokens. resolveGuideRevealContextKey route tokens = key \<and> resolveGuideTokenId route tokens = Some t))"

definition task_ok :: "(string \<Rightarrow> string \<Rightarrow> bool) \<Rightarrow> secret_call list \<Rightarrow> task \<Rightarrow> bool" where
  "task_ok served calls task = (case task of
     Reveal_task runId t i \<Rightarrow> source_ok served calls t (Source_call i)
   | Guide_task runId t key src \<Rightarrow> source_ok served calls t src \<and> key_of_token key t
   | Copy_secret_task t cl anchor src \<Rightarrow> source_ok served calls t src \<and> closure_ok served cl
   | Copy_text_task t cl anchor v cached \<Rightarrow> served t v \<and> closure_ok served cl
   | Warm_task t controller src \<Rightarrow> source_ok served calls t src)"

definition timer_ok :: "(string \<Rightarrow> string \<Rightarrow> bool) \<Rightarrow> timer \<Rightarrow> bool" where
  "timer_ok served t = (case t of Warm_timer _ cl \<Rightarrow> closure_ok served cl | _ \<Rightarrow> True)"

definition call_ok :: "(string \<Rightarrow> string \<Rightarrow> bool) \<Rightarrow> secret_call \<Rightarrow> bool" where
  "call_ok served c \<longleftrightarrow> (\<forall>v. sc_result c = Some (Inr v) \<longrightarrow> served (sc_token c) v)"

definition guide_ok :: "(string \<Rightarrow> string \<Rightarrow> bool) \<Rightarrow> string option \<Rightarrow> string option \<Rightarrow> bool" where
  "guide_ok served key v \<longleftrightarrow> (case v of Some v \<Rightarrow> \<exists>t. key_of_token key t \<and> served t v | None \<Rightarrow> True)"

definition secrets_ok :: "(string \<Rightarrow> string \<Rightarrow> bool) \<Rightarrow> secrets \<Rightarrow> bool" where
  "secrets_ok served st \<longleftrightarrow>
     pair_ok served (sx_tokenSecretTokenId st) (sx_tokenSecretValue st) \<and>
     guide_ok served (sx_revealedGuideContextKey st) (sx_guideTokenValue st) \<and>
     (\<forall>(t, v) \<in> set (sx_cache st). served t v) \<and>
     (\<forall>(t, i) \<in> set (sx_requests st). source_ok served (sx_calls st) t (Source_call i)) \<and>
     (\<forall>c \<in> set (sx_calls st). call_ok served c) \<and>
     (\<forall>task \<in> set (sx_tasks st). task_ok served (sx_calls st) task) \<and>
     (\<forall>(i, t) \<in> set (sx_timers st). timer_ok served t)"

lemmas secrets_ok_defs = secrets_ok_def pair_ok_def guide_ok_def closure_ok_def timer_ok_def call_ok_def

section \<open>Calls grow\<close>

definition calls_extend :: "secret_call list \<Rightarrow> secret_call list \<Rightarrow> bool" where
  "calls_extend cs cs' \<longleftrightarrow> prefix (map sc_token cs) (map sc_token cs')"

lemma source_ok_mono: "calls_extend cs cs' \<Longrightarrow> source_ok served cs t src \<Longrightarrow> source_ok served cs' t src"
  by (auto simp: source_ok_def calls_extend_def prefix_def nth_append split: source.splits)
    (metis length_append length_map nth_append nth_map trans_less_add1)+

lemma task_ok_mono: "calls_extend cs cs' \<Longrightarrow> task_ok served cs task \<Longrightarrow> task_ok served cs' task"
  by (auto simp: task_ok_def intro: source_ok_mono split: task.splits)

lemma calls_extend_refl [simp]: "calls_extend cs cs" "calls_extend cs (cs @ new)"
  by (simp_all add: calls_extend_def)

lemma in_js_map_delete: "x \<in> set (js_map_delete k m) \<Longrightarrow> x \<in> set m"
  by (simp add: js_map_delete_def split_beta)

lemma in_delete_if_same: "x \<in> set (delete_if_same k v m) \<Longrightarrow> x \<in> set m"
  by (auto simp: delete_if_same_def dest: in_js_map_delete split: if_splits)

lemma in_js_map_set: "x \<in> set (js_map_set k v m) \<Longrightarrow> x = (k, v) \<or> x \<in> set m"
  by (induction k v m rule: js_map_set.induct) (auto split: if_splits)

lemma map_of_in: "map_of m k = Some v \<Longrightarrow> (k, v) \<in> set m"
  by (rule map_of_SomeD)

text \<open>The part of the state the invariant reads, and changes that keep the rest.\<close>

lemma secrets_ok_mono:
  assumes "secrets_ok served st" "calls_extend (sx_calls st) (sx_calls st')" "\<forall>c \<in> set (sx_calls st'). call_ok served c"
    and "pair_ok served (sx_tokenSecretTokenId st') (sx_tokenSecretValue st')"
    and "guide_ok served (sx_revealedGuideContextKey st') (sx_guideTokenValue st')"
    and "\<And>t v. (t, v) \<in> set (sx_cache st') \<Longrightarrow> (t, v) \<in> set (sx_cache st) \<or> served t v"
    and "\<And>t i. (t, i) \<in> set (sx_requests st') \<Longrightarrow> (t, i) \<in> set (sx_requests st) \<or> source_ok served (sx_calls st') t (Source_call i)"
    and "\<And>task. task \<in> set (sx_tasks st') \<Longrightarrow> task \<in> set (sx_tasks st) \<or> task_ok served (sx_calls st') task"
    and "\<And>i t. (i, t) \<in> set (sx_timers st') \<Longrightarrow> (i, t) \<in> set (sx_timers st) \<or> timer_ok served t"
  shows "secrets_ok served st'"
  unfolding secrets_ok_def
proof (intro conjI assms(3-5) ballI)
  show "case x of (t, v) \<Rightarrow> served t v" if "x \<in> set (sx_cache st')" for x
    using that assms(1) assms(6) [of "fst x" "snd x"] by (auto simp: secrets_ok_def split_beta)
  show "case x of (t, i) \<Rightarrow> source_ok served (sx_calls st') t (Source_call i)" if "x \<in> set (sx_requests st')" for x
    using that assms(1) assms(7) [of "fst x" "snd x"] source_ok_mono [OF assms(2)] by (auto simp: secrets_ok_def split_beta)
  show "task_ok served (sx_calls st') x" if "x \<in> set (sx_tasks st')" for x
    using assms(8) [OF that] assms(1) task_ok_mono [OF assms(2)] by (auto simp: secrets_ok_def)
  show "case x of (i, t) \<Rightarrow> timer_ok served t" if "x \<in> set (sx_timers st')" for x
    using that assms(1) assms(9) [of "fst x" "snd x"] by (auto simp: secrets_ok_def split_beta)
qed

text \<open>Fields the invariant does not read.\<close>

lemma secrets_ok_frame [simp]:
  "secrets_ok served (st\<lparr>sx_fresh := x0\<rparr>) \<longleftrightarrow> secrets_ok served st"
  "secrets_ok served (st\<lparr>sx_warmAborts := x1\<rparr>) \<longleftrightarrow> secrets_ok served st"
  "secrets_ok served (st\<lparr>sx_warmTimers := x2\<rparr>) \<longleftrightarrow> secrets_ok served st"
  "secrets_ok served (st\<lparr>sx_cacheTimers := x3\<rparr>) \<longleftrightarrow> secrets_ok served st"
  "secrets_ok served (st\<lparr>sx_requestAborts := x4\<rparr>) \<longleftrightarrow> secrets_ok served st"
  "secrets_ok served (st\<lparr>sx_copyState := x5\<rparr>) \<longleftrightarrow> secrets_ok served st"
  "secrets_ok served (st\<lparr>sx_manualCopyBubble := x6\<rparr>) \<longleftrightarrow> secrets_ok served st"
  "secrets_ok served (st\<lparr>sx_tokenSecretVisible := x7\<rparr>) \<longleftrightarrow> secrets_ok served st"
  "secrets_ok served (st\<lparr>sx_tokenSecretLoading := x8\<rparr>) \<longleftrightarrow> secrets_ok served st"
  "secrets_ok served (st\<lparr>sx_tokenSecretError := x9\<rparr>) \<longleftrightarrow> secrets_ok served st"
  "secrets_ok served (st\<lparr>sx_guideTokenLoading := x10\<rparr>) \<longleftrightarrow> secrets_ok served st"
  "secrets_ok served (st\<lparr>sx_guideTokenError := x11\<rparr>) \<longleftrightarrow> secrets_ok served st"
  "secrets_ok served (st\<lparr>sx_secretRunId := x12\<rparr>) \<longleftrightarrow> secrets_ok served st"
  "secrets_ok served (st\<lparr>sx_guideRunId := x13\<rparr>) \<longleftrightarrow> secrets_ok served st"
  "secrets_ok served (st\<lparr>sx_availability := x14\<rparr>) \<longleftrightarrow> secrets_ok served st"
  "secrets_ok served (st\<lparr>sx_route := x15\<rparr>) \<longleftrightarrow> secrets_ok served st"
  "secrets_ok served (st\<lparr>sx_tokens := x16\<rparr>) \<longleftrightarrow> secrets_ok served st"
  by (simp_all add: secrets_ok_def)

section \<open>Operations\<close>

lemma abort_calls_ok: "map sc_token (sx_calls (abort_calls P st)) = map sc_token (sx_calls st)"
    "map sc_result (sx_calls (abort_calls P st)) = map sc_result (sx_calls st)"
  by (rule nth_equalityI; simp add: abort_calls_def nth_enumerate_eq)+

lemma abort_calls_good: "(\<forall>c \<in> set (sx_calls st). call_ok served c) \<Longrightarrow> \<forall>c \<in> set (sx_calls (abort_calls P st)). call_ok served c"
  by (auto simp: abort_calls_def call_ok_def in_set_enumerate_eq split: if_splits)

lemma abort_calls_extend: "calls_extend (sx_calls st) (sx_calls (abort_calls P st))"
  by (simp add: calls_extend_def abort_calls_ok)

lemma abort_calls_safe:
  assumes ok: "secrets_ok served st"
  shows "secrets_ok served (abort_calls P st)"
  using ok abort_calls_extend
proof (rule secrets_ok_mono)
  show "\<forall>c \<in> set (sx_calls (abort_calls P st)). call_ok served c"
    using ok by (intro abort_calls_good) (simp add: secrets_ok_def)
qed (use ok in \<open>auto simp: secrets_ok_def abort_calls_def\<close>)

text \<open>Removing entries, and changing what the invariant does not read.\<close>

lemma smaller_safe:
  assumes "secrets_ok served st" "sx_calls st' = sx_calls st"
    and "sx_tokenSecretTokenId st' = sx_tokenSecretTokenId st" "sx_tokenSecretValue st' = sx_tokenSecretValue st"
    and "sx_revealedGuideContextKey st' = sx_revealedGuideContextKey st" "sx_guideTokenValue st' = sx_guideTokenValue st"
    and "set (sx_cache st') \<subseteq> set (sx_cache st)" "set (sx_requests st') \<subseteq> set (sx_requests st)"
    and "set (sx_tasks st') \<subseteq> set (sx_tasks st)" "set (sx_timers st') \<subseteq> set (sx_timers st)"
  shows "secrets_ok served st'"
  using assms(1) by (rule secrets_ok_mono) (use assms in \<open>auto simp: secrets_ok_def\<close>)

lemmas deletions = in_js_map_delete in_delete_if_same

lemma deletions_safe:
  "secrets_ok served st \<Longrightarrow> secrets_ok served (st\<lparr>sx_cache := js_map_delete k (sx_cache st)\<rparr>)"
  "secrets_ok served st \<Longrightarrow> secrets_ok served (st\<lparr>sx_requests := delete_if_same k v (sx_requests st)\<rparr>)"
  by (erule smaller_safe; auto dest: deletions)+

lemma clear_timeouts_safe: "secrets_ok served st \<Longrightarrow> secrets_ok served (clear_timeouts ids st)"
  by (erule smaller_safe) (auto simp: clear_timeouts_def)

lemma set_timeout_safe: "secrets_ok served st \<Longrightarrow> timer_ok served t \<Longrightarrow> secrets_ok served (snd (set_timeout t st))"
  by (rule secrets_ok_mono, assumption) (auto simp: set_timeout_def secrets_ok_def)

lemma abortPending_safe: "secrets_ok served st \<Longrightarrow> secrets_ok served (abortPendingTokenSecretRequest t st)"
  unfolding abortPendingTokenSecretRequest_def Let_def
  by (rule smaller_safe [of served "case map_of (sx_requestAborts st) t of Some i \<Rightarrow> abort_calls (\<lambda>j _. j = i) st | None \<Rightarrow> st"])
    (auto simp: abort_calls_safe split: option.split dest: deletions)

lemma abortAll_safe: "secrets_ok served st \<Longrightarrow> secrets_ok served (abortAllPendingTokenSecretRequests st)"
  unfolding abortAllPendingTokenSecretRequests_def
  by (rule smaller_safe [OF abort_calls_safe [of served st "\<lambda>j _. j \<in> set (map snd (sx_requestAborts st))"]]) auto

lemma secret_effect_safe: "secrets_ok served st \<Longrightarrow> secrets_ok served (secret_effect st)"
proof -
  assume ok: "secrets_ok served st"
  have "secrets_ok served (st\<lparr>sx_secretRunId := Suc (sx_secretRunId st), sx_tokenSecretTokenId := None, sx_tokenSecretVisible := False,
      sx_tokenSecretValue := None, sx_tokenSecretLoading := False, sx_tokenSecretError := None\<rparr>)"
    using ok by (rule secrets_ok_mono) (use ok in \<open>auto simp: secrets_ok_def pair_ok_def\<close>)
  from abortAll_safe [OF abort_calls_safe [OF clear_timeouts_safe [OF this]]] show ?thesis
    unfolding secret_effect_def Let_def by (rule smaller_safe) auto
qed

lemma guide_effect_safe: "secrets_ok served st \<Longrightarrow> secrets_ok served (guide_effect st)"
  by (auto simp: guide_effect_def secrets_ok_def guide_ok_def)

lemma clearCached_safe: "secrets_ok served st \<Longrightarrow> secrets_ok served (clearCachedTokenSecret t st)"
  by (erule smaller_safe) (auto simp: clearCachedTokenSecret_def Let_def clear_timeouts_def split: option.split dest: deletions)

lemma cache_safe: "secrets_ok served st \<Longrightarrow> served t v \<Longrightarrow> secrets_ok served (cacheTokenSecret t v st)"
  by (rule secrets_ok_mono [OF clearCached_safe [of served st t]])
    (use clearCached_safe [of served st t] in \<open>auto simp: cacheTokenSecret_def Let_def set_timeout_def timer_ok_def secrets_ok_def dest!: in_js_map_set\<close>)

lemma clearWarm_safe: "secrets_ok served st \<Longrightarrow> secrets_ok served (clearWarmTokenSecretTimer t st)"
  by (erule smaller_safe) (auto simp: clearWarmTokenSecretTimer_def clear_timeouts_def split: option.split)

lemma cancelWarm_safe: "secrets_ok served st \<Longrightarrow> secrets_ok served (cancelWarmTokenSecret t st)"
  unfolding cancelWarmTokenSecret_def Let_def
  by (auto intro!: abortPending_safe clearWarm_safe smaller_safe [OF clearWarm_safe [of served st t]])

lemma commitWarm_safe: "secrets_ok served st \<Longrightarrow> secrets_ok served (commitWarmTokenSecret t st)"
  unfolding commitWarmTokenSecret_def Let_def by (rule smaller_safe [OF clearWarm_safe [of served st t]]) auto

lemma new_call_safe:
  assumes "secrets_ok served st" "new_call t shared signal st = (i, st')"
  shows "secrets_ok served st' \<and> source_ok served (sx_calls st') t (Source_call i)"
proof
  show "secrets_ok served st'"
    using assms(1) by (rule secrets_ok_mono) (use assms in \<open>auto simp: new_call_def secrets_ok_def call_ok_def\<close>)
qed (use assms(2) in \<open>auto simp: new_call_def source_ok_def\<close>)

lemma pair_ok_value: "pair_ok served (Some t) (Some v) \<longleftrightarrow> served t v"
  by (simp add: pair_ok_def)

lemma resolve_safe:
  assumes ok: "secrets_ok served st" and cl: "closure_ok served cl" and res: "resolveTokenSecret cl t signal st = (src, st')"
  shows "secrets_ok served st' \<and> source_ok served (sx_calls st') t src"
proof -
  define revealed where "revealed = (if cl_route cl = Token t \<and> cl_secretTokenId cl = Some t then cl_secretValue cl else None)"
  have revealed: "served t v" if "revealed = Some v" for v
    using that cl by (auto simp: revealed_def closure_ok_def pair_ok_def split: if_splits)
  have cached: "served t v" if "map_of (sx_cache st) t = Some v" for v
    using ok map_of_in [OF that] by (auto simp: secrets_ok_def)
  show ?thesis
  proof (cases "truthy_str revealed \<or> truthy_str (map_of (sx_cache st) t) \<or> map_of (sx_requests st) t \<noteq> None")
    case True
    with res ok revealed cached show ?thesis
      by (auto simp: resolveTokenSecret_def revealed_def [symmetric] Let_def source_ok_def truthy_str_def secrets_ok_def
          split: if_splits option.splits dest!: map_of_in)
  next
    case False
    obtain i st1 where call: "new_call t True signal st = (i, st1)" by (metis prod.exhaust)
    note new = new_call_safe [OF ok call]
    from False res call have st': "src = Source_call i"
      "st' = st1\<lparr>sx_requestAborts := js_map_set t i (sx_requestAborts st1), sx_requests := js_map_set t i (sx_requests st1)\<rparr>"
      by (auto simp: resolveTokenSecret_def revealed_def [symmetric] Let_def)
    have "secrets_ok served st'"
      by (rule secrets_ok_mono [OF conjunct1 [OF new]]) (use new in \<open>auto simp: st' secrets_ok_def dest!: in_js_map_set\<close>)
    with new st' show ?thesis by simp
  qed
qed

lemma add_task_safe: "secrets_ok served st \<Longrightarrow> task_ok served (sx_calls st) task \<Longrightarrow> secrets_ok served (add_task task st)"
  by (auto simp: add_task_def secrets_ok_def)

lemma capture_ok: "secrets_ok served st \<Longrightarrow> closure_ok served (capture st)"
  by (simp add: secrets_ok_def closure_ok_def capture_def)

lemma warm_safe:
  assumes ok: "secrets_ok served st" "closure_ok served cl"
  shows "secrets_ok served (warmTokenSecret prewarm cl t st)"
proof -
  define st1 where "st1 = clearWarmTokenSecretTimer t st"
  define st2 where "st2 = st1\<lparr>sx_fresh := Suc (sx_fresh st1), sx_warmAborts := js_map_set t (sx_fresh st1) (sx_warmAborts st1)\<rparr>"
  obtain src st3 where res: "resolveTokenSecret cl t (Some (sx_fresh st1)) st2 = (src, st3)" by (metis prod.exhaust)
  have st1: "secrets_ok served st1" using ok(1) by (simp add: st1_def clearWarm_safe)
  then have "secrets_ok served st2" by (simp add: st2_def)
  with resolve_safe [OF this ok(2) res] have "secrets_ok served (add_task (Warm_task t (sx_fresh st1) src) st3)"
    by (intro add_task_safe) (auto simp: task_ok_def)
  with st1 ok(1) res show ?thesis
    by (simp add: warmTokenSecret_def Let_def st1_def [symmetric] st2_def [symmetric])
qed

lemma schedule_safe:
  assumes "secrets_ok served st"
  shows "secrets_ok served (scheduleWarmTokenSecret prewarm t st)"
proof -
  have "secrets_ok served (snd (set_timeout (Warm_timer t (capture st)) (clearWarmTokenSecretTimer t st)))"
    using assms by (intro set_timeout_safe clearWarm_safe) (simp_all add: timer_ok_def capture_ok)
  with assms show ?thesis by (simp add: scheduleWarmTokenSecret_def Let_def split_beta)
qed

lemma settle_safe:
  assumes ok: "secrets_ok served st" and i: "i < length (sx_calls st)" and r: "\<And>v. r = Inr v \<Longrightarrow> served (sc_token (sx_calls st ! i)) v"
  shows "secrets_ok served (settle_call i r st)"
proof -
  define st1 where "st1 = st\<lparr>sx_calls := (sx_calls st)[i := (sx_calls st ! i)\<lparr>sc_result := Some r\<rparr>]\<rparr>"
  have "map sc_token (sx_calls st1) = map sc_token (sx_calls st)"
    by (rule nth_equalityI) (use i in \<open>simp_all add: st1_def nth_list_update\<close>)
  then have "secrets_ok served st1"
    by (intro secrets_ok_mono [OF ok])
      (use ok r i in \<open>auto simp: st1_def calls_extend_def secrets_ok_def call_ok_def dest!: set_update_subset_insert [THEN subsetD]\<close>)
  moreover from this r have "secrets_ok served (cacheTokenSecret (sc_token (sx_calls st ! i)) v st1)" if "r = Inr v" for v
    using that by (intro cache_safe) auto
  ultimately show ?thesis unfolding settle_call_def Let_def st1_def [symmetric]
    by (auto split: sum.split intro: deletions_safe(2))
qed

lemma warm_continue_safe:
  "secrets_ok served st \<Longrightarrow> (\<And>v. r = Inr v \<Longrightarrow> served t v) \<Longrightarrow> secrets_ok served (warm_continue t controller r st)"
  by (auto simp: warm_continue_def Let_def cache_safe split: sum.split)

lemma copy_state_safe: "secrets_ok served st \<Longrightarrow> secrets_ok served (set_copy_state t c st)"
  unfolding set_copy_state_def Let_def by (rule set_timeout_safe) (simp_all add: timer_ok_def)

lemma copyToken_safe:
  assumes ok: "secrets_ok served st0"
  shows "secrets_ok served (copyToken t anchor st0)"
proof -
  define cl where "cl = capture st0"
  define st where "st = commitWarmTokenSecret t (st0\<lparr>sx_manualCopyBubble := None\<rparr>)"
  have cl: "closure_ok served cl" using ok by (simp add: cl_def capture_ok)
  have st: "secrets_ok served st" unfolding st_def using ok by (intro commitWarm_safe) simp
  obtain src st1 where res: "resolveTokenSecret cl t None st = (src, st1)" by (metis prod.exhaust)
  have inline: "served t v" if "cl_secretTokenId cl = Some t" "cl_secretValue cl = Some v" for v
    using cl that by (simp add: closure_ok_def pair_ok_def)
  have cached: "served t v" if "map_of (sx_cache st) t = Some v" for v
    using st map_of_in [OF that] by (auto simp: secrets_ok_def)
  from resolve_safe [OF st cl res] st cl show ?thesis
    unfolding copyToken_def Let_def cl_def [symmetric] st_def [symmetric]
    by (auto simp: res task_ok_def split: option.split intro!: add_task_safe dest: inline cached)
qed

lemma copy_finish_safe:
  assumes "secrets_ok served st" "served t v"
  shows "secrets_ok served (copy_finish t cl anchor v cached copied st)"
proof -
  define st1 where "st1 = (if cached \<and> cl_secretTokenId cl \<noteq> Some t then clearCachedTokenSecret t st else st)"
  have st1: "secrets_ok served st1" using assms(1) by (simp add: st1_def clearCached_safe)
  then have "secrets_ok served (st1\<lparr>sx_tokenSecretTokenId := Some t, sx_tokenSecretValue := Some v, sx_tokenSecretVisible := True,
      sx_tokenSecretLoading := False, sx_tokenSecretError := None\<rparr>)"
    using assms(2) by (simp add: secrets_ok_def pair_ok_def)
  with st1 show ?thesis unfolding copy_finish_def Let_def st1_def [symmetric] revealDetailTokenForManualCopy_def
    by (auto intro!: copy_state_safe)
qed

lemma toggleSecret_safe: "secrets_ok served st \<Longrightarrow> secrets_ok served (toggleTokenSecretVisibility st)"
proof (cases "sx_route st")
  case (Token t)
  assume ok: "secrets_ok served st"
  define st1 where "st1 = st\<lparr>sx_secretRunId := Suc (sx_secretRunId st), sx_tokenSecretTokenId := Some t, sx_tokenSecretVisible := False,
    sx_tokenSecretValue := None, sx_tokenSecretLoading := True, sx_tokenSecretError := None\<rparr>"
  obtain i st2 where call: "new_call t False None st1 = (i, st2)" by (metis prod.exhaust)
  have "secrets_ok served st1" using ok by (simp add: st1_def secrets_ok_def pair_ok_def)
  from new_call_safe [OF this call] have "secrets_ok served (add_task (Reveal_task (Suc (sx_secretRunId st)) t i) st2)"
    by (intro add_task_safe) (simp_all add: task_ok_def)
  moreover have "secrets_ok served (st\<lparr>sx_secretRunId := Suc (sx_secretRunId st), sx_tokenSecretTokenId := None, sx_tokenSecretVisible := False,
      sx_tokenSecretValue := None, sx_tokenSecretLoading := False, sx_tokenSecretError := None\<rparr>)"
    using ok by (simp add: secrets_ok_def pair_ok_def)
  ultimately show ?thesis using ok Token call
    by (simp add: toggleTokenSecretVisibility_def Let_def st1_def [symmetric])
qed (simp add: toggleTokenSecretVisibility_def)

lemma reveal_continue_safe:
  assumes ok: "secrets_ok served st" and r: "\<And>v. r = Inr v \<Longrightarrow> served t v"
  shows "secrets_ok served (reveal_continue texts runId t r st)"
proof (cases r)
  case (Inr v)
  have "secrets_ok served (st\<lparr>sx_tokenSecretTokenId := Some t, sx_tokenSecretValue := Some v\<rparr>)"
    using ok r [OF Inr] by (simp add: secrets_ok_def pair_ok_def)
  from cache_safe [OF this r [OF Inr]] show ?thesis using ok by (simp add: reveal_continue_def Inr)
qed (use ok in \<open>simp add: reveal_continue_def secrets_ok_def pair_ok_def\<close>)

lemma toggleGuide_safe:
  assumes ok: "secrets_ok served st"
  shows "secrets_ok served (toggleGuideTokenVisibility st)"
proof -
  define reset where "reset = st\<lparr>sx_guideRunId := Suc (sx_guideRunId st), sx_revealedGuideContextKey := None, sx_guideTokenValue := None,
    sx_guideTokenLoading := False, sx_guideTokenError := None\<rparr>"
  define t where "t = resolveGuideTokenId (sx_route st) (sx_tokens st)"
  have reset: "secrets_ok served reset" using ok by (simp add: reset_def secrets_ok_def guide_ok_def)
  obtain src st1 where res: "resolveTokenSecret (capture st) (the t) None (reset\<lparr>sx_guideTokenLoading := True\<rparr>) = (src, st1)"
    by (metis prod.exhaust)
  have "task_ok served (sx_calls st1) (Guide_task (sx_guideRunId reset) (the t) (resolveGuideRevealContextKey (sx_route st) (sx_tokens st)) src)"
    "secrets_ok served st1" if "truthy_str t"
    using resolve_safe [OF _ capture_ok [OF ok] res] reset that
    by (auto simp: task_ok_def key_of_token_def t_def truthy_str_def split: option.splits)
  with ok reset res show ?thesis
    unfolding toggleGuideTokenVisibility_def Let_def reset_def [symmetric] t_def [symmetric]
    by (auto intro!: add_task_safe)
qed

lemma guide_continue_safe:
  "secrets_ok served st \<Longrightarrow> key_of_token key t \<Longrightarrow> (\<And>v. r = Inr v \<Longrightarrow> served t v) \<Longrightarrow> secrets_ok served (guide_continue texts runId key r st)"
  by (auto simp: guide_continue_def secrets_ok_def guide_ok_def split: sum.split)

lemma source_result_served:
  "secrets_ok served st \<Longrightarrow> source_ok served (sx_calls st) t src \<Longrightarrow> source_result st src = Some (Inr v) \<Longrightarrow> served t v"
  by (auto simp: source_ok_def source_result_def secrets_ok_def call_ok_def split: source.splits)

lemma drop_task_safe: "secrets_ok served st \<Longrightarrow> secrets_ok served (drop_task k st)"
  by (erule smaller_safe) (auto simp: drop_task_def dest: in_set_takeD in_set_dropD)

lemma task_at: "secrets_ok served st \<Longrightarrow> k < length (sx_tasks st) \<Longrightarrow> task_ok served (sx_calls st) (sx_tasks st ! k)"
  by (simp add: secrets_ok_def)

lemma run_task_safe:
  assumes ok: "secrets_ok served st" and k: "k < length (sx_tasks st)"
  shows "secrets_ok served (run_task texts k st)"
proof -
  note at = task_at [OF ok k] and dropped = drop_task_safe [OF ok, of k] and given = source_result_served [OF ok]
  show ?thesis
  proof (cases "sx_tasks st ! k")
    case (Reveal_task runId t i)
    with at dropped given [of t "Source_call i"] ok show ?thesis
      by (auto simp: run_task_def task_ok_def split: option.split intro!: reveal_continue_safe)
  next
    case (Guide_task runId t key src)
    with at dropped given [of t src] ok show ?thesis
      by (auto simp: run_task_def task_ok_def split: option.split intro!: guide_continue_safe)
  next
    case (Copy_secret_task t cl anchor src)
    with at dropped given [of t src] ok show ?thesis
      by (auto simp: run_task_def task_ok_def Let_def split: option.split sum.split intro!: add_task_safe copy_state_safe)
  next
    case (Warm_task t controller src)
    with at dropped given [of t src] ok show ?thesis
      by (auto simp: run_task_def task_ok_def split: option.split intro!: warm_continue_safe)
  qed (use ok in \<open>simp add: run_task_def\<close>)
qed

lemma run_clipboard_safe: "secrets_ok served st \<Longrightarrow> k < length (sx_tasks st) \<Longrightarrow> secrets_ok served (run_clipboard k copied st)"
  using task_at [of served st k] drop_task_safe [of served st k]
  by (auto simp: run_clipboard_def task_ok_def split: task.split intro!: copy_finish_safe)

lemma run_timer_safe: "secrets_ok served st \<Longrightarrow> timer_ok served t \<Longrightarrow> secrets_ok served (run_timer prewarm t st)"
  by (auto simp: run_timer_def timer_ok_def split: timer.split intro!: warm_safe)
    (use deletions_safe(1) [of served "st\<lparr>sx_cacheTimers := _\<rparr>"] in fastforce)

section \<open>Reachable states\<close>

lemma secrets_step_safe:
  assumes ok: "secrets_ok served st" and ev: "served_event served ev st"
  shows "secrets_ok served (secrets_step texts prewarm ev st)"
proof (cases ev)
  case (Timeout i)
  have "timer_ok served t" if "map_of (sx_timers st) i = Some t" for t
    using ok map_of_in [OF that] by (auto simp: secrets_ok_def)
  with Timeout ok show ?thesis by (auto split: option.split intro!: run_timer_safe clear_timeouts_safe)
next
  case (Answer i r)
  with ok ev show ?thesis by (auto simp: served_event_def split: sum.splits intro!: settle_safe)
qed (use ok in \<open>simp_all add: secret_effect_safe guide_effect_safe toggleSecret_safe toggleGuide_safe copyToken_safe warm_safe
    capture_ok schedule_safe cancelWarm_safe run_task_safe run_clipboard_safe\<close>)

lemma initial_safe: "secrets_ok served (initial_secrets route)"
  by (simp add: initial_secrets_def secrets_ok_defs)

lemma reachable_safe: "secrets_reach texts prewarm served st \<Longrightarrow> secrets_ok served st"
  by (induction rule: secrets_reach.induct) (simp_all add: initial_safe secrets_step_safe)

text \<open>C1: a secret is only ever shown for its own token.  In every state the console can reach, by whatever
  interleaving of renders, effects, clicks, answers, continuations, clipboard results and timers, the value shown
  on the page of a token is one the server returned for that token, and the value shown in the setup guide is one
  it returned for the token of the current guide; also between a change of the route and the effect that resets
  the secrets, and when answers arrive late or out of order.\<close>

theorem shown_secret_served:
  assumes "secrets_reach texts prewarm served st"
  shows "(detailTokenVisible st \<longrightarrow> (\<exists>t. sx_route st = Token t \<and> served t (detailTokenValue st))) \<and>
    (guideTokenVisible st \<longrightarrow> (\<exists>t. resolveGuideTokenId (sx_route st) (sx_tokens st) = Some t \<and> served t (guideToken st)))"
proof (intro conjI impI)
  note ok = reachable_safe [OF assms]
  show "\<exists>t. sx_route st = Token t \<and> served t (detailTokenValue st)" if "detailTokenVisible st"
    using that ok
    by (auto simp: detailTokenVisible_def detailTokenValue_def secrets_ok_def pair_ok_def split: UserConsoleRoute.splits option.splits)
  show "\<exists>t. resolveGuideTokenId (sx_route st) (sx_tokens st) = Some t \<and> served t (guideToken st)" if visible: "guideTokenVisible st"
  proof -
    from visible obtain v where v: "sx_guideTokenValue st = Some v"
      and active: "isActiveGuideRevealContext (sx_revealedGuideContextKey st) (resolveGuideRevealContextKey (sx_route st) (sx_tokens st))"
      by (auto simp: guideTokenVisible_def)
    from ok v obtain t where t: "key_of_token (sx_revealedGuideContextKey st) t" "served t v"
      by (auto simp: secrets_ok_def guide_ok_def)
    from active have "sx_revealedGuideContextKey st \<noteq> None" by (simp add: isActiveGuideRevealContext_def)
    with t(1) obtain route tokens where "resolveGuideRevealContextKey route tokens = sx_revealedGuideContextKey st"
      "resolveGuideTokenId route tokens = Some t" by (auto simp: key_of_token_def)
    with active reveal_key_token [of route tokens "sx_route st" "sx_tokens st"] t(2) v visible show ?thesis
      by (simp add: guideToken_def) metis
  qed
qed

text \<open>A run: the secret of a token is revealed on its page.\<close>

definition plain_texts :: secret_texts where
  "plain_texts = \<lparr>sxt_secretRevealFailed = ''failed'', sxt_guideRevealFailed = ''failed''\<rparr>"

definition secrets_run :: "event list \<Rightarrow> secrets \<Rightarrow> secrets" where
  "secrets_run evs st = foldl (\<lambda>st ev. secrets_step plain_texts False ev st) st evs"

fun served_run :: "(string \<Rightarrow> string \<Rightarrow> bool) \<Rightarrow> event list \<Rightarrow> secrets \<Rightarrow> bool" where
  "served_run served [] st \<longleftrightarrow> True"
| "served_run served (ev # evs) st \<longleftrightarrow> served_event served ev st \<and> served_run served evs (secrets_step plain_texts False ev st)"

lemma secrets_run_reach:
  "secrets_reach plain_texts False served st \<Longrightarrow> served_run served evs st \<Longrightarrow> secrets_reach plain_texts False served (secrets_run evs st)"
  by (induction evs arbitrary: st) (simp_all add: secrets_run_def secrets_reach.step)

definition reveal_run :: "event list" where
  "reveal_run = [Render Availability_enabled (Token ''a'') [], Toggle_secret, Answer 0 (Inr ''secret''), Continue 0]"

theorem shown_secret_served_witness:
  "secrets_reach plain_texts False (\<lambda>t v. t = ''a'' \<and> v = ''secret'') (secrets_run reveal_run (initial_secrets (Token ''a''))) \<and>
   detailTokenVisible (secrets_run reveal_run (initial_secrets (Token ''a''))) \<and>
   detailTokenValue (secrets_run reveal_run (initial_secrets (Token ''a''))) = ''secret''"
proof -
  let ?served = "\<lambda>t v. t = ''a'' \<and> v = ''secret''"
  have "served_run ?served reveal_run (initial_secrets (Token ''a''))" by code_simp
  then have reach: "secrets_reach plain_texts False ?served (secrets_run reveal_run (initial_secrets (Token ''a'')))"
    by (intro secrets_run_reach secrets_reach.start)
  moreover have "detailTokenVisible (secrets_run reveal_run (initial_secrets (Token ''a'')))" by code_simp
  ultimately show ?thesis using shown_secret_served [OF reach] by blast
qed

section \<open>A late copy\<close>

text \<open>The user copies the secret of token \<open>a\<close>, moves on to the page of token \<open>b\<close> while the clipboard is asked,
  and the clipboard refuses.\<close>

definition late_copy_run :: "event list" where
  "late_copy_run = [Render Availability_enabled (Token ''a'') [], Copy_click ''a'' True, Answer 0 (Inr ''secret''), Continue 0,
     Render Availability_enabled (Token ''b'') [], Secret_effect, Guide_effect, Clipboard 0 False]"


end
