(* ===== verification/Token_Secrets_Expiry.thy ===== *)
theory Token_Secrets_Expiry
  imports Token_Secrets_Safe
begin

text \<open>
  The cache of token secrets forgets: every cached secret has a timer of its own that is still running and removes
  it when it fires.
\<close>

definition expiry_ok :: "secrets \<Rightarrow> bool" where
  "expiry_ok st \<longleftrightarrow> distinct (map fst (sx_timers st)) \<and> (\<forall>(i, t) \<in> set (sx_timers st). i < sx_fresh st) \<and>
     distinct (map fst (sx_cacheTimers st)) \<and>
     (\<forall>(t, i) \<in> set (sx_cacheTimers st). (i, Cache_timer t) \<in> set (sx_timers st)) \<and>
     (\<forall>(t, i) \<in> set (sx_warmTimers st). \<exists>cl. (i, Warm_timer t cl) \<in> set (sx_timers st)) \<and>
     fst ` set (sx_cache st) \<subseteq> fst ` set (sx_cacheTimers st)"

lemma timer_unique: "distinct (map fst m) \<Longrightarrow> (i, x) \<in> set m \<Longrightarrow> (i, y) \<in> set m \<Longrightarrow> x = y"
  by (metis eq_key_imp_eq_value)

text \<open>Fields the invariant does not read.\<close>

definition same_expiry :: "secrets \<Rightarrow> secrets \<Rightarrow> bool" where
  "same_expiry st st' \<longleftrightarrow> sx_timers st' = sx_timers st \<and> sx_fresh st \<le> sx_fresh st' \<and> sx_cacheTimers st' = sx_cacheTimers st \<and>
     sx_warmTimers st' = sx_warmTimers st \<and> sx_cache st' = sx_cache st"

lemma same_expiry_ok: "expiry_ok st \<Longrightarrow> same_expiry st st' \<Longrightarrow> expiry_ok st'"
  by (auto simp: expiry_ok_def same_expiry_def)

text \<open>Clearing timers that no entry of the maps that are kept refers to.\<close>

lemma js_map_delete_keys: "map fst (js_map_delete k m) = filter (\<lambda>x. x \<noteq> k) (map fst m)"
  by (induction m) (auto simp: js_map_delete_def)

lemma in_js_map_delete_iff: "(a, b) \<in> set (js_map_delete k m) \<longleftrightarrow> (a, b) \<in> set m \<and> a \<noteq> k"
  by (auto simp: js_map_delete_def)

lemma fst_js_map_delete: "fst ` set (js_map_delete k m) = fst ` set m - {k}"
  by (force simp: js_map_delete_def)

lemma clear_expiry:
  assumes ok: "expiry_ok st"
    and "sx_timers st' = filter (\<lambda>(i, _). i \<notin> set ids) (sx_timers st)" "sx_fresh st \<le> sx_fresh st'"
    and "distinct (map fst (sx_cacheTimers st'))"
    and ct: "\<And>t i. (t, i) \<in> set (sx_cacheTimers st') \<Longrightarrow> (t, i) \<in> set (sx_cacheTimers st) \<and> i \<notin> set ids"
    and wt: "\<And>t i. (t, i) \<in> set (sx_warmTimers st') \<Longrightarrow> (t, i) \<in> set (sx_warmTimers st) \<and> i \<notin> set ids"
    and "fst ` set (sx_cache st') \<subseteq> fst ` set (sx_cacheTimers st')"
  shows "expiry_ok st'"
  unfolding expiry_ok_def
proof (intro conjI assms(4,7))
  show "distinct (map fst (sx_timers st'))" using ok by (simp add: assms(2) expiry_ok_def distinct_map_filter)
  show "\<forall>(i, t) \<in> set (sx_timers st'). i < sx_fresh st'" using ok assms(3) by (auto simp: assms(2) expiry_ok_def)
  show "\<forall>(t, i) \<in> set (sx_cacheTimers st'). (i, Cache_timer t) \<in> set (sx_timers st')"
    using ok ct by (fastforce simp: assms(2) expiry_ok_def)
  show "\<forall>(t, i) \<in> set (sx_warmTimers st'). \<exists>cl. (i, Warm_timer t cl) \<in> set (sx_timers st')"
    using ok wt by (fastforce simp: assms(2) expiry_ok_def)
qed

text \<open>The timer of an entry is not the one of another.\<close>

lemma timers_differ:
  assumes "expiry_ok st"
  shows "(t, i) \<in> set (sx_cacheTimers st) \<Longrightarrow> (t', i) \<in> set (sx_cacheTimers st) \<Longrightarrow> t = t'"
    and "(t, i) \<in> set (sx_cacheTimers st) \<Longrightarrow> (t', i) \<in> set (sx_warmTimers st) \<Longrightarrow> False"
    and "(t, i) \<in> set (sx_warmTimers st) \<Longrightarrow> (t', i) \<in> set (sx_warmTimers st) \<Longrightarrow> t = t'"
proof -
  have same: "x = y" if "(i, x) \<in> set (sx_timers st)" "(i, y) \<in> set (sx_timers st)" for i x y
    using assms that timer_unique by (auto simp: expiry_ok_def)
  have ct: "(i, Cache_timer t) \<in> set (sx_timers st)" if "(t, i) \<in> set (sx_cacheTimers st)" for t i
    using assms that by (auto simp: expiry_ok_def)
  have wt: "\<exists>cl. (i, Warm_timer t cl) \<in> set (sx_timers st)" if "(t, i) \<in> set (sx_warmTimers st)" for t i
    using assms that by (auto simp: expiry_ok_def)
  show "(t, i) \<in> set (sx_cacheTimers st) \<Longrightarrow> (t', i) \<in> set (sx_cacheTimers st) \<Longrightarrow> t = t'" using same [OF ct ct] by simp
  show "(t, i) \<in> set (sx_cacheTimers st) \<Longrightarrow> (t', i) \<in> set (sx_warmTimers st) \<Longrightarrow> False" using same [OF ct] wt by fastforce
  show "(t, i) \<in> set (sx_warmTimers st) \<Longrightarrow> (t', i) \<in> set (sx_warmTimers st) \<Longrightarrow> t = t'" using same wt by (metis timer.inject(2))
qed

lemma clearCached_expiry:
  assumes ok: "expiry_ok st"
  shows "expiry_ok (clearCachedTokenSecret t st)"
proof (cases "map_of (sx_cacheTimers st) t")
  case None
  then have "t \<notin> fst ` set (sx_cache st)" using ok by (auto simp: expiry_ok_def map_of_eq_None_iff)
  then have "js_map_delete t (sx_cache st) = sx_cache st" by (force simp: js_map_delete_def filter_id_conv)
  with None ok show ?thesis by (simp add: clearCachedTokenSecret_def Let_def)
next
  case (Some i)
  note at = map_of_in [OF Some]
  show ?thesis
    by (rule clear_expiry [OF ok, where ids = "[i]"])
      (use Some ok timers_differ [OF ok] at in \<open>auto simp: clearCachedTokenSecret_def Let_def clear_timeouts_def in_js_map_delete_iff
        fst_js_map_delete js_map_delete_keys expiry_ok_def\<close>)
qed

lemma set_timeout_expiry: "expiry_ok st \<Longrightarrow> expiry_ok (snd (set_timeout t st))"
  by (fastforce simp: expiry_ok_def set_timeout_def)

lemma js_map_set_new: "k \<notin> fst ` set m \<Longrightarrow> js_map_set k v m = m @ [(k, v)]"
  by (induction k v m rule: js_map_set.induct) auto

lemma fst_js_map_set: "fst ` set (js_map_set k v m) = insert k (fst ` set m)"
  by (induction k v m rule: js_map_set.induct) auto

lemma cache_expiry:
  assumes "expiry_ok st"
  shows "expiry_ok (cacheTokenSecret t v st)"
proof -
  define st1 where "st1 = clearCachedTokenSecret t st"
  have st1: "expiry_ok st1" using assms by (simp add: st1_def clearCached_expiry)
  have new: "t \<notin> fst ` set (sx_cacheTimers st1)"
    by (auto simp: st1_def clearCachedTokenSecret_def Let_def in_js_map_delete_iff map_of_eq_None_iff clear_timeouts_def image_iff
        split: option.splits)
  have "cacheTokenSecret t v st = st1\<lparr>sx_cache := js_map_set t v (sx_cache st1), sx_timers := sx_timers st1 @ [(sx_fresh st1, Cache_timer t)],
      sx_fresh := Suc (sx_fresh st1), sx_cacheTimers := sx_cacheTimers st1 @ [(t, sx_fresh st1)]\<rparr>"
    by (simp add: cacheTokenSecret_def st1_def [symmetric] Let_def set_timeout_def js_map_set_new [OF new])
  moreover have "sx_fresh st1 \<notin> fst ` set (sx_timers st1)" using st1 by (fastforce simp: expiry_ok_def)
  ultimately show ?thesis using st1 new by (auto simp: expiry_ok_def fst_js_map_set less_Suc_eq split: prod.splits)
qed

lemma clearWarm_expiry:
  assumes ok: "expiry_ok st"
  shows "expiry_ok (clearWarmTokenSecretTimer t st)"
proof (cases "map_of (sx_warmTimers st) t")
  case (Some i)
  note at = map_of_in [OF Some]
  show ?thesis
    by (rule clear_expiry [OF ok, where ids = "[i]"])
      (use Some ok timers_differ [OF ok] at in \<open>auto simp: clearWarmTokenSecretTimer_def clear_timeouts_def in_js_map_delete_iff expiry_ok_def\<close>)
qed (use ok in \<open>simp add: clearWarmTokenSecretTimer_def\<close>)

lemma abort_same [simp]: "same_expiry st (abort_calls P st)" "same_expiry st (abortPendingTokenSecretRequest t st)"
  by (auto simp: same_expiry_def abort_calls_def abortPendingTokenSecretRequest_def Let_def split: option.split)

lemma resolve_same: "same_expiry st (snd (resolveTokenSecret cl t signal st))"
  by (auto simp: same_expiry_def resolveTokenSecret_def new_call_def Let_def split: option.split)

lemma expiry_frame [simp]:
  "expiry_ok (add_task task st) \<longleftrightarrow> expiry_ok st" "expiry_ok (drop_task k st) \<longleftrightarrow> expiry_ok st"
  "expiry_ok (st\<lparr>sx_warmAborts := x1\<rparr>) \<longleftrightarrow> expiry_ok st" "expiry_ok (st\<lparr>sx_copyState := x2\<rparr>) \<longleftrightarrow> expiry_ok st"
  "expiry_ok (st\<lparr>sx_manualCopyBubble := x3\<rparr>) \<longleftrightarrow> expiry_ok st" "expiry_ok (st\<lparr>sx_requests := x4\<rparr>) \<longleftrightarrow> expiry_ok st"
  "expiry_ok (st\<lparr>sx_requestAborts := x5\<rparr>) \<longleftrightarrow> expiry_ok st" "expiry_ok (st\<lparr>sx_calls := x6\<rparr>) \<longleftrightarrow> expiry_ok st"
  "expiry_ok (st\<lparr>sx_tokenSecretTokenId := x7\<rparr>) \<longleftrightarrow> expiry_ok st" "expiry_ok (st\<lparr>sx_tokenSecretValue := x8\<rparr>) \<longleftrightarrow> expiry_ok st"
  "expiry_ok (st\<lparr>sx_tokenSecretVisible := x9\<rparr>) \<longleftrightarrow> expiry_ok st" "expiry_ok (st\<lparr>sx_tokenSecretLoading := x10\<rparr>) \<longleftrightarrow> expiry_ok st"
  "expiry_ok (st\<lparr>sx_tokenSecretError := x11\<rparr>) \<longleftrightarrow> expiry_ok st" "expiry_ok (st\<lparr>sx_secretRunId := x12\<rparr>) \<longleftrightarrow> expiry_ok st"
  "expiry_ok (st\<lparr>sx_guideRunId := x13\<rparr>) \<longleftrightarrow> expiry_ok st" "expiry_ok (st\<lparr>sx_guideTokenValue := x14\<rparr>) \<longleftrightarrow> expiry_ok st"
  "expiry_ok (st\<lparr>sx_guideTokenLoading := x15\<rparr>) \<longleftrightarrow> expiry_ok st" "expiry_ok (st\<lparr>sx_guideTokenError := x16\<rparr>) \<longleftrightarrow> expiry_ok st"
  "expiry_ok (st\<lparr>sx_revealedGuideContextKey := x17\<rparr>) \<longleftrightarrow> expiry_ok st" "expiry_ok (st\<lparr>sx_availability := x18\<rparr>) \<longleftrightarrow> expiry_ok st"
  "expiry_ok (st\<lparr>sx_route := x19\<rparr>) \<longleftrightarrow> expiry_ok st" "expiry_ok (st\<lparr>sx_tokens := x20\<rparr>) \<longleftrightarrow> expiry_ok st"
  by (simp_all add: expiry_ok_def add_task_def drop_task_def)

lemma abort_expiry: "expiry_ok st \<Longrightarrow> expiry_ok (abort_calls P st)" "expiry_ok st \<Longrightarrow> expiry_ok (abortPendingTokenSecretRequest t st)"
  by (erule same_expiry_ok; simp)+

lemma resolve_expiry: "expiry_ok st \<Longrightarrow> resolveTokenSecret cl t signal st = (src, st') \<Longrightarrow> expiry_ok st'"
  using same_expiry_ok [OF _ resolve_same, of st cl t signal] by simp

lemma warm_expiry:
  assumes "expiry_ok st"
  shows "expiry_ok (warmTokenSecret prewarm cl t st)"
proof -
  define st1 where "st1 = clearWarmTokenSecretTimer t st"
  have st1: "expiry_ok st1" using assms by (simp add: st1_def clearWarm_expiry)
  define st2 where "st2 = st1\<lparr>sx_fresh := Suc (sx_fresh st1), sx_warmAborts := js_map_set t (sx_fresh st1) (sx_warmAborts st1)\<rparr>"
  have "expiry_ok st2" using st1 by (fastforce simp: st2_def expiry_ok_def)
  then show ?thesis using assms st1
    by (auto simp: warmTokenSecret_def Let_def st1_def [symmetric] st2_def [symmetric] split: prod.split intro: resolve_expiry)
qed

lemma schedule_expiry:
  assumes "expiry_ok st"
  shows "expiry_ok (scheduleWarmTokenSecret prewarm t st)"
proof -
  define st1 where "st1 = snd (set_timeout (Warm_timer t (capture st)) (clearWarmTokenSecretTimer t st))"
  have "expiry_ok st1" using assms by (simp add: st1_def set_timeout_expiry clearWarm_expiry)
  moreover have "(sx_fresh (clearWarmTokenSecretTimer t st), Warm_timer t (capture st)) \<in> set (sx_timers st1)"
    by (simp add: st1_def set_timeout_def)
  ultimately have "expiry_ok (st1\<lparr>sx_warmTimers := js_map_set t (sx_fresh (clearWarmTokenSecretTimer t st)) (sx_warmTimers st1)\<rparr>)"
    by (auto simp: expiry_ok_def dest!: in_js_map_set)
  moreover have "fst (set_timeout (Warm_timer t (capture st)) (clearWarmTokenSecretTimer t st)) = sx_fresh (clearWarmTokenSecretTimer t st)"
    by (simp add: set_timeout_def)
  ultimately show ?thesis using assms by (simp add: scheduleWarmTokenSecret_def Let_def split_beta st1_def)
qed

lemma secret_effect_expiry:
  assumes ok: "expiry_ok st"
  shows "expiry_ok (secret_effect st)"
  by (rule clear_expiry [OF ok, where ids = "map snd (sx_warmTimers st) @ map snd (sx_cacheTimers st)"])
    (simp_all add: secret_effect_def Let_def clear_timeouts_def abort_calls_def abortAllPendingTokenSecretRequests_def)

lemma timer_fired:
  assumes ok: "expiry_ok st" and i: "map_of (sx_timers st) i = Some t"
  shows "expiry_ok (run_timer prewarm t (clear_timeouts [i] st))"
proof -
  have same: "y = t" if "(i, y) \<in> set (sx_timers st)" for y
    using timer_unique [OF _ that map_of_in [OF i]] ok by (simp add: expiry_ok_def)
  have ct: "t = Cache_timer k" if "(k, i) \<in> set (sx_cacheTimers st)" for k
    using ok that by (intro same [symmetric]) (auto simp: expiry_ok_def)
  have wt: "\<exists>cl. t = Warm_timer k cl" if "(k, i) \<in> set (sx_warmTimers st)" for k
    using ok that same by (fastforce simp: expiry_ok_def)
  show ?thesis
  proof (cases t)
    case (Cache_timer k)
    show ?thesis
      by (rule clear_expiry [OF ok, where ids = "[i]"])
        (use Cache_timer ct wt ok in \<open>auto simp: run_timer_def clear_timeouts_def in_js_map_delete_iff js_map_delete_keys fst_js_map_delete expiry_ok_def\<close>)
  next
    case (Warm_timer k cl)
    have "expiry_ok ((clear_timeouts [i] st)\<lparr>sx_warmTimers := js_map_delete k (sx_warmTimers st)\<rparr>)"
      by (rule clear_expiry [OF ok, where ids = "[i]"])
        (use Warm_timer ct wt ok in \<open>auto simp: clear_timeouts_def in_js_map_delete_iff expiry_ok_def\<close>)
    then show ?thesis by (simp add: run_timer_def Warm_timer warm_expiry clear_timeouts_def)
  next
    case (Copy_timer k)
    have "expiry_ok (clear_timeouts [i] st)"
      by (rule clear_expiry [OF ok, where ids = "[i]"])
        (use Copy_timer ct wt ok in \<open>auto simp: clear_timeouts_def expiry_ok_def\<close>)
    then show ?thesis by (simp add: run_timer_def Copy_timer)
  qed
qed

lemma copy_state_expiry: "expiry_ok st \<Longrightarrow> expiry_ok (set_copy_state t c st)"
  by (simp add: set_copy_state_def Let_def set_timeout_expiry)

lemma cancelWarm_expiry: "expiry_ok st \<Longrightarrow> expiry_ok (cancelWarmTokenSecret t st)"
  by (simp add: cancelWarmTokenSecret_def Let_def clearWarm_expiry abort_expiry)

lemma settle_expiry: "expiry_ok st \<Longrightarrow> expiry_ok (settle_call i r st)"
  by (auto simp: settle_call_def Let_def cache_expiry split: sum.split)

lemma copyToken_expiry: "expiry_ok st \<Longrightarrow> expiry_ok (copyToken t anchor st)"
  by (auto simp: copyToken_def commitWarmTokenSecret_def Let_def clearWarm_expiry split: option.split prod.split
      elim!: resolve_expiry [rotated])

lemma copy_finish_expiry: "expiry_ok st \<Longrightarrow> expiry_ok (copy_finish t cl anchor v cached copied st)"
  by (auto simp: copy_finish_def revealDetailTokenForManualCopy_def Let_def intro!: copy_state_expiry clearCached_expiry)

lemma toggle_expiry: "expiry_ok st \<Longrightarrow> expiry_ok (toggleTokenSecretVisibility st)" "expiry_ok st \<Longrightarrow> expiry_ok (toggleGuideTokenVisibility st)"
  by (auto simp: toggleTokenSecretVisibility_def toggleGuideTokenVisibility_def new_call_def Let_def
      split: UserConsoleRoute.split prod.split elim!: resolve_expiry [rotated])

lemma continue_expiry:
  "expiry_ok st \<Longrightarrow> expiry_ok (reveal_continue texts runId t r st)" "expiry_ok st \<Longrightarrow> expiry_ok (guide_continue texts runId key r st)"
  "expiry_ok st \<Longrightarrow> expiry_ok (warm_continue t controller r st)"
  by (auto simp: reveal_continue_def guide_continue_def warm_continue_def Let_def cache_expiry split: sum.split)

lemma step_expiry:
  assumes ok: "expiry_ok st"
  shows "expiry_ok (secrets_step texts prewarm ev st)"
proof (cases ev)
  case (Timeout i)
  then show ?thesis using ok by (auto simp: timer_fired split: option.split)
next
  case (Continue k)
  then show ?thesis using ok
    by (auto simp: run_task_def Let_def continue_expiry copy_state_expiry split: task.split option.split sum.split)
next
  case (Clipboard k copied)
  then show ?thesis using ok by (auto simp: run_clipboard_def copy_finish_expiry split: task.split)
qed (use ok in \<open>auto simp: secret_effect_expiry guide_effect_def toggle_expiry copyToken_expiry warm_expiry schedule_expiry
    cancelWarm_expiry settle_expiry\<close>)

lemma reachable_expiry: "secrets_reach texts prewarm served st \<Longrightarrow> expiry_ok st"
  by (induction rule: secrets_reach.induct) (simp_all add: step_expiry, simp add: expiry_ok_def initial_secrets_def)

text \<open>C5: no secret stays in the cache for good.  In every state the console can reach, each cached secret has
  a timer of its own that is still running, and when that timer fires the secret is gone; no other timer of the
  console, no reset and no later caching of the same token leaves a cached secret without its timer.\<close>

theorem cached_secret_expires:
  assumes "secrets_reach texts prewarm served st" "map_of (sx_cache st) tokenId = Some secret"
  shows "\<exists>i. map_of (sx_timers st) i = Some (Cache_timer tokenId) \<and>
    map_of (sx_cache (secrets_step texts prewarm (Timeout i) st)) tokenId = None"
proof -
  have ok: "expiry_ok st" using assms(1) by (rule reachable_expiry)
  from assms(2) have "tokenId \<in> fst ` set (sx_cache st)" by (force dest: map_of_in)
  with ok obtain i where "(tokenId, i) \<in> set (sx_cacheTimers st)" by (auto simp: expiry_ok_def)
  with ok have "map_of (sx_timers st) i = Some (Cache_timer tokenId)" by (auto simp: expiry_ok_def)
  moreover from this have "map_of (sx_cache (secrets_step texts prewarm (Timeout i) st)) tokenId = None"
    by (simp add: run_timer_def map_of_eq_None_iff fst_js_map_delete)
  ultimately show ?thesis by blast
qed

theorem cached_secret_expires_witness:
  "map_of (sx_cache (secrets_run reveal_run (initial_secrets (Token ''a'')))) ''a'' = Some ''secret'' \<and>
   (\<exists>i. map_of (sx_timers (secrets_run reveal_run (initial_secrets (Token ''a'')))) i = Some (Cache_timer ''a''))"
proof -
  let ?served = "\<lambda>t v. t = ''a'' \<and> v = ''secret''"
  have "served_run ?served reveal_run (initial_secrets (Token ''a''))" by code_simp
  then have reach: "secrets_reach plain_texts False ?served (secrets_run reveal_run (initial_secrets (Token ''a'')))"
    by (intro secrets_run_reach secrets_reach.start)
  have cached: "map_of (sx_cache (secrets_run reveal_run (initial_secrets (Token ''a'')))) ''a'' = Some ''secret''" by code_simp
  from cached_secret_expires [OF reach cached] cached show ?thesis by blast
qed

end
