(* ===== verification/Api_Key_Extract.thy ===== *)
theory Api_Key_Extract
  imports Progress_Stream Mcp_Probe
begin

text \<open>
  The keys an administrator pastes (\<open>web/src/lib/api-key-extract.ts\<close>): the key of a line, the public address found
  beside it, and the entries of a text.  The tests of an address are proved to be those of lists of reserved blocks.
\<close>

section \<open>Tokens of a line\<close>

record ApiKeyImportEntry =
  ie_api_key :: string
  ie_registration_ip :: "string option"

text \<open>\<open>TOKEN_SPLIT_PATTERN\<close>: the bytes of the separator at the head of a text, 0 when there is none.\<close>

definition sep_len :: "string \<Rightarrow> nat" where
  "sep_len s = (if s \<noteq> [] \<and> hd s \<in> set ''|;,'' then 1 else js_ws_len s)"

lemma sep_len_le: "sep_len s \<le> length s"
  using js_ws_len_le [of s] by (cases s) (auto simp: sep_len_def)

function skip_seps :: "string \<Rightarrow> string" where
  "skip_seps s = (if sep_len s = 0 then s else skip_seps (drop (sep_len s) s))"
  by pat_completeness auto
termination
proof (relation "measure length")
  fix s assume "sep_len s \<noteq> 0"
  then show "(drop (sep_len s) s, s) \<in> measure length"
    using sep_len_le [of s] by (cases s) (auto simp: sep_len_def)
qed simp

declare skip_seps.simps [simp del]

lemma skip_seps_length: "length (skip_seps s) \<le> length s"
  by (induction s rule: skip_seps.induct) (subst skip_seps.simps, force)

lemma skip_seps_shorter: "sep_len s \<noteq> 0 \<Longrightarrow> length (skip_seps s) < length s"
  using skip_seps_length [of "drop (sep_len s) s"] sep_len_le [of s] by (subst skip_seps.simps) auto

text \<open>\<open>line.split(TOKEN_SPLIT_PATTERN)\<close>, with the characters of the current token so far.\<close>

function split_tokens :: "string \<Rightarrow> string \<Rightarrow> string list" where
  "split_tokens cur [] = [cur]"
| "split_tokens cur (c # s) =
     (if sep_len (c # s) \<noteq> 0 then cur # split_tokens [] (skip_seps (c # s)) else split_tokens (cur @ [c]) s)"
  by pat_completeness auto
termination
  using skip_seps_shorter by (relation "measure (length \<circ> snd)") fastforce+

definition is_wrapper :: "char \<Rightarrow> bool" where
  "is_wrapper c \<longleftrightarrow> c \<in> set ''[]{}()<>`'' \<or> c = CHR 0x22 \<or> c = CHR 0x27"

definition cleanToken :: "string \<Rightarrow> string" where
  "cleanToken token = rev (dropWhile is_wrapper (rev (dropWhile is_wrapper (js_trim token))))"

section \<open>Addresses\<close>

definition parseIpv4 :: "string \<Rightarrow> nat list option" where
  "parseIpv4 input =
     (let parts = js_split CHR ''.'' input
      in if length parts \<noteq> 4 \<or> list_ex (\<lambda>p. \<not> list_all is_digit p \<or> length p < 1 \<or> length p > 3) parts then None
         else let octets = map digits_val parts
              in if list_ex (\<lambda>v. v > 255) octets then None else Some octets)"

definition isPublicIpv4 :: "nat list \<Rightarrow> bool" where
  "isPublicIpv4 octets =
     (let a = octets ! 0; b = octets ! 1; c = octets ! 2
      in if a = 0 \<or> a \<ge> 240 then False
         else if a = 10 \<or> a = 127 then False
         else if a = 100 \<and> b \<ge> 64 \<and> b \<le> 127 then False
         else if a = 169 \<and> b = 254 then False
         else if a = 172 \<and> b \<ge> 16 \<and> b \<le> 31 then False
         else if a = 192 \<and> b = 168 then False
         else if a = 192 \<and> b = 0 \<and> c = 0 then False
         else if a = 198 \<and> (b = 18 \<or> b = 19) then False
         else if a = 192 \<and> b = 0 \<and> c = 2 then False
         else if a = 198 \<and> b = 51 \<and> c = 100 then False
         else if a = 203 \<and> b = 0 \<and> c = 113 then False
         else if a \<ge> 224 \<and> a \<le> 239 then False
         else True)"

text \<open>\<open>s.indexOf('::')\<close>.\<close>

fun double_colon :: "string \<Rightarrow> nat option" where
  "double_colon (a # b # s) = (if a = CHR '':'' \<and> b = CHR '':'' then Some 0 else map_option Suc (double_colon (b # s)))"
| "double_colon _ = None"

definition is_hex_lower :: "char \<Rightarrow> bool" where
  "is_hex_lower c \<longleftrightarrow> c \<in> set ''0123456789abcdef''"

fun parseSegmentList :: "string list \<Rightarrow> nat list option" where
  "parseSegmentList [] = Some []"
| "parseSegmentList (seg # segs) =
     (if seg = [] then None
      else if CHR ''.'' \<in> set seg then
        (case parseIpv4 seg of
           None \<Rightarrow> None
         | Some v4 \<Rightarrow> map_option (\<lambda>ps. or (push_bit 8 (v4 ! 0)) (v4 ! 1) # or (push_bit 8 (v4 ! 2)) (v4 ! 3) # ps) (parseSegmentList segs))
      else if \<not> list_all is_hex_lower seg \<or> length seg > 4 then None
      else map_option (\<lambda>ps. the (radix_val 16 seg) # ps) (parseSegmentList segs))"

definition parseIpv6 :: "string \<Rightarrow> nat list option" where
  "parseIpv6 input =
     (let raw = js_lower (js_trim input)
      in if CHR '':'' \<notin> set raw then None
         else if \<not> list_all (\<lambda>c. is_hex_lower c \<or> c = CHR '':'' \<or> c = CHR ''.'') raw then None
         else let doubleColonIndex = double_colon raw
              in if (case doubleColonIndex of Some i \<Rightarrow> double_colon (drop (i + 1) raw) \<noteq> None | None \<Rightarrow> False) then None
                 else let leftRaw = (case doubleColonIndex of Some i \<Rightarrow> take i raw | None \<Rightarrow> raw);
                          rightRaw = (case doubleColonIndex of Some i \<Rightarrow> drop (i + 2) raw | None \<Rightarrow> []);
                          left = (if length leftRaw > 0 then js_split CHR '':'' leftRaw else []);
                          right = (if doubleColonIndex = None then []
                                   else if length rightRaw > 0 then js_split CHR '':'' rightRaw else [])
                      in case (parseSegmentList left, parseSegmentList right) of
                           (Some leftSegments, Some rightSegments) \<Rightarrow>
                             (let totalSegments = length leftSegments + length rightSegments
                              in if doubleColonIndex = None then
                                   (if totalSegments \<noteq> 8 then None else Some (leftSegments @ rightSegments))
                                 else if totalSegments \<ge> 8 then None
                                 else Some (leftSegments @ replicate (8 - totalSegments) 0 @ rightSegments))
                         | _ \<Rightarrow> None)"

definition isPublicIpv6 :: "nat list \<Rightarrow> bool" where
  "isPublicIpv6 segments =
     (let firstByte = drop_bit 8 (segments ! 0);
          secondByte = and (segments ! 0) 0xff
      in if length segments \<noteq> 8 then False
         else if list_all (\<lambda>s. s = 0) segments then False
         else if list_all (\<lambda>s. s = 0) (take 7 segments) \<and> segments ! 7 = 1 then False
         else if firstByte = 0xff then False
         else if and firstByte 0xfe = 0xfc then False
         else if firstByte = 0xfe \<and> and secondByte 0xc0 = 0x80 then False
         else if segments ! 0 = 0x2001 \<and> segments ! 1 = 0x0db8 then False
         else True)"

section \<open>Lines and texts\<close>

fun first_public :: "string list \<Rightarrow> string option" where
  "first_public [] = None"
| "first_public (rawToken # rest) =
     (let token = cleanToken rawToken
      in if token = [] then first_public rest
         else if (case parseIpv4 token of Some o4 \<Rightarrow> isPublicIpv4 o4 | None \<Rightarrow> False) then Some token
         else if (case parseIpv6 token of Some s6 \<Rightarrow> isPublicIpv6 s6 | None \<Rightarrow> False) then Some token
         else first_public rest)"

definition extractRegistrationIpFromLine :: "string \<Rightarrow> string option" where
  "extractRegistrationIpFromLine line = first_public (split_tokens [] line)"

definition is_key_char :: "char \<Rightarrow> bool" where
  "is_key_char c \<longleftrightarrow> (let n = (of_char c :: nat) in 65 \<le> n \<and> n \<le> 90 \<or> 97 \<le> n \<and> n \<le> 122) \<or> is_digit c
     \<or> c = CHR ''_'' \<or> c = CHR ''-''"

abbreviation key_prefix :: string where
  "key_prefix \<equiv> ''tvly-dev-''"

text \<open>\<open>line.match(TVLY_DEV_API_KEY_PATTERN)\<close>: the first match, as long as possible.\<close>

fun match_key :: "string \<Rightarrow> string option" where
  "match_key [] = None"
| "match_key (c # s) =
     (let body = takeWhile is_key_char (drop (length key_prefix) (c # s))
      in if prefix key_prefix (c # s) \<and> body \<noteq> [] then Some (key_prefix @ body) else match_key s)"

definition extractApiKeyImportEntryFromLine :: "string \<Rightarrow> ApiKeyImportEntry option" where
  "extractApiKeyImportEntryFromLine line =
     map_option (\<lambda>k. \<lparr>ie_api_key = k, ie_registration_ip = extractRegistrationIpFromLine line\<rparr>) (match_key line)"

definition extractApiKeyImportEntriesFromText :: "string \<Rightarrow> ApiKeyImportEntry list" where
  "extractApiKeyImportEntriesFromText text = List.map_filter extractApiKeyImportEntryFromLine (js_split_lines text)"

definition extractTvlyDevApiKeyFromLine :: "string \<Rightarrow> string option" where
  "extractTvlyDevApiKeyFromLine line = map_option ie_api_key (extractApiKeyImportEntryFromLine line)"

definition extractTvlyDevApiKeysFromText :: "string \<Rightarrow> string list" where
  "extractTvlyDevApiKeysFromText text = map ie_api_key (extractApiKeyImportEntriesFromText text)"

section \<open>Reserved blocks\<close>

text \<open>The number of an address, most significant part first, and the blocks of addresses with a common prefix of
  \<open>len\<close> of \<open>w\<close> bits.\<close>

definition address :: "nat \<Rightarrow> nat list \<Rightarrow> nat" where
  "address base parts = foldl (\<lambda>n p. base * n + p) 0 parts"

definition in_block :: "nat \<Rightarrow> nat \<Rightarrow> nat \<times> nat \<Rightarrow> bool" where
  "in_block w n = (\<lambda>(net, len). n div 2 ^ (w - len) = net div 2 ^ (w - len))"

definition reserved_ipv4 :: "(nat \<times> nat) list" where
  "reserved_ipv4 = map (\<lambda>(os, len). (address 256 os, len))
     [([0, 0, 0, 0], 8), ([240, 0, 0, 0], 4), ([10, 0, 0, 0], 8), ([127, 0, 0, 0], 8), ([100, 64, 0, 0], 10),
      ([169, 254, 0, 0], 16), ([172, 16, 0, 0], 12), ([192, 168, 0, 0], 16), ([192, 0, 0, 0], 24), ([198, 18, 0, 0], 15),
      ([192, 0, 2, 0], 24), ([198, 51, 100, 0], 24), ([203, 0, 113, 0], 24), ([224, 0, 0, 0], 4)]"

definition reserved_ipv6 :: "(nat \<times> nat) list" where
  "reserved_ipv6 = map (\<lambda>(ss, len). (address 0x10000 ss, len))
     [([0, 0, 0, 0, 0, 0, 0, 0], 128), ([0, 0, 0, 0, 0, 0, 0, 1], 128), ([0xff00, 0, 0, 0, 0, 0, 0, 0], 8),
      ([0xfc00, 0, 0, 0, 0, 0, 0, 0], 7), ([0xfe80, 0, 0, 0, 0, 0, 0, 0], 10), ([0x2001, 0xdb8, 0, 0, 0, 0, 0, 0], 32)]"

lemma two_digits: "y < m \<Longrightarrow> (m * x + y = k) = (x = k div m \<and> y = k mod m)" for m :: nat
  by auto
lemma div_range: "0 < m \<Longrightarrow> (b div m = q) = (m * q \<le> b \<and> b < m * q + m)" for m :: nat
  by (metis add.commute div_nat_eqI dividend_less_times_div mult.commute mult_Suc times_div_less_eq_dividend)
lemma split_digit:
  "b < m * n \<Longrightarrow> 0 < n \<Longrightarrow> (m * a + b div n = m * p + q) = (a = p \<and> n * q \<le> b \<and> b < n * q + n)" if "q < m" for m n :: nat
  using two_digits [of "b div n" m a "m * p + q"] that by (auto simp: div_range less_mult_imp_div_less)

lemma ipv4_ranges:
  fixes a b c :: nat
  assumes "a \<le> 255" "b \<le> 255"
  shows
    "(4 * a + b div 64 = 401) = (a = 100 \<and> 64 \<le> b \<and> b \<le> 127)"
    "(16 * a + b div 16 = 2753) = (a = 172 \<and> 16 \<le> b \<and> b \<le> 31)"
    "(128 * a + b div 2 = 25353) = (a = 198 \<and> (b = 18 \<or> b = 19))"
  using assms split_digit [of 1 4 b 64 a 100] split_digit [of 1 16 b 16 a 172] split_digit [of 9 128 b 2 a 198]
  by (simp_all add: less_Suc_eq_le) auto
lemma ipv4_exact2: "(256 * a + b = 256 * x + y) = (a = x \<and> b = y)" if "b \<le> 255" "y \<le> 255" for a b x y :: nat
  using two_digits [of b 256 a "256 * x + y"] that by simp

lemma ipv4_exact3:
  "(65536 * a + 256 * b + c = 65536 * x + 256 * y + z) = (a = x \<and> b = y \<and> c = z)"
  if "b \<le> 255" "y \<le> 255" "c \<le> 255" "z \<le> 255" for a b c x y z :: nat
  using ipv4_exact2 [of c z "256 * a + b" "256 * x + y"] ipv4_exact2 [of b y a x] that by (simp add: algebra_simps)

lemma four_octets: "length os = 4 \<Longrightarrow> \<exists>a b c d. os = [a, b, c, d]"
  by (auto simp: numeral_eq_Suc length_Suc_conv)

lemma isPublicIpv4_blocks:
  assumes "length os = 4" "\<forall>v \<in> set os. v \<le> 255"
  shows "isPublicIpv4 os \<longleftrightarrow> (\<forall>blk \<in> set reserved_ipv4. \<not> in_block 32 (address 256 os) blk)"
proof -
  obtain a b c d where os: "os = [a, b, c, d]" using four_octets [OF assms(1)] by blast
  define n where "n = address 256 os"
  have n: "n = 16777216 * a + 65536 * b + 256 * c + d" by (simp add: n_def os address_def)
  have lt: "a \<le> 255" "b \<le> 255" "c \<le> 255" "d \<le> 255" using assms(2) os by auto
  have d8: "n div 16777216 = a" and d4: "n div 268435456 = a div 16"
    and d10: "n div 4194304 = 4 * a + b div 64" and d12: "n div 1048576 = 16 * a + b div 16"
    and d15: "n div 131072 = 128 * a + b div 2" and d16: "n div 65536 = 256 * a + b"
    and d24: "n div 256 = 65536 * a + 256 * b + c"
    using lt unfolding n by linarith+
  note exact2 = ipv4_exact2 [OF lt(2), of _ a] and exact3 = ipv4_exact3 [OF lt(2) _ lt(3), of _ _ a]
  have "(256 * a + b = 43518) = (a = 169 \<and> b = 254)" "(256 * a + b = 49320) = (a = 192 \<and> b = 168)"
    "(65536 * a + 256 * b + c = 12582912) = (a = 192 \<and> b = 0 \<and> c = 0)"
    "(65536 * a + 256 * b + c = 12582914) = (a = 192 \<and> b = 0 \<and> c = 2)"
    "(65536 * a + 256 * b + c = 12989284) = (a = 198 \<and> b = 51 \<and> c = 100)"
    "(65536 * a + 256 * b + c = 13303921) = (a = 203 \<and> b = 0 \<and> c = 113)"
    using exact2 [of 254 169] exact2 [of 168 192] exact3 [of 0 0 192] exact3 [of 0 2 192] exact3 [of 51 100 198] exact3 [of 0 113 203]
    by simp_all
  note exact = this
  have "(a div 16 = 14) = (224 \<le> a \<and> a \<le> 239)" "(a div 16 = 15) = (240 \<le> a)"
    using div_range [of 16 a 14] div_range [of 16 a 15] lt(1) by auto
  note ranges = this exact ipv4_ranges [OF lt(1,2)]
  have "(\<forall>blk \<in> set reserved_ipv4. \<not> in_block 32 n blk) \<longleftrightarrow> isPublicIpv4 os"
    by (simp add: ranges reserved_ipv4_def in_block_def address_def d8 d4 d10 d12 d15 d16 d24) (simp add: os isPublicIpv4_def Let_def, blast)
  then show ?thesis by (simp add: n_def)
qed

text \<open>The segments of an IPv6 address fit 16 bits.\<close>

lemma parseIpv4_octets: "parseIpv4 t = Some os \<Longrightarrow> length os = 4 \<and> (\<forall>v \<in> set os. v \<le> 255)"
  by (auto simp: parseIpv4_def Let_def list_ex_iff not_less split: if_splits)

lemma or_push_octets: "x \<le> 255 \<Longrightarrow> y \<le> 255 \<Longrightarrow> or (push_bit 8 x) y = 256 * x + (y :: nat)"
proof -
  assume "x \<le> 255" "y \<le> 255"
  then have "take_bit 8 y = y" by (simp add: take_bit_nat_eq_self_iff)
  then have "bit y n \<Longrightarrow> n < 8" for n by (metis bit_take_bit_iff)
  then have "push_bit 8 x + y = or (push_bit 8 x) y"
    by (intro disjunctive_add) (metis bit_push_bit_iff not_less)
  then show ?thesis by (simp add: push_bit_eq_mult mult.commute)
qed

lemma radix16_digit: "is_hex_lower c \<Longrightarrow> \<exists>d. radix_digit 16 c = Some d \<and> d < 16"
  by (auto simp: is_hex_lower_def radix_digit_def Let_def is_digit_def digit_val_def)

lemma radix16_fold:
  "list_all is_hex_lower s \<Longrightarrow> foldl (\<lambda>n c. 16 * n + the (radix_digit 16 c)) k s < 16 ^ length s * (k + 1)"
proof (induction s arbitrary: k)
  case (Cons c s)
  then obtain d where d: "radix_digit 16 c = Some d" "d < 16" using radix16_digit by auto
  have "foldl (\<lambda>n c. 16 * n + the (radix_digit 16 c)) (16 * k + d) s < 16 ^ length s * (16 * k + d + 1)"
    using Cons by auto
  also have "\<dots> \<le> 16 ^ length s * (16 * (k + 1))" using d by (intro mult_le_mono) auto
  finally show ?case using d by (simp add: algebra_simps)
qed simp

lemma radix16_bound: "list_all is_hex_lower s \<Longrightarrow> s \<noteq> [] \<Longrightarrow> length s \<le> 4 \<Longrightarrow> the (radix_val 16 s) < 65536"
proof -
  assume s: "list_all is_hex_lower s" "s \<noteq> []" "length s \<le> 4"
  have "16 ^ length s \<le> (16 ^ 4 :: nat)" using s(3) by (intro power_increasing) auto
  moreover have "\<not> list_ex (\<lambda>c. radix_digit 16 c = None) s"
    using s(1) radix16_digit by (fastforce simp: list_ex_iff list_all_iff)
  ultimately show ?thesis using radix16_fold [OF s(1), of 0] s(2) by (simp add: radix_val_def)
qed

lemma parseSegmentList_bound: "parseSegmentList ss = Some ps \<Longrightarrow> \<forall>p \<in> set ps. p < 65536"
proof (induction ss arbitrary: ps rule: parseSegmentList.induct)
  case (2 seg segs)
  then show ?case
    using radix16_bound [of seg]
    by (auto simp: or_push_octets dest!: parseIpv4_octets four_octets split: if_splits option.splits)
qed simp

lemma parseIpv6_segments:
  assumes "parseIpv6 t = Some ss"
  shows "length ss = 8 \<and> (\<forall>s \<in> set ss. s < 65536)"
  using assms parseSegmentList_bound
  by (fastforce simp: parseIpv6_def Let_def split: if_splits option.splits)

lemma eight_segments: "length ss = 8 \<Longrightarrow> \<exists>a b c d e f g h. ss = [a, b, c, d, e, f, g, h]"
  by (auto simp: numeral_eq_Suc length_Suc_conv)

lemma and_high: "x < 2 ^ (k + m) \<Longrightarrow> and x (push_bit k (mask m)) = 2 ^ k * (x div 2 ^ k)" for x :: nat
proof -
  assume x: "x < 2 ^ (k + m)"
  have "and x (push_bit k (mask m)) = push_bit k (take_bit m (drop_bit k x))"
    by (rule bit_eqI) (auto simp: bit_and_iff bit_push_bit_iff bit_mask_iff bit_take_bit_iff bit_drop_bit_eq)
  moreover have "x div 2 ^ k < 2 ^ m" using x by (simp add: less_mult_imp_div_less power_add mult.commute)
  ultimately show ?thesis by (simp add: push_bit_eq_mult drop_bit_eq_div take_bit_nat_eq_self mult.commute)
qed

lemma byte_masks:
  "x < 256 \<Longrightarrow> (and x 0xfe = 0xfc) = (x div 2 = 126)" "x < 256 \<Longrightarrow> (and x 0xc0 = 0x80) = (x div 64 = 2)" for x :: nat
  using and_high [of x 1 7] and_high [of x 6 2] by (simp_all add: push_bit_eq_mult mask_eq_exp_minus_1)

lemma ipv6_bytes:
  fixes a :: nat
  assumes "a < 65536"
  shows "(and (drop_bit 8 a) 0xfe = 0xfc) = (a div 512 = 126)"
    and "(drop_bit 8 a = 0xfe \<and> and (and a 0xff) 0xc0 = 0x80) = (a div 64 = 1018)"
proof -
  have "a div 256 < 256" using assms by auto
  then have "(and (drop_bit 8 a) 0xfe = 0xfc) = (a div 256 div 2 = 126)" using byte_masks(1) by (simp add: drop_bit_eq_div)
  then show "(and (drop_bit 8 a) 0xfe = 0xfc) = (a div 512 = 126)" by (simp add: div_mult2_eq [symmetric])
  have "and a 0xff = a mod 256"
    using take_bit_eq_mask [of 8 a] by (simp add: take_bit_eq_mod mask_eq_exp_minus_1)
  then have "(and (and a 0xff) 0xc0 = 0x80) = (a mod 256 div 64 = 2)" using byte_masks(2) by simp
  moreover have "a div 64 = 4 * (a div 256) + a mod 256 div 64"
    using div_mult2_eq [of a 64 4] mod_mult2_eq [of a 64 4] by simp
  ultimately show "(drop_bit 8 a = 0xfe \<and> and (and a 0xff) 0xc0 = 0x80) = (a div 64 = 1018)"
    using two_digits [of "a mod 256 div 64" 4 "a div 256" 1018] by (simp add: drop_bit_eq_div less_mult_imp_div_less)
qed

lemma isPublicIpv6_blocks:
  assumes "length ss = 8" "\<forall>s \<in> set ss. s < 65536"
  shows "isPublicIpv6 ss \<longleftrightarrow> (\<forall>blk \<in> set reserved_ipv6. \<not> in_block 128 (address 65536 ss) blk)"
proof -
  obtain a b c d e f g h where ss: "ss = [a, b, c, d, e, f, g, h]" using eight_segments [OF assms(1)] by blast
  define n where "n = address 65536 ss"
  have lt: "a < 65536" "b < 65536" using assms(2) ss by auto
  have n: "n = 2 ^ 96 * (65536 * a + b) + address 65536 [c, d, e, f, g, h]"
    by (simp add: n_def ss address_def)
  have "address 65536 [c, d, e, f, g, h] < 2 ^ 96" using assms(2) ss by (simp add: address_def)
  then have d32: "n div 2 ^ 96 = 65536 * a + b" unfolding n by simp
  then have d16: "n div 2 ^ 112 = a"
    using div_mult2_eq [of n "2 ^ 96" 65536] lt by simp
  have d8: "n div 2 ^ 120 = a div 256" and d7: "n div 2 ^ 121 = a div 512" and d10: "n div 2 ^ 118 = a div 64"
    using div_mult2_eq [of n "2 ^ 112" 256] div_mult2_eq [of n "2 ^ 112" 512] div_mult2_eq [of n "2 ^ 112" 64] d16 by simp_all
  have zero: "n = 0 \<longleftrightarrow> list_all (\<lambda>s. s = 0) ss"
    by (auto simp: n_def ss address_def)
  have one: "n = 1 \<longleftrightarrow> list_all (\<lambda>s. s = 0) (take 7 ss) \<and> ss ! 7 = 1"
    using two_digits [of h 65536 "address 65536 [a, b, c, d, e, f, g]" 1] assms(2) by (auto simp: n_def ss address_def)
  have doc: "65536 * a + b = 536939960 \<longleftrightarrow> a = 0x2001 \<and> b = 0x0db8"
    using two_digits [OF lt(2), of a 536939960] by simp
  have blocks: "(\<forall>blk \<in> set reserved_ipv6. \<not> in_block 128 n blk) \<longleftrightarrow>
      n \<noteq> 0 \<and> n \<noteq> 1 \<and> a div 256 \<noteq> 255 \<and> a div 512 \<noteq> 126 \<and> a div 64 \<noteq> 1018 \<and> 65536 * a + b \<noteq> 536939960"
    using d32 d8 d7 d10 by (simp add: reserved_ipv6_def in_block_def address_def)
  have "ss ! 0 = a" "ss ! 1 = b" by (simp_all add: ss)
  then have "isPublicIpv6 ss \<longleftrightarrow> n \<noteq> 0 \<and> n \<noteq> 1 \<and> a div 256 \<noteq> 255 \<and> a div 512 \<noteq> 126 \<and> a div 64 \<noteq> 1018 \<and> \<not> (a = 0x2001 \<and> b = 0x0db8)"
    unfolding zero one ipv6_bytes [OF lt(1), symmetric] by (auto simp: isPublicIpv6_def Let_def assms(1) drop_bit_eq_div)
  then show ?thesis unfolding blocks [unfolded n_def] doc n_def .
qed

section \<open>The address of a line\<close>

text \<open>The specification: the first cleaned token that is an address outside of the reserved blocks.\<close>

definition public_address :: "string \<Rightarrow> bool" where
  "public_address t \<longleftrightarrow>
     (\<exists>os. parseIpv4 t = Some os \<and> (\<forall>blk \<in> set reserved_ipv4. \<not> in_block 32 (address 256 os) blk)) \<or>
     (\<exists>ss. parseIpv6 t = Some ss \<and> (\<forall>blk \<in> set reserved_ipv6. \<not> in_block 128 (address 65536 ss) blk))"

lemma public_address_code:
  "public_address t \<longleftrightarrow> (case parseIpv4 t of Some o4 \<Rightarrow> isPublicIpv4 o4 | None \<Rightarrow> False)
     \<or> (case parseIpv6 t of Some s6 \<Rightarrow> isPublicIpv6 s6 | None \<Rightarrow> False)"
  using isPublicIpv4_blocks isPublicIpv6_blocks parseIpv4_octets [of t] parseIpv6_segments [of t]
  by (auto simp: public_address_def split: option.splits)

lemma parse_Nil: "parseIpv4 [] = None" "parseIpv6 [] = None"
  by (simp_all add: parseIpv4_def parseIpv6_def js_lower_def)

lemma first_public_find: "first_public ts = find public_address (map cleanToken ts)"
proof (induction ts)
  case (Cons t ts)
  have "\<not> public_address []" by (simp add: public_address_code parse_Nil)
  then show ?case using Cons by (simp add: Let_def public_address_code)
qed simp

text \<open>C25: The registration address of a line is the first token, stripped of brackets and quotes, that is an IPv4
  or IPv6 address outside of every reserved block; in particular a private, loopback, link-local, multicast or
  documentation address is never taken, and when none is found no token is a public address.\<close>

theorem extractRegistrationIp_first_public:
  "extractRegistrationIpFromLine line = find public_address (map cleanToken (split_tokens [] line))"
  by (simp add: extractRegistrationIpFromLine_def first_public_find)

section \<open>Texts of addresses\<close>

definition dotted :: "nat list \<Rightarrow> string" where
  "dotted os = js_join ''.'' (map nat_to_string os)"

lemma nat_to_string_short: "v \<le> 255 \<Longrightarrow> length (nat_to_string v) \<le> 3 \<and> length (nat_to_string v) \<ge> 1"
proof -
  assume "v \<le> 255"
  then have "v div 10 div 10 < 10" "v div 10 < 100" by auto
  then have "length (nat_to_string v) \<le> 3"
    by (subst nat_to_string.simps, subst nat_to_string.simps [of "v div 10"], subst nat_to_string.simps [of "v div 10 div 10"]) simp
  then show ?thesis using nat_to_string_nonempty [of v] by (cases "nat_to_string v") auto
qed

lemma nat_to_string_no_dot: "CHR ''.'' \<notin> set (nat_to_string v)"
  using nat_to_string_digits [of "CHR ''.''" v] by (auto simp: is_digit_def)

lemma parseIpv4_dotted:
  assumes "length os = 4" "\<forall>v \<in> set os. v \<le> 255"
  shows "parseIpv4 (dotted os) = Some os"
proof -
  have parts: "js_split CHR ''.'' (dotted os) = map nat_to_string os"
    unfolding dotted_def using assms(1) nat_to_string_no_dot by (intro js_split_join) auto
  have "map digits_val (map nat_to_string os) = os" by (simp add: map_idI)
  moreover have "\<not> list_ex (\<lambda>p. \<not> list_all is_digit p \<or> length p < 1 \<or> length p > 3) (map nat_to_string os)"
    using assms(2) nat_to_string_short nat_to_string_digits by (fastforce simp: list_ex_iff list_all_iff)
  moreover have "\<not> list_ex (\<lambda>v. v > 255) os" using assms(2) by (auto simp: list_ex_iff)
  ultimately show ?thesis using parts assms(1) by (simp add: parseIpv4_def Let_def)
qed

text \<open>Texts made of the characters of an address hold no separator, no bracket and no white space.\<close>

definition is_addr_char :: "char \<Rightarrow> bool" where
  "is_addr_char c \<longleftrightarrow> is_hex_lower c \<or> c = CHR '':'' \<or> c = CHR ''.''"

definition is_token_char :: "char \<Rightarrow> bool" where
  "is_token_char c \<longleftrightarrow> is_key_char c \<or> c = CHR '':'' \<or> c = CHR ''.''"

lemma hex_is_key_char: "is_hex_lower c \<Longrightarrow> is_key_char c"
  by (auto simp: is_hex_lower_def is_key_char_def is_digit_def)

lemma addr_is_token_char: "is_addr_char c \<Longrightarrow> is_token_char c"
  by (auto simp: is_addr_char_def is_token_char_def hex_is_key_char)

lemma token_char:
  assumes "is_token_char c"
  shows "js_plain c" "\<not> is_wrapper c" "c \<notin> set ''|;,''" "c \<noteq> CHR 0x0A" "c \<noteq> CHR 0x0D"
  using assms by (auto simp: is_token_char_def is_key_char_def is_digit_def js_plain_def is_wrapper_def Let_def)

lemma sep_len_token: "is_token_char c \<Longrightarrow> sep_len (c # s) = 0"
  using token_char [of c] by (simp add: sep_len_def js_ws_len_plain)

lemma split_tokens_append:
  "list_all is_token_char w \<Longrightarrow> split_tokens cur (w @ s) = split_tokens (cur @ w) s"
  by (induction w arbitrary: cur) (simp_all add: sep_len_token)

lemma split_tokens_token: "list_all is_token_char w \<Longrightarrow> split_tokens cur w = [cur @ w]"
  using split_tokens_append [of w cur "[]"] by simp

lemma cleanToken_token: "list_all is_token_char w \<Longrightarrow> cleanToken w = w"
proof -
  assume w: "list_all is_token_char w"
  then have "js_trim w = w" using token_char(1) by (intro js_trim_all_plain) (auto simp: list_all_iff)
  moreover have "dropWhile is_wrapper v = v" if "list_all is_token_char v" for v
    using that token_char(2) by (cases v) auto
  ultimately show ?thesis using w by (simp add: cleanToken_def list_all_rev)
qed

section \<open>A list of keys and addresses\<close>

definition entry_line :: "ApiKeyImportEntry \<Rightarrow> string" where
  "entry_line e = ie_api_key e @ (case ie_registration_ip e of None \<Rightarrow> [] | Some ip \<Rightarrow> CHR '' '' # ip)"

definition import_entry :: "ApiKeyImportEntry \<Rightarrow> bool" where
  "import_entry e \<longleftrightarrow> (\<exists>body. ie_api_key e = key_prefix @ body \<and> body \<noteq> [] \<and> list_all is_key_char body) \<and>
     (\<forall>ip. ie_registration_ip e = Some ip \<longrightarrow> list_all is_addr_char ip \<and> public_address ip)"

lemma ascii_lower_colon: "ascii_lower c = CHR '':'' \<longleftrightarrow> c = CHR '':''"
  by (auto simp: ascii_lower_def dest!: arg_cong [where f = "of_char :: char \<Rightarrow> nat"])

lemma key_no_address: "\<not> public_address (key_prefix @ body)" if "list_all is_key_char body"
proof -
  have "CHR '':'' \<notin> set (js_lower (js_trim (key_prefix @ body)))"
  proof -
    have t: "list_all is_token_char (key_prefix @ body)" using that by (auto simp: list_all_iff is_token_char_def is_key_char_def is_digit_def)
    then have "js_trim (key_prefix @ body) = key_prefix @ body" using token_char(1) by (intro js_trim_all_plain) (auto simp: list_all_iff)
    moreover have "CHR '':'' \<notin> ascii_lower ` set body"
      using that ascii_lower_colon by (force simp: list_all_iff is_key_char_def is_digit_def)
    ultimately show ?thesis by (simp add: js_lower_def ascii_lower_def)
  qed
  then have "parseIpv6 (key_prefix @ body) = None" by (simp add: parseIpv6_def Let_def)
  moreover have "parseIpv4 (key_prefix @ body) = None"
  proof -
    obtain w ws where "js_split CHR ''.'' (key_prefix @ body) = (CHR ''t'' # w) # ws"
      by (cases "js_split CHR ''.'' body") auto
    then show ?thesis by (simp add: parseIpv4_def is_digit_def)
  qed
  ultimately show ?thesis by (simp add: public_address_code)
qed

lemma key_token: "list_all is_key_char body \<Longrightarrow> list_all is_token_char (key_prefix @ body)"
  by (auto simp: list_all_iff is_token_char_def is_key_char_def is_digit_def)

lemma addr_token: "list_all is_addr_char ip \<Longrightarrow> list_all is_token_char ip"
  by (auto simp: list_all_iff addr_is_token_char)

lemma public_nonempty: "public_address ip \<Longrightarrow> ip \<noteq> []"
  by (auto simp: public_address_code parse_Nil)

lemma split_tokens_pair:
  assumes "list_all is_token_char w" "list_all is_token_char v" "v \<noteq> []"
  shows "split_tokens [] (w @ CHR '' '' # v) = [w, v]"
proof -
  have sep: "sep_len (CHR '' '' # v) = 1" by (simp add: sep_len_def js_ws_len_def js_ws1_def)
  have "sep_len v = 0" using assms(2,3) sep_len_token by (cases v) auto
  then have "skip_seps (CHR '' '' # v) = v" using sep by (simp add: skip_seps.simps)
  then show ?thesis using sep assms by (simp add: split_tokens_append split_tokens_token)
qed

lemma match_key_prefix:
  assumes "list_all is_key_char body" "body \<noteq> []" "r = [] \<or> \<not> is_key_char (hd r)"
  shows "match_key (key_prefix @ body @ r) = Some (key_prefix @ body)"
proof -
  have "takeWhile is_key_char (body @ r) = body"
    using assms(1,3) by (cases r) (auto simp: list_all_iff takeWhile_append)
  then show ?thesis using assms(2) by simp
qed

lemma entry_line_parsed:
  assumes "import_entry e"
  shows "extractApiKeyImportEntryFromLine (entry_line e) = Some e"
proof -
  obtain body where body: "ie_api_key e = key_prefix @ body" "body \<noteq> []" "list_all is_key_char body"
    using assms by (auto simp: import_entry_def)
  have key: "\<not> public_address (cleanToken (ie_api_key e))" "cleanToken (ie_api_key e) = ie_api_key e"
    using body key_no_address [OF body(3)] cleanToken_token [OF key_token [OF body(3)]] by simp_all
  show ?thesis
  proof (cases "ie_registration_ip e")
    case None
    then have "match_key (entry_line e) = Some (ie_api_key e)"
      using match_key_prefix [OF body(3,2), of "[]"] body(1) by (simp add: entry_line_def)
    moreover have "split_tokens [] (entry_line e) = [ie_api_key e]"
      using None split_tokens_token [OF key_token [OF body(3)], of "[]"] body(1) by (simp add: entry_line_def)
    ultimately show ?thesis using key None
      by (cases e) (simp add: extractApiKeyImportEntryFromLine_def extractRegistrationIpFromLine_def first_public_find)
  next
    case (Some ip)
    then have ip: "list_all is_addr_char ip" "public_address ip" using assms by (auto simp: import_entry_def)
    have "\<not> is_key_char CHR '' ''" by (simp add: is_key_char_def is_digit_def)
    then have "match_key (entry_line e) = Some (ie_api_key e)"
      using match_key_prefix [OF body(3,2), of "CHR '' '' # ip"] body(1) Some by (simp add: entry_line_def)
    moreover have "split_tokens [] (entry_line e) = [ie_api_key e, ip]"
      using split_tokens_pair [OF key_token [OF body(3)] addr_token [OF ip(1)] public_nonempty [OF ip(2)]] body(1) Some
      by (simp add: entry_line_def)
    ultimately show ?thesis using key Some ip(2) cleanToken_token [OF addr_token [OF ip(1)]]
      by (cases e) (simp add: extractApiKeyImportEntryFromLine_def extractRegistrationIpFromLine_def first_public_find)
  qed
qed

lemma entry_line_one_line: "import_entry e \<Longrightarrow> one_line (entry_line e)"
proof -
  assume e: "import_entry e"
  then obtain body where body: "ie_api_key e = key_prefix @ body" "list_all is_key_char body" by (auto simp: import_entry_def)
  have "one_line w" if "list_all is_token_char w" for w
    using that token_char(4,5) by (auto simp: one_line_def lf_def cr_def list_all_iff)
  from this [OF key_token [OF body(2)]] this [OF addr_token] show ?thesis
    using e body(1) by (auto simp: entry_line_def import_entry_def one_line_def lf_def cr_def split: option.splits)
qed

text \<open>Pasting a list of entries, one line each with the key and the address after it, gives back exactly these
  entries in their order, whatever the addresses as long as they are public and written in lower case.\<close>

lemma extract_entries_roundtrip:
  assumes "\<forall>e \<in> set es. import_entry e"
  shows "extractApiKeyImportEntriesFromText (js_join [lf] (map entry_line es)) = es"
proof -
  have "List.map_filter extractApiKeyImportEntryFromLine (js_split_lines (js_join [lf] (map entry_line es))) = es"
    using assms
  proof (induction es rule: induct_list012)
    case 1 show ?case by (simp add: map_filter_def extractApiKeyImportEntryFromLine_def)
  next
    case (2 e)
    then show ?case by (simp add: split_lines_one_line entry_line_one_line entry_line_parsed map_filter_def)
  next
    case (3 e e' es)
    then show ?case by (simp add: split_lines_lf entry_line_one_line entry_line_parsed map_filter_def)
  qed
  then show ?thesis by (simp add: extractApiKeyImportEntriesFromText_def)
qed

text \<open>The hypothesis of the round trip at two lines, one of them with an address.\<close>

lemma digit_is_hex: "is_digit c \<Longrightarrow> is_hex_lower c"
proof -
  assume "is_digit c"
  then have "of_char c \<in> {48..57 :: nat}" by (simp add: is_digit_def)
  also have "{48..57 :: nat} = of_char ` set ''0123456789''" by auto presburger
  finally obtain d where "of_char c = (of_char d :: nat)" "d \<in> set ''0123456789''" by blast
  then have "c \<in> set ''0123456789''" using inj_of_char by (metis injD)
  then show ?thesis by (auto simp: is_hex_lower_def)
qed

lemma dotted_chars: "list_all is_addr_char (dotted os)"
proof (induction os rule: induct_list012)
  have digits: "list_all is_addr_char (nat_to_string v)" for v
    using nat_to_string_digits digit_is_hex by (auto simp: list_all_iff is_addr_char_def)
  { case 1 show ?case by (simp add: dotted_def) }
  { case (2 v) show ?case using digits by (simp add: dotted_def) }
  { case (3 v w os) then show ?case using digits by (simp add: dotted_def) (simp add: is_addr_char_def) }
qed

lemma dotted_public: "length os = 4 \<Longrightarrow> \<forall>v \<in> set os. v \<le> 255 \<Longrightarrow> isPublicIpv4 os \<Longrightarrow> public_address (dotted os)"
  by (simp add: public_address_code parseIpv4_dotted)

section \<open>Addresses that embed an IPv4 address\<close>

lemma double_colon_none: "CHR '':'' \<notin> set s \<Longrightarrow> double_colon s = None"
  by (induction s rule: double_colon.induct) auto

lemma double_colon_head: "CHR '':'' \<notin> set s \<Longrightarrow> double_colon (CHR '':'' # s) = None"
  using double_colon_none [of s] by (cases s) auto

lemma dotted_no_colon: "CHR '':'' \<notin> set (dotted os)"
proof -
  have "CHR '':'' \<notin> set (nat_to_string v)" for v using nat_to_string_digits [of "CHR '':''" v] by (auto simp: is_digit_def)
  then show ?thesis unfolding dotted_def by (induction os rule: induct_list012) auto
qed

lemma addr_lower: "list_all is_addr_char s \<Longrightarrow> js_lower (js_trim s) = s"
proof -
  assume s: "list_all is_addr_char s"
  then have "js_trim s = s"
    using token_char(1) addr_is_token_char by (intro js_trim_all_plain) (auto simp: list_all_iff)
  moreover have "ascii_lower c = c" if "is_addr_char c" for c
    using that by (auto simp: is_addr_char_def is_hex_lower_def ascii_lower_def)
  ultimately show ?thesis using s by (auto simp: js_lower_def list_all_iff intro: map_idI)
qed

lemma parseIpv6_compressed:
  assumes raw: "list_all is_addr_char (l @ ''::'' @ r)"
    and i: "double_colon (l @ ''::'' @ r) = Some (length l)" "double_colon (CHR '':'' # r) = None"
    and left: "parseSegmentList (if l \<noteq> [] then js_split CHR '':'' l else []) = Some ls"
    and right: "parseSegmentList (if r \<noteq> [] then js_split CHR '':'' r else []) = Some rs"
    and len: "length ls + length rs + Suc k = 8"
  shows "parseIpv6 (l @ ''::'' @ r) = Some (ls @ replicate (Suc k) 0 @ rs)"
proof -
  have k: "8 - (length ls + length rs) = Suc k" "\<not> 8 \<le> length ls + length rs" using len by simp_all
  have "list_all (\<lambda>c. is_hex_lower c \<or> c = CHR '':'' \<or> c = CHR ''.'') (l @ ''::'' @ r)"
    using raw by (auto simp: is_addr_char_def list_all_iff)
  then show ?thesis
    unfolding parseIpv6_def addr_lower [OF raw] using i left right k by (simp add: Let_def split del: if_split)
qed

lemma parseIpv6_mapped:
  assumes "length os = 4" "\<forall>v \<in> set os. v \<le> 255"
  shows "parseIpv6 (''::ffff:'' @ dotted os) = Some [0, 0, 0, 0, 0, 0xffff, 256 * (os ! 0) + os ! 1, 256 * (os ! 2) + os ! 3]"
proof -
  define d where "d = dotted os"
  have chars: "list_all is_addr_char (''::ffff:'' @ d)" using dotted_chars [of os] by (simp add: d_def is_addr_char_def is_hex_lower_def)
  have colon: "CHR '':'' \<notin> set d" by (simp add: d_def dotted_no_colon)
  have dot: "CHR ''.'' \<in> set d" "d \<noteq> []" using four_octets [OF assms(1)] by (auto simp: d_def dotted_def)
  have "js_split CHR '':'' (''ffff'' @ CHR '':'' # d) = [''ffff'', d]"
    by (subst js_split_on_append) (use colon js_split_on_none [of d "\<lambda>c. c = CHR '':''"] in auto)
  then have split: "js_split CHR '':'' (''ffff:'' @ d) = [''ffff'', d]" by simp
  have "the (radix_val 16 ''ffff'') = 0xffff" by (simp add: radix_val_def radix_digit_def is_digit_def)
  then have segs: "parseSegmentList [''ffff'', d] = Some [0xffff, 256 * (os ! 0) + os ! 1, 256 * (os ! 2) + os ! 3]"
    using dot parseIpv4_dotted [OF assms] assms by (simp add: d_def [symmetric] is_hex_lower_def or_push_octets)
  define r where "r = ''ffff:'' @ d"
  have r: "r \<noteq> []" by (simp add: r_def)
  have "parseIpv6 ([] @ ''::'' @ r) = Some ([] @ replicate (Suc (Suc (Suc (Suc (Suc 0))))) 0 @ [0xffff, 256 * (os ! 0) + os ! 1, 256 * (os ! 2) + os ! 3])"
  proof (rule parseIpv6_compressed)
    show "list_all is_addr_char ([] @ ''::'' @ r)" using chars by (simp add: r_def)
    show "double_colon ([] @ ''::'' @ r) = Some (length [])" by simp
    show "double_colon (CHR '':'' # r) = None" using double_colon_head [OF colon] by (simp add: r_def)
    show "parseSegmentList (if r \<noteq> [] then js_split CHR '':'' r else []) = Some [0xffff, 256 * (os ! 0) + os ! 1, 256 * (os ! 2) + os ! 3]"
      using segs split r by (simp add: r_def del: parseSegmentList.simps(2) js_split_on.simps)
  qed simp_all
  then show ?thesis by (simp add: r_def d_def)
qed



end
