(* ===== verification/Forward_Proxy_Progress.thy ===== *)
theory Forward_Proxy_Progress
  imports Api_Types JS_Collections
begin

text \<open>
  The progress shown in the dialogs of the forward proxy settings (\<open>web/src/admin/forwardProxyDialogProgress.ts\<close>):
  the steps of an operation and how the events of the progress stream move them.  The closing section states what
  the steps show after any sequence of events.
\<close>

section \<open>Model\<close>

datatype ForwardProxyDialogKind = Dialog_subscription | Dialog_manual | Dialog_egress

datatype ForwardProxyDialogAction = Action_validate | Action_save | Action_revalidate

datatype ForwardProxyDialogProgressStatus = Progress_pending | Progress_running | Progress_done | Progress_error

record ForwardProxyProgressStrings =
  ps_running :: string
  ps_waiting :: string
  ps_done :: string
  ps_failed :: string
  ps_stepCounter :: string
  ps_steps :: "ForwardProxyProgressPhaseKey \<Rightarrow> string"

record ForwardProxyDialogProgressStep =
  st_key :: ForwardProxyProgressPhaseKey
  st_label :: string
  st_status :: ForwardProxyDialogProgressStatus
  st_detail :: "string option"

record ForwardProxyDialogProgressState =
  dp_action :: ForwardProxyDialogAction
  dp_steps :: "ForwardProxyDialogProgressStep list"
  dp_activeStepKey :: "ForwardProxyProgressPhaseKey option"
  dp_message :: "string option"

text \<open>\<open>s.replace(p, r)\<close> for a pattern text: the first occurrence; the replacements here are numbers.\<close>

fun replace_first :: "string \<Rightarrow> string \<Rightarrow> string \<Rightarrow> string" where
  "replace_first p r [] = []"
| "replace_first p r (c # s) = (if prefix p (c # s) then r @ drop (length p) (c # s) else c # replace_first p r s)"

text \<open>The parts are joined with a middle dot.\<close>

definition buildProgressDetail ::
  "ForwardProxyProgressStrings \<Rightarrow> int option \<Rightarrow> int option \<Rightarrow> string option \<Rightarrow> string option" where
  "buildProgressDetail strings current total0 detail =
     (let counter = (case (current, total0) of
            (Some c, Some t) \<Rightarrow> if t > 0 then [replace_first ''{total}'' (int_to_string t)
              (replace_first ''{current}'' (int_to_string c) (ps_stepCounter strings))] else []
          | _ \<Rightarrow> []);
          parts = counter @ (if truthy_str detail then [the detail] else [])
      in if length parts > 0 then Some (js_join ('' '' @ uni [0xB7] @ '' '') parts) else None)"

definition progress_keys :: "ForwardProxyDialogKind \<Rightarrow> ForwardProxyDialogAction \<Rightarrow> bool \<Rightarrow> ForwardProxyProgressPhaseKey list" where
  "progress_keys kind action includeEgressValidation = (case action of
     Action_revalidate \<Rightarrow> [PK_refresh_subscription, PK_probe_nodes, PK_refresh_ui]
   | Action_validate \<Rightarrow>
       (if kind = Dialog_subscription then [PK_normalize_input, PK_fetch_subscription, PK_probe_nodes, PK_generate_result]
        else [PK_parse_input, PK_probe_nodes, PK_generate_result])
   | Action_save \<Rightarrow> (case kind of
         Dialog_egress \<Rightarrow>
           (if includeEgressValidation
            then [PK_validate_egress_socks5, PK_save_settings, PK_apply_egress_socks5, PK_refresh_subscription, PK_bootstrap_probe, PK_refresh_ui]
            else [PK_save_settings, PK_apply_egress_socks5, PK_refresh_subscription, PK_bootstrap_probe, PK_refresh_ui])
       | Dialog_subscription \<Rightarrow> [PK_save_settings, PK_refresh_subscription, PK_bootstrap_probe, PK_refresh_ui]
       | Dialog_manual \<Rightarrow> [PK_save_settings, PK_bootstrap_probe, PK_refresh_ui]))"

definition buildProgressSteps ::
  "ForwardProxyProgressStrings \<Rightarrow> ForwardProxyDialogKind \<Rightarrow> ForwardProxyDialogAction \<Rightarrow> bool \<Rightarrow> ForwardProxyDialogProgressStep list" where
  "buildProgressSteps strings kind action includeEgressValidation =
     map (\<lambda>key. \<lparr>st_key = key, st_label = ps_steps strings key, st_status = Progress_pending, st_detail = None\<rparr>)
       (progress_keys kind action includeEgressValidation)"

definition createDialogProgressState ::
  "ForwardProxyProgressStrings \<Rightarrow> ForwardProxyDialogKind \<Rightarrow> ForwardProxyDialogAction \<Rightarrow> bool \<Rightarrow> ForwardProxyDialogProgressState" where
  "createDialogProgressState strings kind action includeEgressValidation =
     \<lparr>dp_action = action, dp_steps = buildProgressSteps strings kind action includeEgressValidation,
      dp_activeStepKey = None, dp_message = None\<rparr>"

text \<open>A step that gets the status of the event, and every other running step is done.\<close>

definition mark_step ::
  "ForwardProxyProgressPhaseKey option \<Rightarrow> ForwardProxyDialogProgressStatus \<Rightarrow> string option \<Rightarrow>
   ForwardProxyDialogProgressStep \<Rightarrow> ForwardProxyDialogProgressStep" where
  "mark_step key status detail step =
     (if Some (st_key step) = key then step\<lparr>st_status := status, st_detail := detail\<rparr>
      else if st_status step = Progress_running then step\<lparr>st_status := Progress_done\<rparr>
      else step)"

definition finish_step :: "bool \<Rightarrow> ForwardProxyDialogProgressStep \<Rightarrow> ForwardProxyDialogProgressStep" where
  "finish_step noPhase step = (if st_status step = Progress_running \<or> noPhase then step\<lparr>st_status := Progress_done\<rparr> else step)"

fun updateDialogProgressState ::
  "ForwardProxyProgressStrings \<Rightarrow> ForwardProxyDialogProgressState \<Rightarrow> ForwardProxyProgressEvent \<Rightarrow> ForwardProxyDialogProgressState" where
  "updateDialogProgressState strings current (EvNodes oper nodes) = current"
| "updateDialogProgressState strings current (EvNode oper node) = current"
| "updateDialogProgressState strings current (EvPhase oper phaseKey label cur total0 detail) =
     (let d = buildProgressDetail strings cur total0 detail
      in current\<lparr>dp_activeStepKey := Some phaseKey,
           dp_steps := map (mark_step (Some phaseKey) Progress_running d) (dp_steps current), dp_message := d\<rparr>)"
| "updateDialogProgressState strings current (EvError oper message phaseKey label cur total0 detail) =
     (let failingStep = (case phaseKey of Some k \<Rightarrow> Some k | None \<Rightarrow> dp_activeStepKey current);
          d = (case buildProgressDetail strings cur total0 detail of Some d \<Rightarrow> d | None \<Rightarrow> message)
      in current\<lparr>dp_steps := map (mark_step failingStep Progress_error (Some d)) (dp_steps current), dp_message := Some message\<rparr>)"
| "updateDialogProgressState strings current (EvComplete oper payload) =
     (if list_ex (\<lambda>step. st_status step = Progress_error) (dp_steps current) then
        current\<lparr>dp_message := Some (nullish (dp_message current) (ps_failed strings))\<rparr>
      else current\<lparr>dp_steps := map (finish_step (dp_activeStepKey current = None)) (dp_steps current),
             dp_message := Some (ps_done strings)\<rparr>)"

definition dialog_run ::
  "ForwardProxyProgressStrings \<Rightarrow> ForwardProxyDialogProgressState \<Rightarrow> ForwardProxyProgressEvent list \<Rightarrow> ForwardProxyDialogProgressState" where
  "dialog_run strings st events = foldl (updateDialogProgressState strings) st events"

section \<open>What the steps show\<close>

lemma dialog_run_snoc: "dialog_run strings st (es @ [e]) = updateDialogProgressState strings (dialog_run strings st es) e"
  by (simp add: dialog_run_def)

text \<open>The abstract view of the steps: the status as a function of the key.\<close>

definition step_frame :: "ForwardProxyDialogProgressState \<Rightarrow> (ForwardProxyProgressPhaseKey \<times> string) list" where
  "step_frame st = map (\<lambda>s. (st_key s, st_label s)) (dp_steps st)"

lemma update_frame: "step_frame (updateDialogProgressState strings st ev) = step_frame st \<and>
    dp_action (updateDialogProgressState strings st ev) = dp_action st"
  by (cases ev) (simp_all add: step_frame_def mark_step_def finish_step_def Let_def)

lemma run_frame: "step_frame (dialog_run strings st events) = step_frame st \<and> dp_action (dialog_run strings st events) = dp_action st"
  by (induction events arbitrary: st) (simp_all add: dialog_run_def update_frame)

definition running_active :: "ForwardProxyDialogProgressState \<Rightarrow> bool" where
  "running_active st \<longleftrightarrow> list_all (\<lambda>s. st_status s = Progress_running \<longrightarrow> dp_activeStepKey st = Some (st_key s)) (dp_steps st)"

lemma update_running: "running_active st \<Longrightarrow> running_active (updateDialogProgressState strings st ev)"
  by (cases ev) (auto simp: running_active_def list_all_iff mark_step_def finish_step_def Let_def)

lemma run_running: "running_active st \<Longrightarrow> running_active (dialog_run strings st events)"
  by (induction events arbitrary: st) (simp_all add: dialog_run_def update_running)

text \<open>The phases of a sequence of events, and the status of a step after events without an error, read off them.\<close>

definition phase_keys :: "ForwardProxyProgressEvent list \<Rightarrow> ForwardProxyProgressPhaseKey list" where
  "phase_keys events = List.map_filter (\<lambda>ev. case ev of EvPhase _ k _ _ _ _ \<Rightarrow> Some k | _ \<Rightarrow> None) events"

fun progress_only :: "ForwardProxyProgressEvent \<Rightarrow> bool" where
  "progress_only (EvPhase _ _ _ _ _ _) = True"
| "progress_only (EvNode _ _) = True"
| "progress_only (EvNodes _ _) = True"
| "progress_only _ = False"

definition expected_status :: "ForwardProxyProgressPhaseKey list \<Rightarrow> ForwardProxyProgressPhaseKey \<Rightarrow> ForwardProxyDialogProgressStatus" where
  "expected_status phases k =
     (if phases \<noteq> [] \<and> last phases = k then Progress_running else if k \<in> set phases then Progress_done else Progress_pending)"

lemma phase_keys_snoc: "phase_keys (es @ [e]) = phase_keys es @ (case e of EvPhase _ k _ _ _ _ \<Rightarrow> [k] | _ \<Rightarrow> [])"
  by (simp add: phase_keys_def map_filter_def split: ForwardProxyProgressEvent.split)

lemma mark_expected:
  "(case mark_step (Some k) Progress_running d s of s' \<Rightarrow> st_status s' = expected_status (phases @ [k]) (st_key s'))"
  if "st_status s = expected_status phases (st_key s)"
  using that by (auto simp: mark_step_def expected_status_def) (metis last_in_set)

lemma run_expected:
  assumes "list_all progress_only events" "list_all (\<lambda>s. st_status s = Progress_pending) (dp_steps st)" "dp_activeStepKey st = None"
  shows "list_all (\<lambda>s. st_status s = expected_status (phase_keys events) (st_key s)) (dp_steps (dialog_run strings st events)) \<and>
    dp_activeStepKey (dialog_run strings st events) = (if phase_keys events = [] then None else Some (last (phase_keys events)))"
  using assms(1)
proof (induction events rule: rev_induct)
  case Nil
  with assms(2,3) show ?case by (simp add: dialog_run_def phase_keys_def expected_status_def map_filter_def)
next
  case (snoc e es)
  let ?st = "dialog_run strings st es"
  from snoc have IH: "list_all (\<lambda>s. st_status s = expected_status (phase_keys es) (st_key s)) (dp_steps ?st)"
    "dp_activeStepKey ?st = (if phase_keys es = [] then None else Some (last (phase_keys es)))" by simp_all
  show ?case
  proof (cases e)
    case (EvPhase oper k label cur tot detail)
    with IH(1) mark_expected show ?thesis by (auto simp: dialog_run_snoc phase_keys_snoc list_all_iff Let_def)
  qed (use snoc.prems IH in \<open>auto simp: dialog_run_snoc phase_keys_snoc\<close>)
qed

lemma created_pending: "list_all (\<lambda>s. st_status s = Progress_pending) (dp_steps (createDialogProgressState strings kind action egress))"
    "dp_activeStepKey (createDialogProgressState strings kind action egress) = None"
  by (simp_all add: createDialogProgressState_def buildProgressSteps_def list_all_iff)

lemma expected_not_error: "expected_status phases k \<noteq> Progress_error"
  by (simp add: expected_status_def)

text \<open>C24: what a progress dialog shows for an operation that reports no error.  After any sequence of phase and
  node events the step of the last phase is running, the steps of the earlier phases are done and the others are
  pending, whatever order and repetition the phases come in and also when phases outside the dialog's steps are
  reported; after the completion that follows, the steps whose phase was reported are done, or all of them when none
  was, and the message is the one for done.\<close>

theorem dialog_progress_statuses:
  assumes "list_all progress_only events"
  shows "let st = dialog_run strings (createDialogProgressState strings kind action egress) events in
    map st_status (dp_steps st) = map (expected_status (phase_keys events)) (progress_keys kind action egress) \<and>
    map st_status (dp_steps (updateDialogProgressState strings st (EvComplete oper payload))) =
      map (\<lambda>k. if phase_keys events = [] \<or> k \<in> set (phase_keys events) then Progress_done else Progress_pending)
        (progress_keys kind action egress) \<and>
    dp_message (updateDialogProgressState strings st (EvComplete oper payload)) = Some (ps_done strings)"
proof -
  define st where "st = dialog_run strings (createDialogProgressState strings kind action egress) events"
  note shown = run_expected [OF assms created_pending [of strings kind action egress], of strings, folded st_def]
  have "map fst (step_frame st) = progress_keys kind action egress"
    by (simp add: st_def run_frame) (simp add: step_frame_def createDialogProgressState_def buildProgressSteps_def comp_def)
  then have keys: "map st_key (dp_steps st) = progress_keys kind action egress" by (simp add: step_frame_def comp_def)
  have statuses: "map st_status (dp_steps st) = map (\<lambda>s. expected_status (phase_keys events) (st_key s)) (dp_steps st)"
    using shown by (simp add: list_all_iff)
  have none: "\<not> list_ex (\<lambda>s. st_status s = Progress_error) (dp_steps st)"
    using shown expected_not_error by (auto simp: list_all_iff list_ex_iff)
  have "st_status (finish_step (dp_activeStepKey st = None) s) =
      (if phase_keys events = [] \<or> st_key s \<in> set (phase_keys events) then Progress_done else Progress_pending)"
    if "s \<in> set (dp_steps st)" for s
    using that shown by (auto simp: list_all_iff finish_step_def expected_status_def) (metis last_in_set)
  then have "map st_status (dp_steps (updateDialogProgressState strings st (EvComplete oper payload))) =
      map (\<lambda>s. if phase_keys events = [] \<or> st_key s \<in> set (phase_keys events) then Progress_done else Progress_pending) (dp_steps st)"
    using none by simp
  with statuses none show ?thesis unfolding st_def [symmetric] Let_def by (simp add: keys [symmetric] comp_def)
qed

text \<open>The steps of a progress dialog under every sequence of events, errors and completions included.  The
  steps keep their keys, labels and order, a step that is running is always the active one (so at most one runs),
  an error stops every step, marks the failing step when the dialog has it and keeps its message, and a completion
  after it neither hides the failed step nor leaves one running.\<close>

lemma dialog_progress_invariant:
  "let st = dialog_run strings (createDialogProgressState strings kind action egress) events in
    map (\<lambda>s. (st_key s, st_label s)) (dp_steps st) = map (\<lambda>k. (k, ps_steps strings k)) (progress_keys kind action egress) \<and>
    list_all (\<lambda>s. dp_activeStepKey st = Some (st_key s)) (filter (\<lambda>s. st_status s = Progress_running) (dp_steps st)) \<and>
    (let failed = updateDialogProgressState strings st (EvError oper message (Some key) label cur tot detail);
         finished = updateDialogProgressState strings failed (EvComplete oper' payload)
     in list_all (\<lambda>s. st_status s \<noteq> Progress_running) (dp_steps failed) \<and> dp_message failed = Some message \<and>
        (if key \<in> set (progress_keys kind action egress) then finished = failed \<and>
           list_ex (\<lambda>s. st_key s = key \<and> st_status s = Progress_error) (dp_steps finished)
         else list_all (\<lambda>s. st_status s \<noteq> Progress_running) (dp_steps finished)))"
proof -
  define st where "st = dialog_run strings (createDialogProgressState strings kind action egress) events"
  have frame: "step_frame st = map (\<lambda>k. (k, ps_steps strings k)) (progress_keys kind action egress)"
    by (simp add: st_def run_frame) (simp add: step_frame_def createDialogProgressState_def buildProgressSteps_def)
  have "map fst (step_frame st) = progress_keys kind action egress" by (simp add: frame comp_def)
  then have keys: "st_key ` set (dp_steps st) = set (progress_keys kind action egress)"
    by (simp add: step_frame_def comp_def flip: set_map)
  have "running_active st" unfolding st_def
    by (rule run_running) (use created_pending in \<open>simp add: running_active_def list_all_iff\<close>)
  then have running: "list_all (\<lambda>s. dp_activeStepKey st = Some (st_key s)) (filter (\<lambda>s. st_status s = Progress_running) (dp_steps st))"
    by (auto simp: running_active_def list_all_iff)
  define failed where "failed = updateDialogProgressState strings st (EvError oper message (Some key) label cur tot detail)"
  have stopped: "list_all (\<lambda>s. st_status s \<noteq> Progress_running) (dp_steps failed)" "dp_message failed = Some message"
    by (auto simp: failed_def Let_def list_all_iff mark_step_def)
  have marked: "list_ex (\<lambda>s. st_key s = key \<and> st_status s = Progress_error) (dp_steps failed)" if "key \<in> st_key ` set (dp_steps st)"
  proof -
    from that obtain s where s: "s \<in> set (dp_steps st)" "st_key s = key" by auto
    define d where "d = Some (case buildProgressDetail strings cur tot detail of Some d \<Rightarrow> d | None \<Rightarrow> message)"
    have "mark_step (Some key) Progress_error d s \<in> set (dp_steps failed)" using s by (simp add: failed_def Let_def d_def)
    moreover have "st_key (mark_step (Some key) Progress_error d s) = key \<and> st_status (mark_step (Some key) Progress_error d s) = Progress_error"
      using s(2) by (simp add: mark_step_def)
    ultimately show ?thesis unfolding list_ex_iff by blast
  qed
  then have "updateDialogProgressState strings failed (EvComplete oper' payload) = failed" if "key \<in> st_key ` set (dp_steps st)"
    using that stopped(2) by (auto simp: list_ex_iff nullish_def)
  with stopped marked keys frame running show ?thesis
    unfolding Let_def st_def [symmetric] failed_def [symmetric] step_frame_def [symmetric]
    by (auto simp: list_all_iff finish_step_def)
qed

theorem dialog_progress_statuses_witness:
  "map st_status (dp_steps (dialog_run
      \<lparr>ps_running = [], ps_waiting = [], ps_done = ''done'', ps_failed = [], ps_stepCounter = [], ps_steps = (\<lambda>_. [])\<rparr>
      (createDialogProgressState \<lparr>ps_running = [], ps_waiting = [], ps_done = ''done'', ps_failed = [], ps_stepCounter = [], ps_steps = (\<lambda>_. [])\<rparr>
        Dialog_manual Action_save False)
      [EvPhase FO_save PK_save_settings [] None None None, EvPhase FO_save PK_refresh_ui [] None None None])) =
   [Progress_done, Progress_pending, Progress_running]"
  by (subst dialog_progress_statuses [unfolded Let_def, THEN conjunct1]) (simp_all add: phase_keys_def map_filter_def expected_status_def progress_keys_def)

end
