(* ===== verification/Key_Import.thy ===== *)
theory Key_Import
  imports Api_Key_Extract Api_Client Forward_Proxy_Progress Log_Operational_Class
begin

text \<open>
  The import of API keys in the admin console (\<open>web/src/AdminDashboard.tsx\<close>): a pasted text becomes the rows of a
  dialog, the keys are validated in chunks, failed ones again on request, and the usable ones are imported in chunks.
  The handlers capture the state of the last render; the functions that wait for an answer are data with what they
  captured, so that every interleaving of clicks, renders, answers, animation frames and closing is a sequence of
  events.  Updates of the state are applied when they are queued.
\<close>

section \<open>State\<close>

datatype KeyValidationStatus =
  KV_pending | KV_duplicate_in_input | KV_ok | KV_ok_exhausted | KV_unauthorized | KV_forbidden | KV_invalid | KV_error

record KeyValidationRow =
  vr_api_key :: string
  vr_status :: KeyValidationStatus
  vr_registration_ip :: "string option"
  vr_registration_region :: "string option"
  vr_assigned_proxy_key :: "string option"
  vr_assigned_proxy_label :: "string option"
  vr_assigned_proxy_match_kind :: "ValidateAssignedProxyMatchKind option"
  vr_quota_limit :: "int option"
  vr_quota_remaining :: "int option"
  vr_detail :: "string option"
  vr_attempts :: int

record KeysValidationState =
  vs_group :: string
  vs_input_lines :: nat
  vs_valid_lines :: nat
  vs_unique_in_input :: nat
  vs_duplicate_in_input :: nat
  vs_checking :: bool
  vs_importing :: bool
  vs_rows :: "KeyValidationRow list"
  vs_imported_api_keys :: "string list"
  vs_registration_ip_by_key :: "(string \<times> string) list"
  vs_importReport :: "AddApiKeysBatchResponse option"
  vs_importWarning :: "string option"
  vs_importError :: "string option"

text \<open>A running import: what it captured when it began, and its progress.\<close>

record import_run =
  ir_captured :: KeysValidationState
  ir_runId :: nat
  ir_group :: "string option"
  ir_exhausted :: "string list"
  ir_chunk :: "string list"
  ir_rest :: "string list"
  ir_response :: AddApiKeysBatchResponse
  ir_markFailed :: nat

datatype import_task =
    Validate_task (vt_chunk: "ValidateKeyInput list") (vt_rest: "ValidateKeyInput list") (vt_runId: nat) (vt_controller: nat)
  | Import_task import_run
  | Refresh_task nat

datatype import_request =
    Validate_request "ValidateKeyInput list"
  | Import_request "AddApiKeysBatchItem list" "string option" "string list"

record import_page =
  pg_keysValidation :: "KeysValidationState option"
  pg_rendered :: "KeysValidationState option"
  pg_newKeysText :: string
  pg_newKeysGroup :: string
  pg_runId :: nat
  pg_abort :: "nat option"
  pg_aborted :: "nat list"
  pg_fresh :: nat
  pg_tasks :: "import_task list"
  pg_frames :: nat
  pg_sent :: "import_request list"

definition initial_page :: import_page where
  "initial_page = \<lparr>pg_keysValidation = None, pg_rendered = None, pg_newKeysText = [], pg_newKeysGroup = [], pg_runId = 0,
     pg_abort = None, pg_aborted = [], pg_fresh = 0, pg_tasks = [], pg_frames = 0, pg_sent = []\<rparr>"

definition updateKeysValidation :: "(KeysValidationState \<Rightarrow> KeysValidationState) \<Rightarrow> nat \<Rightarrow> import_page \<Rightarrow> import_page" where
  "updateKeysValidation f runId st = (case pg_keysValidation st of
     None \<Rightarrow> st
   | Some prev \<Rightarrow> if runId \<noteq> pg_runId st then st else st\<lparr>pg_keysValidation := Some (f prev)\<rparr>)"

section \<open>What the dialog shows\<close>

definition keysValidationImportedSet :: "KeysValidationState option \<Rightarrow> string list" where
  "keysValidationImportedSet kv = (case kv of None \<Rightarrow> [] | Some s \<Rightarrow> js_set_of (vs_imported_api_keys s))"

definition keysValidationVisibleRows :: "KeysValidationState option \<Rightarrow> KeyValidationRow list" where
  "keysValidationVisibleRows kv =
     (let rows = (case kv of None \<Rightarrow> [] | Some s \<Rightarrow> vs_rows s); imported = keysValidationImportedSet kv
      in if length imported = 0 then rows else filter (\<lambda>row. vr_api_key row \<notin> set imported) rows)"

definition keysValidationVisibleState :: "KeysValidationState option \<Rightarrow> KeysValidationState option" where
  "keysValidationVisibleState kv = (case kv of
     None \<Rightarrow> None
   | Some s \<Rightarrow>
       if length (keysValidationImportedSet kv) = 0 then Some s
       else let rows = keysValidationVisibleRows kv;
                uniqueVisible = js_set_of (map vr_api_key (filter (\<lambda>r. vr_status r \<noteq> KV_duplicate_in_input) rows));
                duplicateVisible = length (filter (\<lambda>r. vr_status r = KV_duplicate_in_input) rows)
            in Some (s\<lparr>vs_rows := rows, vs_unique_in_input := length uniqueVisible, vs_duplicate_in_input := duplicateVisible\<rparr>))"

record KeysValidationCounts =
  ct_pending :: nat
  ct_duplicate :: nat
  ct_ok :: nat
  ct_exhausted :: nat
  ct_invalid :: nat
  ct_error :: nat
  ct_checked :: nat
  ct_totalToCheck :: nat

definition count_status :: "KeyValidationStatus list \<Rightarrow> KeyValidationRow list \<Rightarrow> nat" where
  "count_status ss rows = length (filter (\<lambda>r. vr_status r \<in> set ss) rows)"

definition keysValidationCounts :: "KeysValidationState option \<Rightarrow> KeysValidationCounts" where
  "keysValidationCounts kv =
     (let rows = keysValidationVisibleRows kv;
          ok = count_status [KV_ok] rows; exhausted = count_status [KV_ok_exhausted] rows;
          invalid = count_status [KV_unauthorized, KV_forbidden, KV_invalid] rows; err = count_status [KV_error] rows
      in \<lparr>ct_pending = count_status [KV_pending] rows, ct_duplicate = count_status [KV_duplicate_in_input] rows, ct_ok = ok,
          ct_exhausted = exhausted, ct_invalid = invalid, ct_error = err, ct_checked = ok + exhausted + invalid + err,
          ct_totalToCheck = length (js_set_of (map vr_api_key (filter (\<lambda>r. vr_status r \<noteq> KV_duplicate_in_input) rows)))\<rparr>)"

definition keysValidationValidKeys :: "KeysValidationState option \<Rightarrow> string list" where
  "keysValidationValidKeys kv =
     js_set_of (map vr_api_key (filter (\<lambda>r. vr_status r = KV_ok \<or> vr_status r = KV_ok_exhausted) (keysValidationVisibleRows kv)))"

definition keysValidationExhaustedKeys :: "KeysValidationState option \<Rightarrow> string list" where
  "keysValidationExhaustedKeys kv =
     js_set_of (map vr_api_key (filter (\<lambda>r. vr_status r = KV_ok_exhausted) (keysValidationVisibleRows kv)))"

text \<open>The helpers of \<open>components/ApiKeysValidationDialog.tsx\<close>.\<close>

definition computeValidationCounts :: "KeysValidationState option \<Rightarrow> KeysValidationCounts" where
  "computeValidationCounts state =
     (let rows = (case state of None \<Rightarrow> [] | Some s \<Rightarrow> vs_rows s);
          ok = count_status [KV_ok] rows; exhausted = count_status [KV_ok_exhausted] rows;
          invalid = count_status [KV_unauthorized, KV_forbidden, KV_invalid] rows; err = count_status [KV_error] rows
      in \<lparr>ct_pending = count_status [KV_pending] rows, ct_duplicate = count_status [KV_duplicate_in_input] rows, ct_ok = ok,
          ct_exhausted = exhausted, ct_invalid = invalid, ct_error = err, ct_checked = ok + exhausted + invalid + err,
          ct_totalToCheck = (case state of None \<Rightarrow> 0 | Some s \<Rightarrow> vs_unique_in_input s)\<rparr>)"

definition computeValidKeys :: "KeysValidationState option \<Rightarrow> string list" where
  "computeValidKeys state = js_set_of (map vr_api_key (filter (\<lambda>r. vr_status r = KV_ok \<or> vr_status r = KV_ok_exhausted)
     (case state of None \<Rightarrow> [] | Some s \<Rightarrow> vs_rows s)))"

definition computeExhaustedKeys :: "KeysValidationState option \<Rightarrow> string list" where
  "computeExhaustedKeys state = js_set_of (map vr_api_key (filter (\<lambda>r. vr_status r = KV_ok_exhausted)
     (case state of None \<Rightarrow> [] | Some s \<Rightarrow> vs_rows s)))"

datatype ValidationFilterKey = Filter_pending | Filter_ok | Filter_exhausted | Filter_invalid | Filter_error | Filter_duplicate

fun statusTone :: "KeyValidationStatus \<Rightarrow> StatusTone" where
  "statusTone KV_ok = ST_success"
| "statusTone KV_ok_exhausted = ST_warning"
| "statusTone KV_pending = ST_info"
| "statusTone KV_duplicate_in_input = ST_neutral"
| "statusTone KV_unauthorized = ST_error"
| "statusTone KV_forbidden = ST_error"
| "statusTone KV_invalid = ST_error"
| "statusTone KV_error = ST_error"

fun filterKeyForStatus :: "KeyValidationStatus \<Rightarrow> ValidationFilterKey" where
  "filterKeyForStatus KV_pending = Filter_pending"
| "filterKeyForStatus KV_ok = Filter_ok"
| "filterKeyForStatus KV_ok_exhausted = Filter_exhausted"
| "filterKeyForStatus KV_duplicate_in_input = Filter_duplicate"
| "filterKeyForStatus KV_unauthorized = Filter_invalid"
| "filterKeyForStatus KV_forbidden = Filter_invalid"
| "filterKeyForStatus KV_invalid = Filter_invalid"
| "filterKeyForStatus KV_error = Filter_error"

definition assignedProxyMatchToneClass :: "ValidateAssignedProxyMatchKind option \<Rightarrow> string" where
  "assignedProxyMatchToneClass matchKind = (case matchKind of
     Some MK_registration_ip \<Rightarrow> ''text-success''
   | Some MK_same_region \<Rightarrow> ''text-info''
   | Some MK_other \<Rightarrow> ''text-warning''
   | None \<Rightarrow> [])"

text \<open>The page and the dialog compute the same keys and counts from what is visible.\<close>

lemma visible_state_rows: "(case keysValidationVisibleState kv of None \<Rightarrow> [] | Some s \<Rightarrow> vs_rows s) = keysValidationVisibleRows kv"
  by (auto simp: keysValidationVisibleState_def keysValidationVisibleRows_def Let_def keysValidationImportedSet_def split: option.split)

lemma dialog_agrees:
  "computeValidKeys (keysValidationVisibleState kv) = keysValidationValidKeys kv"
  "computeExhaustedKeys (keysValidationVisibleState kv) = keysValidationExhaustedKeys kv"
  "(computeValidationCounts (keysValidationVisibleState kv))\<lparr>ct_totalToCheck := 0\<rparr> = (keysValidationCounts kv)\<lparr>ct_totalToCheck := 0\<rparr>"
  by (simp_all add: computeValidKeys_def computeExhaustedKeys_def keysValidationValidKeys_def keysValidationExhaustedKeys_def
      computeValidationCounts_def keysValidationCounts_def visible_state_rows Let_def)

section \<open>Validation\<close>

definition closeKeysValidationDialog :: "import_page \<Rightarrow> import_page" where
  "closeKeysValidationDialog st =
     st\<lparr>pg_aborted := (case pg_abort st of Some c \<Rightarrow> c # pg_aborted st | None \<Rightarrow> pg_aborted st), pg_abort := None,
       pg_keysValidation := None\<rparr>"

definition coerceValidationStatus :: "string \<Rightarrow> KeyValidationStatus" where
  "coerceValidationStatus raw =
     (let s = js_lower raw
      in if s = ''pending'' then KV_pending
         else if s = ''duplicate_in_input'' then KV_duplicate_in_input
         else if s = ''ok'' then KV_ok
         else if s = ''ok_exhausted'' then KV_ok_exhausted
         else if s = ''unauthorized'' then KV_unauthorized
         else if s = ''forbidden'' then KV_forbidden
         else if s = ''invalid'' then KV_invalid
         else KV_error)"

text \<open>\<open>a ?? b\<close> where \<open>b\<close> may be missing too.\<close>

definition or_else :: "'a option \<Rightarrow> 'a option \<Rightarrow> 'a option" where
  "or_else a b = (case a of Some _ \<Rightarrow> a | None \<Rightarrow> b)"

definition keep_result :: "(string \<times> ValidateKeyResult) list \<Rightarrow> ValidateKeyResult \<Rightarrow> (string \<times> ValidateKeyResult) list" where
  "keep_result byKey result =
     (let current = map_of byKey (vkr_api_key result);
          isUsable = vkr_status result \<noteq> ''duplicate_in_input'' \<and> vkr_status result \<noteq> ''pending''
      in if current = None \<or> isUsable then js_map_set (vkr_api_key result) result byKey else byKey)"

definition results_by_key :: "ValidateKeyResult list \<Rightarrow> (string \<times> ValidateKeyResult) list" where
  "results_by_key results = foldl keep_result [] results"

definition apply_result :: "(string \<times> ValidateKeyResult) list \<Rightarrow> KeyValidationRow \<Rightarrow> KeyValidationRow" where
  "apply_result byKey row =
     (let res = map_of byKey (vr_api_key row)
      in if vr_status row = KV_duplicate_in_input then
           (case res of
              None \<Rightarrow> row
            | Some r \<Rightarrow> row\<lparr>vr_registration_ip := or_else (vkr_registration_ip r) (vr_registration_ip row),
                vr_registration_region := or_else (vkr_registration_region r) (vr_registration_region row),
                vr_assigned_proxy_key := vkr_assigned_proxy_key r, vr_assigned_proxy_label := vkr_assigned_proxy_label r,
                vr_assigned_proxy_match_kind := vkr_assigned_proxy_match_kind r\<rparr>)
         else (case res of
              None \<Rightarrow> row
            | Some r \<Rightarrow> row\<lparr>vr_status := coerceValidationStatus (vkr_status r),
                vr_registration_ip := or_else (vkr_registration_ip r) (vr_registration_ip row),
                vr_registration_region := or_else (vkr_registration_region r) (vr_registration_region row),
                vr_assigned_proxy_key := vkr_assigned_proxy_key r, vr_assigned_proxy_label := vkr_assigned_proxy_label r,
                vr_assigned_proxy_match_kind := vkr_assigned_proxy_match_kind r, vr_quota_limit := vkr_quota_limit r,
                vr_quota_remaining := vkr_quota_remaining r, vr_detail := vkr_detail r\<rparr>))"

definition applyValidationResults :: "ValidateKeyResult list \<Rightarrow> nat \<Rightarrow> import_page \<Rightarrow> import_page" where
  "applyValidationResults results = updateKeysValidation (\<lambda>prev. prev\<lparr>vs_rows := map (apply_result (results_by_key results)) (vs_rows prev)\<rparr>)"

definition mark_pending :: "string list \<Rightarrow> KeyValidationRow \<Rightarrow> KeyValidationRow" where
  "mark_pending apiKeys row =
     (if vr_api_key row \<notin> set (js_set_of apiKeys) then row
      else if vr_status row = KV_duplicate_in_input then row
      else row\<lparr>vr_status := KV_pending, vr_assigned_proxy_key := None, vr_assigned_proxy_label := None,
        vr_assigned_proxy_match_kind := None, vr_detail := None, vr_quota_limit := None, vr_quota_remaining := None,
        vr_attempts := vr_attempts row + 1\<rparr>)"

definition markKeysPendingForRetry :: "string list \<Rightarrow> nat \<Rightarrow> import_page \<Rightarrow> import_page" where
  "markKeysPendingForRetry apiKeys = updateKeysValidation (\<lambda>prev. prev\<lparr>vs_rows := map (mark_pending apiKeys) (vs_rows prev)\<rparr>)"

abbreviation CHUNK_SIZE :: nat where
  "CHUNK_SIZE \<equiv> 25"

text \<open>The loop of \<open>runValidateKeys\<close>: the next chunk is sent, or the run ends.\<close>

definition validate_next :: "ValidateKeyInput list \<Rightarrow> nat \<Rightarrow> nat \<Rightarrow> import_page \<Rightarrow> import_page" where
  "validate_next items runId controller st =
     (if length items > 0 then
        st\<lparr>pg_sent := pg_sent st @ [Validate_request (take CHUNK_SIZE items)],
          pg_tasks := pg_tasks st @ [Validate_task (take CHUNK_SIZE items) (drop CHUNK_SIZE items) runId controller]\<rparr>
      else let st1 = updateKeysValidation (\<lambda>prev. prev\<lparr>vs_checking := False\<rparr>) runId st
           in if pg_abort st1 = Some controller then st1\<lparr>pg_abort := None\<rparr> else st1)"

definition runValidateKeys :: "ValidateKeyInput list \<Rightarrow> nat \<Rightarrow> import_page \<Rightarrow> import_page" where
  "runValidateKeys items runId st =
     (let controller = pg_fresh st
      in validate_next items runId controller
           (st\<lparr>pg_fresh := Suc controller,
              pg_aborted := (case pg_abort st of Some c \<Rightarrow> c # pg_aborted st | None \<Rightarrow> pg_aborted st), pg_abort := Some controller\<rparr>))"

definition failed_result :: "string \<Rightarrow> ValidateKeyInput \<Rightarrow> ValidateKeyResult" where
  "failed_result message item =
     \<lparr>vkr_api_key = vki_api_key item, vkr_status = ''error'', vkr_registration_ip = Option.bind (vki_registration_ip item) id,
      vkr_registration_region = None, vkr_assigned_proxy_key = None, vkr_assigned_proxy_label = None,
      vkr_assigned_proxy_match_kind = None, vkr_quota_limit = None, vkr_quota_remaining = None, vkr_detail = Some message\<rparr>"

definition validate_answered ::
  "ValidateKeyInput list \<Rightarrow> ValidateKeyInput list \<Rightarrow> nat \<Rightarrow> nat \<Rightarrow> js_error + ValidateKeysResponse \<Rightarrow> import_page \<Rightarrow> import_page" where
  "validate_answered chunk rest runId controller answer st =
     validate_next rest runId controller
       (case answer of
          Inr resp \<Rightarrow> applyValidationResults (vkr2_results resp) runId st
        | Inl err \<Rightarrow> applyValidationResults (map (failed_result (er_message err)) chunk) runId st)"

section \<open>Handlers\<close>

text \<open>The loop of \<open>handleAddKey\<close> over the parsed entries: the keys seen, the rows, the unique entries, the
  registration addresses and the number of duplicates.\<close>

record add_state =
  as_seen :: "string list"
  as_rows :: "KeyValidationRow list"
  as_uniqueEntries :: "ValidateKeyInput list"
  as_registrationIpByKey :: "(string \<times> string) list"
  as_duplicateCount :: nat

definition new_row :: "ApiKeyImportEntry \<Rightarrow> KeyValidationStatus \<Rightarrow> KeyValidationRow" where
  "new_row entry status =
     \<lparr>vr_api_key = ie_api_key entry, vr_status = status, vr_registration_ip = ie_registration_ip entry, vr_registration_region = None,
      vr_assigned_proxy_key = None, vr_assigned_proxy_label = None, vr_assigned_proxy_match_kind = None, vr_quota_limit = None,
      vr_quota_remaining = None, vr_detail = None, vr_attempts = 0\<rparr>"

definition add_entry :: "add_state \<Rightarrow> ApiKeyImportEntry \<Rightarrow> add_state" where
  "add_entry a entry =
     (let api_key = ie_api_key entry
      in if api_key \<in> set (as_seen a) then
           a\<lparr>as_duplicateCount := as_duplicateCount a + 1, as_rows := as_rows a @ [new_row entry KV_duplicate_in_input]\<rparr>
         else a\<lparr>as_seen := js_set_add api_key (as_seen a),
           as_uniqueEntries := as_uniqueEntries a @ [\<lparr>vki_api_key = api_key, vki_registration_ip = Some (ie_registration_ip entry)\<rparr>],
           as_registrationIpByKey := (if truthy_str (ie_registration_ip entry)
             then js_map_set api_key (the (ie_registration_ip entry)) (as_registrationIpByKey a) else as_registrationIpByKey a),
           as_rows := as_rows a @ [new_row entry KV_pending]\<rparr>)"

definition add_entries :: "ApiKeyImportEntry list \<Rightarrow> add_state" where
  "add_entries entries = foldl add_entry
     \<lparr>as_seen = [], as_rows = [], as_uniqueEntries = [], as_registrationIpByKey = [], as_duplicateCount = 0\<rparr> entries"

definition handleAddKey :: "import_page \<Rightarrow> import_page" where
  "handleAddKey st =
     (let rawLines = js_split_lines (pg_newKeysText st);
          parsedEntries = extractApiKeyImportEntriesFromText (pg_newKeysText st)
      in if length parsedEntries = 0 then st
         else let a = add_entries parsedEntries; runId = pg_runId st + 1
              in runValidateKeys (as_uniqueEntries a) runId
                   (st\<lparr>pg_runId := runId,
                      pg_keysValidation := Some \<lparr>vs_group = js_trim (pg_newKeysGroup st), vs_input_lines = length rawLines,
                        vs_valid_lines = length parsedEntries, vs_unique_in_input = length (as_uniqueEntries a),
                        vs_duplicate_in_input = as_duplicateCount a, vs_checking = True, vs_importing = False,
                        vs_rows = as_rows a, vs_imported_api_keys = [], vs_registration_ip_by_key = as_registrationIpByKey a,
                        vs_importReport = None, vs_importWarning = None, vs_importError = None\<rparr>,
                      pg_newKeysText := [], pg_newKeysGroup := []\<rparr>))"

definition retry_item :: "KeysValidationState \<Rightarrow> string \<Rightarrow> ValidateKeyInput" where
  "retry_item s api_key = \<lparr>vki_api_key = api_key, vki_registration_ip = map_option Some (map_of (vs_registration_ip_by_key s) api_key)\<rparr>"

definition begin_retry :: "KeysValidationState \<Rightarrow> string list \<Rightarrow> import_page \<Rightarrow> import_page" where
  "begin_retry s apiKeys st =
     (let runId = pg_runId st + 1;
          st1 = st\<lparr>pg_runId := runId, pg_keysValidation := map_option (\<lambda>prev. prev\<lparr>vs_checking := True, vs_importError := None,
                   vs_importWarning := None\<rparr>) (pg_keysValidation st)\<rparr>
      in runValidateKeys (map (retry_item s) apiKeys) runId (markKeysPendingForRetry apiKeys runId st1))"

definition handleRetryFailedValidation :: "import_page \<Rightarrow> import_page" where
  "handleRetryFailedValidation st = (case pg_rendered st of
     None \<Rightarrow> st
   | Some s \<Rightarrow>
       if vs_checking s \<or> vs_importing s then st
       else let failedKeys = js_set_of (map vr_api_key (filter (\<lambda>r. vr_status r = KV_unauthorized \<or> vr_status r = KV_forbidden
                  \<or> vr_status r = KV_invalid \<or> vr_status r = KV_error) (vs_rows s)))
            in if length failedKeys = 0 then st else begin_retry s failedKeys st)"

definition handleRetryOneValidation :: "string \<Rightarrow> import_page \<Rightarrow> import_page" where
  "handleRetryOneValidation api_key st = (case pg_rendered st of
     None \<Rightarrow> st
   | Some s \<Rightarrow> if vs_checking s \<or> vs_importing s then st else begin_retry s [api_key] st)"

section \<open>Import\<close>

abbreviation API_KEYS_IMPORT_CHUNK_SIZE :: nat where
  "API_KEYS_IMPORT_CHUNK_SIZE \<equiv> 1000"

definition empty_response :: AddApiKeysBatchResponse where
  "empty_response = \<lparr>aakbr2_summary = \<lparr>aakbs_input_lines = 0, aakbs_valid_lines = 0, aakbs_unique_in_input = 0, aakbs_created = 0,
     aakbs_undeleted = 0, aakbs_existed = 0, aakbs_duplicate_in_input = 0, aakbs_failed = 0\<rparr>, aakbr2_results = []\<rparr>"

definition add_response :: "AddApiKeysBatchResponse \<Rightarrow> AddApiKeysBatchResponse \<Rightarrow> AddApiKeysBatchResponse" where
  "add_response response chunkResponse =
     (let s = aakbr2_summary response; c = aakbr2_summary chunkResponse
      in \<lparr>aakbr2_summary = \<lparr>aakbs_input_lines = aakbs_input_lines s + aakbs_input_lines c,
            aakbs_valid_lines = aakbs_valid_lines s + aakbs_valid_lines c,
            aakbs_unique_in_input = aakbs_unique_in_input s + aakbs_unique_in_input c,
            aakbs_created = aakbs_created s + aakbs_created c,
            aakbs_undeleted = aakbs_undeleted s + aakbs_undeleted c,
            aakbs_existed = aakbs_existed s + aakbs_existed c,
            aakbs_duplicate_in_input = aakbs_duplicate_in_input s + aakbs_duplicate_in_input c,
            aakbs_failed = aakbs_failed s + aakbs_failed c\<rparr>,
          aakbr2_results = aakbr2_results response @ aakbr2_results chunkResponse\<rparr>)"

definition row_by_key :: "KeyValidationRow list \<Rightarrow> (string \<times> KeyValidationRow) list" where
  "row_by_key rows = foldl (\<lambda>m row.
     let current = map_of m (vr_api_key row);
         isUsable = vr_status row \<noteq> KV_duplicate_in_input \<and> vr_status row \<noteq> KV_pending
     in if current = None \<or> isUsable then js_map_set (vr_api_key row) row m else m) [] rows"

definition import_item :: "KeysValidationState \<Rightarrow> string \<Rightarrow> AddApiKeysBatchItem" where
  "import_item s api_key =
     \<lparr>aakbi_api_key = api_key, aakbi_registration_ip = map_option Some (map_of (vs_registration_ip_by_key s) api_key),
      aakbi_assigned_proxy_key = map_option Some (Option.bind (map_of (row_by_key (vs_rows s)) api_key) vr_assigned_proxy_key)\<rparr>"

definition importedByResponse :: "AddApiKeysBatchResponse \<Rightarrow> string list" where
  "importedByResponse response = js_set_of (map aakbr_api_key (filter (\<lambda>r. aakbr_status r = ''created''
     \<or> aakbr_status r = ''undeleted'' \<or> aakbr_status r = ''existed'') (aakbr2_results response)))"

text \<open>The texts of the dialog: the warning with the place of its number, and the error of last resort (for a
  thrown value that is no \<open>Error\<close>, which no call of the import throws).\<close>

definition import_failed :: "nat \<Rightarrow> js_error \<Rightarrow> import_page \<Rightarrow> import_page" where
  "import_failed importRunId err =
     updateKeysValidation (\<lambda>prev. prev\<lparr>vs_importing := False, vs_importWarning := None, vs_importError := Some (er_message err)\<rparr>) importRunId"

definition import_finish :: "string \<Rightarrow> import_run \<Rightarrow> import_page \<Rightarrow> import_page" where
  "import_finish exhaustedMarkFailed run st =
     (let imported = foldl (\<lambda>s k. js_set_add k s) (js_set_of (vs_imported_api_keys (ir_captured run))) (importedByResponse (ir_response run));
          shouldAutoClose = list_all (\<lambda>row. vr_api_key row \<in> set imported) (vs_rows (ir_captured run));
          warning = (if ir_markFailed run > 0
            then Some (replace_first ''{count}'' (nat_to_string (ir_markFailed run)) exhaustedMarkFailed) else None);
          st1 = updateKeysValidation (\<lambda>prev. prev\<lparr>vs_importing := False, vs_imported_api_keys := imported,
                  vs_importReport := Some (ir_response run), vs_importWarning := warning\<rparr>) (ir_runId run) st;
          st2 = (if shouldAutoClose \<and> ir_runId run = pg_runId st1 then st1\<lparr>pg_frames := pg_frames st1 + 1\<rparr> else st1)
      in st2\<lparr>pg_tasks := pg_tasks st2 @ [Refresh_task (ir_runId run)]\<rparr>)"

text \<open>The loop over the chunks: the next one is sent, or the import ends.\<close>

definition import_next :: "string \<Rightarrow> import_run \<Rightarrow> import_page \<Rightarrow> import_page" where
  "import_next exhaustedMarkFailed run st =
     (if length (ir_rest run) > 0 then
        (let chunk = take API_KEYS_IMPORT_CHUNK_SIZE (ir_rest run);
             exhaustedInChunk = filter (\<lambda>k. k \<in> set (ir_exhausted run)) chunk
         in st\<lparr>pg_sent := pg_sent st @ [Import_request (map (import_item (ir_captured run)) chunk) (ir_group run) exhaustedInChunk],
              pg_tasks := pg_tasks st @ [Import_task (run\<lparr>ir_chunk := chunk, ir_rest := drop API_KEYS_IMPORT_CHUNK_SIZE (ir_rest run)\<rparr>)]\<rparr>)
      else import_finish exhaustedMarkFailed run st)"

definition handleImportValidatedKeys :: "string \<Rightarrow> import_page \<Rightarrow> import_page" where
  "handleImportValidatedKeys exhaustedMarkFailed st = (case pg_rendered st of
     None \<Rightarrow> st
   | Some s \<Rightarrow>
       if vs_checking s \<or> vs_importing s then st
       else if length (keysValidationValidKeys (Some s)) = 0 then st
       else let importRunId = pg_runId st; grp = js_trim (vs_group s)
            in import_next exhaustedMarkFailed
                 \<lparr>ir_captured = s, ir_runId = importRunId, ir_group = (if length grp > 0 then Some grp else None),
                  ir_exhausted = js_set_of (keysValidationExhaustedKeys (Some s)), ir_chunk = [],
                  ir_rest = keysValidationValidKeys (Some s), ir_response = empty_response, ir_markFailed = 0\<rparr>
                 (updateKeysValidation (\<lambda>prev. prev\<lparr>vs_importing := True, vs_importError := None, vs_importWarning := None,
                    vs_importReport := None\<rparr>) importRunId st))"

definition unmarked :: "string list \<Rightarrow> AddApiKeysBatchResult list \<Rightarrow> nat" where
  "unmarked exhaustedSet results = length (filter (\<lambda>r. aakbr_api_key r \<in> set exhaustedSet \<and> aakbr_status r \<noteq> ''failed''
     \<and> aakbr_marked_exhausted r \<noteq> Some True) results)"

definition import_answered :: "string \<Rightarrow> import_run \<Rightarrow> js_error + AddApiKeysBatchResponse \<Rightarrow> import_page \<Rightarrow> import_page" where
  "import_answered exhaustedMarkFailed run answer st = (case answer of
     Inl err \<Rightarrow> import_failed (ir_runId run) err st
   | Inr chunkResponse \<Rightarrow> import_next exhaustedMarkFailed
       (run\<lparr>ir_response := add_response (ir_response run) chunkResponse,
          ir_markFailed := ir_markFailed run + unmarked (ir_exhausted run) (aakbr2_results chunkResponse)\<rparr>) st)"

section \<open>Events\<close>

datatype import_event =
    Typed string string
  | Rendered
  | Add_clicked
  | Retry_failed_clicked
  | Retry_one_clicked string
  | Import_clicked
  | Closed
  | Frame
  | Unmounted
  | Validate_answered nat "js_error + ValidateKeysResponse"
  | Import_answered nat "js_error + AddApiKeysBatchResponse"
  | Refresh_answered nat "js_error option"

definition take_task :: "nat \<Rightarrow> import_page \<Rightarrow> import_page" where
  "take_task i st = st\<lparr>pg_tasks := take i (pg_tasks st) @ drop (Suc i) (pg_tasks st)\<rparr>"

definition waiting :: "nat \<Rightarrow> import_page \<Rightarrow> import_task option" where
  "waiting i st = (if i < length (pg_tasks st) then Some (pg_tasks st ! i) else None)"

text \<open>Which events can happen: an answer comes to a function that waits for one of its kind.\<close>

definition import_enabled :: "import_page \<Rightarrow> import_event \<Rightarrow> bool" where
  "import_enabled st ev = (case ev of
     Validate_answered i _ \<Rightarrow> (case waiting i st of Some (Validate_task _ _ _ _) \<Rightarrow> True | _ \<Rightarrow> False)
   | Import_answered i _ \<Rightarrow> (case waiting i st of Some (Import_task _) \<Rightarrow> True | _ \<Rightarrow> False)
   | Refresh_answered i _ \<Rightarrow> (case waiting i st of Some (Refresh_task _) \<Rightarrow> True | _ \<Rightarrow> False)
   | Frame \<Rightarrow> pg_frames st > 0
   | _ \<Rightarrow> True)"

definition import_step :: "string \<Rightarrow> import_event \<Rightarrow> import_page \<Rightarrow> import_page" where
  "import_step exhaustedMarkFailed ev st = (case ev of
     Typed keys grp \<Rightarrow> st\<lparr>pg_newKeysText := keys, pg_newKeysGroup := grp\<rparr>
   | Rendered \<Rightarrow> st\<lparr>pg_rendered := pg_keysValidation st\<rparr>
   | Add_clicked \<Rightarrow> handleAddKey st
   | Retry_failed_clicked \<Rightarrow> handleRetryFailedValidation st
   | Retry_one_clicked k \<Rightarrow> handleRetryOneValidation k st
   | Import_clicked \<Rightarrow> handleImportValidatedKeys exhaustedMarkFailed st
   | Closed \<Rightarrow> closeKeysValidationDialog st
   | Frame \<Rightarrow> closeKeysValidationDialog (st\<lparr>pg_frames := pg_frames st - 1\<rparr>)
   | Unmounted \<Rightarrow> st\<lparr>pg_aborted := (case pg_abort st of Some c \<Rightarrow> c # pg_aborted st | None \<Rightarrow> pg_aborted st), pg_abort := None\<rparr>
   | Validate_answered i answer \<Rightarrow>
       (case waiting i st of
          Some (Validate_task chunk rest runId controller) \<Rightarrow> validate_answered chunk rest runId controller answer (take_task i st)
        | _ \<Rightarrow> st)
   | Import_answered i answer \<Rightarrow>
       (case waiting i st of Some (Import_task run) \<Rightarrow> import_answered exhaustedMarkFailed run answer (take_task i st) | _ \<Rightarrow> st)
   | Refresh_answered i answer \<Rightarrow>
       (case waiting i st of
          Some (Refresh_task importRunId) \<Rightarrow>
            (case answer of Some err \<Rightarrow> import_failed importRunId err (take_task i st) | None \<Rightarrow> take_task i st)
        | _ \<Rightarrow> st))"

inductive import_reach :: "string \<Rightarrow> import_page \<Rightarrow> import_event list \<Rightarrow> bool" for warning where
  start: "import_reach warning initial_page []"
| step: "import_reach warning st tr \<Longrightarrow> import_enabled st ev \<Longrightarrow> import_reach warning (import_step warning ev st) (tr @ [ev])"

end
