(* ===== verification/Key_Import_Safe.thy ===== *)
theory Key_Import_Safe
  imports Key_Import
begin

text \<open>
  Safety of the import of keys: a key is sent to be imported only after the server answered, in some validation,
  that it is usable, and it is marked exhausted only after the server answered that it is exhausted, whatever the
  order of clicks, renders, answers and closing.
\<close>

section \<open>What the server answered\<close>

definition answered :: "import_event list \<Rightarrow> string \<Rightarrow> string \<Rightarrow> bool" where
  "answered tr k s \<longleftrightarrow> (\<exists>i resp r. Validate_answered i (Inr resp) \<in> set tr \<and> r \<in> set (vkr2_results resp) \<and>
     vkr_api_key r = k \<and> js_lower (vkr_status r) = s)"

definition row_ok :: "import_event list \<Rightarrow> KeyValidationRow \<Rightarrow> bool" where
  "row_ok tr row \<longleftrightarrow> (vr_status row = KV_ok \<longrightarrow> answered tr (vr_api_key row) ''ok'') \<and>
     (vr_status row = KV_ok_exhausted \<longrightarrow> answered tr (vr_api_key row) ''ok_exhausted'')"

definition state_ok :: "import_event list \<Rightarrow> KeysValidationState \<Rightarrow> bool" where
  "state_ok tr s \<longleftrightarrow> list_all (row_ok tr) (vs_rows s)"

definition usable :: "import_event list \<Rightarrow> string \<Rightarrow> bool" where
  "usable tr k \<longleftrightarrow> answered tr k ''ok'' \<or> answered tr k ''ok_exhausted''"

fun task_valid :: "import_event list \<Rightarrow> import_task \<Rightarrow> bool" where
  "task_valid tr (Import_task run) \<longleftrightarrow> distinct (ir_rest run) \<and> (\<forall>k \<in> set (ir_rest run). usable tr k) \<and>
     (\<forall>k \<in> set (ir_exhausted run). answered tr k ''ok_exhausted'')"
| "task_valid tr _ \<longleftrightarrow> True"

fun request_valid :: "import_event list \<Rightarrow> import_request \<Rightarrow> bool" where
  "request_valid tr (Import_request items grp exhausted) \<longleftrightarrow>
     length items \<le> API_KEYS_IMPORT_CHUNK_SIZE \<and> distinct (map aakbi_api_key items) \<and>
     (\<forall>item \<in> set items. usable tr (aakbi_api_key item)) \<and>
     (\<forall>k \<in> set exhausted. k \<in> aakbi_api_key ` set items \<and> answered tr k ''ok_exhausted'')"
| "request_valid tr (Validate_request items) \<longleftrightarrow> length items \<le> CHUNK_SIZE"

definition page_ok :: "import_event list \<Rightarrow> import_page \<Rightarrow> bool" where
  "page_ok tr st \<longleftrightarrow> pred_option (state_ok tr) (pg_keysValidation st) \<and> pred_option (state_ok tr) (pg_rendered st) \<and>
     list_all (task_valid tr) (pg_tasks st) \<and> list_all (request_valid tr) (pg_sent st)"

lemma answered_mono: "answered tr k s \<Longrightarrow> answered (tr @ [ev]) k s"
  by (auto simp: answered_def)

lemma usable_mono: "usable tr k \<Longrightarrow> usable (tr @ [ev]) k"
  by (auto simp: usable_def answered_mono)

lemma state_ok_mono: "state_ok tr s \<Longrightarrow> state_ok (tr @ [ev]) s"
  by (auto simp: state_ok_def row_ok_def list_all_iff answered_mono)

lemma task_valid_mono: "task_valid tr t \<Longrightarrow> task_valid (tr @ [ev]) t"
  by (cases t) (auto simp: usable_mono answered_mono)

lemma request_valid_mono: "request_valid tr r \<Longrightarrow> request_valid (tr @ [ev]) r"
  by (cases r) (auto simp: usable_mono answered_mono)

lemma page_ok_mono: "page_ok tr st \<Longrightarrow> page_ok (tr @ [ev]) st"
  unfolding page_ok_def
  by (auto simp: list_all_iff pred_option_def state_ok_mono task_valid_mono request_valid_mono)

section \<open>Operations keep the invariant\<close>

lemma update_kv_ok:
  assumes "page_ok tr st" "\<And>s. state_ok tr s \<Longrightarrow> state_ok tr (f s)"
  shows "page_ok tr (updateKeysValidation f runId st)"
  using assms by (auto simp: updateKeysValidation_def page_ok_def split: option.split)

lemma update_kv_frame [simp]:
  "pg_tasks (updateKeysValidation f r st) = pg_tasks st" "pg_sent (updateKeysValidation f r st) = pg_sent st"
  "pg_runId (updateKeysValidation f r st) = pg_runId st" "pg_rendered (updateKeysValidation f r st) = pg_rendered st"
  "pg_abort (updateKeysValidation f r st) = pg_abort st" "pg_fresh (updateKeysValidation f r st) = pg_fresh st"
  by (simp_all add: updateKeysValidation_def split: option.split)

lemma page_ok_simps [simp]:
  "page_ok tr (st\<lparr>pg_newKeysText := a\<rparr>) = page_ok tr st" "page_ok tr (st\<lparr>pg_newKeysGroup := b\<rparr>) = page_ok tr st"
  "page_ok tr (st\<lparr>pg_runId := n\<rparr>) = page_ok tr st" "page_ok tr (st\<lparr>pg_abort := c\<rparr>) = page_ok tr st"
  "page_ok tr (st\<lparr>pg_aborted := d\<rparr>) = page_ok tr st" "page_ok tr (st\<lparr>pg_fresh := m\<rparr>) = page_ok tr st"
  "page_ok tr (st\<lparr>pg_frames := k\<rparr>) = page_ok tr st"
  by (simp_all add: page_ok_def)

lemma take_task_ok: "page_ok tr st \<Longrightarrow> page_ok tr (take_task i st)"
  by (auto simp: page_ok_def take_task_def list_all_iff dest: in_set_takeD in_set_dropD)

lemma results_by_key_sound:
  "map_of (results_by_key results) k = Some r \<Longrightarrow> r \<in> set results \<and> vkr_api_key r = k"
proof -
  have "map_of (foldl keep_result m results) k = Some r \<Longrightarrow> map_of m k = Some r \<or> r \<in> set results \<and> vkr_api_key r = k" for m
    by (induction results arbitrary: m) (force simp: keep_result_def Let_def split: if_splits)+
  then show "map_of (results_by_key results) k = Some r \<Longrightarrow> r \<in> set results \<and> vkr_api_key r = k"
    unfolding results_by_key_def by fastforce
qed

lemma coerce_ok: "coerceValidationStatus raw = KV_ok \<longleftrightarrow> js_lower raw = ''ok''"
  "coerceValidationStatus raw = KV_ok_exhausted \<longleftrightarrow> js_lower raw = ''ok_exhausted''"
  by (auto simp: coerceValidationStatus_def Let_def)

lemma apply_result_key [simp]: "vr_api_key (apply_result m row) = vr_api_key row"
  by (simp add: apply_result_def Let_def split: option.split)

lemma apply_result_ok:
  assumes "row_ok tr row" "\<forall>r \<in> set results. js_lower (vkr_status r) \<in> {''ok'', ''ok_exhausted''} \<longrightarrow> answered tr (vkr_api_key r) (js_lower (vkr_status r))"
  shows "row_ok tr (apply_result (results_by_key results) row)"
proof (cases "map_of (results_by_key results) (vr_api_key row)")
  case None
  then show ?thesis using assms(1) by (simp add: apply_result_def Let_def)
next
  case (Some r)
  from results_by_key_sound [OF this] assms show ?thesis
    using Some by (auto simp: apply_result_def Let_def row_ok_def coerce_ok)
qed

lemma apply_results_ok:
  assumes "page_ok tr st" "\<forall>r \<in> set results. js_lower (vkr_status r) \<in> {''ok'', ''ok_exhausted''} \<longrightarrow> answered tr (vkr_api_key r) (js_lower (vkr_status r))"
  shows "page_ok tr (applyValidationResults results runId st)"
  unfolding applyValidationResults_def
  by (rule update_kv_ok [OF assms(1)]) (use apply_result_ok [OF _ assms(2)] in \<open>auto simp: state_ok_def list_all_iff\<close>)

lemma validate_next_ok: "page_ok tr st \<Longrightarrow> page_ok tr (validate_next items runId controller st)"
  using update_kv_ok [of tr st "\<lambda>prev. prev\<lparr>vs_checking := False\<rparr>" runId]
  by (auto simp: validate_next_def Let_def state_ok_def page_ok_def)

lemma runValidateKeys_ok: "page_ok tr st \<Longrightarrow> page_ok tr (runValidateKeys items runId st)"
  by (auto simp: runValidateKeys_def Let_def intro!: validate_next_ok)

lemma add_entries_ok: "list_all (row_ok tr) (as_rows (add_entries entries))"
proof -
  have "list_all (row_ok tr) (as_rows a) \<Longrightarrow> list_all (row_ok tr) (as_rows (foldl add_entry a entries))" for a
    by (induction entries arbitrary: a) (auto simp: add_entry_def Let_def row_ok_def new_row_def)
  then show ?thesis by (simp add: add_entries_def)
qed

lemma handleAddKey_ok: "page_ok tr st \<Longrightarrow> page_ok tr (handleAddKey st)"
  unfolding handleAddKey_def Let_def
  by (auto intro!: runValidateKeys_ok) (auto simp: page_ok_def state_ok_def add_entries_ok)

lemma begin_retry_ok: "page_ok tr st \<Longrightarrow> page_ok tr (begin_retry s ks st)"
  unfolding begin_retry_def Let_def markKeysPendingForRetry_def
  by (intro runValidateKeys_ok update_kv_ok)
    (auto simp: page_ok_def state_ok_def row_ok_def mark_pending_def list_all_iff pred_option_def)

lemma retries_ok:
  "page_ok tr st \<Longrightarrow> page_ok tr (handleRetryFailedValidation st)" "page_ok tr st \<Longrightarrow> page_ok tr (handleRetryOneValidation k st)"
  by (auto simp: handleRetryFailedValidation_def handleRetryOneValidation_def Let_def begin_retry_ok split: option.split)

lemma visible_rows_sub: "set (keysValidationVisibleRows (Some s)) \<subseteq> set (vs_rows s)"
  by (auto simp: keysValidationVisibleRows_def Let_def split: if_splits)

lemma valid_keys_usable:
  assumes "state_ok tr s"
  shows "\<forall>k \<in> set (keysValidationValidKeys (Some s)). usable tr k"
    and "\<forall>k \<in> set (keysValidationExhaustedKeys (Some s)). answered tr k ''ok_exhausted''"
  using assms visible_rows_sub [of s]
  by (auto simp: keysValidationValidKeys_def keysValidationExhaustedKeys_def state_ok_def row_ok_def list_all_iff usable_def)

lemma import_finish_ok: "page_ok tr st \<Longrightarrow> page_ok tr (import_finish warning run st)"
proof -
  assume st: "page_ok tr st"
  have "page_ok tr (updateKeysValidation (\<lambda>prev. prev\<lparr>vs_importing := False, vs_imported_api_keys := ks, vs_importReport := r, vs_importWarning := w\<rparr>) n st)" for ks r w n
    by (rule update_kv_ok [OF st]) (simp add: state_ok_def)
  then show ?thesis by (simp add: import_finish_def Let_def) (simp add: page_ok_def)
qed

lemma import_next_ok:
  assumes "page_ok tr st" "task_valid tr (Import_task run)"
  shows "page_ok tr (import_next warning run st)"
proof (cases "length (ir_rest run) > 0")
  case True
  have items: "aakbi_api_key \<circ> import_item (ir_captured run) = (\<lambda>k. k)" by (auto simp: import_item_def)
  have "request_valid tr (Import_request (map (import_item (ir_captured run)) (take API_KEYS_IMPORT_CHUNK_SIZE (ir_rest run))) (ir_group run)
      (filter (\<lambda>k. k \<in> set (ir_exhausted run)) (take API_KEYS_IMPORT_CHUNK_SIZE (ir_rest run))))"
    using assms(2) by (auto simp: items image_image import_item_def dest: in_set_takeD)
  then show ?thesis using True assms by (auto simp: import_next_def Let_def page_ok_def dest: in_set_dropD)
qed (simp add: import_next_def import_finish_ok [OF assms(1)])

lemma import_failed_ok: "page_ok tr st \<Longrightarrow> page_ok tr (import_failed n err st)"
  unfolding import_failed_def by (rule update_kv_ok) (simp_all add: state_ok_def)

lemma handleImport_ok:
  assumes "page_ok tr st"
  shows "page_ok tr (handleImportValidatedKeys warning st)"
proof (cases "pg_rendered st")
  case (Some s)
  then have s: "state_ok tr s" using assms by (simp add: page_ok_def)
  have upd: "page_ok tr (updateKeysValidation (\<lambda>prev. prev\<lparr>vs_importing := True, vs_importError := None, vs_importWarning := None,
      vs_importReport := None\<rparr>) (pg_runId st) st)"
    by (rule update_kv_ok [OF assms]) (simp add: state_ok_def)
  have "distinct (keysValidationValidKeys (Some s))" by (simp add: keysValidationValidKeys_def)
  with valid_keys_usable [OF s] Some assms upd show ?thesis
    by (auto simp: handleImportValidatedKeys_def Let_def intro!: import_next_ok)
qed (use assms in \<open>simp add: handleImportValidatedKeys_def\<close>)

lemma import_answered_ok:
  assumes "page_ok tr st" "task_valid tr (Import_task run)"
  shows "page_ok tr (import_answered warning run answer st)"
  using assms by (auto simp: import_answered_def import_failed_ok intro!: import_next_ok split: sum.split)

lemma validate_answered_ok:
  assumes "page_ok tr st" "Validate_answered i answer \<in> set tr"
  shows "page_ok tr (validate_answered chunk rest runId controller answer st)"
proof (cases answer)
  case (Inr resp)
  then have "\<forall>r \<in> set (vkr2_results resp). answered tr (vkr_api_key r) (js_lower (vkr_status r))"
    using assms(2) by (auto simp: answered_def)
  with Inr assms(1) show ?thesis by (auto simp: validate_answered_def intro!: validate_next_ok apply_results_ok)
next
  case (Inl err)
  then show ?thesis using assms(1)
    by (auto simp: validate_answered_def failed_result_def js_lower_def ascii_lower_def intro!: validate_next_ok apply_results_ok)
qed

lemma waiting_valid: "page_ok tr st \<Longrightarrow> waiting i st = Some t \<Longrightarrow> task_valid tr t"
  by (auto simp: page_ok_def waiting_def list_all_iff split: if_splits)

lemma close_ok: "page_ok tr st \<Longrightarrow> page_ok tr (closeKeysValidationDialog st)"
  by (simp add: closeKeysValidationDialog_def) (simp add: page_ok_def)

lemma import_step_ok:
  assumes "page_ok tr st"
  shows "page_ok (tr @ [ev]) (import_step warning ev st)"
proof -
  note st = page_ok_mono [OF assms, of ev]
  note ops = handleAddKey_ok [OF st] retries_ok [OF st] handleImport_ok [OF st] close_ok [OF st] take_task_ok [OF st]
  show ?thesis
  proof (cases ev)
    case Rendered
    then show ?thesis using st by (simp add: import_step_def page_ok_def)
  next
    case Frame
    then show ?thesis using close_ok [of "tr @ [ev]" "st\<lparr>pg_frames := pg_frames st - 1\<rparr>"] st by (simp add: import_step_def)
  next
    case (Validate_answered i answer)
    then show ?thesis
      using st validate_answered_ok [OF ops(6), of i answer] by (auto simp: import_step_def split: option.split import_task.split)
  next
    case (Import_answered i answer)
    then show ?thesis
      using st waiting_valid [OF st, of i] import_answered_ok [OF ops(6)] by (auto simp: import_step_def split: option.split import_task.split)
  next
    case (Refresh_answered i answer)
    then show ?thesis
      using st import_failed_ok [OF ops(6)] ops(6) by (auto simp: import_step_def split: option.split import_task.split)
  qed (use st ops in \<open>simp_all add: import_step_def\<close>)
qed

lemma import_reach_ok: "import_reach warning st tr \<Longrightarrow> page_ok tr st"
proof (induction rule: import_reach.induct)
  case start
  show ?case by (simp add: page_ok_def initial_page_def)
next
  case (step st tr ev)
  then show ?case by (simp add: import_step_ok)
qed

text \<open>C13: Every request of the import, in every order of clicks, renders, answers, frames and closing: an import
  request holds at most 1000 keys, each once, each of which the server answered to be usable (or exhausted but
  valid) in a validation before, and marks as exhausted only keys of the request that the server answered to be
  exhausted; a validation request holds at most 25 keys.\<close>

theorem imported_keys_validated:
  assumes "import_reach warning st tr" "req \<in> set (pg_sent st)"
  shows "case req of
      Import_request items grp exhausted \<Rightarrow>
        length items \<le> 1000 \<and> distinct (map aakbi_api_key items) \<and>
        (\<forall>item \<in> set items. answered tr (aakbi_api_key item) ''ok'' \<or> answered tr (aakbi_api_key item) ''ok_exhausted'') \<and>
        (\<forall>k \<in> set exhausted. k \<in> aakbi_api_key ` set items \<and> answered tr k ''ok_exhausted'')
    | Validate_request items \<Rightarrow> length items \<le> 25"
proof -
  have "request_valid tr req" using import_reach_ok [OF assms(1)] assms(2) by (auto simp: page_ok_def list_all_iff)
  then show ?thesis by (cases req) (simp_all add: usable_def)
qed

text \<open>A run as a list of events, each of which can happen.\<close>

fun run_enabled :: "string \<Rightarrow> import_page \<Rightarrow> import_event list \<Rightarrow> bool" where
  "run_enabled warning st [] \<longleftrightarrow> True"
| "run_enabled warning st (ev # evs) \<longleftrightarrow> import_enabled st ev \<and> run_enabled warning (import_step warning ev st) evs"

definition import_events :: "string \<Rightarrow> import_page \<Rightarrow> import_event list \<Rightarrow> import_page" where
  "import_events warning st evs = foldl (\<lambda>st ev. import_step warning ev st) st evs"

lemma import_reach_events:
  "import_reach warning st tr \<Longrightarrow> run_enabled warning st evs \<Longrightarrow> import_reach warning (import_events warning st evs) (tr @ evs)"
proof (induction evs arbitrary: st tr)
  case (Cons ev evs)
  then have "import_reach warning (import_step warning ev st) (tr @ [ev])" by (auto intro: import_reach.step)
  from Cons.IH [OF this] Cons.prems show ?case by (simp add: import_events_def)
qed (simp add: import_events_def)

definition ok_answer :: "string \<Rightarrow> ValidateKeysResponse" where
  "ok_answer k = \<lparr>vkr2_summary = \<lparr>vks_input_lines = 1, vks_valid_lines = 1, vks_unique_in_input = 1, vks_duplicate_in_input = 0,
       vks_ok = 1, vks_exhausted = 0, vks_invalid = 0, vks_error = 0\<rparr>,
     vkr2_results = [\<lparr>vkr_api_key = k, vkr_status = ''ok'', vkr_registration_ip = None, vkr_registration_region = None,
       vkr_assigned_proxy_key = None, vkr_assigned_proxy_label = None, vkr_assigned_proxy_match_kind = None, vkr_quota_limit = None,
       vkr_quota_remaining = None, vkr_detail = None\<rparr>]\<rparr>"

definition simple_import :: "import_event list" where
  "simple_import = [Typed ''tvly-dev-a'' [], Add_clicked, Validate_answered 0 (Inr (ok_answer ''tvly-dev-a'')), Rendered, Import_clicked]"

lemma simple_import_enabled: "run_enabled [] initial_page simple_import"
  by code_simp

lemma simple_import_sent:
  "pg_sent (import_events [] initial_page simple_import) =
     [Validate_request [\<lparr>vki_api_key = ''tvly-dev-a'', vki_registration_ip = Some None\<rparr>],
      Import_request [\<lparr>aakbi_api_key = ''tvly-dev-a'', aakbi_registration_ip = None, aakbi_assigned_proxy_key = None\<rparr>] None []]"
  by code_simp

theorem imported_keys_validated_witness:
  "Import_request [\<lparr>aakbi_api_key = ''tvly-dev-a'', aakbi_registration_ip = None, aakbi_assigned_proxy_key = None\<rparr>] None []
     \<in> set (pg_sent (import_events [] initial_page simple_import)) \<and>
   (answered simple_import ''tvly-dev-a'' ''ok'' \<or> answered simple_import ''tvly-dev-a'' ''ok_exhausted'')"
  using imported_keys_validated [OF import_reach_events [OF import_reach.start simple_import_enabled],
      of "Import_request [\<lparr>aakbi_api_key = ''tvly-dev-a'', aakbi_registration_ip = None, aakbi_assigned_proxy_key = None\<rparr>] None []"]
  by (simp add: simple_import_sent)

end
