(* ===== verification/Key_Import_Runs.thy ===== *)
theory Key_Import_Runs
  imports Key_Import_Safe
begin

text \<open>
  What a validation and an import of keys come to when nothing else happens: every validation ends after one answer
  for each chunk, whatever the answers, and an import reports the sum of the answers to its chunks.
\<close>

section \<open>A validation run\<close>

definition answer_results :: "ValidateKeyInput list \<Rightarrow> js_error + ValidateKeysResponse \<Rightarrow> ValidateKeyResult list" where
  "answer_results chunk answer = (case answer of Inr resp \<Rightarrow> vkr2_results resp | Inl err \<Rightarrow> map (failed_result (er_message err)) chunk)"

fun rows_after :: "ValidateKeyInput list \<Rightarrow> (js_error + ValidateKeysResponse) list \<Rightarrow> KeyValidationRow list \<Rightarrow> KeyValidationRow list" where
  "rows_after items [] rows = rows"
| "rows_after items (a # as) rows =
     rows_after (drop CHUNK_SIZE items) as (map (apply_result (results_by_key (answer_results (take CHUNK_SIZE items) a))) rows)"

definition chunk_count :: "nat \<Rightarrow> 'a list \<Rightarrow> nat" where
  "chunk_count n xs = (length xs + (n - 1)) div n"

lemma chunk_count_0 [simp]: "0 < n \<Longrightarrow> chunk_count n xs = 0 \<longleftrightarrow> xs = []"
  by (cases xs) (auto simp: chunk_count_def div_eq_0_iff)

lemma chunk_count_Nil [simp]: "0 < n \<Longrightarrow> chunk_count n [] = 0"
  by simp

lemma chunk_count_drop: "0 < n \<Longrightarrow> xs \<noteq> [] \<Longrightarrow> chunk_count n xs = Suc (chunk_count n (drop n xs))"
proof -
  assume n: "0 < n" and xs: "xs \<noteq> []"
  show ?thesis
  proof (cases "n \<le> length xs")
    case True
    define m where "m = length (drop n xs) + (n - 1)"
    from True have "length xs + (n - 1) = n + m" by (simp add: m_def)
    moreover have "(n + m) div n = Suc (m div n)" using n by simp
    ultimately show ?thesis by (simp only: m_def chunk_count_def)
  next
    case False
    then obtain k where "length xs = Suc k" "Suc k < n" using xs by (cases xs) auto
    then show ?thesis using False by (simp add: chunk_count_def div_if)
  qed
qed

lemma validate_answered_results:
  "validate_answered chunk rest runId c a st =
     validate_next rest runId c (applyValidationResults (answer_results chunk a) runId st)"
  by (simp add: validate_answered_def answer_results_def split: sum.split)

lemma validate_run:
  assumes "pg_tasks st = []" "pg_keysValidation st = Some s" "pg_abort st = Some c" "pg_runId st = runId"
    "length as = chunk_count CHUNK_SIZE items"
  shows "\<exists>st'. import_events w (validate_next items runId c st) (map (Validate_answered 0) as) = st' \<and> pg_tasks st' = [] \<and>
    pg_keysValidation st' = Some (s\<lparr>vs_rows := rows_after items as (vs_rows s), vs_checking := False\<rparr>) \<and>
    pg_abort st' = None \<and> pg_runId st' = runId"
  using assms
proof (induction as arbitrary: items st s)
  case Nil
  then have "items = []" by simp
  then show ?case using Nil by (simp add: import_events_def validate_next_def Let_def updateKeysValidation_def)
next
  case (Cons a as)
  then have ne: "items \<noteq> []" by auto
  have len: "length as = chunk_count CHUNK_SIZE (drop CHUNK_SIZE items)"
    using Cons.prems(5) chunk_count_drop [of CHUNK_SIZE items] ne by simp
  define st1 where "st1 = take_task 0 (validate_next items runId c st)"
  define s1 where "s1 = s\<lparr>vs_rows := map (apply_result (results_by_key (answer_results (take CHUNK_SIZE items) a))) (vs_rows s)\<rparr>"
  define st2 where "st2 = applyValidationResults (answer_results (take CHUNK_SIZE items) a) runId st1"
  have "waiting 0 (validate_next items runId c st) = Some (Validate_task (take CHUNK_SIZE items) (drop CHUNK_SIZE items) runId c)"
    using ne Cons.prems(1) by (simp add: validate_next_def waiting_def)
  then have step: "import_step w (Validate_answered 0 a) (validate_next items runId c st) = validate_next (drop CHUNK_SIZE items) runId c st2"
    by (simp add: import_step_def validate_answered_results st1_def st2_def)
  have st1: "pg_tasks st1 = []" "pg_keysValidation st1 = Some s" "pg_abort st1 = Some c" "pg_runId st1 = runId"
    using ne Cons.prems by (simp_all add: st1_def validate_next_def take_task_def)
  then have "pg_tasks st2 = []" "pg_keysValidation st2 = Some s1" "pg_abort st2 = Some c" "pg_runId st2 = runId"
    by (simp_all add: st2_def s1_def applyValidationResults_def) (simp add: updateKeysValidation_def)
  from Cons.IH [OF this len] show ?case by (simp add: import_events_def step s1_def)
qed

section \<open>No row is left pending\<close>

text \<open>Every answer fails, or gives a result other than pending for each key of its chunk.\<close>

fun answers_cover :: "ValidateKeyInput list \<Rightarrow> (js_error + ValidateKeysResponse) list \<Rightarrow> bool" where
  "answers_cover items [] \<longleftrightarrow> True"
| "answers_cover items (a # as) \<longleftrightarrow>
     (case a of Inl _ \<Rightarrow> True
      | Inr resp \<Rightarrow> list_all (\<lambda>r. coerceValidationStatus (vkr_status r) \<noteq> KV_pending) (vkr2_results resp) \<and>
          list_all (\<lambda>item. vki_api_key item \<in> vkr_api_key ` set (vkr2_results resp)) (take CHUNK_SIZE items)) \<and>
     answers_cover (drop CHUNK_SIZE items) as"

lemma results_by_key_complete: "k \<in> vkr_api_key ` set results \<Longrightarrow> map_of (results_by_key results) k \<noteq> None"
proof -
  have keep: "map_of m k \<noteq> None \<Longrightarrow> map_of (foldl keep_result m results) k \<noteq> None" for m results
    by (induction results arbitrary: m) (auto simp: keep_result_def Let_def)
  have "k \<in> vkr_api_key ` set results \<Longrightarrow> map_of (foldl keep_result m results) k \<noteq> None" for m
  proof (induction results arbitrary: m)
    case (Cons r rs)
    show ?case
    proof (cases "vkr_api_key r = k")
      case True
      then have "map_of (keep_result m r) k \<noteq> None" by (auto simp: keep_result_def Let_def)
      then show ?thesis using keep by simp
    qed (use Cons in auto)
  qed simp
  then show "k \<in> vkr_api_key ` set results \<Longrightarrow> map_of (results_by_key results) k \<noteq> None" by (simp add: results_by_key_def)
qed

lemma covered_results:
  assumes "answers_cover items (a # as)" "k \<in> vki_api_key ` set (take CHUNK_SIZE items)"
  shows "map_of (results_by_key (answer_results (take CHUNK_SIZE items) a)) k \<noteq> None"
proof (rule results_by_key_complete)
  show "k \<in> vkr_api_key ` set (answer_results (take CHUNK_SIZE items) a)"
    using assms by (cases a) (auto simp: answer_results_def failed_result_def image_image list_all_iff)
qed

lemma results_settled:
  assumes "answers_cover items (a # as)" "r \<in> set (answer_results (take CHUNK_SIZE items) a)"
  shows "coerceValidationStatus (vkr_status r) \<noteq> KV_pending"
  using assms by (cases a) (auto simp: answer_results_def failed_result_def list_all_iff coerceValidationStatus_def js_lower_def ascii_lower_def)

lemma apply_result_pending:
  assumes "answers_cover items (a # as)" "vr_status row = KV_pending \<Longrightarrow> vr_api_key row \<in> vki_api_key ` set items"
    "vr_status (apply_result (results_by_key (answer_results (take CHUNK_SIZE items) a)) row) = KV_pending"
  shows "vr_api_key row \<in> vki_api_key ` set (drop CHUNK_SIZE items)"
proof -
  let ?m = "results_by_key (answer_results (take CHUNK_SIZE items) a)"
  have none: "map_of ?m (vr_api_key row) = None"
  proof (rule ccontr)
    assume "\<not> ?thesis"
    then obtain r where r: "map_of ?m (vr_api_key row) = Some r" by auto
    with results_settled [OF assms(1)] results_by_key_sound [OF r] have "coerceValidationStatus (vkr_status r) \<noteq> KV_pending" by blast
    then show False using assms(3) r by (auto simp: apply_result_def Let_def split: if_splits)
  qed
  then have "vr_status row = KV_pending" using assms(3) by (auto simp: apply_result_def Let_def split: if_splits)
  with assms(2) have "vr_api_key row \<in> vki_api_key ` set items" by blast
  moreover have "vr_api_key row \<notin> vki_api_key ` set (take CHUNK_SIZE items)" using covered_results [OF assms(1)] none by blast
  moreover have "set items = set (take CHUNK_SIZE items) \<union> set (drop CHUNK_SIZE items)" by (metis append_take_drop_id set_append)
  ultimately show ?thesis by auto
qed

lemma rows_after_settled:
  assumes "answers_cover items as" "length as = chunk_count CHUNK_SIZE items"
    "\<forall>row \<in> set rows. vr_status row = KV_pending \<longrightarrow> vr_api_key row \<in> vki_api_key ` set items"
  shows "\<forall>row \<in> set (rows_after items as rows). vr_status row \<noteq> KV_pending"
  using assms
proof (induction as arbitrary: items rows)
  case Nil
  then have "items = []" by simp
  then show ?case using Nil by auto
next
  case (Cons a as)
  then have len: "length as = chunk_count CHUNK_SIZE (drop CHUNK_SIZE items)"
    using chunk_count_drop [of CHUNK_SIZE items] by (cases items) auto
  show ?case
    unfolding rows_after.simps
    by (rule Cons.IH [OF _ len]) (use Cons.prems(1,3) apply_result_pending [OF Cons.prems(1)] in \<open>auto\<close>)
qed

lemma rows_after_keys: "map vr_api_key (rows_after items as rows) = map vr_api_key rows"
  by (induction items as rows rule: rows_after.induct) (simp_all add: comp_def)

lemma add_entries_rows:
  "map vr_api_key (as_rows (add_entries entries)) = map ie_api_key entries \<and>
   (\<forall>row \<in> set (as_rows (add_entries entries)). vr_status row = KV_pending \<longrightarrow> vr_api_key row \<in> vki_api_key ` set (as_uniqueEntries (add_entries entries)))"
proof -
  define ok :: "add_state \<Rightarrow> ApiKeyImportEntry list \<Rightarrow> bool" where "ok = (\<lambda>a entries. map vr_api_key (as_rows a) = map ie_api_key entries \<and>
    (\<forall>row \<in> set (as_rows a). vr_status row = KV_pending \<longrightarrow> vr_api_key row \<in> vki_api_key ` set (as_uniqueEntries a)))"
  have "ok a pre \<Longrightarrow> ok (foldl add_entry a entries) (pre @ entries)" for a pre
  proof (induction entries arbitrary: a pre)
    case (Cons e es)
    have "ok (add_entry a e) (pre @ [e])" using Cons.prems by (auto simp: ok_def add_entry_def Let_def new_row_def)
    from Cons.IH [OF this] show ?case by simp
  qed simp
  from this [of _ "[]"] show ?thesis by (simp add: add_entries_def ok_def)
qed

text \<open>C14: The validation of a pasted text ends after exactly one answer for each chunk of 25 keys, whatever the
  answers: the dialog leaves the checking state, nothing waits any more, there is one row for each key found in the
  text, in its order, and no row is pending when each answer is an error or has a result for every key it was asked
  about.\<close>

theorem validation_settles:
  fixes st entries items answers st'
  assumes "pg_tasks st = []" "entries = extractApiKeyImportEntriesFromText (pg_newKeysText st)" "entries \<noteq> []"
    and "items = as_uniqueEntries (add_entries entries)" "length answers = chunk_count 25 items"
    and "st' = import_events w (import_step w Add_clicked st) (map (Validate_answered 0) answers)"
  shows "\<exists>s. pg_keysValidation st' = Some s \<and> \<not> vs_checking s \<and> pg_tasks st' = [] \<and> map vr_api_key (vs_rows s) = map ie_api_key entries \<and>
    (if answers_cover items answers then \<forall>row \<in> set (vs_rows s). vr_status row \<noteq> KV_pending else True)"
proof -
  define st0 where "st0 = import_step w Add_clicked st"
  obtain st1 s where st1: "st0 = validate_next items (pg_runId st + 1) (pg_fresh st) st1" "pg_tasks st1 = []" "pg_keysValidation st1 = Some s"
      "pg_abort st1 = Some (pg_fresh st)" "pg_runId st1 = pg_runId st + 1" "vs_rows s = as_rows (add_entries entries)"
    using assms(1,2,3,4) by (auto simp: st0_def import_step_def handleAddKey_def Let_def runValidateKeys_def)
  from validate_run [OF st1(2-5) assms(5)] have end': "pg_tasks st' = []"
      "pg_keysValidation st' = Some (s\<lparr>vs_rows := rows_after items answers (vs_rows s), vs_checking := False\<rparr>)"
    unfolding assms(6) st0_def [symmetric] st1(1) by auto
  have "\<forall>row \<in> set (rows_after items answers (vs_rows s)). vr_status row \<noteq> KV_pending" if "answers_cover items answers"
    by (rule rows_after_settled [OF that assms(5)]) (use add_entries_rows [of entries] in \<open>simp add: st1(6) assms(4)\<close>)
  with end' show ?thesis using add_entries_rows [of entries] by (simp add: rows_after_keys st1(6))
qed

lemma one_key_entries:
  "extractApiKeyImportEntriesFromText ''tvly-dev-a'' = [\<lparr>ie_api_key = ''tvly-dev-a'', ie_registration_ip = None\<rparr>]"
  by code_simp

theorem validation_settles_witness:
  "\<exists>s. pg_keysValidation (import_events [] (import_step [] Add_clicked (initial_page\<lparr>pg_newKeysText := ''tvly-dev-a''\<rparr>))
        (map (Validate_answered 0) [Inr (ok_answer ''tvly-dev-a'')])) = Some s \<and>
     \<not> vs_checking s \<and> map vr_api_key (vs_rows s) = [''tvly-dev-a''] \<and> (\<forall>row \<in> set (vs_rows s). vr_status row \<noteq> KV_pending)"
proof -
  let ?st = "initial_page\<lparr>pg_newKeysText := ''tvly-dev-a''\<rparr>"
  define items where "items = as_uniqueEntries (add_entries (extractApiKeyImportEntriesFromText (pg_newKeysText ?st)))"
  have items: "items = [\<lparr>vki_api_key = ''tvly-dev-a'', vki_registration_ip = Some None\<rparr>]"
    by (simp add: items_def one_key_entries add_entries_def add_entry_def Let_def)
  then have cover: "answers_cover items [Inr (ok_answer ''tvly-dev-a'')]"
    by (simp add: ok_answer_def coerceValidationStatus_def js_lower_def ascii_lower_def)
  have prems: "pg_tasks ?st = []" "extractApiKeyImportEntriesFromText (pg_newKeysText ?st) \<noteq> []"
      "length [Inr (ok_answer ''tvly-dev-a'')] = chunk_count 25 items"
    by (simp_all add: initial_page_def items one_key_entries chunk_count_def)
  obtain s where "pg_keysValidation (import_events [] (import_step [] Add_clicked ?st) (map (Validate_answered 0) [Inr (ok_answer ''tvly-dev-a'')])) = Some s"
      "\<not> vs_checking s" "map vr_api_key (vs_rows s) = map ie_api_key (extractApiKeyImportEntriesFromText (pg_newKeysText ?st))"
      "\<forall>row \<in> set (vs_rows s). vr_status row \<noteq> KV_pending"
    using validation_settles [OF prems(1) refl prems(2) items_def prems(3) refl] unfolding if_P [OF cover] by blast
  then show ?thesis by (intro exI [of _ s]) (simp add: one_key_entries)
qed

section \<open>An import run\<close>

definition imported_state :: "string \<Rightarrow> KeysValidationState \<Rightarrow> AddApiKeysBatchResponse list \<Rightarrow> KeysValidationState" where
  "imported_state w s rs =
     (let report = foldl add_response empty_response rs;
          bad = sum_list (map (\<lambda>r. unmarked (keysValidationExhaustedKeys (Some s)) (aakbr2_results r)) rs)
      in s\<lparr>vs_importing := False, vs_importError := None, vs_importReport := Some report,
          vs_imported_api_keys := foldl (\<lambda>ks k. js_set_add k ks) (js_set_of (vs_imported_api_keys s)) (importedByResponse report),
          vs_importWarning := (if bad > 0 then Some (replace_first ''{count}'' (nat_to_string bad) w) else None)\<rparr>)"

lemma unmarked_set: "set xs = set ys \<Longrightarrow> unmarked xs = unmarked ys"
  by (simp add: unmarked_def fun_eq_iff)

text \<open>The answers to the chunks of a run, one after the other: the run ends after the last chunk, or fails at the
  first error.\<close>

lemma import_run_answers:
  assumes "pg_tasks st = []" "length rs \<le> chunk_count API_KEYS_IMPORT_CHUNK_SIZE (ir_rest run)"
  shows "\<exists>st1 run1. import_events w (import_next w run st) (map (\<lambda>r. Import_answered 0 (Inr r)) rs) = import_next w run1 st1 \<and>
    pg_tasks st1 = [] \<and> pg_keysValidation st1 = pg_keysValidation st \<and> pg_runId st1 = pg_runId st \<and> pg_frames st1 = pg_frames st \<and>
    ir_captured run1 = ir_captured run \<and> ir_runId run1 = ir_runId run \<and> ir_exhausted run1 = ir_exhausted run \<and>
    chunk_count API_KEYS_IMPORT_CHUNK_SIZE (ir_rest run1) = chunk_count API_KEYS_IMPORT_CHUNK_SIZE (ir_rest run) - length rs \<and>
    ir_response run1 = foldl add_response (ir_response run) rs \<and>
    ir_markFailed run1 = ir_markFailed run + sum_list (map (\<lambda>r. unmarked (ir_exhausted run) (aakbr2_results r)) rs)"
  using assms
proof (induction rs arbitrary: st run)
  case Nil
  then show ?case by (auto simp: import_events_def)
next
  case (Cons r rs)
  then have ne: "ir_rest run \<noteq> []" by auto
  define run0 where "run0 = run\<lparr>ir_chunk := take API_KEYS_IMPORT_CHUNK_SIZE (ir_rest run), ir_rest := drop API_KEYS_IMPORT_CHUNK_SIZE (ir_rest run)\<rparr>"
  define run1 where "run1 = run0\<lparr>ir_response := add_response (ir_response run0) r, ir_markFailed := ir_markFailed run0 + unmarked (ir_exhausted run0) (aakbr2_results r)\<rparr>"
  define st1 where "st1 = take_task 0 (import_next w run st)"
  have "waiting 0 (import_next w run st) = Some (Import_task run0)"
    using ne Cons.prems(1) by (simp add: import_next_def Let_def waiting_def run0_def)
  then have step: "import_step w (Import_answered 0 (Inr r)) (import_next w run st) = import_next w run1 st1"
    by (simp add: import_step_def import_answered_def st1_def run1_def)
  have st1: "pg_tasks st1 = []" "pg_keysValidation st1 = pg_keysValidation st" "pg_runId st1 = pg_runId st" "pg_frames st1 = pg_frames st"
    using ne Cons.prems(1) by (simp_all add: st1_def import_next_def Let_def take_task_def)
  have cnt: "chunk_count API_KEYS_IMPORT_CHUNK_SIZE (ir_rest run) = Suc (chunk_count API_KEYS_IMPORT_CHUNK_SIZE (ir_rest run1))"
    using chunk_count_drop [of API_KEYS_IMPORT_CHUNK_SIZE "ir_rest run"] ne by (simp add: run1_def run0_def)
  with Cons.prems(2) have "length rs \<le> chunk_count API_KEYS_IMPORT_CHUNK_SIZE (ir_rest run1)" by simp
  from Cons.IH [OF st1(1) this] obtain st2 run2 where
    IH: "import_events w (import_next w run1 st1) (map (\<lambda>r. Import_answered 0 (Inr r)) rs) = import_next w run2 st2"
      "pg_tasks st2 = []" "pg_keysValidation st2 = pg_keysValidation st1" "pg_runId st2 = pg_runId st1" "pg_frames st2 = pg_frames st1"
      "ir_captured run2 = ir_captured run1" "ir_runId run2 = ir_runId run1" "ir_exhausted run2 = ir_exhausted run1"
      "chunk_count API_KEYS_IMPORT_CHUNK_SIZE (ir_rest run2) = chunk_count API_KEYS_IMPORT_CHUNK_SIZE (ir_rest run1) - length rs"
      "ir_response run2 = foldl add_response (ir_response run1) rs"
      "ir_markFailed run2 = ir_markFailed run1 + sum_list (map (\<lambda>r. unmarked (ir_exhausted run1) (aakbr2_results r)) rs)"
    by blast
  have "ir_captured run1 = ir_captured run" "ir_runId run1 = ir_runId run" "ir_exhausted run1 = ir_exhausted run"
    "ir_response run1 = add_response (ir_response run) r" "ir_markFailed run1 = ir_markFailed run + unmarked (ir_exhausted run) (aakbr2_results r)"
    by (simp_all add: run1_def run0_def)
  with IH st1 cnt step show ?case
    by (intro exI [of _ st2] exI [of _ run2]) (simp add: import_events_def)
qed

lemma import_clicked:
  assumes "pg_rendered st = Some s" "pg_keysValidation st = Some s" "\<not> vs_checking s" "\<not> vs_importing s" "keysValidationValidKeys (Some s) \<noteq> []"
  shows "\<exists>run. import_step w Import_clicked st = import_next w run (st\<lparr>pg_keysValidation := Some (s\<lparr>vs_importing := True, vs_importError := None,
        vs_importWarning := None, vs_importReport := None\<rparr>)\<rparr>) \<and>
      ir_captured run = s \<and> ir_runId run = pg_runId st \<and> set (ir_exhausted run) = set (keysValidationExhaustedKeys (Some s)) \<and>
      ir_rest run = keysValidationValidKeys (Some s) \<and> ir_response run = empty_response \<and> ir_markFailed run = 0"
  by (intro exI [of _ "\<lparr>ir_captured = s, ir_runId = pg_runId st, ir_group = (if length (js_trim (vs_group s)) > 0 then Some (js_trim (vs_group s)) else None),
        ir_exhausted = js_set_of (keysValidationExhaustedKeys (Some s)), ir_chunk = [], ir_rest = keysValidationValidKeys (Some s),
        ir_response = empty_response, ir_markFailed = 0\<rparr>"])
    (use assms in \<open>simp add: import_step_def handleImportValidatedKeys_def Let_def updateKeysValidation_def\<close>)

text \<open>C26: An import that nothing disturbs.  When every chunk of 1000 keys is answered, the dialog leaves the
  importing state with the sum of the answers as its report, the keys reported as created, restored or existing are
  added to the imported ones, and only the refresh of the lists is left to wait for; an error of that refresh is then
  shown as an error of the import, although the report is complete.  When a chunk fails, the dialog shows the error,
  and neither the report nor the imported keys of the chunks before it.\<close>

theorem import_outcome:
  fixes st s rs st'
  assumes "pg_tasks st = []" "pg_rendered st = Some s" "pg_keysValidation st = Some s" "\<not> vs_checking s" "\<not> vs_importing s"
    and "keysValidationValidKeys (Some s) \<noteq> []"
    and "st' = import_events w (import_step w Import_clicked st) (map (\<lambda>r. Import_answered 0 (Inr r)) rs)"
  shows "(length rs = chunk_count 1000 (keysValidationValidKeys (Some s)) \<longrightarrow>
      pg_keysValidation st' = Some (imported_state w s rs) \<and> pg_tasks st' = [Refresh_task (pg_runId st)] \<and>
      pg_keysValidation (import_step w (Refresh_answered 0 (Some err)) st') =
        Some ((imported_state w s rs)\<lparr>vs_importWarning := None, vs_importError := Some (er_message err)\<rparr>)) \<and>
    (length rs < chunk_count 1000 (keysValidationValidKeys (Some s)) \<longrightarrow>
      pg_keysValidation (import_step w (Import_answered 0 (Inl err)) st') =
        Some (s\<lparr>vs_importing := False, vs_importWarning := None, vs_importError := Some (er_message err), vs_importReport := None\<rparr>) \<and>
      pg_tasks (import_step w (Import_answered 0 (Inl err)) st') = [])"
proof -
  define st0 where "st0 = st\<lparr>pg_keysValidation := Some (s\<lparr>vs_importing := True, vs_importError := None, vs_importWarning := None, vs_importReport := None\<rparr>)\<rparr>"
  obtain run where run: "import_step w Import_clicked st = import_next w run st0" "ir_captured run = s" "ir_runId run = pg_runId st"
      "set (ir_exhausted run) = set (keysValidationExhaustedKeys (Some s))" "ir_rest run = keysValidationValidKeys (Some s)"
      "ir_response run = empty_response" "ir_markFailed run = 0"
    using import_clicked [OF assms(2-6), of w] unfolding st0_def by blast
  have st0: "pg_tasks st0 = []" "pg_runId st0 = pg_runId st" using assms(1) by (simp_all add: st0_def)
  note um = unmarked_set [OF run(4)]
  { assume "length rs = chunk_count 1000 (keysValidationValidKeys (Some s))"
    then have len: "length rs \<le> chunk_count API_KEYS_IMPORT_CHUNK_SIZE (ir_rest run)" and all: "chunk_count API_KEYS_IMPORT_CHUNK_SIZE (ir_rest run) - length rs = 0"
      by (simp_all add: run(5))
    from import_run_answers [OF st0(1) len, of w] all obtain st1 run1 where
      end1: "st' = import_next w run1 st1" "pg_tasks st1 = []" "pg_keysValidation st1 = pg_keysValidation st0" "pg_runId st1 = pg_runId st0"
        "ir_captured run1 = s" "ir_runId run1 = pg_runId st" "ir_rest run1 = []" "ir_response run1 = foldl add_response empty_response rs"
        "ir_markFailed run1 = sum_list (map (\<lambda>r. unmarked (keysValidationExhaustedKeys (Some s)) (aakbr2_results r)) rs)"
      unfolding assms(7) run(1) by (auto simp: run um)
    then have done': "pg_keysValidation st' = Some (imported_state w s rs)" "pg_tasks st' = [Refresh_task (pg_runId st)]" "pg_runId st' = pg_runId st"
      by (simp_all add: import_next_def import_finish_def Let_def updateKeysValidation_def st0 st0_def imported_state_def)
    then have "pg_keysValidation (import_step w (Refresh_answered 0 (Some err)) st') =
        Some ((imported_state w s rs)\<lparr>vs_importWarning := None, vs_importError := Some (er_message err)\<rparr>)"
      by (simp add: import_step_def waiting_def import_failed_def take_task_def updateKeysValidation_def imported_state_def Let_def)
    note done' (1,2) this }
  moreover
  { assume "length rs < chunk_count 1000 (keysValidationValidKeys (Some s))"
    then have len: "length rs \<le> chunk_count API_KEYS_IMPORT_CHUNK_SIZE (ir_rest run)" and more: "chunk_count API_KEYS_IMPORT_CHUNK_SIZE (ir_rest run) - length rs \<noteq> 0"
      by (simp_all add: run(5))
    from import_run_answers [OF st0(1) len, of w] more obtain st1 run1 where
      end1: "st' = import_next w run1 st1" "pg_tasks st1 = []" "pg_keysValidation st1 = pg_keysValidation st0" "pg_runId st1 = pg_runId st0"
        "ir_runId run1 = pg_runId st" "chunk_count API_KEYS_IMPORT_CHUNK_SIZE (ir_rest run1) \<noteq> 0"
      unfolding assms(7) run(1) run(3) [symmetric] by metis
    then have "pg_keysValidation (import_step w (Import_answered 0 (Inl err)) st') =
        Some (s\<lparr>vs_importing := False, vs_importWarning := None, vs_importError := Some (er_message err), vs_importReport := None\<rparr>) \<and>
      pg_tasks (import_step w (Import_answered 0 (Inl err)) st') = []"
      by (simp add: import_next_def Let_def import_step_def waiting_def import_answered_def import_failed_def take_task_def updateKeysValidation_def st0 st0_def) }
  ultimately show ?thesis by blast
qed

definition validated_state :: KeysValidationState where
  "validated_state = \<lparr>vs_group = [], vs_input_lines = 1, vs_valid_lines = 1, vs_unique_in_input = 1, vs_duplicate_in_input = 0,
     vs_checking = False, vs_importing = False,
     vs_rows = [new_row \<lparr>ie_api_key = ''tvly-dev-a'', ie_registration_ip = None\<rparr> KV_ok], vs_imported_api_keys = [],
     vs_registration_ip_by_key = [], vs_importReport = None, vs_importWarning = None, vs_importError = None\<rparr>"

definition validated_page :: import_page where
  "validated_page = initial_page\<lparr>pg_keysValidation := Some validated_state, pg_rendered := Some validated_state, pg_runId := 1\<rparr>"

definition created_answer :: "string \<Rightarrow> AddApiKeysBatchResponse" where
  "created_answer k = empty_response\<lparr>aakbr2_results := [\<lparr>aakbr_api_key = k, aakbr_status = ''created'', aakbr_id = None, aakbr_error = None,
     aakbr_marked_exhausted = None\<rparr>]\<rparr>"

lemma validated_page_ready:
  "pg_tasks validated_page = []" "pg_rendered validated_page = Some validated_state" "pg_keysValidation validated_page = Some validated_state"
  "\<not> vs_checking validated_state" "\<not> vs_importing validated_state"
  "keysValidationValidKeys (Some validated_state) = [''tvly-dev-a'']" "vs_imported_api_keys validated_state = []"
  by (simp_all add: validated_page_def validated_state_def initial_page_def keysValidationValidKeys_def keysValidationVisibleRows_def
      keysValidationImportedSet_def new_row_def js_set_of_def js_set_add_def)

theorem import_outcome_witness:
  "\<exists>s. pg_keysValidation (import_events [] (import_step [] Import_clicked validated_page) [Import_answered 0 (Inr (created_answer ''tvly-dev-a''))]) = Some s \<and>
     \<not> vs_importing s \<and> vs_imported_api_keys s = [''tvly-dev-a''] \<and> vs_importReport s \<noteq> None"
proof -
  have ne: "keysValidationValidKeys (Some validated_state) \<noteq> []" by (simp add: validated_page_ready)
  have len: "length [created_answer ''tvly-dev-a''] = chunk_count 1000 (keysValidationValidKeys (Some validated_state))"
    by (simp add: validated_page_ready chunk_count_def)
  have st: "\<not> vs_importing (imported_state [] s [created_answer k])" "vs_importReport (imported_state [] s [created_answer k]) \<noteq> None"
      "vs_imported_api_keys s = [] \<Longrightarrow> vs_imported_api_keys (imported_state [] s [created_answer k]) = [k]" for s k
    by (simp_all add: imported_state_def Let_def created_answer_def importedByResponse_def add_response_def empty_response_def js_set_of_def js_set_add_def)
  from import_outcome [OF validated_page_ready(1-5) ne refl, where w = "[]" and rs = "[created_answer ''tvly-dev-a'']"] len
  show ?thesis using st validated_page_ready(7) by auto
qed

end
