(* ===== verification/Quota_Slider.thy ===== *)
theory Quota_Slider
  imports JS_Number
begin

text \<open>
  The quota sliders of the admin pages (\<open>web/src/admin/quotaSlider.ts\<close>): the stages of a slider, the stage nearest
  to a value, positions on the track, and the text field beside the slider.
\<close>

section \<open>Model\<close>

datatype QuotaSliderField = Field_hourlyAnyLimit | Field_hourlyLimit | Field_dailyLimit | Field_monthlyLimit

record QuotaSliderSeed =
  qs_field :: QuotaSliderField
  qs_used :: int
  qs_initialLimit :: int
  qs_stableMax :: int
  qs_stages :: "int list"

definition QUOTA_LINEAR_STAGE_VALUES :: "int list" where
  "QUOTA_LINEAR_STAGE_VALUES = [10, 20, 30, 40, 50, 60, 70, 80, 90, 100]"

definition QUOTA_EXP_STAGE_VALUES :: "int list" where
  "QUOTA_EXP_STAGE_VALUES = [100, 120, 150, 200, 250, 300, 400, 500, 600, 800, 1000]"

definition coerceQuotaInteger :: "jsnum \<Rightarrow> int \<Rightarrow> int" where
  "coerceQuotaInteger value minimum = (case value of Fin q \<Rightarrow> max minimum (trunc q) | _ \<Rightarrow> minimum)"

definition getQuotaSliderDefaultBaseline :: "QuotaSliderField \<Rightarrow> int" where
  "getQuotaSliderDefaultBaseline field = (case field of
     Field_hourlyAnyLimit \<Rightarrow> 1000 | Field_hourlyLimit \<Rightarrow> 1000 | Field_dailyLimit \<Rightarrow> 10000 | Field_monthlyLimit \<Rightarrow> 100000)"

text \<open>\<open>replace(/[\s,_']/g, '')\<close>.\<close>

function strip_separators :: "string \<Rightarrow> string" where
  "strip_separators s = (case s of
     [] \<Rightarrow> []
   | c # r \<Rightarrow>
       if js_ws_len s > 0 then strip_separators (drop (js_ws_len s) s)
       else if c = CHR '','' \<or> c = CHR ''_'' \<or> c = CHR 0x27 then strip_separators r
       else c # strip_separators r)"
  by pat_completeness auto
termination by (relation "measure length") auto

declare strip_separators.simps [simp del]

definition trimQuotaDraftSeparators :: "string option \<Rightarrow> string" where
  "trimQuotaDraftSeparators value = js_trim (strip_separators (nullish value []))"

text \<open>No comma is left to match, so the two patterns of the test are a run of digits.\<close>

definition normalizeQuotaDraftInput :: "string option \<Rightarrow> string option" where
  "normalizeQuotaDraftInput value =
     (let trimmed = trimQuotaDraftSeparators value in
      if trimmed = [] then Some []
      else if \<not> list_all is_digit trimmed then None
      else let normalized = dropWhile (\<lambda>c. c = CHR ''0'') trimmed in Some (if normalized = [] then ''0'' else normalized))"

text \<open>\<open>Number.parseInt\<close> of a text of digits, and \<open>Intl.NumberFormat('en-US')\<close> of a whole number: its digits in
  groups of three.\<close>

definition parse_digits :: "string \<Rightarrow> jsnum" where
  "parse_digits s = (if s = [] then NaN else round_double (of_nat (digits_val s)))"

fun group_rev :: "string \<Rightarrow> string" where
  "group_rev (a # b # c # d # r) = a # b # c # CHR '','' # group_rev (d # r)"
| "group_rev r = r"

definition format_integer :: "rat \<Rightarrow> string" where
  "format_integer q =
     (let ds = (if \<bar>q\<bar> \<le> 2 ^ 53 then nat_to_string (nat \<lfloor>q\<rfloor>)
                else case shortest_digits q of (ds, n) \<Rightarrow> ds @ replicate (nat n - length ds) CHR ''0'')
      in rev (group_rev (rev ds)))"

definition formatQuotaDraftInput :: "string option \<Rightarrow> string" where
  "formatQuotaDraftInput value = (case normalizeQuotaDraftInput value of
     None \<Rightarrow> []
   | Some normalized \<Rightarrow>
       if normalized = [] then []
       else case parse_digits normalized of Fin q \<Rightarrow> format_integer q | _ \<Rightarrow> normalized)"

definition parseQuotaDraftValue :: "string option \<Rightarrow> jsnum \<Rightarrow> int" where
  "parseQuotaDraftValue value fallback =
     (let parsed = parse_digits (nullish (normalizeQuotaDraftInput value) [])
      in if \<not> is_finite parsed then coerceQuotaInteger fallback 0 else coerceQuotaInteger parsed 0)"

definition resolveQuotaSliderStableMax :: "QuotaSliderField \<Rightarrow> jsnum \<Rightarrow> jsnum \<Rightarrow> int" where
  "resolveQuotaSliderStableMax field initialLimit used =
     max (max 1 (getQuotaSliderDefaultBaseline field)) (max (coerceQuotaInteger initialLimit 0) (coerceQuotaInteger used 0))"

text \<open>The scales of the loop up to the first whose values exceed the maximum.\<close>

definition stage_scales :: "int \<Rightarrow> int list" where
  "stage_scales resolvedMax = takeWhile (\<lambda>scale. hd QUOTA_EXP_STAGE_VALUES * scale \<le> resolvedMax) (map (\<lambda>k. 10 ^ k) [0..<10])"

definition extra_stages :: "int \<Rightarrow> jsnum list \<Rightarrow> int list" where
  "extra_stages resolvedMax extras = List.map_filter (\<lambda>extra. case extra of
     Fin q \<Rightarrow> if trunc q < 0 \<or> trunc q > resolvedMax then None else Some (trunc q)
   | _ \<Rightarrow> None) extras"

definition buildQuotaSliderStages :: "jsnum \<Rightarrow> jsnum list \<Rightarrow> int list" where
  "buildQuotaSliderStages stableMax extras =
     (let resolvedMax = coerceQuotaInteger stableMax 1;
          fits = filter (\<lambda>v. v \<le> resolvedMax)
      in js_sort cmp_int (js_set_of (fits QUOTA_LINEAR_STAGE_VALUES @
           concat (map (\<lambda>scale. fits (map (\<lambda>b. b * scale) QUOTA_EXP_STAGE_VALUES)) (stage_scales resolvedMax)) @
           extra_stages resolvedMax extras @ [0, resolvedMax])))"

definition createQuotaSliderSeed :: "QuotaSliderField \<Rightarrow> jsnum \<Rightarrow> jsnum \<Rightarrow> QuotaSliderSeed" where
  "createQuotaSliderSeed field used initialLimit =
     (let resolvedUsed = coerceQuotaInteger used 0; resolvedInitialLimit = coerceQuotaInteger initialLimit 0;
          stableMax = resolveQuotaSliderStableMax field (num_of_int resolvedInitialLimit) (num_of_int resolvedUsed)
      in \<lparr>qs_field = field, qs_used = resolvedUsed, qs_initialLimit = resolvedInitialLimit, qs_stableMax = stableMax,
          qs_stages = buildQuotaSliderStages (num_of_int stableMax) [num_of_int resolvedInitialLimit, num_of_int resolvedUsed]\<rparr>)"

text \<open>The loop for the nearest stage; \<open>None\<close> is the distance infinity.\<close>

definition nearest_step :: "int \<Rightarrow> int list \<Rightarrow> nat \<times> int option \<Rightarrow> nat \<times> int \<Rightarrow> nat \<times> int option" where
  "nearest_step resolvedValue stages best entry = (case (best, entry) of ((bestIndex, bestDistance), (index, stage)) \<Rightarrow>
     let distance = \<bar>stage - resolvedValue\<bar> in
     if bestDistance = None \<or> distance < the bestDistance \<or> bestDistance = Some distance \<and> stage > stages ! bestIndex
     then (index, Some distance) else (bestIndex, bestDistance))"

definition findNearestQuotaSliderStageIndex :: "int list \<Rightarrow> jsnum \<Rightarrow> nat" where
  "findNearestQuotaSliderStageIndex stages value =
     (if length stages = 0 then 0
      else fst (foldl (nearest_step (coerceQuotaInteger value 0) stages) (0, None) (enumerate 0 stages)))"

text \<open>Divisions and sums of doubles; all values here are finite.\<close>

definition fin_val :: "jsnum \<Rightarrow> rat" where
  "fin_val x = (case x of Fin q \<Rightarrow> q | _ \<Rightarrow> 0)"

definition rd :: "rat \<Rightarrow> rat" where
  "rd q = fin_val (round_double q)"

fun stage_position :: "int \<Rightarrow> nat \<Rightarrow> int list \<Rightarrow> rat" where
  "stage_position v index (left # right # stages) =
     (if v \<le> right then
        (if right \<le> left then of_nat (index + 1)
         else rd (of_nat index + rd (of_int (v - left) / of_int (right - left))))
      else stage_position v (index + 1) (right # stages))"
| "stage_position v index stages = of_nat index"

definition getQuotaSliderStagePosition :: "int list \<Rightarrow> jsnum \<Rightarrow> rat" where
  "getQuotaSliderStagePosition stages value =
     (if length stages \<le> 1 then 0
      else let resolvedValue = coerceQuotaInteger value 0 in
        if resolvedValue \<le> hd stages then 0 else stage_position resolvedValue 0 stages)"

definition clampQuotaSliderStageIndex :: "int list \<Rightarrow> jsnum \<Rightarrow> int" where
  "clampQuotaSliderStageIndex stages index =
     (if length stages = 0 then 0
      else case index of Fin q \<Rightarrow> min (int (length stages) - 1) (max 0 (js_round q)) | _ \<Rightarrow> 0)"

definition getQuotaSliderStageValue :: "int list \<Rightarrow> jsnum \<Rightarrow> int" where
  "getQuotaSliderStageValue stages index =
     (if length stages = 0 then 0 else stages ! nat (clampQuotaSliderStageIndex stages index))"

definition toQuotaRatioPercent :: "int list \<Rightarrow> jsnum \<Rightarrow> rat" where
  "toQuotaRatioPercent stages value =
     (if length stages \<le> 1 then (if coerceQuotaInteger value 0 > 0 then 100 else 0)
      else min 100 (max 0 (rd (rd (getQuotaSliderStagePosition stages value / of_nat (length stages - 1)) * 100))))"

definition buildQuotaSliderTrack :: "int list \<Rightarrow> jsnum \<Rightarrow> jsnum \<Rightarrow> string" where
  "buildQuotaSliderTrack stages used draftLimit =
     (let usedRatio = toQuotaRatioPercent stages used; draftRatio = toQuotaRatioPercent stages draftLimit;
          start = num_to_string (Fin (min usedRatio draftRatio)); stop = num_to_string (Fin (max usedRatio draftRatio))
      in ''linear-gradient(to right, hsl(var(--warning) / 0.34) 0% '' @ start @ ''%, hsl(var(--primary) / 0.44) '' @ start @ ''% '' @
         stop @ ''%, hsl(var(--muted) / 0.5) '' @ stop @ ''% 100%)'')"

section \<open>The nearest stage\<close>

definition nearer :: "int \<Rightarrow> int \<Rightarrow> int \<Rightarrow> bool" where
  "nearer v a b \<longleftrightarrow> \<bar>a - v\<bar> < \<bar>b - v\<bar> \<or> \<bar>a - v\<bar> = \<bar>b - v\<bar> \<and> b \<le> a"

lemma nearest_prefix:
  "n < length stages \<Longrightarrow>
   case foldl (nearest_step v stages) (0, None) (enumerate 0 (take (Suc n) stages)) of
     (i, d) \<Rightarrow> i \<le> n \<and> d = Some \<bar>stages ! i - v\<bar> \<and> (\<forall>j \<le> n. nearer v (stages ! i) (stages ! j))"
proof (induction n)
  case 0
  then show ?case by (cases stages) (simp_all add: nearest_step_def nearer_def)
next
  case (Suc n)
  obtain i d where prev: "foldl (nearest_step v stages) (0, None) (enumerate 0 (take (Suc n) stages)) = (i, d)" by (metis prod.exhaust)
  with Suc have i: "i \<le> n" "d = Some \<bar>stages ! i - v\<bar>" "\<forall>j \<le> n. nearer v (stages ! i) (stages ! j)" by auto
  have "enumerate 0 (take (Suc (Suc n)) stages) = enumerate 0 (take (Suc n) stages) @ [(Suc n, stages ! Suc n)]"
    using Suc.prems by (simp add: take_Suc_conv_app_nth enumerate_append_eq del: take_Suc)
  then have after: "foldl (nearest_step v stages) (0, None) (enumerate 0 (take (Suc (Suc n)) stages)) =
      nearest_step v stages (i, d) (Suc n, stages ! Suc n)" by (simp add: prev)
  show ?case
  proof (cases "nearer v (stages ! i) (stages ! Suc n)")
    case True
    with i show ?thesis unfolding after by (auto simp: nearest_step_def nearer_def Let_def le_Suc_eq)
  next
    case False
    then have new: "nearest_step v stages (i, d) (Suc n, stages ! Suc n) = (Suc n, Some \<bar>stages ! Suc n - v\<bar>)"
      using i(2) by (auto simp: nearest_step_def nearer_def Let_def)
    have "nearer v (stages ! Suc n) (stages ! j)" if "j \<le> n" for j
      using False i(3) that by (fastforce simp: nearer_def)
    moreover have "nearer v (stages ! Suc n) (stages ! Suc n)" by (simp add: nearer_def)
    ultimately show ?thesis unfolding after new by (auto simp: le_Suc_eq)
  qed
qed

lemma nearest_index:
  assumes "stages \<noteq> []"
  shows "findNearestQuotaSliderStageIndex stages value < length stages \<and>
    (\<forall>j < length stages. nearer (coerceQuotaInteger value 0) (stages ! findNearestQuotaSliderStageIndex stages value) (stages ! j))"
proof -
  obtain n where n: "length stages = Suc n" using assms by (cases stages) auto
  from nearest_prefix [of n stages "coerceQuotaInteger value 0"] n show ?thesis
    by (auto simp: findNearestQuotaSliderStageIndex_def less_Suc_eq_le)
qed

lemma coerce_int [simp]: "coerceQuotaInteger (num_of_int i) m = max m i"
  by (simp add: coerceQuotaInteger_def num_of_int_def)

lemma nearest_exact:
  assumes "v \<in> set stages" "0 \<le> v"
  shows "stages ! findNearestQuotaSliderStageIndex stages (num_of_int v) = v"
proof -
  obtain j where j: "j < length stages" "stages ! j = v" using assms(1) by (auto simp: in_set_conv_nth)
  then have "stages \<noteq> []" by auto
  from nearest_index [OF this, of "num_of_int v"] j assms(2)
  have "nearer v (stages ! findNearestQuotaSliderStageIndex stages (num_of_int v)) v" by (auto simp: max_def)
  then show ?thesis by (auto simp: nearer_def)
qed

section \<open>The stages\<close>

lemma sorted_wrt_ends:
  assumes "sorted_wrt (<) (xs :: int list)" "v \<in> set xs"
  shows "hd xs \<le> v \<and> v \<le> last xs \<and> hd xs \<in> set xs \<and> last xs \<in> set xs"
  using assms
proof (induction xs)
  case (Cons x xs)
  then show ?case by (cases "xs = []") (auto simp: less_imp_le)
qed simp

lemma stages_sorted: "sorted_wrt (<) (buildQuotaSliderStages stableMax extras)"
  unfolding buildQuotaSliderStages_def Let_def
  by (simp add: strict_sorted_iff sorted_js_sort_int)

lemma stage_values_pos: "v \<in> set QUOTA_LINEAR_STAGE_VALUES \<union> set QUOTA_EXP_STAGE_VALUES \<Longrightarrow> 0 \<le> v"
  by (auto simp: QUOTA_LINEAR_STAGE_VALUES_def QUOTA_EXP_STAGE_VALUES_def)

lemma stage_scales_pos: "scale \<in> set (stage_scales m) \<Longrightarrow> 0 \<le> scale"
  by (auto simp: stage_scales_def dest!: set_takeWhileD)

lemma stages_range:
  assumes "v \<in> set (buildQuotaSliderStages stableMax extras)"
  shows "0 \<le> v \<and> v \<le> coerceQuotaInteger stableMax 1"
proof -
  have "1 \<le> coerceQuotaInteger stableMax 1" by (simp add: coerceQuotaInteger_def split: jsnum.split)
  with assms show ?thesis
    by (auto simp: buildQuotaSliderStages_def Let_def extra_stages_def map_filter_def stage_values_pos stage_scales_pos
        split: jsnum.splits if_splits)
qed

lemma stages_members:
  "0 \<in> set (buildQuotaSliderStages stableMax extras)" "coerceQuotaInteger stableMax 1 \<in> set (buildQuotaSliderStages stableMax extras)"
  "num_of_int i \<in> set extras \<Longrightarrow> 0 \<le> i \<Longrightarrow> i \<le> coerceQuotaInteger stableMax 1 \<Longrightarrow> i \<in> set (buildQuotaSliderStages stableMax extras)"
  by (auto simp: buildQuotaSliderStages_def Let_def extra_stages_def map_filter_def num_of_int_def image_iff intro!: bexI [of _ "Fin (of_int i)"])

text \<open>The slider of a quota.  Whatever numbers are given as the used amount and the limit (fractions, negative
  numbers, NaN and infinities included), the stages of the seed are strictly increasing whole numbers from 0 to the
  stable maximum, the maximum is at least 1, the used amount and the initial limit are stages themselves, and the
  nearest stage to either is that stage, so opening the slider changes no limit.\<close>

lemma createQuotaSliderSeed_stages:
  "let seed = createQuotaSliderSeed field used initialLimit; stages = qs_stages seed in
   sorted_wrt (<) stages \<and> hd stages = 0 \<and> last stages = qs_stableMax seed \<and> 1 \<le> qs_stableMax seed \<and>
   stages ! findNearestQuotaSliderStageIndex stages (num_of_int (qs_used seed)) = qs_used seed \<and>
   stages ! findNearestQuotaSliderStageIndex stages (num_of_int (qs_initialLimit seed)) = qs_initialLimit seed"
proof -
  define u where "u = coerceQuotaInteger used 0"
  define i where "i = coerceQuotaInteger initialLimit 0"
  define m where "m = resolveQuotaSliderStableMax field (num_of_int i) (num_of_int u)"
  define stages where "stages = buildQuotaSliderStages (num_of_int m) [num_of_int i, num_of_int u]"
  have pos: "0 \<le> u" "0 \<le> i" by (simp_all add: u_def i_def coerceQuotaInteger_def split: jsnum.split)
  have m: "1 \<le> m" "u \<le> m" "i \<le> m" by (simp_all add: m_def resolveQuotaSliderStableMax_def)
  then have top: "coerceQuotaInteger (num_of_int m) 1 = m" by simp
  have members: "0 \<in> set stages" "m \<in> set stages" "u \<in> set stages" "i \<in> set stages"
    using stages_members [where stableMax = "num_of_int m" and extras = "[num_of_int i, num_of_int u]", unfolded top] pos m
    by (simp_all add: stages_def)
  have sorted: "sorted_wrt (<) stages" unfolding stages_def by (rule stages_sorted)
  have range: "0 \<le> v \<and> v \<le> m" if "v \<in> set stages" for v using stages_range that top unfolding stages_def by metis
  have "stages \<noteq> []" using members by auto
  then have "hd stages = 0" "last stages = m"
    using sorted_wrt_ends [OF sorted members(1)] sorted_wrt_ends [OF sorted members(2)] range [of "hd stages"] range [of "last stages"]
    by simp_all
  with sorted m nearest_exact [OF members(3) pos(1)] nearest_exact [OF members(4) pos(2)] show ?thesis
    unfolding createQuotaSliderSeed_def Let_def u_def [symmetric] i_def [symmetric] m_def [symmetric] stages_def [symmetric] by simp
qed

section \<open>The text field\<close>

lemma js_ws_len_digit: "is_digit c \<or> c = CHR '','' \<Longrightarrow> js_ws_len (c # r) = 0"
  by (rule js_ws_len_plain) (auto simp: js_plain_def is_digit_def)

lemma strip_digits: "\<forall>c \<in> set s. is_digit c \<or> c = CHR '','' \<Longrightarrow> strip_separators s = filter is_digit s"
proof (induction s)
  case Nil
  show ?case by (simp add: strip_separators.simps)
next
  case (Cons c s)
  have "js_ws_len (c # s) = 0" using Cons.prems by (simp add: js_ws_len_digit)
  moreover have "\<not> is_digit CHR '','' \<and> \<not> is_digit CHR ''_'' \<and> \<not> is_digit CHR 0x27" by (simp add: is_digit_def)
  ultimately show ?case using Cons by (auto simp: strip_separators.simps [of "c # s"])
qed

lemma group_rev_digits: "list_all is_digit s \<Longrightarrow> filter is_digit (group_rev s) = s \<and> (\<forall>c \<in> set (group_rev s). is_digit c \<or> c = CHR '','')"
  by (induction s rule: group_rev.induct) (auto simp: is_digit_def)

lemma digits_trim: "list_all is_digit s \<Longrightarrow> js_trim s = s"
  by (rule js_trim_all_plain) (auto simp: list_all_iff intro: is_digit_plain)

text \<open>A text of digits without a leading zero is the numeral of its value.\<close>

lemma nat_to_string_digits_val:
  "list_all is_digit s \<Longrightarrow> s \<noteq> [] \<Longrightarrow> s = ''0'' \<or> hd s \<noteq> CHR ''0'' \<Longrightarrow> nat_to_string (digits_val s) = s"
proof (induction s rule: rev_induct)
  case (snoc c ds)
  have c: "digit_val c < 10" "digit_char (digit_val c) = c" using snoc.prems(1) by (auto simp: is_digit_def digit_val_def digit_char_def)
  show ?case
  proof (cases "ds = []")
    case True
    then show ?thesis using c by (simp add: digits_val_def nat_to_string.simps [of "digit_val c"])
  next
    case False
    with snoc.prems have hd: "hd ds \<noteq> CHR ''0''" by auto
    with snoc.IH snoc.prems False have IH: "nat_to_string (digits_val ds) = ds" by simp
    have "digits_val ds \<noteq> 0"
    proof
      assume "digits_val ds = 0"
      with IH have "ds = [digit_char 0]" by (simp add: nat_to_string.simps [of 0])
      moreover have "digit_char 0 = CHR ''0''" by code_simp
      ultimately show False using hd by simp
    qed
    moreover have "digits_val (ds @ [c]) = 10 * digits_val ds + digit_val c" by (simp add: digits_val_def)
    ultimately show ?thesis using c IH by (simp add: nat_to_string.simps [of "10 * digits_val ds + digit_val c"])
  qed
qed simp

lemma normalized_digits:
  assumes "normalizeQuotaDraftInput v = Some d" "d \<noteq> []"
  shows "list_all is_digit d \<and> (d = ''0'' \<or> hd d \<noteq> CHR ''0'')"
proof -
  define t where "t = trimQuotaDraftSeparators v"
  define z where "z = dropWhile (\<lambda>c. c = CHR ''0'') t"
  have z: "z \<noteq> [] \<Longrightarrow> hd z \<noteq> CHR ''0''" unfolding z_def by (rule hd_dropWhile)
  from assms have "list_all is_digit t" "d = (if z = [] then ''0'' else z)"
    by (auto simp: normalizeQuotaDraftInput_def t_def [symmetric] z_def [symmetric] Let_def split: if_splits)
  moreover have "list_all is_digit z" using calculation(1) by (auto simp: z_def list_all_iff dest: set_dropWhileD)
  moreover have "is_digit CHR ''0''" by (simp add: is_digit_def)
  ultimately show ?thesis using z by simp
qed

lemma normalize_digits:
  assumes "strip_separators s = d" "list_all is_digit d" "d = ''0'' \<or> hd d \<noteq> CHR ''0''" "d \<noteq> []"
  shows "normalizeQuotaDraftInput (Some s) = Some d"
proof -
  have "trimQuotaDraftSeparators (Some s) = d" using assms by (simp add: trimQuotaDraftSeparators_def nullish_def digits_trim)
  moreover have "dropWhile (\<lambda>c. c = CHR ''0'') d = (if d = ''0'' then [] else d)" using assms(3,4) by (cases d) auto
  ultimately show ?thesis using assms(2,4) by (simp add: normalizeQuotaDraftInput_def Let_def)
qed

lemma format_cong: "normalizeQuotaDraftInput u = normalizeQuotaDraftInput v \<Longrightarrow> formatQuotaDraftInput u = formatQuotaDraftInput v"
  by (simp add: formatQuotaDraftInput_def)

text \<open>The text field of a quota keeps the number.  Formatting an input whose digits stand for a number a double
  holds exactly, and reading the formatted text again, gives the digits and the value of the input, whatever
  spaces, commas, underscores, apostrophes and leading zeros the input had; and formatting the formatted text changes
  nothing.\<close>

lemma quotaDraft_roundtrip:
  assumes "normalizeQuotaDraftInput (Some s) = Some d" "d \<noteq> []" "digits_val d < 2 ^ 53"
  shows "normalizeQuotaDraftInput (Some (formatQuotaDraftInput (Some s))) = Some d \<and>
    parseQuotaDraftValue (Some (formatQuotaDraftInput (Some s))) fallback = int (digits_val d) \<and>
    parseQuotaDraftValue (Some s) fallback = int (digits_val d) \<and>
    formatQuotaDraftInput (Some (formatQuotaDraftInput (Some s))) = formatQuotaDraftInput (Some s)"
proof -
  note d = normalized_digits [OF assms(1,2)]
  have n: "nat_to_string (digits_val d) = d" using d assms(2) by (simp add: nat_to_string_digits_val)
  have "safe_int (int (digits_val d))" using assms(3) by (simp add: safe_int_def)
  from round_double_safe [OF this] have read: "parse_digits d = Fin (of_nat (digits_val d))" using assms(2) by (simp add: parse_digits_def)
  have "(of_nat (digits_val d) :: rat) \<le> 2 ^ 53" using assms(3) by (metis less_imp_le of_nat_le_iff of_nat_numeral of_nat_power)
  then have shown: "formatQuotaDraftInput (Some s) = rev (group_rev (rev d))"
    by (simp add: formatQuotaDraftInput_def assms(1,2) read format_integer_def n)
  have "list_all is_digit (rev d)" using d by (simp add: list_all_iff)
  from group_rev_digits [OF this] have "strip_separators (rev (group_rev (rev d))) = d"
    by (subst strip_digits) (auto simp flip: rev_filter)
  with d assms(2) have again: "normalizeQuotaDraftInput (Some (formatQuotaDraftInput (Some s))) = Some d"
    unfolding shown by (intro normalize_digits) auto
  have "parseQuotaDraftValue v fallback = int (digits_val d)" if "normalizeQuotaDraftInput v = Some d" for v
    using that read by (simp add: parseQuotaDraftValue_def nullish_def coerceQuotaInteger_def trunc_def)
  moreover have "formatQuotaDraftInput (Some (formatQuotaDraftInput (Some s))) = formatQuotaDraftInput (Some s)"
    using again assms(1) by (intro format_cong) simp
  ultimately show ?thesis using again assms(1) by blast
qed

end
