(* ===== verification/User_Admin.thy ===== *)
theory User_Admin
  imports Admin_Navigation Api_Client Quota_Slider Event_System
begin

text \<open>
  The administration of a user and of the user tags in the admin console (\<open>web/src/AdminDashboard.tsx\<close>): the detail
  of the user the route names, the drafts of the limits, the catalogue of tags with its editor, the bindings of tags
  and the switch for registrations.  Events are the clicks and inputs, the events of the navigation and the answers
  of the requests, in any order; every event is followed by a render.
\<close>

section \<open>State\<close>

record 'a quota_fields =
  qf_hourlyAnyLimit :: 'a
  qf_hourlyLimit :: 'a
  qf_dailyLimit :: 'a
  qf_monthlyLimit :: 'a

type_synonym UserQuotaSnapshot = "QuotaSliderSeed quota_fields"

record UserTagFormState =
  tf_tagId :: "string option"
  tf_name :: string
  tf_displayName :: string
  tf_icon :: string
  tf_effectKind :: string
  tf_hourlyAnyDelta :: string
  tf_hourlyDelta :: string
  tf_dailyDelta :: string
  tf_monthlyDelta :: string

text \<open>The requests that change something on the server, named by the functions of \<open>api.ts\<close>.\<close>

datatype users_request =
    Req_updateAdminUserQuota string UpdateUserQuotaPayload
  | Req_updateAdminUserBrokenKeyLimit string UpdateUserBrokenKeyLimitPayload
  | Req_updateAdminUserTag string UpsertAdminUserTagPayload
  | Req_createAdminUserTag UpsertAdminUserTagPayload
  | Req_deleteAdminUserTag string
  | Req_bindAdminUserTag string string
  | Req_unbindAdminUserTag string string
  | Req_updateAdminRegistrationSettings bool

text \<open>The functions that wait: what the handler does after its request, with what it captured, and the requests of the
  effects with their abort controllers.\<close>

datatype save_kind =
  Save_quota | Save_broken_limit | Save_tag | Delete_tag AdminUserTag "string option" | Bind_tag | Unbind_tag

datatype refresh = Refresh_detail string | Refresh_users | Refresh_tags

datatype users_task =
    Load_detail string nat
  | Load_tags nat
  | Load_registration nat
  | Write_task save_kind admin_nav
  | Refresh_task refresh nat
  | Registration_task bool

record save_join =
  sj_kind :: save_kind
  sj_rendered :: admin_nav
  sj_left :: nat

record user_admin =
  ua_nav :: admin_nav
  ua_users :: "AdminUserSummary list"
  ua_usersTotal :: int
  ua_selectedUserDetail :: "AdminUserDetail option"
  ua_userDetailLoading :: bool
  ua_userQuotaSnapshot :: "UserQuotaSnapshot option"
  ua_userQuotaDraft :: "string quota_fields option"
  ua_savingUserQuota :: bool
  ua_userQuotaError :: "string option"
  ua_userQuotaSavedAt :: "int option"
  ua_userBrokenLimitDraft :: string
  ua_savingUserBrokenLimit :: bool
  ua_userBrokenLimitError :: "string option"
  ua_userBrokenLimitSavedAt :: "int option"
  ua_tagCatalog :: "AdminUserTag list"
  ua_tagCatalogLoading :: bool
  ua_tagCatalogLoadedOnce :: bool
  ua_tagCatalogError :: "string option"
  ua_activeUserTagEditorId :: "string option"
  ua_userTagCatalogDraft :: UserTagFormState
  ua_savingUserTagCatalog :: bool
  ua_deletingUserTagId :: "string option"
  ua_pendingUserTagDelete :: "AdminUserTag option"
  ua_selectedBindableTagId :: string
  ua_savingUserTagBinding :: bool
  ua_userTagError :: "string option"
  ua_allowRegistration :: "bool option"
  ua_registrationSettingsLoaded :: bool
  ua_registrationSettingsLoading :: bool
  ua_registrationSettingsSaving :: bool
  ua_registrationSettingsError :: "string option"
  ua_tasks :: "users_task list"
  ua_joins :: "(nat \<times> save_join) list"
  ua_detailController :: "nat option"
  ua_tagsController :: "nat option"
  ua_registrationController :: "nat option"
  ua_counter :: nat
  ua_sent :: "users_request list"

text \<open>The texts of \<open>adminStrings.users\<close> that the handlers show.\<close>

record users_texts =
  ut_quota_invalid :: string
  ut_brokenKeys_invalid :: string
  ut_catalog_invalid :: string
  ut_catalog_tagNotFound :: string

section \<open>Forms\<close>

abbreviation NEW_USER_TAG_CARD_ID :: string where
  "NEW_USER_TAG_CARD_ID \<equiv> ''__new__''"

definition EMPTY_USER_TAG_FORM :: UserTagFormState where
  "EMPTY_USER_TAG_FORM = \<lparr>tf_tagId = None, tf_name = [], tf_displayName = [], tf_icon = [], tf_effectKind = ''quota_delta'',
     tf_hourlyAnyDelta = ''0'', tf_hourlyDelta = ''0'', tf_dailyDelta = ''0'', tf_monthlyDelta = ''0''\<rparr>"

definition buildUserQuotaSnapshot :: "AdminUserDetail \<Rightarrow> UserQuotaSnapshot" where
  "buildUserQuotaSnapshot detail =
     \<lparr>qf_hourlyAnyLimit = createQuotaSliderSeed Field_hourlyAnyLimit (num_of_int (aus_hourlyAnyUsed detail)) (num_of_int (aqls_hourlyAnyLimit (aud_quotaBase detail))),
      qf_hourlyLimit = createQuotaSliderSeed Field_hourlyLimit (num_of_int (aus_quotaHourlyUsed detail)) (num_of_int (aqls_hourlyLimit (aud_quotaBase detail))),
      qf_dailyLimit = createQuotaSliderSeed Field_dailyLimit (num_of_int (aus_quotaDailyUsed detail)) (num_of_int (aqls_dailyLimit (aud_quotaBase detail))),
      qf_monthlyLimit = createQuotaSliderSeed Field_monthlyLimit (num_of_int (aus_quotaMonthlyUsed detail)) (num_of_int (aqls_monthlyLimit (aud_quotaBase detail)))\<rparr>"

definition isSystemUserTag :: "AdminUserTagBinding \<Rightarrow> bool" where
  "isSystemUserTag tag \<longleftrightarrow> truthy_str (autb_systemKey tag) \<or> autb_source tag = ''system_linuxdo''"

definition createUserTagFormState :: "AdminUserTag option \<Rightarrow> UserTagFormState" where
  "createUserTagFormState tag = (case tag of
     None \<Rightarrow> EMPTY_USER_TAG_FORM
   | Some t \<Rightarrow> \<lparr>tf_tagId = Some (aut_id t), tf_name = aut_name t, tf_displayName = aut_displayName t, tf_icon = nullish (aut_icon t) [],
       tf_effectKind = aut_effectKind t, tf_hourlyAnyDelta = int_to_string (aut_hourlyAnyDelta t), tf_hourlyDelta = int_to_string (aut_hourlyDelta t),
       tf_dailyDelta = int_to_string (aut_dailyDelta t), tf_monthlyDelta = int_to_string (aut_monthlyDelta t)\<rparr>)"

text \<open>\<open>Number.parseInt\<close> and the test \<open>Number.isFinite\<close>: the integer nearest to the double the digits stand for.\<close>

definition parse_finite :: "string \<Rightarrow> int option" where
  "parse_finite s = (case js_parse_int s of None \<Rightarrow> None
     | Some i \<Rightarrow> (case round_double (of_int i) of Fin q \<Rightarrow> Some \<lfloor>q\<rfloor> | _ \<Rightarrow> None))"

definition quota_draft :: "AdminUserDetail \<Rightarrow> string quota_fields" where
  "quota_draft detail = (let base = aud_quotaBase detail
     in \<lparr>qf_hourlyAnyLimit = int_to_string (aqls_hourlyAnyLimit base), qf_hourlyLimit = int_to_string (aqls_hourlyLimit base),
         qf_dailyLimit = int_to_string (aqls_dailyLimit base), qf_monthlyLimit = int_to_string (aqls_monthlyLimit base)\<rparr>)"

section \<open>Effects of the route\<close>

definition add_users_task :: "users_task \<Rightarrow> user_admin \<Rightarrow> user_admin" where
  "add_users_task t st = st\<lparr>ua_tasks := ua_tasks st @ [t]\<rparr>"

fun user_tag_route :: "AdminPathRoute \<Rightarrow> bool" where
  "user_tag_route (RModule m) \<longleftrightarrow> m = Users"
| "user_tag_route (RUser i) \<longleftrightarrow> True"
| "user_tag_route RUserTags \<longleftrightarrow> True"
| "user_tag_route RUserTagCreate \<longleftrightarrow> True"
| "user_tag_route (RUserTagEdit i) \<longleftrightarrow> True"
| "user_tag_route _ \<longleftrightarrow> False"

definition tags_effect :: "user_admin \<Rightarrow> user_admin" where
  "tags_effect st =
     (let st1 = st\<lparr>ua_tagsController := None\<rparr>; c = ua_counter st
      in if \<not> user_tag_route (nv_route (ua_nav st)) then st1
         else add_users_task (Load_tags c) (st1\<lparr>ua_tagsController := Some c, ua_counter := c + 1, ua_tagCatalogLoading := True, ua_tagCatalogError := None\<rparr>))"

definition registration_effect :: "user_admin \<Rightarrow> user_admin" where
  "registration_effect st =
     (let st1 = st\<lparr>ua_registrationController := None\<rparr>; c = ua_counter st; r = nv_route (ua_nav st)
      in if \<not> (user_tag_route r \<or> isUserUsageRoute r) then st1
         else add_users_task (Load_registration c)
           (st1\<lparr>ua_registrationController := Some c, ua_counter := c + 1, ua_registrationSettingsLoading := True, ua_registrationSettingsError := None\<rparr>))"

definition detail_effect :: "user_admin \<Rightarrow> user_admin" where
  "detail_effect st =
     (let st1 = st\<lparr>ua_detailController := None\<rparr>; c = ua_counter st
      in case nv_route (ua_nav st) of
           RUser i \<Rightarrow> add_users_task (Load_detail i c)
             (st1\<lparr>ua_detailController := Some c, ua_counter := c + 1, ua_userDetailLoading := True, ua_userQuotaError := None\<rparr>)
         | _ \<Rightarrow> st1)"

text \<open>The effect of the tag editor reads the route and the catalogue of its render.\<close>

definition edit_tag :: "AdminUserTag \<Rightarrow> user_admin \<Rightarrow> user_admin" where
  "edit_tag tag st = st\<lparr>ua_activeUserTagEditorId := Some (aut_id tag), ua_userTagCatalogDraft := createUserTagFormState (Some tag), ua_tagCatalogError := None\<rparr>"

definition create_tag :: "user_admin \<Rightarrow> user_admin" where
  "create_tag st = st\<lparr>ua_activeUserTagEditorId := Some NEW_USER_TAG_CARD_ID, ua_userTagCatalogDraft := EMPTY_USER_TAG_FORM, ua_tagCatalogError := None\<rparr>"

definition find_tag :: "string \<Rightarrow> user_admin \<Rightarrow> AdminUserTag option" where
  "find_tag i st = find (\<lambda>tag. aut_id tag = i) (ua_tagCatalog st)"

definition tag_editor_effect :: "users_texts \<Rightarrow> user_admin \<Rightarrow> user_admin \<Rightarrow> user_admin" where
  "tag_editor_effect texts rendered st = (case nv_route (ua_nav rendered) of
     RUserTagCreate \<Rightarrow> create_tag st
   | RUserTagEdit i \<Rightarrow>
       (case find_tag i rendered of
          Some tag \<Rightarrow> edit_tag tag st
        | None \<Rightarrow>
            if ua_tagCatalogLoadedOnce rendered \<and> \<not> ua_tagCatalogLoading rendered
            then st\<lparr>ua_activeUserTagEditorId := None, ua_tagCatalogError := Some (ut_catalog_tagNotFound texts)\<rparr> else st)
   | _ \<Rightarrow> st)"

text \<open>The effects run in the order of the code on the render of the new route; the one of the tag editor runs again
  when the others changed what it reads.\<close>

definition route_effects :: "users_texts \<Rightarrow> user_admin \<Rightarrow> user_admin" where
  "route_effects texts rendered =
     (let st = detail_effect (tag_editor_effect texts rendered (registration_effect (tags_effect rendered)))
      in tag_editor_effect texts st st)"

definition navigated :: "users_texts \<Rightarrow> bool \<Rightarrow> admin_nav \<Rightarrow> user_admin \<Rightarrow> user_admin" where
  "navigated texts newRoute nav st =
     (let st1 = st\<lparr>ua_nav := nav\<rparr> in if newRoute \<or> nv_route nav \<noteq> nv_route (ua_nav st) then route_effects texts st1 else st1)"

definition navigateUserTagCreate :: "users_texts \<Rightarrow> user_admin \<Rightarrow> user_admin" where
  "navigateUserTagCreate texts st = navigated texts False (open_tag_create (ua_nav st)) (create_tag st)"

definition navigateUserTagEdit :: "users_texts \<Rightarrow> string \<Rightarrow> user_admin \<Rightarrow> user_admin" where
  "navigateUserTagEdit texts i st =
     navigated texts False (open_tag_edit i (ua_nav st)) (case find_tag i st of Some tag \<Rightarrow> edit_tag tag st | None \<Rightarrow> st)"

section \<open>Inputs\<close>

definition updateQuotaDraftField :: "QuotaSliderField \<Rightarrow> string \<Rightarrow> user_admin \<Rightarrow> user_admin" where
  "updateQuotaDraftField field value st = (case normalizeQuotaDraftInput (Some value) of
     None \<Rightarrow> st
   | Some v \<Rightarrow> st\<lparr>ua_userQuotaDraft := map_option (\<lambda>previous. case field of
         Field_hourlyAnyLimit \<Rightarrow> previous\<lparr>qf_hourlyAnyLimit := v\<rparr> | Field_hourlyLimit \<Rightarrow> previous\<lparr>qf_hourlyLimit := v\<rparr>
       | Field_dailyLimit \<Rightarrow> previous\<lparr>qf_dailyLimit := v\<rparr> | Field_monthlyLimit \<Rightarrow> previous\<lparr>qf_monthlyLimit := v\<rparr>) (ua_userQuotaDraft st),
       ua_userQuotaSavedAt := None, ua_userQuotaError := None\<rparr>)"

definition updateUserBrokenLimitDraft :: "string \<Rightarrow> user_admin \<Rightarrow> user_admin" where
  "updateUserBrokenLimitDraft value st = (case normalizeQuotaDraftInput (Some value) of
     None \<Rightarrow> st
   | Some v \<Rightarrow> st\<lparr>ua_userBrokenLimitDraft := v, ua_userBrokenLimitError := None, ua_userBrokenLimitSavedAt := None\<rparr>)"

datatype tag_field = TF_name | TF_displayName | TF_icon | TF_effectKind | TF_hourlyAnyDelta | TF_hourlyDelta | TF_dailyDelta | TF_monthlyDelta

definition updateUserTagCatalogField :: "tag_field \<Rightarrow> string \<Rightarrow> user_admin \<Rightarrow> user_admin" where
  "updateUserTagCatalogField field value st =
     (let previous = ua_userTagCatalogDraft st
      in st\<lparr>ua_userTagCatalogDraft := (case field of
           TF_name \<Rightarrow> previous\<lparr>tf_name := value\<rparr> | TF_displayName \<Rightarrow> previous\<lparr>tf_displayName := value\<rparr> | TF_icon \<Rightarrow> previous\<lparr>tf_icon := value\<rparr>
         | TF_effectKind \<Rightarrow> previous\<lparr>tf_effectKind := value\<rparr> | TF_hourlyAnyDelta \<Rightarrow> previous\<lparr>tf_hourlyAnyDelta := value\<rparr>
         | TF_hourlyDelta \<Rightarrow> previous\<lparr>tf_hourlyDelta := value\<rparr> | TF_dailyDelta \<Rightarrow> previous\<lparr>tf_dailyDelta := value\<rparr>
         | TF_monthlyDelta \<Rightarrow> previous\<lparr>tf_monthlyDelta := value\<rparr>), ua_tagCatalogError := None\<rparr>)"

fun tag_editor_route :: "AdminPathRoute \<Rightarrow> bool" where
  "tag_editor_route RUserTagCreate \<longleftrightarrow> True"
| "tag_editor_route (RUserTagEdit i) \<longleftrightarrow> True"
| "tag_editor_route _ \<longleftrightarrow> False"

definition cancelUserTagCatalogEdit :: "users_texts \<Rightarrow> admin_nav \<Rightarrow> user_admin \<Rightarrow> user_admin" where
  "cancelUserTagCatalogEdit texts rendered st =
     (let st1 = st\<lparr>ua_activeUserTagEditorId := None, ua_userTagCatalogDraft := EMPTY_USER_TAG_FORM, ua_tagCatalogError := None\<rparr>
      in if tag_editor_route (nv_route rendered) then navigated texts False (navigateUserTags rendered (ua_nav st1)) st1 else st1)"

section \<open>Saving\<close>

definition send_write :: "users_request \<Rightarrow> save_kind \<Rightarrow> user_admin \<Rightarrow> user_admin" where
  "send_write rq kind st = add_users_task (Write_task kind (ua_nav st)) (st\<lparr>ua_sent := ua_sent st @ [rq]\<rparr>)"

definition parse_limit :: "string \<Rightarrow> int option" where
  "parse_limit s = (case parse_finite s of Some n \<Rightarrow> if n < 0 then None else Some n | None \<Rightarrow> None)"

definition quota_payload :: "string quota_fields \<Rightarrow> UpdateUserQuotaPayload option" where
  "quota_payload q = (case (parse_limit (qf_hourlyAnyLimit q), parse_limit (qf_hourlyLimit q), parse_limit (qf_dailyLimit q), parse_limit (qf_monthlyLimit q)) of
     (Some a, Some h, Some d, Some m) \<Rightarrow> Some \<lparr>uuqp_hourlyAnyLimit = a, uuqp_hourlyLimit = h, uuqp_dailyLimit = d, uuqp_monthlyLimit = m\<rparr>
   | _ \<Rightarrow> None)"

definition saveUserQuota :: "users_texts \<Rightarrow> user_admin \<Rightarrow> user_admin" where
  "saveUserQuota texts st = (case (nv_route (ua_nav st), ua_userQuotaDraft st) of
     (RUser i, Some q) \<Rightarrow>
       (case quota_payload q of
          None \<Rightarrow> st\<lparr>ua_userQuotaError := Some (ut_quota_invalid texts)\<rparr>
        | Some payload \<Rightarrow> send_write (Req_updateAdminUserQuota i payload) Save_quota (st\<lparr>ua_savingUserQuota := True, ua_userQuotaError := None\<rparr>))
   | _ \<Rightarrow> st)"

definition saveUserBrokenLimit :: "users_texts \<Rightarrow> user_admin \<Rightarrow> user_admin" where
  "saveUserBrokenLimit texts st = (case nv_route (ua_nav st) of
     RUser i \<Rightarrow>
       (case parse_limit (ua_userBrokenLimitDraft st) of
          None \<Rightarrow> st\<lparr>ua_userBrokenLimitError := Some (ut_brokenKeys_invalid texts)\<rparr>
        | Some n \<Rightarrow> send_write (Req_updateAdminUserBrokenKeyLimit i \<lparr>uubklp_monthlyBrokenLimit = n\<rparr>) Save_broken_limit
            (st\<lparr>ua_savingUserBrokenLimit := True, ua_userBrokenLimitError := None\<rparr>))
   | _ \<Rightarrow> st)"

definition tag_payload :: "AdminUserTag option \<Rightarrow> UserTagFormState \<Rightarrow> UpsertAdminUserTagPayload option" where
  "tag_payload editingTag draft =
     (let isSystemEditing = (case editingTag of Some t \<Rightarrow> aut_systemKey t \<noteq> None | None \<Rightarrow> False);
          effectKind = (if tf_effectKind draft = ''block_all'' then ''block_all'' else ''quota_delta'');
          delta = (\<lambda>n. if effectKind = ''block_all'' then 0 else n)
      in if \<not> isSystemEditing \<and> (js_trim (tf_name draft) = [] \<or> js_trim (tf_displayName draft) = []) then None
         else case (parse_finite (tf_hourlyAnyDelta draft), parse_finite (tf_hourlyDelta draft), parse_finite (tf_dailyDelta draft), parse_finite (tf_monthlyDelta draft)) of
           (Some a, Some h, Some d, Some m) \<Rightarrow> Some
             \<lparr>uautp_name = (case editingTag of Some t \<Rightarrow> if isSystemEditing then aut_name t else js_trim (tf_name draft) | None \<Rightarrow> js_trim (tf_name draft)),
              uautp_displayName = (case editingTag of Some t \<Rightarrow> if isSystemEditing then aut_displayName t else js_trim (tf_displayName draft) | None \<Rightarrow> js_trim (tf_displayName draft)),
              uautp_icon = (let icon = js_trim (tf_icon draft); own = (if icon = [] then None else Some icon)
                 in case editingTag of Some t \<Rightarrow> if isSystemEditing then aut_icon t else own | None \<Rightarrow> own),
              uautp_effectKind = effectKind, uautp_hourlyAnyDelta = delta a, uautp_hourlyDelta = delta h, uautp_dailyDelta = delta d, uautp_monthlyDelta = delta m\<rparr>
         | _ \<Rightarrow> None)"

definition saveUserTagCatalog :: "users_texts \<Rightarrow> user_admin \<Rightarrow> user_admin" where
  "saveUserTagCatalog texts st =
     (let draft = ua_userTagCatalogDraft st;
          editingTag = (if truthy_str (tf_tagId draft) then Option.bind (tf_tagId draft) (\<lambda>i. find_tag i st) else None)
      in case tag_payload editingTag draft of
           None \<Rightarrow> st\<lparr>ua_tagCatalogError := Some (ut_catalog_invalid texts)\<rparr>
         | Some payload \<Rightarrow>
             send_write (case editingTag of Some t \<Rightarrow> Req_updateAdminUserTag (aut_id t) payload | None \<Rightarrow> Req_createAdminUserTag payload) Save_tag
               (st\<lparr>ua_savingUserTagCatalog := True, ua_tagCatalogError := None\<rparr>))"

definition requestUserTagCatalogDelete :: "AdminUserTag \<Rightarrow> user_admin \<Rightarrow> user_admin" where
  "requestUserTagCatalogDelete tag st =
     (if truthy_str (aut_systemKey tag) then st else st\<lparr>ua_tagCatalogError := None, ua_pendingUserTagDelete := Some tag\<rparr>)"

definition closeUserTagDeleteDialog :: "user_admin \<Rightarrow> user_admin" where
  "closeUserTagDeleteDialog st = (if truthy_str (ua_deletingUserTagId st) then st else st\<lparr>ua_pendingUserTagDelete := None\<rparr>)"

definition confirmUserTagCatalogDelete :: "user_admin \<Rightarrow> user_admin" where
  "confirmUserTagCatalogDelete st = (case ua_pendingUserTagDelete st of
     None \<Rightarrow> st
   | Some tag \<Rightarrow>
       if truthy_str (aut_systemKey tag) then st
       else send_write (Req_deleteAdminUserTag (aut_id tag)) (Delete_tag tag (tf_tagId (ua_userTagCatalogDraft st)))
         (st\<lparr>ua_deletingUserTagId := Some (aut_id tag), ua_tagCatalogError := None\<rparr>))"

definition bindSelectedUserTag :: "user_admin \<Rightarrow> user_admin" where
  "bindSelectedUserTag st = (case nv_route (ua_nav st) of
     RUser i \<Rightarrow> if ua_selectedBindableTagId st = [] then st
       else send_write (Req_bindAdminUserTag i (ua_selectedBindableTagId st)) Bind_tag (st\<lparr>ua_savingUserTagBinding := True, ua_userTagError := None\<rparr>)
   | _ \<Rightarrow> st)"

definition unbindSelectedUserTag :: "AdminUserTagBinding \<Rightarrow> user_admin \<Rightarrow> user_admin" where
  "unbindSelectedUserTag tag st = (case nv_route (ua_nav st) of
     RUser i \<Rightarrow> if isSystemUserTag tag \<or> autb_source tag \<noteq> ''manual'' then st
       else send_write (Req_unbindAdminUserTag i (autb_tagId tag)) Unbind_tag (st\<lparr>ua_savingUserTagBinding := True, ua_userTagError := None\<rparr>)
   | _ \<Rightarrow> st)"

definition toggleAllowRegistration :: "user_admin \<Rightarrow> user_admin" where
  "toggleAllowRegistration st = (case ua_allowRegistration st of
     None \<Rightarrow> st
   | Some previous \<Rightarrow>
       if ua_registrationSettingsSaving st \<or> ua_registrationSettingsLoading st then st
       else add_users_task (Registration_task previous)
         (st\<lparr>ua_allowRegistration := Some (\<not> previous), ua_registrationSettingsSaving := True, ua_registrationSettingsError := None,
            ua_sent := ua_sent st @ [Req_updateAdminRegistrationSettings (\<not> previous)]\<rparr>))"

section \<open>Answers\<close>

datatype users_answer =
    Ans_write "js_error + unit"
  | Ans_detail "js_error + AdminUserDetail"
  | Ans_users "js_error + AdminUserSummary Paginated"
  | Ans_tags "js_error + AdminUserTag list"
  | Ans_registration "js_error + AdminRegistrationSettings"

definition set_detail :: "AdminUserDetail \<Rightarrow> user_admin \<Rightarrow> user_admin" where
  "set_detail detail st = st\<lparr>ua_selectedUserDetail := Some detail, ua_userQuotaSnapshot := Some (buildUserQuotaSnapshot detail),
     ua_userQuotaDraft := Some (quota_draft detail), ua_userBrokenLimitDraft := int_to_string (aus_monthlyBrokenLimit detail),
     ua_selectedBindableTagId := []\<rparr>"

definition detail_loaded :: "js_error + AdminUserDetail \<Rightarrow> user_admin \<Rightarrow> user_admin" where
  "detail_loaded r st = (case r of
     Inr detail \<Rightarrow> (set_detail detail st)\<lparr>ua_userTagError := None, ua_userDetailLoading := False\<rparr>
   | Inl e \<Rightarrow> st\<lparr>ua_selectedUserDetail := None, ua_userQuotaSnapshot := None, ua_userQuotaDraft := None, ua_userBrokenLimitDraft := [],
       ua_userDetailLoading := False\<rparr>)"

definition tags_loaded :: "users_texts \<Rightarrow> js_error + AdminUserTag list \<Rightarrow> user_admin \<Rightarrow> user_admin" where
  "tags_loaded texts r st =
     (let st1 = (case r of Inr tags \<Rightarrow> st\<lparr>ua_tagCatalog := tags\<rparr> | Inl e \<Rightarrow> st\<lparr>ua_tagCatalog := [], ua_tagCatalogError := Some (er_message e)\<rparr>);
          st2 = st1\<lparr>ua_tagCatalogLoading := False, ua_tagCatalogLoadedOnce := True\<rparr>
      in tag_editor_effect texts st2 st2)"

definition registration_loaded :: "js_error + AdminRegistrationSettings \<Rightarrow> user_admin \<Rightarrow> user_admin" where
  "registration_loaded r st =
     (let st1 = (case r of
            Inr settings \<Rightarrow> st\<lparr>ua_allowRegistration := Some (ars_allowRegistration settings), ua_registrationSettingsLoaded := True\<rparr>
          | Inl e \<Rightarrow> st\<lparr>ua_allowRegistration := None, ua_registrationSettingsError := Some (er_message e)\<rparr>)
      in st1\<lparr>ua_registrationSettingsLoading := False\<rparr>)"

definition registration_saved :: "bool \<Rightarrow> js_error + AdminRegistrationSettings \<Rightarrow> user_admin \<Rightarrow> user_admin" where
  "registration_saved previous r st =
     (let st1 = (case r of
            Inr result \<Rightarrow> st\<lparr>ua_allowRegistration := Some (ars_allowRegistration result)\<rparr>
          | Inl e \<Rightarrow> st\<lparr>ua_allowRegistration := Some previous, ua_registrationSettingsError := Some (er_message e)\<rparr>)
      in st1\<lparr>ua_registrationSettingsSaving := False\<rparr>)"

text \<open>The end of a save: the rest of its \<open>try\<close> or its \<open>catch\<close>, and its \<open>finally\<close>.\<close>

definition save_finally :: "save_kind \<Rightarrow> user_admin \<Rightarrow> user_admin" where
  "save_finally kind st = (case kind of
     Save_quota \<Rightarrow> st\<lparr>ua_savingUserQuota := False\<rparr>
   | Save_broken_limit \<Rightarrow> st\<lparr>ua_savingUserBrokenLimit := False\<rparr>
   | Save_tag \<Rightarrow> st\<lparr>ua_savingUserTagCatalog := False\<rparr>
   | Delete_tag tag i \<Rightarrow> st\<lparr>ua_deletingUserTagId := None\<rparr>
   | _ \<Rightarrow> st\<lparr>ua_savingUserTagBinding := False\<rparr>)"

definition save_failed :: "save_kind \<Rightarrow> string \<Rightarrow> user_admin \<Rightarrow> user_admin" where
  "save_failed kind message st = save_finally kind (case kind of
     Save_quota \<Rightarrow> st\<lparr>ua_userQuotaError := Some message\<rparr>
   | Save_broken_limit \<Rightarrow> st\<lparr>ua_userBrokenLimitError := Some message\<rparr>
   | Save_tag \<Rightarrow> st\<lparr>ua_tagCatalogError := Some message\<rparr>
   | Delete_tag tag i \<Rightarrow> st\<lparr>ua_tagCatalogError := Some message\<rparr>
   | _ \<Rightarrow> st\<lparr>ua_userTagError := Some message\<rparr>)"

definition save_done :: "users_texts \<Rightarrow> int \<Rightarrow> save_kind \<Rightarrow> admin_nav \<Rightarrow> user_admin \<Rightarrow> user_admin" where
  "save_done texts now kind rendered st = save_finally kind (case kind of
     Save_quota \<Rightarrow> st\<lparr>ua_userQuotaSavedAt := Some now\<rparr>
   | Save_broken_limit \<Rightarrow> st\<lparr>ua_userBrokenLimitSavedAt := Some now\<rparr>
   | Save_tag \<Rightarrow> cancelUserTagCatalogEdit texts rendered st
   | Delete_tag tag i \<Rightarrow>
       (let st1 = (if i = Some (aut_id tag) then cancelUserTagCatalogEdit texts rendered st else st)
        in st1\<lparr>ua_pendingUserTagDelete := (case ua_pendingUserTagDelete st1 of Some current \<Rightarrow> if aut_id current = aut_id tag then None else Some current | None \<Rightarrow> None)\<rparr>)
   | Bind_tag \<Rightarrow> st\<lparr>ua_selectedBindableTagId := []\<rparr>
   | Unbind_tag \<Rightarrow> st)"

text \<open>The refreshes a save waits for with \<open>Promise.all\<close>: the last success ends it, and so does the first failure.\<close>

definition route_user :: "AdminPathRoute \<Rightarrow> string list" where
  "route_user route = (case route of RUser i \<Rightarrow> [i] | _ \<Rightarrow> [])"

definition refreshes :: "save_kind \<Rightarrow> AdminPathRoute \<Rightarrow> refresh list" where
  "refreshes kind route = (let detail = map Refresh_detail (route_user route) in case kind of
     Save_quota \<Rightarrow> detail @ [Refresh_users]
   | Save_broken_limit \<Rightarrow> detail @ [Refresh_users]
   | Save_tag \<Rightarrow> [Refresh_tags, Refresh_users] @ detail
   | Delete_tag tag i \<Rightarrow> [Refresh_tags, Refresh_users] @ detail
   | _ \<Rightarrow> detail @ [Refresh_users, Refresh_tags])"

definition write_answered :: "save_kind \<Rightarrow> admin_nav \<Rightarrow> js_error + unit \<Rightarrow> user_admin \<Rightarrow> user_admin" where
  "write_answered kind rendered r st = (case r of
     Inl e \<Rightarrow> save_failed kind (er_message e) st
   | Inr _ \<Rightarrow>
       (let rs = refreshes kind (nv_route rendered); j = ua_counter st
        in st\<lparr>ua_counter := j + 1, ua_tasks := ua_tasks st @ map (\<lambda>r. Refresh_task r j) rs,
             ua_joins := (j, \<lparr>sj_kind = kind, sj_rendered = rendered, sj_left = length rs\<rparr>) # ua_joins st\<rparr>))"

definition join_done :: "users_texts \<Rightarrow> int \<Rightarrow> nat \<Rightarrow> user_admin \<Rightarrow> user_admin" where
  "join_done texts now j st = (case map_of (ua_joins st) j of
     None \<Rightarrow> st
   | Some sj \<Rightarrow>
       if sj_left sj \<le> 1 then save_done texts now (sj_kind sj) (sj_rendered sj) (st\<lparr>ua_joins := filter (\<lambda>e. fst e \<noteq> j) (ua_joins st)\<rparr>)
       else st\<lparr>ua_joins := js_map_set j (sj\<lparr>sj_left := sj_left sj - 1\<rparr>) (ua_joins st)\<rparr>)"

definition join_failed :: "nat \<Rightarrow> js_error \<Rightarrow> user_admin \<Rightarrow> user_admin" where
  "join_failed j e st = (case map_of (ua_joins st) j of
     None \<Rightarrow> st
   | Some sj \<Rightarrow> save_failed (sj_kind sj) (er_message e) (st\<lparr>ua_joins := filter (\<lambda>e. fst e \<noteq> j) (ua_joins st)\<rparr>))"

definition refreshUserDetail :: "AdminUserDetail \<Rightarrow> user_admin \<Rightarrow> user_admin" where
  "refreshUserDetail detail st = set_detail detail st"

definition refreshUsersList :: "AdminUserSummary Paginated \<Rightarrow> user_admin \<Rightarrow> user_admin" where
  "refreshUsersList pagedUsers st = st\<lparr>ua_users := pg_items pagedUsers, ua_usersTotal := pg_total pagedUsers\<rparr>"

definition refreshTagCatalog :: "users_texts \<Rightarrow> AdminUserTag list \<Rightarrow> user_admin \<Rightarrow> user_admin" where
  "refreshTagCatalog texts tags st = (let st1 = st\<lparr>ua_tagCatalog := tags\<rparr> in tag_editor_effect texts st1 st1)"

fun users_task_answered :: "users_texts \<Rightarrow> int \<Rightarrow> users_task \<Rightarrow> users_answer \<Rightarrow> user_admin \<Rightarrow> user_admin" where
  "users_task_answered texts now (Load_detail i c) (Ans_detail r) st = (if ua_detailController st = Some c then detail_loaded r st else st)"
| "users_task_answered texts now (Load_tags c) (Ans_tags r) st = (if ua_tagsController st = Some c then tags_loaded texts r st else st)"
| "users_task_answered texts now (Load_registration c) (Ans_registration r) st = (if ua_registrationController st = Some c then registration_loaded r st else st)"
| "users_task_answered texts now (Write_task kind rendered) (Ans_write r) st = write_answered kind rendered r st"
| "users_task_answered texts now (Refresh_task (Refresh_detail i) j) (Ans_detail r) st =
     (case r of Inr detail \<Rightarrow> join_done texts now j (refreshUserDetail detail st) | Inl e \<Rightarrow> join_failed j e st)"
| "users_task_answered texts now (Refresh_task Refresh_users j) (Ans_users r) st =
     (case r of Inr pagedUsers \<Rightarrow> join_done texts now j (refreshUsersList pagedUsers st) | Inl e \<Rightarrow> join_failed j e st)"
| "users_task_answered texts now (Refresh_task Refresh_tags j) (Ans_tags r) st =
     (case r of Inr tags \<Rightarrow> join_done texts now j (refreshTagCatalog texts tags st) | Inl e \<Rightarrow> join_failed j e st)"
| "users_task_answered texts now (Registration_task previous) (Ans_registration r) st = registration_saved previous r st"
| "users_task_answered texts now _ _ st = st"

fun answer_fits :: "users_task \<Rightarrow> users_answer \<Rightarrow> bool" where
  "answer_fits (Load_detail i c) (Ans_detail r) \<longleftrightarrow> True"
| "answer_fits (Load_tags c) (Ans_tags r) \<longleftrightarrow> True"
| "answer_fits (Load_registration c) (Ans_registration r) \<longleftrightarrow> True"
| "answer_fits (Write_task kind rendered) (Ans_write r) \<longleftrightarrow> True"
| "answer_fits (Refresh_task (Refresh_detail i) j) (Ans_detail r) \<longleftrightarrow> True"
| "answer_fits (Refresh_task Refresh_users j) (Ans_users r) \<longleftrightarrow> True"
| "answer_fits (Refresh_task Refresh_tags j) (Ans_tags r) \<longleftrightarrow> True"
| "answer_fits (Registration_task previous) (Ans_registration r) \<longleftrightarrow> True"
| "answer_fits _ _ \<longleftrightarrow> False"

section \<open>Events\<close>

datatype users_event =
    UEv_nav nav_event
  | UEv_quota_input QuotaSliderField string | UEv_broken_input string | UEv_tag_input tag_field string
  | UEv_save_quota | UEv_save_broken_limit | UEv_save_tag | UEv_cancel_tag
  | UEv_request_delete AdminUserTag | UEv_close_delete | UEv_confirm_delete
  | UEv_select_bindable string | UEv_bind | UEv_unbind AdminUserTagBinding | UEv_toggle_registration
  | UEv_answer nat users_answer int

definition users_navigate :: "users_texts \<Rightarrow> nav_event \<Rightarrow> user_admin \<Rightarrow> user_admin" where
  "users_navigate texts ev st = (case ev of
     Ev_tag_create \<Rightarrow> navigateUserTagCreate texts st
   | Ev_tag_edit i \<Rightarrow> navigateUserTagEdit texts i st
   | Ev_pop p s \<Rightarrow> navigated texts True (nav_step ev (ua_nav st)) st
   | _ \<Rightarrow> navigated texts False (nav_step ev (ua_nav st)) st)"

fun users_step :: "users_texts \<Rightarrow> users_event \<Rightarrow> user_admin \<Rightarrow> user_admin" where
  "users_step texts (UEv_nav ev) st = users_navigate texts ev st"
| "users_step texts (UEv_quota_input f v) st = updateQuotaDraftField f v st"
| "users_step texts (UEv_broken_input v) st = updateUserBrokenLimitDraft v st"
| "users_step texts (UEv_tag_input f v) st = updateUserTagCatalogField f v st"
| "users_step texts UEv_save_quota st = saveUserQuota texts st"
| "users_step texts UEv_save_broken_limit st = saveUserBrokenLimit texts st"
| "users_step texts UEv_save_tag st = saveUserTagCatalog texts st"
| "users_step texts UEv_cancel_tag st = cancelUserTagCatalogEdit texts (ua_nav st) st"
| "users_step texts (UEv_request_delete tag) st = requestUserTagCatalogDelete tag st"
| "users_step texts UEv_close_delete st = closeUserTagDeleteDialog st"
| "users_step texts UEv_confirm_delete st = confirmUserTagCatalogDelete st"
| "users_step texts (UEv_select_bindable i) st = st\<lparr>ua_selectedBindableTagId := i\<rparr>"
| "users_step texts UEv_bind st = bindSelectedUserTag st"
| "users_step texts (UEv_unbind tag) st = unbindSelectedUserTag tag st"
| "users_step texts UEv_toggle_registration st = toggleAllowRegistration st"
| "users_step texts (UEv_answer n ans now) st =
     (if n < length (ua_tasks st)
      then users_task_answered texts now (ua_tasks st ! n) ans (st\<lparr>ua_tasks := take n (ua_tasks st) @ drop (n + 1) (ua_tasks st)\<rparr>) else st)"

text \<open>The page as it is loaded.\<close>

definition blank_users :: "admin_nav \<Rightarrow> user_admin" where
  "blank_users nav = \<lparr>ua_nav = nav, ua_users = [], ua_usersTotal = 0, ua_selectedUserDetail = None, ua_userDetailLoading = False,
     ua_userQuotaSnapshot = None, ua_userQuotaDraft = None, ua_savingUserQuota = False, ua_userQuotaError = None, ua_userQuotaSavedAt = None,
     ua_userBrokenLimitDraft = [], ua_savingUserBrokenLimit = False, ua_userBrokenLimitError = None, ua_userBrokenLimitSavedAt = None,
     ua_tagCatalog = [], ua_tagCatalogLoading = False, ua_tagCatalogLoadedOnce = False, ua_tagCatalogError = None,
     ua_activeUserTagEditorId = None, ua_userTagCatalogDraft = EMPTY_USER_TAG_FORM, ua_savingUserTagCatalog = False,
     ua_deletingUserTagId = None, ua_pendingUserTagDelete = None, ua_selectedBindableTagId = [], ua_savingUserTagBinding = False,
     ua_userTagError = None, ua_allowRegistration = None, ua_registrationSettingsLoaded = False, ua_registrationSettingsLoading = False,
     ua_registrationSettingsSaving = False, ua_registrationSettingsError = None, ua_tasks = [], ua_joins = [],
     ua_detailController = None, ua_tagsController = None, ua_registrationController = None, ua_counter = 0, ua_sent = []\<rparr>"

definition users_page :: "users_texts \<Rightarrow> string \<Rightarrow> string \<Rightarrow> user_admin" where
  "users_page texts pathname search = route_effects texts (blank_users (load_page pathname search))"

end
