(* ===== verification/User_Admin_Safe.thy ===== *)
theory User_Admin_Safe
  imports User_Admin
begin

text \<open>
  What the administration of users sends and shows: every request is the one its button stands for, the tags of the
  system keep their names, and the detail on the page of a user is that of this user as long as the page is not left
  while a save is pending.
\<close>

section \<open>Requests\<close>

text \<open>The request an event may send in a state.\<close>

definition effect_ok :: "UpsertAdminUserTagPayload \<Rightarrow> bool" where
  "effect_ok p \<longleftrightarrow> uautp_effectKind p = ''quota_delta'' \<or> uautp_effectKind p = ''block_all'' \<and>
     uautp_hourlyAnyDelta p = 0 \<and> uautp_hourlyDelta p = 0 \<and> uautp_dailyDelta p = 0 \<and> uautp_monthlyDelta p = 0"

definition named_ok :: "UpsertAdminUserTagPayload \<Rightarrow> bool" where
  "named_ok p \<longleftrightarrow> uautp_name p \<noteq> [] \<and> js_trim (uautp_name p) = uautp_name p \<and> uautp_displayName p \<noteq> [] \<and>
     js_trim (uautp_displayName p) = uautp_displayName p \<and> uautp_icon p \<noteq> Some []"

definition names_kept :: "AdminUserTag \<Rightarrow> UpsertAdminUserTagPayload \<Rightarrow> bool" where
  "names_kept t p \<longleftrightarrow> uautp_name p = aut_name t \<and> uautp_displayName p = aut_displayName t \<and> uautp_icon p = aut_icon t"

fun request_ok :: "users_event \<Rightarrow> user_admin \<Rightarrow> users_request \<Rightarrow> bool" where
  "request_ok ev st (Req_updateAdminUserQuota i p) \<longleftrightarrow> ev = UEv_save_quota \<and> nv_route (ua_nav st) = RUser i \<and>
     (case ua_userQuotaDraft st of None \<Rightarrow> False | Some q \<Rightarrow> parse_limit (qf_hourlyAnyLimit q) = Some (uuqp_hourlyAnyLimit p) \<and>
        parse_limit (qf_hourlyLimit q) = Some (uuqp_hourlyLimit p) \<and> parse_limit (qf_dailyLimit q) = Some (uuqp_dailyLimit p) \<and>
        parse_limit (qf_monthlyLimit q) = Some (uuqp_monthlyLimit p))"
| "request_ok ev st (Req_updateAdminUserBrokenKeyLimit i p) \<longleftrightarrow> ev = UEv_save_broken_limit \<and> nv_route (ua_nav st) = RUser i \<and>
     parse_limit (ua_userBrokenLimitDraft st) = Some (uubklp_monthlyBrokenLimit p)"
| "request_ok ev st (Req_updateAdminUserTag i p) \<longleftrightarrow> ev = UEv_save_tag \<and> tf_tagId (ua_userTagCatalogDraft st) = Some i \<and> effect_ok p \<and>
     (case find_tag i st of None \<Rightarrow> False | Some t \<Rightarrow> if aut_systemKey t \<noteq> None then names_kept t p else named_ok p)"
| "request_ok ev st (Req_createAdminUserTag p) \<longleftrightarrow> ev = UEv_save_tag \<and> effect_ok p \<and> named_ok p"
| "request_ok ev st (Req_deleteAdminUserTag i) \<longleftrightarrow> ev = UEv_confirm_delete \<and>
     (case ua_pendingUserTagDelete st of None \<Rightarrow> False | Some t \<Rightarrow> aut_id t = i \<and> \<not> truthy_str (aut_systemKey t))"
| "request_ok ev st (Req_bindAdminUserTag i t) \<longleftrightarrow> ev = UEv_bind \<and> nv_route (ua_nav st) = RUser i \<and> t = ua_selectedBindableTagId st \<and> t \<noteq> []"
| "request_ok ev st (Req_unbindAdminUserTag i t) \<longleftrightarrow> nv_route (ua_nav st) = RUser i \<and>
     (case ev of UEv_unbind b \<Rightarrow> autb_tagId b = t \<and> \<not> isSystemUserTag b \<and> autb_source b = ''manual'' | _ \<Rightarrow> False)"
| "request_ok ev st (Req_updateAdminRegistrationSettings b) \<longleftrightarrow> ev = UEv_toggle_registration \<and> ua_allowRegistration st = Some (\<not> b) \<and>
     \<not> ua_registrationSettingsSaving st \<and> \<not> ua_registrationSettingsLoading st"

lemmas effect_defs = route_effects_def tags_effect_def registration_effect_def detail_effect_def tag_editor_effect_def edit_tag_def create_tag_def
  add_users_task_def Let_def

lemma editor_effect_sent [simp]: "ua_sent (tag_editor_effect texts c st) = ua_sent st"
  by (simp add: effect_defs split: AdminPathRoute.split option.split)

lemma route_effects_sent [simp]: "ua_sent (route_effects texts st) = ua_sent st"
proof -
  have "ua_sent (detail_effect st) = ua_sent st" "ua_sent (tags_effect st) = ua_sent st" "ua_sent (registration_effect st) = ua_sent st" for st
    by (simp_all add: detail_effect_def tags_effect_def registration_effect_def add_users_task_def Let_def split: AdminPathRoute.split)
  then show ?thesis by (simp add: route_effects_def Let_def)
qed

lemma navigated_sent [simp]: "ua_sent (navigated texts b nav st) = ua_sent st"
  by (simp add: navigated_def Let_def)

lemma users_navigate_sent [simp]: "ua_sent (users_navigate texts ev st) = ua_sent st"
  by (cases ev) (simp_all add: users_navigate_def navigateUserTagCreate_def navigateUserTagEdit_def create_tag_def edit_tag_def split: option.split)

lemma cancel_sent [simp]: "ua_sent (cancelUserTagCatalogEdit texts c st) = ua_sent st"
  by (simp add: cancelUserTagCatalogEdit_def Let_def)

lemma save_ends_sent [simp]: "ua_sent (save_failed k m st) = ua_sent st" "ua_sent (save_done texts now k c st) = ua_sent st"
  by (simp_all add: save_failed_def save_done_def save_finally_def Let_def split: save_kind.split)

lemma answered_sent [simp]: "ua_sent (users_task_answered texts now t ans st) = ua_sent st"
proof -
  have joins: "ua_sent (join_done texts now j st) = ua_sent st" "ua_sent (join_failed j e st) = ua_sent st" for j e st
    by (simp_all add: join_done_def join_failed_def split: option.split)
  show ?thesis
    by (cases "(texts, now, t, ans, st)" rule: users_task_answered.cases)
      (simp_all add: joins detail_loaded_def set_detail_def tags_loaded_def registration_loaded_def registration_saved_def write_answered_def
        refreshUserDetail_def refreshUsersList_def refreshTagCatalog_def Let_def split: sum.split)
qed

lemma send_write_sent [simp]: "ua_sent (send_write rq k st) = ua_sent st @ [rq]"
  by (simp add: send_write_def add_users_task_def)

lemma quota_payload_Some:
  "quota_payload q = Some p \<longleftrightarrow> parse_limit (qf_hourlyAnyLimit q) = Some (uuqp_hourlyAnyLimit p) \<and> parse_limit (qf_hourlyLimit q) = Some (uuqp_hourlyLimit p) \<and>
     parse_limit (qf_dailyLimit q) = Some (uuqp_dailyLimit p) \<and> parse_limit (qf_monthlyLimit q) = Some (uuqp_monthlyLimit p)"
  by (cases p) (auto simp: quota_payload_def split: option.splits)

lemma tag_payload_ok:
  assumes "tag_payload editing draft = Some p"
  shows "effect_ok p" "case editing of Some t \<Rightarrow> if aut_systemKey t \<noteq> None then names_kept t p else named_ok p | None \<Rightarrow> named_ok p"
  using assms by (auto simp: tag_payload_def Let_def effect_ok_def names_kept_def named_ok_def split: option.splits if_splits)

lemma find_tag_id: "find_tag i st = Some t \<Longrightarrow> aut_id t = i"
  by (auto simp: find_tag_def find_Some_iff)

lemma save_tag_sent: "\<exists>rs. ua_sent (saveUserTagCatalog texts st) = ua_sent st @ rs \<and> (\<forall>r \<in> set rs. request_ok UEv_save_tag st r)"
proof -
  let ?draft = "ua_userTagCatalogDraft st"
  define editing where "editing = (if truthy_str (tf_tagId ?draft) then Option.bind (tf_tagId ?draft) (\<lambda>i. find_tag i st) else None)"
  have found: "tf_tagId ?draft = Some (aut_id t) \<and> find_tag (aut_id t) st = Some t" if "editing = Some t" for t
    using that by (auto simp: editing_def find_tag_id split: if_splits bind_splits)
  show ?thesis
    unfolding saveUserTagCatalog_def Let_def editing_def [symmetric]
    using found tag_payload_ok [of editing ?draft] by (cases "tag_payload editing ?draft"; cases editing) auto
qed

lemma step_sent: "\<exists>rs. ua_sent (users_step texts ev st) = ua_sent st @ rs \<and> (\<forall>r \<in> set rs. request_ok ev st r)"
proof (cases ev)
  case UEv_save_quota
  then show ?thesis by (auto simp: saveUserQuota_def quota_payload_Some split: AdminPathRoute.split option.split)
next
  case UEv_save_broken_limit
  then show ?thesis by (auto simp: saveUserBrokenLimit_def split: AdminPathRoute.split option.split)
next
  case UEv_save_tag
  then show ?thesis using save_tag_sent by simp
qed (auto simp: updateQuotaDraftField_def updateUserBrokenLimitDraft_def updateUserTagCatalogField_def requestUserTagCatalogDelete_def closeUserTagDeleteDialog_def
    confirmUserTagCatalogDelete_def bindSelectedUserTag_def unbindSelectedUserTag_def toggleAllowRegistration_def add_users_task_def Let_def
    split: option.split AdminPathRoute.split)

interpretation users: event_log "users_step texts" ua_sent request_ok for texts
  by unfold_locales (rule step_sent)

lemma users_page_sent [simp]: "ua_sent (users_page texts p s) = []"
  by (simp add: users_page_def blank_users_def)

section \<open>The detail on the page of a user\<close>

text \<open>The tasks that will show the detail of a user, and what must hold of them on a route.\<close>

fun shows_detail :: "users_task \<Rightarrow> string list" where
  "shows_detail (Write_task kind rendered) = route_user (nv_route rendered)"
| "shows_detail (Refresh_task (Refresh_detail i) j) = [i]"
| "shows_detail _ = []"

fun load_ok :: "user_admin \<Rightarrow> users_task \<Rightarrow> bool" where
  "load_ok st (Load_detail i c) \<longleftrightarrow> c < ua_counter st \<and> (ua_detailController st = Some c \<longrightarrow> nv_route (ua_nav st) = RUser i)"
| "load_ok st _ \<longleftrightarrow> True"

definition pending_ok :: "user_admin \<Rightarrow> bool" where
  "pending_ok st \<longleftrightarrow> (\<forall>t \<in> set (ua_tasks st). load_ok st t \<and> (\<forall>i \<in> set (shows_detail t). nv_route (ua_nav st) = RUser i))"

fun detail_matches :: "AdminPathRoute \<Rightarrow> AdminUserDetail option \<Rightarrow> bool \<Rightarrow> bool" where
  "detail_matches (RUser i) (Some d) loading \<longleftrightarrow> loading \<or> aus_userId d = i"
| "detail_matches _ _ loading \<longleftrightarrow> True"

definition detail_ok :: "user_admin \<Rightarrow> bool" where
  "detail_ok st \<longleftrightarrow> detail_matches (nv_route (ua_nav st)) (ua_selectedUserDetail st) (ua_userDetailLoading st)"

definition detail_inv :: "user_admin \<Rightarrow> bool" where
  "detail_inv st \<longleftrightarrow> pending_ok st \<and> detail_ok st"

text \<open>The events considered: answers fit their requests and give the user asked for, and no event leaves the page
  while a save is going to show the detail of its user.\<close>

fun honest :: "users_task \<Rightarrow> users_answer \<Rightarrow> bool" where
  "honest (Load_detail i c) (Ans_detail (Inr d)) \<longleftrightarrow> aus_userId d = i"
| "honest (Refresh_task (Refresh_detail i) j) (Ans_detail (Inr d)) \<longleftrightarrow> aus_userId d = i"
| "honest t ans \<longleftrightarrow> answer_fits t ans"

definition calm :: "user_admin \<Rightarrow> bool" where
  "calm st \<longleftrightarrow> list_all (\<lambda>t. shows_detail t = []) (ua_tasks st)"

definition stays :: "users_texts \<Rightarrow> user_admin \<Rightarrow> users_event \<Rightarrow> bool" where
  "stays texts st ev \<longleftrightarrow> (nv_route (ua_nav (users_step texts ev st)) = nv_route (ua_nav st) \<or> calm st) \<and>
     (case ev of UEv_answer n ans now \<Rightarrow> n < length (ua_tasks st) \<and> honest (ua_tasks st ! n) ans | _ \<Rightarrow> True)"

lemma load_ok_cong:
  "ua_counter st \<le> ua_counter st' \<Longrightarrow> ua_detailController st' = ua_detailController st \<Longrightarrow> nv_route (ua_nav st') = nv_route (ua_nav st) \<Longrightarrow> load_ok st t \<Longrightarrow> load_ok st' t"
  by (cases t) auto

lemma inv_frame:
  assumes "detail_inv st" "nv_route (ua_nav st') = nv_route (ua_nav st)" "set (ua_tasks st') \<subseteq> set (ua_tasks st) \<union> new" "ua_detailController st' = ua_detailController st"
    "ua_counter st \<le> ua_counter st'" "ua_selectedUserDetail st' = ua_selectedUserDetail st" "ua_userDetailLoading st' = ua_userDetailLoading st"
    "\<And>t. t \<in> new \<Longrightarrow> load_ok st' t \<and> (\<forall>i \<in> set (shows_detail t). nv_route (ua_nav st) = RUser i)"
  shows "detail_inv st'"
proof -
  have "detail_ok st'" using assms(1) by (simp add: detail_inv_def detail_ok_def assms(2,6,7))
  moreover have "pending_ok st'"
    unfolding pending_ok_def
  proof
    fix t assume "t \<in> set (ua_tasks st')"
    then consider "t \<in> set (ua_tasks st)" | "t \<in> new" using assms(3) by blast
    then show "load_ok st' t \<and> (\<forall>i \<in> set (shows_detail t). nv_route (ua_nav st') = RUser i)"
      by cases (use assms(1,2,8) load_ok_cong [OF assms(5,4,2)] in \<open>auto simp: detail_inv_def pending_ok_def\<close>)
  qed
  ultimately show ?thesis by (simp add: detail_inv_def)
qed

lemmas inv_same = inv_frame [where new = "{}", simplified]

lemma send_write_inv: "detail_inv st \<Longrightarrow> detail_inv (send_write rq k st)"
  by (rule inv_frame [where new = "{Write_task k (ua_nav st)}"]) (auto simp: send_write_def add_users_task_def route_user_def split: AdminPathRoute.splits)

text \<open>A new route.\<close>

lemma editor_effect_frame [simp]:
  "ua_nav (tag_editor_effect texts c st) = ua_nav st" "ua_tasks (tag_editor_effect texts c st) = ua_tasks st"
  "ua_detailController (tag_editor_effect texts c st) = ua_detailController st" "ua_counter (tag_editor_effect texts c st) = ua_counter st"
  "ua_selectedUserDetail (tag_editor_effect texts c st) = ua_selectedUserDetail st" "ua_userDetailLoading (tag_editor_effect texts c st) = ua_userDetailLoading st"
  by (simp_all add: tag_editor_effect_def create_tag_def edit_tag_def split: AdminPathRoute.split option.split)

lemma load_effects_frame [simp]:
  "ua_nav (tags_effect st) = ua_nav st" "ua_nav (registration_effect st) = ua_nav st"
  "ua_counter st \<le> ua_counter (tags_effect st)" "ua_counter st \<le> ua_counter (registration_effect st)"
  by (simp_all add: tags_effect_def registration_effect_def add_users_task_def Let_def)

lemma load_effects_tasks:
  "set (ua_tasks (tags_effect st)) \<subseteq> set (ua_tasks st) \<union> {Load_tags (ua_counter st)}"
  "set (ua_tasks (registration_effect st)) \<subseteq> set (ua_tasks st) \<union> {Load_registration (ua_counter st)}"
  by (auto simp: tags_effect_def registration_effect_def add_users_task_def Let_def)

definition fresh_loads :: "user_admin \<Rightarrow> bool" where
  "fresh_loads st \<longleftrightarrow> (\<forall>t \<in> set (ua_tasks st). (case t of Load_detail i c \<Rightarrow> c < ua_counter st | _ \<Rightarrow> True) \<and> (\<forall>i \<in> set (shows_detail t). nv_route (ua_nav st) = RUser i))"

lemma fresh_effects: "fresh_loads st \<Longrightarrow> fresh_loads (tags_effect st)" "fresh_loads st \<Longrightarrow> fresh_loads (registration_effect st)"
  by (auto simp: fresh_loads_def tags_effect_def registration_effect_def add_users_task_def Let_def less_SucI split: users_task.split)

lemma detail_effect_inv:
  assumes "fresh_loads st"
  shows "detail_inv (detail_effect st)"
proof -
  let ?st' = "detail_effect st"
  have route: "nv_route (ua_nav ?st') = nv_route (ua_nav st)"
    by (simp add: detail_effect_def add_users_task_def Let_def split: AdminPathRoute.split)
  have loads: "load_ok ?st' t" if "t \<in> set (ua_tasks ?st')" for t
  proof (cases t)
    case (Load_detail i c)
    then show ?thesis using that assms
      by (cases "nv_route (ua_nav st)") (fastforce simp: fresh_loads_def detail_effect_def add_users_task_def Let_def)+
  qed simp_all
  have details: "nv_route (ua_nav st) = RUser i" if "t \<in> set (ua_tasks ?st')" "i \<in> set (shows_detail t)" for t i
    using that assms by (cases "nv_route (ua_nav st)") (auto simp: fresh_loads_def detail_effect_def add_users_task_def Let_def)
  have "detail_ok ?st'"
    by (cases "nv_route (ua_nav st)"; cases "ua_selectedUserDetail st") (simp_all add: detail_ok_def detail_effect_def add_users_task_def Let_def)
  then show ?thesis using loads details route by (simp add: detail_inv_def pending_ok_def)
qed

lemma editor_effect_inv [simp]: "detail_inv (tag_editor_effect texts c st) = detail_inv st" "fresh_loads (tag_editor_effect texts c st) = fresh_loads st"
proof -
  have "load_ok (tag_editor_effect texts c st) t = load_ok st t" for t by (cases t) simp_all
  then show "detail_inv (tag_editor_effect texts c st) = detail_inv st" by (simp add: detail_inv_def pending_ok_def detail_ok_def)
  show "fresh_loads (tag_editor_effect texts c st) = fresh_loads st" by (simp add: fresh_loads_def cong: users_task.case_cong)
qed

lemma route_effects_inv: "fresh_loads st \<Longrightarrow> detail_inv (route_effects texts st)"
  by (simp add: route_effects_def Let_def detail_effect_inv fresh_effects)

lemma inv_fresh:
  assumes "detail_inv st" "nv_route nav = nv_route (ua_nav st) \<or> calm st"
  shows "fresh_loads (st\<lparr>ua_nav := nav\<rparr>)"
proof -
  have "c < ua_counter st" if "Load_detail i c \<in> set (ua_tasks st)" for i c
    using assms(1) that by (fastforce simp: detail_inv_def pending_ok_def)
  moreover have "nv_route nav = RUser i" if "t \<in> set (ua_tasks st)" "i \<in> set (shows_detail t)" for t i
    using assms that by (auto simp: detail_inv_def pending_ok_def calm_def list_all_iff)
  ultimately show ?thesis by (auto simp: fresh_loads_def split: users_task.split)
qed

lemma navigated_inv:
  assumes "detail_inv st" "nv_route nav = nv_route (ua_nav st) \<or> calm st"
  shows "detail_inv (navigated texts b nav st)"
proof (cases "b \<or> nv_route nav \<noteq> nv_route (ua_nav st)")
  case True
  then show ?thesis using route_effects_inv [OF inv_fresh [OF assms]] by (simp add: navigated_def Let_def)
next
  case False
  then show ?thesis by (simp add: navigated_def Let_def) (rule inv_same [OF assms(1)]; simp)
qed

lemma users_navigate_inv:
  assumes "detail_inv st" "nv_route (nav_step ev (ua_nav st)) = nv_route (ua_nav st) \<or> calm st"
  shows "detail_inv (users_navigate texts ev st)"
proof -
  have create: "detail_inv (create_tag st)" "calm (create_tag st) = calm st"
    by (rule inv_same [OF assms(1)]; simp add: create_tag_def) (simp add: create_tag_def calm_def)
  have edit: "detail_inv (edit_tag t st)" "calm (edit_tag t st) = calm st" for t
    by (rule inv_same [OF assms(1)]; simp add: edit_tag_def) (simp add: edit_tag_def calm_def)
  show ?thesis
  proof (cases ev)
    case Ev_tag_create
    then show ?thesis using assms create navigated_inv [OF create(1)]
      by (simp add: users_navigate_def navigateUserTagCreate_def) (simp add: create_tag_def)
  next
    case (Ev_tag_edit i)
    then show ?thesis using assms edit navigated_inv [OF edit(1)] navigated_inv [OF assms(1)]
      by (simp add: users_navigate_def navigateUserTagEdit_def split: option.split) (simp add: edit_tag_def)
  qed (use assms in \<open>simp_all add: users_navigate_def navigated_inv\<close>)
qed

text \<open>Answers.\<close>

lemma drop_task_inv: "detail_inv st \<Longrightarrow> detail_inv (st\<lparr>ua_tasks := take n (ua_tasks st) @ drop (n + 1) (ua_tasks st)\<rparr>)"
  by (rule inv_same) (auto dest: in_set_takeD in_set_dropD)

lemma set_detail_inv: "detail_inv st \<Longrightarrow> nv_route (ua_nav st) = RUser (aus_userId d) \<Longrightarrow> detail_inv (set_detail d st)"
proof -
  assume inv: "detail_inv st" and route: "nv_route (ua_nav st) = RUser (aus_userId d)"
  have "load_ok (set_detail d st) t = load_ok st t" for t by (cases t) (simp_all add: set_detail_def)
  then show ?thesis using inv route by (simp add: detail_inv_def pending_ok_def detail_ok_def) (simp add: set_detail_def)
qed

lemma save_finally_inv [simp]: "detail_inv (save_finally k st) = detail_inv st"
proof -
  have "load_ok (save_finally k st) t = load_ok st t" for t by (cases t; cases k) (simp_all add: save_finally_def)
  then show ?thesis by (cases k) (simp_all add: detail_inv_def pending_ok_def detail_ok_def save_finally_def)
qed

lemma same_inv:
  assumes "ua_nav st' = ua_nav st" "ua_tasks st' = ua_tasks st" "ua_detailController st' = ua_detailController st" "ua_counter st' = ua_counter st"
    "ua_selectedUserDetail st' = ua_selectedUserDetail st" "ua_userDetailLoading st' = ua_userDetailLoading st"
  shows "detail_inv st' = detail_inv st" "calm st' = calm st"
proof -
  have "load_ok st' t = load_ok st t" for t by (cases t) (simp_all add: assms)
  then show "detail_inv st' = detail_inv st" by (simp add: detail_inv_def pending_ok_def detail_ok_def assms)
  show "calm st' = calm st" by (simp add: calm_def assms)
qed

lemma update_inv [simp]:
  "detail_inv (ua_users_update f1 st) = detail_inv st" "calm (ua_users_update f1 st) = calm st"
  "detail_inv (ua_usersTotal_update f2 st) = detail_inv st" "calm (ua_usersTotal_update f2 st) = calm st"
  "detail_inv (ua_userQuotaSnapshot_update f3 st) = detail_inv st" "calm (ua_userQuotaSnapshot_update f3 st) = calm st"
  "detail_inv (ua_userQuotaDraft_update f4 st) = detail_inv st" "calm (ua_userQuotaDraft_update f4 st) = calm st"
  "detail_inv (ua_savingUserQuota_update f5 st) = detail_inv st" "calm (ua_savingUserQuota_update f5 st) = calm st"
  "detail_inv (ua_userQuotaError_update f6 st) = detail_inv st" "calm (ua_userQuotaError_update f6 st) = calm st"
  "detail_inv (ua_userQuotaSavedAt_update f7 st) = detail_inv st" "calm (ua_userQuotaSavedAt_update f7 st) = calm st"
  "detail_inv (ua_userBrokenLimitDraft_update f8 st) = detail_inv st" "calm (ua_userBrokenLimitDraft_update f8 st) = calm st"
  "detail_inv (ua_savingUserBrokenLimit_update f9 st) = detail_inv st" "calm (ua_savingUserBrokenLimit_update f9 st) = calm st"
  "detail_inv (ua_userBrokenLimitError_update f10 st) = detail_inv st" "calm (ua_userBrokenLimitError_update f10 st) = calm st"
  "detail_inv (ua_userBrokenLimitSavedAt_update f11 st) = detail_inv st" "calm (ua_userBrokenLimitSavedAt_update f11 st) = calm st"
  "detail_inv (ua_tagCatalog_update f12 st) = detail_inv st" "calm (ua_tagCatalog_update f12 st) = calm st"
  "detail_inv (ua_tagCatalogLoading_update f13 st) = detail_inv st" "calm (ua_tagCatalogLoading_update f13 st) = calm st"
  "detail_inv (ua_tagCatalogLoadedOnce_update f14 st) = detail_inv st" "calm (ua_tagCatalogLoadedOnce_update f14 st) = calm st"
  "detail_inv (ua_tagCatalogError_update f15 st) = detail_inv st" "calm (ua_tagCatalogError_update f15 st) = calm st"
  "detail_inv (ua_activeUserTagEditorId_update f16 st) = detail_inv st" "calm (ua_activeUserTagEditorId_update f16 st) = calm st"
  "detail_inv (ua_userTagCatalogDraft_update f17 st) = detail_inv st" "calm (ua_userTagCatalogDraft_update f17 st) = calm st"
  "detail_inv (ua_savingUserTagCatalog_update f18 st) = detail_inv st" "calm (ua_savingUserTagCatalog_update f18 st) = calm st"
  "detail_inv (ua_deletingUserTagId_update f19 st) = detail_inv st" "calm (ua_deletingUserTagId_update f19 st) = calm st"
  "detail_inv (ua_pendingUserTagDelete_update f20 st) = detail_inv st" "calm (ua_pendingUserTagDelete_update f20 st) = calm st"
  "detail_inv (ua_selectedBindableTagId_update f21 st) = detail_inv st" "calm (ua_selectedBindableTagId_update f21 st) = calm st"
  "detail_inv (ua_savingUserTagBinding_update f22 st) = detail_inv st" "calm (ua_savingUserTagBinding_update f22 st) = calm st"
  "detail_inv (ua_userTagError_update f23 st) = detail_inv st" "calm (ua_userTagError_update f23 st) = calm st"
  "detail_inv (ua_allowRegistration_update f24 st) = detail_inv st" "calm (ua_allowRegistration_update f24 st) = calm st"
  "detail_inv (ua_registrationSettingsLoaded_update f25 st) = detail_inv st" "calm (ua_registrationSettingsLoaded_update f25 st) = calm st"
  "detail_inv (ua_registrationSettingsLoading_update f26 st) = detail_inv st" "calm (ua_registrationSettingsLoading_update f26 st) = calm st"
  "detail_inv (ua_registrationSettingsSaving_update f27 st) = detail_inv st" "calm (ua_registrationSettingsSaving_update f27 st) = calm st"
  "detail_inv (ua_registrationSettingsError_update f28 st) = detail_inv st" "calm (ua_registrationSettingsError_update f28 st) = calm st"
  "detail_inv (ua_joins_update f29 st) = detail_inv st" "calm (ua_joins_update f29 st) = calm st"
  "detail_inv (ua_sent_update f30 st) = detail_inv st" "calm (ua_sent_update f30 st) = calm st"
  by (rule same_inv; simp)+

lemma route_effects_nav [simp]: "ua_nav (route_effects texts st) = ua_nav st"
proof -
  have "ua_nav (detail_effect st) = ua_nav st" for st
    by (simp add: detail_effect_def add_users_task_def Let_def split: AdminPathRoute.split)
  then show ?thesis by (simp add: route_effects_def Let_def)
qed

lemma navigated_nav [simp]: "ua_nav (navigated texts b nav st) = nav"
  by (simp add: navigated_def Let_def)

lemma cancel_inv:
  assumes "detail_inv st" "nv_route (ua_nav (cancelUserTagCatalogEdit texts c st)) = nv_route (ua_nav st) \<or> calm st"
  shows "detail_inv (cancelUserTagCatalogEdit texts c st)"
proof -
  let ?st = "st\<lparr>ua_activeUserTagEditorId := None, ua_userTagCatalogDraft := EMPTY_USER_TAG_FORM, ua_tagCatalogError := None\<rparr>"
  show ?thesis using assms navigated_inv [of ?st] by (simp add: cancelUserTagCatalogEdit_def Let_def split: if_splits)
qed

lemma save_failed_inv [simp]: "detail_inv (save_failed k m st) = detail_inv st"
  by (cases k) (simp_all add: save_failed_def)

lemma save_finally_nav [simp]: "ua_nav (save_finally k st) = ua_nav st"
  by (cases k) (simp_all add: save_finally_def)

lemma save_done_inv:
  assumes "detail_inv st" "nv_route (ua_nav (save_done texts now k c st)) = nv_route (ua_nav st) \<or> calm st"
  shows "detail_inv (save_done texts now k c st)"
proof (cases k)
  case Save_tag
  then show ?thesis using assms by (simp add: save_done_def cancel_inv)
next
  case (Delete_tag tag i)
  then show ?thesis using assms by (cases "i = Some (aut_id tag)") (simp_all add: save_done_def Let_def cancel_inv)
qed (use assms in \<open>simp_all add: save_done_def\<close>)

lemma join_done_inv:
  assumes "detail_inv st" "nv_route (ua_nav (join_done texts now j st)) = nv_route (ua_nav st) \<or> calm st"
  shows "detail_inv (join_done texts now j st)"
proof (cases "map_of (ua_joins st) j")
  case (Some sj)
  let ?st = "st\<lparr>ua_joins := filter (\<lambda>e. fst e \<noteq> j) (ua_joins st)\<rparr>"
  show ?thesis
  proof (cases "sj_left sj \<le> 1")
    case True
    with Some have "join_done texts now j st = save_done texts now (sj_kind sj) (sj_rendered sj) ?st" by (simp add: join_done_def)
    then show ?thesis using assms save_done_inv [of ?st] by simp
  next
    case False
    with Some assms show ?thesis by (simp add: join_done_def)
  qed
qed (use assms in \<open>simp add: join_done_def\<close>)

lemma join_failed_inv: "detail_inv st \<Longrightarrow> detail_inv (join_failed j e st)"
  by (simp add: join_failed_def split: option.split)

lemma editor_effect_calm [simp]: "calm (tag_editor_effect texts c st) = calm st"
  by (simp add: calm_def)

lemma refresh_list_inv [simp]: "detail_inv (refreshUsersList us st) = detail_inv st" "calm (refreshUsersList us st) = calm st" "ua_nav (refreshUsersList us st) = ua_nav st"
  by (simp_all add: refreshUsersList_def)

lemma refresh_tags_inv [simp]: "detail_inv (refreshTagCatalog texts ts st) = detail_inv st" "calm (refreshTagCatalog texts ts st) = calm st" "ua_nav (refreshTagCatalog texts ts st) = ua_nav st"
  by (simp_all add: refreshTagCatalog_def Let_def)

lemma loads_inv [simp]: "detail_inv (tags_loaded texts r st) = detail_inv st" "detail_inv (registration_loaded q st) = detail_inv st"
    "detail_inv (registration_saved b q st) = detail_inv st"
  by (simp_all add: tags_loaded_def registration_loaded_def registration_saved_def Let_def split: sum.split)

lemma refreshes_users: "Refresh_detail i \<in> set (refreshes k route) \<Longrightarrow> route = RUser i"
  by (auto simp: refreshes_def route_user_def Let_def split: save_kind.splits AdminPathRoute.splits)

lemma write_answered_inv:
  assumes "detail_inv st" "\<forall>i \<in> set (route_user (nv_route c)). nv_route (ua_nav st) = RUser i"
  shows "detail_inv (write_answered k c r st)"
proof (cases r)
  case (Inr u)
  have "nv_route (ua_nav st) = RUser i" if "i \<in> set (shows_detail (Refresh_task x j))" "x \<in> set (refreshes k (nv_route c))" for i x j
    using that assms(2) refreshes_users [of i k "nv_route c"] by (cases x) (auto simp: route_user_def)
  then show ?thesis
    by (intro inv_frame [OF assms(1), of _ "(\<lambda>x. Refresh_task x (ua_counter st)) ` set (refreshes k (nv_route c))"])
      (auto simp: write_answered_def Inr Let_def)
qed (use assms in \<open>simp add: write_answered_def\<close>)

lemma detail_loaded_inv:
  assumes "detail_inv st" "\<And>d. r = Inr d \<Longrightarrow> nv_route (ua_nav st) = RUser (aus_userId d)"
  shows "detail_inv (detail_loaded r st)"
proof (cases r)
  case (Inl e)
  have "load_ok (detail_loaded r st) t = load_ok st t" for t by (cases t) (simp_all add: detail_loaded_def Inl)
  then show ?thesis using assms(1) by (simp add: detail_inv_def pending_ok_def detail_ok_def) (simp add: detail_loaded_def Inl)
next
  case (Inr d)
  have "load_ok (detail_loaded r st) t = load_ok st t" for t by (cases t) (simp_all add: detail_loaded_def set_detail_def Inr)
  then show ?thesis using assms by (simp add: detail_inv_def pending_ok_def detail_ok_def) (simp add: detail_loaded_def set_detail_def Inr)
qed

lemma answered_inv:
  assumes "detail_inv st" "load_ok st t" "\<forall>i \<in> set (shows_detail t). nv_route (ua_nav st) = RUser i" "honest t ans"
    "nv_route (ua_nav (users_task_answered texts now t ans st)) = nv_route (ua_nav st) \<or> calm st"
  shows "detail_inv (users_task_answered texts now t ans st)"
  using assms
proof (cases "(t, ans)" rule: answer_fits.cases)
  case (1 i c r)
  with assms show ?thesis by (cases r) (auto intro!: detail_loaded_inv)
next
  case (5 i j r)
  have "calm (set_detail d st) = calm st" "ua_nav (set_detail d st) = ua_nav st" for d by (simp_all add: calm_def set_detail_def)
  with 5 assms show ?thesis by (cases r) (auto simp: refreshUserDetail_def intro!: join_done_inv join_failed_inv set_detail_inv)
qed (auto simp: write_answered_inv join_done_inv join_failed_inv split: sum.splits)

lemma task_known:
  assumes "detail_inv st" "n < length (ua_tasks st)"
  shows "load_ok (ua_tasks_update f st) (ua_tasks st ! n)" "\<forall>i \<in> set (shows_detail (ua_tasks st ! n)). nv_route (ua_nav st) = RUser i"
proof -
  have t: "ua_tasks st ! n \<in> set (ua_tasks st)" using assms(2) by simp
  have "load_ok (ua_tasks_update f st) t = load_ok st t" for t by (cases t) simp_all
  then show "load_ok (ua_tasks_update f st) (ua_tasks st ! n)" using assms(1) t by (simp add: detail_inv_def pending_ok_def)
  show "\<forall>i \<in> set (shows_detail (ua_tasks st ! n)). nv_route (ua_nav st) = RUser i" using assms(1) t by (simp add: detail_inv_def pending_ok_def)
qed

lemma registration_task_inv: "detail_inv st \<Longrightarrow> detail_inv (add_users_task (Registration_task b) st)"
  by (rule inv_frame [where new = "{Registration_task b}"]) (auto simp: add_users_task_def)

lemma users_nav: "ua_nav (users_navigate texts ev st) = nav_step ev (ua_nav st)"
  by (cases ev) (simp_all add: users_navigate_def navigateUserTagCreate_def navigateUserTagEdit_def create_tag_def edit_tag_def split: option.split)

lemma users_step_inv:
  assumes "detail_inv st" "stays texts st ev"
  shows "detail_inv (users_step texts ev st)"
proof (cases ev)
  case (UEv_nav e)
  with assms show ?thesis by (simp add: stays_def users_navigate_inv users_nav)
next
  case UEv_cancel_tag
  with assms show ?thesis by (simp add: stays_def cancel_inv)
next
  case (UEv_answer n ans now)
  let ?st = "st\<lparr>ua_tasks := take n (ua_tasks st) @ drop (n + 1) (ua_tasks st)\<rparr>"
  have n: "n < length (ua_tasks st)" using assms(2) by (simp add: stays_def UEv_answer)
  have "calm st \<Longrightarrow> calm ?st" by (auto simp: calm_def list_all_iff dest: in_set_takeD in_set_dropD)
  then show ?thesis using assms(2) answered_inv [OF drop_task_inv [OF assms(1)] task_known(1) [OF assms(1) n], of n ans texts now] task_known(2) [OF assms(1) n] n
    by (auto simp: stays_def UEv_answer)
qed (use assms(1) in \<open>auto simp: saveUserQuota_def saveUserBrokenLimit_def saveUserTagCatalog_def updateQuotaDraftField_def updateUserBrokenLimitDraft_def updateUserTagCatalogField_def
    requestUserTagCatalogDelete_def closeUserTagDeleteDialog_def confirmUserTagCatalogDelete_def bindSelectedUserTag_def unbindSelectedUserTag_def toggleAllowRegistration_def
    Let_def send_write_inv intro!: registration_task_inv split: option.split AdminPathRoute.split\<close>)

interpretation detail: event_invariant "stays texts" "users_step texts" detail_inv for texts
  by unfold_locales (rule users_step_inv)

lemma users_page_inv: "detail_inv (users_page texts p s)"
  unfolding users_page_def by (rule route_effects_inv) (simp add: fresh_loads_def blank_users_def)

section \<open>Properties\<close>

text \<open>A user with the same limit in every window, for the concrete runs.\<close>

definition limit_set :: "int \<Rightarrow> AdminQuotaLimitSet" where
  "limit_set n = \<lparr>aqls_hourlyAnyLimit = n, aqls_hourlyLimit = n, aqls_dailyLimit = n, aqls_monthlyLimit = n, aqls_inheritsDefaults = False\<rparr>"

definition plain_user :: "string \<Rightarrow> int \<Rightarrow> AdminUserDetail" where
  "plain_user i n = \<lparr>aus_userId = i, aus_displayName = None, aus_username = None, aus_active = True, aus_lastLoginAt = None, aus_tokenCount = 0,
     aus_apiKeyCount = 0, aus_tags = [], aus_hourlyAnyUsed = 0, aus_hourlyAnyLimit = n, aus_quotaHourlyUsed = 0, aus_quotaHourlyLimit = n,
     aus_quotaDailyUsed = 0, aus_quotaDailyLimit = n, aus_quotaMonthlyUsed = 0, aus_quotaMonthlyLimit = n, aus_dailySuccess = 0, aus_dailyFailure = 0,
     aus_monthlySuccess = 0, aus_monthlyFailure = 0, aus_monthlyBrokenCount = 0, aus_monthlyBrokenLimit = 5, aus_lastActivity = None,
     aud_tokens = [], aud_quotaBase = limit_set n, aud_effectiveQuota = limit_set n, aud_quotaBreakdown = []\<rparr>"

definition plain_users_texts :: users_texts where
  "plain_users_texts = \<lparr>ut_quota_invalid = ''quota'', ut_brokenKeys_invalid = ''broken'', ut_catalog_invalid = ''tag'', ut_catalog_tagNotFound = ''missing''\<rparr>"

abbreviation alice_page :: "users_texts \<Rightarrow> user_admin" where
  "alice_page texts \<equiv> users_page texts ''/admin/users/alice'' []"

text \<open>A tag of the system.\<close>

definition system_tag :: AdminUserTag where
  "system_tag = \<lparr>aut_id = ''t1'', aut_name = ''linuxdo'', aut_displayName = ''L'', aut_icon = None, aut_systemKey = Some ''linuxdo_l1'',
     aut_effectKind = ''quota_delta'', aut_hourlyAnyDelta = 0, aut_hourlyDelta = 0, aut_dailyDelta = 0, aut_monthlyDelta = 0, aut_userCount = 3\<rparr>"


lemma tag_page: "nv_route (load_page ''/admin/users/tags/t1'' []) = RUserTagEdit ''t1''"
  by code_simp

lemma parsed_deltas: "parse_finite (int_to_string 0) = Some 0" "parse_finite ''-5'' = Some (- 5)"
  by code_simp+


text \<open>C11: when the page of a user is not left while a save is pending, the detail it shows, once it has loaded, is that of
  the user its route names.\<close>

theorem user_detail_of_route:
  assumes "enabled_run (stays texts) (users_step texts) (users_page texts pathname search) evs"
    and "nv_route (ua_nav (fold (users_step texts) evs (users_page texts pathname search))) = RUser i"
    and "ua_selectedUserDetail (fold (users_step texts) evs (users_page texts pathname search)) = Some d"
    and "\<not> ua_userDetailLoading (fold (users_step texts) evs (users_page texts pathname search))"
  shows "aus_userId d = i"
  using detail.run_inv [OF users_page_inv assms(1)] assms(2-4) by (simp add: detail_inv_def detail_ok_def)

text \<open>Runs on the pages of two users, step by step.\<close>

lemma alice_bob:
  "nv_route (load_page ''/admin/users/alice'' []) = RUser ''alice''"
  "nv_route (navigateUser ''bob'' False (load_page ''/admin/users/alice'' [])) = RUser ''bob''"
  by code_simp+

lemma route_effects_user:
  assumes "nv_route (ua_nav st) = RUser i"
  shows "route_effects texts st = st\<lparr>ua_tagsController := Some (ua_counter st), ua_tagCatalogLoading := True, ua_tagCatalogError := None,
     ua_registrationController := Some (ua_counter st + 1), ua_registrationSettingsLoading := True, ua_registrationSettingsError := None,
     ua_detailController := Some (ua_counter st + 2), ua_userDetailLoading := True, ua_userQuotaError := None, ua_counter := ua_counter st + 3,
     ua_tasks := ua_tasks st @ [Load_tags (ua_counter st), Load_registration (ua_counter st + 1), Load_detail i (ua_counter st + 2)]\<rparr>"
  using assms by (simp add: effect_defs isUserUsageRoute_def)

lemma alice_page_state:
  "ua_nav (alice_page texts) = load_page ''/admin/users/alice'' []" "ua_tasks (alice_page texts) = [Load_tags 0, Load_registration 1, Load_detail ''alice'' 2]"
  "ua_joins (alice_page texts) = []" "ua_counter (alice_page texts) = 3" "ua_detailController (alice_page texts) = Some 2" "ua_sent (alice_page texts) = []"
  by (simp_all add: users_page_def blank_users_def route_effects_user alice_bob)

lemma bob_page_state:
  fixes texts :: users_texts and st :: user_admin
  assumes "ua_nav st = load_page ''/admin/users/alice'' []"
  defines "st' \<equiv> users_step texts (UEv_nav (Ev_user ''bob'' False)) st"
  shows "nv_route (ua_nav st') = RUser ''bob''" "ua_tasks st' = ua_tasks st @ [Load_tags (ua_counter st), Load_registration (ua_counter st + 1), Load_detail ''bob'' (ua_counter st + 2)]"
    "ua_joins st' = ua_joins st" "ua_counter st' = ua_counter st + 3" "ua_detailController st' = Some (ua_counter st + 2)" "ua_userDetailLoading st'"
  by (simp_all add: st'_def assms(1) users_navigate_def navigated_def Let_def alice_bob route_effects_user)

theorem user_detail_of_route_witness:
  "let st = fold (users_step plain_users_texts) [UEv_nav (Ev_user ''bob'' False), UEv_answer 2 (Ans_detail (Inr (plain_user ''alice'' 7))) 0,
       UEv_answer 4 (Ans_detail (Inr (plain_user ''bob'' 9))) 0] (alice_page plain_users_texts)
   in nv_route (ua_nav st) = RUser ''bob'' \<and> map_option aus_userId (ua_selectedUserDetail st) = Some ''bob''"
proof -
  let ?step = "users_step plain_users_texts"
  define evs where "evs = [UEv_nav (Ev_user ''bob'' False), UEv_answer 2 (Ans_detail (Inr (plain_user ''alice'' 7))) 0, UEv_answer 4 (Ans_detail (Inr (plain_user ''bob'' 9))) 0]"
  define s1 where "s1 = ?step (UEv_nav (Ev_user ''bob'' False)) (alice_page plain_users_texts)"
  note s1 = bob_page_state [OF alice_page_state(1), of plain_users_texts plain_users_texts, folded s1_def, unfolded alice_page_state]
  define s2 where "s2 = ?step (UEv_answer 2 (Ans_detail (Inr (plain_user ''alice'' 7))) 0) s1"
  have s2: "ua_nav s2 = ua_nav s1" "ua_tasks s2 = [Load_tags 0, Load_registration 1, Load_tags 3, Load_registration 4, Load_detail ''bob'' 5]"
      "ua_detailController s2 = Some 5" by (simp_all add: s2_def s1)
  define s3 where "s3 = ?step (UEv_answer 4 (Ans_detail (Inr (plain_user ''bob'' 9))) 0) s2"
  have s3: "nv_route (ua_nav s3) = RUser ''bob''" "ua_selectedUserDetail s3 = Some (plain_user ''bob'' 9)" "\<not> ua_userDetailLoading s3"
    by (simp_all add: s3_def s2 s1 detail_loaded_def set_detail_def)
  have "stays plain_users_texts (alice_page plain_users_texts) (UEv_nav (Ev_user ''bob'' False))" by (simp add: stays_def calm_def alice_page_state)
  moreover have "stays plain_users_texts s1 (UEv_answer 2 (Ans_detail (Inr (plain_user ''alice'' 7))) 0)" by (simp add: stays_def calm_def s1 plain_user_def)
  moreover have "stays plain_users_texts s2 (UEv_answer 4 (Ans_detail (Inr (plain_user ''bob'' 9))) 0)" by (simp add: stays_def calm_def s2 plain_user_def)
  ultimately have enabled: "enabled_run (stays plain_users_texts) ?step (alice_page plain_users_texts) evs" by (simp add: evs_def s1_def s2_def)
  have run: "fold ?step evs (alice_page plain_users_texts) = s3" by (simp only: evs_def s1_def s2_def s3_def fold.simps comp_def id_def)
  have "aus_userId (plain_user ''bob'' 9) = ''bob''" using user_detail_of_route [OF enabled, unfolded run, OF s3] .
  then show ?thesis using s3(1,2) run by (simp only: evs_def Let_def option.map)
qed

lemma parse_limit_int: "0 \<le> n \<Longrightarrow> safe_int n \<Longrightarrow> parse_limit (int_to_string n) = Some n"
  by (simp add: parse_limit_def parse_finite_def round_double_safe)

lemma quota_payload_draft:
  assumes "list_all (\<lambda>n. 0 \<le> n \<and> safe_int n) [aqls_hourlyAnyLimit q, aqls_hourlyLimit q, aqls_dailyLimit q, aqls_monthlyLimit q]" "aud_quotaBase d = q"
  shows "quota_payload (quota_draft d) = Some \<lparr>uuqp_hourlyAnyLimit = aqls_hourlyAnyLimit q, uuqp_hourlyLimit = aqls_hourlyLimit q,
    uuqp_dailyLimit = aqls_dailyLimit q, uuqp_monthlyLimit = aqls_monthlyLimit q\<rparr>"
  using assms by (simp add: quota_payload_Some quota_draft_def Let_def parse_limit_int)



section \<open>Editing a tag\<close>

text \<open>A tag as the server keeps it: a tag of its own has a name without white space around it, a tag that blocks
  everything has no deltas, and the deltas are exact as numbers.\<close>

definition tag_stored :: "AdminUserTag \<Rightarrow> bool" where
  "tag_stored t \<longleftrightarrow> aut_id t \<noteq> [] \<and> list_all safe_int [aut_hourlyAnyDelta t, aut_hourlyDelta t, aut_dailyDelta t, aut_monthlyDelta t] \<and>
     (aut_effectKind t = ''quota_delta'' \<or> aut_effectKind t = ''block_all'' \<and> list_all (\<lambda>n. n = 0) [aut_hourlyAnyDelta t, aut_hourlyDelta t, aut_dailyDelta t, aut_monthlyDelta t]) \<and>
     (aut_systemKey t = None \<longrightarrow> js_trim (aut_name t) = aut_name t \<and> aut_name t \<noteq> [] \<and> js_trim (aut_displayName t) = aut_displayName t \<and> aut_displayName t \<noteq> [] \<and>
        (case aut_icon t of None \<Rightarrow> True | Some icon \<Rightarrow> js_trim icon = icon \<and> icon \<noteq> []))"

definition tag_values :: "AdminUserTag \<Rightarrow> UpsertAdminUserTagPayload" where
  "tag_values t = \<lparr>uautp_name = aut_name t, uautp_displayName = aut_displayName t, uautp_icon = aut_icon t, uautp_effectKind = aut_effectKind t,
     uautp_hourlyAnyDelta = aut_hourlyAnyDelta t, uautp_hourlyDelta = aut_hourlyDelta t, uautp_dailyDelta = aut_dailyDelta t, uautp_monthlyDelta = aut_monthlyDelta t\<rparr>"

lemma parse_finite_int: "safe_int n \<Longrightarrow> parse_finite (int_to_string n) = Some n"
  by (simp add: parse_finite_def round_double_safe)

lemma tag_payload_form:
  assumes "tag_stored t"
  shows "tag_payload (Some t) (createUserTagFormState (Some t)) = Some (tag_values t)"
proof -
  have form: "parse_finite (int_to_string (aut_hourlyAnyDelta t)) = Some (aut_hourlyAnyDelta t)" "parse_finite (int_to_string (aut_hourlyDelta t)) = Some (aut_hourlyDelta t)"
      "parse_finite (int_to_string (aut_dailyDelta t)) = Some (aut_dailyDelta t)" "parse_finite (int_to_string (aut_monthlyDelta t)) = Some (aut_monthlyDelta t)"
    using assms by (simp_all add: tag_stored_def parse_finite_int)
  show ?thesis
    using assms by (cases "aut_systemKey t"; cases "aut_icon t") (auto simp: tag_payload_def createUserTagFormState_def tag_values_def tag_stored_def form Let_def)
qed

text \<open>A tag of the catalogue that is opened in the editor and saved without a change is sent back with its own values.\<close>

lemma unedited_tag_saved:
  assumes "find_tag (aut_id t) st = Some t" "tag_stored t"
  shows "ua_sent (saveUserTagCatalog texts (edit_tag t st)) = ua_sent st @ [Req_updateAdminUserTag (aut_id t) (tag_values t)]"
proof -
  have "find_tag (aut_id t) (edit_tag t st) = Some t" using assms(1) by (simp add: find_tag_def edit_tag_def)
  moreover have "ua_userTagCatalogDraft (edit_tag t st) = createUserTagFormState (Some t)" by (simp add: edit_tag_def)
  moreover have "tf_tagId (createUserTagFormState (Some t)) = Some (aut_id t)" by (simp add: createUserTagFormState_def)
  moreover have "aut_id t \<noteq> []" using assms(2) by (simp add: tag_stored_def)
  ultimately show ?thesis by (simp add: saveUserTagCatalog_def Let_def tag_payload_form [OF assms(2)]) (simp add: edit_tag_def)
qed

end
