(* ===== verification/Proxy_Validation.thy ===== *)
theory Proxy_Validation
  imports Forward_Proxy_Progress Http
begin

text \<open>
  The validation of forward proxy candidates (\<open>validateForwardProxyCandidates\<close> of \<open>web/src/AdminDashboard.tsx\<close>): one
  progress stream for each candidate, all at once, merged into the progress of one dialog and one list of results.
  The inputs are what the streams deliver, in any order.
\<close>

section \<open>Model\<close>

record ForwardProxyValidationEntry =
  ve_id :: string
  ve_kind :: ForwardProxyValidationKind
  ve_value :: string
  ve_result :: ForwardProxyValidationResponse

record validation_texts =
  vt_normalize_input :: string
  vt_parse_input :: string
  vt_generate_result :: string
  vt_requestFailed :: string

text \<open>The last phase event of a stream; \<open>emitted\<close> are the events handed to \<open>onProgress\<close>.\<close>

record candidates_run =
  cr_results :: "ForwardProxyValidationEntry option list"
  cr_hadFatalError :: bool
  cr_introEmitted :: bool
  cr_probeStarted :: "nat list"
  cr_lastPhase :: "ForwardProxyProgressEvent option list"
  cr_emitted :: "ForwardProxyProgressEvent list"

datatype candidate_input =
    Stream_event nat ForwardProxyProgressEvent
  | Stream_result nat ForwardProxyValidationResponse
  | Stream_failed nat js_error

definition emit :: "ForwardProxyProgressEvent \<Rightarrow> candidates_run \<Rightarrow> candidates_run" where
  "emit ev st = st\<lparr>cr_emitted := cr_emitted st @ [ev]\<rparr>"

definition validation_kind_name :: "ForwardProxyValidationKind \<Rightarrow> string" where
  "validation_kind_name kind = (case kind of VK_proxyUrl \<Rightarrow> ''proxyUrl'' | VK_subscriptionUrl \<Rightarrow> ''subscriptionUrl'')"

definition candidate_entry :: "ForwardProxyValidationKind \<Rightarrow> nat \<Rightarrow> string \<Rightarrow> ForwardProxyValidationResponse \<Rightarrow> ForwardProxyValidationEntry" where
  "candidate_entry kind index value result =
     \<lparr>ve_id = validation_kind_name kind @ '':'' @ nat_to_string index @ '':'' @ value, ve_kind = kind, ve_value = value, ve_result = result\<rparr>"

definition failed_response :: "string \<Rightarrow> string \<Rightarrow> ForwardProxyValidationResponse" where
  "failed_response value message = \<lparr>fpvr2_ok = False, fpvr2_message = message, fpvr2_normalizedValue = Some value, fpvr2_discoveredNodes = Some 0,
     fpvr2_latencyMs = None, fpvr2_errorCode = None, fpvr2_nodes = None\<rparr>"

definition emitValidationError ::
  "validation_texts \<Rightarrow> ForwardProxyValidationKind \<Rightarrow> string \<Rightarrow> ForwardProxyProgressEvent option \<Rightarrow> string option \<Rightarrow> candidates_run \<Rightarrow> candidates_run" where
  "emitValidationError texts kind message lastPhase detail =
     (let fallbackPhaseKey = (if kind = VK_subscriptionUrl then PK_normalize_input else PK_parse_input);
          fallbackLabel = (if kind = VK_subscriptionUrl then vt_normalize_input texts else vt_parse_input texts)
      in emit (case lastPhase of
           Some (EvPhase oper key label cur tot d) \<Rightarrow> EvError FO_validate message (Some key) (Some label) cur tot (case d of Some x \<Rightarrow> Some x | None \<Rightarrow> detail)
         | _ \<Rightarrow> EvError FO_validate message (Some fallbackPhaseKey) (Some fallbackLabel) None None detail))"

definition set_result :: "nat \<Rightarrow> ForwardProxyValidationEntry \<Rightarrow> candidates_run \<Rightarrow> candidates_run" where
  "set_result index entry st = st\<lparr>cr_results := (cr_results st)[index := Some entry]\<rparr>"

definition note_phase :: "nat \<Rightarrow> ForwardProxyProgressEvent \<Rightarrow> candidates_run \<Rightarrow> candidates_run" where
  "note_phase index ev st = st\<lparr>cr_lastPhase := (cr_lastPhase st)[index := Some ev]\<rparr>"

definition candidate_failed :: "validation_texts \<Rightarrow> ForwardProxyValidationKind \<Rightarrow> string list \<Rightarrow> nat \<Rightarrow> js_error \<Rightarrow> candidates_run \<Rightarrow> candidates_run" where
  "candidate_failed texts kind values0 index e st =
     set_result index (candidate_entry kind index (values0 ! index) (failed_response (values0 ! index) (er_message e)))
       (emitValidationError texts kind (er_message e) (cr_lastPhase st ! index) (Some (values0 ! index)) (st\<lparr>cr_hadFatalError := True\<rparr>))"

text \<open>A single candidate: its events are handed on as they are.\<close>

fun single_input :: "validation_texts \<Rightarrow> ForwardProxyValidationKind \<Rightarrow> string list \<Rightarrow> candidate_input \<Rightarrow> candidates_run \<Rightarrow> candidates_run" where
  "single_input texts kind values0 (Stream_event index ev) st = (case ev of
     EvComplete oper payload \<Rightarrow> st
   | EvPhase oper key label cur tot d \<Rightarrow> emit ev (note_phase index ev st)
   | _ \<Rightarrow> emit ev st)"
| "single_input texts kind values0 (Stream_result index result) st =
     (let st1 = set_result index (candidate_entry kind index (values0 ! index) result) st
      in if fpvr2_ok result then st1 else emitValidationError texts kind (fpvr2_message result) (cr_lastPhase st ! index) (Some (values0 ! index)) st1)"
| "single_input texts kind values0 (Stream_failed index e) st =
     candidate_failed texts kind values0 index e st"

text \<open>Several candidates: the first phase of one of them stands for all, the probes are counted, and the last phase is
  announced when all are done.\<close>

fun batch_input :: "validation_texts \<Rightarrow> ForwardProxyValidationKind \<Rightarrow> string list \<Rightarrow> candidate_input \<Rightarrow> candidates_run \<Rightarrow> candidates_run" where
  "batch_input texts kind values0 (Stream_event index ev) st = (case ev of
     EvComplete oper payload \<Rightarrow> st
   | EvPhase oper key label cur tot d \<Rightarrow>
       (let st1 = note_phase index ev st
        in if key \<in> {PK_parse_input, PK_normalize_input, PK_fetch_subscription} \<and> \<not> cr_introEmitted st1 then emit ev (st1\<lparr>cr_introEmitted := True\<rparr>)
           else if key = PK_probe_nodes then
             (let st2 = st1\<lparr>cr_probeStarted := js_set_add index (cr_probeStarted st1)\<rparr>
              in emit (EvPhase oper key label (Some (int (length (cr_probeStarted st2)))) (Some (int (length values0))) d) st2)
           else if key = PK_generate_result then st1
           else emit ev st1)
   | _ \<Rightarrow> emit ev st)"
| "batch_input texts kind values0 (Stream_result index result) st = set_result index (candidate_entry kind index (values0 ! index) result) st"
| "batch_input texts kind values0 (Stream_failed index e) st =
     candidate_failed texts kind values0 index e st"

definition any_success :: "candidates_run \<Rightarrow> bool" where
  "any_success st \<longleftrightarrow> list_ex (\<lambda>r. case r of Some entry \<Rightarrow> fpvr2_ok (ve_result entry) | None \<Rightarrow> False) (cr_results st)"

definition batch_end :: "validation_texts \<Rightarrow> ForwardProxyValidationKind \<Rightarrow> string list \<Rightarrow> candidates_run \<Rightarrow> candidates_run" where
  "batch_end texts kind values0 st =
     (if \<not> cr_hadFatalError st \<and> any_success st
      then emit (EvPhase FO_validate PK_generate_result (vt_generate_result texts) (Some (int (length values0))) (Some (int (length values0))) None) st
      else if \<not> cr_hadFatalError st then
        emitValidationError texts kind (vt_requestFailed texts) (Option.bind (find (\<lambda>ev. ev \<noteq> None) (cr_lastPhase st)) (\<lambda>ev. ev)) None st
      else st)"

definition candidates_start :: "nat \<Rightarrow> candidates_run" where
  "candidates_start n = \<lparr>cr_results = replicate n None, cr_hadFatalError = False, cr_introEmitted = False, cr_probeStarted = [],
     cr_lastPhase = replicate n None, cr_emitted = []\<rparr>"

text \<open>\<open>validateForwardProxyCandidates\<close> when no stream is aborted: the events handed on and the results.\<close>

definition validateForwardProxyCandidates ::
  "validation_texts \<Rightarrow> ForwardProxyValidationKind \<Rightarrow> string list \<Rightarrow> candidate_input list \<Rightarrow> ForwardProxyProgressEvent list \<times> ForwardProxyValidationEntry list" where
  "validateForwardProxyCandidates texts kind rawValues inputs =
     (let st = candidates_start (length rawValues);
          st1 = (if length rawValues = 1 then fold (single_input texts kind rawValues) inputs st
                 else batch_end texts kind rawValues (fold (batch_input texts kind rawValues) inputs st));
          st2 = (if \<not> cr_hadFatalError st1 \<and> any_success st1 then emit (EvComplete FO_validate JNull) st1 else st1)
      in (cr_emitted st2, List.map_filter (\<lambda>r. r) (cr_results st2)))"

section \<open>Every candidate is answered\<close>

text \<open>The outcome of a candidate in the inputs, and inputs in which each candidate ends exactly once.\<close>

fun outcome_of :: "string list \<Rightarrow> nat \<Rightarrow> candidate_input \<Rightarrow> ForwardProxyValidationResponse option" where
  "outcome_of values0 i (Stream_result j result) = (if i = j then Some result else None)"
| "outcome_of values0 i (Stream_failed j e) = (if i = j then Some (failed_response (values0 ! i) (er_message e)) else None)"
| "outcome_of values0 i (Stream_event j ev) = None"

definition outcomes :: "string list \<Rightarrow> candidate_input list \<Rightarrow> nat \<Rightarrow> ForwardProxyValidationResponse list" where
  "outcomes values0 inputs i = List.map_filter (outcome_of values0 i) inputs"

definition settles_once :: "string list \<Rightarrow> candidate_input list \<Rightarrow> bool" where
  "settles_once values0 inputs \<longleftrightarrow> list_all (\<lambda>i. length (outcomes values0 inputs i) = 1) [0..<length values0]"

lemma emit_simps [simp]: "cr_results (emit ev st) = cr_results st" "cr_hadFatalError (emit ev st) = cr_hadFatalError st"
    "cr_probeStarted (emit ev st) = cr_probeStarted st" "cr_emitted (emit ev st) = cr_emitted st @ [ev]"
  by (simp_all add: emit_def)

lemma emitValidationError_frame [simp]: "cr_results (emitValidationError texts kind m l d st) = cr_results st"
    "cr_hadFatalError (emitValidationError texts kind m l d st) = cr_hadFatalError st" "cr_probeStarted (emitValidationError texts kind m l d st) = cr_probeStarted st"
  by (simp_all add: emitValidationError_def Let_def)

lemma run_update_frame [simp]: "cr_hadFatalError (set_result i e st) = cr_hadFatalError st" "cr_probeStarted (set_result i e st) = cr_probeStarted st"
    "cr_emitted (set_result i e st) = cr_emitted st" "cr_results (note_phase i ev st) = cr_results st" "cr_hadFatalError (note_phase i ev st) = cr_hadFatalError st"
    "cr_probeStarted (note_phase i ev st) = cr_probeStarted st" "cr_emitted (note_phase i ev st) = cr_emitted st"
  by (simp_all add: set_result_def note_phase_def)

text \<open>One input: a stream event leaves the results alone, the end of a stream sets its result.\<close>

definition input_results :: "ForwardProxyValidationKind \<Rightarrow> string list \<Rightarrow> candidate_input \<Rightarrow> ForwardProxyValidationEntry option list \<Rightarrow> ForwardProxyValidationEntry option list" where
  "input_results kind values0 x rs = (case x of
     Stream_event i ev \<Rightarrow> rs
   | Stream_result i r \<Rightarrow> rs[i := Some (candidate_entry kind i (values0 ! i) r)]
   | Stream_failed i e \<Rightarrow> rs[i := Some (candidate_entry kind i (values0 ! i) (failed_response (values0 ! i) (er_message e)))])"

definition input_fails :: "candidate_input \<Rightarrow> bool" where
  "input_fails x \<longleftrightarrow> (case x of Stream_failed i e \<Rightarrow> True | _ \<Rightarrow> False)"

lemma single_step: "cr_results (single_input texts kind vs x st) = input_results kind vs x (cr_results st)"
    "cr_hadFatalError (single_input texts kind vs x st) \<longleftrightarrow> cr_hadFatalError st \<or> input_fails x"
  by (cases x; simp add: input_results_def input_fails_def set_result_def candidate_failed_def Let_def split: ForwardProxyProgressEvent.split)+

lemma batch_step: "cr_results (batch_input texts kind vs x st) = input_results kind vs x (cr_results st)"
    "cr_hadFatalError (batch_input texts kind vs x st) \<longleftrightarrow> cr_hadFatalError st \<or> input_fails x"
  by (cases x; simp add: input_results_def input_fails_def set_result_def candidate_failed_def Let_def split: ForwardProxyProgressEvent.split)+

lemma run_results:
  assumes "\<And>x st. cr_results (f x st) = input_results kind vs x (cr_results st)" "\<And>x st. cr_hadFatalError (f x st) \<longleftrightarrow> cr_hadFatalError st \<or> input_fails x"
  shows "cr_results (fold f xs st) = fold (input_results kind vs) xs (cr_results st)" "cr_hadFatalError (fold f xs st) \<longleftrightarrow> cr_hadFatalError st \<or> list_ex input_fails xs"
  by (induction xs arbitrary: st) (simp_all add: assms)

lemma input_results_nth:
  "i < length rs \<Longrightarrow> input_results kind vs x rs ! i = (case outcome_of vs i x of None \<Rightarrow> rs ! i | Some r \<Rightarrow> Some (candidate_entry kind i (vs ! i) r))"
  by (cases x) (auto simp: input_results_def)

lemma input_results_length [simp]: "length (input_results kind vs x rs) = length rs"
  by (cases x) (simp_all add: input_results_def)

lemma results_length [simp]: "length (fold (input_results kind vs) xs rs) = length rs"
  by (induction xs arbitrary: rs) simp_all

lemma results_nth:
  assumes "i < length rs"
  shows "fold (input_results kind vs) xs rs ! i = (case outcomes vs xs i of [] \<Rightarrow> rs ! i | os \<Rightarrow> Some (candidate_entry kind i (vs ! i) (last os)))"
proof (induction xs rule: rev_induct)
  case Nil
  then show ?case by (simp add: outcomes_def map_filter_simps)
next
  case (snoc x xs)
  have "outcomes vs (xs @ [x]) i = outcomes vs xs i @ (case outcome_of vs i x of None \<Rightarrow> [] | Some r \<Rightarrow> [r])"
    by (simp add: outcomes_def map_filter_def split: option.split)
  then show ?case using snoc assms by (cases "outcome_of vs i x") (auto simp: input_results_nth split: list.splits)
qed

lemma final_results:
  assumes "settles_once vs xs"
  shows "fold (input_results kind vs) xs (replicate (length vs) None) = map (\<lambda>i. Some (candidate_entry kind i (vs ! i) (hd (outcomes vs xs i)))) [0..<length vs]"
proof (rule nth_equalityI)
  fix i assume "i < length (fold (input_results kind vs) xs (replicate (length vs) None))"
  then have i: "i < length vs" by simp
  then have "length (outcomes vs xs i) = 1" using assms by (simp add: settles_once_def list_all_iff)
  then obtain r where "outcomes vs xs i = [r]" by (auto simp: length_Suc_conv)
  then show "fold (input_results kind vs) xs (replicate (length vs) None) ! i = map (\<lambda>i. Some (candidate_entry kind i (vs ! i) (hd (outcomes vs xs i)))) [0..<length vs] ! i"
    using i by (simp add: results_nth)
qed simp

text \<open>The events handed on: the streams' own completions are dropped, and the probes are counted.\<close>

definition is_complete :: "ForwardProxyProgressEvent \<Rightarrow> bool" where
  "is_complete ev \<longleftrightarrow> (case ev of EvComplete oper payload \<Rightarrow> True | _ \<Rightarrow> False)"

definition probe_counts :: "ForwardProxyProgressEvent list \<Rightarrow> (int option \<times> int option) list" where
  "probe_counts evs = List.map_filter (\<lambda>ev. case ev of EvPhase oper key label cur tot d \<Rightarrow> if key = PK_probe_nodes then Some (cur, tot) else None | _ \<Rightarrow> None) evs"

lemma probe_counts_append [simp]: "probe_counts (xs @ ys) = probe_counts xs @ probe_counts ys"
  by (simp add: probe_counts_def map_filter_def)

lemma probe_counts_error: "probe_counts [EvError oper m k l c t d] = []" "probe_counts [EvNodes oper ns] = []" "probe_counts [EvNode oper nd] = []" "probe_counts [EvComplete oper j] = []"
  by (simp_all add: probe_counts_def map_filter_simps)

lemma probe_counts_phase: "probe_counts [EvPhase oper key label cur tot d] = (if key = PK_probe_nodes then [(cur, tot)] else [])"
  by (simp add: probe_counts_def map_filter_simps)

lemmas probe_counts_simps [simp] = probe_counts_error probe_counts_phase

definition error_emitted :: "candidates_run \<Rightarrow> candidates_run \<Rightarrow> bool" where
  "error_emitted st st' \<longleftrightarrow> (\<exists>oper m k l c t d. cr_emitted st' = cr_emitted st @ [EvError oper m k l c t d])"

lemma emitValidationError_emitted: "error_emitted st (emitValidationError texts kind m l d st)"
  by (simp add: error_emitted_def emitValidationError_def Let_def split: option.split ForwardProxyProgressEvent.split)

lemma candidate_failed_emitted: "error_emitted st (candidate_failed texts kind vs i e st)"
  using emitValidationError_emitted [of "st\<lparr>cr_hadFatalError := True\<rparr>"] by (simp add: error_emitted_def candidate_failed_def)

lemma error_emitted_simps: "error_emitted st st' \<Longrightarrow> probe_counts (cr_emitted st') = probe_counts (cr_emitted st) \<and> list_ex is_complete (cr_emitted st') = list_ex is_complete (cr_emitted st)"
  by (auto simp: error_emitted_def is_complete_def)

text \<open>The invariant of the counts: each is the number of candidates that were being probed when it was sent.\<close>

definition counts_ok :: "nat \<Rightarrow> candidates_run \<Rightarrow> bool" where
  "counts_ok n st \<longleftrightarrow> distinct (cr_probeStarted st) \<and> (\<forall>i \<in> set (cr_probeStarted st). i < n) \<and>
     (\<exists>ks. probe_counts (cr_emitted st) = map (\<lambda>k. (Some (int k), Some (int n))) ks \<and> sorted ks \<and> (\<forall>k \<in> set ks. 0 < k \<and> k \<le> length (cr_probeStarted st)))"

definition index_of :: "candidate_input \<Rightarrow> nat" where
  "index_of x = (case x of Stream_event i ev \<Rightarrow> i | Stream_result i r \<Rightarrow> i | Stream_failed i e \<Rightarrow> i)"

lemma counts_same: "counts_ok n st \<Longrightarrow> cr_probeStarted st' = cr_probeStarted st \<Longrightarrow> probe_counts (cr_emitted st') = probe_counts (cr_emitted st) \<Longrightarrow> counts_ok n st'"
  by (simp add: counts_ok_def)

lemma counts_probe:
  assumes "counts_ok n st" "i < n"
  shows "counts_ok n (emit (EvPhase oper PK_probe_nodes label (Some (int (length (js_set_add i (cr_probeStarted st))))) (Some (int n)) d) (st\<lparr>cr_probeStarted := js_set_add i (cr_probeStarted st)\<rparr>))"
proof -
  let ?ps = "js_set_add i (cr_probeStarted st)"
  obtain ks where ks: "probe_counts (cr_emitted st) = map (\<lambda>k. (Some (int k), Some (int n))) ks" "sorted ks" "\<forall>k \<in> set ks. 0 < k \<and> k \<le> length (cr_probeStarted st)"
    using assms(1) by (auto simp: counts_ok_def)
  have len: "length (cr_probeStarted st) \<le> length ?ps" "0 < length ?ps" by (auto simp: js_set_add_def)
  have "distinct ?ps" "\<forall>j \<in> set ?ps. j < n" using assms by (auto simp: counts_ok_def js_set_add_def)
  moreover have "sorted (ks @ [length ?ps])" using ks len(1) by (auto simp: sorted_append intro: order_trans)
  moreover have "\<forall>k \<in> set (ks @ [length ?ps]). 0 < k \<and> k \<le> length ?ps" using ks(3) len by (auto intro: order_trans)
  ultimately show ?thesis using ks(1) by (auto simp: counts_ok_def intro!: exI [of _ "ks @ [length ?ps]"])
qed

lemma batch_counts:
  assumes "counts_ok (length vs) st" "index_of x < length vs"
  shows "counts_ok (length vs) (batch_input texts kind vs x st)"
proof (cases x)
  case (Stream_event i ev)
  have noted: "counts_ok (length vs) (note_phase i e st)" for e using assms(1) by (rule counts_same) simp_all
  show ?thesis
  proof (cases ev)
    case (EvPhase oper key label cur tot d)
    show ?thesis using counts_probe [OF noted, of i] assms(2) noted
      by (cases "key = PK_probe_nodes") (auto simp: Stream_event EvPhase index_of_def Let_def intro!: counts_same [OF assms(1)])
  qed (use assms(1) in \<open>auto simp: Stream_event intro!: counts_same [OF assms(1)]\<close>)
next
  case (Stream_failed i e)
  have "cr_probeStarted (candidate_failed texts kind vs i e st) = cr_probeStarted st" by (simp add: candidate_failed_def)
  then show ?thesis using counts_same [OF assms(1)] error_emitted_simps [OF candidate_failed_emitted] by (simp add: Stream_failed)
qed (auto intro!: counts_same [OF assms(1)])

lemma batch_run_counts: "counts_ok (length vs) st \<Longrightarrow> list_all (\<lambda>x. index_of x < length vs) xs \<Longrightarrow> counts_ok (length vs) (fold (batch_input texts kind vs) xs st)"
  by (induction xs arbitrary: st) (simp_all add: batch_counts)

lemma input_complete:
  "list_ex is_complete (cr_emitted (single_input texts kind vs x st)) = list_ex is_complete (cr_emitted st)"
  "list_ex is_complete (cr_emitted (batch_input texts kind vs x st)) = list_ex is_complete (cr_emitted st)"
  using error_emitted_simps [OF candidate_failed_emitted [of st texts kind vs]] error_emitted_simps [OF emitValidationError_emitted]
  by (cases x; force simp: is_complete_def Let_def split: ForwardProxyProgressEvent.split)+

lemma run_complete:
  "list_ex is_complete (cr_emitted (fold (single_input texts kind vs) xs st)) = list_ex is_complete (cr_emitted st)"
  "list_ex is_complete (cr_emitted (fold (batch_input texts kind vs) xs st)) = list_ex is_complete (cr_emitted st)"
  by (induction xs arbitrary: st) (simp_all add: input_complete)

lemma batch_end_frame [simp]: "cr_results (batch_end texts kind vs st) = cr_results st" "cr_hadFatalError (batch_end texts kind vs st) = cr_hadFatalError st"
    "probe_counts (cr_emitted (batch_end texts kind vs st)) = probe_counts (cr_emitted st)"
    "list_ex is_complete (cr_emitted (batch_end texts kind vs st)) = list_ex is_complete (cr_emitted st)"
  using error_emitted_simps [OF emitValidationError_emitted] by (simp_all add: batch_end_def is_complete_def)

text \<open>The run up to the last \<open>complete\<close>, which ends a run with a usable candidate and without a fatal error.\<close>

definition candidates_end :: "validation_texts \<Rightarrow> ForwardProxyValidationKind \<Rightarrow> string list \<Rightarrow> candidate_input list \<Rightarrow> candidates_run" where
  "candidates_end texts kind vs xs = (if length vs = 1 then fold (single_input texts kind vs) xs (candidates_start (length vs))
     else batch_end texts kind vs (fold (batch_input texts kind vs) xs (candidates_start (length vs))))"

lemma candidates_end_state:
  assumes "settles_once vs xs"
  shows "cr_results (candidates_end texts kind vs xs) = map (\<lambda>i. Some (candidate_entry kind i (vs ! i) (hd (outcomes vs xs i)))) [0..<length vs]"
    "cr_hadFatalError (candidates_end texts kind vs xs) = list_ex input_fails xs" "\<not> list_ex is_complete (cr_emitted (candidates_end texts kind vs xs))"
    "any_success (candidates_end texts kind vs xs) = list_ex (\<lambda>i. fpvr2_ok (hd (outcomes vs xs i))) [0..<length vs]"
proof -
  have start: "cr_results (candidates_start n) = replicate n None" "cr_hadFatalError (candidates_start n) = False" for n by (simp_all add: candidates_start_def)
  note runs = run_results [of "single_input texts kind vs", OF single_step] run_results [of "batch_input texts kind vs", OF batch_step]
  show results: "cr_results (candidates_end texts kind vs xs) = map (\<lambda>i. Some (candidate_entry kind i (vs ! i) (hd (outcomes vs xs i)))) [0..<length vs]"
    unfolding final_results [OF assms, of kind, symmetric] candidates_end_def
    by (cases "length vs = 1") (simp_all only: start runs batch_end_frame if_True if_False simp_thms refl)
  show "cr_hadFatalError (candidates_end texts kind vs xs) = list_ex input_fails xs"
    unfolding candidates_end_def by (cases "length vs = 1") (simp_all only: start runs batch_end_frame if_True if_False simp_thms)
  show "\<not> list_ex is_complete (cr_emitted (candidates_end texts kind vs xs))" by (simp add: candidates_end_def run_complete candidates_start_def)
  show "any_success (candidates_end texts kind vs xs) = list_ex (\<lambda>i. fpvr2_ok (hd (outcomes vs xs i))) [0..<length vs]"
    by (simp add: any_success_def results list_ex_iff candidate_entry_def)
qed


definition usable_response :: ForwardProxyValidationResponse where
  "usable_response = \<lparr>fpvr2_ok = True, fpvr2_message = ''ok'', fpvr2_normalizedValue = None, fpvr2_discoveredNodes = Some 1, fpvr2_latencyMs = None, fpvr2_errorCode = None, fpvr2_nodes = None\<rparr>"


end
