(* ===== verification/Proxy_Dialog.thy ===== *)
theory Proxy_Dialog
  imports Proxy_Validation Event_System
begin

text \<open>
  The forward proxy settings of the admin console (\<open>web/src/admin/ForwardProxySettingsModule.tsx\<close> and
  \<open>saveForwardProxySettings\<close>, \<open>revalidateForwardProxy\<close> of \<open>web/src/AdminDashboard.tsx\<close>): the lists of subscriptions
  and of manual proxies, the dialog that validates and adds candidates, and the requests that save the settings.
  Events are the clicks, the progress of the requests and their answers, in any order; every event is followed by a
  render.  The URL parser of the browser, which the switch of the SOCKS5 relay uses to test its address, is a parameter.
\<close>

section \<open>Lists and drafts\<close>

record ForwardProxyDraft =
  fd_proxyUrlsText :: string
  fd_subscriptionUrlsText :: string
  fd_subscriptionUpdateIntervalSecs :: string
  fd_insertDirect :: bool
  fd_egressSocks5Enabled :: bool
  fd_egressSocks5Url :: string

definition normalizeEntries :: "string list \<Rightarrow> string list" where
  "normalizeEntries values0 = foldl (\<lambda>normalized v. let trimmed = js_trim v in if trimmed = [] \<or> trimmed \<in> set normalized then normalized else normalized @ [trimmed]) [] values0"

definition splitMultilineInput :: "string \<Rightarrow> string list" where
  "splitMultilineInput v = normalizeEntries (js_split_lines v)"

text \<open>\<open>splitMultilineEntries\<close> of \<open>AdminDashboard.tsx\<close>.\<close>

definition splitMultilineEntries :: "string \<Rightarrow> string list" where
  "splitMultilineEntries v = foldl (\<lambda>entries rawLine. let normalized = js_trim rawLine in if normalized = [] \<or> normalized \<in> set entries then entries else entries @ [normalized]) [] (js_split_lines v)"

abbreviation lf_text :: string where
  "lf_text \<equiv> [CHR 0x0A]"

definition buildDraftFromSettings :: "ForwardProxySettings option \<Rightarrow> ForwardProxyDraft" where
  "buildDraftFromSettings settings =
     \<lparr>fd_proxyUrlsText = nullish (map_option (\<lambda>s. js_join lf_text (fps_proxyUrls s)) settings) [],
      fd_subscriptionUrlsText = nullish (map_option (\<lambda>s. js_join lf_text (fps_subscriptionUrls s)) settings) [],
      fd_subscriptionUpdateIntervalSecs = int_to_string (nullish (map_option fps_subscriptionUpdateIntervalSecs settings) 3600),
      fd_insertDirect = nullish (map_option fps_insertDirect settings) True,
      fd_egressSocks5Enabled = nullish (map_option fps_egressSocks5Enabled settings) False,
      fd_egressSocks5Url = nullish (map_option fps_egressSocks5Url settings) []\<rparr>"

datatype draft_list = List_proxyUrlsText | List_subscriptionUrlsText

definition withDraftList :: "ForwardProxyDraft \<Rightarrow> draft_list \<Rightarrow> string list \<Rightarrow> ForwardProxyDraft" where
  "withDraftList draft key values0 =
     (let text0 = js_join lf_text (normalizeEntries values0)
      in case key of List_proxyUrlsText \<Rightarrow> draft\<lparr>fd_proxyUrlsText := text0\<rparr> | List_subscriptionUrlsText \<Rightarrow> draft\<lparr>fd_subscriptionUrlsText := text0\<rparr>)"

section \<open>Rows of the nodes\<close>

record ForwardProxyValidationNodeRow =
  nr_id :: string
  nr_displayName :: string
  nr_protocol :: string
  nr_ip :: "string option"
  nr_location :: "string option"
  nr_latencyMs :: "rat option"
  nr_status :: ForwardProxyProgressNodeStatus
  nr_message :: string
  nr_entry :: "ForwardProxyValidationEntry option"

text \<open>\<open>replace(/(?:^|\s+)other error:\s*/gi, ' ')\<close> and \<open>replace(/\s+/g, ' ')\<close>.\<close>

definition after_other_error :: "string \<Rightarrow> string option" where
  "after_other_error s = (if js_lower (take 12 s) = ''other error:'' then Some (js_trim_start (drop 12 s)) else None)"

lemma after_other_error_length: "after_other_error s = Some r \<Longrightarrow> length r < length s"
proof -
  assume r: "after_other_error s = Some r"
  then have "length (js_lower (take 12 s)) = 12" by (auto simp: after_other_error_def split: if_splits)
  then have "12 \<le> length s" by (simp add: js_lower_def)
  moreover have "length (js_trim_start (drop 12 s)) \<le> length (drop 12 s)" by (rule js_trim_start_length)
  ultimately show ?thesis using r by (auto simp: after_other_error_def split: if_splits)
qed

function drop_other_error :: "bool \<Rightarrow> string \<Rightarrow> string" where
  "drop_other_error start s = (case s of
     [] \<Rightarrow> []
   | c # cs \<Rightarrow>
       (case (if start then after_other_error s else None) of
          Some r \<Rightarrow> CHR '' '' # drop_other_error False r
        | None \<Rightarrow>
            (case (if js_ws_len s > 0 then after_other_error (js_trim_start s) else None) of
               Some r \<Rightarrow> CHR '' '' # drop_other_error False r
             | None \<Rightarrow> c # drop_other_error False cs)))"
  by pat_completeness auto
termination
proof (relation "measure (\<lambda>(start, s). length s)", goal_cases)
  case (3 start s c cs r)
  then show ?case using after_other_error_length [of "js_trim_start s" r] js_trim_start_length [of s] by (auto split: if_splits)
qed (auto split: if_splits dest: after_other_error_length)

declare drop_other_error.simps [simp del]

function collapse_spaces :: "string \<Rightarrow> string" where
  "collapse_spaces s = (case s of
     [] \<Rightarrow> []
   | c # cs \<Rightarrow> if js_ws_len s > 0 then CHR '' '' # collapse_spaces (js_trim_start s) else c # collapse_spaces cs)"
  by pat_completeness auto
termination
proof (relation "measure length", goal_cases)
  case (2 s c cs)
  then have "length (js_trim_start s) \<le> length (drop (js_ws_len s) s)"
    by (subst js_trim_start.simps) (simp add: js_trim_start_length del: length_drop)
  with 2 js_ws_len_le [of s] show ?case by auto
qed auto

declare collapse_spaces.simps [simp del]

definition cleanValidationMessage :: "string option \<Rightarrow> string" where
  "cleanValidationMessage message = (case message of None \<Rightarrow> [] | Some m \<Rightarrow> if m = [] then [] else js_trim (collapse_spaces (drop_other_error True m)))"

definition createPendingSubscriptionNodeRows :: "ForwardProxyProgressNodeState list \<Rightarrow> ForwardProxyValidationNodeRow list" where
  "createPendingSubscriptionNodeRows nodes = map (\<lambda>(index, node).
     \<lparr>nr_id = (if fppns_nodeKey node = [] then ''subscription-node-'' @ nat_to_string (index + 1) else fppns_nodeKey node), nr_displayName = fppns_displayName node,
      nr_protocol = fppns_protocol node, nr_ip = fppns_ip node, nr_location = fppns_location node, nr_latencyMs = fppns_latencyMs node,
      nr_status = fppns_status node, nr_message = nullish (fppns_message node) [], nr_entry = None\<rparr>) (List.enumerate 0 nodes)"

definition updateSubscriptionNodeRows :: "ForwardProxyValidationNodeRow list \<Rightarrow> ForwardProxyProgressNodeState \<Rightarrow> ForwardProxyValidationNodeRow list" where
  "updateSubscriptionNodeRows rows node = map (\<lambda>row.
     if nr_id row \<noteq> fppns_nodeKey node then row
     else row\<lparr>nr_displayName := fppns_displayName node, nr_protocol := fppns_protocol node,
       nr_ip := (case fppns_ip node of None \<Rightarrow> nr_ip row | x \<Rightarrow> x), nr_location := (case fppns_location node of None \<Rightarrow> nr_location row | x \<Rightarrow> x),
       nr_latencyMs := (case fppns_latencyMs node of None \<Rightarrow> nr_latencyMs row | x \<Rightarrow> x), nr_status := fppns_status node,
       nr_message := cleanValidationMessage (Some (nullish (fppns_message node) (nr_message row)))\<rparr>) rows"

definition canImportSubscriptionDuringValidation :: "ForwardProxyValidationNodeRow list \<Rightarrow> bool" where
  "canImportSubscriptionDuringValidation rows \<longleftrightarrow> list_ex (\<lambda>row. nr_status row = NS_ok \<or> nr_latencyMs row \<noteq> None) rows"

section \<open>State of the page\<close>

datatype QueryLoadState = LS_initial_loading | LS_switch_loading | LS_refreshing | LS_ready | LS_error

definition getBlockingLoadState :: "bool \<Rightarrow> QueryLoadState" where
  "getBlockingLoadState hasLoadedOnce = (if hasLoadedOnce then LS_switch_loading else LS_initial_loading)"

definition getRefreshingLoadState :: "bool \<Rightarrow> QueryLoadState" where
  "getRefreshingLoadState hasLoadedOnce = (if hasLoadedOnce then LS_refreshing else LS_initial_loading)"

definition isBlockingLoadState :: "QueryLoadState \<Rightarrow> bool" where
  "isBlockingLoadState s \<longleftrightarrow> s = LS_initial_loading \<or> s = LS_switch_loading"

text \<open>The texts of the page, and the URL parser.\<close>

record url_parts =
  up_protocol :: string
  up_hostname :: string
  up_port :: string

record proxy_texts =
  pt_progress :: ForwardProxyProgressStrings
  pt_validation :: validation_texts
  pt_cancelled :: string
  pt_emptySubscriptions :: string
  pt_emptyManual :: string
  pt_invalidInterval :: string
  pt_addedToList :: string
  pt_egressInvalidUrlError :: string
  pt_egressUnknownError :: string
  pt_egressRequiredError :: string
  pt_parseUrl :: "string \<Rightarrow> url_parts option"

text \<open>A running validation with the controller it was given, and what a handler does when its save has ended.
  \<open>After_close\<close> holds what the handler captured of \<open>controlsDisabled\<close> and \<open>dialogValidating\<close>, \<open>After_egress\<close> what
  that of the relay captured of \<open>draft.egressSocks5Enabled\<close> and \<open>saveError\<close>.\<close>

record validation_task =
  vk_values :: "string list"
  vk_sub :: bool
  vk_run :: candidates_run

datatype after_save = After_nothing | After_close bool bool | After_mark string | After_egress bool "string option"

datatype save_progress = No_progress | Dialog_save ForwardProxyDialogKind | Egress_save bool

record save_task =
  sk_after :: after_save
  sk_progress :: save_progress

datatype presentation = Hint | Alert

datatype proxy_request =
    Req_updateForwardProxySettings UpdateForwardProxySettingsPayload
  | Req_validateForwardProxyCandidates ForwardProxyValidationKind "string list"
  | Req_revalidateForwardProxy

record proxy_page =
  px_settings :: "ForwardProxySettings option"
  px_loadState :: QueryLoadState
  px_settingsError :: "string option"
  px_loadedRef :: bool
  px_loading :: bool
  px_saving :: bool
  px_revalidating :: bool
  px_saveError :: "string option"
  px_savedAt :: "int option"
  px_revalidateError :: "string option"
  px_revalidateProgress :: "ForwardProxyDialogProgressState option"
  px_dialogKind :: "ForwardProxyDialogKind option"
  px_dialogInput :: string
  px_dialogError :: "string option"
  px_dialogValidating :: bool
  px_dialogResults :: "ForwardProxyValidationEntry list"
  px_dialogLiveNodes :: "ForwardProxyValidationNodeRow list"
  px_dialogProgress :: "ForwardProxyDialogProgressState option"
  px_egressUrlDraft :: string
  px_egressEnabledDraft :: bool
  px_egressProgress :: "ForwardProxyDialogProgressState option"
  px_egressFieldError :: "(string \<times> presentation) option"
  px_abortRef :: "nat option"
  px_aborted :: "nat list"
  px_counter :: nat
  px_validations :: "(nat \<times> validation_task) list"
  px_writes :: "(nat \<times> save_task) list"
  px_refreshes :: "(nat \<times> save_task) list"
  px_revalidation :: "bool option"
  px_sent :: "proxy_request list"

definition blank_proxy :: proxy_page where
  "blank_proxy = \<lparr>px_settings = None, px_loadState = LS_initial_loading, px_settingsError = None, px_loadedRef = False, px_loading = False,
     px_saving = False, px_revalidating = False, px_saveError = None, px_savedAt = None, px_revalidateError = None, px_revalidateProgress = None,
     px_dialogKind = None, px_dialogInput = [], px_dialogError = None, px_dialogValidating = False, px_dialogResults = [], px_dialogLiveNodes = [],
     px_dialogProgress = None, px_egressUrlDraft = [], px_egressEnabledDraft = False, px_egressProgress = None, px_egressFieldError = None, px_abortRef = None, px_aborted = [], px_counter = 0, px_validations = [], px_writes = [], px_refreshes = [],
     px_revalidation = None, px_sent = []\<rparr>"

section \<open>What is shown\<close>

definition manualUrls :: "proxy_page \<Rightarrow> string list" where
  "manualUrls st = nullish (map_option fps_proxyUrls (px_settings st)) []"

definition subscriptionUrls :: "proxy_page \<Rightarrow> string list" where
  "subscriptionUrls st = nullish (map_option fps_subscriptionUrls (px_settings st)) []"

definition dialogIsSubscription :: "proxy_page \<Rightarrow> bool" where
  "dialogIsSubscription st \<longleftrightarrow> px_dialogKind st = Some Dialog_subscription"

definition dialogAvailableResults :: "proxy_page \<Rightarrow> ForwardProxyValidationEntry list" where
  "dialogAvailableResults st = filter (\<lambda>entry. fpvr2_ok (ve_result entry)) (px_dialogResults st)"

definition dialogInputValues :: "proxy_page \<Rightarrow> string list" where
  "dialogInputValues st = (if dialogIsSubscription st then normalizeEntries [px_dialogInput st] else splitMultilineInput (px_dialogInput st))"

definition entry_value :: "ForwardProxyValidationEntry \<Rightarrow> string" where
  "entry_value entry = nullish (fpvr2_normalizedValue (ve_result entry)) (ve_value entry)"

definition dialogSubscriptionCandidate :: "proxy_page \<Rightarrow> string option" where
  "dialogSubscriptionCandidate st = (case dialogAvailableResults st of
     entry # _ \<Rightarrow> Some (entry_value entry)
   | [] \<Rightarrow> (case dialogInputValues st of v # _ \<Rightarrow> Some v | [] \<Rightarrow> None))"

definition dialogCanSkipBootstrapProbe :: "proxy_page \<Rightarrow> bool" where
  "dialogCanSkipBootstrapProbe st \<longleftrightarrow> dialogIsSubscription st \<and> px_dialogResults st \<noteq> [] \<and> length (px_dialogResults st) = 1 \<and>
     fpvr2_ok (ve_result (hd (px_dialogResults st))) \<and> length (dialogInputValues st) = 1 \<and>
     dialogSubscriptionCandidate st \<noteq> None \<and> dialogSubscriptionCandidate st = Some (hd (dialogInputValues st))"

definition dialogManualBatchValues :: "proxy_page \<Rightarrow> string list" where
  "dialogManualBatchValues st =
     (if px_dialogResults st \<noteq> [] \<and> dialogAvailableResults st \<noteq> []
      then normalizeEntries (manualUrls st @ map entry_value (dialogAvailableResults st))
      else normalizeEntries (manualUrls st @ dialogInputValues st))"

definition controlsDisabled :: "proxy_page \<Rightarrow> bool" where
  "controlsDisabled st \<longleftrightarrow> px_saving st \<or> px_revalidating st"

definition canAddSubscription :: "proxy_page \<Rightarrow> bool" where
  "canAddSubscription st \<longleftrightarrow> dialogSubscriptionCandidate st \<noteq> None \<and>
     (\<not> px_dialogValidating st \<or> (dialogIsSubscription st \<and> px_dialogValidating st \<and> canImportSubscriptionDuringValidation (px_dialogLiveNodes st)))"

definition canAddManualBatch :: "proxy_page \<Rightarrow> bool" where
  "canAddManualBatch st \<longleftrightarrow> length (dialogManualBatchValues st) > length (manualUrls st)"

text \<open>The region with the lists is replaced while the settings are loaded and when that failed; the dialog shows its
  progress or the table of results.\<close>

definition region_shown :: "proxy_page \<Rightarrow> bool" where
  "region_shown st \<longleftrightarrow> \<not> isBlockingLoadState (px_loadState st) \<and> \<not> (px_loadState st = LS_error \<and> nullish (px_settingsError st) [] \<noteq> [])"

definition hasLiveSubscriptionRows :: "proxy_page \<Rightarrow> bool" where
  "hasLiveSubscriptionRows st \<longleftrightarrow> dialogIsSubscription st \<and> px_dialogValidating st \<and> px_dialogLiveNodes st \<noteq> []"

definition showProgress :: "proxy_page \<Rightarrow> bool" where
  "showProgress st = (case px_dialogProgress st of
     None \<Rightarrow> False
   | Some progress \<Rightarrow> \<not> hasLiveSubscriptionRows st \<and>
       (dp_action progress = Action_save \<or> px_dialogValidating st \<or> (dp_action progress = Action_validate \<and> px_dialogResults st = [])))"

text \<open>The switch of the relay waits for its own save, and the banner with the error of a save gives way to its progress.\<close>

definition egressApplyBusy :: "proxy_page \<Rightarrow> bool" where
  "egressApplyBusy st = (case px_egressProgress st of None \<Rightarrow> False | Some p \<Rightarrow> dp_action p = Action_save)"

definition save_error_shown :: "proxy_page \<Rightarrow> bool" where
  "save_error_shown st \<longleftrightarrow> nullish (px_saveError st) [] \<noteq> [] \<and> px_egressProgress st = None"

definition egressInputLocked :: "proxy_page \<Rightarrow> bool" where
  "egressInputLocked st = nullish (map_option fps_egressSocks5Enabled (px_settings st)) False"

text \<open>The buttons of the rows of a manual dialog.\<close>

definition entry_offered :: "proxy_page \<Rightarrow> ForwardProxyValidationEntry \<Rightarrow> bool" where
  "entry_offered st entry \<longleftrightarrow> px_dialogKind st = Some Dialog_manual \<and> \<not> showProgress st \<and> entry \<in> set (px_dialogResults st) \<and> fpvr2_ok (ve_result entry)"

section \<open>Saving\<close>

definition dialog_progress ::
  "proxy_texts \<Rightarrow> ForwardProxyDialogKind \<Rightarrow> ForwardProxyDialogAction \<Rightarrow> ForwardProxyProgressEvent \<Rightarrow> proxy_page \<Rightarrow> proxy_page" where
  "dialog_progress texts kind action ev st =
     st\<lparr>px_dialogProgress := Some (updateDialogProgressState (pt_progress texts)
       (nullish (px_dialogProgress st) (createDialogProgressState (pt_progress texts) kind action False)) ev)\<rparr>"

definition start_progress :: "proxy_texts \<Rightarrow> ForwardProxyDialogKind \<Rightarrow> ForwardProxyDialogAction \<Rightarrow> proxy_page \<Rightarrow> proxy_page" where
  "start_progress texts kind action st = st\<lparr>px_dialogProgress := Some (createDialogProgressState (pt_progress texts) kind action False)\<rparr>"

definition abort_current :: "proxy_page \<Rightarrow> proxy_page" where
  "abort_current st = st\<lparr>px_aborted := (case px_abortRef st of Some n \<Rightarrow> n # px_aborted st | None \<Rightarrow> px_aborted st), px_abortRef := None\<rparr>"

definition closeDialog :: "bool \<Rightarrow> bool \<Rightarrow> proxy_page \<Rightarrow> proxy_page" where
  "closeDialog disabled validating st =
     (if disabled then st
      else let st1 = (if validating then abort_current st else st)
           in st1\<lparr>px_dialogKind := None, px_dialogInput := [], px_dialogError := None, px_dialogResults := [], px_dialogLiveNodes := [],
                px_dialogProgress := None\<rparr>)"

fun js_includes :: "string \<Rightarrow> string \<Rightarrow> bool" where
  "js_includes p [] \<longleftrightarrow> p = []"
| "js_includes p (c # s) \<longleftrightarrow> prefix p (c # s) \<or> js_includes p s"

definition or_string :: "string \<Rightarrow> string \<Rightarrow> string" where
  "or_string a b = (if a = [] then b else a)"

definition normalizeEgressErrorMessage :: "proxy_texts \<Rightarrow> string option \<Rightarrow> string" where
  "normalizeEgressErrorMessage texts message =
     (if nullish message [] = [] then pt_egressUnknownError texts
      else let normalized = js_trim (nullish message []); withoutPrefix = (case after_other_error normalized of Some r \<Rightarrow> r | None \<Rightarrow> normalized)
           in if js_includes ''global socks5 relay must be a valid socks5:// or socks5h:// url'' (js_lower withoutPrefix) then pt_egressInvalidUrlError texts
              else or_string withoutPrefix (pt_egressUnknownError texts))"

definition drop_colon :: "string \<Rightarrow> string" where
  "drop_colon s = (if s \<noteq> [] \<and> last s = CHR '':'' then butlast s else s)"

definition validateEgressUrl :: "proxy_texts \<Rightarrow> string \<Rightarrow> string option" where
  "validateEgressUrl texts v =
     (let trimmed = js_trim v
      in if trimmed = [] then None
         else case pt_parseUrl texts trimmed of
           None \<Rightarrow> Some (pt_egressInvalidUrlError texts)
         | Some parsed \<Rightarrow>
             (let scheme = js_lower (drop_colon (up_protocol parsed))
              in if (scheme \<noteq> ''socks5'' \<and> scheme \<noteq> ''socks5h'') \<or> up_hostname parsed = [] \<or> up_port parsed = []
                 then Some (pt_egressInvalidUrlError texts) else None))"

definition save_failed_after :: "proxy_texts \<Rightarrow> after_save \<Rightarrow> string \<Rightarrow> proxy_page \<Rightarrow> proxy_page" where
  "save_failed_after texts after message st = (case after of
     After_nothing \<Rightarrow> st
   | After_egress enabled saveError \<Rightarrow>
       st\<lparr>px_egressFieldError := Some (nullish (px_egressFieldError st)
            (normalizeEgressErrorMessage texts (Some (or_string (nullish saveError []) (pt_egressUnknownError texts))), Alert)),
          px_egressEnabledDraft := enabled\<rparr>
   | _ \<Rightarrow> st\<lparr>px_dialogError := Some message\<rparr>)"

definition mark_added :: "proxy_texts \<Rightarrow> string \<Rightarrow> ForwardProxyValidationEntry list \<Rightarrow> ForwardProxyValidationEntry list" where
  "mark_added texts i entries = map (\<lambda>entry. if ve_id entry = i then entry\<lparr>ve_result := (ve_result entry)\<lparr>fpvr2_message := pt_addedToList texts\<rparr>\<rparr> else entry) entries"

definition save_done_after :: "proxy_texts \<Rightarrow> after_save \<Rightarrow> proxy_page \<Rightarrow> proxy_page" where
  "save_done_after texts after st = (case after of
     After_nothing \<Rightarrow> st
   | After_close disabled validating \<Rightarrow> closeDialog disabled validating st
   | After_egress enabled saveError \<Rightarrow> st
   | After_mark i \<Rightarrow> st\<lparr>px_dialogResults := mark_added texts i (px_dialogResults st)\<rparr>)"

definition settings_payload :: "ForwardProxyDraft \<Rightarrow> int \<Rightarrow> bool \<Rightarrow> UpdateForwardProxySettingsPayload" where
  "settings_payload draft interval skip =
     \<lparr>ufpsp_proxyUrls = splitMultilineEntries (fd_proxyUrlsText draft), ufpsp_subscriptionUrls = splitMultilineEntries (fd_subscriptionUrlsText draft),
      ufpsp_subscriptionUpdateIntervalSecs = interval, ufpsp_insertDirect = fd_insertDirect draft,
      ufpsp_egressSocks5Enabled = Some (fd_egressSocks5Enabled draft), ufpsp_egressSocks5Url = Some (js_trim (fd_egressSocks5Url draft)),
      ufpsp_skipBootstrapProbe = Some skip\<rparr>"

definition saveForwardProxySettings :: "proxy_texts \<Rightarrow> ForwardProxyDraft \<Rightarrow> bool \<Rightarrow> save_task \<Rightarrow> proxy_page \<Rightarrow> proxy_page" where
  "saveForwardProxySettings texts nextDraft skip task st =
     (case js_parse_int (js_trim (fd_subscriptionUpdateIntervalSecs nextDraft)) of
        None \<Rightarrow> save_failed_after texts (sk_after task) (pt_invalidInterval texts) (st\<lparr>px_saveError := Some (pt_invalidInterval texts)\<rparr>)
      | Some interval \<Rightarrow>
          if interval \<le> 0 then save_failed_after texts (sk_after task) (pt_invalidInterval texts) (st\<lparr>px_saveError := Some (pt_invalidInterval texts)\<rparr>)
          else st\<lparr>px_saveError := None, px_saving := True, px_counter := px_counter st + 1, px_writes := (px_counter st, task) # px_writes st,
                 px_sent := px_sent st @ [Req_updateForwardProxySettings (settings_payload nextDraft interval skip)]\<rparr>)"

definition persistDraft :: "proxy_texts \<Rightarrow> ForwardProxyDraft \<Rightarrow> bool \<Rightarrow> save_task \<Rightarrow> proxy_page \<Rightarrow> proxy_page" where
  "persistDraft texts nextDraft skip task st = saveForwardProxySettings texts nextDraft skip task (st\<lparr>px_dialogError := None\<rparr>)"

text \<open>Here and below \<open>draft\<close> is what the handler captured, \<open>buildDraftFromSettings\<close> of the settings last rendered.\<close>

definition rendered_draft :: "proxy_page \<Rightarrow> ForwardProxyDraft" where
  "rendered_draft st = buildDraftFromSettings (px_settings st)"

definition persistManualUrls :: "proxy_texts \<Rightarrow> string list \<Rightarrow> save_task \<Rightarrow> ForwardProxyDraft \<Rightarrow> proxy_page \<Rightarrow> proxy_page" where
  "persistManualUrls texts nextManualUrls task draft st = persistDraft texts (withDraftList draft List_proxyUrlsText nextManualUrls) False task st"

definition persistSubscriptionUrls :: "proxy_texts \<Rightarrow> string list \<Rightarrow> bool \<Rightarrow> save_task \<Rightarrow> ForwardProxyDraft \<Rightarrow> proxy_page \<Rightarrow> proxy_page" where
  "persistSubscriptionUrls texts nextSubscriptionUrls skip task draft st =
     persistDraft texts (withDraftList draft List_subscriptionUrlsText nextSubscriptionUrls) skip task st"

abbreviation quiet_save :: save_task where
  "quiet_save \<equiv> \<lparr>sk_after = After_nothing, sk_progress = No_progress\<rparr>"

definition handleRemoveManual :: "proxy_texts \<Rightarrow> string \<Rightarrow> proxy_page \<Rightarrow> proxy_page" where
  "handleRemoveManual texts v st = persistManualUrls texts (filter (\<lambda>candidate. candidate \<noteq> v) (manualUrls st)) quiet_save (rendered_draft st) st"

definition handleRemoveSubscription :: "proxy_texts \<Rightarrow> string \<Rightarrow> proxy_page \<Rightarrow> proxy_page" where
  "handleRemoveSubscription texts v st =
     persistSubscriptionUrls texts (filter (\<lambda>candidate. candidate \<noteq> v) (subscriptionUrls st)) False quiet_save (rendered_draft st) st"

definition handleIntervalChange :: "proxy_texts \<Rightarrow> string \<Rightarrow> proxy_page \<Rightarrow> proxy_page" where
  "handleIntervalChange texts v st = persistDraft texts ((rendered_draft st)\<lparr>fd_subscriptionUpdateIntervalSecs := v\<rparr>) False quiet_save st"

definition handleInsertDirectChange :: "proxy_texts \<Rightarrow> bool \<Rightarrow> proxy_page \<Rightarrow> proxy_page" where
  "handleInsertDirectChange texts checked st = persistDraft texts ((rendered_draft st)\<lparr>fd_insertDirect := checked\<rparr>) False quiet_save st"

definition handleAddSubscription :: "proxy_texts \<Rightarrow> proxy_page \<Rightarrow> proxy_page" where
  "handleAddSubscription texts st = (case dialogSubscriptionCandidate st of
     None \<Rightarrow> st
   | Some candidate \<Rightarrow>
       if candidate = [] then st
       else let st1 = (if px_dialogValidating st then (abort_current st)\<lparr>px_dialogValidating := False, px_dialogProgress := None\<rparr> else st)
            in persistSubscriptionUrls texts (subscriptionUrls st @ [candidate]) (dialogCanSkipBootstrapProbe st)
                 \<lparr>sk_after = After_close (controlsDisabled st) (px_dialogValidating st), sk_progress = Dialog_save Dialog_subscription\<rparr> (rendered_draft st)
                 (start_progress texts Dialog_subscription Action_save st1))"

definition handleAddManualBatch :: "proxy_texts \<Rightarrow> proxy_page \<Rightarrow> proxy_page" where
  "handleAddManualBatch texts st =
     (if length (dialogManualBatchValues st) = length (manualUrls st) then st
      else persistManualUrls texts (dialogManualBatchValues st)
             \<lparr>sk_after = After_close (controlsDisabled st) (px_dialogValidating st), sk_progress = Dialog_save Dialog_manual\<rparr> (rendered_draft st)
             (start_progress texts Dialog_manual Action_save st))"

definition handleAddManualEntry :: "proxy_texts \<Rightarrow> ForwardProxyValidationEntry \<Rightarrow> proxy_page \<Rightarrow> proxy_page" where
  "handleAddManualEntry texts entry st =
     persistManualUrls texts (manualUrls st @ [entry_value entry]) \<lparr>sk_after = After_mark (ve_id entry), sk_progress = Dialog_save Dialog_manual\<rparr> (rendered_draft st)
       (start_progress texts Dialog_manual Action_save (st\<lparr>px_dialogError := None\<rparr>))"

definition start_egress :: "proxy_texts \<Rightarrow> bool \<Rightarrow> ForwardProxyDialogProgressState" where
  "start_egress texts checked = createDialogProgressState (pt_progress texts) Dialog_egress Action_save checked"

definition toggle_egress :: "proxy_texts \<Rightarrow> bool \<Rightarrow> proxy_page \<Rightarrow> proxy_page" where
  "toggle_egress texts nextChecked st =
     persistDraft texts ((rendered_draft st)\<lparr>fd_egressSocks5Enabled := nextChecked, fd_egressSocks5Url := js_trim (px_egressUrlDraft st)\<rparr>) False
       \<lparr>sk_after = After_egress (fd_egressSocks5Enabled (rendered_draft st)) (px_saveError st), sk_progress = Egress_save nextChecked\<rparr>
       (st\<lparr>px_egressFieldError := None, px_egressEnabledDraft := nextChecked, px_egressProgress := Some (start_egress texts nextChecked)\<rparr>)"

definition handleToggleEgress :: "proxy_texts \<Rightarrow> bool \<Rightarrow> proxy_page \<Rightarrow> proxy_page" where
  "handleToggleEgress texts nextChecked st =
     (case (if nextChecked then validateEgressUrl texts (px_egressUrlDraft st) else None) of
        Some localValidationError \<Rightarrow>
          if localValidationError \<noteq> [] then st\<lparr>px_egressFieldError := Some (localValidationError, Alert), px_egressEnabledDraft := False\<rparr>
          else toggle_egress texts nextChecked st
      | None \<Rightarrow> toggle_egress texts nextChecked st)"

text \<open>\<open>handleCheckedChange\<close> of the control, and the callbacks of its input.\<close>

definition handleCheckedChange :: "proxy_texts \<Rightarrow> bool \<Rightarrow> proxy_page \<Rightarrow> proxy_page" where
  "handleCheckedChange texts checked st =
     (if checked \<and> js_trim (px_egressUrlDraft st) = [] then st\<lparr>px_egressFieldError := Some (pt_egressRequiredError texts, Hint)\<rparr>
      else handleToggleEgress texts checked st)"

definition onUrlChange :: "string \<Rightarrow> proxy_page \<Rightarrow> proxy_page" where
  "onUrlChange v st = st\<lparr>px_egressFieldError := None, px_egressUrlDraft := v\<rparr>"

definition onUrlBlur :: "proxy_texts \<Rightarrow> proxy_page \<Rightarrow> proxy_page" where
  "onUrlBlur texts st = st\<lparr>px_egressFieldError := (case validateEgressUrl texts (px_egressUrlDraft st) of
     Some e \<Rightarrow> if e \<noteq> [] then Some (e, Alert) else None | None \<Rightarrow> None)\<rparr>"

definition egress_event :: "proxy_texts \<Rightarrow> ForwardProxyProgressEvent \<Rightarrow> ForwardProxyProgressEvent" where
  "egress_event texts ev = (case ev of
     EvError oper message key label cur tot detail \<Rightarrow>
       EvError oper (normalizeEgressErrorMessage texts (Some (or_string message (or_string (nullish detail []) (pt_egressUnknownError texts))))) key label cur tot
         (Some (normalizeEgressErrorMessage texts (Some (or_string (nullish detail []) (or_string message (pt_egressUnknownError texts))))))
   | _ \<Rightarrow> ev)"

definition egress_progress :: "proxy_texts \<Rightarrow> bool \<Rightarrow> ForwardProxyProgressEvent \<Rightarrow> proxy_page \<Rightarrow> proxy_page" where
  "egress_progress texts checked ev st =
     (let normalizedEvent = egress_event texts ev
      in st\<lparr>px_egressFieldError := (case normalizedEvent of EvError oper message key label cur tot detail \<Rightarrow> Some (message, Alert) | _ \<Rightarrow> px_egressFieldError st),
            px_egressProgress := Some (updateDialogProgressState (pt_progress texts) (nullish (px_egressProgress st) (start_egress texts checked)) normalizedEvent)\<rparr>)"

text \<open>The settings of an answer, and the two waits of a save: its answer, then the statistics, whose loading never throws.\<close>

definition settings_answered :: "int \<Rightarrow> ForwardProxySettings \<Rightarrow> proxy_page \<Rightarrow> proxy_page" where
  "settings_answered now settings st = st\<lparr>px_settings := Some settings, px_loadState := LS_ready, px_settingsError := None,
     px_savedAt := Some now, px_loadedRef := True\<rparr>"

definition task_progress :: "proxy_texts \<Rightarrow> save_task \<Rightarrow> ForwardProxyProgressEvent \<Rightarrow> proxy_page \<Rightarrow> proxy_page" where
  "task_progress texts task ev st = (case sk_progress task of
     No_progress \<Rightarrow> st | Dialog_save kind \<Rightarrow> dialog_progress texts kind Action_save ev st | Egress_save checked \<Rightarrow> egress_progress texts checked ev st)"

definition save_answered :: "proxy_texts \<Rightarrow> int \<Rightarrow> nat \<Rightarrow> save_task \<Rightarrow> js_error + ForwardProxySettings \<Rightarrow> proxy_page \<Rightarrow> proxy_page" where
  "save_answered texts now n task r st =
     (let st0 = st\<lparr>px_writes := filter (\<lambda>e. fst e \<noteq> n) (px_writes st)\<rparr>
      in case r of
        Inl e \<Rightarrow> save_failed_after texts (sk_after task) (er_message e) (st0\<lparr>px_saveError := Some (er_message e), px_saving := False\<rparr>)
      | Inr settings \<Rightarrow>
          (let st1 = task_progress texts task (EvPhase FO_save PK_refresh_ui ''Refreshing settings and stats'' None None None) (settings_answered now settings st0)
           in st1\<lparr>px_refreshes := (n, task) # px_refreshes st1\<rparr>))"

definition save_refreshed :: "proxy_texts \<Rightarrow> nat \<Rightarrow> save_task \<Rightarrow> proxy_page \<Rightarrow> proxy_page" where
  "save_refreshed texts n task st =
     (let st1 = task_progress texts task (EvComplete FO_save JNull) (st\<lparr>px_refreshes := filter (\<lambda>e. fst e \<noteq> n) (px_refreshes st)\<rparr>)
      in save_done_after texts (sk_after task) (st1\<lparr>px_saving := False\<rparr>))"

section \<open>Revalidation\<close>

definition revalidate_progress :: "proxy_texts \<Rightarrow> ForwardProxyProgressEvent \<Rightarrow> proxy_page \<Rightarrow> proxy_page" where
  "revalidate_progress texts ev st =
     st\<lparr>px_revalidateProgress := Some (updateDialogProgressState (pt_progress texts)
       (nullish (px_revalidateProgress st) (createDialogProgressState (pt_progress texts) Dialog_subscription Action_revalidate False)) ev)\<rparr>"

text \<open>\<open>px_revalidation\<close> tells what a revalidation waits for: \<open>Some True\<close> is its answer, \<open>Some False\<close> the statistics.\<close>

definition revalidateForwardProxy :: "proxy_texts \<Rightarrow> proxy_page \<Rightarrow> proxy_page" where
  "revalidateForwardProxy texts st = st\<lparr>px_revalidateError := None, px_revalidating := True,
     px_revalidateProgress := Some (createDialogProgressState (pt_progress texts) Dialog_subscription Action_revalidate False),
     px_revalidation := Some True, px_sent := px_sent st @ [Req_revalidateForwardProxy]\<rparr>"

definition revalidate_answered :: "proxy_texts \<Rightarrow> int \<Rightarrow> js_error + ForwardProxySettings \<Rightarrow> proxy_page \<Rightarrow> proxy_page" where
  "revalidate_answered texts now r st = (case r of
     Inl e \<Rightarrow> (revalidate_progress texts (EvError FO_revalidate (er_message e) None None None None None) (st\<lparr>px_revalidateError := Some (er_message e)\<rparr>))
       \<lparr>px_revalidating := False, px_revalidation := None\<rparr>
   | Inr settings \<Rightarrow>
       (revalidate_progress texts (EvPhase FO_revalidate PK_refresh_ui (ps_steps (pt_progress texts) PK_refresh_ui) None None None) (settings_answered now settings st))
         \<lparr>px_revalidation := Some False\<rparr>)"

definition finalizeForwardProxyRevalidate :: "proxy_texts \<Rightarrow> proxy_page \<Rightarrow> proxy_page" where
  "finalizeForwardProxyRevalidate texts st =
     (revalidate_progress texts (EvComplete FO_revalidate JNull) st)\<lparr>px_revalidating := False, px_revalidation := None\<rparr>"

section \<open>The dialog\<close>

definition openDialog :: "ForwardProxyDialogKind \<Rightarrow> proxy_page \<Rightarrow> proxy_page" where
  "openDialog kind st = (abort_current st)\<lparr>px_dialogKind := Some kind, px_dialogInput := [], px_dialogError := None, px_dialogResults := [],
     px_dialogLiveNodes := [], px_dialogProgress := None\<rparr>"

definition cancelDialogValidation :: "proxy_texts \<Rightarrow> proxy_page \<Rightarrow> proxy_page" where
  "cancelDialogValidation texts st = (abort_current st)\<lparr>px_dialogValidating := False, px_dialogProgress := None, px_dialogResults := [],
     px_dialogLiveNodes := [], px_dialogError := Some (pt_cancelled texts)\<rparr>"

definition onInputChange :: "string \<Rightarrow> proxy_page \<Rightarrow> proxy_page" where
  "onInputChange v st = st\<lparr>px_dialogInput := v, px_dialogResults := [], px_dialogLiveNodes := [], px_dialogError := None, px_dialogProgress := None\<rparr>"

definition task_kind :: "bool \<Rightarrow> ForwardProxyValidationKind" where
  "task_kind sub = (if sub then VK_subscriptionUrl else VK_proxyUrl)"

definition dialog_of :: "bool \<Rightarrow> ForwardProxyDialogKind" where
  "dialog_of sub = (if sub then Dialog_subscription else Dialog_manual)"

definition handleValidateDialog :: "proxy_texts \<Rightarrow> proxy_page \<Rightarrow> proxy_page" where
  "handleValidateDialog texts st =
     (let values0 = dialogInputValues st; sub = dialogIsSubscription st
      in if values0 = [] then st\<lparr>px_dialogResults := [], px_dialogError := Some (if sub then pt_emptySubscriptions texts else pt_emptyManual texts)\<rparr>
         else let st1 = abort_current (start_progress texts (dialog_of sub) Action_validate
                          (st\<lparr>px_dialogError := None, px_dialogValidating := True, px_dialogLiveNodes := []\<rparr>)); n = px_counter st1
              in st1\<lparr>px_abortRef := Some n, px_counter := n + 1,
                   px_validations := (n, \<lparr>vk_values = values0, vk_sub = sub, vk_run = candidates_start (length values0)\<rparr>) # px_validations st1,
                   px_sent := px_sent st1 @ [Req_validateForwardProxyCandidates (task_kind sub) values0]\<rparr>)"

text \<open>The callback of a validation, on one event and on those a step of \<open>validateForwardProxyCandidates\<close> emitted.\<close>

definition validation_progress :: "proxy_texts \<Rightarrow> bool \<Rightarrow> ForwardProxyProgressEvent \<Rightarrow> proxy_page \<Rightarrow> proxy_page" where
  "validation_progress texts sub ev st =
     dialog_progress texts (dialog_of sub) Action_validate ev
       (if sub then (case ev of
          EvNodes oper nodes \<Rightarrow> st\<lparr>px_dialogLiveNodes := createPendingSubscriptionNodeRows nodes\<rparr>
        | EvNode oper node \<Rightarrow> st\<lparr>px_dialogLiveNodes := updateSubscriptionNodeRows (px_dialogLiveNodes st) node\<rparr>
        | _ \<Rightarrow> st) else st)"

definition emitted_since :: "candidates_run \<Rightarrow> candidates_run \<Rightarrow> ForwardProxyProgressEvent list" where
  "emitted_since before after = drop (length (cr_emitted before)) (cr_emitted after)"

definition run_input :: "proxy_texts \<Rightarrow> validation_task \<Rightarrow> candidate_input \<Rightarrow> candidates_run \<Rightarrow> candidates_run" where
  "run_input texts v x run = (if length (vk_values v) = 1 then single_input (pt_validation texts) (task_kind (vk_sub v)) (vk_values v) x run
     else batch_input (pt_validation texts) (task_kind (vk_sub v)) (vk_values v) x run)"

definition candidate_arrived :: "proxy_texts \<Rightarrow> nat \<Rightarrow> validation_task \<Rightarrow> candidate_input \<Rightarrow> proxy_page \<Rightarrow> proxy_page" where
  "candidate_arrived texts n v x st =
     (let run = run_input texts v x (vk_run v); st1 = fold (validation_progress texts (vk_sub v)) (emitted_since (vk_run v) run) st
      in st1\<lparr>px_validations := map (\<lambda>(k, w). if k = n then (k, v\<lparr>vk_run := run\<rparr>) else (k, w)) (px_validations st1)\<rparr>)"

definition run_end :: "proxy_texts \<Rightarrow> validation_task \<Rightarrow> candidates_run" where
  "run_end texts v =
     (let run = (if length (vk_values v) = 1 then vk_run v else batch_end (pt_validation texts) (task_kind (vk_sub v)) (vk_values v) (vk_run v))
      in if \<not> cr_hadFatalError run \<and> any_success run then emit (EvComplete FO_validate JNull) run else run)"

definition validation_finally :: "nat \<Rightarrow> proxy_page \<Rightarrow> proxy_page" where
  "validation_finally n st = st\<lparr>px_abortRef := (if px_abortRef st = Some n then None else px_abortRef st), px_dialogValidating := False,
     px_validations := filter (\<lambda>e. fst e \<noteq> n) (px_validations st)\<rparr>"

definition validation_results :: "candidates_run \<Rightarrow> ForwardProxyValidationEntry list" where
  "validation_results run = List.map_filter (\<lambda>r. r) (cr_results run)"

definition validation_done :: "proxy_texts \<Rightarrow> nat \<Rightarrow> validation_task \<Rightarrow> proxy_page \<Rightarrow> proxy_page" where
  "validation_done texts n v st =
     (let run = run_end texts v; st1 = fold (validation_progress texts (vk_sub v)) (emitted_since (vk_run v) run) st; results = validation_results run
      in validation_finally n
           (if n \<in> set (px_aborted st1) then st1
            else st1\<lparr>px_dialogResults := results, px_dialogError := (if results = [] then Some (vt_requestFailed (pt_validation texts)) else px_dialogError st1)\<rparr>))"

definition validation_rejected :: "nat \<Rightarrow> js_error \<Rightarrow> proxy_page \<Rightarrow> proxy_page" where
  "validation_rejected n e st = validation_finally n
     (if n \<in> set (px_aborted st) \<or> er_name e = ''AbortError'' then st
      else st\<lparr>px_dialogResults := [], px_dialogLiveNodes := [], px_dialogError := Some (er_message e)\<rparr>)"

section \<open>Loading the settings\<close>

text \<open>\<open>loadForwardProxySettingsData\<close>: a new load aborts the one before, so that one load is awaited at most.\<close>

definition loadForwardProxySettingsData :: "bool \<Rightarrow> proxy_page \<Rightarrow> proxy_page" where
  "loadForwardProxySettingsData refresh st = st\<lparr>px_loading := True, px_settingsError := None,
     px_loadState := (if refresh then getRefreshingLoadState (px_loadedRef st) else getBlockingLoadState (px_loadedRef st))\<rparr>"

definition settings_loaded :: "js_error + ForwardProxySettings \<Rightarrow> proxy_page \<Rightarrow> proxy_page" where
  "settings_loaded r st = (case r of
     Inr settings \<Rightarrow> st\<lparr>px_loading := False, px_settings := Some settings, px_loadState := LS_ready, px_loadedRef := True\<rparr>
   | Inl e \<Rightarrow> st\<lparr>px_loading := False, px_settingsError := Some (er_message e), px_loadState := LS_error\<rparr>)"

section \<open>Events\<close>

datatype proxy_event =
    PEv_load bool | PEv_loaded "js_error + ForwardProxySettings" | PEv_load_aborted
  | PEv_open ForwardProxyDialogKind | PEv_close | PEv_cancel | PEv_input string | PEv_validate
  | PEv_add_subscription | PEv_add_batch | PEv_add_entry ForwardProxyValidationEntry
  | PEv_egress_toggle bool | PEv_egress_url string | PEv_egress_blur
  | PEv_remove_manual string | PEv_remove_subscription string | PEv_interval string | PEv_insert_direct bool | PEv_revalidate
  | PEv_candidate nat candidate_input | PEv_candidates_done nat | PEv_candidates_rejected nat js_error
  | PEv_save_progress nat ForwardProxyProgressEvent | PEv_save_answered nat "js_error + ForwardProxySettings" int | PEv_save_refreshed nat
  | PEv_revalidate_progress ForwardProxyProgressEvent | PEv_revalidate_answered "js_error + ForwardProxySettings" int | PEv_revalidate_refreshed

definition FORWARD_PROXY_INTERVAL_OPTIONS :: "string list" where
  "FORWARD_PROXY_INTERVAL_OPTIONS = [''60'', ''300'', ''900'', ''3600'', ''21600'', ''86400'']"

text \<open>What can happen: the buttons that are shown and not disabled, and the answers of what is awaited.  The streams of
  an aborted validation deliver nothing more; it only rejects.\<close>

definition dialog_open :: "proxy_page \<Rightarrow> bool" where
  "dialog_open st \<longleftrightarrow> px_dialogKind st \<noteq> None"

definition controls_usable :: "proxy_page \<Rightarrow> bool" where
  "controls_usable st \<longleftrightarrow> region_shown st \<and> \<not> controlsDisabled st"

fun proxy_allowed :: "proxy_page \<Rightarrow> proxy_event \<Rightarrow> bool" where
  "proxy_allowed st (PEv_load refresh) \<longleftrightarrow> True"
| "proxy_allowed st (PEv_loaded r) \<longleftrightarrow> px_loading st"
| "proxy_allowed st PEv_load_aborted \<longleftrightarrow> px_loading st"
| "proxy_allowed st (PEv_open kind) \<longleftrightarrow> controls_usable st \<and> kind \<noteq> Dialog_egress"
| "proxy_allowed st PEv_close \<longleftrightarrow> dialog_open st"
| "proxy_allowed st PEv_cancel \<longleftrightarrow> dialog_open st \<and> \<not> controlsDisabled st"
| "proxy_allowed st (PEv_input v) \<longleftrightarrow> dialog_open st"
| "proxy_allowed st PEv_validate \<longleftrightarrow> dialog_open st \<and> \<not> px_dialogValidating st \<and> \<not> controlsDisabled st"
| "proxy_allowed st PEv_add_subscription \<longleftrightarrow> dialogIsSubscription st \<and> canAddSubscription st \<and> \<not> controlsDisabled st"
| "proxy_allowed st PEv_add_batch \<longleftrightarrow> px_dialogKind st = Some Dialog_manual \<and> canAddManualBatch st \<and> \<not> px_dialogValidating st \<and> \<not> controlsDisabled st"
| "proxy_allowed st (PEv_add_entry entry) \<longleftrightarrow> entry_offered st entry \<and> \<not> controlsDisabled st"
| "proxy_allowed st (PEv_egress_toggle checked) \<longleftrightarrow> controls_usable st \<and> \<not> egressApplyBusy st \<and> checked = (\<not> px_egressEnabledDraft st)"
| "proxy_allowed st (PEv_egress_url v) \<longleftrightarrow> controls_usable st \<and> \<not> egressInputLocked st"
| "proxy_allowed st PEv_egress_blur \<longleftrightarrow> region_shown st"
| "proxy_allowed st (PEv_remove_manual v) \<longleftrightarrow> v \<in> set (manualUrls st) \<and> controls_usable st"
| "proxy_allowed st (PEv_remove_subscription v) \<longleftrightarrow> v \<in> set (subscriptionUrls st) \<and> controls_usable st"
| "proxy_allowed st (PEv_interval v) \<longleftrightarrow> v \<in> set FORWARD_PROXY_INTERVAL_OPTIONS \<and> controls_usable st"
| "proxy_allowed st (PEv_insert_direct checked) \<longleftrightarrow> controls_usable st"
| "proxy_allowed st PEv_revalidate \<longleftrightarrow> \<not> controlsDisabled st"
| "proxy_allowed st (PEv_candidate n x) \<longleftrightarrow> n \<notin> set (px_aborted st) \<and> (case map_of (px_validations st) n of None \<Rightarrow> False | Some v \<Rightarrow> index_of x < length (vk_values v))"
| "proxy_allowed st (PEv_candidates_done n) \<longleftrightarrow> n \<notin> set (px_aborted st) \<and>
     (case map_of (px_validations st) n of None \<Rightarrow> False | Some v \<Rightarrow> list_all (\<lambda>r. r \<noteq> None) (cr_results (vk_run v)))"
| "proxy_allowed st (PEv_candidates_rejected n e) \<longleftrightarrow> (n \<in> set (px_aborted st) \<or> er_name e = ''AbortError'') \<and> map_of (px_validations st) n \<noteq> None"
| "proxy_allowed st (PEv_save_progress n ev) \<longleftrightarrow> map_of (px_writes st) n \<noteq> None"
| "proxy_allowed st (PEv_save_answered n r now) \<longleftrightarrow> map_of (px_writes st) n \<noteq> None"
| "proxy_allowed st (PEv_save_refreshed n) \<longleftrightarrow> map_of (px_refreshes st) n \<noteq> None"
| "proxy_allowed st (PEv_revalidate_progress ev) \<longleftrightarrow> px_revalidation st = Some True"
| "proxy_allowed st (PEv_revalidate_answered r now) \<longleftrightarrow> px_revalidation st = Some True"
| "proxy_allowed st PEv_revalidate_refreshed \<longleftrightarrow> px_revalidation st = Some False"

fun proxy_handle :: "proxy_texts \<Rightarrow> proxy_event \<Rightarrow> proxy_page \<Rightarrow> proxy_page" where
  "proxy_handle texts (PEv_load refresh) st = loadForwardProxySettingsData refresh st"
| "proxy_handle texts (PEv_loaded r) st = settings_loaded r st"
| "proxy_handle texts PEv_load_aborted st = st\<lparr>px_loading := False\<rparr>"
| "proxy_handle texts (PEv_open kind) st = openDialog kind st"
| "proxy_handle texts PEv_close st = closeDialog (controlsDisabled st) (px_dialogValidating st) st"
| "proxy_handle texts PEv_cancel st =
     (if px_dialogValidating st then cancelDialogValidation texts st else closeDialog (controlsDisabled st) (px_dialogValidating st) st)"
| "proxy_handle texts (PEv_input v) st = onInputChange v st"
| "proxy_handle texts PEv_validate st = handleValidateDialog texts st"
| "proxy_handle texts PEv_add_subscription st = handleAddSubscription texts st"
| "proxy_handle texts PEv_add_batch st = handleAddManualBatch texts st"
| "proxy_handle texts (PEv_add_entry entry) st = handleAddManualEntry texts entry st"
| "proxy_handle texts (PEv_egress_toggle checked) st = handleCheckedChange texts checked st"
| "proxy_handle texts (PEv_egress_url v) st = onUrlChange v st"
| "proxy_handle texts PEv_egress_blur st = onUrlBlur texts st"
| "proxy_handle texts (PEv_remove_manual v) st = handleRemoveManual texts v st"
| "proxy_handle texts (PEv_remove_subscription v) st = handleRemoveSubscription texts v st"
| "proxy_handle texts (PEv_interval v) st = handleIntervalChange texts v st"
| "proxy_handle texts (PEv_insert_direct checked) st = handleInsertDirectChange texts checked st"
| "proxy_handle texts PEv_revalidate st = revalidateForwardProxy texts st"
| "proxy_handle texts (PEv_candidate n x) st = (case map_of (px_validations st) n of None \<Rightarrow> st | Some v \<Rightarrow> candidate_arrived texts n v x st)"
| "proxy_handle texts (PEv_candidates_done n) st = (case map_of (px_validations st) n of None \<Rightarrow> st | Some v \<Rightarrow> validation_done texts n v st)"
| "proxy_handle texts (PEv_candidates_rejected n e) st = validation_rejected n e st"
| "proxy_handle texts (PEv_save_progress n ev) st = (case map_of (px_writes st) n of None \<Rightarrow> st | Some task \<Rightarrow> task_progress texts task ev st)"
| "proxy_handle texts (PEv_save_answered n r now) st = (case map_of (px_writes st) n of None \<Rightarrow> st | Some task \<Rightarrow> save_answered texts now n task r st)"
| "proxy_handle texts (PEv_save_refreshed n) st = (case map_of (px_refreshes st) n of None \<Rightarrow> st | Some task \<Rightarrow> save_refreshed texts n task st)"
| "proxy_handle texts (PEv_revalidate_progress ev) st = revalidate_progress texts ev st"
| "proxy_handle texts (PEv_revalidate_answered r now) st = revalidate_answered texts now r st"
| "proxy_handle texts PEv_revalidate_refreshed st = finalizeForwardProxyRevalidate texts st"

text \<open>The effect on \<open>draft.egressSocks5Enabled\<close> and \<open>draft.egressSocks5Url\<close>, after the render in which one of them changed.\<close>

definition egress_draft :: "proxy_page \<Rightarrow> bool \<times> string" where
  "egress_draft st = (case px_settings st of None \<Rightarrow> (False, []) | Some s \<Rightarrow> (fps_egressSocks5Enabled s, fps_egressSocks5Url s))"

definition egress_effect :: "proxy_page \<Rightarrow> proxy_page \<Rightarrow> proxy_page" where
  "egress_effect before st =
     (if egress_draft st = egress_draft before then st
      else st\<lparr>px_egressUrlDraft := snd (egress_draft st), px_egressEnabledDraft := fst (egress_draft st), px_egressFieldError := None\<rparr>)"

lemma egress_draft_rendered: "egress_draft st = (fd_egressSocks5Enabled (rendered_draft st), fd_egressSocks5Url (rendered_draft st))"
  by (simp add: egress_draft_def rendered_draft_def buildDraftFromSettings_def split: option.split)

definition proxy_step :: "proxy_texts \<Rightarrow> proxy_event \<Rightarrow> proxy_page \<Rightarrow> proxy_page" where
  "proxy_step texts ev st = (if proxy_allowed st ev then egress_effect st (proxy_handle texts ev st) else st)"

end
