(* ===== verification/Proxy_Dialog_Safe.thy ===== *)
theory Proxy_Dialog_Safe
  imports Proxy_Dialog Mcp_Probe
begin

text \<open>
  Properties of the forward proxy settings: what the requests contain, that the results in the dialog belong to its
  input, and two orders of events in which they are lost or do not.
\<close>

section \<open>Lists as text\<close>

abbreviation normalize_step :: "string list \<Rightarrow> string \<Rightarrow> string list" where
  "normalize_step \<equiv> \<lambda>normalized v. let trimmed = js_trim v in if trimmed = [] \<or> trimmed \<in> set normalized then normalized else normalized @ [trimmed]"

definition clean_entries :: "string list \<Rightarrow> bool" where
  "clean_entries xs \<longleftrightarrow> distinct xs \<and> list_all (\<lambda>x. js_trim x = x \<and> x \<noteq> []) xs"

lemma normalize_run_clean: "clean_entries acc \<Longrightarrow> clean_entries (foldl normalize_step acc xs)"
  by (induction xs arbitrary: acc) (auto simp: clean_entries_def Let_def)

lemma normalizeEntries_clean: "clean_entries (normalizeEntries xs)"
  unfolding normalizeEntries_def by (rule normalize_run_clean) (simp add: clean_entries_def)

lemma normalize_run_id: "clean_entries (acc @ xs) \<Longrightarrow> foldl normalize_step acc xs = acc @ xs"
  by (induction xs arbitrary: acc) (auto simp: clean_entries_def Let_def)

lemma normalizeEntries_id: "clean_entries xs \<Longrightarrow> normalizeEntries xs = xs"
  using normalize_run_id [of "[]" xs] by (simp add: normalizeEntries_def)

lemma normalizeEntries_idem [simp]: "normalizeEntries (normalizeEntries xs) = normalizeEntries xs"
  by (intro normalizeEntries_id normalizeEntries_clean)

lemma normalize_run_set: "set (foldl normalize_step acc xs) = set acc \<union> (js_trim ` set xs - {[]})"
  by (induction xs arbitrary: acc) (auto simp: Let_def)

lemma normalizeEntries_set: "set (normalizeEntries xs) = js_trim ` set xs - {[]}"
  by (simp add: normalizeEntries_def normalize_run_set)

lemma trim_start_subset: "set (js_trim_start s) \<subseteq> set s"
proof (induction s rule: js_trim_start.induct)
  case (1 s)
  then show ?case using set_drop_subset [of "js_ws_len s" s] by (subst js_trim_start.simps) auto
qed

lemma trim_subset: "set (js_trim s) \<subseteq> set s"
proof -
  have "set (js_trim_end t) \<subseteq> set t" for t by (induction t) auto
  then show ?thesis using trim_start_subset by (auto simp: js_trim_def)
qed

lemma one_line_trim: "one_line s \<Longrightarrow> one_line (js_trim s)"
  using trim_subset by (auto simp: one_line_def list_all_iff)

lemma normalizeEntries_one_line: "list_all one_line xs \<Longrightarrow> list_all one_line (normalizeEntries xs)"
  by (auto simp: list_all_iff normalizeEntries_set one_line_trim)

lemma split_lines_join: "xs \<noteq> [] \<Longrightarrow> list_all one_line xs \<Longrightarrow> js_split_lines (js_join lf_text xs) = xs"
proof (induction xs rule: induct_list012)
  case (3 x y xs)
  then show ?case using split_lines_lf [of x "js_join lf_text (y # xs)"] by (simp add: lf_def)
qed (simp_all add: split_lines_one_line)

lemma splitMultilineEntries_normalize: "splitMultilineEntries v = normalizeEntries (js_split_lines v)"
  by (simp only: splitMultilineEntries_def normalizeEntries_def)

lemma splitMultilineEntries_join: "list_all one_line xs \<Longrightarrow> splitMultilineEntries (js_join lf_text xs) = normalizeEntries xs"
  by (cases "xs = []") (simp_all add: splitMultilineEntries_normalize split_lines_join, simp add: normalizeEntries_def)

section \<open>The effect of the relay\<close>

lemma egress_effect_frame [simp]:
    "px_settings (egress_effect before st) = px_settings st" "px_loadState (egress_effect before st) = px_loadState st"
    "px_settingsError (egress_effect before st) = px_settingsError st" "px_loadedRef (egress_effect before st) = px_loadedRef st"
    "px_loading (egress_effect before st) = px_loading st" "px_saving (egress_effect before st) = px_saving st" "px_revalidating (egress_effect before st) = px_revalidating st"
    "px_saveError (egress_effect before st) = px_saveError st" "px_savedAt (egress_effect before st) = px_savedAt st"
    "px_revalidateError (egress_effect before st) = px_revalidateError st" "px_revalidateProgress (egress_effect before st) = px_revalidateProgress st"
    "px_dialogKind (egress_effect before st) = px_dialogKind st" "px_dialogInput (egress_effect before st) = px_dialogInput st"
    "px_dialogError (egress_effect before st) = px_dialogError st" "px_dialogValidating (egress_effect before st) = px_dialogValidating st"
    "px_dialogResults (egress_effect before st) = px_dialogResults st" "px_dialogLiveNodes (egress_effect before st) = px_dialogLiveNodes st"
    "px_dialogProgress (egress_effect before st) = px_dialogProgress st" "px_egressProgress (egress_effect before st) = px_egressProgress st"
    "px_abortRef (egress_effect before st) = px_abortRef st" "px_aborted (egress_effect before st) = px_aborted st" "px_counter (egress_effect before st) = px_counter st"
    "px_validations (egress_effect before st) = px_validations st" "px_writes (egress_effect before st) = px_writes st" "px_refreshes (egress_effect before st) = px_refreshes st"
    "px_revalidation (egress_effect before st) = px_revalidation st" "px_sent (egress_effect before st) = px_sent st"
  by (simp_all add: egress_effect_def)

lemma egress_effect_id: "px_settings st = px_settings before \<Longrightarrow> egress_effect before st = st"
  by (simp add: egress_effect_def egress_draft_def)

section \<open>Results belong to the input\<close>

text \<open>What a running validation has found so far, and the results shown.\<close>

definition run_ok :: "validation_task \<Rightarrow> bool" where
  "run_ok v \<longleftrightarrow> length (cr_results (vk_run v)) = length (vk_values v) \<and>
     (\<forall>i < length (vk_values v). \<forall>entry. cr_results (vk_run v) ! i = Some entry \<longrightarrow> (\<exists>r. entry = candidate_entry (task_kind (vk_sub v)) i (vk_values v ! i) r))"

definition results_current :: "proxy_page \<Rightarrow> bool" where
  "results_current st \<longleftrightarrow> px_dialogKind st = None \<or> px_dialogResults st = [] \<or>
     map (\<lambda>e. (ve_kind e, ve_value e)) (px_dialogResults st) = map (Pair (task_kind (dialogIsSubscription st))) (dialogInputValues st)"

definition validation_current :: "proxy_page \<Rightarrow> nat \<Rightarrow> validation_task \<Rightarrow> bool" where
  "validation_current st n v \<longleftrightarrow> px_abortRef st = Some n \<and>
     (px_dialogKind st = None \<or> px_dialogKind st = Some (dialog_of (vk_sub v)) \<and> vk_values v = dialogInputValues st)"

definition dialog_inv :: "proxy_page \<Rightarrow> bool" where
  "dialog_inv st \<longleftrightarrow>
     (\<forall>n v. map_of (px_validations st) n = Some v \<longrightarrow> n < px_counter st \<and> run_ok v \<and> (n \<notin> set (px_aborted st) \<longrightarrow> validation_current st n v)) \<and>
     (\<forall>n \<in> set (px_aborted st). n < px_counter st) \<and> (\<forall>n. px_abortRef st = Some n \<longrightarrow> n < px_counter st) \<and> results_current st"

definition same_dialog :: "proxy_page \<Rightarrow> proxy_page \<Rightarrow> bool" where
  "same_dialog st st' \<longleftrightarrow> px_dialogKind st' = px_dialogKind st \<and> px_dialogInput st' = px_dialogInput st \<and> px_dialogResults st' = px_dialogResults st \<and>
     px_abortRef st' = px_abortRef st \<and> px_aborted st' = px_aborted st \<and> px_validations st' = px_validations st \<and> px_counter st \<le> px_counter st'"

lemma same_dialog_trans: "same_dialog st st' \<Longrightarrow> same_dialog st' st'' \<Longrightarrow> same_dialog st st''"
  by (auto simp: same_dialog_def)

lemma same_dialog_refl [simp]: "same_dialog st st"
  by (simp add: same_dialog_def)

lemma same_dialog_inputs: "same_dialog st st' \<Longrightarrow> dialogInputValues st' = dialogInputValues st \<and> dialogIsSubscription st' = dialogIsSubscription st"
  by (simp add: same_dialog_def dialogInputValues_def dialogIsSubscription_def)

lemma results_current_cong: "px_dialogKind st' = px_dialogKind st \<Longrightarrow> px_dialogInput st' = px_dialogInput st \<Longrightarrow> px_dialogResults st' = px_dialogResults st \<Longrightarrow>
    results_current st' = results_current st"
  by (simp add: results_current_def dialogInputValues_def dialogIsSubscription_def)

lemma dialog_inv_same: "dialog_inv st \<Longrightarrow> same_dialog st st' \<Longrightarrow> dialog_inv st'"
  using same_dialog_inputs [of st st']
  by (fastforce simp: dialog_inv_def same_dialog_def validation_current_def results_current_def)

lemma same_dialog_progress: "same_dialog st (dialog_progress texts kind action ev st)" "same_dialog st (task_progress texts task ev st)"
    "same_dialog st (start_progress texts kind action st)" "same_dialog st (revalidate_progress texts ev st)" "same_dialog before (egress_effect st' before)"
  by (simp_all add: same_dialog_def dialog_progress_def task_progress_def egress_progress_def start_progress_def revalidate_progress_def Let_def split: save_progress.split)

lemma same_dialog_validation: "same_dialog st (validation_progress texts sub ev st)"
  by (simp add: same_dialog_def validation_progress_def dialog_progress_def split: ForwardProxyProgressEvent.split)

lemma same_dialog_fold: "same_dialog st (fold (validation_progress texts sub) evs st)"
  by (induction evs arbitrary: st) (auto intro: same_dialog_trans same_dialog_validation)

lemma same_dialog_save: "same_dialog st (saveForwardProxySettings texts draft skip task st)"
  by (simp add: same_dialog_def saveForwardProxySettings_def save_failed_after_def split: option.split after_save.split)

lemma same_dialog_persist: "same_dialog st (persistDraft texts draft skip task st)"
  unfolding persistDraft_def by (rule same_dialog_trans [OF _ same_dialog_save]) (simp add: same_dialog_def)

lemmas same_dialog_handlers = persistManualUrls_def persistSubscriptionUrls_def same_dialog_persist
  handleRemoveManual_def handleRemoveSubscription_def handleIntervalChange_def handleInsertDirectChange_def

lemma same_dialog_egress: "same_dialog st (handleCheckedChange texts checked st)" "same_dialog st (onUrlChange v st)" "same_dialog st (onUrlBlur texts st)"
proof -
  have toggle: "same_dialog st (toggle_egress texts checked st)" for checked
    unfolding toggle_egress_def by (rule same_dialog_trans [OF _ same_dialog_persist]) (simp add: same_dialog_def)
  have "same_dialog st (st\<lparr>px_egressFieldError := e\<rparr>)" "same_dialog st (st\<lparr>px_egressFieldError := e, px_egressEnabledDraft := b\<rparr>)" for e b by (simp_all add: same_dialog_def)
  then show "same_dialog st (handleCheckedChange texts checked st)"
    using toggle by (simp add: handleCheckedChange_def handleToggleEgress_def split: option.split)
qed (simp_all add: same_dialog_def onUrlChange_def onUrlBlur_def)

text \<open>Aborting the validation that runs leaves no current one.\<close>

lemma abort_current_inv:
  assumes "dialog_inv st" "px_validations st' = px_validations st" "px_aborted st' = px_aborted (abort_current st)" "px_abortRef st' = None"
    "px_counter st \<le> px_counter st'" "results_current st'"
  shows "dialog_inv st'"
proof -
  have "n \<in> set (px_aborted (abort_current st))" if "map_of (px_validations st) n = Some v" for n v
    using assms(1) that by (auto simp: dialog_inv_def abort_current_def validation_current_def split: option.split)
  moreover have "n < px_counter st" if "n \<in> set (px_aborted (abort_current st))" for n
    using assms(1) that by (auto simp: dialog_inv_def abort_current_def split: option.splits)
  ultimately show ?thesis using assms unfolding dialog_inv_def by (auto intro: less_le_trans)
qed

lemma close_inv: "dialog_inv st \<Longrightarrow> dialog_inv (closeDialog disabled validating st)"
proof (cases "disabled \<or> \<not> validating")
  case True
  then show "dialog_inv st \<Longrightarrow> ?thesis"
    by (auto simp: closeDialog_def Let_def dialog_inv_def validation_current_def results_current_def)
next
  case False
  assume "dialog_inv st"
  then show ?thesis by (rule abort_current_inv) (use False in \<open>simp_all add: closeDialog_def Let_def results_current_def abort_current_def\<close>)
qed

lemma open_inv: "dialog_inv st \<Longrightarrow> dialog_inv (openDialog kind st)"
  by (erule abort_current_inv) (simp_all add: openDialog_def results_current_def abort_current_def)

lemma cancel_dialog_inv: "dialog_inv st \<Longrightarrow> dialog_inv (cancelDialogValidation texts st)"
  by (erule abort_current_inv) (simp_all add: cancelDialogValidation_def results_current_def abort_current_def)

lemma input_inv: "dialog_inv st \<Longrightarrow> px_abortRef st = None \<Longrightarrow> dialog_inv (onInputChange v st)"
  by (erule abort_current_inv) (simp_all add: onInputChange_def results_current_def abort_current_def)

lemma run_start_ok: "run_ok \<lparr>vk_values = vs, vk_sub = sub, vk_run = candidates_start (length vs)\<rparr>"
  by (simp add: run_ok_def candidates_start_def)

lemma validate_inv:
  assumes "dialog_inv st" "px_dialogKind st = Some kind" "kind \<noteq> Dialog_egress"
  shows "dialog_inv (handleValidateDialog texts st)"
proof (cases "dialogInputValues st = []")
  case True
  then show ?thesis using assms(1) by (auto simp: handleValidateDialog_def Let_def dialog_inv_def validation_current_def results_current_def dialogInputValues_def dialogIsSubscription_def)
next
  case False
  define sub where "sub = dialogIsSubscription st"
  define st1 where "st1 = abort_current (start_progress texts (dialog_of sub) Action_validate (st\<lparr>px_dialogError := None, px_dialogValidating := True, px_dialogLiveNodes := []\<rparr>))"
  define v where "v = \<lparr>vk_values = dialogInputValues st, vk_sub = sub, vk_run = candidates_start (length (dialogInputValues st))\<rparr>"
  define st2 where "st2 = handleValidateDialog texts st"
  have st1: "px_dialogKind st1 = px_dialogKind st" "px_dialogInput st1 = px_dialogInput st" "px_dialogResults st1 = px_dialogResults st" "px_counter st1 = px_counter st"
      "px_validations st1 = px_validations st" "px_aborted st1 = px_aborted (abort_current st)" "px_abortRef st1 = None"
    by (simp_all add: st1_def abort_current_def start_progress_def split: option.split)
  have "results_current st1" using assms(1) results_current_cong [OF st1(1-3)] by (simp add: dialog_inv_def)
  then have inv1: "dialog_inv st1" by (intro abort_current_inv [OF assms(1)]) (simp_all add: st1)
  have st2: "px_dialogKind st2 = px_dialogKind st1" "px_dialogInput st2 = px_dialogInput st1" "px_dialogResults st2 = px_dialogResults st1"
      "px_validations st2 = (px_counter st1, v) # px_validations st1" "px_counter st2 = px_counter st1 + 1" "px_abortRef st2 = Some (px_counter st1)" "px_aborted st2 = px_aborted st1"
    using False by (simp_all add: st2_def handleValidateDialog_def Let_def st1_def v_def sub_def)
  have results: "results_current st2" using inv1 results_current_cong [OF st2(1-3)] by (simp add: dialog_inv_def)
  have none: "n \<in> set (px_aborted st1)" if "map_of (px_validations st1) n = Some w" for n w
    using inv1 that st1(7) by (auto simp: dialog_inv_def validation_current_def)
  have "px_dialogKind st2 = Some (dialog_of sub)" "dialogInputValues st2 = dialogInputValues st"
    using assms(2,3) st2 st1 by (cases kind; simp add: dialog_of_def dialogIsSubscription_def dialogInputValues_def sub_def)+
  then have "validation_current st2 (px_counter st1) v" using st2(6) by (simp add: validation_current_def v_def)
  moreover have "run_ok v" unfolding v_def by (rule run_start_ok)
  ultimately have "dialog_inv st2" unfolding dialog_inv_def using inv1 none results by (auto simp: st2 dialog_inv_def less_Suc_eq)
  then show ?thesis by (simp add: st2_def)
qed

text \<open>The events of a validation.\<close>

lemma run_input_results: "cr_results (run_input texts v x run) = input_results (task_kind (vk_sub v)) (vk_values v) x (cr_results run)"
  by (simp add: run_input_def single_step(1) batch_step(1))

lemma run_input_ok:
  assumes "run_ok v" "index_of x < length (vk_values v)"
  shows "run_ok (v\<lparr>vk_run := run_input texts v x (vk_run v)\<rparr>)"
  unfolding run_ok_def
proof (intro conjI allI impI)
  let ?rs = "cr_results (vk_run v)"
  have len: "length ?rs = length (vk_values v)" using assms(1) by (simp add: run_ok_def)
  then show "length (cr_results (vk_run (v\<lparr>vk_run := run_input texts v x (vk_run v)\<rparr>))) = length (vk_values (v\<lparr>vk_run := run_input texts v x (vk_run v)\<rparr>))"
    by (simp add: run_input_results)
  fix i entry
  assume i: "i < length (vk_values (v\<lparr>vk_run := run_input texts v x (vk_run v)\<rparr>))" "cr_results (vk_run (v\<lparr>vk_run := run_input texts v x (vk_run v)\<rparr>)) ! i = Some entry"
  then have "input_results (task_kind (vk_sub v)) (vk_values v) x ?rs ! i = Some entry" "i < length ?rs" using len by (simp_all add: run_input_results)
  then have "?rs ! i = Some entry \<or> (\<exists>r. entry = candidate_entry (task_kind (vk_sub v)) i (vk_values v ! i) r)"
    by (auto simp: input_results_nth split: option.splits)
  then show "\<exists>r. entry = candidate_entry (task_kind (vk_sub (v\<lparr>vk_run := run_input texts v x (vk_run v)\<rparr>))) i (vk_values (v\<lparr>vk_run := run_input texts v x (vk_run v)\<rparr>) ! i) r"
    using assms(1) i(1) by (auto simp: run_ok_def)
qed

lemma map_of_update: "map_of (map (\<lambda>(k, w). if k = n then (k, v) else (k, w)) xs) m = (if m = n \<and> map_of xs m \<noteq> None then Some v else map_of xs m)"
  by (induction xs) auto

lemma candidate_inv:
  assumes "dialog_inv st" "map_of (px_validations st) n = Some v" "index_of x < length (vk_values v)"
  shows "dialog_inv (candidate_arrived texts n v x st)"
proof -
  let ?run = "run_input texts v x (vk_run v)"
  let ?st1 = "fold (validation_progress texts (vk_sub v)) (emitted_since (vk_run v) ?run) st"
  have same: "same_dialog st ?st1" by (rule same_dialog_fold)
  then have inv: "dialog_inv ?st1" and v: "map_of (px_validations ?st1) n = Some v"
    using dialog_inv_same [OF assms(1)] assms(2) by (auto simp: same_dialog_def)
  have "run_ok v" using inv v by (auto simp: dialog_inv_def)
  then have ok: "run_ok (v\<lparr>vk_run := ?run\<rparr>)" using assms(3) by (rule run_input_ok)
  show ?thesis using inv v ok unfolding candidate_arrived_def Let_def
    by (auto simp: dialog_inv_def validation_current_def results_current_def dialogInputValues_def dialogIsSubscription_def map_of_update split: if_splits)
qed

lemma finally_inv:
  assumes "dialog_inv st"
  shows "dialog_inv (validation_finally n st)"
proof -
  have map_of_filter: "map_of (filter (\<lambda>e. fst e \<noteq> n) xs) m = (if m = n then None else map_of xs m)" for m and xs :: "(nat \<times> validation_task) list"
    by (induction xs) auto
  let ?st = "validation_finally n st"
  have results: "results_current ?st" using assms results_current_cong [of ?st st] by (simp add: dialog_inv_def validation_finally_def)
  have "validation_current ?st m v" if "m \<noteq> n" "validation_current st m v" for m v
    using that by (auto simp: validation_current_def validation_finally_def dialogInputValues_def dialogIsSubscription_def)
  then show ?thesis using assms results
    unfolding dialog_inv_def by (auto simp: validation_finally_def map_of_filter split: if_splits)
qed

lemma rejected_inv: "dialog_inv st \<Longrightarrow> n \<in> set (px_aborted st) \<or> er_name e = ''AbortError'' \<Longrightarrow> dialog_inv (validation_rejected n e st)"
  by (simp add: validation_rejected_def finally_inv)

lemma run_results_all:
  assumes "run_ok v" "list_all (\<lambda>r. r \<noteq> None) (cr_results (vk_run v))"
  shows "map (\<lambda>e. (ve_kind e, ve_value e)) (validation_results (run_end texts v)) = map (Pair (task_kind (vk_sub v))) (vk_values v)"
proof -
  have "cr_results (run_end texts v) = cr_results (vk_run v)" by (simp add: run_end_def Let_def)
  then have "validation_results (run_end texts v) = map the (cr_results (vk_run v))"
    using assms(2) by (auto simp: validation_results_def map_filter_def list_all_iff filter_id_conv intro!: arg_cong [where f = "map the"])
  moreover have "ve_kind (the (cr_results (vk_run v) ! i)) = task_kind (vk_sub v) \<and> ve_value (the (cr_results (vk_run v) ! i)) = vk_values v ! i" if i: "i < length (vk_values v)" for i
  proof -
    have "i < length (cr_results (vk_run v))" using assms(1) i by (simp add: run_ok_def)
    then obtain entry where "cr_results (vk_run v) ! i = Some entry" using assms(2) by (fastforce simp: list_all_length)
    moreover from this assms(1) i obtain r where "entry = candidate_entry (task_kind (vk_sub v)) i (vk_values v ! i) r" unfolding run_ok_def by blast
    ultimately show ?thesis by (simp add: candidate_entry_def)
  qed
  ultimately show ?thesis using assms(1) by (auto simp: run_ok_def intro!: nth_equalityI)
qed

lemma done_inv:
  assumes "dialog_inv st" "map_of (px_validations st) n = Some v" "n \<notin> set (px_aborted st)" "list_all (\<lambda>r. r \<noteq> None) (cr_results (vk_run v))"
  shows "dialog_inv (validation_done texts n v st)"
proof -
  let ?st1 = "fold (validation_progress texts (vk_sub v)) (emitted_since (vk_run v) (run_end texts v)) st"
  let ?results = "validation_results (run_end texts v)"
  have same: "same_dialog st ?st1" by (rule same_dialog_fold)
  then have inv: "dialog_inv ?st1" and v: "map_of (px_validations ?st1) n = Some v" "n \<notin> set (px_aborted ?st1)"
    using dialog_inv_same [OF assms(1)] assms(2,3) by (auto simp: same_dialog_def)
  have "run_ok v" using inv v by (auto simp: dialog_inv_def)
  then have rs: "map (\<lambda>e. (ve_kind e, ve_value e)) ?results = map (Pair (task_kind (vk_sub v))) (vk_values v)" using assms(4) by (rule run_results_all)
  have cur: "validation_current ?st1 n v" using inv v by (auto simp: dialog_inv_def)
  have sub: "dialogIsSubscription ?st1 = vk_sub v" if "px_dialogKind ?st1 \<noteq> None"
    using cur that by (auto simp: validation_current_def dialogIsSubscription_def dialog_of_def)
  have "dialog_inv (?st1\<lparr>px_dialogResults := ?results, px_dialogError := e\<rparr>)" for e
    using inv rs cur sub by (auto simp: dialog_inv_def validation_current_def results_current_def dialogInputValues_def dialogIsSubscription_def)
  then show ?thesis using v(2) by (simp add: validation_done_def Let_def finally_inv)
qed

section \<open>Steps\<close>

lemma add_subscription_inv: "dialog_inv st \<Longrightarrow> dialog_inv (handleAddSubscription texts st)"
proof -
  assume inv: "dialog_inv st"
  let ?st1 = "if px_dialogValidating st then (abort_current st)\<lparr>px_dialogValidating := False, px_dialogProgress := None\<rparr> else st"
  have "results_current st" using inv by (simp add: dialog_inv_def)
  then have "dialog_inv ?st1" using inv
    by (auto intro!: abort_current_inv [OF inv] simp: results_current_def abort_current_def dialogInputValues_def dialogIsSubscription_def)
  then have saved: "dialog_inv (persistSubscriptionUrls texts us skip task draft (start_progress texts k a ?st1))" for us skip task draft k a
    unfolding persistSubscriptionUrls_def by (rule dialog_inv_same [OF dialog_inv_same [OF _ same_dialog_progress(3)] same_dialog_persist])
  show ?thesis
  proof (cases "dialogSubscriptionCandidate st")
    case (Some candidate)
    then show ?thesis using inv saved by (cases "candidate = []") (simp_all add: handleAddSubscription_def Let_def split del: if_split)
  qed (simp add: handleAddSubscription_def inv)
qed

lemma same_dialog_add: "same_dialog st (handleAddManualBatch texts st)" "same_dialog st (handleAddManualEntry texts entry st)"
proof -
  show "same_dialog st (handleAddManualBatch texts st)"
    by (auto simp: handleAddManualBatch_def persistManualUrls_def intro: same_dialog_trans [OF same_dialog_progress(3) same_dialog_persist])
  have "same_dialog st (st\<lparr>px_dialogError := None\<rparr>)" by (simp add: same_dialog_def)
  then show "same_dialog st (handleAddManualEntry texts entry st)"
    unfolding handleAddManualEntry_def persistManualUrls_def
    by (rule same_dialog_trans) (rule same_dialog_trans [OF same_dialog_progress(3) same_dialog_persist])
qed

lemma save_answered_same: "same_dialog st (save_answered texts now n task r st)"
  by (auto simp: same_dialog_def save_answered_def save_failed_after_def settings_answered_def task_progress_def egress_progress_def dialog_progress_def Let_def
      split: sum.split after_save.split save_progress.split)

lemma mark_added_values [simp]: "map (\<lambda>e. (ve_kind e, ve_value e)) (mark_added texts i es) = map (\<lambda>e. (ve_kind e, ve_value e)) es"
  by (simp add: mark_added_def)

lemma mark_added_Nil [simp]: "mark_added texts i es = [] \<longleftrightarrow> es = []"
  by (simp add: mark_added_def)

lemma save_refreshed_inv: "dialog_inv st \<Longrightarrow> dialog_inv (save_refreshed texts n task st)"
proof -
  assume inv: "dialog_inv st"
  let ?st1 = "(task_progress texts task (EvComplete FO_save JNull) (st\<lparr>px_refreshes := filter (\<lambda>e. fst e \<noteq> n) (px_refreshes st)\<rparr>))\<lparr>px_saving := False\<rparr>"
  have "same_dialog st ?st1" by (auto simp: same_dialog_def task_progress_def egress_progress_def dialog_progress_def Let_def split: save_progress.split)
  with inv have inv1: "dialog_inv ?st1" by (rule dialog_inv_same)
  then have "dialog_inv (?st1\<lparr>px_dialogResults := mark_added texts i (px_dialogResults ?st1)\<rparr>)" for i
    by (auto simp: dialog_inv_def validation_current_def results_current_def dialogInputValues_def dialogIsSubscription_def)
  then show ?thesis using inv1 close_inv [OF inv1] by (simp add: save_refreshed_def Let_def save_done_after_def split: after_save.split)
qed

text \<open>The dialog is one of subscriptions or of manual proxies, and its input is not edited while a validation runs.\<close>

definition page_inv :: "proxy_page \<Rightarrow> bool" where
  "page_inv st \<longleftrightarrow> dialog_inv st \<and> px_dialogKind st \<noteq> Some Dialog_egress"

definition steady :: "proxy_page \<Rightarrow> proxy_event \<Rightarrow> bool" where
  "steady st ev \<longleftrightarrow> (case ev of PEv_input v \<Rightarrow> px_abortRef st = None | _ \<Rightarrow> True)"

lemma blank_page_inv: "page_inv blank_proxy"
  by (simp add: page_inv_def dialog_inv_def results_current_def blank_proxy_def)

lemma dialog_kinds:
  "px_dialogKind (proxy_handle texts ev st) \<in> {None, px_dialogKind st} \<union> (case ev of PEv_open kind \<Rightarrow> {Some kind} | _ \<Rightarrow> {})"
proof -
  have same: "same_dialog st st' \<Longrightarrow> px_dialogKind st' = px_dialogKind st" for st' by (simp add: same_dialog_def)
  show ?thesis
  proof (cases ev)
    case (PEv_candidate n x)
    then show ?thesis by (auto simp: candidate_arrived_def Let_def same [OF same_dialog_fold] split: option.split)
  next
    case (PEv_candidates_done n)
    then show ?thesis by (auto simp: validation_done_def validation_finally_def Let_def same [OF same_dialog_fold] split: option.split)
  next
    case PEv_add_subscription
    then show ?thesis
      by (simp add: handleAddSubscription_def persistSubscriptionUrls_def persistDraft_def saveForwardProxySettings_def save_failed_after_def start_progress_def abort_current_def Let_def
          split: option.split after_save.split)
  next
    case (PEv_save_refreshed n)
    then show ?thesis
      by (auto simp: save_refreshed_def save_done_after_def closeDialog_def task_progress_def egress_progress_def dialog_progress_def abort_current_def Let_def split: option.split after_save.split save_progress.split)
  next
    case (PEv_save_answered n r now)
    then show ?thesis by (simp add: same [OF save_answered_same] split: option.split)
  next
    case (PEv_save_progress n e)
    then show ?thesis by (simp add: same [OF same_dialog_progress(2)] split: option.split)
  qed (auto simp: same [OF same_dialog_persist] same [OF same_dialog_add(1)] same [OF same_dialog_add(2)] same [OF same_dialog_egress(1)] same [OF same_dialog_egress(2)] same [OF same_dialog_egress(3)] same_dialog_handlers
      loadForwardProxySettingsData_def settings_loaded_def openDialog_def closeDialog_def cancelDialogValidation_def onInputChange_def handleValidateDialog_def
      abort_current_def start_progress_def revalidateForwardProxy_def revalidate_progress_def revalidate_answered_def settings_answered_def finalizeForwardProxyRevalidate_def
      validation_rejected_def validation_finally_def Let_def split: sum.split)
qed

lemma handle_inv:
  assumes "page_inv st" "steady st ev" "proxy_allowed st ev"
  shows "dialog_inv (proxy_handle texts ev st)"
proof -
  have inv: "dialog_inv st" using assms(1) by (simp add: page_inv_def)
  note same = dialog_inv_same [OF inv]
  show ?thesis
  proof (cases ev)
    case PEv_validate
    then show ?thesis using assms inv by (auto simp: page_inv_def dialog_open_def intro: validate_inv)
  next
    case (PEv_candidate n x)
    then show ?thesis using assms(3) inv by (auto intro: candidate_inv split: option.splits)
  next
    case (PEv_candidates_done n)
    then show ?thesis using assms(3) inv by (auto intro: done_inv split: option.splits)
  next
    case (PEv_candidates_rejected n e)
    then show ?thesis using assms(3) inv by (auto intro: rejected_inv)
  next
    case (PEv_save_progress n e)
    then show ?thesis using inv by (auto intro: same same_dialog_progress split: option.split)
  next
    case (PEv_save_answered n r now)
    then show ?thesis using inv by (auto intro: same save_answered_same split: option.split)
  next
    case (PEv_save_refreshed n)
    then show ?thesis using inv by (auto intro: save_refreshed_inv split: option.split)
  next
    case (PEv_input v)
    then show ?thesis using assms(2) inv by (simp add: steady_def input_inv)
  next
    case (PEv_revalidate_answered r now)
    have "same_dialog st (revalidate_answered texts now r st)"
      by (simp add: revalidate_answered_def same_dialog_def revalidate_progress_def settings_answered_def split: sum.split)
    then show ?thesis using PEv_revalidate_answered same by simp
  qed (auto simp: inv open_inv close_inv cancel_dialog_inv add_subscription_inv same_dialog_handlers same_dialog_add same_dialog_progress
      loadForwardProxySettingsData_def settings_loaded_def revalidateForwardProxy_def finalizeForwardProxyRevalidate_def same_dialog_def revalidate_progress_def
      intro!: same [OF same_dialog_persist] same [OF same_dialog_add(1)] same [OF same_dialog_add(2)] same [OF same_dialog_egress(1)] same [OF same_dialog_egress(2)]
      same [OF same_dialog_egress(3)] same split: sum.split)
qed

lemma step_page_inv: "page_inv st \<Longrightarrow> steady st ev \<Longrightarrow> page_inv (proxy_step texts ev st)"
proof (cases "proxy_allowed st ev")
  case True
  assume st: "page_inv st" "steady st ev"
  have "px_dialogKind (proxy_handle texts ev st) \<noteq> Some Dialog_egress"
    using dialog_kinds [of texts ev st] True st(1) by (auto simp: page_inv_def split: proxy_event.splits)
  moreover have "dialog_inv (egress_effect st (proxy_handle texts ev st))" using handle_inv [OF st True] same_dialog_progress(5) by (rule dialog_inv_same)
  ultimately show ?thesis using True by (simp add: proxy_step_def page_inv_def)
qed (simp add: proxy_step_def)

interpretation dialog: event_invariant steady "proxy_step texts" page_inv for texts
  by unfold_locales (rule step_page_inv)

text \<open>C12: As long as the input of the dialog is not edited while a validation runs, the results in the open dialog, when
  there are any, are the results of its kind for exactly the entries of its input, in their order; this holds for every
  order of clicks, progress, answers, cancelled and late validations.\<close>

theorem dialog_results_current:
  assumes "enabled_run steady (proxy_step texts) blank_proxy evs" "st = fold (proxy_step texts) evs blank_proxy"
    "px_dialogKind st \<noteq> None" "px_dialogResults st \<noteq> []"
  shows "map (\<lambda>e. (ve_kind e, ve_value e)) (px_dialogResults st) = map (Pair (task_kind (dialogIsSubscription st))) (dialogInputValues st)"
  using dialog.run_inv [OF blank_page_inv assms(1)] assms(2-) by (auto simp: page_inv_def dialog_inv_def results_current_def)

section \<open>Requests\<close>

text \<open>The payload of a save that changes nothing, and the one each button sends.\<close>

definition base_payload :: "ForwardProxySettings \<Rightarrow> UpdateForwardProxySettingsPayload" where
  "base_payload s = \<lparr>ufpsp_proxyUrls = normalizeEntries (fps_proxyUrls s), ufpsp_subscriptionUrls = normalizeEntries (fps_subscriptionUrls s),
     ufpsp_subscriptionUpdateIntervalSecs = fps_subscriptionUpdateIntervalSecs s, ufpsp_insertDirect = fps_insertDirect s,
     ufpsp_egressSocks5Enabled = Some (fps_egressSocks5Enabled s), ufpsp_egressSocks5Url = Some (js_trim (fps_egressSocks5Url s)), ufpsp_skipBootstrapProbe = Some False\<rparr>"

fun expected_payload :: "proxy_event \<Rightarrow> proxy_page \<Rightarrow> ForwardProxySettings \<Rightarrow> UpdateForwardProxySettingsPayload option" where
  "expected_payload (PEv_remove_manual v) st s = Some ((base_payload s)\<lparr>ufpsp_proxyUrls := normalizeEntries (filter (\<lambda>u. u \<noteq> v) (fps_proxyUrls s))\<rparr>)"
| "expected_payload (PEv_remove_subscription v) st s = Some ((base_payload s)\<lparr>ufpsp_subscriptionUrls := normalizeEntries (filter (\<lambda>u. u \<noteq> v) (fps_subscriptionUrls s))\<rparr>)"
| "expected_payload (PEv_interval v) st s = map_option (\<lambda>i. (base_payload s)\<lparr>ufpsp_subscriptionUpdateIntervalSecs := i\<rparr>) (js_parse_int v)"
| "expected_payload (PEv_insert_direct checked) st s = Some ((base_payload s)\<lparr>ufpsp_insertDirect := checked\<rparr>)"
| "expected_payload PEv_add_subscription st s = map_option (\<lambda>candidate. (base_payload s)\<lparr>ufpsp_subscriptionUrls := normalizeEntries (fps_subscriptionUrls s @ [candidate]),
     ufpsp_skipBootstrapProbe := Some (dialogCanSkipBootstrapProbe st)\<rparr>) (dialogSubscriptionCandidate st)"
| "expected_payload PEv_add_batch st s = Some ((base_payload s)\<lparr>ufpsp_proxyUrls := dialogManualBatchValues st\<rparr>)"
| "expected_payload (PEv_add_entry entry) st s = Some ((base_payload s)\<lparr>ufpsp_proxyUrls := normalizeEntries (fps_proxyUrls s @ [entry_value entry])\<rparr>)"
| "expected_payload (PEv_egress_toggle checked) st s = Some ((base_payload s)\<lparr>ufpsp_egressSocks5Enabled := Some checked, ufpsp_egressSocks5Url := Some (js_trim (px_egressUrlDraft st))\<rparr>)"
| "expected_payload _ st s = None"

text \<open>Entries are kept as lines of a text, so that the payload is the expected one for entries without a line break.\<close>

definition settings_lines :: "ForwardProxySettings \<Rightarrow> bool" where
  "settings_lines s \<longleftrightarrow> list_all one_line (fps_proxyUrls s) \<and> list_all one_line (fps_subscriptionUrls s)"

fun added_values :: "proxy_event \<Rightarrow> proxy_page \<Rightarrow> string list" where
  "added_values PEv_add_subscription st = (case dialogSubscriptionCandidate st of Some candidate \<Rightarrow> [candidate] | None \<Rightarrow> [])"
| "added_values PEv_add_batch st = dialogManualBatchValues st"
| "added_values (PEv_add_entry entry) st = [entry_value entry]"
| "added_values _ st = []"

definition save_event :: "proxy_event \<Rightarrow> bool" where
  "save_event ev \<longleftrightarrow> (case ev of PEv_remove_manual v \<Rightarrow> True | PEv_remove_subscription v \<Rightarrow> True | PEv_interval v \<Rightarrow> True | PEv_insert_direct b \<Rightarrow> True
     | PEv_egress_toggle b \<Rightarrow> True | PEv_add_subscription \<Rightarrow> True | PEv_add_batch \<Rightarrow> True | PEv_add_entry e \<Rightarrow> True | _ \<Rightarrow> False)"

definition request_ok :: "proxy_event \<Rightarrow> proxy_page \<Rightarrow> proxy_request \<Rightarrow> bool" where
  "request_ok ev st r \<longleftrightarrow> proxy_allowed st ev \<and> (case r of
     Req_validateForwardProxyCandidates kind vs \<Rightarrow> ev = PEv_validate \<and> kind = task_kind (dialogIsSubscription st) \<and> vs = dialogInputValues st
   | Req_revalidateForwardProxy \<Rightarrow> ev = PEv_revalidate
   | Req_updateForwardProxySettings p \<Rightarrow> save_event ev \<and> \<not> controlsDisabled st \<and>
       (\<forall>s. px_settings st = Some s \<longrightarrow> settings_lines s \<longrightarrow> list_all one_line (added_values ev st) \<longrightarrow> expected_payload ev st s = Some p))"

lemma save_sent: "px_sent (persistDraft texts draft skip task st) = px_sent st @ (case js_parse_int (js_trim (fd_subscriptionUpdateIntervalSecs draft)) of
    Some i \<Rightarrow> if 0 < i then [Req_updateForwardProxySettings (settings_payload draft i skip)] else [] | None \<Rightarrow> [])"
  by (auto simp: persistDraft_def saveForwardProxySettings_def save_failed_after_def split: option.split after_save.split)

lemma payload_of_draft:
  assumes "settings_lines s"
  shows "settings_payload (buildDraftFromSettings (Some s)) (fps_subscriptionUpdateIntervalSecs s) False = base_payload s"
    "list_all one_line xs \<Longrightarrow> settings_payload (withDraftList (buildDraftFromSettings (Some s)) List_proxyUrlsText xs) (fps_subscriptionUpdateIntervalSecs s) skip =
       (base_payload s)\<lparr>ufpsp_proxyUrls := normalizeEntries xs, ufpsp_skipBootstrapProbe := Some skip\<rparr>"
    "list_all one_line xs \<Longrightarrow> settings_payload (withDraftList (buildDraftFromSettings (Some s)) List_subscriptionUrlsText xs) (fps_subscriptionUpdateIntervalSecs s) skip =
       (base_payload s)\<lparr>ufpsp_subscriptionUrls := normalizeEntries xs, ufpsp_skipBootstrapProbe := Some skip\<rparr>"
  using assms by (simp_all add: settings_payload_def buildDraftFromSettings_def base_payload_def withDraftList_def settings_lines_def splitMultilineEntries_join normalizeEntries_one_line)

lemma draft_interval [simp]: "fd_subscriptionUpdateIntervalSecs (buildDraftFromSettings (Some s)) = int_to_string (fps_subscriptionUpdateIntervalSecs s)"
    "fd_subscriptionUpdateIntervalSecs (withDraftList draft key xs) = fd_subscriptionUpdateIntervalSecs draft"
  by (simp_all add: buildDraftFromSettings_def withDraftList_def Let_def split: draft_list.split)

lemma progress_sent [simp]: "px_sent (dialog_progress texts kind action ev st) = px_sent st" "px_sent (task_progress texts task ev st) = px_sent st"
    "px_sent (start_progress texts kind action st) = px_sent st" "px_sent (revalidate_progress texts ev st) = px_sent st" "px_sent (abort_current st) = px_sent st"
    "px_sent (validation_progress texts sub ev st) = px_sent st" "px_sent (closeDialog disabled validating st) = px_sent st"
  by (simp_all add: dialog_progress_def task_progress_def egress_progress_def start_progress_def revalidate_progress_def abort_current_def validation_progress_def closeDialog_def Let_def
      split: ForwardProxyProgressEvent.split save_progress.split)

lemma fold_progress_sent [simp]: "px_sent (fold (validation_progress texts sub) evs st) = px_sent st"
  by (induction evs arbitrary: st) simp_all

lemma persist_ok:
  assumes "proxy_allowed st ev" "\<not> controlsDisabled st" "save_event ev" "px_sent st' = px_sent st"
    "\<And>s i. px_settings st = Some s \<Longrightarrow> settings_lines s \<Longrightarrow> list_all one_line (added_values ev st) \<Longrightarrow>
       js_parse_int (js_trim (fd_subscriptionUpdateIntervalSecs draft)) = Some i \<Longrightarrow> expected_payload ev st s = Some (settings_payload draft i skip)"
  shows "\<exists>rs. px_sent (persistDraft texts draft skip task st') = px_sent st @ rs \<and> (\<forall>r \<in> set rs. request_ok ev st r)"
  using assms by (auto simp: save_sent request_ok_def split: option.split)

lemma lines_filter: "list_all one_line xs \<Longrightarrow> list_all one_line (filter P xs)"
  by (auto simp: list_all_iff)

lemma interval_parsed: "v \<in> set FORWARD_PROXY_INTERVAL_OPTIONS \<Longrightarrow> js_trim v = v"
proof -
  have "list_all (\<lambda>v. js_trim v = v) FORWARD_PROXY_INTERVAL_OPTIONS" by code_simp
  then show "v \<in> set FORWARD_PROXY_INTERVAL_OPTIONS \<Longrightarrow> js_trim v = v" by (simp add: list_all_iff)
qed

lemmas urls_of = manualUrls_def subscriptionUrls_def rendered_draft_def settings_lines_def

lemma batch_values_normal: "normalizeEntries (dialogManualBatchValues st) = dialogManualBatchValues st"
  by (simp add: dialogManualBatchValues_def)

lemma handle_sent:
  assumes "proxy_allowed st ev"
  shows "\<exists>rs. px_sent (proxy_handle texts ev st) = px_sent st @ rs \<and> (\<forall>r \<in> set rs. request_ok ev st r)"
proof (cases ev)
  case (PEv_remove_manual v)
  show ?thesis using assms payload_of_draft(2) [of _ "filter (\<lambda>u. u \<noteq> v) (manualUrls st)" False]
    unfolding PEv_remove_manual proxy_handle.simps handleRemoveManual_def persistManualUrls_def
    by (intro persist_ok) (auto simp: save_event_def controls_usable_def urls_of lines_filter base_payload_def)
next
  case (PEv_remove_subscription v)
  show ?thesis using assms payload_of_draft(3) [of _ "filter (\<lambda>u. u \<noteq> v) (subscriptionUrls st)" False]
    unfolding PEv_remove_subscription proxy_handle.simps handleRemoveSubscription_def persistSubscriptionUrls_def
    by (intro persist_ok) (auto simp: save_event_def controls_usable_def urls_of lines_filter base_payload_def)
next
  case (PEv_interval v)
  have "settings_payload (buildDraftFromSettings (Some s)\<lparr>fd_subscriptionUpdateIntervalSecs := v\<rparr>) i False = (base_payload s)\<lparr>ufpsp_subscriptionUpdateIntervalSecs := i\<rparr>" if "settings_lines s" for s i
    using payload_of_draft(1) [OF that] by (simp add: settings_payload_def base_payload_def)
  then show ?thesis using assms interval_parsed [of v] unfolding PEv_interval proxy_handle.simps handleIntervalChange_def
    by (intro persist_ok) (auto simp: save_event_def controls_usable_def rendered_draft_def)
next
  case (PEv_insert_direct checked)
  have "settings_payload (buildDraftFromSettings (Some s)\<lparr>fd_insertDirect := checked\<rparr>) (fps_subscriptionUpdateIntervalSecs s) False = (base_payload s)\<lparr>ufpsp_insertDirect := checked\<rparr>" if "settings_lines s" for s
    using payload_of_draft(1) [OF that] by (simp add: settings_payload_def base_payload_def)
  then show ?thesis using assms unfolding PEv_insert_direct proxy_handle.simps handleInsertDirectChange_def
    by (intro persist_ok) (auto simp: save_event_def controls_usable_def rendered_draft_def)
next
  case PEv_add_subscription
  show ?thesis
  proof (cases "dialogSubscriptionCandidate st")
    case (Some c)
    let ?st1 = "start_progress texts Dialog_subscription Action_save (if px_dialogValidating st then (abort_current st)\<lparr>px_dialogValidating := False, px_dialogProgress := None\<rparr> else st)"
    have "\<exists>rs. px_sent (persistSubscriptionUrls texts (subscriptionUrls st @ [c]) (dialogCanSkipBootstrapProbe st) task (rendered_draft st) ?st1) = px_sent st @ rs \<and> (\<forall>r \<in> set rs. request_ok ev st r)" for task
      using assms payload_of_draft(3) [of _ "subscriptionUrls st @ [c]" "dialogCanSkipBootstrapProbe st"] Some unfolding persistSubscriptionUrls_def
      by (intro persist_ok) (auto simp: save_event_def PEv_add_subscription urls_of base_payload_def)
    then show ?thesis using Some by (cases "c = []") (simp_all add: PEv_add_subscription handleAddSubscription_def Let_def split del: if_split)
  qed (simp add: PEv_add_subscription handleAddSubscription_def)
next
  case PEv_add_batch
  have "\<exists>rs. px_sent (persistManualUrls texts (dialogManualBatchValues st) task (rendered_draft st) (start_progress texts Dialog_manual Action_save st)) = px_sent st @ rs \<and> (\<forall>r \<in> set rs. request_ok ev st r)" for task
    using assms payload_of_draft(2) [of _ "dialogManualBatchValues st" False] unfolding persistManualUrls_def
    by (intro persist_ok) (auto simp: save_event_def PEv_add_batch urls_of base_payload_def batch_values_normal)
  then show ?thesis by (simp add: PEv_add_batch handleAddManualBatch_def)
next
  case (PEv_add_entry entry)
  show ?thesis using assms payload_of_draft(2) [of _ "manualUrls st @ [entry_value entry]" False]
    unfolding PEv_add_entry proxy_handle.simps handleAddManualEntry_def persistManualUrls_def
    by (intro persist_ok) (auto simp: save_event_def urls_of base_payload_def)
next
  case (PEv_egress_toggle checked)
  have "settings_payload (buildDraftFromSettings (Some s)\<lparr>fd_egressSocks5Enabled := checked, fd_egressSocks5Url := js_trim u\<rparr>) (fps_subscriptionUpdateIntervalSecs s) False =
      (base_payload s)\<lparr>ufpsp_egressSocks5Enabled := Some checked, ufpsp_egressSocks5Url := Some (js_trim u)\<rparr>" if "settings_lines s" for s u
    using payload_of_draft(1) [OF that] by (simp add: settings_payload_def base_payload_def)
  then have "\<exists>rs. px_sent (toggle_egress texts checked st) = px_sent st @ rs \<and> (\<forall>r \<in> set rs. request_ok ev st r)"
    using assms unfolding toggle_egress_def by (intro persist_ok) (auto simp: PEv_egress_toggle save_event_def controls_usable_def rendered_draft_def)
  then show ?thesis by (cases checked) (auto simp: PEv_egress_toggle handleCheckedChange_def handleToggleEgress_def split: option.split)
next
  case PEv_validate
  then show ?thesis using assms by (auto simp: handleValidateDialog_def Let_def request_ok_def)
next
  case PEv_revalidate
  then show ?thesis using assms by (simp add: revalidateForwardProxy_def request_ok_def)
qed (auto simp: loadForwardProxySettingsData_def settings_loaded_def openDialog_def onUrlChange_def onUrlBlur_def cancelDialogValidation_def onInputChange_def candidate_arrived_def
    validation_done_def validation_rejected_def validation_finally_def save_answered_def save_failed_after_def settings_answered_def save_refreshed_def save_done_after_def
    revalidate_answered_def finalizeForwardProxyRevalidate_def Let_def split: option.split sum.split after_save.split)

interpretation proxy_log: event_log "proxy_step texts" px_sent request_ok for texts
proof
  show "\<exists>rs. px_sent (proxy_step texts ev st) = px_sent st @ rs \<and> (\<forall>r \<in> set rs. request_ok ev st r)" for ev st
    using handle_sent [of st ev texts] by (cases "proxy_allowed st ev") (simp_all add: proxy_step_def)
qed

text \<open>The settings are loaded before anything can be saved.  An error has a message: without one the region would be
  shown with nothing in it.\<close>

definition named_failure :: "proxy_event \<Rightarrow> bool" where
  "named_failure ev \<longleftrightarrow> (case ev of PEv_loaded (Inl e) \<Rightarrow> er_message e \<noteq> [] | _ \<Rightarrow> True)"

definition loaded_inv :: "proxy_page \<Rightarrow> bool" where
  "loaded_inv st \<longleftrightarrow> (px_settings st = None \<longrightarrow> \<not> px_loadedRef st \<and> px_loadState st \<notin> {LS_refreshing, LS_ready} \<and> px_dialogKind st = None) \<and>
     (px_loadState st = LS_error \<longrightarrow> nullish (px_settingsError st) [] \<noteq> [])"

definition load_fields :: "proxy_page \<Rightarrow> ForwardProxySettings option \<times> bool \<times> QueryLoadState \<times> string option" where
  "load_fields st = (px_settings st, px_loadedRef st, px_loadState st, px_settingsError st)"

lemma progress_load [simp]: "load_fields (dialog_progress texts kind action ev st) = load_fields st" "load_fields (task_progress texts task ev st) = load_fields st"
    "load_fields (start_progress texts kind action st) = load_fields st" "load_fields (revalidate_progress texts ev st) = load_fields st" "load_fields (abort_current st) = load_fields st"
    "load_fields (validation_progress texts sub ev st) = load_fields st" "load_fields (closeDialog disabled validating st) = load_fields st"
    "load_fields (persistDraft texts draft skip task st) = load_fields st" "load_fields (egress_effect before st) = load_fields st"
  by (simp_all add: load_fields_def dialog_progress_def task_progress_def egress_progress_def start_progress_def revalidate_progress_def abort_current_def validation_progress_def closeDialog_def
      persistDraft_def saveForwardProxySettings_def save_failed_after_def Let_def split: option.split ForwardProxyProgressEvent.split after_save.split save_progress.split)

lemma fold_progress_load [simp]: "load_fields (fold (validation_progress texts sub) evs st) = load_fields st"
  by (induction evs arbitrary: st) simp_all

lemma update_load [simp]: "load_fields (px_loading_update f1 st) = load_fields st" "load_fields (px_saving_update f2 st) = load_fields st" "load_fields (px_revalidating_update f3 st) = load_fields st"
    "load_fields (px_saveError_update f4 st) = load_fields st" "load_fields (px_savedAt_update f5 st) = load_fields st" "load_fields (px_revalidateError_update f6 st) = load_fields st"
    "load_fields (px_revalidateProgress_update f7 st) = load_fields st" "load_fields (px_dialogKind_update f8 st) = load_fields st" "load_fields (px_dialogInput_update f9 st) =
    load_fields st" "load_fields (px_dialogError_update f10 st) = load_fields st" "load_fields (px_dialogValidating_update f11 st) = load_fields st" "load_fields (px_dialogResults_update f31 st) = load_fields st" "load_fields (px_dialogLiveNodes_update f12 st) = load_fields st" "load_fields (px_dialogProgress_update f13 st) = load_fields st" "load_fields (px_abortRef_update f32 st) = load_fields st" "load_fields (px_aborted_update f14 st) = load_fields st" "load_fields (px_counter_update f15 st) = load_fields st" "load_fields (px_validations_update f33 st) = load_fields st" "load_fields (px_writes_update f16 st) = load_fields st" "load_fields (px_refreshes_update f17 st) = load_fields st" "load_fields (px_revalidation_update f34 st) = load_fields st" "load_fields (px_egressUrlDraft_update g1 st) = load_fields st" "load_fields (px_egressEnabledDraft_update g2 st) = load_fields st"
    "load_fields (px_egressProgress_update g3 st) = load_fields st" "load_fields (px_egressFieldError_update g4 st) = load_fields st" "load_fields (px_sent_update f18 st) = load_fields st"
  by (simp_all add: load_fields_def)

definition settings_event :: "proxy_event \<Rightarrow> bool" where
  "settings_event ev \<longleftrightarrow> (case ev of PEv_load b \<Rightarrow> True | PEv_loaded r \<Rightarrow> True | PEv_save_answered n r now \<Rightarrow> True | PEv_revalidate_answered r now \<Rightarrow> True | _ \<Rightarrow> False)"

lemma handle_load: "\<not> settings_event ev \<Longrightarrow> load_fields (proxy_handle texts ev st) = load_fields st"
  by (cases ev) (simp_all add: settings_event_def same_dialog_handlers openDialog_def cancelDialogValidation_def onInputChange_def handleValidateDialog_def handleAddSubscription_def
      handleAddManualBatch_def handleAddManualEntry_def revalidateForwardProxy_def candidate_arrived_def validation_done_def validation_rejected_def validation_finally_def
      save_refreshed_def save_done_after_def finalizeForwardProxyRevalidate_def handleCheckedChange_def handleToggleEgress_def toggle_egress_def onUrlChange_def onUrlBlur_def
      Let_def split: option.split after_save.split)

lemma loaded_inv_fields: "loaded_inv st \<Longrightarrow> load_fields st' = load_fields st \<Longrightarrow> px_dialogKind st' = None \<or> px_settings st \<noteq> None \<Longrightarrow> loaded_inv st'"
  by (auto simp: loaded_inv_def load_fields_def)

lemma loaded_step:
  assumes "loaded_inv st" "named_failure ev"
  shows "loaded_inv (proxy_step texts ev st)"
proof (cases "proxy_allowed st ev")
  case True
  have kind: "px_dialogKind (proxy_handle texts ev st) = None \<or> px_settings st \<noteq> None" if "\<not> settings_event ev"
    using dialog_kinds [of texts ev st] assms(1) True
    by (auto simp: loaded_inv_def controls_usable_def region_shown_def isBlockingLoadState_def split: proxy_event.splits) (metis QueryLoadState.exhaust)+
  have "loaded_inv (proxy_handle texts ev st)"
  proof (cases "settings_event ev")
    case False
    then show ?thesis using loaded_inv_fields [OF assms(1) handle_load kind] by blast
  next
    case True
    have ans: "px_settings (save_answered texts now n task (Inr s) st) = Some s \<and> px_loadState (save_answered texts now n task (Inr s) st) = LS_ready" for now n task s
      by (simp add: save_answered_def task_progress_def egress_progress_def dialog_progress_def settings_answered_def Let_def split: save_progress.split)
    have fail: "load_fields (save_answered texts now n task (Inl e) st) = load_fields st" "px_dialogKind (save_answered texts now n task (Inl e) st) = px_dialogKind st" for now n task e
      by (simp_all add: save_answered_def save_failed_after_def Let_def split: after_save.split)
    show ?thesis
    proof (cases ev)
      case (PEv_save_answered n r now)
      then show ?thesis using assms(1) ans fail
        by (cases r) (auto simp: loaded_inv_def load_fields_def split: option.split)
    next
      case (PEv_loaded r)
      then show ?thesis using assms by (cases r) (auto simp: loaded_inv_def settings_loaded_def named_failure_def)
    next
      case (PEv_load refresh)
      then show ?thesis using assms(1) by (auto simp: loaded_inv_def loadForwardProxySettingsData_def getRefreshingLoadState_def getBlockingLoadState_def)
    next
      case (PEv_revalidate_answered r now)
      then show ?thesis using assms(1) by (cases r) (auto simp: loaded_inv_def revalidate_answered_def settings_answered_def revalidate_progress_def)
    qed (use True in \<open>simp_all add: settings_event_def\<close>)
  qed
  then have "loaded_inv (egress_effect st (proxy_handle texts ev st))" by (simp add: loaded_inv_def)
  then show ?thesis using True by (simp add: proxy_step_def)
qed (simp add: proxy_step_def assms)

interpretation loaded: event_invariant "\<lambda>st. named_failure" "proxy_step texts" loaded_inv for texts
  by unfold_locales (rule loaded_step)

lemma enabled_all: "list_all named_failure evs \<Longrightarrow> enabled_run (\<lambda>st. named_failure) step st evs"
  by (induction evs arbitrary: st) simp_all

lemma save_loaded:
  assumes "loaded_inv st" "proxy_allowed st ev" "save_event ev"
  shows "px_settings st \<noteq> None"
  using assms by (cases "px_loadState st") (auto simp: loaded_inv_def save_event_def controls_usable_def region_shown_def isBlockingLoadState_def
      dialogIsSubscription_def entry_offered_def split: proxy_event.splits)


text \<open>A task is a run of \<open>validateForwardProxyCandidates\<close>: the same events and the same results.\<close>

lemma validation_task_run:
  assumes "v = \<lparr>vk_values = vs, vk_sub = sub, vk_run = candidates_start (length vs)\<rparr>"
  shows "validateForwardProxyCandidates (pt_validation texts) (task_kind sub) vs xs =
    (cr_emitted (run_end texts (v\<lparr>vk_run := fold (run_input texts v) xs (vk_run v)\<rparr>)), validation_results (run_end texts (v\<lparr>vk_run := fold (run_input texts v) xs (vk_run v)\<rparr>)))"
proof -
  have "run_input texts v = (if length vs = 1 then single_input (pt_validation texts) (task_kind sub) vs else batch_input (pt_validation texts) (task_kind sub) vs)"
    by (intro ext) (simp add: assms run_input_def)
  then show ?thesis by (simp add: assms validateForwardProxyCandidates_def run_end_def validation_results_def Let_def)
qed

section \<open>Two orders of events\<close>

definition controls :: "proxy_page \<Rightarrow> bool \<times> bool" where
  "controls st = (px_saving st, px_revalidating st)"

lemma validation_progress_controls: "controls (validation_progress texts sub ev st) = controls st"
  by (simp add: controls_def validation_progress_def dialog_progress_def split: ForwardProxyProgressEvent.split)

lemma fold_progress_controls: "controls (fold (validation_progress texts sub) evs st) = controls st"
  by (induction evs arbitrary: st) (simp_all add: validation_progress_controls)

lemma validation_done_state:
  assumes "n \<notin> set (px_aborted st)"
  shows "px_dialogResults (validation_done texts n v st) = validation_results (run_end texts v)" "px_dialogKind (validation_done texts n v st) = px_dialogKind st"
    "px_dialogInput (validation_done texts n v st) = px_dialogInput st" "\<not> px_dialogValidating (validation_done texts n v st)"
    "controlsDisabled (validation_done texts n v st) = controlsDisabled st" "px_settings (validation_done texts n v st) = px_settings st"
proof -
  let ?st1 = "fold (validation_progress texts (vk_sub v)) (emitted_since (vk_run v) (run_end texts v)) st"
  have same: "same_dialog st ?st1" "controls ?st1 = controls st" "load_fields ?st1 = load_fields st" by (simp_all add: same_dialog_fold fold_progress_controls)
  with assms have "n \<notin> set (px_aborted ?st1)" by (simp add: same_dialog_def)
  then show "px_dialogResults (validation_done texts n v st) = validation_results (run_end texts v)" "px_dialogKind (validation_done texts n v st) = px_dialogKind st"
    "px_dialogInput (validation_done texts n v st) = px_dialogInput st" "\<not> px_dialogValidating (validation_done texts n v st)"
    "controlsDisabled (validation_done texts n v st) = controlsDisabled st" "px_settings (validation_done texts n v st) = px_settings st"
    using same by (simp_all add: validation_done_def validation_finally_def Let_def same_dialog_def controls_def load_fields_def controlsDisabled_def)
qed

lemma add_subscription_sent:
  assumes "px_settings st = Some s" "settings_lines s" "0 < fps_subscriptionUpdateIntervalSecs s" "dialogSubscriptionCandidate st = Some c" "c \<noteq> []" "one_line c"
  shows "px_sent (handleAddSubscription texts st) = px_sent st @ [Req_updateForwardProxySettings ((base_payload s)\<lparr>ufpsp_subscriptionUrls := normalizeEntries (fps_subscriptionUrls s @ [c]),
    ufpsp_skipBootstrapProbe := Some (dialogCanSkipBootstrapProbe st)\<rparr>)]"
  using assms payload_of_draft(3) [of s "subscriptionUrls st @ [c]" "dialogCanSkipBootstrapProbe st"]
  by (simp add: handleAddSubscription_def Let_def persistSubscriptionUrls_def save_sent urls_of)

text \<open>C30: When the input of the subscription dialog is edited while its validation runs, the validation is not aborted: its
  result appears under the new input, and the button that adds a subscription saves the address that was there before.\<close>

theorem edited_input_adds_old:
  assumes st: "px_dialogKind st = Some Dialog_subscription" "\<not> controlsDisabled st" "px_settings st = Some s" "settings_lines s" "0 < fps_subscriptionUpdateIntervalSecs s"
    and v: "map_of (px_validations st) n = Some v" "n \<notin> set (px_aborted st)" "vk_sub v" "vk_values v = [a]" "cr_results (vk_run v) = [None]"
    and r: "fpvr2_ok r" "c = nullish (fpvr2_normalizedValue r) a" "c \<noteq> []" "one_line c"
    and st': "st' = fold (proxy_step texts) [PEv_input b, PEv_candidate n (Stream_result 0 r), PEv_candidates_done n] st"
  shows "dialogInputValues st' = normalizeEntries [b] \<and> proxy_allowed st' PEv_add_subscription \<and>
    (\<exists>skip. px_sent (proxy_step texts PEv_add_subscription st') = px_sent st' @
       [Req_updateForwardProxySettings ((base_payload s)\<lparr>ufpsp_subscriptionUrls := normalizeEntries (fps_subscriptionUrls s @ [c]), ufpsp_skipBootstrapProbe := Some skip\<rparr>)])"
proof -
  define st1 where "st1 = onInputChange b st"
  define v2 where "v2 = v\<lparr>vk_run := set_result 0 (candidate_entry VK_subscriptionUrl 0 a r) (vk_run v)\<rparr>"
  define st2 where "st2 = st1\<lparr>px_validations := map (\<lambda>(k, w). if k = n then (k, v2) else (k, w)) (px_validations st1)\<rparr>"
  have s1: "proxy_step texts (PEv_input b) st = st1" using st(1) by (simp add: proxy_step_def st1_def dialog_open_def egress_effect_id onInputChange_def)
  have v1: "map_of (px_validations st1) n = Some v" "n \<notin> set (px_aborted st1)" using v(1,2) by (simp_all add: st1_def onInputChange_def)
  have "run_input texts v (Stream_result 0 r) (vk_run v) = set_result 0 (candidate_entry VK_subscriptionUrl 0 a r) (vk_run v)"
    using v(3,4) r(1) by (simp add: run_input_def task_kind_def Let_def)
  then have s2: "proxy_step texts (PEv_candidate n (Stream_result 0 r)) st1 = st2"
    unfolding st2_def v2_def using v1 v(4) by (simp add: proxy_step_def candidate_arrived_def index_of_def Let_def emitted_since_def egress_effect_id)
  have v2: "map_of (px_validations st2) n = Some v2" "n \<notin> set (px_aborted st2)" using v1 by (simp_all add: st2_def map_of_update)
  have rs: "cr_results (vk_run v2) = [Some (candidate_entry VK_subscriptionUrl 0 a r)]" using v(5) by (simp add: v2_def set_result_def)
  have results: "validation_results (run_end texts v2) = [candidate_entry VK_subscriptionUrl 0 a r]"
    by (simp add: run_end_def validation_results_def Let_def rs map_filter_simps)
  have "proxy_step texts (PEv_candidates_done n) st2 = validation_done texts n v2 st2"
    using v2 rs validation_done_state(6) [OF v2(2), of texts v2] by (simp add: proxy_step_def egress_effect_id)
  then have st3: "st' = validation_done texts n v2 st2" using st' s1 s2 by simp
  have fields: "px_dialogKind st' = Some Dialog_subscription" "px_dialogInput st' = b" "px_dialogResults st' = [candidate_entry VK_subscriptionUrl 0 a r]" "\<not> px_dialogValidating st'"
      "\<not> controlsDisabled st'" "px_settings st' = Some s"
    using validation_done_state [OF v2(2), of texts v2] st(1-3) results by (simp_all add: st3) (simp_all add: st2_def st1_def onInputChange_def controlsDisabled_def)
  then have cand: "dialogSubscriptionCandidate st' = Some c" using r(1,2) by (simp add: dialogSubscriptionCandidate_def dialogAvailableResults_def candidate_entry_def entry_value_def)
  then have "proxy_allowed st' PEv_add_subscription" using fields by (simp add: dialogIsSubscription_def canAddSubscription_def)
  moreover have "dialogInputValues st' = normalizeEntries [b]" using fields by (simp add: dialogInputValues_def dialogIsSubscription_def)
  ultimately show ?thesis using add_subscription_sent [OF fields(6) st(4,5) cand r(3,4), of texts] by (auto simp: proxy_step_def)
qed

text \<open>A save started by a row keeps the progress of a save in the dialog.\<close>

definition saving_progress :: "proxy_page \<Rightarrow> bool" where
  "saving_progress st \<longleftrightarrow> (\<exists>p. px_dialogProgress st = Some p \<and> dp_action p = Action_save)"

lemma task_progress_settings: "px_settings (task_progress texts task ev st) = px_settings st"
  using progress_load(2) [of texts task ev st] by (simp add: load_fields_def)

lemma task_progress_saving: "saving_progress st \<Longrightarrow> saving_progress (task_progress texts task ev st)"
  by (cases "sk_progress task") (auto simp: saving_progress_def task_progress_def dialog_progress_def egress_progress_def update_frame Let_def)

lemma save_progress_run:
  assumes "map_of (px_writes st) n = Some task" "saving_progress st"
  shows "saving_progress (fold (proxy_step texts) (map (PEv_save_progress n) evs) st) \<and> map_of (px_writes (fold (proxy_step texts) (map (PEv_save_progress n) evs) st)) n = Some task \<and>
    px_dialogResults (fold (proxy_step texts) (map (PEv_save_progress n) evs) st) = px_dialogResults st \<and> px_dialogKind (fold (proxy_step texts) (map (PEv_save_progress n) evs) st) = px_dialogKind st"
  using assms
proof (induction evs arbitrary: st)
  case (Cons ev evs)
  have "proxy_step texts (PEv_save_progress n ev) st = task_progress texts task ev st"
    using Cons.prems by (simp add: proxy_step_def egress_effect_id task_progress_settings)
  moreover have "map_of (px_writes (task_progress texts task ev st)) n = Some task" "px_dialogResults (task_progress texts task ev st) = px_dialogResults st"
      "px_dialogKind (task_progress texts task ev st) = px_dialogKind st"
    using Cons.prems(1) by (simp_all add: task_progress_def egress_progress_def dialog_progress_def Let_def split: save_progress.split)
  ultimately show ?case using Cons.IH [of "task_progress texts task ev st"] task_progress_saving [OF Cons.prems(2)] by simp
qed simp


text \<open>Nothing ever clears the progress of the relay.\<close>

definition egress_saving :: "proxy_page \<Rightarrow> bool" where
  "egress_saving st \<longleftrightarrow> (\<exists>p. px_egressProgress st = Some p \<and> dp_action p = Action_save)"

lemma progress_egress [simp]: "px_egressProgress (dialog_progress texts kind action ev st) = px_egressProgress st"
    "px_egressProgress (start_progress texts kind action st) = px_egressProgress st" "px_egressProgress (revalidate_progress texts ev st) = px_egressProgress st"
    "px_egressProgress (abort_current st) = px_egressProgress st" "px_egressProgress (validation_progress texts sub ev st) = px_egressProgress st"
    "px_egressProgress (closeDialog disabled validating st) = px_egressProgress st" "px_egressProgress (persistDraft texts draft skip task st) = px_egressProgress st"
  by (simp_all add: dialog_progress_def start_progress_def revalidate_progress_def abort_current_def validation_progress_def closeDialog_def
      persistDraft_def saveForwardProxySettings_def save_failed_after_def Let_def split: option.split ForwardProxyProgressEvent.split after_save.split)

lemma fold_progress_egress [simp]: "px_egressProgress (fold (validation_progress texts sub) evs st) = px_egressProgress st"
  by (induction evs arbitrary: st) simp_all

lemma task_progress_egress: "egress_saving st \<Longrightarrow> egress_saving (task_progress texts task ev st)"
  by (cases "sk_progress task") (auto simp: egress_saving_def task_progress_def egress_progress_def update_frame Let_def)

lemma egress_saving_cong: "px_egressProgress st' = px_egressProgress st \<Longrightarrow> egress_saving st' = egress_saving st"
  by (simp add: egress_saving_def)

lemma start_egress_action [simp]: "dp_action (start_egress texts checked) = Action_save"
  by (simp add: start_egress_def createDialogProgressState_def)

lemma handle_egress: "egress_saving st \<Longrightarrow> egress_saving (proxy_handle texts ev st)"
proof (cases ev)
  case (PEv_save_answered n r now)
  assume st: "egress_saving st"
  have "egress_saving (save_answered texts now n task r st)" for task
  proof (cases r)
    case (Inl e)
    then show ?thesis using st by (simp add: save_answered_def save_failed_after_def egress_saving_def Let_def split: after_save.split)
  next
    case (Inr settings)
    have "egress_saving (settings_answered now settings (st\<lparr>px_writes := w\<rparr>))" for w using st by (simp add: settings_answered_def egress_saving_def)
    from task_progress_egress [OF this] show ?thesis by (simp add: Inr save_answered_def egress_saving_def Let_def)
  qed
  then show ?thesis using st by (simp add: PEv_save_answered split: option.split)
next
  case (PEv_save_refreshed n)
  assume st: "egress_saving st"
  then have "egress_saving (st\<lparr>px_refreshes := w\<rparr>)" for w by (simp add: egress_saving_def)
  note task = task_progress_egress [OF this]
  have "egress_saving (save_refreshed texts n task st)" for task
    using task by (simp add: save_refreshed_def save_done_after_def Let_def egress_saving_def split: after_save.split)
  then show ?thesis using st by (simp add: PEv_save_refreshed split: option.split)
next
  case (PEv_save_progress n e)
  assume "egress_saving st"
  then show ?thesis using task_progress_egress by (simp add: PEv_save_progress split: option.split)
next
  case (PEv_egress_toggle checked)
  assume "egress_saving st"
  then show ?thesis by (auto simp: PEv_egress_toggle handleCheckedChange_def handleToggleEgress_def toggle_egress_def egress_saving_def split: option.split)
qed (auto simp: egress_saving_def same_dialog_handlers loadForwardProxySettingsData_def settings_loaded_def openDialog_def cancelDialogValidation_def onInputChange_def handleValidateDialog_def
    handleAddSubscription_def handleAddManualBatch_def handleAddManualEntry_def revalidateForwardProxy_def revalidate_answered_def settings_answered_def finalizeForwardProxyRevalidate_def
    candidate_arrived_def validation_done_def validation_rejected_def validation_finally_def onUrlChange_def onUrlBlur_def Let_def split: option.split sum.split)

interpretation relay: event_invariant "\<lambda>st ev. True" "proxy_step texts" egress_saving for texts
proof
  show "egress_saving st \<Longrightarrow> True \<Longrightarrow> egress_saving (proxy_step texts ev st)" for st ev
    using handle_egress [of st texts ev] egress_saving_cong [of "egress_effect st (proxy_handle texts ev st)"] by (simp add: proxy_step_def)
qed

lemma enabled_run_always: "enabled_run (\<lambda>st ev. True) step st evs"
  by (induction evs arbitrary: st) simp_all

text \<open>C28: Once the switch of the SOCKS5 relay has started a save, whatever becomes of it and whatever else happens on the
  page, the switch stays disabled and the banner with the error of a save is never shown again.\<close>

theorem relay_switch_stuck:
  assumes "proxy_allowed st (PEv_egress_toggle checked)" "checked \<longrightarrow> js_trim (px_egressUrlDraft st) \<noteq> [] \<and> validateEgressUrl texts (px_egressUrlDraft st) = None"
    "st' = fold (proxy_step texts) (PEv_egress_toggle checked # evs) st"
  shows "(\<forall>c. \<not> proxy_allowed st' (PEv_egress_toggle c)) \<and> \<not> save_error_shown st'"
proof -
  have "egress_saving (proxy_handle texts (PEv_egress_toggle checked) st)"
    using assms(2) by (cases checked) (simp_all add: handleCheckedChange_def handleToggleEgress_def toggle_egress_def egress_saving_def)
  then have "egress_saving (proxy_step texts (PEv_egress_toggle checked) st)"
    using assms(1) egress_saving_cong [of "egress_effect st (proxy_handle texts (PEv_egress_toggle checked) st)"] by (simp add: proxy_step_def)
  from relay.run_inv [OF this enabled_run_always, of texts evs] have "egress_saving st'" by (simp add: assms(3))
  then show ?thesis by (auto simp: egress_saving_def egressApplyBusy_def save_error_shown_def)
qed

section \<open>Evaluated runs\<close>

definition demo_texts :: proxy_texts where
  "demo_texts = \<lparr>pt_progress = \<lparr>ps_running = ''running'', ps_waiting = ''waiting'', ps_done = ''done'', ps_failed = ''failed'', ps_stepCounter = ''n'', ps_steps = (\<lambda>k. ''step'')\<rparr>,
     pt_validation = \<lparr>vt_normalize_input = ''normalize'', vt_parse_input = ''parse'', vt_generate_result = ''result'', vt_requestFailed = ''failed''\<rparr>,
     pt_cancelled = ''cancelled'', pt_emptySubscriptions = ''empty'', pt_emptyManual = ''empty'', pt_invalidInterval = ''interval'', pt_addedToList = ''added'', pt_egressInvalidUrlError = ''invalid'', pt_egressUnknownError = ''unknown'', pt_egressRequiredError = ''required'',
     pt_parseUrl = (\<lambda>s. Some \<lparr>up_protocol = ''socks5:'', up_hostname = ''h'', up_port = ''1''\<rparr>)\<rparr>"

definition demo_settings :: ForwardProxySettings where
  "demo_settings = \<lparr>fps_proxyUrls = [''m''], fps_subscriptionUrls = [''s''], fps_subscriptionUpdateIntervalSecs = 60, fps_insertDirect = True,
     fps_egressSocks5Enabled = False, fps_egressSocks5Url = [], fps_nodes = []\<rparr>"

definition demo_ok :: ForwardProxyValidationResponse where
  "demo_ok = \<lparr>fpvr2_ok = True, fpvr2_message = ''ok'', fpvr2_normalizedValue = None, fpvr2_discoveredNodes = None, fpvr2_latencyMs = None, fpvr2_errorCode = None, fpvr2_nodes = None\<rparr>"

definition demo_validated :: "ForwardProxyDialogKind \<Rightarrow> proxy_event list" where
  "demo_validated kind = [PEv_load False, PEv_loaded (Inr demo_settings), PEv_open kind, PEv_input ''u'', PEv_validate, PEv_candidate 0 (Stream_result 0 demo_ok), PEv_candidates_done 0]"

abbreviation demo_state :: "proxy_event list \<Rightarrow> proxy_page" where
  "demo_state evs \<equiv> fold (proxy_step demo_texts) evs blank_proxy"

definition demo_validation :: validation_task where
  "demo_validation = \<lparr>vk_values = [''u''], vk_sub = True, vk_run = candidates_start 1\<rparr>"

theorem dialog_results_current_witness:
  "px_dialogResults (demo_state (demo_validated Dialog_subscription)) \<noteq> [] \<and>
   map (\<lambda>e. (ve_kind e, ve_value e)) (px_dialogResults (demo_state (demo_validated Dialog_subscription))) =
     map (Pair (task_kind (dialogIsSubscription (demo_state (demo_validated Dialog_subscription))))) (dialogInputValues (demo_state (demo_validated Dialog_subscription)))"
proof -
  have "enabled_run steady (proxy_step demo_texts) blank_proxy (demo_validated Dialog_subscription)" "px_dialogKind (demo_state (demo_validated Dialog_subscription)) \<noteq> None"
      "px_dialogResults (demo_state (demo_validated Dialog_subscription)) \<noteq> []" by code_simp+
  then show ?thesis using dialog_results_current [OF _ refl] by blast
qed

definition demo_removal :: "proxy_event list" where
  "demo_removal = [PEv_load False, PEv_loaded (Inr demo_settings), PEv_remove_manual ''m'']"


theorem edited_input_adds_old_witness:
  "dialogInputValues (demo_state (take 5 (demo_validated Dialog_subscription) @ [PEv_input ''w'', PEv_candidate 0 (Stream_result 0 demo_ok), PEv_candidates_done 0])) = [''w''] \<and>
   (\<exists>skip. Req_updateForwardProxySettings ((base_payload demo_settings)\<lparr>ufpsp_subscriptionUrls := [''s'', ''u''], ufpsp_skipBootstrapProbe := Some skip\<rparr>) \<in>
      set (px_sent (demo_state (take 5 (demo_validated Dialog_subscription) @ [PEv_input ''w'', PEv_candidate 0 (Stream_result 0 demo_ok), PEv_candidates_done 0, PEv_add_subscription]))))"
proof -
  let ?st = "demo_state (take 5 (demo_validated Dialog_subscription))"
  have st: "px_dialogKind ?st = Some Dialog_subscription" "\<not> controlsDisabled ?st" "px_settings ?st = Some demo_settings" "map_of (px_validations ?st) 0 = Some demo_validation" "0 \<notin> set (px_aborted ?st)"
    by code_simp+
  have v: "settings_lines demo_settings" "0 < fps_subscriptionUpdateIntervalSecs demo_settings" "vk_sub demo_validation" "vk_values demo_validation = [''u'']"
      "cr_results (vk_run demo_validation) = [None]" "fpvr2_ok demo_ok" "''u'' = nullish (fpvr2_normalizedValue demo_ok) ''u''" "''u'' \<noteq> []" "one_line ''u''"
      "normalizeEntries [''w''] = [''w'']" "normalizeEntries (fps_subscriptionUrls demo_settings @ [''u'']) = [''s'', ''u'']"
    by code_simp+
  show ?thesis using edited_input_adds_old [OF st(1-3) v(1,2) st(4,5) v(3-9) refl, of demo_texts "''w''"] v(10,11) by auto
qed


definition demo_relay :: "proxy_event list" where
  "demo_relay = [PEv_load False, PEv_loaded (Inr demo_settings), PEv_egress_url ''x'']"

definition demo_error :: js_error where
  "demo_error = new_error ''failed''"

theorem relay_switch_stuck_witness:
  "\<not> px_saving (demo_state (demo_relay @ [PEv_egress_toggle True, PEv_save_answered 0 (Inl demo_error) 5])) \<and>
   (\<forall>c. \<not> proxy_allowed (demo_state (demo_relay @ [PEv_egress_toggle True, PEv_save_answered 0 (Inl demo_error) 5])) (PEv_egress_toggle c)) \<and>
   \<not> save_error_shown (demo_state (demo_relay @ [PEv_egress_toggle True, PEv_save_answered 0 (Inl demo_error) 5]))"
proof -
  have st: "proxy_allowed (demo_state demo_relay) (PEv_egress_toggle True)"
      "True \<longrightarrow> js_trim (px_egressUrlDraft (demo_state demo_relay)) \<noteq> [] \<and> validateEgressUrl demo_texts (px_egressUrlDraft (demo_state demo_relay)) = None"
    by code_simp+
  have "\<not> px_saving (demo_state (demo_relay @ [PEv_egress_toggle True, PEv_save_answered 0 (Inl demo_error) 5]))" by code_simp
  then show ?thesis using relay_switch_stuck [OF st refl, of "[PEv_save_answered 0 (Inl demo_error) 5]"] by simp
qed

end
