(* ===== verification/Proxy_Nodes.thy ===== *)
theory Proxy_Nodes
  imports JS_Collections Api_Types
begin

text \<open>
  The table of nodes of the forward proxy settings (\<open>web/src/admin/ForwardProxySettingsModule.tsx\<close>): the nodes of the
  settings merged with those of the statistics, their buckets of the last day laid out on one range, the sums shown and
  the bars of the chart.  \<open>Date.parse\<close> and \<open>toISOString\<close> are the parameters \<open>parse\<close> and \<open>toISO\<close>, \<open>localeCompare\<close> is the
  parameter \<open>lc\<close>.  Weights are exact; every node of an answer has all its fields, with null for a missing error.
\<close>

section \<open>Buckets\<close>

record ForwardProxyBucketRange =
  br_rangeStartMs :: int
  br_bucketMs :: int
  br_bucketCount :: int

definition resolveBucketRange :: "(string \<Rightarrow> int option) \<Rightarrow> ForwardProxyStatsResponse option \<Rightarrow> ForwardProxyBucketRange option" where
  "resolveBucketRange parse stats = (case stats of
     None \<Rightarrow> None
   | Some s \<Rightarrow>
       (let bucketMs = fpsr_bucketSeconds s * 1000
        in case (parse (fpsr_rangeStart s), parse (fpsr_rangeEnd s)) of
          (Some rangeStartMs, Some rangeEndMs) \<Rightarrow>
            if bucketMs \<le> 0 then None
            else let bucketCount = max 0 (js_round (rat_of_int (rangeEndMs - rangeStartMs) / rat_of_int bucketMs))
                 in if bucketCount \<le> 0 then None
                    else Some \<lparr>br_rangeStartMs = rangeStartMs, br_bucketMs = bucketMs, br_bucketCount = bucketCount\<rparr>
        | _ \<Rightarrow> None))"

definition bucket_map :: "(string \<Rightarrow> int option) \<Rightarrow> ('b \<Rightarrow> string) \<Rightarrow> 'b list \<Rightarrow> (int \<times> 'b) list" where
  "bucket_map parse start buckets =
     foldl (\<lambda>m bucket. case parse (start bucket) of Some startMs \<Rightarrow> js_map_set startMs bucket m | None \<Rightarrow> m) [] buckets"

definition bucket_start :: "ForwardProxyBucketRange \<Rightarrow> nat \<Rightarrow> int" where
  "bucket_start br index = br_rangeStartMs br + int index * br_bucketMs br"

definition empty_activity :: "(int \<Rightarrow> string) \<Rightarrow> ForwardProxyBucketRange \<Rightarrow> int \<Rightarrow> ForwardProxyActivityBucket" where
  "empty_activity toISO br startMs = \<lparr>fpab_bucketStart = toISO startMs, fpab_bucketEnd = toISO (startMs + br_bucketMs br), fpab_successCount = 0, fpab_failureCount = 0\<rparr>"

definition normalizeActivityBuckets ::
  "(string \<Rightarrow> int option) \<Rightarrow> (int \<Rightarrow> string) \<Rightarrow> ForwardProxyActivityBucket list \<Rightarrow> ForwardProxyBucketRange option \<Rightarrow> ForwardProxyActivityBucket list" where
  "normalizeActivityBuckets parse toISO buckets bucketRange = (case bucketRange of
     None \<Rightarrow> buckets
   | Some br \<Rightarrow>
       (let bucketMap = bucket_map parse fpab_bucketStart buckets
        in map (\<lambda>index. nullish (map_of bucketMap (bucket_start br index)) (empty_activity toISO br (bucket_start br index))) [0..<nat (br_bucketCount br)]))"

definition flat_bucket :: "(int \<Rightarrow> string) \<Rightarrow> ForwardProxyBucketRange \<Rightarrow> int \<Rightarrow> rat \<Rightarrow> ForwardProxyWeightBucket" where
  "flat_bucket toISO br startMs w = \<lparr>fpwb_bucketStart = toISO startMs, fpwb_bucketEnd = toISO (startMs + br_bucketMs br), fpwb_sampleCount = 0,
     fpwb_minWeight = w, fpwb_maxWeight = w, fpwb_avgWeight = w, fpwb_lastWeight = w\<rparr>"

fun fill_weights :: "(int \<Rightarrow> string) \<Rightarrow> ForwardProxyBucketRange \<Rightarrow> (int \<times> ForwardProxyWeightBucket) list \<Rightarrow> rat \<Rightarrow> nat list \<Rightarrow> ForwardProxyWeightBucket list" where
  "fill_weights toISO br bucketMap carryWeight [] = []"
| "fill_weights toISO br bucketMap carryWeight (index # rest) = (case map_of bucketMap (bucket_start br index) of
     Some existing \<Rightarrow> existing # fill_weights toISO br bucketMap (fpwb_lastWeight existing) rest
   | None \<Rightarrow> flat_bucket toISO br (bucket_start br index) carryWeight # fill_weights toISO br bucketMap carryWeight rest)"

definition normalizeWeightBuckets ::
  "(string \<Rightarrow> int option) \<Rightarrow> (int \<Rightarrow> string) \<Rightarrow> ForwardProxyWeightBucket list \<Rightarrow> ForwardProxyBucketRange option \<Rightarrow> rat \<Rightarrow> ForwardProxyWeightBucket list" where
  "normalizeWeightBuckets parse toISO buckets bucketRange fallbackWeight = (case bucketRange of
     None \<Rightarrow> buckets
   | Some br \<Rightarrow> fill_weights toISO br (bucket_map parse fpwb_bucketStart buckets) fallbackWeight [0..<nat (br_bucketCount br)])"

definition normalizeNodeBuckets ::
  "(string \<Rightarrow> int option) \<Rightarrow> (int \<Rightarrow> string) \<Rightarrow> ForwardProxyStatsNode \<Rightarrow> ForwardProxyBucketRange option \<Rightarrow> ForwardProxyStatsNode" where
  "normalizeNodeBuckets parse toISO node bucketRange = (case bucketRange of
     None \<Rightarrow> node
   | Some br \<Rightarrow> node\<lparr>fpsn_last24h := normalizeActivityBuckets parse toISO (fpsn_last24h node) bucketRange,
       fpsn_weight24h := normalizeWeightBuckets parse toISO (fpsn_weight24h node) bucketRange (fpn_weight node)\<rparr>)"

section \<open>Merged nodes\<close>

definition cmp_nodes :: "(string \<Rightarrow> string \<Rightarrow> int) \<Rightarrow> ForwardProxyStatsNode \<Rightarrow> ForwardProxyStatsNode \<Rightarrow> int" where
  "cmp_nodes lc left right =
     (if fpn_source left = ''direct'' \<and> fpn_source right \<noteq> ''direct'' then 1
      else if fpn_source left \<noteq> ''direct'' \<and> fpn_source right = ''direct'' then -1
      else if fpn_penalized left \<noteq> fpn_penalized right then (if fpn_penalized left then 1 else -1)
      else let d = fpn_weight right - fpn_weight left in if d \<noteq> 0 then (if d > 0 then 1 else -1) else lc (fpn_displayName left) (fpn_displayName right))"

definition plain_node :: "ForwardProxyNode \<Rightarrow> ForwardProxyStatsNode" where
  "plain_node node = ForwardProxyNode.extend node \<lparr>fpsn_last24h = [], fpsn_weight24h = []\<rparr>"

definition node_map :: "ForwardProxySettings option \<Rightarrow> ForwardProxyStatsResponse option \<Rightarrow> (string \<times> ForwardProxyStatsNode) list" where
  "node_map settings stats =
     (let m1 = foldl (\<lambda>m node. js_map_set (fpn_key node) (plain_node node) m) [] (nullish (map_option fps_nodes settings) [])
      in foldl (\<lambda>m node. js_map_set (fpn_key node) node m) m1 (nullish (map_option fpsr_nodes stats) []))"

definition buildMergedNodes ::
  "(string \<Rightarrow> int option) \<Rightarrow> (int \<Rightarrow> string) \<Rightarrow> (string \<Rightarrow> string \<Rightarrow> int) \<Rightarrow> ForwardProxySettings option \<Rightarrow> ForwardProxyStatsResponse option \<Rightarrow> ForwardProxyStatsNode list" where
  "buildMergedNodes parse toISO lc settings stats =
     js_sort (cmp_nodes lc) (map (\<lambda>node. normalizeNodeBuckets parse toISO node (resolveBucketRange parse stats)) (map snd (node_map settings stats)))"

section \<open>Sums and bars\<close>

definition computeSuccessRate :: "ForwardProxyWindowStats \<Rightarrow> rat option" where
  "computeSuccessRate stats = (case fpws_successRate stats of
     Some r \<Rightarrow> Some r
   | None \<Rightarrow> (case (fpws_successCount stats, fpws_failureCount stats) of
       (Some success, Some failure) \<Rightarrow> (let sum0 = success + failure in if sum0 > 0 then Some (rat_of_int success / rat_of_int sum0) else None)
     | _ \<Rightarrow> None))"

definition summarizeActivity :: "ForwardProxyStatsNode \<Rightarrow> int \<times> int" where
  "summarizeActivity node = foldl (\<lambda>(success, failure) bucket. (success + fpab_successCount bucket, failure + fpab_failureCount bucket)) (0, 0) (fpsn_last24h node)"

record weight_summary =
  ws_avgWeight :: "rat option"
  ws_minWeight :: "rat option"
  ws_maxWeight :: "rat option"
  ws_lastWeight :: "rat option"

text \<open>The minimum starts at infinity and is a number after the first bucket.\<close>

definition summarizeWeight :: "ForwardProxyWeightBucket list \<Rightarrow> weight_summary" where
  "summarizeWeight weight24h = (case weight24h of
     [] \<Rightarrow> \<lparr>ws_avgWeight = None, ws_minWeight = None, ws_maxWeight = None, ws_lastWeight = None\<rparr>
   | first # rest \<Rightarrow>
       (let totalSamples = foldl (\<lambda>t b. t + max 1 (fpwb_sampleCount b)) 0 weight24h;
            weightedTotal = foldl (\<lambda>t b. t + fpwb_avgWeight b * rat_of_int (max 1 (fpwb_sampleCount b))) 0 weight24h
        in \<lparr>ws_avgWeight = (if totalSamples > 0 then Some (weightedTotal / rat_of_int totalSamples) else None),
            ws_minWeight = Some (foldl (\<lambda>w b. min w (fpwb_minWeight b)) (fpwb_minWeight first) rest),
            ws_maxWeight = Some (foldl (\<lambda>w b. max w (fpwb_maxWeight b)) (fpwb_maxWeight first) rest),
            ws_lastWeight = Some (fpwb_lastWeight (last weight24h))\<rparr>))"

definition resolveWeightBuckets :: "ForwardProxyStatsNode \<Rightarrow> ForwardProxyWeightBucket list" where
  "resolveWeightBuckets node =
     (if fpsn_weight24h node \<noteq> [] then fpsn_weight24h node
      else map (\<lambda>bucket. \<lparr>fpwb_bucketStart = fpab_bucketStart bucket, fpwb_bucketEnd = fpab_bucketEnd bucket, fpwb_sampleCount = 0,
        fpwb_minWeight = fpn_weight node, fpwb_maxWeight = fpn_weight node, fpwb_avgWeight = fpn_weight node, fpwb_lastWeight = fpn_weight node\<rparr>) (fpsn_last24h node))"

record bar_heights =
  bh_empty :: rat
  bh_failure :: rat
  bh_success :: rat

definition shrink :: "rat \<Rightarrow> rat \<Rightarrow> rat \<Rightarrow> rat \<times> rat" where
  "shrink v minVisible amount =
     (if amount \<le> 0 \<or> v \<le> minVisible then (v, amount) else let delta = min (v - minVisible) amount in (v - delta, amount - delta))"

definition visible :: "int \<Rightarrow> int \<Rightarrow> rat \<Rightarrow> rat" where
  "visible n scaleMax totalHeightPx = (if n > 0 then max (rat_of_int n / rat_of_int scaleMax * totalHeightPx) 1 else 0)"

definition least_visible :: "int \<Rightarrow> rat" where
  "least_visible n = (if n > 0 then 1 else 0)"

definition buildVisibleBarHeights :: "int \<Rightarrow> int \<Rightarrow> int \<Rightarrow> rat \<Rightarrow> bar_heights" where
  "buildVisibleBarHeights successCount failureCount scaleMax totalHeightPx =
     (if scaleMax \<le> 0 \<or> totalHeightPx \<le> 0 then \<lparr>bh_empty = totalHeightPx, bh_failure = 0, bh_success = 0\<rparr>
      else let success = visible successCount scaleMax totalHeightPx; failure = visible failureCount scaleMax totalHeightPx;
               maxVisible = max totalHeightPx 0; overflow = success + failure - maxVisible;
               (success', failure') =
                 (if overflow > 0 then
                    (if success \<ge> failure then
                       (let (s, left) = shrink success (least_visible successCount) overflow; (f, left') = shrink failure (least_visible failureCount) left in (s, f))
                     else
                       (let (f, left) = shrink failure (least_visible failureCount) overflow; (s, left') = shrink success (least_visible successCount) left in (s, f)))
                  else (success, failure));
               used = min (success' + failure') maxVisible
           in \<lparr>bh_empty = max (maxVisible - used) 0, bh_failure = failure', bh_success = success'\<rparr>)"

section \<open>Properties\<close>

text \<open>The comparator of the table is consistent when the one of the names is.\<close>

lemma cmp_nodes_comparator:
  assumes "comparator lc"
  shows "comparator (cmp_nodes lc)"
proof
  fix x y z :: ForwardProxyStatsNode
  show "sgn (cmp_nodes lc x y) = - sgn (cmp_nodes lc y x)"
    using comparator.cmp_opp [OF assms, of "fpn_displayName x" "fpn_displayName y"] by (auto simp: cmp_nodes_def Let_def)
  show "cmp_nodes lc x y \<le> 0 \<Longrightarrow> cmp_nodes lc y z \<le> 0 \<Longrightarrow> cmp_nodes lc x z \<le> 0"
    using comparator.cmp_trans [OF assms, of "fpn_displayName x" "fpn_displayName y" "fpn_displayName z"] by (auto simp: cmp_nodes_def Let_def split: if_splits)
qed

text \<open>The map of the buckets holds the last bucket that starts at a time; a missing weight is the last one known.\<close>

lemma map_of_bucket_map: "map_of (bucket_map parse start buckets) t = find (\<lambda>b. parse (start b) = Some t) (rev buckets)"
  by (induction buckets rule: rev_induct) (auto simp: bucket_map_def split: option.split)

primrec known_weight :: "ForwardProxyBucketRange \<Rightarrow> (int \<times> ForwardProxyWeightBucket) list \<Rightarrow> rat \<Rightarrow> nat \<Rightarrow> rat" where
  "known_weight br m w 0 = w"
| "known_weight br m w (Suc i) = (case map_of m (bucket_start br i) of Some b \<Rightarrow> fpwb_lastWeight b | None \<Rightarrow> known_weight br m w i)"

lemma fill_weights_known:
  "fill_weights toISO br m (known_weight br m w i) [i..<n] =
   map (\<lambda>j. nullish (map_of m (bucket_start br j)) (flat_bucket toISO br (bucket_start br j) (known_weight br m w j))) [i..<n]"
proof (induction "n - i" arbitrary: i)
  case (Suc k)
  then have "[i..<n] = i # [Suc i..<n]" "k = n - Suc i" by (simp_all add: upt_conv_Cons)
  then show ?case using Suc.hyps(1) [of "Suc i"] by (cases "map_of m (bucket_start br i)") simp_all
qed simp

lemma found_start: "map_of (bucket_map parse start buckets) t = Some b \<Longrightarrow> parse (start b) = Some t"
  by (auto simp: map_of_bucket_map find_Some_iff)

lemma activity_starts:
  assumes "\<And>t. parse (toISO t) = Some t"
  shows "map (\<lambda>b. parse (fpab_bucketStart b)) (normalizeActivityBuckets parse toISO buckets (Some br)) = map (\<lambda>i. Some (bucket_start br i)) [0..<nat (br_bucketCount br)]"
proof -
  have "parse (fpab_bucketStart (nullish (map_of (bucket_map parse fpab_bucketStart buckets) t) (empty_activity toISO br t))) = Some t" for t
    using found_start [of parse fpab_bucketStart buckets t] assms
    by (cases "map_of (bucket_map parse fpab_bucketStart buckets) t") (simp_all add: empty_activity_def)
  then show ?thesis by (simp add: normalizeActivityBuckets_def Let_def)
qed

text \<open>The same for the weights; a missing bucket is flat at the last weight known before it.\<close>

lemma weight_starts:
  assumes "\<And>t. parse (toISO t) = Some t"
  shows "map (\<lambda>b. parse (fpwb_bucketStart b)) (normalizeWeightBuckets parse toISO buckets (Some br) w) = map (\<lambda>i. Some (bucket_start br i)) [0..<nat (br_bucketCount br)]"
proof -
  let ?m = "bucket_map parse fpwb_bucketStart buckets"
  have "parse (fpwb_bucketStart (nullish (map_of ?m t) (flat_bucket toISO br t v))) = Some t" for t v
    using found_start [of parse fpwb_bucketStart buckets t] assms by (cases "map_of ?m t") (simp_all add: flat_bucket_def)
  then show ?thesis using fill_weights_known [of toISO br ?m w 0 "nat (br_bucketCount br)"] by (simp add: normalizeWeightBuckets_def)
qed

text \<open>Two bars that overflow are shrunk to the height, neither below its least height.\<close>

lemma shrink_twice:
  assumes "la \<le> a" "lb \<le> b" "la + lb \<le> h" "a + b - h > 0" "shrink a la (a + b - h) = (a', left)" "shrink b lb left = (b', left')"
  shows "a' + b' = h \<and> la \<le> a' \<and> lb \<le> b'"
  using assms by (auto simp: shrink_def Let_def min_def split: if_splits)

lemma least_le_visible: "least_visible n \<le> visible n scaleMax h" "0 \<le> least_visible n" "least_visible n \<le> 1"
  by (simp_all add: least_visible_def visible_def)



text \<open>The node of a key: the one of the statistics, or that of the settings without buckets; the last one if a list has
  several.\<close>

definition source_node :: "ForwardProxySettings option \<Rightarrow> ForwardProxyStatsResponse option \<Rightarrow> string \<Rightarrow> ForwardProxyStatsNode option" where
  "source_node settings stats k = (case find (\<lambda>n. fpn_key n = k) (rev (nullish (map_option fpsr_nodes stats) [])) of
     Some n \<Rightarrow> Some n
   | None \<Rightarrow> map_option plain_node (find (\<lambda>n. fpn_key n = k) (rev (nullish (map_option fps_nodes settings) []))))"

definition table_order :: "(string \<Rightarrow> string \<Rightarrow> int) \<Rightarrow> ForwardProxyStatsNode \<Rightarrow> ForwardProxyStatsNode \<Rightarrow> bool" where
  "table_order lc l r \<longleftrightarrow> (let dl = fpn_source l = ''direct''; dr = fpn_source r = ''direct''
     in (dl \<longrightarrow> dr) \<and> (dl = dr \<longrightarrow> (fpn_penalized l \<longrightarrow> fpn_penalized r) \<and>
       (fpn_penalized l = fpn_penalized r \<longrightarrow> fpn_weight r \<le> fpn_weight l \<and> (fpn_weight l = fpn_weight r \<longrightarrow> lc (fpn_displayName l) (fpn_displayName r) \<le> 0))))"

lemma cmp_nodes_order: "cmp_nodes lc l r \<le> 0 \<Longrightarrow> table_order lc l r"
  by (auto simp: cmp_nodes_def table_order_def Let_def split: if_splits)

lemma map_of_find: "map_of (map (\<lambda>n. (f n, g n)) xs) k = map_option g (find (\<lambda>n. f n = k) xs)"
  by (induction xs) auto

lemma node_map_updates: "node_map settings stats =
    jm.update_all (map (\<lambda>n. (fpn_key n, n)) (nullish (map_option fpsr_nodes stats) [])) (jm.update_all (map (\<lambda>n. (fpn_key n, plain_node n)) (nullish (map_option fps_nodes settings) [])) [])"
proof -
  have "foldl (\<lambda>m n. js_map_set (f n) (g n) m) m0 xs = jm.update_all (map (\<lambda>n. (f n, g n)) xs) m0" for f g m0 xs
    by (induction xs arbitrary: m0) (simp_all add: jm.update_all_def)
  from this [of fpn_key plain_node] this [of fpn_key "\<lambda>n. n"] show ?thesis by (simp add: node_map_def)
qed

lemma lookup_node_map: "map_of (node_map settings stats) = source_node settings stats"
  by (rule ext) (simp add: node_map_updates jm.lookup_update_all rev_map map_of_find source_node_def map_add_def split: option.split)

lemma plain_node_key: "fpn_key (plain_node n) = fpn_key n"
  by (cases n) (simp add: plain_node_def ForwardProxyNode.extend_def)

lemma source_node_key: "source_node settings stats k = Some n \<Longrightarrow> fpn_key n = k"
  by (auto simp: source_node_def plain_node_key find_Some_iff split: option.splits)

lemma normalize_key [simp]: "fpn_key (normalizeNodeBuckets parse toISO n br) = fpn_key n"
  by (simp add: normalizeNodeBuckets_def split: option.split)

text \<open>C20: The table has exactly one row for each key of the settings and of the statistics, the row of the statistics when
  there is one, with its buckets laid out on the range; rows of direct connections come last, penalized nodes after the
  others, then by falling weight and by name.\<close>

theorem merged_nodes:
  assumes "comparator lc" "nodes = buildMergedNodes parse toISO lc settings stats" "br = resolveBucketRange parse stats"
  shows "distinct (map fpn_key nodes) \<and>
    (\<forall>node. node \<in> set nodes \<longleftrightarrow> (\<exists>n. source_node settings stats (fpn_key node) = Some n \<and> node = normalizeNodeBuckets parse toISO n br)) \<and> sorted_wrt (table_order lc) nodes"
proof -
  let ?m = "node_map settings stats" and ?f = "\<lambda>n. normalizeNodeBuckets parse toISO n br"
  have dist: "distinct (map fst ?m)" by (simp add: node_map_updates jm.distinct_keys_update_all)
  have key: "fpn_key n = k" "source_node settings stats k = Some n" if "(k, n) \<in> set ?m" for k n
    using that dist lookup_node_map [of settings stats] by (auto intro: source_node_key simp: map_of_eq_Some_iff [symmetric])
  have nodes: "nodes = js_sort (cmp_nodes lc) (map ?f (map snd ?m))" using assms(2,3) by (simp add: buildMergedNodes_def)
  have keys: "map fpn_key (map ?f (map snd ?m)) = map fst ?m" using key(1) by auto
  have "mset (map fpn_key nodes) = mset (map fst ?m)" unfolding keys [symmetric] nodes by (simp only: mset_map mset_js_sort)
  then have "distinct (map fpn_key nodes)" using dist mset_eq_imp_distinct_iff by blast
  moreover have "node \<in> set nodes \<longleftrightarrow> (\<exists>n. source_node settings stats (fpn_key node) = Some n \<and> node = ?f n)" for node
  proof
    assume "node \<in> set nodes"
    then obtain k n where "(k, n) \<in> set ?m" "node = ?f n" by (auto simp: nodes)
    then show "\<exists>n. source_node settings stats (fpn_key node) = Some n \<and> node = ?f n" using key [of k n] by auto
  next
    assume "\<exists>n. source_node settings stats (fpn_key node) = Some n \<and> node = ?f n"
    then obtain n where n: "map_of ?m (fpn_key node) = Some n" "node = ?f n" by (auto simp: lookup_node_map)
    then show "node \<in> set nodes" using map_of_SomeD [OF n(1)] by (force simp: nodes)
  qed
  moreover have "sorted_wrt (table_order lc) nodes"
    using comparator.sorted_js_sort [OF cmp_nodes_comparator [OF assms(1)]] unfolding nodes by (rule sorted_wrt_mono_rel [rotated]) (rule cmp_nodes_order)
  ultimately show ?thesis by blast
qed

definition demo_window :: ForwardProxyWindowStats where
  "demo_window = \<lparr>fpws_attempts = 0, fpws_successCount = None, fpws_failureCount = None, fpws_successRate = None, fpws_avgLatencyMs = None\<rparr>"

definition demo_node :: "string \<Rightarrow> string \<Rightarrow> rat \<Rightarrow> ForwardProxyNode" where
  "demo_node key source0 w = \<lparr>fpn_key = key, fpn_source = source0, fpn_displayName = key, fpn_endpointUrl = None, fpn_resolvedIps = [], fpn_resolvedRegions = [], fpn_weight = w,
     fpn_available = True, fpn_lastError = None, fpn_penalized = False, fpn_primaryAssignmentCount = 0, fpn_secondaryAssignmentCount = 0,
     fpn_stats = \<lparr>fpns_oneMinute = demo_window, fpns_fifteenMinutes = demo_window, fpns_oneHour = demo_window, fpns_oneDay = demo_window, fpns_sevenDays = demo_window\<rparr>\<rparr>"

definition node_settings :: ForwardProxySettings where
  "node_settings = \<lparr>fps_proxyUrls = [], fps_subscriptionUrls = [], fps_subscriptionUpdateIntervalSecs = 60, fps_insertDirect = True,
     fps_egressSocks5Enabled = False, fps_egressSocks5Url = [], fps_nodes = [demo_node ''d'' ''direct'' 9, demo_node ''a'' ''manual'' 1, demo_node ''b'' ''manual'' 2]\<rparr>"

theorem merged_nodes_witness:
  "map fpn_key (buildMergedNodes (\<lambda>s. None) (\<lambda>t. []) cmp_code_points (Some node_settings) None) = [''b'', ''a'', ''d''] \<and>
   sorted_wrt (table_order cmp_code_points) (buildMergedNodes (\<lambda>s. None) (\<lambda>t. []) cmp_code_points (Some node_settings) None)"
proof -
  have "map fpn_key (buildMergedNodes (\<lambda>s. None) (\<lambda>t. []) cmp_code_points (Some node_settings) None) = [''b'', ''a'', ''d'']" by code_simp
  then show ?thesis using merged_nodes [OF code_points.comparator_axioms refl refl] by blast
qed

end
