(* ===== verification/Admin_Secrets.thy ===== *)
theory Admin_Secrets
  imports JS_Collections URI_Codec Http Event_System
begin

text \<open>
  Copying the secrets of API keys and tokens in the admin console (\<open>web/src/AdminDashboard.tsx\<close>): secrets are cached,
  requests for them are shared and started ahead of a click, and a rotated token replaces its secret at once.  Events
  are pointers, clicks, timers, answers of requests and of the clipboard, and rotations, in any order.  A request is
  numbered; its promise is the list of those who wait for it.  Buttons are taken to be usable in every state, and an aborted
  request may still be answered, which only adds runs.  Keys of warm-ups, \<open>token:id\<close> and \<open>key:id\<close> in the code, are pairs.
\<close>

section \<open>State\<close>

datatype scope = Scope_token | Scope_key

type_synonym warm_key = "scope \<times> string"

datatype copy_kind = Copy_secret | Copy_share

text \<open>Who waits for a secret: a click, with the key of its button's state and whether it has an anchor, or a warm-up with
  its controller and the version it started with.\<close>

record copy_click =
  cc_scope :: scope
  cc_id :: string
  cc_kind :: copy_kind
  cc_stateKey :: string
  cc_anchor :: bool
  cc_cached :: bool

datatype waiter = Click_waits copy_click | Warm_waits warm_key nat nat

record secret_request =
  sr_scope :: scope
  sr_id :: string
  sr_version :: nat
  sr_signal :: "nat option"

datatype button_copy = Copy_loading | Copy_copied

record copy_job =
  cj_click :: copy_click
  cj_value :: string

record admin_secrets =
  as_cache :: "(warm_key \<times> string) list"
  as_pending :: "(warm_key \<times> nat) list"
  as_versions :: "(string \<times> nat) list"
  as_timers :: "(warm_key \<times> nat) list"
  as_warm :: "(warm_key \<times> nat) list"
  as_aborted :: "nat list"
  as_requests :: "(nat \<times> secret_request) list"
  as_waiters :: "(nat \<times> waiter) list"
  as_counter :: nat
  as_jobs :: "(nat \<times> copy_job) list"
  as_copyState :: "(string \<times> button_copy) list"
  as_bubble :: "string option"
  as_error :: "string option"
  as_clipboard :: "(copy_click \<times> string \<times> bool) list"

text \<open>What does not change: whether secrets are fetched ahead, and the origin of the page.\<close>

record secrets_env =
  sv_prewarm :: bool
  sv_origin :: string

definition blank_secrets :: admin_secrets where
  "blank_secrets = \<lparr>as_cache = [], as_pending = [], as_versions = [], as_timers = [], as_warm = [], as_aborted = [], as_requests = [], as_waiters = [],
     as_counter = 0, as_jobs = [], as_copyState = [], as_bubble = None, as_error = None, as_clipboard = []\<rparr>"

section \<open>Resolving a secret\<close>

definition version :: "scope \<Rightarrow> string \<Rightarrow> admin_secrets \<Rightarrow> nat" where
  "version scope i st = (case scope of Scope_token \<Rightarrow> nullish (map_of (as_versions st) i) 0 | Scope_key \<Rightarrow> 0)"

text \<open>\<open>resolveApiKeySecret\<close> and \<open>resolveTokenSecret\<close> up to their \<open>await\<close>: a cached secret, or the request to wait for.\<close>

definition new_request :: "scope \<Rightarrow> string \<Rightarrow> nat option \<Rightarrow> admin_secrets \<Rightarrow> nat \<times> admin_secrets" where
  "new_request scope i signal st =
     (let n = as_counter st
      in (n, st\<lparr>as_counter := n + 1, as_requests := (n, \<lparr>sr_scope = scope, sr_id = i, sr_version = version scope i st, sr_signal = signal\<rparr>) # as_requests st,
                as_pending := js_map_set (scope, i) n (as_pending st)\<rparr>))"

definition resolveSecret :: "scope \<Rightarrow> string \<Rightarrow> nat option \<Rightarrow> admin_secrets \<Rightarrow> (string + nat) \<times> admin_secrets" where
  "resolveSecret scope i signal st =
     (let cached = nullish (map_of (as_cache st) (scope, i)) []
      in if cached \<noteq> [] then (Inl cached, st)
         else case map_of (as_pending st) (scope, i) of
           Some pending \<Rightarrow> (Inr pending, st)
         | None \<Rightarrow> (let (n, st1) = new_request scope i signal st in (Inr n, st1)))"

text \<open>Their \<open>then\<close> and \<open>finally\<close>.  A key forgets its pending request, a token only if it is still this one.\<close>

definition is_aborted :: "nat option \<Rightarrow> admin_secrets \<Rightarrow> bool" where
  "is_aborted signal st \<longleftrightarrow> (case signal of Some c \<Rightarrow> c \<in> set (as_aborted st) | None \<Rightarrow> False)"

definition cache_secret :: "warm_key \<Rightarrow> string \<Rightarrow> admin_secrets \<Rightarrow> admin_secrets" where
  "cache_secret key secret st = st\<lparr>as_cache := js_map_set key secret (as_cache st)\<rparr>"

definition request_then :: "secret_request \<Rightarrow> string \<Rightarrow> admin_secrets \<Rightarrow> admin_secrets" where
  "request_then r secret st =
     (if \<not> is_aborted (sr_signal r) st \<and> version (sr_scope r) (sr_id r) st = sr_version r
      then cache_secret (sr_scope r, sr_id r) secret st else st)"

definition request_finally :: "nat \<Rightarrow> secret_request \<Rightarrow> admin_secrets \<Rightarrow> admin_secrets" where
  "request_finally n r st =
     (if sr_scope r = Scope_key \<or> map_of (as_pending st) (sr_scope r, sr_id r) = Some n
      then st\<lparr>as_pending := js_map_delete (sr_scope r, sr_id r) (as_pending st)\<rparr> else st)"

section \<open>Warming up\<close>

definition clearSecretWarmTimer :: "warm_key \<Rightarrow> admin_secrets \<Rightarrow> admin_secrets" where
  "clearSecretWarmTimer key st = st\<lparr>as_timers := js_map_delete key (as_timers st)\<rparr>"

definition dropSecretWarmRequest :: "warm_key \<Rightarrow> admin_secrets \<Rightarrow> admin_secrets" where
  "dropSecretWarmRequest key st = (if snd key = [] then st else st\<lparr>as_pending := js_map_delete key (as_pending st)\<rparr>)"

definition cancelSecretWarm :: "warm_key \<Rightarrow> admin_secrets \<Rightarrow> admin_secrets" where
  "cancelSecretWarm key st =
     (let st1 = clearSecretWarmTimer key st
      in case map_of (as_warm st1) key of
        Some controller \<Rightarrow> dropSecretWarmRequest key (st1\<lparr>as_aborted := controller # as_aborted st1, as_warm := js_map_delete key (as_warm st1)\<rparr>)
      | None \<Rightarrow> st1)"

definition commitSecretWarm :: "warm_key \<Rightarrow> admin_secrets \<Rightarrow> admin_secrets" where
  "commitSecretWarm key st = (let st1 = clearSecretWarmTimer key st in st1\<lparr>as_warm := js_map_delete key (as_warm st1)\<rparr>)"

text \<open>The \<open>then\<close> and the \<open>finally\<close> of a warm-up.\<close>

definition warm_then :: "warm_key \<Rightarrow> nat \<Rightarrow> nat \<Rightarrow> string \<Rightarrow> admin_secrets \<Rightarrow> admin_secrets" where
  "warm_then key controller requestVersion secret st =
     (if map_of (as_warm st) key = Some controller \<and> version (fst key) (snd key) st = requestVersion then cache_secret key secret st else st)"

definition warm_finally :: "warm_key \<Rightarrow> nat \<Rightarrow> admin_secrets \<Rightarrow> admin_secrets" where
  "warm_finally key controller st = (if map_of (as_warm st) key = Some controller then st\<lparr>as_warm := js_map_delete key (as_warm st)\<rparr> else st)"

definition wait_for :: "nat \<Rightarrow> waiter \<Rightarrow> admin_secrets \<Rightarrow> admin_secrets" where
  "wait_for n w st = st\<lparr>as_waiters := as_waiters st @ [(n, w)]\<rparr>"

text \<open>\<open>warmTokenSecret\<close> and \<open>warmApiKeySecret\<close>.\<close>

definition warmSecret :: "secrets_env \<Rightarrow> warm_key \<Rightarrow> admin_secrets \<Rightarrow> admin_secrets" where
  "warmSecret env key st =
     (if \<not> sv_prewarm env then st
      else let st1 = clearSecretWarmTimer key st
           in if js_map_has key (as_cache st1) \<or> js_map_has key (as_pending st1) then st1
              else let controller = as_counter st1; requestVersion = version (fst key) (snd key) st1;
                       st2 = st1\<lparr>as_counter := controller + 1, as_warm := js_map_set key controller (as_warm st1)\<rparr>
                   in case resolveSecret (fst key) (snd key) (Some controller) st2 of
                        (Inr n, st3) \<Rightarrow> wait_for n (Warm_waits key controller requestVersion) st3
                      | (Inl secret, st3) \<Rightarrow> warm_finally key controller (warm_then key controller requestVersion secret st3))"

definition scheduleSecretWarm :: "secrets_env \<Rightarrow> warm_key \<Rightarrow> admin_secrets \<Rightarrow> admin_secrets" where
  "scheduleSecretWarm env key st =
     (if \<not> sv_prewarm env then st
      else let st1 = clearSecretWarmTimer key st
           in st1\<lparr>as_counter := as_counter st1 + 1, as_timers := js_map_set key (as_counter st1) (as_timers st1)\<rparr>)"

definition warm_timer :: "secrets_env \<Rightarrow> warm_key \<Rightarrow> admin_secrets \<Rightarrow> admin_secrets" where
  "warm_timer env key st = warmSecret env key (st\<lparr>as_timers := js_map_delete key (as_timers st)\<rparr>)"

definition handleTokenSecretRotated :: "string \<Rightarrow> string \<Rightarrow> admin_secrets \<Rightarrow> admin_secrets" where
  "handleTokenSecretRotated i token st =
     (let st1 = st\<lparr>as_versions := js_map_set i (nullish (map_of (as_versions st) i) 0 + 1) (as_versions st), as_pending := js_map_delete (Scope_token, i) (as_pending st)\<rparr>
      in cache_secret (Scope_token, i) token st1)"

section \<open>Copying\<close>

definition updateCopyState :: "string \<Rightarrow> button_copy option \<Rightarrow> admin_secrets \<Rightarrow> admin_secrets" where
  "updateCopyState key v st = st\<lparr>as_copyState := (case v of None \<Rightarrow> js_map_delete key (as_copyState st) | Some b \<Rightarrow> js_map_set key b (as_copyState st))\<rparr>"

text \<open>What a click copies: the secret itself or the link that shares it.\<close>

definition copied_text :: "secrets_env \<Rightarrow> copy_click \<Rightarrow> string \<Rightarrow> string" where
  "copied_text env click secret = (case cc_kind click of Copy_secret \<Rightarrow> secret | Copy_share \<Rightarrow> sv_origin env @ ''/#'' @ encodeURIComponent secret)"

definition copy_start :: "secrets_env \<Rightarrow> copy_click \<Rightarrow> string \<Rightarrow> admin_secrets \<Rightarrow> admin_secrets" where
  "copy_start env click secret st =
     (let n = as_counter st; text0 = copied_text env click secret
      in st\<lparr>as_counter := n + 1, as_jobs := (n, \<lparr>cj_click = click, cj_value = text0\<rparr>) # as_jobs st,
           as_clipboard := as_clipboard st @ [(click, text0, cc_cached click)]\<rparr>)"

definition copy_failed :: "copy_click \<Rightarrow> string \<Rightarrow> admin_secrets \<Rightarrow> admin_secrets" where
  "copy_failed click message st = updateCopyState (cc_stateKey click) None (st\<lparr>as_error := Some message\<rparr>)"

text \<open>\<open>handleCopySecret\<close>, \<open>handleCopyToken\<close> and \<open>handleShareToken\<close> up to their first \<open>await\<close>: the same code with the secret
  of a key, that of a token, and the link for a token.\<close>

definition handleCopy :: "secrets_env \<Rightarrow> copy_click \<Rightarrow> admin_secrets \<Rightarrow> admin_secrets" where
  "handleCopy env click0 st =
     (let key = (cc_scope click0, cc_id click0);
          st1 = updateCopyState (cc_stateKey click0) (Some Copy_loading) (commitSecretWarm key (st\<lparr>as_bubble := None\<rparr>));
          click = click0\<lparr>cc_cached := js_map_has key (as_cache st1)\<rparr>
      in case resolveSecret (cc_scope click) (cc_id click) None st1 of
           (Inl secret, st2) \<Rightarrow> copy_start env click secret st2
         | (Inr n, st2) \<Rightarrow> wait_for n (Click_waits click) st2)"

definition click_of :: "scope \<Rightarrow> copy_kind \<Rightarrow> string \<Rightarrow> string \<Rightarrow> bool \<Rightarrow> copy_click" where
  "click_of scope kind i stateKey anchor = \<lparr>cc_scope = scope, cc_id = i, cc_kind = kind, cc_stateKey = stateKey, cc_anchor = anchor, cc_cached = False\<rparr>"

definition handleCopySecret :: "secrets_env \<Rightarrow> string \<Rightarrow> string \<Rightarrow> bool \<Rightarrow> admin_secrets \<Rightarrow> admin_secrets" where
  "handleCopySecret env i stateKey anchor st = handleCopy env (click_of Scope_key Copy_secret i stateKey anchor) st"

definition handleCopyToken :: "secrets_env \<Rightarrow> string \<Rightarrow> string \<Rightarrow> bool \<Rightarrow> admin_secrets \<Rightarrow> admin_secrets" where
  "handleCopyToken env i stateKey anchor st = handleCopy env (click_of Scope_token Copy_secret i stateKey anchor) st"

definition handleShareToken :: "secrets_env \<Rightarrow> string \<Rightarrow> string \<Rightarrow> bool \<Rightarrow> admin_secrets \<Rightarrow> admin_secrets" where
  "handleShareToken env i stateKey anchor st = handleCopy env (click_of Scope_token Copy_share i stateKey anchor) st"

text \<open>The clipboard has answered.\<close>

definition copy_done :: "nat \<Rightarrow> copy_job \<Rightarrow> bool \<Rightarrow> admin_secrets \<Rightarrow> admin_secrets" where
  "copy_done n job ok st =
     (let st1 = st\<lparr>as_jobs := filter (\<lambda>e. fst e \<noteq> n) (as_jobs st)\<rparr>; stateKey = cc_stateKey (cj_click job)
      in if ok then updateCopyState stateKey (Some Copy_copied) (st1\<lparr>as_bubble := None\<rparr>)
         else (updateCopyState stateKey None st1)\<lparr>as_bubble := (if cc_anchor (cj_click job) then Some (cj_value job) else as_bubble st1)\<rparr>)"

text \<open>Those who wait for a request go on in their order.\<close>

fun resume :: "secrets_env \<Rightarrow> js_error + string \<Rightarrow> waiter \<Rightarrow> admin_secrets \<Rightarrow> admin_secrets" where
  "resume env (Inr secret) (Click_waits click) st = copy_start env click secret st"
| "resume env (Inl e) (Click_waits click) st = copy_failed click (er_message e) st"
| "resume env (Inr secret) (Warm_waits key controller v) st = warm_finally key controller (warm_then key controller v secret st)"
| "resume env (Inl e) (Warm_waits key controller v) st = warm_finally key controller st"

definition request_answered :: "secrets_env \<Rightarrow> nat \<Rightarrow> secret_request \<Rightarrow> js_error + string \<Rightarrow> admin_secrets \<Rightarrow> admin_secrets" where
  "request_answered env n r answer st =
     (let st1 = st\<lparr>as_requests := filter (\<lambda>e. fst e \<noteq> n) (as_requests st)\<rparr>;
          st2 = (case answer of Inr secret \<Rightarrow> request_then r secret st1 | Inl e \<Rightarrow> st1);
          st3 = request_finally n r st2;
          ws = map snd (filter (\<lambda>e. fst e = n) (as_waiters st3))
      in fold (resume env answer) ws (st3\<lparr>as_waiters := filter (\<lambda>e. fst e \<noteq> n) (as_waiters st3)\<rparr>))"

section \<open>Events\<close>

datatype secrets_event =
    SEv_enter warm_key | SEv_leave warm_key | SEv_press warm_key | SEv_timer warm_key
  | SEv_copy_secret string string bool | SEv_copy_token string string bool | SEv_share_token string string bool
  | SEv_answer nat "js_error + string" | SEv_copied nat bool | SEv_copy_timer string | SEv_rotated string string

fun copy_step :: "secrets_env \<Rightarrow> secrets_event \<Rightarrow> admin_secrets \<Rightarrow> admin_secrets" where
  "copy_step env (SEv_enter key) st = scheduleSecretWarm env key st"
| "copy_step env (SEv_leave key) st = cancelSecretWarm key st"
| "copy_step env (SEv_press key) st = warmSecret env key st"
| "copy_step env (SEv_timer key) st = (if js_map_has key (as_timers st) then warm_timer env key st else st)"
| "copy_step env (SEv_copy_secret i stateKey anchor) st = handleCopySecret env i stateKey anchor st"
| "copy_step env (SEv_copy_token i stateKey anchor) st = handleCopyToken env i stateKey anchor st"
| "copy_step env (SEv_share_token i stateKey anchor) st = handleShareToken env i stateKey anchor st"
| "copy_step env (SEv_answer n answer) st = (case map_of (as_requests st) n of None \<Rightarrow> st | Some r \<Rightarrow> request_answered env n r answer st)"
| "copy_step env (SEv_copied n ok) st = (case map_of (as_jobs st) n of None \<Rightarrow> st | Some job \<Rightarrow> copy_done n job ok st)"
| "copy_step env (SEv_copy_timer key) st = updateCopyState key None st"
| "copy_step env (SEv_rotated i token) st = handleTokenSecretRotated i token st"

end
