(* ===== verification/Admin_Secrets_Safe.thy ===== *)
theory Admin_Secrets_Safe
  imports Admin_Secrets
begin

text \<open>
  Safety of the secrets of the admin console: what is copied was served for the key or token of the button, and after a
  rotation no answer that is still under way brings the old secret of a token back.
\<close>

section \<open>Maps\<close>

lemma map_of_filter_key: "map_of (filter (\<lambda>e. fst e \<noteq> n) xs) m = (if m = n then None else map_of xs m)"
  by (induction xs) auto

lemmas copy_handlers = handleCopySecret_def handleCopyToken_def handleShareToken_def

section \<open>What is waited for\<close>

definition request_key :: "secret_request \<Rightarrow> warm_key" where
  "request_key r = (sr_scope r, sr_id r)"

fun waiter_key :: "waiter \<Rightarrow> warm_key" where
  "waiter_key (Click_waits click) = (cc_scope click, cc_id click)"
| "waiter_key (Warm_waits key controller v) = key"

fun waiter_version :: "waiter \<Rightarrow> nat" where
  "waiter_version (Click_waits click) = 0"
| "waiter_version (Warm_waits key controller v) = v"

text \<open>Pending requests and those who wait name a request that is under way for the same key; no request is newer than
  the version of its token.\<close>

definition waits_ok :: "admin_secrets \<Rightarrow> bool" where
  "waits_ok st \<longleftrightarrow>
     (\<forall>key n. map_of (as_pending st) key = Some n \<longrightarrow> (\<exists>r. map_of (as_requests st) n = Some r \<and> request_key r = key)) \<and>
     (\<forall>(n, w) \<in> set (as_waiters st). (\<exists>r. map_of (as_requests st) n = Some r \<and> request_key r = waiter_key w) \<and>
        waiter_version w \<le> version (fst (waiter_key w)) (snd (waiter_key w)) st) \<and>
     (\<forall>n r. map_of (as_requests st) n = Some r \<longrightarrow> n < as_counter st \<and> sr_version r \<le> version (sr_scope r) (sr_id r) st)"

definition same_waits :: "admin_secrets \<Rightarrow> admin_secrets \<Rightarrow> bool" where
  "same_waits st st' \<longleftrightarrow> as_pending st' = as_pending st \<and> as_requests st' = as_requests st \<and> as_waiters st' = as_waiters st \<and>
     as_versions st' = as_versions st \<and> as_counter st \<le> as_counter st'"

lemma same_waits_trans: "same_waits st st' \<Longrightarrow> same_waits st' st'' \<Longrightarrow> same_waits st st''"
  by (auto simp: same_waits_def)

lemma same_version: "as_versions st' = as_versions st \<Longrightarrow> version scope i st' = version scope i st"
  by (simp add: version_def split: scope.split)

lemma waits_ok_same: "waits_ok st \<Longrightarrow> same_waits st st' \<Longrightarrow> waits_ok st'"
  using same_version [of st' st] unfolding waits_ok_def same_waits_def by (fastforce intro: less_le_trans)

lemma same_waits_simps: "same_waits st (cache_secret key v st)" "same_waits st (request_then r v st)" "same_waits st (clearSecretWarmTimer key st)" "same_waits st (commitSecretWarm key st)"
    "same_waits st (warm_then key c k0 s st)" "same_waits st (warm_finally key c st)" "same_waits st (scheduleSecretWarm env key st)" "same_waits st (updateCopyState k v' st)"
    "same_waits st (copy_start env click s st)" "same_waits st (copy_failed click m st)" "same_waits st (copy_done n job ok st)"
  by (simp_all add: same_waits_def cache_secret_def request_then_def clearSecretWarmTimer_def commitSecretWarm_def warm_then_def warm_finally_def scheduleSecretWarm_def
      updateCopyState_def copy_start_def copy_failed_def copy_done_def Let_def)

lemma resume_same: "same_waits st (resume env answer w st)"
  by (cases "(env, answer, w, st)" rule: resume.cases) (auto intro: same_waits_simps same_waits_trans)

lemma resume_all_same: "same_waits st (fold (resume env answer) ws st)"
  proof (induction ws arbitrary: st)
  case (Cons w ws)
  show ?case using same_waits_trans [OF resume_same Cons] by simp
qed (simp add: same_waits_def)

text \<open>Fewer pending requests are no harm.\<close>

lemma waits_ok_delete:
  assumes "waits_ok st" "as_pending st' = js_map_delete key (as_pending st)" "as_requests st' = as_requests st" "as_waiters st' = as_waiters st"
    "as_counter st' = as_counter st" "\<And>scope i. version scope i st \<le> version scope i st'"
  shows "waits_ok st'"
proof -
  have "map_of (as_pending st) k = Some n" if "map_of (as_pending st') k = Some n" for k n using that assms(2) by (simp add: map_of_js_map_delete split: if_splits)
  then show ?thesis using assms(1,3-6) unfolding waits_ok_def by (fastforce intro: order_trans)
qed

lemma resolve_waits:
  assumes "waits_ok st" "resolveSecret scope i signal st = (res, st')"
  shows "waits_ok st' \<and> (\<forall>n. res = Inr n \<longrightarrow> (\<exists>r. map_of (as_requests st') n = Some r \<and> request_key r = (scope, i))) \<and> as_versions st' = as_versions st \<and>
    as_cache st' = as_cache st \<and> as_clipboard st' = as_clipboard st \<and> (\<forall>s. res = Inl s \<longrightarrow> map_of (as_cache st) (scope, i) = Some s)"
proof -
  consider (cached) "nullish (map_of (as_cache st) (scope, i)) [] \<noteq> []" | (pending) p where "nullish (map_of (as_cache st) (scope, i)) [] = []" "map_of (as_pending st) (scope, i) = Some p"
    | (new) "nullish (map_of (as_cache st) (scope, i)) [] = []" "map_of (as_pending st) (scope, i) = None" by fastforce
  then show ?thesis
  proof cases
    case cached
    then show ?thesis using assms by (cases "map_of (as_cache st) (scope, i)") (auto simp: resolveSecret_def Let_def)
  next
    case (pending p)
    then show ?thesis using assms by (auto simp: resolveSecret_def Let_def waits_ok_def)
  next
    case new
    define r where "r = \<lparr>sr_scope = scope, sr_id = i, sr_version = version scope i st, sr_signal = signal\<rparr>"
    have st': "st' = st\<lparr>as_counter := as_counter st + 1, as_requests := (as_counter st, r) # as_requests st, as_pending := js_map_set (scope, i) (as_counter st) (as_pending st)\<rparr>" "res = Inr (as_counter st)"
      using assms(2) new by (auto simp: resolveSecret_def new_request_def Let_def r_def)
    have fresh: "map_of (as_requests st) (as_counter st) = None" using assms(1) by (cases "map_of (as_requests st) (as_counter st)") (auto simp: waits_ok_def)
    have r: "request_key r = (scope, i)" "sr_scope r = scope" "sr_id r = i" "sr_version r = version scope i st" by (simp_all add: r_def request_key_def)
    have vs: "version sc j st' = version sc j st" for sc j by (rule same_version) (simp add: st'(1))
    have "waits_ok st'" unfolding waits_ok_def vs
    proof (intro conjI allI impI ballI, goal_cases)
      case (1 key n)
      show ?case
      proof (cases "key = (scope, i)")
        case False
        then have "map_of (as_pending st) key = Some n" using 1 by (simp add: st'(1))
        then obtain q where "map_of (as_requests st) n = Some q" "request_key q = key" using assms(1) unfolding waits_ok_def by blast
        then show ?thesis using fresh by (auto simp: st'(1))
      qed (use 1 r in \<open>simp add: st'(1)\<close>)
    next
      case (2 x)
      then show ?case using assms(1) fresh by (fastforce simp: st'(1) waits_ok_def)
    qed (use assms(1) r in \<open>auto simp: st'(1) waits_ok_def less_Suc_eq split: if_splits\<close>)
    then show ?thesis using st' r new by auto
  qed
qed

section \<open>Copied secrets were served\<close>

text \<open>What an event tells about secrets: the answer to a request, or the token of a rotation.\<close>

fun served_by :: "secrets_event \<Rightarrow> admin_secrets \<Rightarrow> (warm_key \<times> string) list" where
  "served_by (SEv_answer n (Inr secret)) st = (case map_of (as_requests st) n of Some r \<Rightarrow> [(request_key r, secret)] | None \<Rightarrow> [])"
| "served_by (SEv_rotated i token) st = [((Scope_token, i), token)]"
| "served_by _ st = []"

definition holds :: "secrets_env \<Rightarrow> (warm_key \<times> string) list \<Rightarrow> admin_secrets \<Rightarrow> bool" where
  "holds env S st \<longleftrightarrow> (\<forall>key v. map_of (as_cache st) key = Some v \<longrightarrow> (key, v) \<in> set S) \<and>
     (\<forall>(click, text0, c) \<in> set (as_clipboard st). \<exists>secret. ((cc_scope click, cc_id click), secret) \<in> set S \<and> text0 = copied_text env click secret)"

lemma holds_cong: "as_cache st' = as_cache st \<Longrightarrow> as_clipboard st' = as_clipboard st \<Longrightarrow> holds env S st' = holds env S st"
  by (simp add: holds_def)

lemma holds_more: "holds env S st \<Longrightarrow> holds env (S @ T) st"
  by (fastforce simp: holds_def)

lemma holds_cache: "holds env S st \<Longrightarrow> (key, v) \<in> set S \<Longrightarrow> holds env S (cache_secret key v st)"
  by (auto simp: holds_def cache_secret_def split: if_splits)

lemma holds_copy: "holds env S st \<Longrightarrow> ((cc_scope click, cc_id click), v) \<in> set S \<Longrightarrow> holds env S (copy_start env click v st)"
  by (auto simp: holds_def copy_start_def Let_def)

lemma holds_frame [simp]: "holds env S (clearSecretWarmTimer key st) = holds env S st" "holds env S (commitSecretWarm key st) = holds env S st" "holds env S (warm_finally key c st) = holds env S st"
    "holds env S (scheduleSecretWarm e key st) = holds env S st" "holds env S (updateCopyState k b st) = holds env S st" "holds env S (copy_failed click m st) = holds env S st"
    "holds env S (copy_done n job ok st) = holds env S st" "holds env S (request_finally n r st) = holds env S st" "holds env S (cancelSecretWarm key st) = holds env S st" "holds env S (wait_for n w st) = holds env S st"
  by (rule holds_cong; simp add: clearSecretWarmTimer_def commitSecretWarm_def warm_finally_def scheduleSecretWarm_def updateCopyState_def copy_failed_def copy_done_def request_finally_def
      cancelSecretWarm_def dropSecretWarmRequest_def wait_for_def Let_def split: option.split)+

lemma holds_then: "holds env S st \<Longrightarrow> (request_key r, v) \<in> set S \<Longrightarrow> holds env S (request_then r v st)"
    "holds env S st \<Longrightarrow> (key, v) \<in> set S \<Longrightarrow> holds env S (warm_then key c n v st)"
  by (simp_all add: request_then_def warm_then_def holds_cache request_key_def)

lemma resume_holds: "holds env S st \<Longrightarrow> (\<And>s. answer = Inr s \<Longrightarrow> (waiter_key w, s) \<in> set S) \<Longrightarrow> holds env S (resume env answer w st)"
  by (cases "(env, answer, w, st)" rule: resume.cases) (simp_all add: holds_copy holds_then)

lemma resume_all_holds: "holds env S st \<Longrightarrow> (\<And>w s. w \<in> set ws \<Longrightarrow> answer = Inr s \<Longrightarrow> (waiter_key w, s) \<in> set S) \<Longrightarrow> holds env S (fold (resume env answer) ws st)"
  by (induction ws arbitrary: st) (auto intro: resume_holds)

definition served_inv :: "secrets_env \<Rightarrow> (warm_key \<times> string) list \<times> admin_secrets \<Rightarrow> bool" where
  "served_inv env x \<longleftrightarrow> waits_ok (snd x) \<and> holds env (fst x) (snd x)"

text \<open>The steps that use a secret at once or wait for it.\<close>

lemma warm_inv:
  assumes "waits_ok st" "holds env S st"
  shows "waits_ok (warmSecret env key st) \<and> holds env S (warmSecret env key st)"
proof -
  define st1 where "st1 = clearSecretWarmTimer key st"
  define c where "c = as_counter st1"
  define st2 where "st2 = st1\<lparr>as_counter := c + 1, as_warm := js_map_set key c (as_warm st1)\<rparr>"
  have one: "waits_ok st1" "holds env S st1" using assms waits_ok_same [OF _ same_waits_simps(3)] by (simp_all add: st1_def)
  have two: "waits_ok st2" "holds env S st2" using waits_ok_same [OF one(1), of st2] one(2) holds_cong [of st2 st1] by (simp_all add: st2_def same_waits_def c_def)
  obtain res st3 where r: "resolveSecret (fst key) (snd key) (Some c) st2 = (res, st3)" by (cases "resolveSecret (fst key) (snd key) (Some c) st2")
  note r3 = resolve_waits [OF two(1) r]
  have three: "holds env S st3" using two(2) r3 holds_cong [of st3 st2] by simp
  show ?thesis
  proof (cases "\<not> sv_prewarm env \<or> js_map_has key (as_cache st1) \<or> js_map_has key (as_pending st1)")
    case True
    then show ?thesis using assms one by (auto simp: warmSecret_def st1_def [symmetric] Let_def)
  next
    case False
    then have w: "warmSecret env key st = (case res of Inr n \<Rightarrow> wait_for n (Warm_waits key c (version (fst key) (snd key) st1)) st3
        | Inl s \<Rightarrow> warm_finally key c (warm_then key c (version (fst key) (snd key) st1) s st3))"
      using r [unfolded st2_def] by (simp add: warmSecret_def st1_def [symmetric] c_def [symmetric] Let_def split: sum.split)
    have vs: "version sc j st3 = version sc j st1" for sc j using r3 by (intro same_version) (simp add: st2_def)
    show ?thesis
    proof (cases res)
      case (Inl s)
      then have "(key, s) \<in> set S" using r3 two(2) unfolding holds_def by (metis prod.collapse)
      then show ?thesis using three r3 waits_ok_same [OF _ same_waits_trans [OF same_waits_simps(5,6)]] by (simp add: w Inl holds_then)
    next
      case (Inr n)
      then obtain q where "map_of (as_requests st3) n = Some q" "request_key q = key" using r3 by auto
      then have "waits_ok (wait_for n (Warm_waits key c (version (fst key) (snd key) st1)) st3)"
        using r3 vs same_version [of "wait_for n (Warm_waits key c (version (fst key) (snd key) st1)) st3" st3] by (simp add: waits_ok_def wait_for_def)
      then show ?thesis using three by (simp add: w Inr)
    qed
  qed
qed

lemma click_inv:
  assumes "waits_ok st" "holds env S st"
  shows "waits_ok (handleCopy env click0 st) \<and> holds env S (handleCopy env click0 st)"
proof -
  define key where "key = (cc_scope click0, cc_id click0)"
  define st1 where "st1 = updateCopyState (cc_stateKey click0) (Some Copy_loading) (commitSecretWarm key (st\<lparr>as_bubble := None\<rparr>))"
  define click where "click = click0\<lparr>cc_cached := js_map_has key (as_cache st1)\<rparr>"
  have "same_waits st (st\<lparr>as_bubble := None\<rparr>)" by (simp add: same_waits_def)
  then have "same_waits st st1" unfolding st1_def by (rule same_waits_trans [OF same_waits_trans [OF _ same_waits_simps(4)] same_waits_simps(8)])
  then have one: "waits_ok st1" "holds env S st1" using assms waits_ok_same holds_cong [of "st\<lparr>as_bubble := None\<rparr>" st] by (auto simp: st1_def)
  obtain res st2 where r: "resolveSecret (cc_scope click) (cc_id click) None st1 = (res, st2)" by (cases "resolveSecret (cc_scope click) (cc_id click) None st1")
  note r2 = resolve_waits [OF one(1) r]
  have two: "holds env S st2" using one(2) r2 holds_cong [of st2 st1] by simp
  have h: "handleCopy env click0 st = (case res of Inl s \<Rightarrow> copy_start env click s st2 | Inr n \<Rightarrow> wait_for n (Click_waits click) st2)"
    using r by (simp add: handleCopy_def key_def st1_def click_def Let_def split: sum.split)
  show ?thesis
  proof (cases res)
    case (Inl s)
    then have "((cc_scope click, cc_id click), s) \<in> set S" using r2 one(2) unfolding holds_def by blast
    then show ?thesis using two r2 waits_ok_same [OF _ same_waits_simps(9)] by (simp add: h Inl holds_copy)
  next
    case (Inr n)
    then have "waits_ok (wait_for n (Click_waits click) st2)"
      using r2 same_version [of "wait_for n (Click_waits click) st2" st2] by (simp add: waits_ok_def wait_for_def)
    then show ?thesis using two by (simp add: h Inr)
  qed
qed

lemma request_answered_inv:
  assumes "waits_ok st" "holds env S st" "map_of (as_requests st) n = Some r" "\<And>s. answer = Inr s \<Longrightarrow> (request_key r, s) \<in> set S"
  shows "waits_ok (request_answered env n r answer st) \<and> holds env S (request_answered env n r answer st)"
proof -
  define st1 where "st1 = st\<lparr>as_requests := filter (\<lambda>e. fst e \<noteq> n) (as_requests st)\<rparr>"
  define st2 where "st2 = (case answer of Inr secret \<Rightarrow> request_then r secret st1 | Inl e \<Rightarrow> st1)"
  define st3 where "st3 = request_finally n r st2"
  define ws where "ws = map snd (filter (\<lambda>e. fst e = n) (as_waiters st3))"
  define st4 where "st4 = st3\<lparr>as_waiters := filter (\<lambda>e. fst e \<noteq> n) (as_waiters st3)\<rparr>"
  have same: "as_pending st2 = as_pending st" "as_requests st2 = filter (\<lambda>e. fst e \<noteq> n) (as_requests st)" "as_waiters st2 = as_waiters st" "as_versions st2 = as_versions st" "as_counter st2 = as_counter st"
    by (simp_all add: st2_def st1_def request_then_def cache_secret_def split: sum.split)
  have same3: "as_requests st3 = as_requests st2" "as_waiters st3 = as_waiters st" "as_versions st3 = as_versions st" "as_counter st3 = as_counter st"
    by (simp_all add: st3_def request_finally_def same)
  have pending: "map_of (as_pending st) key = Some m \<and> m \<noteq> n" if "map_of (as_pending st3) key = Some m" for key m
  proof -
    have p: "map_of (as_pending st) key = Some m" using that same(1) by (auto simp: st3_def request_finally_def map_of_js_map_delete split: if_splits)
    then obtain q where q: "map_of (as_requests st) m = Some q" "request_key q = key" using assms(1) unfolding waits_ok_def by blast
    have "m = n \<Longrightarrow> map_of (as_pending st3) key = None"
      using p q assms(3) same(1) by (auto simp: st3_def request_finally_def map_of_js_map_delete request_key_def)
    then show ?thesis using p that by auto
  qed
  have vs: "version sc i st4 = version sc i st" for sc i by (rule same_version) (simp add: st4_def same3)
  have ok4: "waits_ok st4" unfolding waits_ok_def vs
  proof (intro conjI allI impI ballI, goal_cases)
    case (1 key m)
    then have m: "map_of (as_pending st) key = Some m" "m \<noteq> n" using pending [of key m] by (simp_all add: st4_def)
    then obtain q where "map_of (as_requests st) m = Some q" "request_key q = key" using assms(1) unfolding waits_ok_def by blast
    then show ?case using m(2) by (simp add: st4_def same3 same map_of_filter_key)
  next
    case (2 x)
    then show ?case using assms(1) by (fastforce simp: st4_def same3 same map_of_filter_key waits_ok_def)
  qed (use assms(1) in \<open>auto simp: st4_def same3 same map_of_filter_key waits_ok_def split: if_splits\<close>)
  have "holds env S st1" using assms(2) holds_cong [of st1 st] by (simp add: st1_def)
  then have "holds env S st2" using assms(4) by (simp add: st2_def holds_then split: sum.split)
  then have h4: "holds env S st4" using holds_cong [of st4 st3] by (simp add: st4_def st3_def)
  have keys: "waiter_key w = request_key r" if "w \<in> set ws" for w
    using that assms(1,3) by (fastforce simp: ws_def same3 waits_ok_def)
  have h: "holds env S (fold (resume env answer) ws st4)" using h4 by (rule resume_all_holds) (use keys assms(4) in auto)
  have "request_answered env n r answer st = fold (resume env answer) ws st4"
    by (simp add: request_answered_def Let_def st1_def [symmetric] st2_def [symmetric] st3_def [symmetric] ws_def [symmetric] st4_def [symmetric])
  then show ?thesis using h waits_ok_same [OF ok4 resume_all_same] by simp
qed

lemma cancel_waits: "waits_ok st \<Longrightarrow> waits_ok (cancelSecretWarm key st)"
proof -
  assume "waits_ok st"
  then have one: "waits_ok (clearSecretWarmTimer key st)" by (rule waits_ok_same) (rule same_waits_simps(3))
  show ?thesis
  proof (cases "map_of (as_warm (clearSecretWarmTimer key st)) key")
    case (Some c)
    let ?st = "(clearSecretWarmTimer key st)\<lparr>as_aborted := c # as_aborted (clearSecretWarmTimer key st), as_warm := js_map_delete key (as_warm (clearSecretWarmTimer key st))\<rparr>"
    have "waits_ok ?st" by (rule waits_ok_same [OF one]) (simp add: same_waits_def)
    then have "waits_ok (dropSecretWarmRequest key ?st)"
      by (cases "snd key = []") (auto simp: dropSecretWarmRequest_def version_def split: scope.split intro: waits_ok_delete)
    then show ?thesis by (simp add: cancelSecretWarm_def Let_def Some)
  qed (simp add: cancelSecretWarm_def Let_def one)
qed

lemma rotated_waits: "waits_ok st \<Longrightarrow> waits_ok (handleTokenSecretRotated i token st)"
proof -
  assume "waits_ok st"
  then have "waits_ok (st\<lparr>as_versions := js_map_set i (nullish (map_of (as_versions st) i) 0 + 1) (as_versions st), as_pending := js_map_delete (Scope_token, i) (as_pending st)\<rparr>)"
    by (rule waits_ok_delete) (auto simp: version_def split: scope.split)
  then show ?thesis using waits_ok_same [OF _ same_waits_simps(1)] by (simp add: handleTokenSecretRotated_def Let_def)
qed

lemma served_step:
  assumes "waits_ok st" "holds env S st"
  shows "waits_ok (copy_step env ev st) \<and> holds env (S @ served_by ev st) (copy_step env ev st)"
proof (cases ev)
  case (SEv_answer n answer)
  show ?thesis
  proof (cases "map_of (as_requests st) n")
    case (Some r)
    have "\<And>s. answer = Inr s \<Longrightarrow> (request_key r, s) \<in> set (S @ served_by ev st)" using Some by (simp add: SEv_answer)
    from request_answered_inv [OF assms(1) holds_more [OF assms(2)] Some this] show ?thesis by (simp add: SEv_answer Some)
  qed (use assms holds_more in \<open>simp add: SEv_answer\<close>)
next
  case (SEv_rotated i token)
  have "holds env (S @ served_by ev st) (st\<lparr>as_versions := v, as_pending := p\<rparr>)" for v p using holds_more [OF assms(2)] holds_cong [of "st\<lparr>as_versions := v, as_pending := p\<rparr>" st] by simp
  then show ?thesis using rotated_waits [OF assms(1)] by (simp add: SEv_rotated handleTokenSecretRotated_def Let_def holds_cache)
next
  case (SEv_timer key)
  let ?st = "st\<lparr>as_timers := js_map_delete key (as_timers st)\<rparr>"
  have "same_waits st ?st" "holds env S ?st" using assms(2) holds_cong [of ?st st] by (simp_all add: same_waits_def)
  then show ?thesis using assms warm_inv [OF waits_ok_same [OF assms(1)], of ?st env S key] by (simp add: SEv_timer warm_timer_def)
next
  case (SEv_copied n ok)
  then show ?thesis using assms waits_ok_same [OF assms(1) same_waits_simps(11)] by (simp split: option.split)
qed (use assms in \<open>simp_all add: copy_handlers warm_inv click_inv cancel_waits waits_ok_same [OF assms(1) same_waits_simps(7)] waits_ok_same [OF assms(1) same_waits_simps(8)]\<close>)

text \<open>The run together with what was served so far.\<close>

definition served_copy_step :: "secrets_env \<Rightarrow> secrets_event \<Rightarrow> (warm_key \<times> string) list \<times> admin_secrets \<Rightarrow> (warm_key \<times> string) list \<times> admin_secrets" where
  "served_copy_step env ev x = (fst x @ served_by ev (snd x), copy_step env ev (snd x))"

interpretation served: event_invariant "\<lambda>st ev. True" "served_copy_step env" "served_inv env" for env
  by unfold_locales (auto simp: served_inv_def served_copy_step_def dest: served_step)

lemma served_run_state: "snd (fold (served_copy_step env) evs x) = fold (copy_step env) evs (snd x)"
  by (induction evs arbitrary: x) (simp_all add: served_copy_step_def)

lemma served_run_origin:
  "y \<in> set (fst (fold (served_copy_step env) evs x)) \<Longrightarrow>
   y \<in> set (fst x) \<or> (\<exists>before ev after. evs = before @ ev # after \<and> y \<in> set (served_by ev (fold (copy_step env) before (snd x))))"
proof (induction evs rule: rev_induct)
  case (snoc ev evs)
  have "fst (fold (served_copy_step env) (evs @ [ev]) x) = fst (fold (served_copy_step env) evs x) @ served_by ev (fold (copy_step env) evs (snd x))"
    by (simp add: served_copy_step_def [of env ev] served_run_state)
  with snoc.prems consider "y \<in> set (fst (fold (served_copy_step env) evs x))" | "y \<in> set (served_by ev (fold (copy_step env) evs (snd x)))" by auto
  then show ?case
  proof cases
    case 1
    then show ?thesis using snoc.IH by (metis append.assoc append_Cons)
  next
    case 2
    then show ?thesis by blast
  qed
qed simp

lemma served_enabled: "enabled_run (\<lambda>st ev. True) (served_copy_step env) x evs"
  by (induction evs arbitrary: x) simp_all

lemma served_reached: "served_inv env (fold (served_copy_step env) evs ([], blank_secrets))"
  by (rule served.run_inv [OF _ served_enabled]) (simp add: served_inv_def waits_ok_def holds_def blank_secrets_def)

text \<open>C10: Whatever the order of hovering, clicks, timers, answers, cancelled requests and rotations, every text that goes to
  the clipboard is a secret, or the link that shares it, which the server returned earlier for the very key or token the
  button belongs to, by answering a request for it or by rotating it.\<close>

theorem copied_secret_served:
  assumes "(click, text0, c) \<in> set (as_clipboard (fold (copy_step env) evs blank_secrets))"
  shows "\<exists>before ev after secret. evs = before @ ev # after \<and> ((cc_scope click, cc_id click), secret) \<in> set (served_by ev (fold (copy_step env) before blank_secrets)) \<and>
    text0 = copied_text env click secret"
proof -
  let ?x = "fold (served_copy_step env) evs ([], blank_secrets)"
  have "served_inv env ?x" by (rule served_reached)
  then have "holds env (fst ?x) (fold (copy_step env) evs blank_secrets)" by (simp add: served_inv_def served_run_state)
  then obtain secret where secret: "((cc_scope click, cc_id click), secret) \<in> set (fst ?x)" "text0 = copied_text env click secret" using assms unfolding holds_def by fastforce
  from served_run_origin [OF secret(1)] secret(2) show ?thesis by auto
qed

section \<open>A rotated token stays\<close>

definition rotated_inv :: "string \<Rightarrow> string \<Rightarrow> admin_secrets \<Rightarrow> bool" where
  "rotated_inv i token st \<longleftrightarrow> waits_ok st \<and> map_of (as_cache st) (Scope_token, i) = Some token \<and>
     (\<forall>n r. map_of (as_requests st) n = Some r \<longrightarrow> request_key r = (Scope_token, i) \<longrightarrow> sr_version r < version Scope_token i st) \<and>
     (\<forall>n controller v. (n, Warm_waits (Scope_token, i) controller v) \<in> set (as_waiters st) \<longrightarrow> v < version Scope_token i st)"

text \<open>A step that keeps the versions, the secret, and the requests and warm-ups for it.\<close>

definition keeps_rotated :: "string \<Rightarrow> admin_secrets \<Rightarrow> admin_secrets \<Rightarrow> bool" where
  "keeps_rotated i st st' \<longleftrightarrow> as_versions st' = as_versions st \<and> map_of (as_cache st') (Scope_token, i) = map_of (as_cache st) (Scope_token, i) \<and>
     (\<forall>n r. map_of (as_requests st') n = Some r \<longrightarrow> request_key r = (Scope_token, i) \<longrightarrow> map_of (as_requests st) n = Some r) \<and>
     (\<forall>n controller v. (n, Warm_waits (Scope_token, i) controller v) \<in> set (as_waiters st') \<longrightarrow> (n, Warm_waits (Scope_token, i) controller v) \<in> set (as_waiters st))"

lemma keeps_inv: "rotated_inv i token st \<Longrightarrow> keeps_rotated i st st' \<Longrightarrow> waits_ok st' \<Longrightarrow> rotated_inv i token st'"
  using same_version [of st' st Scope_token i] unfolding rotated_inv_def keeps_rotated_def by metis

lemma keeps_trans: "keeps_rotated i st st' \<Longrightarrow> keeps_rotated i st' st'' \<Longrightarrow> keeps_rotated i st st''"
  unfolding keeps_rotated_def by metis

lemma keeps_same: "same_waits st st' \<Longrightarrow> map_of (as_cache st') (Scope_token, i) = map_of (as_cache st) (Scope_token, i) \<Longrightarrow> keeps_rotated i st st'"
  by (simp add: same_waits_def keeps_rotated_def)


lemma keeps_refl [simp]: "keeps_rotated i st st"
  by (simp add: keeps_rotated_def)

lemma keeps_cache: "key \<noteq> (Scope_token, i) \<Longrightarrow> keeps_rotated i st (cache_secret key v st)"
  by (rule keeps_same) (simp_all add: same_waits_simps, simp add: cache_secret_def)

lemma keeps_wait: "(\<And>c v. w \<noteq> Warm_waits (Scope_token, i) c v) \<Longrightarrow> keeps_rotated i st (wait_for n w st)"
  by (auto simp: keeps_rotated_def wait_for_def)

lemma keeps_frame: "keeps_rotated i st (clearSecretWarmTimer key st)" "keeps_rotated i st (commitSecretWarm key st)" "keeps_rotated i st (warm_finally key c st)"
    "keeps_rotated i st (scheduleSecretWarm env key st)" "keeps_rotated i st (updateCopyState k b st)" "keeps_rotated i st (copy_failed click m st)"
    "keeps_rotated i st (copy_done n job ok st)" "keeps_rotated i st (copy_start env click s st)" "keeps_rotated i st (request_finally n r st)" "keeps_rotated i st (cancelSecretWarm key st)"
  by (simp_all add: keeps_rotated_def clearSecretWarmTimer_def commitSecretWarm_def warm_finally_def scheduleSecretWarm_def updateCopyState_def copy_failed_def copy_done_def copy_start_def
      request_finally_def cancelSecretWarm_def dropSecretWarmRequest_def Let_def split: option.split)

lemma keeps_resolve:
  assumes "resolveSecret scope j signal st = (res, st')" "(scope, j) \<noteq> (Scope_token, i)"
  shows "keeps_rotated i st st'"
  using assms by (auto simp: resolveSecret_def new_request_def Let_def keeps_rotated_def request_key_def split: if_splits option.splits)

lemma keeps_warm:
  assumes "map_of (as_cache st) (Scope_token, i) = Some token"
  shows "keeps_rotated i st (warmSecret env key st)"
proof -
  define st1 where "st1 = clearSecretWarmTimer key st"
  define c where "c = as_counter st1"
  define st2 where "st2 = st1\<lparr>as_counter := c + 1, as_warm := js_map_set key c (as_warm st1)\<rparr>"
  have one: "keeps_rotated i st st1" by (simp add: st1_def keeps_frame)
  have two: "keeps_rotated i st1 st2" by (simp add: keeps_rotated_def st2_def)
  obtain res st3 where r: "resolveSecret (fst key) (snd key) (Some c) st2 = (res, st3)" by (cases "resolveSecret (fst key) (snd key) (Some c) st2")
  show ?thesis
  proof (cases "\<not> sv_prewarm env \<or> js_map_has key (as_cache st1) \<or> js_map_has key (as_pending st1)")
    case True
    then show ?thesis using one by (auto simp: warmSecret_def st1_def [symmetric] Let_def)
  next
    case False
    then have other: "key \<noteq> (Scope_token, i)" using assms by (auto simp: js_map_has_def st1_def clearSecretWarmTimer_def)
    then have three: "keeps_rotated i st2 st3" using keeps_resolve [OF r] by (cases key) simp
    have w: "warmSecret env key st = (case res of Inr n \<Rightarrow> wait_for n (Warm_waits key c (version (fst key) (snd key) st1)) st3
        | Inl s \<Rightarrow> warm_finally key c (warm_then key c (version (fst key) (snd key) st1) s st3))"
      using False r [unfolded st2_def] by (simp add: warmSecret_def st1_def [symmetric] c_def [symmetric] Let_def split: sum.split)
    have "keeps_rotated i st3 (warm_then key c v s st3)" for v s by (simp add: warm_then_def keeps_cache [OF other])
    then have "keeps_rotated i st3 (warmSecret env key st)"
      using other unfolding w by (auto split: sum.split intro: keeps_wait keeps_trans [OF _ keeps_frame(3)])
    then show ?thesis using one two three keeps_trans by blast
  qed
qed

lemma keeps_click:
  assumes "map_of (as_cache st) (Scope_token, i) = Some token" "token \<noteq> []"
  shows "keeps_rotated i st (handleCopy env click0 st)"
proof -
  let ?key = "(cc_scope click0, cc_id click0)"
  define st1 where "st1 = updateCopyState (cc_stateKey click0) (Some Copy_loading) (commitSecretWarm ?key (st\<lparr>as_bubble := None\<rparr>))"
  define click where "click = click0\<lparr>cc_cached := js_map_has ?key (as_cache st1)\<rparr>"
  have one: "keeps_rotated i st st1" by (simp add: st1_def keeps_rotated_def updateCopyState_def commitSecretWarm_def clearSecretWarmTimer_def Let_def)
  obtain res st2 where r: "resolveSecret (cc_scope click) (cc_id click) None st1 = (res, st2)" by (cases "resolveSecret (cc_scope click) (cc_id click) None st1")
  have two: "keeps_rotated i st1 st2"
  proof (cases "?key = (Scope_token, i)")
    case True
    moreover have "map_of (as_cache st1) (Scope_token, i) = Some token" using one assms(1) by (simp add: keeps_rotated_def)
    ultimately show ?thesis using r assms(2) by (auto simp: resolveSecret_def click_def)
  qed (rule keeps_resolve [OF r], simp add: click_def)
  have "handleCopy env click0 st = (case res of Inl s \<Rightarrow> copy_start env click s st2 | Inr n \<Rightarrow> wait_for n (Click_waits click) st2)"
    using r by (simp add: handleCopy_def Let_def st1_def click_def split: sum.split)
  then have "keeps_rotated i st2 (handleCopy env click0 st)" by (auto split: sum.split intro: keeps_wait keeps_frame)
  then show ?thesis using one two keeps_trans by blast
qed

lemma keeps_resume:
  assumes "\<And>c v. w = Warm_waits (Scope_token, i) c v \<Longrightarrow> v < version Scope_token i st"
  shows "keeps_rotated i st (resume env answer w st)"
proof (cases "(env, answer, w, st)" rule: resume.cases)
  case (3 e s key c v st')
  have "keeps_rotated i st (warm_then key c v s st)"
    using assms [of c v] 3 by (cases "key = (Scope_token, i)") (auto simp: warm_then_def keeps_cache)
  then show ?thesis using 3 keeps_trans keeps_frame(3) by auto
qed (simp_all add: keeps_frame)

lemma keeps_resume_all:
  assumes "\<And>c v. Warm_waits (Scope_token, i) c v \<in> set ws \<Longrightarrow> v < version Scope_token i st"
  shows "keeps_rotated i st (fold (resume env answer) ws st)"
  using assms
proof (induction ws arbitrary: st)
  case (Cons w ws)
  have k: "keeps_rotated i st (resume env answer w st)" by (rule keeps_resume) (use Cons.prems in auto)
  then have "version Scope_token i (resume env answer w st) = version Scope_token i st" by (intro same_version) (simp add: keeps_rotated_def)
  then have "keeps_rotated i (resume env answer w st) (fold (resume env answer) ws (resume env answer w st))" by (intro Cons.IH) (use Cons.prems in auto)
  then show ?case using keeps_trans [OF k] by simp
qed simp

lemma keeps_answered:
  assumes "rotated_inv i token st" "map_of (as_requests st) n = Some r"
  shows "keeps_rotated i st (request_answered env n r answer st)"
proof -
  define st1 where "st1 = st\<lparr>as_requests := filter (\<lambda>e. fst e \<noteq> n) (as_requests st)\<rparr>"
  define st2 where "st2 = (case answer of Inr secret \<Rightarrow> request_then r secret st1 | Inl e \<Rightarrow> st1)"
  define st3 where "st3 = request_finally n r st2"
  define ws where "ws = map snd (filter (\<lambda>e. fst e = n) (as_waiters st3))"
  define st4 where "st4 = st3\<lparr>as_waiters := filter (\<lambda>e. fst e \<noteq> n) (as_waiters st3)\<rparr>"
  have one: "keeps_rotated i st st1" by (simp add: st1_def keeps_rotated_def map_of_filter_key split: if_splits)
  have v1: "version sc j st1 = version sc j st" for sc j by (rule same_version) (simp add: st1_def)
  have "keeps_rotated i st1 (request_then r s st1)" for s
  proof (cases "request_key r = (Scope_token, i)")
    case True
    then have "sr_version r < version Scope_token i st" using assms unfolding rotated_inv_def by blast
    then show ?thesis using True by (simp add: request_then_def v1 request_key_def)
  qed (simp add: request_then_def keeps_cache request_key_def)
  then have two: "keeps_rotated i st1 st2" by (simp add: st2_def split: sum.split)
  have three: "keeps_rotated i st2 st3" by (simp add: st3_def keeps_frame)
  have four: "keeps_rotated i st3 st4" by (simp add: st4_def keeps_rotated_def)
  have to3: "keeps_rotated i st st3" using one two three keeps_trans by blast
  then have to4: "keeps_rotated i st st4" using four keeps_trans by blast
  have "v < version Scope_token i st4" if "Warm_waits (Scope_token, i) c v \<in> set ws" for c v
  proof -
    have "(n, Warm_waits (Scope_token, i) c v) \<in> set (as_waiters st3)" using that by (auto simp: ws_def)
    then have "(n, Warm_waits (Scope_token, i) c v) \<in> set (as_waiters st)" using to3 unfolding keeps_rotated_def by blast
    then have "v < version Scope_token i st" using assms(1) unfolding rotated_inv_def by blast
    then show ?thesis using to4 same_version [of st4 st] by (simp add: keeps_rotated_def)
  qed
  then have "keeps_rotated i st4 (fold (resume env answer) ws st4)" by (rule keeps_resume_all)
  moreover have "request_answered env n r answer st = fold (resume env answer) ws st4"
    by (simp add: request_answered_def Let_def st1_def [symmetric] st2_def [symmetric] st3_def [symmetric] ws_def [symmetric] st4_def [symmetric])
  ultimately show ?thesis using to4 keeps_trans by simp
qed


lemma keeps_timer: "map_of (as_cache st) (Scope_token, i) = Some token \<Longrightarrow> keeps_rotated i st (warm_timer env key st)"
  using keeps_warm [of "st\<lparr>as_timers := js_map_delete key (as_timers st)\<rparr>" i token env key] by (simp add: warm_timer_def keeps_rotated_def)

lemma step_keeps_rotated:
  assumes "rotated_inv i token st" "token \<noteq> []" "\<And>j t. ev \<noteq> SEv_rotated j t"
  shows "keeps_rotated i st (copy_step env ev st)"
proof -
  have c: "map_of (as_cache st) (Scope_token, i) = Some token" using assms(1) by (simp add: rotated_inv_def)
  show ?thesis
    by (cases ev) (simp_all add: copy_handlers assms(3) keeps_frame keeps_warm [OF c] keeps_timer [OF c] keeps_click [OF c assms(2)] keeps_answered [OF assms(1)] split: option.split)
qed

text \<open>The rotation establishes the invariant, the rotation of another token does not touch it.\<close>

lemma rotation_starts:
  assumes "waits_ok st"
  shows "rotated_inv i token (handleTokenSecretRotated i token st)"
proof -
  let ?st = "handleTokenSecretRotated i token st"
  have v: "version Scope_token i st < version Scope_token i ?st" by (simp add: version_def handleTokenSecretRotated_def cache_secret_def Let_def)
  have same: "as_requests ?st = as_requests st" "as_waiters ?st = as_waiters st" "map_of (as_cache ?st) (Scope_token, i) = Some token"
    by (simp_all add: handleTokenSecretRotated_def cache_secret_def Let_def)
  have "sr_version r < version Scope_token i ?st" if "map_of (as_requests st) n = Some r" "request_key r = (Scope_token, i)" for n r
  proof -
    have "sr_version r \<le> version (sr_scope r) (sr_id r) st" using assms that(1) unfolding waits_ok_def by blast
    then show ?thesis using that(2) v by (simp add: request_key_def)
  qed
  moreover have "k < version Scope_token i ?st" if "(n, Warm_waits (Scope_token, i) c k) \<in> set (as_waiters st)" for n c k
    using assms that v by (fastforce simp: waits_ok_def)
  ultimately show ?thesis using rotated_waits [OF assms] same by (simp add: rotated_inv_def)
qed

lemma rotation_of_other: "rotated_inv i token st \<Longrightarrow> j \<noteq> i \<Longrightarrow> rotated_inv i token (handleTokenSecretRotated j t st)"
  using rotated_waits [of st j t] by (simp add: rotated_inv_def handleTokenSecretRotated_def cache_secret_def Let_def version_def)

definition rotates :: "string \<Rightarrow> secrets_event \<Rightarrow> bool" where
  "rotates i ev \<longleftrightarrow> (case ev of SEv_rotated j t \<Rightarrow> j = i | _ \<Rightarrow> False)"

lemma rotated_step:
  assumes "rotated_inv i token st" "holds env S st" "token \<noteq> []" "\<not> rotates i ev"
  shows "rotated_inv i token (copy_step env ev st)"
proof (cases "\<exists>j t. ev = SEv_rotated j t")
  case True
  then show ?thesis using assms rotation_of_other by (auto simp: rotates_def)
next
  case False
  have "waits_ok st" using assms(1) by (simp add: rotated_inv_def)
  then show ?thesis using served_step [OF _ assms(2), of ev] step_keeps_rotated [OF assms(1,3), of ev env] keeps_inv [OF assms(1)] False by blast
qed

interpretation rotated: event_invariant "\<lambda>x ev. token \<noteq> [] \<and> \<not> rotates i ev" "served_copy_step env" "\<lambda>x. served_inv env x \<and> rotated_inv i token (snd x)" for env i token
proof
  fix x ev
  assume inv: "served_inv env x \<and> rotated_inv i token (snd x)" and on: "token \<noteq> [] \<and> \<not> rotates i ev"
  have "rotated_inv i token (copy_step env ev (snd x))" using rotated_step inv on unfolding served_inv_def by blast
  then show "served_inv env (served_copy_step env ev x) \<and> rotated_inv i token (snd (served_copy_step env ev x))"
    using served.step_inv inv by (simp add: served_copy_step_def)
qed


lemma rotated_reached:
  assumes "token \<noteq> []" "\<forall>ev \<in> set after. \<not> rotates i ev"
  shows "rotated_inv i token (fold (copy_step env) (before @ SEv_rotated i token # after) blank_secrets)"
proof -
  let ?x = "served_copy_step env (SEv_rotated i token) (fold (served_copy_step env) before ([], blank_secrets))"
  have "served_inv env ?x" using served_reached [of env "before @ [SEv_rotated i token]"] by simp
  moreover have "rotated_inv i token (snd ?x)"
    using served_reached [of env before] rotation_starts by (simp add: served_copy_step_def [of env "SEv_rotated i token"] served_inv_def)
  moreover have "enabled_run (\<lambda>x ev. token \<noteq> [] \<and> \<not> rotates i ev) (served_copy_step env) y after" for y
    using assms by (induction after arbitrary: y) simp_all
  ultimately have "rotated_inv i token (snd (fold (served_copy_step env) after ?x))" using rotated.run_inv by blast
  then show ?thesis by (simp add: served_run_state) (simp add: served_copy_step_def served_run_state)
qed

text \<open>C9: Once a token was rotated, no answer to a request that was under way, no warm-up and no cancellation brings the
  old secret back: as long as it is not rotated again, the new secret stays cached, and a click on one of its buttons
  copies it, or the link that shares it, at once and without a request.\<close>

theorem rotated_token_kept:
  assumes "token \<noteq> []" "\<forall>ev \<in> set after. \<not> rotates i ev"
    and st: "st = fold (copy_step env) (before @ SEv_rotated i token # after) blank_secrets"
    and "copy = copy_step env (SEv_copy_token i stateKey anchor) st" "share = copy_step env (SEv_share_token i stateKey anchor) st"
  shows "map_of (as_cache st) (Scope_token, i) = Some token \<and>
    (\<exists>click. as_clipboard copy = as_clipboard st @ [(click, token, True)]) \<and>
    (\<exists>click. as_clipboard share = as_clipboard st @ [(click, sv_origin env @ ''/#'' @ encodeURIComponent token, True)]) \<and>
    as_requests copy = as_requests st \<and> as_requests share = as_requests st"
proof -
  have cached: "map_of (as_cache st) (Scope_token, i) = Some token"
    using rotated_reached [OF assms(1,2)] unfolding st rotated_inv_def by blast
  then show ?thesis
    using assms(1) unfolding assms(4,5)
    by (simp add: copy_handlers handleCopy_def click_of_def resolveSecret_def copy_start_def copied_text_def updateCopyState_def commitSecretWarm_def clearSecretWarmTimer_def js_map_has_def Let_def)
qed

section \<open>Examples\<close>

text \<open>A warm-up of token \<open>t\<close> is under way when the token is rotated; its answer, the old secret, comes afterwards.\<close>

definition demo_env :: secrets_env where
  "demo_env = \<lparr>sv_prewarm = True, sv_origin = ''https://h''\<rparr>"

definition demo_before :: "secrets_event list" where
  "demo_before = [SEv_enter (Scope_token, ''t''), SEv_timer (Scope_token, ''t'')]"

definition demo_after :: "secrets_event list" where
  "demo_after = [SEv_answer 2 (Inr ''old''), SEv_leave (Scope_token, ''t'')]"

definition demo_copies :: "secrets_event list" where
  "demo_copies = [SEv_press (Scope_token, ''t''), SEv_share_token ''t'' ''tokens:t'' True, SEv_answer 1 (Inr ''a b'')]"

theorem copied_secret_served_witness:
  "\<exists>before ev after secret. demo_copies = before @ ev # after \<and> ((Scope_token, ''t''), secret) \<in> set (served_by ev (fold (copy_step demo_env) before blank_secrets)) \<and>
    ''https://h/#a%20b'' = copied_text demo_env (click_of Scope_token Copy_share ''t'' ''tokens:t'' True) secret"
proof -
  have "(click_of Scope_token Copy_share ''t'' ''tokens:t'' True, ''https://h/#a%20b'', False) \<in> set (as_clipboard (fold (copy_step demo_env) demo_copies blank_secrets))" by code_simp
  from copied_secret_served [OF this] show ?thesis by (simp add: click_of_def)
qed

theorem rotated_token_kept_witness:
  "as_requests (fold (copy_step demo_env) demo_before blank_secrets) \<noteq> [] \<and>
   map_of (as_cache (fold (copy_step demo_env) (demo_before @ SEv_rotated ''t'' ''new'' # demo_after) blank_secrets)) (Scope_token, ''t'') = Some ''new''"
proof -
  have "as_requests (fold (copy_step demo_env) demo_before blank_secrets) \<noteq> []" by code_simp
  moreover have "''new'' \<noteq> ([] :: string)" "\<forall>ev \<in> set demo_after. \<not> rotates ''t'' ev" by (simp_all add: demo_after_def rotates_def)
  from rotated_token_kept [OF this refl refl refl, THEN conjunct1] have
    "map_of (as_cache (fold (copy_step demo_env) (demo_before @ SEv_rotated ''t'' ''new'' # demo_after) blank_secrets)) (Scope_token, ''t'') = Some ''new''" .
  ultimately show ?thesis by blast
qed

end
