(* ===== verification/Spec2Isabelle.thy ===== *)
theory Spec2Isabelle
  imports Admin_Navigation_Sync Request_Kinds Api_Client User_Console_Routes Probe_Correct Token_Secrets_Expiry Key_Import_Runs User_Admin_Safe
    Proxy_Dialog_Safe Proxy_Nodes Admin_Secrets_Safe
begin

text \<open>
  A verification library of the web consoles of tavily-hikari (\<open>web/src\<close>), written beside the TypeScript sources
  and following their names.

  \<^bold>\<open>The program.\<close>  tavily-hikari is a proxy in front of the Tavily API with two consoles in the browser.  The user
  console (\<open>UserConsole.tsx\<close>) shows a user its tokens, reveals and copies their secrets and probes the MCP and HTTP
  endpoints step by step.  The admin console (\<open>AdminDashboard.tsx\<close> with \<open>admin/\<close> and \<open>components/\<close>) is a set of
  pages on paths below \<open>/admin\<close>: lists with filters kept in the query of the location, the detail of a user with its
  limits and tags, the import of pasted API keys, and the settings of the forward proxies with long operations whose
  progress is streamed.  Both talk to the server through the functions of \<open>api.ts\<close> only; everything they know of it
  are the answers of \<open>fetch\<close>.

  \<^bold>\<open>Language.\<close>  \<open>JS_Prelude\<close>, \<open>JS_Collections\<close> and \<open>JS_Number\<close> model what the sources use of the language: a string is
  the list of its UTF-8 bytes, \<open>null\<close> and \<open>undefined\<close> are \<open>None\<close>, a \<open>Set\<close> and a \<open>Map\<close> are lists in insertion order
  (locale \<open>ordered_map\<close>), \<open>sort\<close> is stable and takes a consistent comparator (locales \<open>comparator\<close> and
  \<open>keyed_comparator\<close>), numbers are exact rationals with infinities and NaN, rounded to doubles where a text of them
  is made, and \<open>toLowerCase\<close> is exact on ASCII.  \<open>URI_Codec\<close> (locale \<open>segment_codec\<close>), \<open>URL_Search_Params\<close> and \<open>Json\<close>
  give the codecs of URLs and of JSON with their round trips; the JSON parser is a recursive descent whose fuel is twice the
  length of the text, which its lemmas show to be enough.  A call that may throw returns \<open>js_error + 'a\<close>; an
  asynchronous function is a function on a world that returns such a result, and \<open>fetch\<close>, the clock and the random
  source are fields of the environment \<open>Env\<close> of \<open>Http\<close>.  Interleavings are event systems (\<open>Event_System\<close>): a record is
  the state of a component, an event is a click, an input, a timer or an answer, a function handles one event with what
  the handler captured at its render, and every event is followed by a render.  The locales \<open>event_invariant\<close> and
  \<open>event_log\<close> carry an invariant or the justification of each request from single events to all runs.

  \<^bold>\<open>API client.\<close>  \<open>Api_Types\<close> has the interfaces of \<open>api.ts\<close> as records, \<open>Http\<close> the requests and errors, \<open>Progress_Stream\<close> the
  request helpers and the reader of streamed progress, \<open>Api_Client\<close> every endpoint.  Shown: what a request turns into
  for every answer; that each changing endpoint targets the identifier it is given, however it is written; that the
  reader delivers exactly the events of the stream for every way of cutting it into pieces; and two flaws, a
  stream with mixed line ends and an error whose text is lost.

  \<^bold>\<open>Probes of the user console.\<close>  \<open>Sse_Text\<close> and \<open>Mcp_Probe\<close> (\<open>lib/mcpProbe.ts\<close>) read the payload of a probe,
  \<open>Probe_Identity\<close>, \<open>Probe_Steps\<close> and \<open>Probe_Run\<close> are the runs of \<open>UserConsole.tsx\<close>: \<open>runMcpProbe\<close> and \<open>runApiProbe\<close>
  with their steps as constructors of a datatype.  \<open>Probe_Frame\<close> says what the requests of a run can change and
  \<open>Probe_Correct\<close> that a run which is not disturbed ends with every step settled, that a stale run never touches the
  view, and that no tool is called for an exhausted token.  Arguments are made for schemas to the depth of five the
  code uses, and they have the type of the schema.

  \<^bold>\<open>Token secrets.\<close>  \<open>Token_Secrets\<close> (\<open>UserConsole.tsx\<close>, \<open>TokenSecretField.tsx\<close>) is an event system of revealing, caching,
  prewarming, sharing and copying.  \<open>Token_Secrets_Safe\<close> shows that a secret is only ever shown, kept or copied for the
  token it was served for; \<open>Token_Secrets_Expiry\<close> that every cached secret has a running timer that removes it.
  \<open>Admin_Secrets\<close> (\<open>AdminDashboard.tsx\<close>) is the copying of the secrets of keys and tokens by the administrator, with the
  requests started ahead of a click and the rotation of a token; \<open>Admin_Secrets_Safe\<close> shows that what is copied was
  served for the key or token of the button, and that after a rotation the old secret never comes back into the cache.

  \<^bold>\<open>Routes and navigation.\<close>  \<open>Admin_Routes\<close> (\<open>admin/routes.ts\<close>) parses and builds the paths and the query contexts,
  \<open>User_Console_Routes\<close> the hash routes.  \<open>Admin_Navigation\<close> is the navigation of \<open>AdminDashboard.tsx\<close>: every handler
  that navigates, the timers of the inputs and the back button; \<open>Admin_Navigation_Sync\<close> shows that a reload shows the
  same list, and the two cases in which it does not.

  \<^bold>\<open>Logs.\<close>  \<open>Log_Operational_Class\<close> (\<open>lib/logOperationalClass.ts\<close>) and \<open>Request_Kinds\<close> (\<open>tokenLogRequestKinds.ts\<close>): classes,
  catalogue, selections and quick filters; \<open>localeCompare\<close> is a parameter.

  \<^bold>\<open>Import of keys.\<close>  \<open>Api_Key_Extract\<close> (\<open>lib/api-key-extract.ts\<close>) finds keys and public addresses in a text.
  \<open>Key_Import\<close> is the dialog of \<open>AdminDashboard.tsx\<close> and \<open>ApiKeysValidationDialog.tsx\<close> that validates in chunks of
  25 and imports in chunks of 1000.  \<open>Key_Import_Safe\<close>: only keys the server answered to be usable are imported.
  \<open>Key_Import_Runs\<close>: every validation ends, and what an import reports.

  \<^bold>\<open>Users.\<close>  \<open>Quota_Slider\<close> (\<open>admin/quotaSlider.ts\<close>) has the stages of the sliders.  \<open>User_Admin\<close> is the detail of a user,
  the catalogue and editor of tags, the bindings and the registration switch; \<open>User_Admin_Safe\<close> shows that every request
  is the one of its button, whose detail the page shows, and what a late refresh does on the page of another user.

  \<^bold>\<open>Forward proxies.\<close>  \<open>Forward_Proxy_Progress\<close> (\<open>admin/forwardProxyDialogProgress.ts\<close>) updates the steps of a dialog,
  \<open>Proxy_Validation\<close> merges the streams of several candidates (\<open>validateForwardProxyCandidates\<close>), \<open>Proxy_Dialog\<close> is the
  page (\<open>ForwardProxySettingsModule.tsx\<close>, \<open>ForwardProxyEgressControl.tsx\<close>, \<open>saveForwardProxySettings\<close> and
  \<open>revalidateForwardProxy\<close>), whose running validations are runs of \<open>Proxy_Validation\<close> and whose progress is that of
  \<open>Forward_Proxy_Progress\<close>.  \<open>Proxy_Dialog_Safe\<close>: every save sends the settings shown with one change, results belong to
  the input unless it is edited meanwhile, and three orders of events after which the page misleads or is stuck.
  \<open>Proxy_Nodes\<close> merges and orders the table of nodes and lays out its charts.

  \<^bold>\<open>Bounds.\<close>  Loops are recursions on lists or have a measure; the loops that wait for answers are event systems, and that
  they end is a theorem about the events still to come.  Counts and identifiers are unbounded integers where the code
  keeps them below \<open>2^53\<close>; texts of numbers are made for doubles.

  \<^bold>\<open>Not modelled.\<close>  The Rust backend; the rendering of the pages, the texts of \<open>i18n.tsx\<close> and the formatting of dates and
  numbers by \<open>Intl\<close>; \<open>EventSource\<close>, \<open>localStorage\<close>, the clipboard and the layout of the DOM, which are browser
  interfaces the sources only call; the loading of the lists and of the dashboard of the admin console and the dialogs
  of single tokens and keys, which send one request and reload; the pages \<open>TokenDetail.tsx\<close>, \<open>PublicHome.tsx\<close> and the
  login; stories, fixtures and tests.  Unmounting a page is not an event: a component is followed from its mount on.
\<close>

end
